(* ===== verification/Prelude.thy ===== *)
theory Prelude
  imports Main "HOL-Library.Multiset" "HOL-Library.Sublist"
begin

text \<open>
  Vocabulary shared by every component.  A Go function that may panic returns a value of type
  \<open>go\<close>: \<open>Ret\<close> of its results or \<open>Panic\<close> of the panic message.  A Go function that
  returns an \<open>error\<close> returns an option (nil is \<open>None\<close>) or a sum with the error on the left.
  Go strings are lists of characters; the case functions of package strings are modelled on ASCII.
  The last section holds the slice idiom "swap with the last element and shrink", which the
  persistence code uses three times.
\<close>

named_theorems frame_simps \<open>fields an operation leaves unchanged\<close>
named_theorems inv_intros \<open>invariant preservation, one rule per operation\<close>

section \<open>Outcomes of Go functions\<close>

datatype 'a go = Ret 'a | Panic string

fun go_bind :: "'a go \<Rightarrow> ('a \<Rightarrow> 'b go) \<Rightarrow> 'b go" where
  "go_bind (Ret a) f = f a"
| "go_bind (Panic m) f = Panic m"

fun returns :: "'a go \<Rightarrow> bool" where
  "returns (Ret a) = True"
| "returns (Panic m) = False"

lemma go_bind_Ret [simp]: "go_bind m Ret = m"
  by (cases m) simp_all

lemma go_bind_assoc: "go_bind (go_bind m f) g = go_bind m (\<lambda>a. go_bind (f a) g)"
  by (cases m) simp_all

lemma go_bind_eq_Ret_iff:
  "go_bind m f = Ret b \<longleftrightarrow> (\<exists>a. m = Ret a \<and> f a = Ret b)"
  by (cases m) simp_all

lemma go_bind_eq_Panic_iff:
  "go_bind m f = Panic e \<longleftrightarrow> m = Panic e \<or> (\<exists>a. m = Ret a \<and> f a = Panic e)"
  by (cases m) simp_all

lemma returns_iff: "returns m \<longleftrightarrow> (\<exists>a. m = Ret a)"
  by (cases m) simp_all

lemma returns_bind [simp]:
  "returns (go_bind m f) \<longleftrightarrow> (\<exists>a. m = Ret a \<and> returns (f a))"
  by (cases m) simp_all

text \<open>A loop over a slice whose body may panic.\<close>

fun go_fold :: "('a \<Rightarrow> 's \<Rightarrow> 's go) \<Rightarrow> 'a list \<Rightarrow> 's \<Rightarrow> 's go" where
  "go_fold f [] s = Ret s"
| "go_fold f (x # xs) s = go_bind (f x s) (go_fold f xs)"

lemma go_fold_invariant:
  assumes "go_fold f xs s = Ret t" and "I s"
    and "\<And>x u v. x \<in> set xs \<Longrightarrow> I u \<Longrightarrow> f x u = Ret v \<Longrightarrow> I v"
  shows "I t"
  using assms
proof (induction xs arbitrary: s)
  case Nil
  then show ?case by simp
next
  case (Cons x xs)
  from Cons.prems(1) obtain u where u: "f x s = Ret u" "go_fold f xs u = Ret t"
    by (auto simp: go_bind_eq_Ret_iff)
  have "I u" by (rule Cons.prems(3) [OF _ Cons.prems(2) u(1)]) simp
  with u(2) show ?case using Cons.prems(3) by (intro Cons.IH [of u]) auto
qed

lemma go_fold_returns:
  assumes "I s"
    and "\<And>x u. x \<in> set xs \<Longrightarrow> I u \<Longrightarrow> \<exists>v. f x u = Ret v \<and> I v"
  shows "\<exists>t. go_fold f xs s = Ret t \<and> I t"
  using assms
proof (induction xs arbitrary: s)
  case Nil
  then show ?case by simp
next
  case (Cons x xs)
  from Cons.prems obtain v where v: "f x s = Ret v" "I v" by (auto 4 3)
  from Cons.IH [OF v(2)] Cons.prems(2) obtain t where "go_fold f xs v = Ret t" "I t" by auto
  with v show ?case by simp
qed

text \<open>A loop over the indices \<open>k, ..., n - 1\<close> with an invariant that mentions the next index.\<close>

lemma go_fold_upt:
  assumes "I k s" and "k \<le> n"
    and "\<And>i u. k \<le> i \<Longrightarrow> i < n \<Longrightarrow> I i u \<Longrightarrow> \<exists>v. f i u = Ret v \<and> I (Suc i) v"
  shows "\<exists>t. go_fold f [k..<n] s = Ret t \<and> I n t"
  using assms
proof (induction "n - k" arbitrary: k s)
  case 0
  then show ?case by simp
next
  case (Suc m)
  then have "k < n" by simp
  with Suc.prems obtain v where v: "f k s = Ret v" "I (Suc k) v" by auto
  have "\<exists>t. go_fold f [Suc k..<n] v = Ret t \<and> I n t"
    using Suc.prems(3) \<open>k < n\<close> Suc.hyps(2) v(2) by (intro Suc.hyps(1)) auto
  with v \<open>k < n\<close> show ?case by (simp add: upt_conv_Cons)
qed

section \<open>Strings\<close>

text \<open>The letters A to Z and a to z differ in bit 5 of the code only.\<close>

fun set_bit5 :: "bool \<Rightarrow> char \<Rightarrow> char" where
  "set_bit5 b (Char b0 b1 b2 b3 b4 b5 b6 b7) = Char b0 b1 b2 b3 b4 b b6 b7"

definition lower_char :: "char \<Rightarrow> char" where
  "lower_char c = (let n = (of_char c :: nat) in if 65 \<le> n \<and> n \<le> 90 then set_bit5 True c else c)"

definition upper_char :: "char \<Rightarrow> char" where
  "upper_char c = (let n = (of_char c :: nat) in if 97 \<le> n \<and> n \<le> 122 then set_bit5 False c else c)"

definition ToLower :: "string \<Rightarrow> string" where
  "ToLower s = map lower_char s"

definition ToUpper :: "string \<Rightarrow> string" where
  "ToUpper s = map upper_char s"

definition digit_char :: "nat \<Rightarrow> char" where
  "digit_char d = char_of (48 + d)"

fun nat_digits :: "nat \<Rightarrow> string" where
  "nat_digits n = (if n < 10 then [digit_char n] else nat_digits (n div 10) @ [digit_char (n mod 10)])"

declare nat_digits.simps [simp del]

definition itoa :: "int \<Rightarrow> string" where
  "itoa i = (if i < 0 then CHR ''-'' # nat_digits (nat (- i)) else nat_digits (nat i))"

fun str_join :: "string \<Rightarrow> string list \<Rightarrow> string" where
  "str_join sep [] = []"
| "str_join sep [x] = x"
| "str_join sep (x # y # zs) = x @ sep @ str_join sep (y # zs)"

definition HasPrefix :: "string \<Rightarrow> string \<Rightarrow> bool" where
  "HasPrefix s p \<longleftrightarrow> take (length p) s = p"

definition ContainsAny :: "string \<Rightarrow> string \<Rightarrow> bool" where
  "ContainsAny s cs \<longleftrightarrow> list_ex (\<lambda>c. c \<in> set cs) s"

lemma HasPrefix_iff: "HasPrefix s p \<longleftrightarrow> prefix p s"
  by (metis HasPrefix_def append_eq_conv_conj append_take_drop_id prefix_def)

lemma ToLower_append [simp]: "ToLower (s @ t) = ToLower s @ ToLower t"
  by (simp add: ToLower_def)

lemma length_ToLower [simp]: "length (ToLower s) = length s"
  by (simp add: ToLower_def)

lemma of_char_set_bit5:
  assumes "65 \<le> (of_char c :: nat)" "(of_char c :: nat) \<le> 90"
  shows "(of_char (set_bit5 True c) :: nat) = of_char c + 32"
  using assms by (cases c) (auto simp: of_char_def of_bool_def split: if_splits)

lemma lower_char_idem [simp]: "lower_char (lower_char c) = lower_char c"
  by (auto simp: lower_char_def Let_def of_char_set_bit5)

lemma ToLower_idem [simp]: "ToLower (ToLower s) = ToLower s"
  by (simp add: ToLower_def)

section \<open>Swap with the last element and shrink\<close>

text \<open>
  The loop \<open>for i := len(s)-1; i >= 0; i-- { if p(s[i]) { s[i] = s[len(s)-1]; s = s[:len(s)-1] } }\<close>.
  The first argument counts the iterations that are left.
\<close>

fun swap_remove :: "('a \<Rightarrow> bool) \<Rightarrow> nat \<Rightarrow> 'a list \<Rightarrow> 'a list" where
  "swap_remove p 0 xs = xs"
| "swap_remove p (Suc i) xs =
     swap_remove p i (if p (xs ! i) then butlast (xs[i := last xs]) else xs)"

lemma mset_butlast_update:
  assumes "i < length xs"
  shows "mset (butlast (xs[i := last xs])) = mset xs - {#xs ! i#}"
proof -
  from assms have ne: "xs \<noteq> []" by auto
  from ne obtain ys z where xs: "xs = ys @ [z]" by (cases xs rule: rev_cases) auto
  show ?thesis
  proof (cases "i < length ys")
    case True
    then show ?thesis
      by (simp add: xs list_update_append1 butlast_append nth_append mset_update)
  next
    case False
    with assms xs have "i = length ys" by simp
    then show ?thesis by (simp add: xs)
  qed
qed

lemma butlast_update_parts:
  assumes "i < length xs"
  shows "take i (butlast (xs[i := last xs])) = take i xs"
    and "mset (drop i (butlast (xs[i := last xs]))) = mset (drop (Suc i) xs)"
proof -
  let ?ys = "butlast (xs[i := last xs])"
  show t: "take i ?ys = take i xs"
    using assms by (simp add: take_butlast)
  have "mset (take i ?ys) + mset (drop i ?ys) = mset ?ys"
    by (metis append_take_drop_id mset_append)
  moreover have "mset xs = mset (take i xs) + add_mset (xs ! i) (mset (drop (Suc i) xs))"
    using assms by (metis id_take_nth_drop mset.simps(2) mset_append)
  ultimately show "mset (drop i ?ys) = mset (drop (Suc i) xs)"
    using assms t by (simp add: mset_butlast_update)
qed

lemma mset_swap_remove_gen:
  "i \<le> length xs \<Longrightarrow>
   mset (swap_remove p i xs) = filter_mset (\<lambda>x. \<not> p x) (mset (take i xs)) + mset (drop i xs)"
proof (induction i arbitrary: xs)
  case 0
  then show ?case by simp
next
  case (Suc i)
  then have i: "i < length xs" by simp
  let ?ys = "butlast (xs[i := last xs])"
  show ?case
  proof (cases "p (xs ! i)")
    case True
    with Suc i show ?thesis
      by (simp add: Suc.IH butlast_update_parts take_Suc_conv_app_nth)
  next
    case False
    have "mset (drop i xs) = add_mset (xs ! i) (mset (drop (Suc i) xs))"
      using i by (metis Cons_nth_drop_Suc mset.simps(2))
    with Suc False i show ?thesis
      by (simp add: take_Suc_conv_app_nth)
  qed
qed

lemma mset_swap_remove:
  "mset (swap_remove p (length xs) xs) = filter_mset (\<lambda>x. \<not> p x) (mset xs)"
  by (simp add: mset_swap_remove_gen)

lemma set_swap_remove:
  "set (swap_remove p (length xs) xs) = {x \<in> set xs. \<not> p x}"
  using arg_cong [OF mset_swap_remove [of p xs], of set_mset] by simp

lemma swap_remove_none: "i \<le> length xs \<Longrightarrow> \<forall>x \<in> set xs. \<not> p x \<Longrightarrow> swap_remove p i xs = xs"
  by (induction i) auto

section \<open>Counting\<close>

lemma count_update:
  assumes "i < length xs"
  shows "int (length (filter p (xs[i := y]))) =
         int (length (filter p xs)) - (if p (xs ! i) then 1 else 0) + (if p y then 1 else 0)"
proof -
  have "filter p (xs[i := y]) = filter p (take i xs) @ filter p [y] @ filter p (drop (Suc i) xs)"
    using assms by (simp add: upd_conv_take_nth_drop)
  moreover have "filter p xs = filter p (take i xs) @ filter p [xs ! i] @ filter p (drop (Suc i) xs)"
    by (metis assms id_take_nth_drop filter_append append_Cons append_Nil)
  ultimately show ?thesis by simp
qed

end
