(* ===== verification/GoFloat.thy ===== *)
theory GoFloat
  imports Complex_Main Prelude "HOL-Library.Log_Nat"
begin

text \<open>
  Floating-point values as far as the modelled code uses them: comparison, equality and the test
  for NaN, and the arithmetic operations with the rounding of IEEE 754 (to nearest, ties to even)
  for the 64-bit and the 32-bit format.  A finite float is the rational it denotes; the two zeros
  compare equal and are one value here, so a division by zero takes the sign of the positive zero.
\<close>

datatype float64 = NaN | NegInf | Fin rat | PosInf

fun f_lt :: "float64 \<Rightarrow> float64 \<Rightarrow> bool" where
  "f_lt NaN y = False"
| "f_lt x NaN = False"
| "f_lt (Fin a) (Fin b) = (a < b)"
| "f_lt NegInf NegInf = False"
| "f_lt NegInf y = True"
| "f_lt x NegInf = False"
| "f_lt PosInf y = False"
| "f_lt x PosInf = True"

fun f_eq :: "float64 \<Rightarrow> float64 \<Rightarrow> bool" where
  "f_eq NaN y = False"
| "f_eq x y = (x = y)"

definition f_le :: "float64 \<Rightarrow> float64 \<Rightarrow> bool" where
  "f_le x y \<longleftrightarrow> f_lt x y \<or> f_eq x y"

abbreviation f_gt :: "float64 \<Rightarrow> float64 \<Rightarrow> bool" where "f_gt x y \<equiv> f_lt y x"
abbreviation f_ge :: "float64 \<Rightarrow> float64 \<Rightarrow> bool" where "f_ge x y \<equiv> f_le y x"

definition IsNaN :: "float64 \<Rightarrow> bool" where
  "IsNaN x \<longleftrightarrow> \<not> f_eq x x"

lemma IsNaN_iff [simp]: "IsNaN x \<longleftrightarrow> x = NaN"
  by (cases x) (simp_all add: IsNaN_def)

lemma f_eq_iff: "f_eq x y \<longleftrightarrow> x = y \<and> x \<noteq> NaN"
  by (cases x) auto

lemma f_eq_sym: "f_eq x y = f_eq y x"
  by (auto simp: f_eq_iff)

lemma f_lt_irrefl [simp]: "\<not> f_lt x x"
  by (cases x) simp_all

lemma f_lt_trans: "f_lt x y \<Longrightarrow> f_lt y z \<Longrightarrow> f_lt x z"
  by (cases x; cases y; cases z) auto

lemma f_lt_asym: "f_lt x y \<Longrightarrow> \<not> f_lt y x"
  using f_lt_trans f_lt_irrefl by blast

lemma f_not_nan: "f_lt x y \<Longrightarrow> x \<noteq> NaN \<and> y \<noteq> NaN" "f_le x y \<Longrightarrow> x \<noteq> NaN \<and> y \<noteq> NaN"
  by (cases x; cases y; simp add: f_le_def)+

lemma f_linear: "x \<noteq> NaN \<Longrightarrow> y \<noteq> NaN \<Longrightarrow> f_lt x y \<or> x = y \<or> f_lt y x"
  by (cases x; cases y) auto

lemma f_le_lt_trans: "f_le x y \<Longrightarrow> f_lt y z \<Longrightarrow> f_lt x z"
  by (auto simp: f_le_def f_eq_iff intro: f_lt_trans)

lemma f_lt_le_trans: "f_lt x y \<Longrightarrow> f_le y z \<Longrightarrow> f_lt x z"
  by (auto simp: f_le_def f_eq_iff intro: f_lt_trans)

lemma f_not_ge_iff: "x \<noteq> NaN \<Longrightarrow> y \<noteq> NaN \<Longrightarrow> \<not> f_le y x \<longleftrightarrow> f_lt x y"
  by (cases x; cases y) (auto simp: f_le_def)

section \<open>Rounding and arithmetic\<close>

definition pow2 :: "int \<Rightarrow> rat" where
  "pow2 e = (if 0 \<le> e then 2 ^ nat e else 1 / 2 ^ nat (- e))"

definition pow10 :: "int \<Rightarrow> rat" where
  "pow10 e = (if 0 \<le> e then 10 ^ nat e else 1 / 10 ^ nat (- e))"

definition round_half_even :: "rat \<Rightarrow> int" where
  "round_half_even q =
     (let f = \<lfloor>q\<rfloor>; d = q - of_int f
      in if d < 1 / 2 then f else if d > 1 / 2 then f + 1 else if even f then f else f + 1)"

text \<open>The exponent \<open>e\<close> with \<open>2^e \<le> q < 2^(e+1)\<close> of a positive \<open>q\<close>.\<close>

definition exponent2 :: "rat \<Rightarrow> int" where
  "exponent2 q =
     (let (n, d) = quotient_of q; e = int (floorlog 2 (nat n)) - int (floorlog 2 (nat d))
      in if q \<ge> pow2 e then e else e - 1)"

text \<open>The float nearest to a rational in the format with \<open>p\<close> bits and exponents from \<open>emin\<close> to \<open>emax\<close>.\<close>

definition round_format :: "int \<Rightarrow> int \<Rightarrow> int \<Rightarrow> rat \<Rightarrow> float64" where
  "round_format p emin emax q =
     (if q = 0 then Fin 0
      else let u = pow2 (max (exponent2 \<bar>q\<bar>) emin - p + 1); r = of_int (round_half_even (q / u)) * u
           in if \<bar>r\<bar> \<ge> pow2 (emax + 1) then (if 0 < r then PosInf else NegInf) else Fin r)"

definition round64 :: "rat \<Rightarrow> float64" where
  "round64 q = round_format 53 (- 1022) 1023 q"

definition round32 :: "rat \<Rightarrow> float64" where
  "round32 q = round_format 24 (- 126) 127 q"

definition MaxFloat64 :: rat where "MaxFloat64 = (2 ^ 53 - 1) * 2 ^ 971"
definition MaxFloat32 :: rat where "MaxFloat32 = (2 ^ 24 - 1) * 2 ^ 104"

fun f_neg :: "float64 \<Rightarrow> float64" where
  "f_neg NaN = NaN"
| "f_neg NegInf = PosInf"
| "f_neg PosInf = NegInf"
| "f_neg (Fin a) = Fin (- a)"

fun f_add :: "float64 \<Rightarrow> float64 \<Rightarrow> float64" where
  "f_add (Fin a) (Fin b) = round64 (a + b)"
| "f_add NaN y = NaN"
| "f_add x NaN = NaN"
| "f_add PosInf NegInf = NaN"
| "f_add NegInf PosInf = NaN"
| "f_add PosInf y = PosInf"
| "f_add NegInf y = NegInf"
| "f_add x y = y"

definition f_sub :: "float64 \<Rightarrow> float64 \<Rightarrow> float64" where
  "f_sub x y = f_add x (f_neg y)"

fun f_sign :: "float64 \<Rightarrow> rat" where
  "f_sign NaN = 0"
| "f_sign NegInf = - 1"
| "f_sign PosInf = 1"
| "f_sign (Fin a) = sgn a"

definition signed_inf :: "rat \<Rightarrow> float64" where
  "signed_inf s = (if s = 0 then NaN else if 0 < s then PosInf else NegInf)"

fun f_mul :: "float64 \<Rightarrow> float64 \<Rightarrow> float64" where
  "f_mul (Fin a) (Fin b) = round64 (a * b)"
| "f_mul NaN y = NaN"
| "f_mul x NaN = NaN"
| "f_mul x y = signed_inf (f_sign x * f_sign y)"

fun f_div :: "float64 \<Rightarrow> float64 \<Rightarrow> float64" where
  "f_div (Fin a) (Fin b) = (if b = 0 then signed_inf (sgn a) else round64 (a / b))"
| "f_div NaN y = NaN"
| "f_div x NaN = NaN"
| "f_div (Fin a) y = Fin 0"
| "f_div x (Fin b) = signed_inf (f_sign x * (if b < 0 then - 1 else 1))"
| "f_div x y = NaN"

section \<open>Text of a float\<close>

text \<open>\<open>decimal_text k n\<close> is \<open>n / 10^k\<close> written with \<open>k\<close> digits after the point.\<close>

definition decimal_text :: "nat \<Rightarrow> nat \<Rightarrow> string" where
  "decimal_text k n =
     (if k = 0 then nat_digits n
      else let frac = nat_digits (n mod 10 ^ k)
           in nat_digits (n div 10 ^ k) @ ''.'' @ replicate (k - length frac) CHR ''0'' @ frac)"

definition sign_text :: "rat \<Rightarrow> string" where
  "sign_text q = (if q < 0 then ''-'' else [])"

text \<open>The verb \<open>%f\<close>: six digits after the point.\<close>

fun fmt_f :: "float64 \<Rightarrow> string" where
  "fmt_f NaN = ''NaN''"
| "fmt_f PosInf = ''+Inf''"
| "fmt_f NegInf = ''-Inf''"
| "fmt_f (Fin q) = sign_text q @ decimal_text 6 (nat (round_half_even (\<bar>q\<bar> * 10 ^ 6)))"

text \<open>The exponent \<open>e\<close> with \<open>10^e \<le> q < 10^(e+1)\<close> of a positive \<open>q\<close>.\<close>

definition exponent10 :: "rat \<Rightarrow> int" where
  "exponent10 q =
     (let (n, d) = quotient_of q; e = int (floorlog 10 (nat n)) - int (floorlog 10 (nat d))
      in if q \<ge> pow10 e then e else e - 1)"

text \<open>The shortest digits that read back as the same float: with \<open>k\<close> significant digits the neighbours
  below and above are tried, the nearest one if both read back.\<close>

fun shortest :: "rat \<Rightarrow> int \<Rightarrow> nat \<Rightarrow> nat \<Rightarrow> int \<times> int" where
  "shortest q e k 0 = (round_half_even (q / pow10 (e - int k + 1)), e - int k + 1)"
| "shortest q e k (Suc fuel) =
     (let s = e - int k + 1; u = pow10 s; d = \<lfloor>q / u\<rfloor>; c = \<lceil>q / u\<rceil>;
          okd = (round64 (of_int d * u) = Fin q); okc = (round64 (of_int c * u) = Fin q)
      in if okd \<and> okc then (round_half_even (q / u), s)
         else if okd then (d, s) else if okc then (c, s)
         else shortest q e (k + 1) fuel)"

fun F64ToS :: "float64 \<Rightarrow> string" where
  "F64ToS NaN = ''NaN''"
| "F64ToS PosInf = ''+Inf''"
| "F64ToS NegInf = ''-Inf''"
| "F64ToS (Fin q) =
     (if q = 0 then ''0''
      else let (m, s) = shortest \<bar>q\<bar> (exponent10 \<bar>q\<bar>) 1 16
           in sign_text q @ (if 0 \<le> s then nat_digits (nat m * 10 ^ nat s) else decimal_text (nat (- s)) (nat m)))"

section \<open>Slices of floats\<close>

text \<open>Slices of floats compared element by element (\<open>SliceFloat64Equal\<close> of internal/utils/slice.go).\<close>

definition SliceFloat64Equal :: "float64 list \<Rightarrow> float64 list \<Rightarrow> bool" where
  "SliceFloat64Equal a b =
     (if length a \<noteq> length b then False else list_all (\<lambda>i. f_eq (a ! i) (b ! i)) [0..<length a])"

lemma SliceFloat64Equal_iff: "SliceFloat64Equal a b \<longleftrightarrow> a = b \<and> NaN \<notin> set a"
proof -
  have "SliceFloat64Equal a b \<longleftrightarrow> length a = length b \<and> (\<forall>i<length a. a ! i = b ! i \<and> a ! i \<noteq> NaN)"
    by (auto simp: SliceFloat64Equal_def list_all_iff f_eq_iff)
  then show ?thesis by (auto simp: list_eq_iff_nth_eq in_set_conv_nth)
qed

end
