(* ===== verification/Enumer.thy ===== *)
theory Enumer
  imports Prelude
begin

text \<open>
  The code that \<open>enumer\<close> writes for every enumeration of internal/geocube and
  internal/utils/bitmap (the \<open>*_enumer.go\<close> files): all names are one string cut by an index
  table, and parsing goes through a map from names and lower-case names to values.  The nine
  files differ only in their tables, so the operations are defined once over a table, the locale
  \<open>enumer_table\<close> states what a table must satisfy and derives the round trips, and each of the
  nine tables of the repository is an interpretation.
\<close>

section \<open>Operations over a table\<close>

record enum_table =
  et_type :: string
  et_name :: string
  et_lower :: string
  et_index :: "nat list"
  et_first :: int

text \<open>The value a SQL driver or a JSON decoder hands over.\<close>

datatype sqlval = SqlNil | SqlBytes string | SqlString string | SqlStringer string | SqlOther string

datatype json = JNull | JString string | JOther string

definition enum_size :: "enum_table \<Rightarrow> nat" where
  "enum_size t = length (et_index t) - 1"

definition enum_slice :: "enum_table \<Rightarrow> string \<Rightarrow> nat \<Rightarrow> string" where
  "enum_slice t s k = take (et_index t ! (k + 1) - et_index t ! k) (drop (et_index t ! k) s)"

definition enum_String :: "enum_table \<Rightarrow> int \<Rightarrow> string" where
  "enum_String t i =
     (let k = i - et_first t
      in if k < 0 \<or> k \<ge> int (enum_size t)
         then et_type t @ ''('' @ itoa i @ '')''
         else enum_slice t (et_name t) (nat k))"

definition enum_Values :: "enum_table \<Rightarrow> int list" where
  "enum_Values t = map (\<lambda>k. et_first t + int k) [0..<enum_size t]"

definition enum_NameToValueMap :: "enum_table \<Rightarrow> (string \<times> int) list" where
  "enum_NameToValueMap t =
     concat (map (\<lambda>k. [(enum_slice t (et_name t) k, et_first t + int k),
                      (enum_slice t (et_lower t) k, et_first t + int k)]) [0..<enum_size t])"

definition enum_Strings :: "enum_table \<Rightarrow> string list" where
  "enum_Strings t = map (enum_slice t (et_name t)) [0..<enum_size t]"

definition enum_parse :: "enum_table \<Rightarrow> string \<Rightarrow> string + int" where
  "enum_parse t s =
     (case map_of (enum_NameToValueMap t) s of
        Some v \<Rightarrow> Inr v
      | None \<Rightarrow>
        (case map_of (enum_NameToValueMap t) (ToLower s) of
           Some v \<Rightarrow> Inr v
         | None \<Rightarrow> Inl (s @ '' does not belong to '' @ et_type t @ '' values'')))"

definition enum_IsA :: "enum_table \<Rightarrow> int \<Rightarrow> bool" where
  "enum_IsA t i = list_ex (\<lambda>v. i = v) (enum_Values t)"

definition enum_MarshalJSON :: "enum_table \<Rightarrow> int \<Rightarrow> json" where
  "enum_MarshalJSON t i = JString (enum_String t i)"

text \<open>\<open>json.Unmarshal\<close> of \<open>null\<close> into a string leaves it empty and reports no error.\<close>

fun enum_UnmarshalJSON :: "enum_table \<Rightarrow> json \<Rightarrow> string + int" where
  "enum_UnmarshalJSON t (JString s) = enum_parse t s"
| "enum_UnmarshalJSON t JNull = enum_parse t []"
| "enum_UnmarshalJSON t (JOther d) = Inl (et_type t @ '' should be a string, got '' @ d)"

definition enum_Value :: "enum_table \<Rightarrow> int \<Rightarrow> sqlval" where
  "enum_Value t i = SqlString (enum_String t i)"

fun enum_Scan :: "enum_table \<Rightarrow> int \<Rightarrow> sqlval \<Rightarrow> string + int" where
  "enum_Scan t cur SqlNil = Inr cur"
| "enum_Scan t cur (SqlBytes s) = enum_parse t s"
| "enum_Scan t cur (SqlString s) = enum_parse t s"
| "enum_Scan t cur (SqlStringer s) = enum_parse t s"
| "enum_Scan t cur (SqlOther d) = Inl (''invalid value of '' @ et_type t @ '': '' @ d)"

definition enum_valid :: "enum_table \<Rightarrow> int \<Rightarrow> bool" where
  "enum_valid t i \<longleftrightarrow> et_first t \<le> i \<and> i < et_first t + int (enum_size t)"

text \<open>What the generator guarantees about a table; executable, so that a table is checked by evaluation.\<close>

definition enum_table_ok :: "enum_table \<Rightarrow> bool" where
  "enum_table_ok t \<longleftrightarrow>
     distinct (map (enum_slice t (et_lower t)) [0..<enum_size t]) \<and>
     list_all (\<lambda>k. enum_slice t (et_lower t) k = ToLower (enum_slice t (et_name t) k)) [0..<enum_size t]"

lemma enum_Values_iff [simp]: "i \<in> set (enum_Values t) \<longleftrightarrow> enum_valid t i"
proof
  assume "enum_valid t i"
  then have "i = et_first t + int (nat (i - et_first t))" "nat (i - et_first t) < enum_size t"
    by (auto simp: enum_valid_def)
  then show "i \<in> set (enum_Values t)"
    by (force simp: enum_Values_def)
qed (auto simp: enum_Values_def enum_valid_def)

lemma enum_IsA_iff [simp]: "enum_IsA t i \<longleftrightarrow> enum_valid t i"
proof -
  have "enum_IsA t i \<longleftrightarrow> i \<in> set (enum_Values t)"
    by (auto simp: enum_IsA_def list_ex_iff)
  then show ?thesis by simp
qed

lemma enum_String_valid:
  "enum_valid t i \<Longrightarrow> enum_String t i = enum_slice t (et_name t) (nat (i - et_first t))"
  by (auto simp: enum_String_def enum_valid_def Let_def)

lemma enum_NameToValueMap_set:
  "(s, v) \<in> set (enum_NameToValueMap t) \<longleftrightarrow>
     (\<exists>k < enum_size t. v = et_first t + int k \<and>
        (s = enum_slice t (et_name t) k \<or> s = enum_slice t (et_lower t) k))"
  by (auto simp: enum_NameToValueMap_def)

section \<open>The contract of a table\<close>

locale enumer_table =
  fixes t :: enum_table
  assumes table_ok: "enum_table_ok t"
begin

lemma lower_slice: "k < enum_size t \<Longrightarrow> enum_slice t (et_lower t) k = ToLower (enum_slice t (et_name t) k)"
  using table_ok by (simp add: enum_table_ok_def list_all_iff)

lemma lower_inj:
  "\<lbrakk> j < enum_size t; k < enum_size t;
     ToLower (enum_slice t (et_name t) j) = ToLower (enum_slice t (et_name t) k) \<rbrakk> \<Longrightarrow> j = k"
proof -
  assume a: "j < enum_size t" "k < enum_size t"
    "ToLower (enum_slice t (et_name t) j) = ToLower (enum_slice t (et_name t) k)"
  have "distinct (map (enum_slice t (et_lower t)) [0..<enum_size t])"
    using table_ok by (simp add: enum_table_ok_def)
  then have "inj_on (enum_slice t (et_lower t)) {0..<enum_size t}"
    by (simp add: distinct_map)
  with a show "j = k" by (auto simp: inj_on_def lower_slice)
qed

lemma entry_lower:
  "(s, v) \<in> set (enum_NameToValueMap t) \<Longrightarrow>
   enum_valid t v \<and> ToLower s = ToLower (enum_String t v)"
  by (auto simp: enum_NameToValueMap_set enum_valid_def enum_String_valid lower_slice)

lemma lower_entry:
  assumes "enum_valid t v"
  shows "(ToLower (enum_String t v), v) \<in> set (enum_NameToValueMap t)"
proof -
  let ?k = "nat (v - et_first t)"
  have "?k < enum_size t" "v = et_first t + int ?k"
    using assms by (auto simp: enum_valid_def)
  moreover have "ToLower (enum_String t v) = enum_slice t (et_lower t) ?k"
    using assms \<open>?k < enum_size t\<close> by (simp add: enum_String_valid lower_slice)
  ultimately show ?thesis
    unfolding enum_NameToValueMap_set by blast
qed

lemma valid_inj:
  assumes "enum_valid t v" "enum_valid t w" "ToLower (enum_String t v) = ToLower (enum_String t w)"
  shows "v = w"
proof -
  have "nat (v - et_first t) = nat (w - et_first t)"
    using assms by (intro lower_inj) (auto simp: enum_valid_def enum_String_valid)
  then show ?thesis using assms(1,2) by (auto simp: enum_valid_def)
qed

text \<open>Parsing is exactly the inverse of \<open>String\<close> up to letter case.\<close>

lemma parse_iff: "enum_parse t s = Inr v \<longleftrightarrow> enum_valid t v \<and> ToLower s = ToLower (enum_String t v)"
proof
  assume "enum_parse t s = Inr v"
  then have "(s, v) \<in> set (enum_NameToValueMap t) \<or> (ToLower s, v) \<in> set (enum_NameToValueMap t)"
    by (auto simp: enum_parse_def split: option.splits dest: map_of_SomeD)
  then show "enum_valid t v \<and> ToLower s = ToLower (enum_String t v)"
    by (auto dest: entry_lower)
next
  assume v: "enum_valid t v \<and> ToLower s = ToLower (enum_String t v)"
  have uniq: "w = v" if "(x, w) \<in> set (enum_NameToValueMap t)" "ToLower x = ToLower s" for x w
    using entry_lower [OF that(1)] that(2) v by (intro valid_inj) auto
  have "(ToLower s, v) \<in> set (enum_NameToValueMap t)"
    using lower_entry v by simp
  then obtain w where w: "map_of (enum_NameToValueMap t) (ToLower s) = Some w"
    by (meson weak_map_of_SomeI)
  then have "w = v" by (intro uniq [of "ToLower s"]) (auto dest: map_of_SomeD)
  moreover have "u = v" if "map_of (enum_NameToValueMap t) s = Some u" for u
    using that by (intro uniq [of s]) (auto dest: map_of_SomeD)
  ultimately show "enum_parse t s = Inr v"
    using w by (auto simp: enum_parse_def split: option.splits)
qed

lemma parse_String: "enum_valid t v \<Longrightarrow> enum_parse t (enum_String t v) = Inr v"
  by (simp add: parse_iff)

lemma json_roundtrip: "enum_valid t v \<Longrightarrow> enum_UnmarshalJSON t (enum_MarshalJSON t v) = Inr v"
  by (simp add: enum_MarshalJSON_def parse_String)

lemma sql_roundtrip: "enum_valid t v \<Longrightarrow> enum_Scan t cur (enum_Value t v) = Inr v"
  by (simp add: enum_Value_def parse_String)

lemma String_inj: "\<lbrakk> enum_valid t v; enum_valid t w; enum_String t v = enum_String t w \<rbrakk> \<Longrightarrow> v = w"
  using valid_inj by simp

end

text \<open>Evaluation of the slices of a concrete table.\<close>

lemmas enum_evals = enum_size_def enum_slice_def upt_rec ToLower_def lower_char_def Let_def

section \<open>The nine tables\<close>

definition JobType_table :: enum_table where
  "JobType_table =
     \<lparr>et_type = ''JobType'',
      et_name = ''CONSOLIDATIONINGESTIONDELETION'',
      et_lower = ''consolidationingestiondeletion'',
      et_index = [0, 13, 22, 30], et_first = 0\<rparr>"

interpretation JobType: enumer_table JobType_table
  by unfold_locales
    (simp add: enum_table_ok_def JobType_table_def enum_evals)

definition JobState_table :: enum_table where
  "JobState_table =
     \<lparr>et_type = ''JobState'',
      et_name = ''NEWCREATEDCONSOLIDATIONINPROGRESSCONSOLIDATIONDONECONSOLIDATIONINDEXEDCONSOLIDATIONEFFECTIVECONSOLIDATIONFAILEDCONSOLIDATIONRETRYINGCONSOLIDATIONFORCERETRYINGCONSOLIDATIONCANCELLINGDELETIONINPROGRESSDELETIONEFFECTIVEDELETIONFAILEDDONEFAILEDINITIALISATIONFAILEDCANCELLATIONFAILEDABORTEDROLLBACKFAILEDDONEBUTUNTIDY'',
      et_lower = ''newcreatedconsolidationinprogressconsolidationdoneconsolidationindexedconsolidationeffectiveconsolidationfailedconsolidationretryingconsolidationforceretryingconsolidationcancellingdeletioninprogressdeletioneffectivedeletionfaileddonefailedinitialisationfailedcancellationfailedabortedrollbackfaileddonebutuntidy'',
      et_index = [0, 3, 10, 33, 50, 70, 92, 111, 132, 158, 181, 199, 216, 230, 234, 240, 260, 278, 285, 299, 312], et_first = 0\<rparr>"

interpretation JobState: enumer_table JobState_table
  by unfold_locales
    (simp add: enum_table_ok_def JobState_table_def enum_evals)

definition JobStatus_table :: enum_table where
  "JobStatus_table =
     \<lparr>et_type = ''JobStatus'',
      et_name = ''JobCreatedOrdersPreparedPrepareOrdersFailedSendOrdersFailedConsolidationDoneConsolidationFailedConsolidationRetryFailedConsolidationIndexedConsolidationIndexingFailedDatasetsSwappedSwapDatasetsFailedDeletionStartedStartDeletionFailedDeletionReadyDeletionNotReadyRemovalDoneDeletionDoneRemovalFailedDeletionFailedCancelledByUserCancelledByUserForcedCancellationFailedCancellationDoneRollbackFailedRollbackDoneRetriedRetryForcedContinue'',
      et_lower = ''jobcreatedorderspreparedprepareordersfailedsendordersfailedconsolidationdoneconsolidationfailedconsolidationretryfailedconsolidationindexedconsolidationindexingfaileddatasetsswappedswapdatasetsfaileddeletionstartedstartdeletionfaileddeletionreadydeletionnotreadyremovaldonedeletiondoneremovalfaileddeletionfailedcancelledbyusercancelledbyuserforcedcancellationfailedcancellationdonerollbackfailedrollbackdoneretriedretryforcedcontinue'',
      et_index = [0, 10, 24, 43, 59, 76, 95, 119, 139, 166, 181, 199, 214, 233, 246, 262, 273, 285, 298, 312, 327, 348, 366, 382, 396, 408, 415, 426, 434], et_first = 0\<rparr>"

interpretation JobStatus: enumer_table JobStatus_table
  by unfold_locales
    (simp add: enum_table_ok_def JobStatus_table_def enum_evals)

definition TaskState_table :: enum_table where
  "TaskState_table =
     \<lparr>et_type = ''TaskState'',
      et_name = ''FAILEDCANCELLEDDONEPENDINGNEW'',
      et_lower = ''failedcancelleddonependingnew'',
      et_index = [0, 6, 15, 19, 26, 29], et_first = 0\<rparr>"

interpretation TaskState: enumer_table TaskState_table
  by unfold_locales
    (simp add: enum_table_ok_def TaskState_table_def enum_evals)

definition DatasetStatus_table :: enum_table where
  "DatasetStatus_table =
     \<lparr>et_type = ''DatasetStatus'',
      et_name = ''ACTIVETODELETEINACTIVE'',
      et_lower = ''activetodeleteinactive'',
      et_index = [0, 6, 14, 22], et_first = 0\<rparr>"

interpretation DatasetStatus: enumer_table DatasetStatus_table
  by unfold_locales
    (simp add: enum_table_ok_def DatasetStatus_table_def enum_evals)

definition StorageClass_table :: enum_table where
  "StorageClass_table =
     \<lparr>et_type = ''StorageClass'',
      et_name = ''STANDARDINFREQUENTARCHIVEDEEPARCHIVEUNDEFINED'',
      et_lower = ''standardinfrequentarchivedeeparchiveundefined'',
      et_index = [0, 8, 18, 25, 36, 45], et_first = 0\<rparr>"

interpretation StorageClass: enumer_table StorageClass_table
  by unfold_locales
    (simp add: enum_table_ok_def StorageClass_table_def enum_evals)

definition Compression_table :: enum_table where
  "Compression_table =
     \<lparr>et_type = ''Compression'',
      et_name = ''NOLOSSLESSLOSSYCUSTOM'',
      et_lower = ''nolosslesslossycustom'',
      et_index = [0, 2, 10, 15, 21], et_first = 0\<rparr>"

interpretation Compression: enumer_table Compression_table
  by unfold_locales
    (simp add: enum_table_ok_def Compression_table_def enum_evals)

definition Resampling_table :: enum_table where
  "Resampling_table =
     \<lparr>et_type = ''Resampling'',
      et_name = ''NEARBILINEARCUBICCUBICSPLINELANCZOSAVERAGEMODEMAXMINMEDQ1Q3'',
      et_lower = ''nearbilinearcubiccubicsplinelanczosaveragemodemaxminmedq1q3'',
      et_index = [0, 4, 12, 17, 28, 35, 42, 46, 49, 52, 55, 57, 59], et_first = 1\<rparr>"

interpretation Resampling: enumer_table Resampling_table
  by unfold_locales
    (simp add: enum_table_ok_def Resampling_table_def enum_evals)

definition DType_table :: enum_table where
  "DType_table =
     \<lparr>et_type = ''DType'',
      et_name = ''UNDEFINEDUINT8UINT16UINT32INT8INT16INT32FLOAT32FLOAT64COMPLEX64'',
      et_lower = ''undefineduint8uint16uint32int8int16int32float32float64complex64'',
      et_index = [0, 9, 14, 20, 26, 30, 35, 40, 47, 54, 63], et_first = 0\<rparr>"

interpretation DType: enumer_table DType_table
  by unfold_locales
    (simp add: enum_table_ok_def DType_table_def enum_evals)

end
