(* ===== verification/PersistenceState.thy ===== *)
theory PersistenceState
  imports Prelude
begin

text \<open>
  The life cycle of a persisted entity, internal/geocube/state.go: the type \<open>persistenceState\<close>
  every job, task, dataset, container, variable, instance and parameter set embeds, its tests
  and its four transitions.  The transitions panic on a deleted entity.
\<close>

datatype persistenceState = UNKNOWN | NEW | CLEAN | DIRTY | TODELETE | DELETED

definition IsDirty :: "persistenceState \<Rightarrow> bool" where "IsDirty p \<longleftrightarrow> p = DIRTY"
definition IsToDelete :: "persistenceState \<Rightarrow> bool" where "IsToDelete p \<longleftrightarrow> p = TODELETE"
definition IsNew :: "persistenceState \<Rightarrow> bool" where "IsNew p \<longleftrightarrow> p = NEW"
definition IsClean :: "persistenceState \<Rightarrow> bool" where "IsClean p \<longleftrightarrow> p = CLEAN"

definition IsActive :: "persistenceState \<Rightarrow> bool" where
  "IsActive p \<longleftrightarrow> p = NEW \<or> p = CLEAN \<or> p = DIRTY"

definition IsDeleted :: "persistenceState \<Rightarrow> bool" where "IsDeleted p \<longleftrightarrow> p = DELETED"

definition deleted_msg :: string where
  "deleted_msg = ''Entity is deleted''"

definition mustNotBeDeleted :: "persistenceState \<Rightarrow> unit go" where
  "mustNotBeDeleted p = (if p = DELETED then Panic deleted_msg else Ret ())"

definition ps_Clean :: "persistenceState \<Rightarrow> persistenceState go" where
  "ps_Clean p = go_bind (mustNotBeDeleted p) (\<lambda>_. Ret (if p \<noteq> TODELETE then CLEAN else p))"

definition ps_Deleted :: "persistenceState \<Rightarrow> persistenceState" where
  "ps_Deleted p = DELETED"

definition ps_dirty :: "persistenceState \<Rightarrow> persistenceState go" where
  "ps_dirty p = go_bind (mustNotBeDeleted p) (\<lambda>_. Ret (if p = CLEAN \<or> p = UNKNOWN then DIRTY else p))"

definition ps_toDelete :: "persistenceState \<Rightarrow> persistenceState go" where
  "ps_toDelete p = go_bind (mustNotBeDeleted p) (\<lambda>_. Ret TODELETE)"

lemmas ps_tests = IsDirty_def IsToDelete_def IsNew_def IsClean_def IsActive_def IsDeleted_def
lemmas ps_ops = ps_Clean_def ps_dirty_def ps_toDelete_def mustNotBeDeleted_def ps_Deleted_def

lemma ps_tests_exclusive: "IsActive p \<Longrightarrow> \<not> IsToDelete p \<and> \<not> IsDeleted p"
  by (auto simp: ps_tests)

lemma ps_dirty_eq:
  "ps_dirty p = (if p = DELETED then Panic deleted_msg
                 else Ret (if p = CLEAN \<or> p = UNKNOWN then DIRTY else p))"
  by (simp add: ps_ops)

lemma ps_toDelete_eq: "ps_toDelete p = (if p = DELETED then Panic deleted_msg else Ret TODELETE)"
  by (simp add: ps_ops)

lemma ps_Clean_eq:
  "ps_Clean p = (if p = DELETED then Panic deleted_msg else Ret (if p = TODELETE then TODELETE else CLEAN))"
  by (simp add: ps_ops)

section \<open>The transitions as a step relation\<close>

datatype ps_op = OpClean | OpDeleted | OpDirty | OpToDelete

fun ps_apply :: "ps_op \<Rightarrow> persistenceState \<Rightarrow> persistenceState go" where
  "ps_apply OpClean p = ps_Clean p"
| "ps_apply OpDeleted p = Ret (ps_Deleted p)"
| "ps_apply OpDirty p = ps_dirty p"
| "ps_apply OpToDelete p = ps_toDelete p"

inductive ps_step :: "persistenceState \<Rightarrow> persistenceState \<Rightarrow> bool" where
  ps_clean: "p \<noteq> DELETED \<Longrightarrow> p \<noteq> TODELETE \<Longrightarrow> ps_step p CLEAN"
| ps_touch: "p = CLEAN \<or> p = UNKNOWN \<Longrightarrow> ps_step p DIRTY"
| ps_stay: "p \<noteq> DELETED \<Longrightarrow> ps_step p p"
| ps_mark: "p \<noteq> DELETED \<Longrightarrow> ps_step p TODELETE"
| ps_end: "ps_step p DELETED"

inductive_cases ps_step_from_deleted: "ps_step DELETED q"
inductive_cases ps_step_from_todelete: "ps_step TODELETE q"
inductive_cases ps_step_to_new: "ps_step p NEW"

lemma ps_apply_step: "ps_apply op p = Ret q \<Longrightarrow> ps_step p q"
  by (cases op; cases p) (auto simp: ps_ops intro: ps_step.intros)

lemma ps_step_todelete: "ps_step TODELETE q \<Longrightarrow> q = TODELETE \<or> q = DELETED"
  by (auto elim: ps_step_from_todelete)

lemma ps_step_new_only: "ps_step p NEW \<Longrightarrow> p = NEW"
  by (auto elim: ps_step_to_new)

fun ps_run :: "ps_op list \<Rightarrow> persistenceState \<Rightarrow> persistenceState go" where
  "ps_run [] p = Ret p"
| "ps_run (op # ops) p = go_bind (ps_apply op p) (ps_run ops)"

text \<open>Once an entity is to be deleted no sequence of transitions makes it active again.\<close>

lemma ps_run_inactive:
  "ps_run ops p = Ret q \<Longrightarrow> p = TODELETE \<or> p = DELETED \<Longrightarrow> q = TODELETE \<or> q = DELETED"
proof (induction ops arbitrary: p)
  case Nil
  then show ?case by simp
next
  case (Cons op ops)
  then obtain r where r: "ps_apply op p = Ret r" "ps_run ops r = Ret q"
    by (auto simp: go_bind_eq_Ret_iff)
  from ps_apply_step [OF r(1)] Cons.prems(2) have "r = TODELETE \<or> r = DELETED"
    by (auto elim: ps_step_from_deleted ps_step_from_todelete)
  with r(2) show ?case by (rule Cons.IH)
qed

lemma ps_run_not_new: "ps_run ops p = Ret NEW \<Longrightarrow> p = NEW"
proof (induction ops arbitrary: p)
  case Nil
  then show ?case by simp
next
  case (Cons op ops)
  then obtain r where r: "ps_apply op p = Ret r" "ps_run ops r = Ret NEW"
    by (auto simp: go_bind_eq_Ret_iff)
  from Cons.IH [OF r(2)] ps_apply_step [OF r(1)] show ?case by (auto dest: ps_step_new_only)
qed

lemma ps_run_returns: "p \<noteq> DELETED \<Longrightarrow> OpDeleted \<notin> set ops \<Longrightarrow> returns (ps_run ops p)"
proof (induction ops arbitrary: p)
  case Nil
  then show ?case by simp
next
  case (Cons op ops)
  then obtain q where "ps_apply op p = Ret q" "q \<noteq> DELETED"
    by (cases op; cases p) (auto simp: ps_ops)
  with Cons show ?case by simp
qed

end
