(* ===== verification/GeocubeErrors.thy ===== *)
theory GeocubeErrors
  imports Prelude
begin

text \<open>
  Errors: internal/geocube/geocubeerrors.go and internal/utils/errors.go.  A value of type
  \<open>gerr\<close> is a non-nil Go \<open>error\<close>: the errors of the geocube package, the temporary marker of the
  utils package, an error wrapped by \<open>fmt.Errorf\<close> with a text before and after, an error without
  cause, and the errors of other packages that \<open>Retriable\<close> looks for.  \<open>unwrap\<close> is the chain that
  \<open>errors.As\<close> and \<open>errors.Is\<close> follow.  It stops at \<open>ErrTmp\<close>: the method \<open>Unwrap\<close> of
  \<open>errTmp\<close> has a pointer receiver, and \<open>MakeTemporary\<close> returns the struct itself.
\<close>

section \<open>Error values\<close>

datatype ErrorCode = EntityValidationError | EntityNotFound | EntityAlreadyExists
  | DependencyStillExists | UnhandledEvent | ShouldNeverHappen

datatype gerr =
    GeocubeE ErrorCode string "string list"
  | ErrTmp gerr
  | WrapE string gerr string
  | PlainE string
  | CtxCanceled
  | CtxDeadlineExceeded
  | ErrnoE nat string
  | UrlE string gerr
  | GoogleapiE int string
  | ForeignE string "bool option"

fun ErrorCode_name :: "ErrorCode \<Rightarrow> string" where
  "ErrorCode_name EntityValidationError = ''EntityValidationError''"
| "ErrorCode_name EntityNotFound = ''EntityNotFound''"
| "ErrorCode_name EntityAlreadyExists = ''EntityAlreadyExists''"
| "ErrorCode_name DependencyStillExists = ''DependencyStillExists''"
| "ErrorCode_name UnhandledEvent = ''UnhandledEvent''"
| "ErrorCode_name ShouldNeverHappen = ''ShouldNeverHappen''"

fun ErrorMsg :: "gerr \<Rightarrow> string" where
  "ErrorMsg (GeocubeE c d ds) = ErrorCode_name c @ '': '' @ d"
| "ErrorMsg (ErrTmp e) = ErrorMsg e"
| "ErrorMsg (WrapE pre e post) = pre @ ErrorMsg e @ post"
| "ErrorMsg (PlainE s) = s"
| "ErrorMsg CtxCanceled = ''context canceled''"
| "ErrorMsg CtxDeadlineExceeded = ''context deadline exceeded''"
| "ErrorMsg (ErrnoE n s) = s"
| "ErrorMsg (UrlE op e) = op @ '': '' @ ErrorMsg e"
| "ErrorMsg (GoogleapiE c s) = s"
| "ErrorMsg (ForeignE s t) = s"

definition formatEntityWith :: "string \<Rightarrow> string \<Rightarrow> string \<Rightarrow> string" where
  "formatEntityWith entity keyID i =
     (if entity \<noteq> [] \<and> i \<noteq> [] then entity @ '' with '' @ keyID @ '': '' @ i else [])"

definition NewValidationError :: "string \<Rightarrow> gerr" where
  "NewValidationError desc = GeocubeE EntityValidationError desc []"

definition NewEntityNotFound :: "string \<Rightarrow> string \<Rightarrow> string \<Rightarrow> string \<Rightarrow> gerr" where
  "NewEntityNotFound entity keyID i desc =
     GeocubeE EntityNotFound (if desc = [] then formatEntityWith entity keyID i else desc) [entity, keyID, i]"

definition NewEntityAlreadyExists :: "string \<Rightarrow> string \<Rightarrow> string \<Rightarrow> string \<Rightarrow> gerr" where
  "NewEntityAlreadyExists entity keyID i desc =
     GeocubeE EntityAlreadyExists (if desc = [] then formatEntityWith entity keyID i else desc) [entity, keyID, i]"

definition NewDependencyStillExists :: "string \<Rightarrow> string \<Rightarrow> string \<Rightarrow> string \<Rightarrow> string \<Rightarrow> gerr" where
  "NewDependencyStillExists entity1 entity2 keyID i desc =
     GeocubeE DependencyStillExists
       (if desc = []
        then (if entity2 \<noteq> [] then formatEntityWith (entity1 @ '' and '' @ entity2) keyID i
              else formatEntityWith entity1 keyID i)
        else desc)
       [entity1, entity2, keyID, i]"

definition NewUnhandledEvent :: "string \<Rightarrow> gerr" where
  "NewUnhandledEvent desc = GeocubeE UnhandledEvent desc []"

definition NewShouldNeverHappen :: "string \<Rightarrow> gerr" where
  "NewShouldNeverHappen desc = GeocubeE ShouldNeverHappen desc []"

text \<open>\<open>Detail\<close> guards with \<open>i > len(details)\<close>; the index expression panics for the index \<open>len(details)\<close>.\<close>

definition Detail :: "string list \<Rightarrow> int \<Rightarrow> string go" where
  "Detail details i =
     (if i > int (length details) then Ret []
      else if 0 \<le> i \<and> i < int (length details) then Ret (details ! nat i)
      else Panic ''runtime error: index out of range'')"

section \<open>The chain of causes\<close>

fun unwrap :: "gerr \<Rightarrow> gerr option" where
  "unwrap (WrapE pre e post) = Some e"
| "unwrap (UrlE op e) = Some e"
| "unwrap _ = None"

fun err_chain :: "gerr \<Rightarrow> gerr list" where
  "err_chain (WrapE pre e post) = WrapE pre e post # err_chain e"
| "err_chain (UrlE op e) = UrlE op e # err_chain e"
| "err_chain e = [e]"

text \<open>The chain that \<open>errors.As\<close> and \<open>errors.Is\<close> visit: the error and the chain of its cause.\<close>

lemma err_chain_unwrap:
  "err_chain e = e # (case unwrap e of None \<Rightarrow> [] | Some e' \<Rightarrow> err_chain e')"
  by (cases e) simp_all

fun is_geocube :: "gerr \<Rightarrow> bool" where
  "is_geocube (GeocubeE c d ds) = True"
| "is_geocube _ = False"

definition AsGeocubeError :: "gerr \<Rightarrow> gerr option" where
  "AsGeocubeError e = find is_geocube (err_chain e)"

definition IsError :: "gerr option \<Rightarrow> ErrorCode \<Rightarrow> bool" where
  "IsError eo code =
     (case eo of None \<Rightarrow> False
      | Some e \<Rightarrow> (case AsGeocubeError e of Some (GeocubeE c d ds) \<Rightarrow> c = code | _ \<Rightarrow> False))"

section \<open>Transient errors\<close>

definition MakeTemporary :: "gerr \<Rightarrow> gerr" where
  "MakeTemporary e = ErrTmp e"

text \<open>Linux numbers of EIO, EBUSY, ECANCELED, ECONNABORTED, ECONNRESET, ENOMEM, EPIPE.\<close>

definition retriable_errno :: "nat \<Rightarrow> bool" where
  "retriable_errno n \<longleftrightarrow> n \<in> set [5, 16, 125, 103, 104, 12, 32]"

text \<open>\<open>syscall.Errno.Temporary\<close>: EINTR, EMFILE, ENFILE, EAGAIN (= EWOULDBLOCK) and ETIMEDOUT.\<close>

definition errno_Temporary :: "nat \<Rightarrow> bool" where
  "errno_Temporary n \<longleftrightarrow> n \<in> set [4, 24, 23, 11, 110]"

text \<open>The method \<open>Temporary() bool\<close> of an error value, where its type has one.\<close>

fun own_Temporary :: "gerr \<Rightarrow> bool option" where
  "own_Temporary (ErrTmp e) = Some True"
| "own_Temporary (ErrnoE n s) = Some (errno_Temporary n)"
| "own_Temporary CtxDeadlineExceeded = Some True"
| "own_Temporary (UrlE op e) = Some (own_Temporary e = Some True)"
| "own_Temporary (ForeignE s t) = t"
| "own_Temporary _ = None"

definition has_Temporary :: "gerr \<Rightarrow> bool" where
  "has_Temporary e \<longleftrightarrow> own_Temporary e \<noteq> None"

fun is_url :: "gerr \<Rightarrow> bool" where "is_url (UrlE op e) = True" | "is_url _ = False"
fun is_errno :: "gerr \<Rightarrow> bool" where "is_errno (ErrnoE n s) = True" | "is_errno _ = False"
fun is_googleapi :: "gerr \<Rightarrow> bool" where "is_googleapi (GoogleapiE c s) = True" | "is_googleapi _ = False"

definition strip_url :: "gerr \<Rightarrow> gerr" where
  "strip_url e = (case find is_url (err_chain e) of Some (UrlE op e') \<Rightarrow> e' | _ \<Rightarrow> e)"

definition Retriable_from :: "gerr \<Rightarrow> bool" where
  "Retriable_from err \<longleftrightarrow>
     (case find is_errno (err_chain err) of
        Some (ErrnoE n s) \<Rightarrow> retriable_errno n
      | _ \<Rightarrow> False) \<or>
     (case find has_Temporary (err_chain err) of
        Some e \<Rightarrow> own_Temporary e = Some True
      | None \<Rightarrow>
        (case find is_googleapi (err_chain err) of
           Some (GoogleapiE c s) \<Rightarrow> c = 429 \<or> (c \<ge> 500 \<and> c < 600)
         | _ \<Rightarrow> sublist ''timeout'' (ErrorMsg err)))"

definition Retriable :: "gerr \<Rightarrow> bool" where
  "Retriable err = Retriable_from (strip_url err)"

definition Temporary :: "gerr \<Rightarrow> bool" where
  "Temporary err \<longleftrightarrow> Retriable err \<or> CtxCanceled \<in> set (err_chain err) \<or> CtxDeadlineExceeded \<in> set (err_chain err)"

section \<open>Merging errors\<close>

definition wrap_both :: "gerr \<Rightarrow> gerr \<Rightarrow> gerr" where
  "wrap_both e f = WrapE [] e (CHR 0x0A # '' '' @ ErrorMsg f)"

fun MergeErrors :: "bool \<Rightarrow> gerr option \<Rightarrow> gerr option list \<Rightarrow> gerr option" where
  "MergeErrors prio err [] = err"
| "MergeErrors prio err (None # rest) = (if \<not> prio then None else MergeErrors prio err rest)"
| "MergeErrors prio None (Some n # rest) = MergeErrors prio (Some n) rest"
| "MergeErrors prio (Some e) (Some n # rest) =
     MergeErrors prio (Some (if prio \<noteq> Temporary e then wrap_both e n else wrap_both n e)) rest"

text \<open>
  \<open>ErrWaitGroup\<close>: the results of the goroutines in the order in which they finish; \<open>Wait\<close>
  returns the errors among them.
\<close>

definition ErrWaitGroup_Wait :: "gerr option list \<Rightarrow> gerr list" where
  "ErrWaitGroup_Wait results = List.map_filter (\<lambda>r. r) results"

section \<open>Lemmas\<close>

lemma AsGeocubeError_simps [simp]:
  "AsGeocubeError (GeocubeE c d ds) = Some (GeocubeE c d ds)"
  "AsGeocubeError (WrapE pre e post) = AsGeocubeError e"
  "AsGeocubeError (UrlE op e) = AsGeocubeError e"
  "AsGeocubeError (ErrTmp e) = None"
  "AsGeocubeError (PlainE s) = None"
  "AsGeocubeError CtxCanceled = None"
  "AsGeocubeError CtxDeadlineExceeded = None"
  "AsGeocubeError (ErrnoE n s) = None"
  "AsGeocubeError (GoogleapiE k s) = None"
  "AsGeocubeError (ForeignE s t) = None"
  by (simp_all add: AsGeocubeError_def)

lemma IsError_simps [simp]:
  "IsError None c = False"
  "IsError (Some (GeocubeE k d ds)) c = (k = c)"
  "IsError (Some (WrapE pre e post)) c = IsError (Some e) c"
  "IsError (Some (ErrTmp e)) c = False"
  "IsError (Some (PlainE s)) c = False"
  "IsError (Some CtxCanceled) c = False"
  "IsError (Some CtxDeadlineExceeded) c = False"
  by (auto simp: IsError_def split: option.splits gerr.splits)

lemma IsError_constructors [simp]:
  "IsError (Some (NewValidationError d)) c \<longleftrightarrow> c = EntityValidationError"
  "IsError (Some (NewEntityNotFound en k i d)) c \<longleftrightarrow> c = EntityNotFound"
  "IsError (Some (NewEntityAlreadyExists en k i d)) c \<longleftrightarrow> c = EntityAlreadyExists"
  "IsError (Some (NewDependencyStillExists e1 e2 k i d)) c \<longleftrightarrow> c = DependencyStillExists"
  "IsError (Some (NewUnhandledEvent d)) c \<longleftrightarrow> c = UnhandledEvent"
  by (auto simp: NewValidationError_def NewEntityNotFound_def NewEntityAlreadyExists_def
      NewDependencyStillExists_def NewUnhandledEvent_def)

lemma find_err_chain_WrapE:
  "find p (err_chain (WrapE pre e post)) = (if p (WrapE pre e post) then Some (WrapE pre e post) else find p (err_chain e))"
  by simp

text \<open>A temporary error stays temporary when it is wrapped: the chain is the same below the wrapper.\<close>

lemma find_is_url: "find is_url xs = Some u \<Longrightarrow> \<exists>op e. u = UrlE op e"
  by (induction xs) (auto split: if_splits elim: is_url.elims)

lemma find_is_googleapi: "find is_googleapi xs = Some u \<Longrightarrow> \<exists>c s. u = GoogleapiE c s"
  by (induction xs) (auto split: if_splits elim: is_googleapi.elims)

lemma has_Temporary_simps [simp]:
  "has_Temporary (ErrTmp e)" "\<not> has_Temporary (WrapE pre e post)" "\<not> has_Temporary (PlainE s)"
  "\<not> has_Temporary (GeocubeE c d ds)"
  by (simp_all add: has_Temporary_def)

lemma strip_url_WrapE:
  "strip_url (WrapE pre e post) = (if find is_url (err_chain e) = None then WrapE pre e post else strip_url e)"
proof (cases "find is_url (err_chain e)")
  case None
  then show ?thesis by (simp add: strip_url_def)
next
  case (Some u)
  then obtain op e' where "u = UrlE op e'" using find_is_url by blast
  with Some show ?thesis by (simp add: strip_url_def)
qed

lemma sublist_in_middle: "sublist s t \<Longrightarrow> sublist s (pre @ t @ post)"
  by (metis sublist_appendI sublist_order.order.trans)

lemma find_no_url: "find is_url (err_chain e) = None \<Longrightarrow> strip_url e = e"
  by (simp add: strip_url_def)

lemma Retriable_from_WrapE:
  assumes "Retriable_from e"
  shows "Retriable_from (WrapE pre e post)"
proof (cases "find is_googleapi (err_chain e)")
  case None
  with assms show ?thesis
    by (auto simp: Retriable_from_def sublist_in_middle split: option.splits)
next
  case (Some g)
  then obtain c s where "g = GoogleapiE c s" using find_is_googleapi by blast
  with assms Some show ?thesis
    by (cases "find has_Temporary (err_chain e)") (simp_all add: Retriable_from_def)
qed

lemma Retriable_WrapE: "Retriable e \<Longrightarrow> Retriable (WrapE pre e post)"
  by (auto simp: Retriable_def strip_url_WrapE find_no_url Retriable_from_WrapE)

lemma Temporary_WrapE: "Temporary e \<Longrightarrow> Temporary (WrapE pre e post)"
  by (auto simp: Temporary_def intro: Retriable_WrapE)

lemma Temporary_ErrTmp [simp]: "Temporary (ErrTmp e)"
  by (simp add: Temporary_def Retriable_def Retriable_from_def strip_url_def)

lemma MergeErrors_some: "MergeErrors True (Some e) ns \<noteq> None"
proof (induction ns arbitrary: e)
  case Nil
  then show ?case by simp
next
  case (Cons n ns)
  then show ?case by (cases n) (simp_all del: not_None_eq)
qed

end
