(* ===== verification/GeocubeTypes.thy ===== *)
theory GeocubeTypes
  imports GoFloat Enumer PersistenceState GeocubeErrors
begin

text \<open>
  The data model of internal/geocube: the enumerations with their Go values and names, and the
  structs as records.  Every entity carries its \<open>persistenceState\<close>.  Go ints are \<open>int\<close>; times
  are nanoseconds as \<open>int\<close>; a Go map is an association list with distinct keys whose order stands
  for one iteration order of the map; an identifier is a string.
\<close>

section \<open>Enumerations\<close>

datatype JobType = JobTypeCONSOLIDATION | JobTypeINGESTION | JobTypeDELETION

datatype JobState = JobStateNEW | JobStateCREATED
  | JobStateCONSOLIDATIONINPROGRESS | JobStateCONSOLIDATIONDONE | JobStateCONSOLIDATIONINDEXED
  | JobStateCONSOLIDATIONEFFECTIVE | JobStateCONSOLIDATIONFAILED | JobStateCONSOLIDATIONRETRYING
  | JobStateCONSOLIDATIONFORCERETRYING | JobStateCONSOLIDATIONCANCELLING
  | JobStateDELETIONINPROGRESS | JobStateDELETIONEFFECTIVE | JobStateDELETIONFAILED
  | JobStateDONE | JobStateFAILED | JobStateINITIALISATIONFAILED | JobStateCANCELLATIONFAILED
  | JobStateABORTED | JobStateROLLBACKFAILED | JobStateDONEBUTUNTIDY

datatype JobStatus = JobCreated | OrdersPrepared | PrepareOrdersFailed | SendOrdersFailed
  | ConsolidationDone | ConsolidationFailed | ConsolidationRetryFailed | ConsolidationIndexed
  | ConsolidationIndexingFailed | DatasetsSwapped | SwapDatasetsFailed | DeletionStarted
  | StartDeletionFailed | DeletionReady | DeletionNotReady | RemovalDone | DeletionDone
  | RemovalFailed | DeletionFailed | CancelledByUser | CancelledByUserForced
  | CancellationFailed | CancellationDone | RollbackFailed | RollbackDone
  | Retried | RetryForced | Continue

datatype TaskState = TaskStateFAILED | TaskStateCANCELLED | TaskStateDONE | TaskStatePENDING | TaskStateNEW

datatype TaskStatus = TaskSuccessful | TaskFailed | TaskIgnored | TaskCancelled | TaskSent

datatype DatasetStatus = DatasetStatusACTIVE | DatasetStatusTODELETE | DatasetStatusINACTIVE

datatype StorageClass = StorageClassSTANDARD | StorageClassINFREQUENT | StorageClassARCHIVE
  | StorageClassDEEPARCHIVE | StorageClassUNDEFINED | StorageClassOther int

datatype Compression = CompressionNO | CompressionLOSSLESS | CompressionLOSSY | CompressionCUSTOM
  | CompressionOther int

datatype Resampling = ResamplingUNDEFINED | ResamplingNEAR | ResamplingBILINEAR | ResamplingCUBIC
  | ResamplingCUBICSPLINE | ResamplingLANCZOS | ResamplingAVERAGE | ResamplingMODE | ResamplingMAX
  | ResamplingMIN | ResamplingMED | ResamplingQ1 | ResamplingQ3 | ResamplingOther int

datatype LogSeverity = DEBUG | INFO | WARN | ERROR

datatype ExecutionLevel = ExecutionSynchronous | ExecutionAsynchronous | StepByStepCritical
  | StepByStepMajor | StepByStepAll | StepByStepNever

datatype LockFlag = LockFlagALL | LockFlagINIT | LockFlagTODELETE | LockFlagNEW

text \<open>These enumerations are Go integers that are converted from protobuf messages without a check: the
  constructor \<open>...Other\<close> is any value outside the named constants.\<close>

datatype DType = DTypeUNDEFINED | DTypeUINT8 | DTypeUINT16 | DTypeUINT32 | DTypeINT8 | DTypeINT16
  | DTypeINT32 | DTypeFLOAT32 | DTypeFLOAT64 | DTypeCOMPLEX64 | DTypeOther int

fun JobType_code :: "JobType \<Rightarrow> int" where
  "JobType_code JobTypeCONSOLIDATION = 0"
| "JobType_code JobTypeINGESTION = 1"
| "JobType_code JobTypeDELETION = 2"

fun JobState_code :: "JobState \<Rightarrow> int" where
  "JobState_code JobStateNEW = 0"
| "JobState_code JobStateCREATED = 1"
| "JobState_code JobStateCONSOLIDATIONINPROGRESS = 2"
| "JobState_code JobStateCONSOLIDATIONDONE = 3"
| "JobState_code JobStateCONSOLIDATIONINDEXED = 4"
| "JobState_code JobStateCONSOLIDATIONEFFECTIVE = 5"
| "JobState_code JobStateCONSOLIDATIONFAILED = 6"
| "JobState_code JobStateCONSOLIDATIONRETRYING = 7"
| "JobState_code JobStateCONSOLIDATIONFORCERETRYING = 8"
| "JobState_code JobStateCONSOLIDATIONCANCELLING = 9"
| "JobState_code JobStateDELETIONINPROGRESS = 10"
| "JobState_code JobStateDELETIONEFFECTIVE = 11"
| "JobState_code JobStateDELETIONFAILED = 12"
| "JobState_code JobStateDONE = 13"
| "JobState_code JobStateFAILED = 14"
| "JobState_code JobStateINITIALISATIONFAILED = 15"
| "JobState_code JobStateCANCELLATIONFAILED = 16"
| "JobState_code JobStateABORTED = 17"
| "JobState_code JobStateROLLBACKFAILED = 18"
| "JobState_code JobStateDONEBUTUNTIDY = 19"

fun JobStatus_code :: "JobStatus \<Rightarrow> int" where
  "JobStatus_code JobCreated = 0"
| "JobStatus_code OrdersPrepared = 1"
| "JobStatus_code PrepareOrdersFailed = 2"
| "JobStatus_code SendOrdersFailed = 3"
| "JobStatus_code ConsolidationDone = 4"
| "JobStatus_code ConsolidationFailed = 5"
| "JobStatus_code ConsolidationRetryFailed = 6"
| "JobStatus_code ConsolidationIndexed = 7"
| "JobStatus_code ConsolidationIndexingFailed = 8"
| "JobStatus_code DatasetsSwapped = 9"
| "JobStatus_code SwapDatasetsFailed = 10"
| "JobStatus_code DeletionStarted = 11"
| "JobStatus_code StartDeletionFailed = 12"
| "JobStatus_code DeletionReady = 13"
| "JobStatus_code DeletionNotReady = 14"
| "JobStatus_code RemovalDone = 15"
| "JobStatus_code DeletionDone = 16"
| "JobStatus_code RemovalFailed = 17"
| "JobStatus_code DeletionFailed = 18"
| "JobStatus_code CancelledByUser = 19"
| "JobStatus_code CancelledByUserForced = 20"
| "JobStatus_code CancellationFailed = 21"
| "JobStatus_code CancellationDone = 22"
| "JobStatus_code RollbackFailed = 23"
| "JobStatus_code RollbackDone = 24"
| "JobStatus_code Retried = 25"
| "JobStatus_code RetryForced = 26"
| "JobStatus_code Continue = 27"

fun TaskState_code :: "TaskState \<Rightarrow> int" where
  "TaskState_code TaskStateFAILED = 0"
| "TaskState_code TaskStateCANCELLED = 1"
| "TaskState_code TaskStateDONE = 2"
| "TaskState_code TaskStatePENDING = 3"
| "TaskState_code TaskStateNEW = 4"

fun DatasetStatus_code :: "DatasetStatus \<Rightarrow> int" where
  "DatasetStatus_code DatasetStatusACTIVE = 0"
| "DatasetStatus_code DatasetStatusTODELETE = 1"
| "DatasetStatus_code DatasetStatusINACTIVE = 2"

fun StorageClass_code :: "StorageClass \<Rightarrow> int" where
  "StorageClass_code StorageClassSTANDARD = 0"
| "StorageClass_code StorageClassINFREQUENT = 1"
| "StorageClass_code StorageClassARCHIVE = 2"
| "StorageClass_code StorageClassDEEPARCHIVE = 3"
| "StorageClass_code StorageClassUNDEFINED = 4"
| "StorageClass_code (StorageClassOther n) = n"

fun Compression_code :: "Compression \<Rightarrow> int" where
  "Compression_code CompressionNO = 0"
| "Compression_code CompressionLOSSLESS = 1"
| "Compression_code CompressionLOSSY = 2"
| "Compression_code CompressionCUSTOM = 3"
| "Compression_code (CompressionOther n) = n"

fun Resampling_code :: "Resampling \<Rightarrow> int" where
  "Resampling_code ResamplingUNDEFINED = 0"
| "Resampling_code ResamplingNEAR = 1"
| "Resampling_code ResamplingBILINEAR = 2"
| "Resampling_code ResamplingCUBIC = 3"
| "Resampling_code ResamplingCUBICSPLINE = 4"
| "Resampling_code ResamplingLANCZOS = 5"
| "Resampling_code ResamplingAVERAGE = 6"
| "Resampling_code ResamplingMODE = 7"
| "Resampling_code ResamplingMAX = 8"
| "Resampling_code ResamplingMIN = 9"
| "Resampling_code ResamplingMED = 10"
| "Resampling_code ResamplingQ1 = 11"
| "Resampling_code ResamplingQ3 = 12"
| "Resampling_code (ResamplingOther n) = n"

fun ExecutionLevel_code :: "ExecutionLevel \<Rightarrow> int" where
  "ExecutionLevel_code ExecutionSynchronous = 0"
| "ExecutionLevel_code ExecutionAsynchronous = 1"
| "ExecutionLevel_code StepByStepCritical = 2"
| "ExecutionLevel_code StepByStepMajor = 3"
| "ExecutionLevel_code StepByStepAll = 4"
| "ExecutionLevel_code StepByStepNever = 5"

fun LockFlag_code :: "LockFlag \<Rightarrow> int" where
  "LockFlag_code LockFlagALL = - 1"
| "LockFlag_code LockFlagINIT = 0"
| "LockFlag_code LockFlagTODELETE = 1"
| "LockFlag_code LockFlagNEW = 2"

fun DType_code :: "DType \<Rightarrow> int" where
  "DType_code DTypeUNDEFINED = 0"
| "DType_code DTypeUINT8 = 1"
| "DType_code DTypeUINT16 = 2"
| "DType_code DTypeUINT32 = 3"
| "DType_code DTypeINT8 = 4"
| "DType_code DTypeINT16 = 5"
| "DType_code DTypeINT32 = 6"
| "DType_code DTypeFLOAT32 = 7"
| "DType_code DTypeFLOAT64 = 8"
| "DType_code DTypeCOMPLEX64 = 9"
| "DType_code (DTypeOther n) = n"

text \<open>The conversion of an integer.\<close>

definition enum_of_code :: "('a \<Rightarrow> int) \<Rightarrow> 'a list \<Rightarrow> (int \<Rightarrow> 'a) \<Rightarrow> int \<Rightarrow> 'a" where
  "enum_of_code code named other i = (case find (\<lambda>v. code v = i) named of Some v \<Rightarrow> v | None \<Rightarrow> other i)"

definition DType_of :: "int \<Rightarrow> DType" where
  "DType_of = enum_of_code DType_code
     [DTypeUNDEFINED, DTypeUINT8, DTypeUINT16, DTypeUINT32, DTypeINT8, DTypeINT16, DTypeINT32,
      DTypeFLOAT32, DTypeFLOAT64, DTypeCOMPLEX64] DTypeOther"

definition StorageClass_of :: "int \<Rightarrow> StorageClass" where
  "StorageClass_of = enum_of_code StorageClass_code
     [StorageClassSTANDARD, StorageClassINFREQUENT, StorageClassARCHIVE, StorageClassDEEPARCHIVE,
      StorageClassUNDEFINED] StorageClassOther"

definition Compression_of :: "int \<Rightarrow> Compression" where
  "Compression_of = enum_of_code Compression_code
     [CompressionNO, CompressionLOSSLESS, CompressionLOSSY, CompressionCUSTOM] CompressionOther"

definition Resampling_of :: "int \<Rightarrow> Resampling" where
  "Resampling_of = enum_of_code Resampling_code
     [ResamplingUNDEFINED, ResamplingNEAR, ResamplingBILINEAR, ResamplingCUBIC, ResamplingCUBICSPLINE,
      ResamplingLANCZOS, ResamplingAVERAGE, ResamplingMODE, ResamplingMAX, ResamplingMIN, ResamplingMED,
      ResamplingQ1, ResamplingQ3] ResamplingOther"

lemma enum_of_code_inv:
  assumes "\<And>n. code (other n) = n"
  shows "code (enum_of_code code named other i) = i"
  using assms by (auto simp: enum_of_code_def find_Some_iff split: option.splits)

lemma enum_conversions [simp]:
  "DType_code (DType_of i) = i" "StorageClass_code (StorageClass_of i) = i"
  "Compression_code (Compression_of i) = i" "Resampling_code (Resampling_of i) = i"
  by (simp_all add: DType_of_def StorageClass_of_def Compression_of_def Resampling_of_def enum_of_code_inv)

text \<open>The levels are compared as the integers they are.\<close>

lemma ExecutionLevel_code_inj: "ExecutionLevel_code a = ExecutionLevel_code b \<Longrightarrow> a = b"
  by (cases a; cases b) simp_all

instantiation ExecutionLevel :: linorder
begin

definition less_eq_ExecutionLevel :: "ExecutionLevel \<Rightarrow> ExecutionLevel \<Rightarrow> bool" where
  "a \<le> b \<longleftrightarrow> ExecutionLevel_code a \<le> ExecutionLevel_code b"

definition less_ExecutionLevel :: "ExecutionLevel \<Rightarrow> ExecutionLevel \<Rightarrow> bool" where
  "a < b \<longleftrightarrow> ExecutionLevel_code a < ExecutionLevel_code b"

instance
  by standard (auto simp: less_eq_ExecutionLevel_def less_ExecutionLevel_def dest: ExecutionLevel_code_inj)

end

definition JobState_String :: "JobState \<Rightarrow> string" where
  "JobState_String s = enum_String JobState_table (JobState_code s)"

definition JobStatus_String :: "JobStatus \<Rightarrow> string" where
  "JobStatus_String s = enum_String JobStatus_table (JobStatus_code s)"

definition DatasetStatus_String :: "DatasetStatus \<Rightarrow> string" where
  "DatasetStatus_String s = enum_String DatasetStatus_table (DatasetStatus_code s)"

definition Compression_String :: "Compression \<Rightarrow> string" where
  "Compression_String s = enum_String Compression_table (Compression_code s)"

definition DType_String :: "DType \<Rightarrow> string" where
  "DType_String s = enum_String DType_table (DType_code s)"

text \<open>\<open>TaskStatus.String\<close> names three of the five statuses and panics on the others.\<close>

fun TaskStatus_String :: "TaskStatus \<Rightarrow> string go" where
  "TaskStatus_String TaskFailed = Ret ''TaskFailed''"
| "TaskStatus_String TaskSuccessful = Ret ''TaskSuccessful''"
| "TaskStatus_String TaskCancelled = Ret ''TaskCancelled''"
| "TaskStatus_String _ = Panic ''undefined task status''"

lemma JobState_code_valid [simp]: "enum_valid JobState_table (JobState_code s)"
  by (cases s) (simp_all add: enum_valid_def enum_size_def JobState_table_def)

lemma JobState_code_inj: "JobState_code a = JobState_code b \<Longrightarrow> a = b"
  by (cases a; cases b) simp_all

lemma JobState_String_inj: "JobState_String a = JobState_String b \<Longrightarrow> a = b"
  unfolding JobState_String_def by (blast intro: JobState_code_inj JobState.String_inj JobState_code_valid)

section \<open>Structs\<close>

type_synonym Metadata = "(string \<times> string) list"
type_synonym gtime = int

record Range = r_Min :: float64
  r_Max :: float64

record DataFormat = df_DType :: DType
  df_NoData :: float64
  df_Range :: Range

record DataMapping = dm_DataFormat :: DataFormat
  dm_RangeExt :: Range
  dm_Exponent :: float64

text \<open>A multipolygon of internal/utils/proj: SRID, flat coordinates, ends of the rings of each polygon.\<close>

record Shape = sh_SRID :: int
  sh_FlatCoords :: "float64 list"
  sh_Endss :: "nat list list"

record Dataset = d_ps :: persistenceState
  d_ID :: string
  d_RecordID :: string
  d_InstanceID :: string
  d_ContainerURI :: string
  d_ContainerSubDir :: string
  d_Bands :: "int list"
  d_DataMapping :: DataMapping
  d_Status :: DatasetStatus
  d_Shape :: Shape
  d_GeogShape :: Shape
  d_GeomShape :: Shape
  d_Overviews :: bool

record Container = c_ps :: persistenceState
  c_ID :: int
  c_URI :: string
  c_Managed :: bool
  c_StorageClass :: StorageClass
  c_Datasets :: "Dataset list"

record ConsolidationParams = cp_ps :: persistenceState
  cp_DFormat :: DataFormat
  cp_Exponent :: float64
  cp_Compression :: Compression
  cp_CreationParams :: Metadata
  cp_ResamplingAlg :: Resampling
  cp_StorageClass :: StorageClass

record VariableInstance = vi_ps :: persistenceState
  vi_ID :: string
  vi_Name :: string
  vi_Metadata :: Metadata

record Variable = v_ps :: persistenceState
  v_ID :: string
  v_Name :: string
  v_Instances :: "(string \<times> VariableInstance) list"
  v_Unit :: string
  v_Description :: string
  v_Bands :: "string list"
  v_DFormat :: DataFormat
  v_Palette :: string
  v_Resampling :: Resampling
  v_ConsolidationParams :: ConsolidationParams

record Layout = l_Name :: string
  l_GridFlags :: "string list"
  l_GridParameters :: Metadata
  l_BlockXSize :: int
  l_BlockYSize :: int
  l_MaxRecords :: int
  l_OverviewsMinSize :: int
  l_InterlacingPattern :: string

record ConsolidationDataset = cd_URI :: string
  cd_Subdir :: string
  cd_Bands :: "int list"
  cd_Overviews :: bool
  cd_DatasetFormat :: DataMapping

record ConsolidationRecord = cr_ID :: string
  cr_DateTime :: string
  cr_Datasets :: "ConsolidationDataset list"
  cr_ValidShape :: "Shape option"

record ConsolidationContainer = cc_URI :: string
  cc_DatasetFormat :: DataMapping
  cc_CRS :: string
  cc_Transform :: "float64 list"
  cc_Width :: int
  cc_Height :: int
  cc_Cutline :: string
  cc_BandsCount :: int
  cc_BlockXSize :: int
  cc_BlockYSize :: int
  cc_InterlacingPattern :: string
  cc_OverviewsMinSize :: int
  cc_ResamplingAlg :: Resampling
  cc_OvrResamplingAlg :: Resampling
  cc_OptimizeExtent :: bool
  cc_CreationParams :: Metadata
  cc_StorageClass :: StorageClass

record ConsolidationEvent = ce_JobID :: string
  ce_TaskID :: string
  ce_Records :: "ConsolidationRecord list"
  ce_Container :: ConsolidationContainer

record TaskEvent = te_JobID :: string
  te_TaskID :: string
  te_Status :: TaskStatus
  te_Error :: string

record JobEvent = je_JobID :: string
  je_Status :: JobStatus
  je_Error :: string

text \<open>
  The bytes of a task: the gob encoding of a consolidation event (kept symbolic, a decoder of
  encoding/gob accepts exactly these), or the bytes of a container URI.
\<close>

datatype payload = GobEvent ConsolidationEvent | RawBytes string

record Task = t_ps :: persistenceState
  t_ID :: string
  t_State :: TaskState
  t_Payload :: payload

record JobPayload = jp_Layout :: string
  jp_InstanceID :: string
  jp_ParamsID :: string
  jp_CollapseRecordId :: string

record JobLog = jl_Severity :: LogSeverity
  jl_Msg :: string
  jl_Status :: string
  jl_Date :: gtime

record LockedDatasets = ld_ps :: persistenceState
  ld_newDatasetsID :: "string list"

record Job = j_ps :: persistenceState
  j_State :: JobState
  j_ID :: string
  j_Name :: string
  j_Type :: JobType
  j_CreationTime :: gtime
  j_occTime :: gtime
  j_LastUpdateTime :: gtime
  j_Payload :: JobPayload
  j_Logs :: "JobLog list"
  j_LogsCount :: int
  j_NewLogs :: "JobLog list"
  j_ActiveTasks :: int
  j_FailedTasks :: int
  j_ExecutionLevel :: ExecutionLevel
  j_Waiting :: bool
  j_Tasks :: "Task list"
  j_Params :: "ConsolidationParams option"
  j_LockedDatasets :: "LockedDatasets list"

text \<open>Record equality and update, the way every component proof uses them.\<close>

lemmas geocube_records = Range.equality DataFormat.equality DataMapping.equality Shape.equality

end
