(* ===== verification/Utils.thy ===== *)
theory Utils
  imports GoFloat
begin

text \<open>
  Helpers: internal/utils/slice.go, internal/utils/utils.go and the names of internal/geocube/urn.go.
  Regular expressions of the source are written out as predicates on strings; the lemma
  \<open>isValidURN_language\<close> relates the one for names to the language of its expression.
\<close>

section \<open>Slices\<close>

definition SliceInt64Equal :: "int list \<Rightarrow> int list \<Rightarrow> bool" where
  "SliceInt64Equal a b =
     (if length a \<noteq> length b then False else list_all (\<lambda>i. a ! i = b ! i) [0..<length a])"

definition JoinInt64 :: "int list \<Rightarrow> string \<Rightarrow> string" where
  "JoinInt64 elems sep = str_join sep (map itoa elems)"

lemma SliceInt64Equal_iff [simp]: "SliceInt64Equal a b \<longleftrightarrow> a = b"
proof -
  have "SliceInt64Equal a b \<longleftrightarrow> length a = length b \<and> (\<forall>i<length a. a ! i = b ! i)"
    by (auto simp: SliceInt64Equal_def list_all_iff)
  then show ?thesis by (simp add: list_eq_iff_nth_eq)
qed

text \<open>\<open>convertSize\<close> is the length of a byte slice read as elements of size \<open>d\<close>.\<close>

definition convertSize :: "nat \<Rightarrow> nat \<Rightarrow> nat go" where
  "convertSize l d =
     (if l mod d \<noteq> 0 then Panic (''len must be a multiple of '' @ itoa (int d)) else Ret (l div d))"

section \<open>Numbers\<close>

definition AverageElemF :: "float64 list \<Rightarrow> float64" where
  "AverageElemF vs = f_div (fold (\<lambda>v va. f_add va v) vs (Fin 0)) (round64 (of_nat (length vs)))"

fun MinElemF :: "float64 list \<Rightarrow> float64 go" where
  "MinElemF [] = Panic ''runtime error: index out of range''"
| "MinElemF (v # vs) = Ret (fold (\<lambda>w vm. if f_lt w vm then w else vm) (v # vs) v)"

fun MaxElemF :: "float64 list \<Rightarrow> float64 go" where
  "MaxElemF [] = Panic ''runtime error: index out of range''"
| "MaxElemF (v # vs) = Ret (fold (\<lambda>w vm. if f_gt w vm then w else vm) (v # vs) v)"

definition MinI :: "int \<Rightarrow> int \<Rightarrow> int" where "MinI a b = (if a < b then a else b)"
definition MaxI :: "int \<Rightarrow> int \<Rightarrow> int" where "MaxI a b = (if a > b then a else b)"

lemma MinI_min [simp]: "MinI a b = min a b" by (simp add: MinI_def min_def)
lemma MaxI_max [simp]: "MaxI a b = max a b" by (simp add: MaxI_def max_def)

lemma f_le_trans: "f_le a b \<Longrightarrow> f_le b c \<Longrightarrow> f_le a c"
  by (metis f_le_def f_eq_iff f_lt_trans)

lemma fold_min_in: "fold (\<lambda>w vm. if f_lt w vm then w else vm) vs x \<in> insert x (set vs)"
proof (induction vs arbitrary: x)
  case (Cons v vs)
  from Cons.IH [of "if f_lt v x then v else x"] show ?case by auto
qed simp

lemma fold_min_le:
  "NaN \<notin> set vs \<Longrightarrow> x \<noteq> NaN \<Longrightarrow> w \<in> insert x (set vs) \<Longrightarrow>
   f_le (fold (\<lambda>w vm. if f_lt w vm then w else vm) vs x) w"
proof (induction vs arbitrary: x w)
  case Nil
  then show ?case by (simp add: f_le_def f_eq_iff)
next
  case (Cons v vs)
  let ?m = "if f_lt v x then v else x"
  have m: "?m \<noteq> NaN" "f_le ?m x" "f_le ?m v"
    using Cons.prems f_linear [of v x] by (auto simp: f_le_def f_eq_iff)
  let ?r = "fold (\<lambda>w vm. if f_lt w vm then w else vm) vs ?m"
  have r: "f_le ?r y" if "y \<in> insert ?m (set vs)" for y
    using Cons.IH [of ?m] Cons.prems m(1) that by simp
  have "f_le ?r ?m" by (rule r) simp
  then have "f_le ?r x" "f_le ?r v" using m(2,3) f_le_trans by blast+
  moreover have "f_le ?r w" if "w \<in> set vs" using r that by simp
  ultimately have "f_le ?r w" using Cons.prems(3) by auto
  then show ?case by simp
qed

section \<open>Paths\<close>

text \<open>\<open>path.Clean\<close> and \<open>path.Join\<close> on the segments between slashes.\<close>

fun split_on :: "char \<Rightarrow> string \<Rightarrow> string list" where
  "split_on c [] = [[]]"
| "split_on c (x # xs) =
     (if x = c then [] # split_on c xs
      else case split_on c xs of [] \<Rightarrow> [[x]] | y # ys \<Rightarrow> (x # y) # ys)"

lemma split_on_nonempty [simp]: "split_on c s \<noteq> []"
  by (induction s) (auto split: list.splits)

lemma join_split_on: "str_join [c] (split_on c s) = s"
proof (induction s)
  case (Cons x xs)
  then show ?case by (cases "split_on c xs") (auto, (metis append_Cons neq_Nil_conv str_join.simps(2,3))+)
qed simp

lemma split_on_no_sep: "seg \<in> set (split_on c s) \<Longrightarrow> c \<notin> set seg"
  by (induction s arbitrary: seg) (auto split: list.splits if_splits)

lemma split_on_join:
  assumes "segs \<noteq> []" "\<And>seg. seg \<in> set segs \<Longrightarrow> c \<notin> set seg"
  shows "split_on c (str_join [c] segs) = segs"
proof -
  have one: "c \<notin> set s \<Longrightarrow> split_on c s = [s]" for s by (induction s) auto
  have app: "c \<notin> set s \<Longrightarrow> split_on c (s @ c # t) = s # split_on c t" for s t
    by (induction s) (auto split: list.splits)
  show ?thesis using assms
    by (induction "[c]" segs rule: str_join.induct) (auto simp: one app)
qed

section \<open>Names\<close>

definition char_between :: "char \<Rightarrow> char \<Rightarrow> char \<Rightarrow> bool" where
  "char_between a b c \<longleftrightarrow> (of_char a :: nat) \<le> of_char c \<and> (of_char c :: nat) \<le> of_char b"

text \<open>The class \<open>[a-zA-Z0-9-:_]\<close>.\<close>

definition urn_char :: "char \<Rightarrow> bool" where
  "urn_char c \<longleftrightarrow> char_between CHR ''a'' CHR ''z'' c \<or> char_between CHR ''A'' CHR ''Z'' c \<or>
     char_between CHR ''0'' CHR ''9'' c \<or> c \<in> {CHR ''-'', CHR '':'', CHR ''_''}"

definition name_segment :: "string \<Rightarrow> bool" where
  "name_segment s \<longleftrightarrow> s \<noteq> [] \<and> list_all urn_char s"

definition isValidURN :: "string \<Rightarrow> bool" where
  "isValidURN s = list_all name_segment (split_on CHR ''/'' s)"

lemma isValidURN_language:
  "isValidURN s \<longleftrightarrow> (\<exists>seg segs. s = str_join ''/'' (seg # segs) \<and> list_all name_segment (seg # segs))"
proof
  assume "isValidURN s"
  then show "\<exists>seg segs. s = str_join ''/'' (seg # segs) \<and> list_all name_segment (seg # segs)"
    by (metis isValidURN_def join_split_on list.exhaust split_on_nonempty)
next
  assume "\<exists>seg segs. s = str_join ''/'' (seg # segs) \<and> list_all name_segment (seg # segs)"
  then obtain seg segs where s: "s = str_join ''/'' (seg # segs)" "list_all name_segment (seg # segs)" by blast
  have "CHR ''/'' \<notin> set x" if "name_segment x" for x
    using that by (auto simp: name_segment_def list_all_iff urn_char_def char_between_def)
  then have "split_on CHR ''/'' s = seg # segs"
    using s by (auto simp: list_all_iff intro!: split_on_join)
  with s show "isValidURN s" by (simp add: isValidURN_def)
qed

lemma isValidURN_not_empty: "\<not> isValidURN []"
  by (simp add: isValidURN_def name_segment_def)

end
