(* ===== verification/Geometry.thy ===== *)
theory Geometry
  imports GeocubeTypes Utils
begin

text \<open>
  Affine transforms (internal/utils/affine/affine.go) and the coordinate handling of
  internal/utils/proj/proj.go that does not project: interleaving of coordinates, rings of extents, equality
  of shapes, and the choice of a coordinate reference system from user input.  GDAL is the parameter
  \<open>gdal\<close>: its constructors of a reference system and its authority lookup.
\<close>

section \<open>Affine transforms\<close>

definition round128 :: "rat \<Rightarrow> rat" where
  "round128 q = (if q = 0 then 0 else let u = pow2 (exponent2 \<bar>q\<bar> - 127) in of_int (round_half_even (q / u)) * u)"

text \<open>Arithmetic of \<open>big.Float\<close> with 128 bits; it panics where the result would not be a number.\<close>

fun big_new :: "float64 \<Rightarrow> float64 go" where
  "big_new NaN = Panic ''NewFloat(NaN)''"
| "big_new x = Ret x"

fun big_mul :: "float64 \<Rightarrow> float64 \<Rightarrow> float64 go" where
  "big_mul (Fin a) (Fin b) = Ret (Fin (round128 (a * b)))"
| "big_mul x y = (if f_sign x * f_sign y = 0 then Panic ''multiplication of zero with infinity''
                  else Ret (signed_inf (f_sign x * f_sign y)))"

fun big_add :: "float64 \<Rightarrow> float64 \<Rightarrow> float64 go" where
  "big_add (Fin a) (Fin b) = Ret (Fin (round128 (a + b)))"
| "big_add PosInf NegInf = Panic ''addition of infinities with opposite signs''"
| "big_add NegInf PosInf = Panic ''addition of infinities with opposite signs''"
| "big_add (Fin a) y = Ret y"
| "big_add x y = Ret x"

fun big_Float64 :: "float64 \<Rightarrow> float64" where
  "big_Float64 (Fin q) = round64 q"
| "big_Float64 x = x"

definition highPrecisionTransform :: "float64 \<Rightarrow> float64 \<Rightarrow> float64 \<Rightarrow> float64 \<Rightarrow> float64 \<Rightarrow> float64 go" where
  "highPrecisionTransform sx x sy y origin =
     go_bind (big_new sx) (\<lambda>sX. go_bind (big_new sy) (\<lambda>sY. go_bind (big_new x) (\<lambda>X.
     go_bind (big_new y) (\<lambda>Y. go_bind (big_new origin) (\<lambda>Or.
     go_bind (big_mul sX X) (\<lambda>px. go_bind (big_add Or px) (\<lambda>s1.
     go_bind (big_mul sY Y) (\<lambda>py. go_bind (big_add s1 py) (\<lambda>s2. Ret (big_Float64 s2))))))))))"

record Affine = a0 :: float64
  a1 :: float64
  a2 :: float64
  a3 :: float64
  a4 :: float64
  a5 :: float64

definition NewAffine :: "float64 \<Rightarrow> float64 \<Rightarrow> float64 \<Rightarrow> float64 \<Rightarrow> float64 \<Rightarrow> float64 \<Rightarrow> Affine" where
  "NewAffine a b c d e f = \<lparr>a0 = a, a1 = b, a2 = c, a3 = d, a4 = e, a5 = f\<rparr>"

definition Translation :: "float64 \<Rightarrow> float64 \<Rightarrow> Affine" where
  "Translation offx offy = NewAffine offx (Fin 1) (Fin 0) offy (Fin 0) (Fin 1)"

definition Scale :: "float64 \<Rightarrow> float64 \<Rightarrow> Affine" where
  "Scale scalex scaley = NewAffine (Fin 0) scalex (Fin 0) (Fin 0) (Fin 0) scaley"

definition Rx :: "Affine \<Rightarrow> float64" where "Rx a = a1 a"
definition Ry :: "Affine \<Rightarrow> float64" where "Ry a = a5 a"

definition Transform :: "Affine \<Rightarrow> float64 \<Rightarrow> float64 \<Rightarrow> (float64 \<times> float64) go" where
  "Transform a x y =
     go_bind (highPrecisionTransform (a1 a) x (a2 a) y (a0 a)) (\<lambda>u.
     go_bind (highPrecisionTransform (a4 a) x (a5 a) y (a3 a)) (\<lambda>v. Ret (u, v)))"

definition IsInvertible :: "Affine \<Rightarrow> bool" where
  "IsInvertible a \<longleftrightarrow> \<not> f_eq (f_mul (a1 a) (a5 a)) (f_mul (a2 a) (a4 a))"

definition Inverse :: "Affine \<Rightarrow> Affine go" where
  "Inverse a =
     (let idet = f_div (Fin 1) (f_sub (f_mul (a1 a) (a5 a)) (f_mul (a2 a) (a4 a)));
          res = \<lparr>a0 = Fin 0, a1 = f_mul (a5 a) idet, a2 = f_mul (f_neg (a2 a)) idet,
                 a3 = Fin 0, a4 = f_mul (f_neg (a4 a)) idet, a5 = f_mul (a1 a) idet\<rparr>
      in go_bind (Transform res (f_neg (a0 a)) (f_neg (a3 a))) (\<lambda>(u, v). Ret (res\<lparr>a0 := u, a3 := v\<rparr>)))"

definition Multiply :: "Affine \<Rightarrow> Affine \<Rightarrow> Affine go" where
  "Multiply a b =
     go_bind (highPrecisionTransform (a1 a) (a0 b) (a2 a) (a3 b) (a0 a)) (\<lambda>m0.
     go_bind (highPrecisionTransform (a1 a) (a1 b) (a2 a) (a4 b) (Fin 0)) (\<lambda>m1.
     go_bind (highPrecisionTransform (a1 a) (a2 b) (a2 a) (a5 b) (Fin 0)) (\<lambda>m2.
     go_bind (highPrecisionTransform (a4 a) (a0 b) (a5 a) (a3 b) (a3 a)) (\<lambda>m3.
     go_bind (highPrecisionTransform (a4 a) (a1 b) (a5 a) (a4 b) (Fin 0)) (\<lambda>m4.
     go_bind (highPrecisionTransform (a4 a) (a2 b) (a5 a) (a5 b) (Fin 0)) (\<lambda>m5.
       Ret (NewAffine m0 m1 m2 m3 m4 m5)))))))"

section \<open>Flat coordinates and shapes\<close>

definition FlatCoordToXY :: "float64 list \<Rightarrow> float64 list \<times> float64 list" where
  "FlatCoordToXY flat =
     (let n = length flat div 2
      in (map (\<lambda>i. flat ! (2 * i)) [0..<n], map (\<lambda>i. flat ! (2 * i + 1)) [0..<n]))"

definition XYToFlatCoord :: "float64 list \<Rightarrow> float64 list \<Rightarrow> float64 list go" where
  "XYToFlatCoord x y =
     (if length y < length x then Panic ''runtime error: index out of range''
      else Ret (concat (map (\<lambda>i. [x ! i, y ! i]) [0..<length x])))"

definition Shape_Equal :: "Shape \<Rightarrow> Shape \<Rightarrow> bool" where
  "Shape_Equal s s2 \<longleftrightarrow> sh_SRID s = sh_SRID s2 \<and> SliceFloat64Equal (sh_FlatCoords s) (sh_FlatCoords s2)"

definition NewShape :: "int \<Rightarrow> Shape \<Rightarrow> Shape" where
  "NewShape srid mp = mp\<lparr>sh_SRID := srid\<rparr>"

text \<open>The flat coordinates of the extent; \<open>bounds\<close> is the polygon go-geom makes of a box.\<close>

definition NewPolygonFromExtent ::
  "(float64 \<Rightarrow> float64 \<Rightarrow> float64 \<Rightarrow> float64 \<Rightarrow> float64 list) \<Rightarrow> Affine \<Rightarrow> int \<Rightarrow> int \<Rightarrow> float64 list go" where
  "NewPolygonFromExtent bounds pixToCrs width height =
     go_bind (Transform pixToCrs (Fin 0) (Fin 0)) (\<lambda>(xMin, yMin).
     go_bind (Transform pixToCrs (round64 (of_int width)) (round64 (of_int height))) (\<lambda>(xMax, yMax).
       let (xMin, xMax) = (if f_gt xMin xMax then (xMax, xMin) else (xMin, xMax));
           (yMin, yMax) = (if f_gt yMin yMax then (yMax, yMin) else (yMin, yMax))
       in Ret (bounds xMin yMin xMax yMax)))"

section \<open>Reference systems\<close>

record 'crs gdal = g_FromEPSG :: "int \<Rightarrow> gerr + 'crs"
  g_FromProj4 :: "string \<Rightarrow> gerr + 'crs"
  g_FromWKT :: "string \<Rightarrow> gerr + 'crs"
  g_Authority :: "'crs \<Rightarrow> bool \<Rightarrow> string \<Rightarrow> string \<times> string"

definition is_digit :: "char \<Rightarrow> bool" where
  "is_digit c = char_between CHR ''0'' CHR ''9'' c"

definition digits_value :: "string \<Rightarrow> int" where
  "digits_value s = fold (\<lambda>c n. 10 * n + (of_char c - 48)) s 0"

text \<open>\<open>strconv.Atoi\<close>: an optional sign, at least one digit, the value within 64 bits.\<close>

definition Atoi :: "string \<Rightarrow> int option" where
  "Atoi s =
     (let (neg, ds) = (case s of [] \<Rightarrow> (False, []) | c # cs \<Rightarrow>
            if c = CHR ''-'' then (True, cs) else if c = CHR ''+'' then (False, cs) else (False, s));
          v = (if neg then - digits_value ds else digits_value ds)
      in if ds \<noteq> [] \<and> list_all is_digit ds \<and> - (2 ^ 63) \<le> v \<and> v < 2 ^ 63 then Some v else None)"

definition Srid_lookup :: "'crs gdal \<Rightarrow> 'crs \<Rightarrow> bool \<Rightarrow> string \<Rightarrow> int option" where
  "Srid_lookup g crs identified entity =
     (let (name, code) = g_Authority g crs identified entity in if name = ''EPSG'' then Atoi code else None)"

definition Srid :: "'crs gdal \<Rightarrow> 'crs option \<Rightarrow> int" where
  "Srid g co =
     (case co of None \<Rightarrow> 0
      | Some crs \<Rightarrow>
          (case List.map_filter (\<lambda>(identified, entity). Srid_lookup g crs identified entity)
                  [(False, ''PROJCS''), (True, ''PROJCS''), (True, ''LOCAL_CS''), (True, ''GEOGCS'')] of
             [] \<Rightarrow> 0 | srid # _ \<Rightarrow> srid))"

definition with_srid :: "'crs gdal \<Rightarrow> (gerr + 'crs) \<Rightarrow> gerr + ('crs \<times> int)" where
  "with_srid g r = (case r of Inl e \<Rightarrow> Inl e | Inr crs \<Rightarrow> Inr (crs, Srid g (Some crs)))"

definition from_epsg :: "'crs gdal \<Rightarrow> int \<Rightarrow> gerr + ('crs \<times> int)" where
  "from_epsg g epsg = (case g_FromEPSG g epsg of Inl e \<Rightarrow> Inl e | Inr crs \<Rightarrow> Inr (crs, epsg))"

definition CRSFromUserInput :: "'crs gdal \<Rightarrow> string \<Rightarrow> (gerr + ('crs \<times> int)) go" where
  "CRSFromUserInput g input =
     (case Atoi input of
        Some epsg \<Rightarrow> Ret (from_epsg g epsg)
      | None \<Rightarrow>
          if HasPrefix (ToLower input) ''epsg''
          then (if length input < 5 then Panic ''runtime error: slice bounds out of range''
                else case Atoi (drop 5 input) of
                       None \<Rightarrow> Ret (Inl (PlainE ''strconv.Atoi: parsing''))
                     | Some epsg \<Rightarrow> Ret (from_epsg g epsg))
          else if HasPrefix input ''+'' then Ret (with_srid g (g_FromProj4 g input))
          else Ret (with_srid g (g_FromWKT g input)))"

section \<open>Lemmas\<close>

lemma FlatCoordToXY_lengths:
  "length (fst (FlatCoordToXY flat)) = length flat div 2" "length (snd (FlatCoordToXY flat)) = length flat div 2"
  by (simp_all add: FlatCoordToXY_def Let_def)

lemma concat_pairs_nth:
  "k < n \<Longrightarrow> concat (map (\<lambda>i. [f i, g i]) [0..<n]) ! (2 * k) = f k \<and>
            concat (map (\<lambda>i. [f i, g i]) [0..<n]) ! (2 * k + 1) = g k"
proof (induction n)
  case (Suc n)
  have "length (concat (map (\<lambda>i. [f i, g i]) [0..<n])) = 2 * n" by (induction n) simp_all
  with Suc show ?case by (cases "k = n") (auto simp: nth_append)
qed simp

lemma length_concat_pairs: "length (concat (map (\<lambda>i. [f i, g i]) [0..<n])) = 2 * n"
  by (induction n) simp_all

lemma flat_of_xy:
  assumes "even (length flat)"
  shows "XYToFlatCoord (fst (FlatCoordToXY flat)) (snd (FlatCoordToXY flat)) = Ret flat"
proof -
  let ?n = "length flat div 2"
  have "concat (map (\<lambda>i. [flat ! (2 * i), flat ! (2 * i + 1)]) [0..<?n]) = flat"
  proof (rule nth_equalityI)
    fix i assume "i < length (concat (map (\<lambda>i. [flat ! (2 * i), flat ! (2 * i + 1)]) [0..<?n]))"
    then have "i < 2 * ?n" by (simp add: length_concat_pairs)
    then show "concat (map (\<lambda>i. [flat ! (2 * i), flat ! (2 * i + 1)]) [0..<?n]) ! i = flat ! i"
      using concat_pairs_nth [of "i div 2" ?n "\<lambda>i. flat ! (2 * i)" "\<lambda>i. flat ! (2 * i + 1)"]
      by (cases "even i") (auto elim!: evenE oddE)
  qed (use assms in \<open>simp add: length_concat_pairs\<close>)
  moreover have "concat (map (\<lambda>i. [map f [0..<n] ! i, map g [0..<n] ! i]) [0..<n]) =
      concat (map (\<lambda>i. [f i, g i]) [0..<n])" for f g :: "nat \<Rightarrow> float64" and n
    by (intro arg_cong [where f = concat] map_cong) auto
  ultimately show ?thesis by (simp add: XYToFlatCoord_def FlatCoordToXY_def Let_def)
qed

lemma xy_of_flat:
  assumes "length x = length y"
  shows "go_bind (XYToFlatCoord x y) (\<lambda>flat. Ret (FlatCoordToXY flat)) = Ret (x, y)"
  using assms concat_pairs_nth [of _ "length y" "\<lambda>i. x ! i" "\<lambda>i. y ! i"]
  by (auto simp: XYToFlatCoord_def FlatCoordToXY_def Let_def length_concat_pairs intro!: nth_equalityI)

lemma Shape_Equal_iff:
  "Shape_Equal s s2 \<longleftrightarrow> sh_SRID s = sh_SRID s2 \<and> sh_FlatCoords s = sh_FlatCoords s2 \<and> NaN \<notin> set (sh_FlatCoords s)"
  by (auto simp: Shape_Equal_def SliceFloat64Equal_iff)

end
