(* ===== verification/DataFormats.thy ===== *)
theory DataFormats
  imports GeocubeTypes
begin

text \<open>
  Raster formats: internal/geocube/dataformat.go and the type table of internal/utils/bitmap/datatype.go.
  Limits of each data type, casts, validation of ranges, and equality of mappings.  The type table is an
  array indexed by the type, so a type outside the table panics; a nil protobuf message reads as zeros.
\<close>

section \<open>Data types\<close>

definition minValues :: "rat list" where
  "minValues = [- MaxFloat64, 0, 0, 0, - 128, - 32768, - 2147483648, - MaxFloat32, - MaxFloat64, - MaxFloat64]"

definition maxValues :: "rat list" where
  "maxValues = [MaxFloat64, 255, 65535, 4294967295, 127, 32767, 2147483647, MaxFloat32, MaxFloat64, MaxFloat64]"

definition array_at :: "rat list \<Rightarrow> int \<Rightarrow> float64 go" where
  "array_at xs i =
     (if 0 \<le> i \<and> i < int (length xs) then Ret (Fin (xs ! nat i))
      else Panic ''runtime error: index out of range'')"

definition MinValue :: "DType \<Rightarrow> float64 go" where
  "MinValue t = array_at minValues (DType_code t)"

definition MaxValue :: "DType \<Rightarrow> float64 go" where
  "MaxValue t = array_at maxValues (DType_code t)"

definition CanCastTo :: "DType \<Rightarrow> DType \<Rightarrow> bool" where
  "CanCastTo t t' =
     (if t = t' then True
      else case t of DTypeCOMPLEX64 \<Rightarrow> t' = DTypeCOMPLEX64 | _ \<Rightarrow> t' \<noteq> DTypeCOMPLEX64)"

fun IsFloatingPointFormat :: "DType \<Rightarrow> bool" where
  "IsFloatingPointFormat DTypeFLOAT32 = True"
| "IsFloatingPointFormat DTypeFLOAT64 = True"
| "IsFloatingPointFormat DTypeCOMPLEX64 = True"
| "IsFloatingPointFormat _ = False"

text \<open>The data types of GDAL that the code names; any other one is \<open>GdalOther\<close>.\<close>

datatype GdalType = GdalUnknown | GdalByte | GdalUInt16 | GdalUInt32 | GdalInt8 | GdalInt16 | GdalInt32
  | GdalFloat32 | GdalFloat64 | GdalCFloat32 | GdalOther int

fun DType_ToGDAL :: "DType \<Rightarrow> GdalType" where
  "DType_ToGDAL DTypeUINT8 = GdalByte"
| "DType_ToGDAL DTypeUINT16 = GdalUInt16"
| "DType_ToGDAL DTypeUINT32 = GdalUInt32"
| "DType_ToGDAL DTypeINT8 = GdalInt8"
| "DType_ToGDAL DTypeINT16 = GdalInt16"
| "DType_ToGDAL DTypeINT32 = GdalInt32"
| "DType_ToGDAL DTypeFLOAT32 = GdalFloat32"
| "DType_ToGDAL DTypeFLOAT64 = GdalFloat64"
| "DType_ToGDAL DTypeCOMPLEX64 = GdalCFloat32"
| "DType_ToGDAL _ = GdalUnknown"

fun DTypeFromGDal :: "GdalType \<Rightarrow> DType" where
  "DTypeFromGDal GdalByte = DTypeUINT8"
| "DTypeFromGDal GdalUInt16 = DTypeUINT16"
| "DTypeFromGDal GdalUInt32 = DTypeUINT32"
| "DTypeFromGDal GdalInt8 = DTypeINT8"
| "DTypeFromGDal GdalInt16 = DTypeINT16"
| "DTypeFromGDal GdalInt32 = DTypeINT32"
| "DTypeFromGDal GdalFloat32 = DTypeFLOAT32"
| "DTypeFromGDal GdalFloat64 = DTypeFLOAT64"
| "DTypeFromGDal GdalCFloat32 = DTypeCOMPLEX64"
| "DTypeFromGDal _ = DTypeUNDEFINED"

definition DTypeFromString :: "string \<Rightarrow> DType" where
  "DTypeFromString s =
     (let l = ToLower s
      in if l \<in> {''byte'', ''uint8''} then DTypeUINT8
         else if l = ''uint16'' then DTypeUINT16
         else if l = ''uint32'' then DTypeUINT32
         else if l = ''int8'' then DTypeINT8
         else if l = ''int16'' then DTypeINT16
         else if l = ''int32'' then DTypeINT32
         else if l = ''float32'' then DTypeFLOAT32
         else if l = ''float64'' then DTypeFLOAT64
         else if l = ''cfloat64'' then DTypeCOMPLEX64
         else DTypeUNDEFINED)"

fun DType_Size :: "DType \<Rightarrow> int go" where
  "DType_Size DTypeUINT8 = Ret 1"
| "DType_Size DTypeINT8 = Ret 1"
| "DType_Size DTypeUINT16 = Ret 2"
| "DType_Size DTypeINT16 = Ret 2"
| "DType_Size DTypeUINT32 = Ret 4"
| "DType_Size DTypeINT32 = Ret 4"
| "DType_Size DTypeFLOAT32 = Ret 4"
| "DType_Size DTypeFLOAT64 = Ret 8"
| "DType_Size DTypeCOMPLEX64 = Ret 8"
| "DType_Size _ = Panic ''Unknown type''"

section \<open>Formats and mappings\<close>

record pb_DataFormat = pbdf_Dtype :: int
  pbdf_NoData :: float64
  pbdf_MinValue :: float64
  pbdf_MaxValue :: float64

definition NewDataFormatFromProtobuf :: "pb_DataFormat option \<Rightarrow> DataFormat" where
  "NewDataFormatFromProtobuf pbo =
     (let pb = (case pbo of Some pb \<Rightarrow> pb
                | None \<Rightarrow> \<lparr>pbdf_Dtype = 0, pbdf_NoData = Fin 0, pbdf_MinValue = Fin 0, pbdf_MaxValue = Fin 0\<rparr>)
      in \<lparr>df_DType = DType_of (pbdf_Dtype pb), df_NoData = pbdf_NoData pb,
          df_Range = \<lparr>r_Min = pbdf_MinValue pb, r_Max = pbdf_MaxValue pb\<rparr>\<rparr>)"

definition DataFormat_ToProtobuf :: "DataFormat \<Rightarrow> pb_DataFormat" where
  "DataFormat_ToProtobuf df =
     \<lparr>pbdf_Dtype = DType_code (df_DType df), pbdf_NoData = df_NoData df,
      pbdf_MinValue = r_Min (df_Range df), pbdf_MaxValue = r_Max (df_Range df)\<rparr>"

definition Interval :: "Range \<Rightarrow> float64" where
  "Interval r = f_sub (r_Max r) (r_Min r)"

definition Range_validate :: "Range \<Rightarrow> gerr option" where
  "Range_validate r =
     (if f_ge (r_Min r) (r_Max r) then Some (PlainE ''min must be stricly lower than max'') else None)"

definition DataFormat_validate :: "DataFormat \<Rightarrow> gerr option go" where
  "DataFormat_validate df =
     go_bind (MinValue (df_DType df)) (\<lambda>minValue.
     go_bind (MaxValue (df_DType df)) (\<lambda>maxValue.
       if \<not> (f_ge (r_Min (df_Range df)) minValue \<and> f_le (r_Max (df_Range df)) maxValue)
       then Ret (Some (PlainE (''min/max value are out of bounds ['' @ fmt_f minValue @ '', '' @ fmt_f maxValue @ '']'')))
       else (case Range_validate (df_Range df) of
               Some e \<Rightarrow> Ret (Some e)
             | None \<Rightarrow>
                 if \<not> IsNaN (df_NoData df) \<and> (f_lt (df_NoData df) minValue \<or> f_gt (df_NoData df) maxValue)
                 then Ret (Some (PlainE (''noData value ('' @ fmt_f (df_NoData df) @
                        '') is not supported by the data type ('' @ DType_String (df_DType df) @
                        ''). If nodata is not defined, set it to NaN'')))
                 else Ret None)))"

definition DataMapping_validate :: "DataMapping \<Rightarrow> gerr option go" where
  "DataMapping_validate dm =
     go_bind (DataFormat_validate (dm_DataFormat dm)) (\<lambda>eo.
       case eo of Some e \<Rightarrow> Ret (Some e)
       | None \<Rightarrow> (case Range_validate (dm_RangeExt dm) of Some e \<Rightarrow> Ret (Some e)
       | None \<Rightarrow> if f_le (dm_Exponent dm) (Fin 0)
                 then Ret (Some (NewValidationError ''invalid exponent (must be strictly positive)''))
                 else Ret None))"

definition NoDataDefined :: "DataFormat \<Rightarrow> bool" where
  "NoDataDefined df \<longleftrightarrow> \<not> IsNaN (df_NoData df) \<or> IsFloatingPointFormat (df_DType df)"

definition Range_eq :: "Range \<Rightarrow> Range \<Rightarrow> bool" where
  "Range_eq r r' \<longleftrightarrow> f_eq (r_Min r) (r_Min r') \<and> f_eq (r_Max r) (r_Max r')"

definition DataFormat_Equals :: "DataFormat \<Rightarrow> DataFormat \<Rightarrow> bool" where
  "DataFormat_Equals df df' \<longleftrightarrow>
     df_DType df = df_DType df' \<and> Range_eq (df_Range df) (df_Range df') \<and>
     (f_eq (df_NoData df) (df_NoData df') \<or> (IsNaN (df_NoData df) \<and> IsNaN (df_NoData df')))"

definition DataMapping_Equals :: "DataMapping \<Rightarrow> DataMapping \<Rightarrow> bool" where
  "DataMapping_Equals dm dm' \<longleftrightarrow>
     DataFormat_Equals (dm_DataFormat dm) (dm_DataFormat dm') \<and>
     Range_eq (dm_RangeExt dm) (dm_RangeExt dm') \<and> f_eq (dm_Exponent dm) (dm_Exponent dm')"

definition canCastTo :: "DataFormat \<Rightarrow> DataFormat \<Rightarrow> bool" where
  "canCastTo df dTo = CanCastTo (df_DType df) (df_DType dTo)"

definition validForPacking :: "DataFormat \<Rightarrow> bool" where
  "validForPacking df = True"

definition Range_string :: "Range \<Rightarrow> string" where
  "Range_string r = ''['' @ F64ToS (r_Min r) @ '' -> '' @ F64ToS (r_Max r) @ '']''"

definition DataFormat_string :: "DataFormat \<Rightarrow> string" where
  "DataFormat_string df =
     ''('' @ DType_String (df_DType df) @ '' '' @ Range_string (df_Range df) @ '', nodata:'' @
     F64ToS (df_NoData df) @ '')''"

section \<open>Lemmas\<close>

fun named_dtype :: "DType \<Rightarrow> bool" where
  "named_dtype (DTypeOther n) = False"
| "named_dtype _ = True"

lemma dtype_limits:
  assumes "named_dtype t"
  obtains a b where "MinValue t = Ret (Fin a)" "MaxValue t = Ret (Fin b)" "a < b"
  using assms
  by (cases t) (auto simp: MinValue_def MaxValue_def array_at_def minValues_def maxValues_def
      MaxFloat64_def MaxFloat32_def)

text \<open>What an accepted format guarantees.\<close>

lemma DataFormat_validate_Ret_None:
  "DataFormat_validate df = Ret None \<longleftrightarrow>
     (\<exists>lo hi. MinValue (df_DType df) = Ret lo \<and> MaxValue (df_DType df) = Ret hi \<and>
        f_le lo (r_Min (df_Range df)) \<and> f_lt (r_Min (df_Range df)) (r_Max (df_Range df)) \<and>
        f_le (r_Max (df_Range df)) hi \<and>
        (df_NoData df = NaN \<or> f_le lo (df_NoData df) \<and> f_le (df_NoData df) hi))"
proof -
  have ge: "x \<noteq> NaN \<Longrightarrow> y \<noteq> NaN \<Longrightarrow> f_le x y \<longleftrightarrow> \<not> f_lt y x" for x y
    using f_not_ge_iff [of y x] by auto
  have fin: "MinValue t = Ret lo \<Longrightarrow> lo \<noteq> NaN" "MaxValue t = Ret hi \<Longrightarrow> hi \<noteq> NaN" for t lo hi
    by (auto simp: MinValue_def MaxValue_def array_at_def split: if_splits)
  show ?thesis
    by (auto simp: DataFormat_validate_def Range_validate_def go_bind_eq_Ret_iff
        dest: fin f_not_nan split: if_splits simp: ge)
       (metis f_not_nan ge fin)+
qed

lemma Range_eq_iff: "Range_eq r r' \<longleftrightarrow> r = r' \<and> r_Min r \<noteq> NaN \<and> r_Max r \<noteq> NaN"
  by (cases r; cases r') (auto simp: Range_eq_def f_eq_iff)

lemma DataFormat_Equals_iff:
  "DataFormat_Equals df df' \<longleftrightarrow> df = df' \<and> r_Min (df_Range df) \<noteq> NaN \<and> r_Max (df_Range df) \<noteq> NaN"
  by (cases df; cases df') (auto simp: DataFormat_Equals_def Range_eq_iff f_eq_iff)

lemma DataMapping_Equals_iff:
  "DataMapping_Equals dm dm' \<longleftrightarrow>
     dm = dm' \<and> r_Min (df_Range (dm_DataFormat dm)) \<noteq> NaN \<and> r_Max (df_Range (dm_DataFormat dm)) \<noteq> NaN \<and>
     r_Min (dm_RangeExt dm) \<noteq> NaN \<and> r_Max (dm_RangeExt dm) \<noteq> NaN \<and> dm_Exponent dm \<noteq> NaN"
  by (cases dm; cases dm') (auto simp: DataMapping_Equals_def DataFormat_Equals_iff Range_eq_iff f_eq_iff)

lemma DataMapping_Equals_sym: "DataMapping_Equals a b = DataMapping_Equals b a"
  by (auto simp: DataMapping_Equals_iff)

lemma CanCastTo_iff: "CanCastTo t t' \<longleftrightarrow> (t = DTypeCOMPLEX64 \<longleftrightarrow> t' = DTypeCOMPLEX64)"
  by (cases t) (auto simp: CanCastTo_def)

lemma protobuf_format_roundtrip: "NewDataFormatFromProtobuf (Some (DataFormat_ToProtobuf (NewDataFormatFromProtobuf p))) = NewDataFormatFromProtobuf p"
  by (cases p) (simp_all add: NewDataFormatFromProtobuf_def DataFormat_ToProtobuf_def)

end
