(* ===== verification/Events.thy ===== *)
theory Events
  imports GeocubeTypes
begin

text \<open>
  The messages of internal/geocube/consolidation_event.go between the server and its workers:
  task events, job events and their constructors.  \<open>NewJobEvent\<close> panics when the status and the
  error text disagree.  The gob encoding is symbolic: a message is the event it encodes.
\<close>

datatype Event = EvTask TaskEvent | EvJob JobEvent

datatype message = GobMessage Event | GobOrder ConsolidationEvent | NotGob string

fun statusWithError :: "JobStatus \<Rightarrow> bool" where
  "statusWithError PrepareOrdersFailed = True"
| "statusWithError SendOrdersFailed = True"
| "statusWithError ConsolidationFailed = True"
| "statusWithError ConsolidationRetryFailed = True"
| "statusWithError ConsolidationIndexingFailed = True"
| "statusWithError CancellationFailed = True"
| "statusWithError SwapDatasetsFailed = True"
| "statusWithError StartDeletionFailed = True"
| "statusWithError RemovalFailed = True"
| "statusWithError DeletionFailed = True"
| "statusWithError DeletionNotReady = True"
| "statusWithError RollbackFailed = True"
| "statusWithError _ = False"

definition NewJobEvent :: "string \<Rightarrow> JobStatus \<Rightarrow> string \<Rightarrow> JobEvent go" where
  "NewJobEvent jobID status err =
     (if statusWithError status \<noteq> (err \<noteq> [])
      then Panic (''Status & error are not compatible: '' @ JobStatus_String status @ '' and '' @ err)
      else Ret \<lparr>je_JobID = jobID, je_Status = status, je_Error = err\<rparr>)"

definition NewTaskEvent :: "string \<Rightarrow> string \<Rightarrow> TaskStatus \<Rightarrow> gerr option \<Rightarrow> TaskEvent" where
  "NewTaskEvent jobID taskID eventStatus err =
     \<lparr>te_JobID = jobID, te_TaskID = taskID, te_Status = eventStatus,
      te_Error = (case err of None \<Rightarrow> [] | Some e \<Rightarrow> ErrorMsg e)\<rparr>"

definition MarshalEvent :: "Event \<Rightarrow> message" where
  "MarshalEvent evt = GobMessage evt"

fun UnmarshalEvent :: "message \<Rightarrow> gerr + Event" where
  "UnmarshalEvent (GobMessage evt) = Inr evt"
| "UnmarshalEvent _ = Inl (PlainE ''gob'')"

definition MarshalConsolidationEvent :: "ConsolidationEvent \<Rightarrow> payload" where
  "MarshalConsolidationEvent evt = GobEvent evt"

fun UnmarshalConsolidationEvent :: "payload \<Rightarrow> gerr + ConsolidationEvent" where
  "UnmarshalConsolidationEvent (GobEvent evt) = Inr evt"
| "UnmarshalConsolidationEvent (RawBytes b) = Inl (WrapE ''UnmarshalConsolidationEvent: '' (PlainE ''gob'') [])"

lemma NewJobEvent_Ret_iff:
  "NewJobEvent jobID status err = Ret evt \<longleftrightarrow>
     statusWithError status = (err \<noteq> []) \<and> evt = \<lparr>je_JobID = jobID, je_Status = status, je_Error = err\<rparr>"
  by (auto simp: NewJobEvent_def)

lemma UnmarshalEvent_Marshal [simp]: "UnmarshalEvent (MarshalEvent e) = Inr e"
  by (simp add: MarshalEvent_def)

lemma UnmarshalConsolidationEvent_Marshal [simp]:
  "UnmarshalConsolidationEvent (MarshalConsolidationEvent e) = Inr e"
  by (simp add: MarshalConsolidationEvent_def)

end
