(* ===== verification/Containers.thy ===== *)
theory Containers
  imports Geometry DataFormats Events
begin

text \<open>
  Datasets and containers: internal/geocube/dataset.go and internal/geocube/container.go.  A container
  owns the datasets that refer to its file.  \<open>uuid_ok\<close> is the test of \<open>uuid.Parse\<close>, \<open>uid\<close> an identifier
  that \<open>uuid.New\<close> draws, \<open>coords_text\<close> the text of the coordinates of a shape, \<open>bounds\<close> the polygon of a
  box; \<open>clone4326 crs geodetic s\<close> is the reprojection of a shape (\<open>cloneTo4326\<close> of internal/utils/proj,
  not modelled).
\<close>

section \<open>Datasets\<close>

record pb_Dataset = pbd_RecordId :: string
  pbd_InstanceId :: string
  pbd_ContainerSubdir :: string
  pbd_Bands :: "int list"
  pbd_Dformat :: "pb_DataFormat option"
  pbd_RealMinValue :: float64
  pbd_RealMaxValue :: float64
  pbd_Exponent :: float64

definition empty_shape :: Shape where
  "empty_shape = \<lparr>sh_SRID = 0, sh_FlatCoords = [], sh_Endss = []\<rparr>"

definition Dataset_validate :: "(string \<Rightarrow> bool) \<Rightarrow> Dataset \<Rightarrow> gerr option go" where
  "Dataset_validate uuid_ok d =
     (if \<not> uuid_ok (d_RecordID d) then Ret (Some (NewValidationError (''Invalid record id: '' @ d_RecordID d)))
      else if \<not> uuid_ok (d_InstanceID d) then Ret (Some (NewValidationError (''Invalid instance id: '' @ d_InstanceID d)))
      else go_bind (DataMapping_validate (d_DataMapping d)) (\<lambda>eo.
        case eo of Some e \<Rightarrow> Ret (Some (NewValidationError (''Invalid Dataset.DataMapping ('' @
              DataFormat_string (dm_DataFormat (d_DataMapping d)) @ ''): '' @ ErrorMsg e)))
        | None \<Rightarrow> Ret None))"

definition NewDatasetFromProtobuf :: "(string \<Rightarrow> bool) \<Rightarrow> string \<Rightarrow> pb_Dataset \<Rightarrow> string \<Rightarrow> (gerr + Dataset) go" where
  "NewDatasetFromProtobuf uuid_ok uid pbd uri =
     (let d = \<lparr>d_ps = NEW, d_ID = uid, d_RecordID = pbd_RecordId pbd, d_InstanceID = pbd_InstanceId pbd,
               d_ContainerURI = uri, d_ContainerSubDir = pbd_ContainerSubdir pbd, d_Bands = pbd_Bands pbd,
               d_DataMapping = \<lparr>dm_DataFormat = NewDataFormatFromProtobuf (pbd_Dformat pbd),
                                dm_RangeExt = \<lparr>r_Min = pbd_RealMinValue pbd, r_Max = pbd_RealMaxValue pbd\<rparr>,
                                dm_Exponent = pbd_Exponent pbd\<rparr>,
               d_Status = DatasetStatusACTIVE, d_Shape = empty_shape, d_GeogShape = empty_shape,
               d_GeomShape = empty_shape, d_Overviews = False\<rparr>
      in go_bind (Dataset_validate uuid_ok d) (\<lambda>eo. Ret (case eo of Some e \<Rightarrow> Inl e | None \<Rightarrow> Inr d)))"

definition Dataset_ToProtobuf :: "Dataset \<Rightarrow> pb_Dataset" where
  "Dataset_ToProtobuf d =
     \<lparr>pbd_RecordId = d_RecordID d, pbd_InstanceId = d_InstanceID d, pbd_ContainerSubdir = d_ContainerSubDir d,
      pbd_Bands = d_Bands d, pbd_Dformat = Some (DataFormat_ToProtobuf (dm_DataFormat (d_DataMapping d))),
      pbd_RealMinValue = r_Min (dm_RangeExt (d_DataMapping d)), pbd_RealMaxValue = r_Max (dm_RangeExt (d_DataMapping d)),
      pbd_Exponent = dm_Exponent (d_DataMapping d)\<rparr>"

definition setGeomGeogShape :: "('crs \<Rightarrow> bool \<Rightarrow> Shape \<Rightarrow> gerr + Shape) \<Rightarrow> 'crs \<Rightarrow> Dataset \<Rightarrow> gerr option \<times> Dataset" where
  "setGeomGeogShape clone4326 crs d =
     (case clone4326 crs False (d_Shape d) of
        Inl e \<Rightarrow> (Some (NewValidationError (''Invalid crs or bbox: NewGeometricShapeFromShape.'' @ ErrorMsg e)),
                  d\<lparr>d_GeomShape := empty_shape\<rparr>)
      | Inr s \<Rightarrow>
          (case clone4326 crs True (d_Shape d) of
             Inl e \<Rightarrow> (Some (NewValidationError (''Invalid crs or bbox: NewGeographicShapeFromShape.'' @ ErrorMsg e)),
                       d\<lparr>d_GeomShape := s, d_GeogShape := empty_shape\<rparr>)
           | Inr t \<Rightarrow> (None, d\<lparr>d_GeomShape := s, d_GeogShape := t\<rparr>)))"

definition SetShape ::
  "'crs gdal \<Rightarrow> ('crs \<Rightarrow> bool \<Rightarrow> Shape \<Rightarrow> gerr + Shape) \<Rightarrow> Shape \<Rightarrow> string \<Rightarrow> Dataset \<Rightarrow> (gerr option \<times> Dataset) go" where
  "SetShape g clone4326 shape crsS d =
     (if \<not> IsNew (d_ps d)
      then Ret (Some (NewValidationError ''Set the shape of a dataset that is not new is forbidden''), d)
      else go_bind (CRSFromUserInput g crsS) (\<lambda>r.
        case r of Inl e \<Rightarrow> Ret (Some (NewValidationError (''Invalid Crs: '' @ crsS)), d)
        | Inr (crs, srid) \<Rightarrow> Ret (setGeomGeogShape clone4326 crs (d\<lparr>d_Shape := NewShape srid shape\<rparr>))))"

definition SetOverviews :: "bool \<Rightarrow> Dataset \<Rightarrow> gerr option \<times> Dataset" where
  "SetOverviews hasOverviews d =
     (if \<not> IsNew (d_ps d)
      then (Some (NewValidationError ''Set Overviews of a dataset that is not new is forbidden''), d)
      else (None, d\<lparr>d_Overviews := hasOverviews\<rparr>))"

definition SetDataType :: "DType \<Rightarrow> Dataset \<Rightarrow> (gerr option \<times> Dataset) go" where
  "SetDataType dtype d =
     (if \<not> IsNew (d_ps d)
      then Ret (Some (NewValidationError ''Set DataType of a dataset that is not new is forbidden''), d)
      else let dm = (d_DataMapping d)\<lparr>dm_DataFormat := (dm_DataFormat (d_DataMapping d))\<lparr>df_DType := dtype\<rparr>\<rparr>;
               d' = d\<lparr>d_DataMapping := dm\<rparr>
           in go_bind (DataMapping_validate dm) (\<lambda>eo.
                case eo of Some e \<Rightarrow> Ret (Some (NewValidationError (''Invalid Dataset.DFormat ('' @
                      DataFormat_string (dm_DataFormat dm) @ ''): '' @ ErrorMsg e)), d')
                | None \<Rightarrow> Ret (None, d')))"

definition ValidateWithVariable :: "Variable \<Rightarrow> Dataset \<Rightarrow> gerr option" where
  "ValidateWithVariable v d =
     (let ext = dm_RangeExt (d_DataMapping d); range = df_Range (v_DFormat v)
      in if length (d_Bands d) \<noteq> length (v_Bands v) then Some (NewValidationError ''Wrong number of bands in dataset'')
         else if \<not> canCastTo (dm_DataFormat (d_DataMapping d)) (v_DFormat v)
         then Some (NewValidationError ''Data format of dataset is incorrect as it cannot be cast to the data format of the variable'')
         else if f_ge (r_Min ext) (r_Max range) \<or> f_le (r_Max ext) (r_Min range)
         then Some (NewValidationError (''Range of external values of the dataset ['' @ fmt_f (r_Min ext) @ '','' @
                fmt_f (r_Max ext) @ ''] does not intersect the range of values of the variable ['' @
                fmt_f (r_Min range) @ '','' @ fmt_f (r_Max range) @ '']''))
         else None)"

text \<open>\<open>NO_OVERVIEW\<close> is 0.\<close>

definition transform_of :: "float64 list \<Rightarrow> Affine" where
  "transform_of t = NewAffine (t ! 0) (t ! 1) (t ! 2) (t ! 3) (t ! 4) (t ! 5)"

definition IncompleteDatasetFromConsolidation ::
  "'crs gdal \<Rightarrow> ('crs \<Rightarrow> bool \<Rightarrow> Shape \<Rightarrow> gerr + Shape) \<Rightarrow> (float64 \<Rightarrow> float64 \<Rightarrow> float64 \<Rightarrow> float64 \<Rightarrow> float64 list) \<Rightarrow>
   ConsolidationContainer \<Rightarrow> string \<Rightarrow> (gerr + Dataset) go" where
  "IncompleteDatasetFromConsolidation g clone4326 bounds c instanceID =
     (if cc_BandsCount c < 0 then Panic ''runtime error: makeslice: len out of range''
      else let d = \<lparr>d_ps = NEW, d_ID = [], d_RecordID = [], d_InstanceID = instanceID, d_ContainerURI = cc_URI c,
               d_ContainerSubDir = [], d_Bands = replicate (nat (cc_BandsCount c)) 0, d_DataMapping = cc_DatasetFormat c,
               d_Status = DatasetStatusINACTIVE, d_Shape = empty_shape, d_GeogShape = empty_shape,
               d_GeomShape = empty_shape, d_Overviews = (cc_OverviewsMinSize c \<noteq> 0)\<rparr>
      in go_bind (NewPolygonFromExtent bounds (transform_of (cc_Transform c)) (cc_Width c) (cc_Height c)) (\<lambda>flat.
         go_bind (SetShape g clone4326 \<lparr>sh_SRID = 0, sh_FlatCoords = flat, sh_Endss = [[10]]\<rparr> (cc_CRS c) d) (\<lambda>(eo, d).
           case eo of Some e \<Rightarrow> Ret (Inl e)
           | None \<Rightarrow> Ret (Inr (d\<lparr>d_Bands := map (\<lambda>i. int i + 1) [0..<length (d_Bands d)], d_ps := UNKNOWN\<rparr>)))))"

text \<open>\<open>CRSFromEPSG\<close> looks up a cache of reference systems, which holds what GDAL returned for the same code.\<close>

definition NewDatasetFromIncomplete ::
  "(string \<Rightarrow> bool) \<Rightarrow> 'crs gdal \<Rightarrow> ('crs \<Rightarrow> bool \<Rightarrow> Shape \<Rightarrow> gerr + Shape) \<Rightarrow> string \<Rightarrow> Dataset \<Rightarrow> ConsolidationRecord \<Rightarrow>
   string \<Rightarrow> (gerr + Dataset) go" where
  "NewDatasetFromIncomplete uuid_ok g clone4326 uid d consolidationRecord subdir =
     (let d = d\<lparr>d_ps := NEW, d_ID := uid, d_RecordID := cr_ID consolidationRecord, d_ContainerSubDir := subdir\<rparr>;
          shaped = (case cr_ValidShape consolidationRecord of
             None \<Rightarrow> (None, d)
           | Some s \<Rightarrow>
               let d = d\<lparr>d_Shape := s\<rparr>
               in (case g_FromEPSG g (sh_SRID s) of
                     Inl e \<Rightarrow> (Some (WrapE ''NewDatasetFromIncomplete.CRSFromEPSG: '' e []), d)
                   | Inr crs \<Rightarrow>
                       (case setGeomGeogShape clone4326 crs d of
                          (Some e, d) \<Rightarrow> (Some (WrapE ''NewDatasetFromIncomplete.'' e []), d)
                        | (None, d) \<Rightarrow> (None, d))))
      in case shaped of
           (Some e, d) \<Rightarrow> Ret (Inl e)
         | (None, d) \<Rightarrow> go_bind (Dataset_validate uuid_ok d) (\<lambda>eo. Ret (case eo of Some e \<Rightarrow> Inl e | None \<Rightarrow> Inr d)))"

definition identicalTo :: "Dataset \<Rightarrow> Dataset \<Rightarrow> bool" where
  "identicalTo d d2 \<longleftrightarrow>
     d_RecordID d = d_RecordID d2 \<and> d_InstanceID d = d_InstanceID d2 \<and> d_ContainerURI d = d_ContainerURI d2 \<and>
     d_ContainerSubDir d = d_ContainerSubDir d2 \<and> DataMapping_Equals (d_DataMapping d) (d_DataMapping d2) \<and>
     d_Status d = d_Status d2 \<and> d_Overviews d = d_Overviews d2 \<and> Shape_Equal (d_Shape d) (d_Shape d2) \<and>
     SliceInt64Equal (d_Bands d) (d_Bands d2)"

definition GDALURI :: "string \<Rightarrow> string \<Rightarrow> string" where
  "GDALURI uri subdir = (if subdir \<noteq> [] then subdir @ '':'' @ uri else uri)"

definition Dataset_GDALURI :: "Dataset \<Rightarrow> string" where
  "Dataset_GDALURI d = GDALURI (d_ContainerURI d) (d_ContainerSubDir d)"

definition ToStorageClass :: "string \<Rightarrow> gerr option \<times> StorageClass" where
  "ToStorageClass s =
     (let u = ToUpper s
      in if u = ''STANDARD'' \<or> u = ''REGIONAL'' then (None, StorageClassSTANDARD)
         else if u = ''NEARLINE'' then (None, StorageClassINFREQUENT)
         else if u = ''COLDLINE'' then (None, StorageClassARCHIVE)
         else if u = ''ARCHIVE'' then (None, StorageClassDEEPARCHIVE)
         else (Some (NewValidationError (''Unknown storage class: '' @ s)), StorageClassUNDEFINED))"

section \<open>Containers\<close>

definition Container_validate :: "Container \<Rightarrow> gerr option" where
  "Container_validate c = None"

definition NewContainerFromProtobuf :: "string \<Rightarrow> bool \<Rightarrow> gerr + Container" where
  "NewContainerFromProtobuf uri managed =
     (let c = \<lparr>c_ps = NEW, c_ID = 0, c_URI = uri, c_Managed = managed, c_StorageClass = StorageClassUNDEFINED, c_Datasets = []\<rparr>
      in case Container_validate c of Some e \<Rightarrow> Inl e | None \<Rightarrow> Inr c)"

definition NewContainerFromConsolidation :: "ConsolidationContainer \<Rightarrow> gerr + Container" where
  "NewContainerFromConsolidation oc =
     (let c = \<lparr>c_ps = NEW, c_ID = 0, c_URI = cc_URI oc, c_Managed = True, c_StorageClass = cc_StorageClass oc, c_Datasets = []\<rparr>
      in case Container_validate c of Some e \<Rightarrow> Inl (NewValidationError (ErrorMsg e)) | None \<Rightarrow> Inr c)"

record pb_Container = pbc_Uri :: string
  pbc_Managed :: bool
  pbc_Datasets :: "pb_Dataset list"

definition Container_ToProtobuf :: "Container \<Rightarrow> pb_Container" where
  "Container_ToProtobuf c =
     \<lparr>pbc_Uri = c_URI c, pbc_Managed = c_Managed c, pbc_Datasets = map Dataset_ToProtobuf (c_Datasets c)\<rparr>"

definition dataset_Clean :: "Dataset \<Rightarrow> Dataset go" where
  "dataset_Clean d = go_bind (ps_Clean (d_ps d)) (\<lambda>p. Ret (d\<lparr>d_ps := p\<rparr>))"

fun go_map :: "('a \<Rightarrow> 'b go) \<Rightarrow> 'a list \<Rightarrow> 'b list go" where
  "go_map f [] = Ret []"
| "go_map f (x # xs) = go_bind (f x) (\<lambda>y. go_bind (go_map f xs) (\<lambda>ys. Ret (y # ys)))"

definition Container_Clean :: "bool \<Rightarrow> Container \<Rightarrow> Container go" where
  "Container_Clean all c =
     go_bind (if all then go_map dataset_Clean (c_Datasets c) else Ret (c_Datasets c)) (\<lambda>ds.
     go_bind (ps_Clean (c_ps c)) (\<lambda>p. Ret (c\<lparr>c_Datasets := ds, c_ps := p\<rparr>)))"

definition numActiveDatasets :: "Container \<Rightarrow> int" where
  "numActiveDatasets c = fold (\<lambda>d n. if IsActive (d_ps d) then n + 1 else n) (c_Datasets c) 0"

definition Container_Delete :: "Container \<Rightarrow> (gerr option \<times> Container) go" where
  "Container_Delete c =
     (if c_Managed c
      then Ret (Some (NewDependencyStillExists ''Container'' [] ''uri'' (c_URI c)
                  (''Unable to delete the managed container '' @ c_URI c)), c)
      else if numActiveDatasets c \<noteq> 0
      then Ret (Some (NewDependencyStillExists ''Container'' ''Datasets'' ''uri'' (c_URI c)
                  (''Unable to delete the container '' @ c_URI c @ '': one of the datasets still exists.'')), c)
      else go_bind (ps_toDelete (c_ps c)) (\<lambda>p. Ret (None, c\<lparr>c_ps := p\<rparr>)))"

definition SetStorageClass :: "StorageClass \<Rightarrow> Container \<Rightarrow> gerr option \<times> Container" where
  "SetStorageClass storageClass c =
     (if \<not> IsNew (c_ps c) then (Some (NewValidationError ''Set storage class but container is not new''), c)
      else (None, c\<lparr>c_StorageClass := storageClass\<rparr>))"

definition bandsIntersect :: "int list \<Rightarrow> int list \<Rightarrow> bool" where
  "bandsIntersect a b = list_ex (\<lambda>e1. list_ex (\<lambda>e2. e1 = e2) b) a"

definition difference :: "(Shape \<Rightarrow> string) \<Rightarrow> Dataset \<Rightarrow> Dataset \<Rightarrow> string" where
  "difference coords_text d dataset =
     (if d_RecordID d \<noteq> d_RecordID dataset then ''of another record ('' @ d_RecordID dataset @ '')''
      else if d_InstanceID d \<noteq> d_InstanceID dataset then ''of another instance ('' @ d_InstanceID dataset @ '')''
      else if \<not> DataMapping_Equals (d_DataMapping d) (d_DataMapping dataset) then ''with another datamapping''
      else if d_Status d \<noteq> d_Status dataset
      then ''with a different internal status ('' @ DatasetStatus_String (d_Status dataset) @ '')''
      else if \<not> SliceInt64Equal (d_Bands d) (d_Bands dataset) then ''with a different set of bands''
      else if d_Overviews d \<noteq> d_Overviews dataset then ''with different overviews''
      else if \<not> Shape_Equal (d_Shape d) (d_Shape dataset)
      then ''with different shape ('' @ coords_text (d_GeomShape d) @ '' != '' @ coords_text (d_GeomShape dataset) @ '')''
      else ''which is different'')"

definition descError :: "Container \<Rightarrow> Dataset \<Rightarrow> string \<Rightarrow> string" where
  "descError c d reason =
     ''A dataset '' @ reason @ '' already refers to the container '' @ c_URI c @ '', the subdir '' @ [CHR 0x27] @ d_ContainerSubDir d @
     [CHR 0x27] @ '' and one of the bands among: '' @ JoinInt64 (d_Bands d) ''-''"

text \<open>The loop of \<open>AddDataset\<close> over the datasets of the container: it falls through (\<open>None\<close>), or
  returns no error because the dataset is there already, or an error.\<close>

datatype add_outcome = FallsThrough | AlreadyThere | Refused gerr

fun add_check :: "(Shape \<Rightarrow> string) \<Rightarrow> Container \<Rightarrow> Dataset \<Rightarrow> Dataset list \<Rightarrow> add_outcome" where
  "add_check coords_text c d [] = FallsThrough"
| "add_check coords_text c d (dataset # rest) =
     (if d_Status dataset = DatasetStatusTODELETE \<or> d_Status dataset = DatasetStatusINACTIVE
      then Refused (NewEntityAlreadyExists ''dataset'' ''status'' (DatasetStatus_String (d_Status dataset))
             (descError c d (''with the status '' @ DatasetStatus_String (d_Status dataset))))
      else if d_ContainerSubDir dataset = d_ContainerSubDir d \<and> bandsIntersect (d_Bands dataset) (d_Bands d)
      then (if identicalTo dataset d then AlreadyThere
            else Refused (NewEntityAlreadyExists ''dataset'' ''subdir/bands'' (d_ContainerSubDir d @ ''/'' @ JoinInt64 (d_Bands d) ''-'')
                   (descError c d (difference coords_text d dataset))))
      else add_check coords_text c d rest)"

definition AddDataset :: "(Shape \<Rightarrow> string) \<Rightarrow> Dataset \<Rightarrow> Container \<Rightarrow> gerr option \<times> Container" where
  "AddDataset coords_text d c =
     (if \<not> IsNew (d_ps d) then (Some (NewValidationError ''AddDataset: dataset is not new''), c)
      else case add_check coords_text c d (c_Datasets c) of
             FallsThrough \<Rightarrow> (None, c\<lparr>c_Datasets := c_Datasets c @ [d]\<rparr>)
           | AlreadyThere \<Rightarrow> (None, c)
           | Refused e \<Rightarrow> (Some e, c))"

fun dataset_at :: "string \<Rightarrow> Dataset list \<Rightarrow> nat option" where
  "dataset_at i [] = None"
| "dataset_at i (d # ds) = (if d_ID d = i then Some 0 else map_option Suc (dataset_at i ds))"

definition RemoveDataset :: "string \<Rightarrow> Container \<Rightarrow> ((gerr + bool) \<times> Container) go" where
  "RemoveDataset datasetID c =
     (case dataset_at datasetID (c_Datasets c) of
        None \<Rightarrow> Ret (Inl (NewEntityNotFound ''dataset'' ''id'' datasetID
                     (''Dataset '' @ datasetID @ '' in container '' @ c_URI c)), c)
      | Some i \<Rightarrow> go_bind (ps_toDelete (d_ps (c_Datasets c ! i))) (\<lambda>p.
          let c' = c\<lparr>c_Datasets := (c_Datasets c)[i := (c_Datasets c ! i)\<lparr>d_ps := p\<rparr>]\<rparr>
          in Ret (Inr (numActiveDatasets c' = 0), c')))"

definition ToGcStorageClass :: "string \<Rightarrow> gerr option \<times> StorageClass" where
  "ToGcStorageClass s =
     (let u = ToUpper s
      in if u = ''STANDARD'' \<or> u = ''REGIONAL'' then (None, StorageClassSTANDARD)
         else if u = ''NEARLINE'' then (None, StorageClassINFREQUENT)
         else if u = ''COLDLINE'' then (None, StorageClassARCHIVE)
         else if u = ''ARCHIVE'' then (None, StorageClassDEEPARCHIVE)
         else (Some (NewValidationError (''Unknown storage class: '' @ s)), StorageClassUNDEFINED))"

end
