(* ===== verification/Params.thy ===== *)
theory Params
  imports DataFormats "HOL-Library.AList"
begin

text \<open>
  Consolidation parameters: internal/geocube/consolidation_params.go.  Validation also completes the
  creation parameters of the output file from the compression and the data type.  The order of the
  association list of creation parameters stands for the order in which the map is ranged over.
\<close>

section \<open>Definitions\<close>

record pb_ConsolidationParams = pcp_Dformat :: "pb_DataFormat option"
  pcp_Exponent :: float64
  pcp_ResamplingAlg :: int
  pcp_Compression :: int
  pcp_CreationParams :: "Metadata option"
  pcp_StorageClass :: int

definition SupportedCreationParams :: "string list" where
  "SupportedCreationParams =
     [''PHOTOMETRIC'', ''PHOTOMETRIC_OVERVIEW'', ''COMPRESS'', ''COMPRESS_OVERVIEW'', ''JPEG_QUALITY'',
      ''JPEG_QUALITY_OVERVIEW'', ''PREDICTOR'', ''PREDICTOR_OVERVIEW'', ''ZLEVEL'', ''ZLEVEL_OVERVIEW'',
      ''ZSTD_LEVEL'', ''ZSTD_LEVEL_OVERVIEW'', ''MAX_Z_ERROR'', ''MAX_Z_ERROR_OVERVIEW'', ''JPEGTABLESMODE'']"

definition addCreationParams :: "Metadata \<Rightarrow> ConsolidationParams \<Rightarrow> ConsolidationParams" where
  "addCreationParams creationParams c =
     c\<lparr>cp_CreationParams := fold (\<lambda>(k, v) m. AList.update k v m) creationParams (cp_CreationParams c)\<rparr>"

definition small_dtype :: "DType \<Rightarrow> bool" where
  "small_dtype t \<longleftrightarrow> t \<in> {DTypeUINT8, DTypeINT8, DTypeINT16, DTypeUINT16, DTypeINT32, DTypeUINT32, DTypeFLOAT32}"

definition lerc_params :: "string \<Rightarrow> string \<Rightarrow> Metadata" where
  "lerc_params compress err =
     [(''COMPRESS'', compress), (''COMPRESS_OVERVIEW'', compress),
      (''MAX_Z_ERROR'', err), (''MAX_Z_ERROR_OVERVIEW'', err)]"

definition zstd_params :: Metadata where
  "zstd_params =
     [(''COMPRESS'', ''ZSTD''), (''COMPRESS_OVERVIEW'', ''ZSTD''), (''PREDICTOR'', ''2''),
      (''PREDICTOR_OVERVIEW'', ''2''), (''ZSTD_LEVEL'', ''0.01''), (''ZSTD_LEVEL_OVERVIEW'', ''0.01'')]"

definition unsupported_compression :: "string \<Rightarrow> DType \<Rightarrow> gerr" where
  "unsupported_compression compress t =
     NewValidationError (''compressionOption '' @ compress @ '' not supported for data type '' @ DType_String t)"

definition validateCompression :: "ConsolidationParams \<Rightarrow> gerr option \<times> ConsolidationParams" where
  "validateCompression c =
     (let t = df_DType (cp_DFormat c);
          refused = (Some (unsupported_compression (Compression_String (cp_Compression c)) t), c)
      in case cp_Compression c of
           CompressionNO \<Rightarrow> (None, c)
         | CompressionLOSSY \<Rightarrow>
             if small_dtype t then (None, addCreationParams (lerc_params ''LERC'' ''0.01'') c)
             else if t = DTypeFLOAT64 then (None, addCreationParams (lerc_params ''LERC_ZSTD'' ''0.01'') c)
             else refused
         | CompressionLOSSLESS \<Rightarrow>
             if small_dtype t then (None, addCreationParams zstd_params c)
             else if t = DTypeFLOAT64 then (None, addCreationParams (lerc_params ''LERC_ZSTD'' ''0'') c)
             else refused
         | CompressionCUSTOM \<Rightarrow>
             (case map_of (cp_CreationParams c) ''COMPRESS'' of
                None \<Rightarrow> (Some (NewValidationError ''compression is CUSTOM, but creation_params COMPRESS is not defined''), c)
              | Some compress \<Rightarrow>
                  if compress = ''JPEG'' \<and> (t = DTypeUINT8 \<or> t = DTypeINT8) then (None, c)
                  else (Some (unsupported_compression compress t), c))
         | _ \<Rightarrow> refused)"

definition inSlide :: "string \<Rightarrow> string list \<Rightarrow> bool" where
  "inSlide v s = list_ex (\<lambda>k. k = v) s"

definition validateCreationParams :: "ConsolidationParams \<Rightarrow> gerr option" where
  "validateCreationParams c =
     (case find (\<lambda>k. \<not> inSlide k SupportedCreationParams) (map fst (cp_CreationParams c)) of
        Some k \<Rightarrow> Some (NewValidationError (''unknown creationParams '' @ k))
      | None \<Rightarrow> None)"

definition ConsolidationParams_validate :: "ConsolidationParams \<Rightarrow> gerr option \<times> ConsolidationParams" where
  "ConsolidationParams_validate c =
     (if \<not> validForPacking (cp_DFormat c) then (Some (NewValidationError ''Data format is incorrect''), c)
      else case validateCompression c of
             (Some e, c') \<Rightarrow> (Some e, c')
           | (None, c') \<Rightarrow> (validateCreationParams c', c'))"

definition NewConsolidationParamsFromProtobuf :: "pb_ConsolidationParams \<Rightarrow> gerr + ConsolidationParams" where
  "NewConsolidationParamsFromProtobuf pbp =
     (if pcp_ResamplingAlg pbp = 0 then Inl (NewValidationError ''Resampling algorithm cannot be undefined'')
      else let c = \<lparr>cp_ps = NEW, cp_DFormat = NewDataFormatFromProtobuf (pcp_Dformat pbp),
                    cp_Exponent = pcp_Exponent pbp, cp_Compression = Compression_of (pcp_Compression pbp),
                    cp_CreationParams = (case pcp_CreationParams pbp of Some m \<Rightarrow> m | None \<Rightarrow> []),
                    cp_ResamplingAlg = Resampling_of (pcp_ResamplingAlg pbp),
                    cp_StorageClass = StorageClass_of (pcp_StorageClass pbp)\<rparr>
           in case ConsolidationParams_validate c of (Some e, _) \<Rightarrow> Inl e | (None, c') \<Rightarrow> Inr c')"

definition ConsolidationParams_ToProtobuf :: "ConsolidationParams \<Rightarrow> pb_ConsolidationParams" where
  "ConsolidationParams_ToProtobuf c =
     \<lparr>pcp_Dformat = Some (DataFormat_ToProtobuf (cp_DFormat c)), pcp_Exponent = cp_Exponent c,
      pcp_ResamplingAlg = Resampling_code (cp_ResamplingAlg c), pcp_Compression = Compression_code (cp_Compression c),
      pcp_CreationParams = Some (cp_CreationParams c), pcp_StorageClass = StorageClass_code (cp_StorageClass c)\<rparr>"

section \<open>Lemmas\<close>

lemma inSlide_iff [simp]: "inSlide v s \<longleftrightarrow> v \<in> set s"
  by (auto simp: inSlide_def list_ex_iff)

lemma validateCreationParams_None:
  "validateCreationParams c = None \<longleftrightarrow> set (map fst (cp_CreationParams c)) \<subseteq> set SupportedCreationParams"
proof -
  have "validateCreationParams c = None \<longleftrightarrow>
    find (\<lambda>k. \<not> inSlide k SupportedCreationParams) (map fst (cp_CreationParams c)) = None"
    by (simp add: validateCreationParams_def split: option.splits)
  also have "\<dots> \<longleftrightarrow> set (map fst (cp_CreationParams c)) \<subseteq> set SupportedCreationParams"
    unfolding find_None_iff by auto
  finally show ?thesis .
qed

text \<open>Adding parameters twice, or adding those that are there already, changes nothing.\<close>

lemma update_same: "map_of m k = Some v \<Longrightarrow> AList.update k v m = m"
  by (induction m) auto

lemma fold_update_same:
  "(\<And>k v. (k, v) \<in> set ps \<Longrightarrow> map_of m k = Some v) \<Longrightarrow> fold (\<lambda>(k, v) m. AList.update k v m) ps m = m"
  by (induction ps) (auto simp: update_same)

lemma map_of_fold_update:
  "map_of (fold (\<lambda>(k, v) m. AList.update k v m) ps m) = map_of m ++ map_of (rev ps)"
  by (induction ps arbitrary: m) (auto simp: update_conv' map_add_def fun_eq_iff split: option.splits)

lemma addCreationParams_idem:
  assumes "distinct (map fst ps)"
  shows "addCreationParams ps (addCreationParams ps c) = addCreationParams ps c"
proof -
  have "map_of (fold (\<lambda>(k, v) m. AList.update k v m) ps (cp_CreationParams c)) k = Some v"
    if "(k, v) \<in> set ps" for k v
  proof -
    have "distinct (map fst (rev ps))" using assms by (simp add: rev_map [symmetric])
    with that have "map_of (rev ps) k = Some v" by (simp add: map_of_is_SomeI)
    then show ?thesis by (simp add: map_of_fold_update)
  qed
  then show ?thesis by (simp add: addCreationParams_def fold_update_same)
qed

lemma fields_addCreationParams [frame_simps, simp]:
  "cp_DFormat (addCreationParams ps c) = cp_DFormat c" "cp_Compression (addCreationParams ps c) = cp_Compression c"
  "cp_ResamplingAlg (addCreationParams ps c) = cp_ResamplingAlg c" "cp_ps (addCreationParams ps c) = cp_ps c"
  "cp_Exponent (addCreationParams ps c) = cp_Exponent c" "cp_StorageClass (addCreationParams ps c) = cp_StorageClass c"
  by (simp_all add: addCreationParams_def)

lemma params_lists_distinct: "distinct (map fst (lerc_params a b))" "distinct (map fst zstd_params)"
  by (simp_all add: lerc_params_def zstd_params_def)

lemma validateCompression_idem:
  assumes "validateCompression c = (None, c')"
  shows "validateCompression c' = (None, c')"
  using assms
  by (auto simp: validateCompression_def Let_def addCreationParams_idem params_lists_distinct
      split: Compression.splits if_splits option.splits)

lemma validateCompression_fields:
  assumes "validateCompression c = (eo, c')"
  shows "cp_DFormat c' = cp_DFormat c \<and> cp_Compression c' = cp_Compression c \<and>
     cp_ResamplingAlg c' = cp_ResamplingAlg c \<and> cp_ps c' = cp_ps c \<and> cp_Exponent c' = cp_Exponent c \<and>
     cp_StorageClass c' = cp_StorageClass c"
  using assms
  by (auto simp: validateCompression_def Let_def split: Compression.splits if_splits option.splits)

definition compression_ok :: "ConsolidationParams \<Rightarrow> bool" where
  "compression_ok c \<longleftrightarrow>
     (let t = df_DType (cp_DFormat c); compress = map_of (cp_CreationParams c) ''COMPRESS'';
          err = map_of (cp_CreationParams c) ''MAX_Z_ERROR''
      in case cp_Compression c of
           CompressionNO \<Rightarrow> True
         | CompressionLOSSY \<Rightarrow> compress = Some (if t = DTypeFLOAT64 then ''LERC_ZSTD'' else ''LERC'') \<and> err = Some ''0.01''
         | CompressionLOSSLESS \<Rightarrow>
             (if t = DTypeFLOAT64 then compress = Some ''LERC_ZSTD'' \<and> err = Some ''0'' else compress = Some ''ZSTD'')
         | CompressionCUSTOM \<Rightarrow> compress = Some ''JPEG'' \<and> (t = DTypeUINT8 \<or> t = DTypeINT8)
         | _ \<Rightarrow> False)"

lemma map_of_addCreationParams:
  "map_of (cp_CreationParams (addCreationParams ps c)) k =
     (case map_of (rev ps) k of None \<Rightarrow> map_of (cp_CreationParams c) k | Some v \<Rightarrow> Some v)"
  by (simp add: addCreationParams_def map_of_fold_update map_add_def split: option.splits)

lemma validateCompression_ok:
  assumes "validateCompression c = (None, c')"
  shows "compression_ok c'"
proof (cases "cp_Compression c")
  case CompressionLOSSY
  with assms show ?thesis
    by (auto simp: validateCompression_def Let_def compression_ok_def map_of_addCreationParams lerc_params_def
        small_dtype_def split: if_splits)
next
  case CompressionLOSSLESS
  with assms show ?thesis
    by (auto simp: validateCompression_def Let_def compression_ok_def map_of_addCreationParams lerc_params_def
        zstd_params_def small_dtype_def split: if_splits)
qed (use assms in \<open>auto simp: validateCompression_def compression_ok_def Let_def split: if_splits option.splits\<close>)

lemma NewConsolidationParams_Inr:
  "NewConsolidationParamsFromProtobuf pbp = Inr c \<longleftrightarrow>
     pcp_ResamplingAlg pbp \<noteq> 0 \<and>
     validateCompression \<lparr>cp_ps = NEW, cp_DFormat = NewDataFormatFromProtobuf (pcp_Dformat pbp),
                    cp_Exponent = pcp_Exponent pbp, cp_Compression = Compression_of (pcp_Compression pbp),
                    cp_CreationParams = (case pcp_CreationParams pbp of Some m \<Rightarrow> m | None \<Rightarrow> []),
                    cp_ResamplingAlg = Resampling_of (pcp_ResamplingAlg pbp),
                    cp_StorageClass = StorageClass_of (pcp_StorageClass pbp)\<rparr> = (None, c) \<and>
     validateCreationParams c = None"
  by (auto simp: NewConsolidationParamsFromProtobuf_def ConsolidationParams_validate_def validForPacking_def Let_def
      split: prod.splits option.splits)

section \<open>Properties\<close>

text \<open>Parameters accepted from a client are consistent: the resampling is defined, every creation
  parameter is a supported one, and the codec and its error bound are those that the compression mode
  promises for the data type (a LOSSLESS output never gets a lossy codec or a non-zero error).\<close>

theorem accepted_params_are_consistent:
  assumes "NewConsolidationParamsFromProtobuf pbp = Inr c"
  shows "cp_ps c = NEW \<and> Resampling_code (cp_ResamplingAlg c) \<noteq> 0 \<and> compression_ok c \<and>
     set (map fst (cp_CreationParams c)) \<subseteq> set SupportedCreationParams"
  using assms validateCompression_fields validateCompression_ok
  by (fastforce simp: NewConsolidationParams_Inr validateCreationParams_None)

definition sample_pb_params :: pb_ConsolidationParams where
  "sample_pb_params =
     \<lparr>pcp_Dformat = Some \<lparr>pbdf_Dtype = 2, pbdf_NoData = Fin 0, pbdf_MinValue = Fin 0, pbdf_MaxValue = Fin 100\<rparr>,
      pcp_Exponent = Fin 1, pcp_ResamplingAlg = 1, pcp_Compression = 1,
      pcp_CreationParams = Some [(''PHOTOMETRIC'', ''RGB'')], pcp_StorageClass = 0\<rparr>"

lemmas params_evals = NewConsolidationParamsFromProtobuf_def ConsolidationParams_validate_def validForPacking_def
  validateCompression_def validateCreationParams_def addCreationParams_def Let_def NewDataFormatFromProtobuf_def
  DType_of_def Compression_of_def Resampling_of_def StorageClass_of_def enum_of_code_def small_dtype_def
  zstd_params_def lerc_params_def SupportedCreationParams_def

lemma sample_pb_params_accepted: "\<exists>c. NewConsolidationParamsFromProtobuf sample_pb_params = Inr c"
  by (simp add: sample_pb_params_def params_evals)

theorem accepted_params_are_consistent_witness:
  "\<exists>c. NewConsolidationParamsFromProtobuf sample_pb_params = Inr c \<and> compression_ok c"
  using sample_pb_params_accepted accepted_params_are_consistent by blast

text \<open>Accepted parameters survive the round trip through their protobuf message: validating them again
  adds nothing.\<close>

theorem params_protobuf_roundtrip:
  assumes "NewConsolidationParamsFromProtobuf pbp = Inr c"
  shows "NewConsolidationParamsFromProtobuf (ConsolidationParams_ToProtobuf c) = Inr c"
proof -
  from assms [unfolded NewConsolidationParams_Inr] have v: "validateCompression c = (None, c)"
    and k: "validateCreationParams c = None" and r: "pcp_ResamplingAlg pbp \<noteq> 0"
    using validateCompression_idem by blast+
  from assms [unfolded NewConsolidationParams_Inr] validateCompression_fields have f:
    "cp_ps c = NEW" "cp_DFormat c = NewDataFormatFromProtobuf (pcp_Dformat pbp)"
    "cp_Compression c = Compression_of (pcp_Compression pbp)"
    "cp_ResamplingAlg c = Resampling_of (pcp_ResamplingAlg pbp)"
    "cp_StorageClass c = StorageClass_of (pcp_StorageClass pbp)" by fastforce+
  have "\<lparr>cp_ps = NEW, cp_DFormat = NewDataFormatFromProtobuf (pcp_Dformat (ConsolidationParams_ToProtobuf c)),
      cp_Exponent = pcp_Exponent (ConsolidationParams_ToProtobuf c),
      cp_Compression = Compression_of (pcp_Compression (ConsolidationParams_ToProtobuf c)),
      cp_CreationParams = (case pcp_CreationParams (ConsolidationParams_ToProtobuf c) of Some m \<Rightarrow> m | None \<Rightarrow> []),
      cp_ResamplingAlg = Resampling_of (pcp_ResamplingAlg (ConsolidationParams_ToProtobuf c)),
      cp_StorageClass = StorageClass_of (pcp_StorageClass (ConsolidationParams_ToProtobuf c))\<rparr> = c"
    using f by (cases c) (simp add: ConsolidationParams_ToProtobuf_def protobuf_format_roundtrip)
  with v k r f(4) show ?thesis
    unfolding NewConsolidationParams_Inr by (simp add: ConsolidationParams_ToProtobuf_def)
qed

theorem params_protobuf_roundtrip_witness:
  "\<exists>c. NewConsolidationParamsFromProtobuf sample_pb_params = Inr c \<and>
     NewConsolidationParamsFromProtobuf (ConsolidationParams_ToProtobuf c) = Inr c"
  using sample_pb_params_accepted params_protobuf_roundtrip by blast

end
