(* ===== verification/Variables.thy ===== *)
theory Variables
  imports Params Utils
begin

text \<open>
  Variables and their instances: internal/geocube/variable.go.  A variable owns its instances in a map
  keyed by instance identifier, here an association list whose order stands for the iteration order.
  \<open>uuid_ok\<close> is the test of \<open>uuid.Parse\<close> of the uuid package, a parameter of every validator.
  The maps are those of a variable read from the database, which are never nil (Metadata.Scan of metadata.go,
  pg_variables.go:96-127): the panic of AddInstance and UpdateInstance on a nil map, out of reach of the
  service, is not modelled.
\<close>

section \<open>Definitions\<close>

definition VariableInstance_validate :: "(string \<Rightarrow> bool) \<Rightarrow> VariableInstance \<Rightarrow> gerr option" where
  "VariableInstance_validate uuid_ok vi =
     (if \<not> uuid_ok (vi_ID vi) then Some (NewValidationError (''Invalid uuid: '' @ vi_ID vi))
      else if \<not> name_segment (vi_Name vi) then Some (NewValidationError (''Invalid Name: '' @ vi_Name vi))
      else None)"

definition NewInstance :: "(string \<Rightarrow> bool) \<Rightarrow> string \<Rightarrow> string \<Rightarrow> Metadata \<Rightarrow> gerr + VariableInstance" where
  "NewInstance uuid_ok uid name metadata =
     (let vi = \<lparr>vi_ps = NEW, vi_ID = uid, vi_Name = name, vi_Metadata = metadata\<rparr>
      in case VariableInstance_validate uuid_ok vi of Some e \<Rightarrow> Inl e | None \<Rightarrow> Inr vi)"

definition Variable_validate :: "(string \<Rightarrow> bool) \<Rightarrow> Variable \<Rightarrow> gerr option go" where
  "Variable_validate uuid_ok v =
     (if \<not> uuid_ok (v_ID v) then Ret (Some (NewValidationError (''Invalid uuid: '' @ v_ID v)))
      else if \<not> isValidURN (v_Name v) then Ret (Some (NewValidationError (''Incorrect name: '' @ v_Name v)))
      else if v_Palette v \<noteq> [] \<and> \<not> isValidURN (v_Palette v)
      then Ret (Some (NewValidationError (''Incorrect palette name: '' @ v_Palette v)))
      else if v_Palette v \<noteq> [] \<and> length (v_Bands v) \<noteq> 1
      then Ret (Some (NewValidationError ''Cannot define a palette to a multi-bands variable''))
      else go_bind (DataFormat_validate (v_DFormat v)) (\<lambda>eo.
        case eo of Some e \<Rightarrow> Ret (Some (NewValidationError (''Incorrect data format: '' @ ErrorMsg e)))
        | None \<Rightarrow>
            if v_Bands v = [] then Ret (Some (NewValidationError ''Bands definition must have at least one band''))
            else if length (v_Bands v) > 1 \<and> list_ex (\<lambda>n. n = []) (v_Bands v)
            then Ret (Some (NewValidationError ''Band name cannot be empty''))
            else Ret None))"

record pb_Variable = pbv_Name :: string
  pbv_Unit :: string
  pbv_Description :: string
  pbv_Dformat :: "pb_DataFormat option"
  pbv_Bands :: "string list"
  pbv_Palette :: string
  pbv_ResamplingAlg :: int

definition empty_params :: ConsolidationParams where
  "empty_params =
     \<lparr>cp_ps = UNKNOWN, cp_DFormat = NewDataFormatFromProtobuf None, cp_Exponent = Fin 0, cp_Compression = CompressionNO,
      cp_CreationParams = [], cp_ResamplingAlg = ResamplingUNDEFINED, cp_StorageClass = StorageClassSTANDARD\<rparr>"

definition NewVariableFromProtobuf :: "(string \<Rightarrow> bool) \<Rightarrow> string \<Rightarrow> pb_Variable \<Rightarrow> (gerr + Variable) go" where
  "NewVariableFromProtobuf uuid_ok uid pbv =
     (if pbv_ResamplingAlg pbv = 0 then Ret (Inl (NewValidationError ''Resampling algorithm cannot be undefined''))
      else let v = \<lparr>v_ps = NEW, v_ID = uid, v_Name = pbv_Name pbv, v_Instances = [], v_Unit = pbv_Unit pbv,
                    v_Description = pbv_Description pbv, v_Bands = pbv_Bands pbv,
                    v_DFormat = NewDataFormatFromProtobuf (pbv_Dformat pbv), v_Palette = pbv_Palette pbv,
                    v_Resampling = Resampling_of (pbv_ResamplingAlg pbv), v_ConsolidationParams = empty_params\<rparr>
           in go_bind (Variable_validate uuid_ok v) (\<lambda>eo.
                Ret (case eo of Some e \<Rightarrow> Inl e | None \<Rightarrow> Inr v)))"

definition instance_Clean :: "VariableInstance \<Rightarrow> VariableInstance go" where
  "instance_Clean vi = go_bind (ps_Clean (vi_ps vi)) (\<lambda>p. Ret (vi\<lparr>vi_ps := p\<rparr>))"

definition instance_toDelete :: "VariableInstance \<Rightarrow> VariableInstance go" where
  "instance_toDelete vi = go_bind (ps_toDelete (vi_ps vi)) (\<lambda>p. Ret (vi\<lparr>vi_ps := p\<rparr>))"

definition instance_dirty :: "VariableInstance \<Rightarrow> VariableInstance go" where
  "instance_dirty vi = go_bind (ps_dirty (vi_ps vi)) (\<lambda>p. Ret (vi\<lparr>vi_ps := p\<rparr>))"

text \<open>A loop over the instances that updates some of them in place.\<close>

fun map_instances ::
  "(VariableInstance \<Rightarrow> VariableInstance go) \<Rightarrow> (string \<times> VariableInstance) list \<Rightarrow> (string \<times> VariableInstance) list go" where
  "map_instances f [] = Ret []"
| "map_instances f ((k, vi) # rest) =
     go_bind (f vi) (\<lambda>vi'. go_bind (map_instances f rest) (\<lambda>rest'. Ret ((k, vi') # rest')))"

definition Variable_Clean :: "bool \<Rightarrow> Variable \<Rightarrow> Variable go" where
  "Variable_Clean all v =
     go_bind
       (if all
        then go_bind (map_instances instance_Clean (v_Instances v)) (\<lambda>is.
             go_bind (ps_Clean (cp_ps (v_ConsolidationParams v))) (\<lambda>p.
               Ret (v\<lparr>v_Instances := is, v_ConsolidationParams := (v_ConsolidationParams v)\<lparr>cp_ps := p\<rparr>\<rparr>)))
        else Ret v) (\<lambda>v. go_bind (ps_Clean (v_ps v)) (\<lambda>p. Ret (v\<lparr>v_ps := p\<rparr>)))"

definition Variable_ToDelete :: "string \<Rightarrow> Variable \<Rightarrow> Variable go" where
  "Variable_ToDelete instanceID v =
     (if instanceID = []
      then go_bind (map_instances instance_toDelete (v_Instances v)) (\<lambda>is.
           go_bind (ps_toDelete (cp_ps (v_ConsolidationParams v))) (\<lambda>pp.
           go_bind (ps_toDelete (v_ps v)) (\<lambda>p.
             Ret (v\<lparr>v_Instances := is, v_ConsolidationParams := (v_ConsolidationParams v)\<lparr>cp_ps := pp\<rparr>, v_ps := p\<rparr>))))
      else go_bind (map_instances (\<lambda>vi. if vi_ID vi = instanceID then instance_toDelete vi else Ret vi) (v_Instances v)) (\<lambda>is.
             Ret (v\<lparr>v_Instances := is\<rparr>)))"

definition variable_dirty :: "Variable \<Rightarrow> Variable go" where
  "variable_dirty v = go_bind (ps_dirty (v_ps v)) (\<lambda>p. Ret (v\<lparr>v_ps := p\<rparr>))"

text \<open>The step \<open>if x != nil && field != *x { field = *x; dirty() }\<close> of the update of a field.\<close>

definition set_field :: "'a option \<Rightarrow> (Variable \<Rightarrow> 'a) \<Rightarrow> ('a \<Rightarrow> Variable \<Rightarrow> Variable) \<Rightarrow> Variable \<Rightarrow> Variable go" where
  "set_field xo get put v =
     (case xo of None \<Rightarrow> Ret v | Some x \<Rightarrow> if get v \<noteq> x then variable_dirty (put x v) else Ret v)"

definition Variable_Update ::
  "(string \<Rightarrow> bool) \<Rightarrow> string option \<Rightarrow> string option \<Rightarrow> string option \<Rightarrow> string option \<Rightarrow> Resampling option \<Rightarrow>
   Variable \<Rightarrow> (gerr option \<times> Variable) go" where
  "Variable_Update uuid_ok name unit description palette resampling v =
     go_bind (set_field name v_Name (\<lambda>x. v_Name_update (\<lambda>_. x)) v) (\<lambda>v.
     go_bind (set_field unit v_Unit (\<lambda>x. v_Unit_update (\<lambda>_. x)) v) (\<lambda>v.
     go_bind (set_field description v_Description (\<lambda>x. v_Description_update (\<lambda>_. x)) v) (\<lambda>v.
     go_bind (set_field palette v_Palette (\<lambda>x. v_Palette_update (\<lambda>_. x)) v) (\<lambda>v.
     go_bind (set_field resampling v_Resampling (\<lambda>x. v_Resampling_update (\<lambda>_. x)) v) (\<lambda>v.
       if IsDirty (v_ps v) then go_bind (Variable_validate uuid_ok v) (\<lambda>eo. Ret (eo, v))
       else Ret (None, v))))))"

definition SetConsolidationParams :: "ConsolidationParams \<Rightarrow> Variable \<Rightarrow> gerr option \<times> Variable" where
  "SetConsolidationParams params v =
     (if \<not> canCastTo (v_DFormat v) (cp_DFormat params) \<or> \<not> canCastTo (cp_DFormat params) (v_DFormat v)
      then Some (NewValidationError ''ConsolidationParams: DataFormats are not compatible'') else None,
      v\<lparr>v_ConsolidationParams := params\<rparr>)"

definition CheckInstanceExists :: "string \<Rightarrow> Variable \<Rightarrow> gerr option" where
  "CheckInstanceExists instanceID v =
     (if map_of (v_Instances v) instanceID = None
      then Some (NewEntityNotFound ''Instance'' ''id'' instanceID
             (''Instance '' @ instanceID @ '' does not belong to the variable '' @ v_Name v @ '' ('' @ v_ID v @ '')''))
      else None)"

definition checkInstanceDoesNotExist :: "string \<Rightarrow> string \<Rightarrow> Variable \<Rightarrow> gerr option" where
  "checkInstanceDoesNotExist name exceptInstanceID v =
     (if list_ex (\<lambda>(_, i). vi_ID i \<noteq> exceptInstanceID \<and> vi_Name i = name) (v_Instances v)
      then Some (NewEntityAlreadyExists ''Instance'' ''name'' (v_Name v @ '':'' @ name) [])
      else None)"

definition AddInstance :: "VariableInstance \<Rightarrow> Variable \<Rightarrow> gerr option \<times> Variable" where
  "AddInstance vi v =
     (case checkInstanceDoesNotExist (vi_Name vi) [] v of
        Some e \<Rightarrow> (Some e, v)
      | None \<Rightarrow> (None, v\<lparr>v_Instances := AList.update (vi_ID vi) vi (v_Instances v)\<rparr>))"

definition put_metadata :: "string \<times> string \<Rightarrow> VariableInstance \<Rightarrow> VariableInstance go" where
  "put_metadata kv vi =
     (if map_of (vi_Metadata vi) (fst kv) \<noteq> Some (snd kv)
      then instance_dirty (vi\<lparr>vi_Metadata := AList.update (fst kv) (snd kv) (vi_Metadata vi)\<rparr>)
      else Ret vi)"

definition del_metadata :: "string \<Rightarrow> VariableInstance \<Rightarrow> VariableInstance go" where
  "del_metadata k vi = instance_dirty (vi\<lparr>vi_Metadata := AList.delete k (vi_Metadata vi)\<rparr>)"

definition put_instance :: "string \<Rightarrow> VariableInstance \<Rightarrow> Variable \<Rightarrow> Variable" where
  "put_instance k vi v = v\<lparr>v_Instances := AList.update k vi (v_Instances v)\<rparr>"

definition UpdateInstance ::
  "(string \<Rightarrow> bool) \<Rightarrow> string \<Rightarrow> string option \<Rightarrow> Metadata \<Rightarrow> string list \<Rightarrow> Variable \<Rightarrow> (gerr option \<times> Variable) go" where
  "UpdateInstance uuid_ok instanceID name newMetadata delMetadataKeys v =
     (case map_of (v_Instances v) instanceID of
        None \<Rightarrow> Panic ''runtime error: invalid memory address or nil pointer dereference''
      | Some i \<Rightarrow>
          let rest = (\<lambda>i. go_bind (go_fold put_metadata newMetadata i) (\<lambda>i.
                          go_bind (go_fold del_metadata delMetadataKeys i) (\<lambda>i.
                            Ret (VariableInstance_validate uuid_ok i, put_instance instanceID i v))))
          in (case name of
                None \<Rightarrow> rest i
              | Some n \<Rightarrow>
                  if vi_Name i \<noteq> n
                  then (case checkInstanceDoesNotExist n instanceID v of
                          Some e \<Rightarrow> Ret (Some e, v)
                        | None \<Rightarrow> go_bind (instance_dirty (i\<lparr>vi_Name := n\<rparr>)) rest)
                  else rest i))"

record pb_Instance = pbi_Id :: string
  pbi_Name :: string
  pbi_Metadata :: Metadata

record pb_VariableView = pbw_Id :: string
  pbw_Name :: string
  pbw_Unit :: string
  pbw_Description :: string
  pbw_Dformat :: pb_DataFormat
  pbw_Bands :: "string list"
  pbw_Palette :: string
  pbw_ResamplingAlg :: int
  pbw_Instances :: "pb_Instance list"

definition Variable_ToProtobuf :: "Variable \<Rightarrow> pb_VariableView" where
  "Variable_ToProtobuf v =
     \<lparr>pbw_Id = v_ID v, pbw_Name = v_Name v, pbw_Unit = v_Unit v, pbw_Description = v_Description v,
      pbw_Dformat = DataFormat_ToProtobuf (v_DFormat v), pbw_Bands = v_Bands v, pbw_Palette = v_Palette v,
      pbw_ResamplingAlg = Resampling_code (v_Resampling v),
      pbw_Instances = map (\<lambda>(_, i). \<lparr>pbi_Id = vi_ID i, pbi_Name = vi_Name i, pbi_Metadata = vi_Metadata i\<rparr>) (v_Instances v)\<rparr>"

text \<open>The resampling algorithms of GDAL.\<close>

datatype GdalResampling = RNearest | RBilinear | RCubic | RCubicSpline | RLanczos | RAverage | RMode | RMax | RMin
  | RMedian | RQ1 | RQ3

fun Resampling_ToGDAL :: "Resampling \<Rightarrow> GdalResampling" where
  "Resampling_ToGDAL ResamplingBILINEAR = RBilinear"
| "Resampling_ToGDAL ResamplingCUBIC = RCubic"
| "Resampling_ToGDAL ResamplingCUBICSPLINE = RCubicSpline"
| "Resampling_ToGDAL ResamplingLANCZOS = RLanczos"
| "Resampling_ToGDAL ResamplingAVERAGE = RAverage"
| "Resampling_ToGDAL ResamplingMODE = RMode"
| "Resampling_ToGDAL ResamplingMAX = RMax"
| "Resampling_ToGDAL ResamplingMIN = RMin"
| "Resampling_ToGDAL ResamplingMED = RMedian"
| "Resampling_ToGDAL ResamplingQ1 = RQ1"
| "Resampling_ToGDAL ResamplingQ3 = RQ3"
| "Resampling_ToGDAL _ = RNearest"


section \<open>Lemmas\<close>

lemmas instance_flags = instance_Clean_def instance_toDelete_def instance_dirty_def

lemma validated_instance:
  "VariableInstance_validate uuid_ok vi = None \<longleftrightarrow> uuid_ok (vi_ID vi) \<and> name_segment (vi_Name vi)"
  by (simp add: VariableInstance_validate_def)

lemma NewInstance_Inr:
  "NewInstance uuid_ok uid name metadata = Inr vi \<longleftrightarrow>
     vi = \<lparr>vi_ps = NEW, vi_ID = uid, vi_Name = name, vi_Metadata = metadata\<rparr> \<and> uuid_ok uid \<and> name_segment name"
  by (auto simp: NewInstance_def Let_def VariableInstance_validate_def)

text \<open>The instances of a variable: keyed by their identifiers, with distinct names.\<close>

definition instances_ok :: "(string \<times> VariableInstance) list \<Rightarrow> bool" where
  "instances_ok is \<longleftrightarrow>
     distinct (map fst is) \<and> (\<forall>(k, i) \<in> set is. k = vi_ID i \<and> k \<noteq> []) \<and>
     (\<forall>(k, i) \<in> set is. \<forall>(k', i') \<in> set is. vi_Name i = vi_Name i' \<longrightarrow> k = k')"

lemma set_update_distinct:
  "distinct (map fst m) \<Longrightarrow> set (AList.update k v m) = insert (k, v) {(k', v') \<in> set m. k' \<noteq> k}"
  by (induction m) (auto simp: image_iff)

lemma instances_ok_update:
  assumes "instances_ok is" and "vi_ID i = k" and "k \<noteq> []"
    and "\<forall>(k', i') \<in> set is. k' \<noteq> k \<longrightarrow> vi_Name i' \<noteq> vi_Name i"
  shows "instances_ok (AList.update k i is)"
proof -
  have d: "distinct (map fst is)" using assms(1) by (simp add: instances_ok_def)
  then have "distinct (map fst (AList.update k i is))" by (simp add: distinct_update)
  moreover have "\<forall>(k', i') \<in> set (AList.update k i is). k' = vi_ID i' \<and> k' \<noteq> []"
    using assms(1-3) by (auto simp: set_update_distinct [OF d] instances_ok_def)
  moreover have "\<forall>(a, x) \<in> set (AList.update k i is). \<forall>(b, y) \<in> set (AList.update k i is).
      vi_Name x = vi_Name y \<longrightarrow> a = b"
    using assms(1,4) unfolding set_update_distinct [OF d] instances_ok_def by fastforce
  ultimately show ?thesis by (simp add: instances_ok_def)
qed

lemma checkInstance_None:
  assumes "instances_ok (v_Instances v)"
  shows "checkInstanceDoesNotExist name ex v = None \<longleftrightarrow>
     (\<forall>(k, i) \<in> set (v_Instances v). k \<noteq> ex \<longrightarrow> vi_Name i \<noteq> name)"
proof -
  have k: "k = vi_ID i" if "(k, i) \<in> set (v_Instances v)" for k i
    using assms that by (auto simp: instances_ok_def)
  have "checkInstanceDoesNotExist name ex v = None \<longleftrightarrow>
      (\<forall>(k, i) \<in> set (v_Instances v). vi_ID i \<noteq> ex \<longrightarrow> vi_Name i \<noteq> name)"
    by (auto simp: checkInstanceDoesNotExist_def list_ex_iff split: prod.splits)
  then show ?thesis by (auto dest: k)
qed

lemma AddInstance_ok:
  assumes "instances_ok (v_Instances v)" and "vi_ID vi \<noteq> []"
  shows "instances_ok (v_Instances (snd (AddInstance vi v)))"
proof (cases "checkInstanceDoesNotExist (vi_Name vi) [] v")
  case None
  with assms(1) have "\<forall>(k, i) \<in> set (v_Instances v). k \<noteq> [] \<longrightarrow> vi_Name i \<noteq> vi_Name vi"
    by (simp add: checkInstance_None)
  moreover have "\<forall>(k, i) \<in> set (v_Instances v). k \<noteq> []" using assms(1) by (auto simp: instances_ok_def)
  ultimately have "\<forall>(k, i) \<in> set (v_Instances v). k \<noteq> vi_ID vi \<longrightarrow> vi_Name i \<noteq> vi_Name vi" by blast
  with assms None show ?thesis by (simp add: AddInstance_def instances_ok_update)
qed (use assms in \<open>simp add: AddInstance_def\<close>)

text \<open>Metadata updates keep identifier and name.\<close>

definition same_identity :: "VariableInstance \<Rightarrow> VariableInstance \<Rightarrow> bool" where
  "same_identity i i' \<longleftrightarrow> vi_ID i' = vi_ID i \<and> vi_Name i' = vi_Name i"

lemma metadata_step_identity:
  "put_metadata kv i = Ret i' \<Longrightarrow> same_identity i i'"
  "del_metadata k i = Ret i' \<Longrightarrow> same_identity i i'"
  by (auto simp: same_identity_def put_metadata_def del_metadata_def instance_dirty_def go_bind_eq_Ret_iff
      split: if_splits)

lemma metadata_steps_identity:
  "go_fold put_metadata kvs i = Ret i' \<Longrightarrow> same_identity i i'"
  "go_fold del_metadata ks i = Ret i' \<Longrightarrow> same_identity i i'"
proof -
  have trans: "same_identity a b \<Longrightarrow> same_identity b c \<Longrightarrow> same_identity a c" for a b c
    by (simp add: same_identity_def)
  have refl: "same_identity i i" by (simp add: same_identity_def)
  show "go_fold put_metadata kvs i = Ret i' \<Longrightarrow> same_identity i i'"
    by (erule go_fold_invariant [where I = "same_identity i"]) (use refl trans metadata_step_identity in blast)+
  show "go_fold del_metadata ks i = Ret i' \<Longrightarrow> same_identity i i'"
    by (erule go_fold_invariant [where I = "same_identity i"]) (use refl trans metadata_step_identity in blast)+
qed

lemma UpdateInstance_ok:
  assumes "instances_ok (v_Instances v)" and "UpdateInstance uuid_ok k name kvs ks v = Ret (eo, v')"
  shows "instances_ok (v_Instances v')"
proof -
  from assms(2) obtain i where i: "map_of (v_Instances v) k = Some i"
    by (auto simp: UpdateInstance_def split: option.splits)
  then have mem: "(k, i) \<in> set (v_Instances v)" by (rule map_of_SomeD)
  with assms(1) have k: "vi_ID i = k" "k \<noteq> []" by (auto simp: instances_ok_def)
  from assms(2) i have "v' = v \<or>
     (\<exists>i'. v' = put_instance k i' v \<and> vi_ID i' = k \<and>
        (vi_Name i' = vi_Name i \<or> checkInstanceDoesNotExist (vi_Name i') k v = None))"
    using k by (fastforce simp: UpdateInstance_def Let_def go_bind_eq_Ret_iff instance_dirty_def same_identity_def
        dest!: metadata_steps_identity split: option.splits if_splits)
  then show ?thesis
  proof (elim disjE exE conjE)
    fix i' assume i': "v' = put_instance k i' v" "vi_ID i' = k" "vi_Name i' = vi_Name i"
    have "\<forall>(k', x) \<in> set (v_Instances v). k' \<noteq> k \<longrightarrow> vi_Name x \<noteq> vi_Name i'"
      using assms(1) mem i'(3) unfolding instances_ok_def by fastforce
    with assms(1) i' k show ?thesis by (simp add: put_instance_def instances_ok_update)
  next
    fix i' assume i': "v' = put_instance k i' v" "vi_ID i' = k" "checkInstanceDoesNotExist (vi_Name i') k v = None"
    with assms(1) k show ?thesis by (simp add: put_instance_def instances_ok_update checkInstance_None)
  qed (use assms(1) in simp)
qed

end
