(* ===== verification/JobMachine.thy ===== *)
theory JobMachine
  imports Events
begin

text \<open>
  The state machine of a job, internal/geocube/job.go: construction, logging, and \<open>Trigger\<close> with the
  three dispatch functions.  \<open>now\<close> is the instant of the operation (\<open>time.Now()\<close>).  An operation that
  the Go code runs on a \<open>*Job\<close> takes the job and returns it updated.
\<close>

section \<open>Construction\<close>

definition empty_locks :: "LockedDatasets list" where
  "empty_locks = replicate 3 \<lparr>ld_ps = UNKNOWN, ld_newDatasetsID = []\<rparr>"

definition NewJob :: "string \<Rightarrow> Job" where
  "NewJob i =
     \<lparr>j_ps = UNKNOWN, j_State = JobStateNEW, j_ID = i, j_Name = [], j_Type = JobTypeCONSOLIDATION,
      j_CreationTime = 0, j_occTime = 0, j_LastUpdateTime = 0,
      j_Payload = \<lparr>jp_Layout = [], jp_InstanceID = [], jp_ParamsID = [], jp_CollapseRecordId = []\<rparr>,
      j_Logs = [], j_LogsCount = 0, j_NewLogs = [], j_ActiveTasks = 0, j_FailedTasks = 0,
      j_ExecutionLevel = ExecutionSynchronous, j_Waiting = False, j_Tasks = [], j_Params = None,
      j_LockedDatasets = empty_locks\<rparr>"

text \<open>\<open>uid\<close> is the identifier that \<open>uuid.New\<close> draws.\<close>

definition NewConsolidationJob ::
  "string \<Rightarrow> gtime \<Rightarrow> string \<Rightarrow> string \<Rightarrow> string \<Rightarrow> string \<Rightarrow> ExecutionLevel \<Rightarrow> gerr + Job" where
  "NewConsolidationJob uid now jobName layout instanceID collapseRecordId executionLevel =
     (if executionLevel = ExecutionSynchronous
      then Inl (NewValidationError ''a consolidation job cannot be executed synchronously'')
      else Inr ((NewJob uid)
        \<lparr>j_ps := NEW, j_Name := jobName, j_Type := JobTypeCONSOLIDATION,
         j_CreationTime := now, j_LastUpdateTime := now,
         j_Payload := \<lparr>jp_Layout = layout, jp_InstanceID = instanceID, jp_ParamsID = uid,
                       jp_CollapseRecordId = collapseRecordId\<rparr>,
         j_NewLogs := [\<lparr>jl_Severity = INFO, jl_Msg = ''Create Job Consolidation'',
                        jl_Status = JobState_String JobStateNEW, jl_Date = now\<rparr>],
         j_ExecutionLevel := executionLevel\<rparr>))"

definition NewDeletionJob :: "string \<Rightarrow> gtime \<Rightarrow> string \<Rightarrow> ExecutionLevel \<Rightarrow> Job" where
  "NewDeletionJob uid now jobName executionLevel =
     (NewJob uid)
       \<lparr>j_ps := NEW, j_Name := jobName, j_Type := JobTypeDELETION,
        j_CreationTime := now, j_LastUpdateTime := now,
        j_NewLogs := [\<lparr>jl_Severity = INFO, jl_Msg = ''Create Job Deletion'',
                       jl_Status = JobState_String JobStateNEW, jl_Date = now\<rparr>],
        j_ExecutionLevel := executionLevel\<rparr>"

definition SetParams :: "ConsolidationParams \<Rightarrow> Job \<Rightarrow> gerr option \<times> Job" where
  "SetParams params j =
     (if \<not> IsNew (j_ps j)
      then (Some (PlainE ''job.setParams: cannot set params to a job that is not new''), j)
      else (None, j\<lparr>j_Params := Some (params\<lparr>cp_ps := NEW\<rparr>)\<rparr>))"

section \<open>Persistence flag and logs\<close>

definition job_dirty :: "gtime \<Rightarrow> Job \<Rightarrow> Job go" where
  "job_dirty now j =
     go_bind (ps_dirty (j_ps j)) (\<lambda>p. Ret (j\<lparr>j_LastUpdateTime := now, j_ps := p\<rparr>))"

definition OCCTime :: "Job \<Rightarrow> gtime" where
  "OCCTime j = j_occTime j"

definition LogMsg :: "gtime \<Rightarrow> LogSeverity \<Rightarrow> string \<Rightarrow> Job \<Rightarrow> Job go" where
  "LogMsg now severity msg j =
     (let log = \<lparr>jl_Severity = severity, jl_Msg = msg, jl_Status = JobState_String (j_State j), jl_Date = now\<rparr>
      in job_dirty now (j\<lparr>j_NewLogs := j_NewLogs j @ [log], j_Logs := j_Logs j @ [log],
                          j_LogsCount := j_LogsCount j + 1\<rparr>))"

definition ClearPersistedLogs :: "Job \<Rightarrow> Job" where
  "ClearPersistedLogs j = j\<lparr>j_NewLogs := []\<rparr>"

definition LogErr :: "gtime \<Rightarrow> string \<Rightarrow> Job \<Rightarrow> Job go" where
  "LogErr now err j = (if err = [] then Ret j else LogMsg now ERROR err j)"

section \<open>Triggers\<close>

text \<open>Pause level of each state, and whether a forced retry stays in the state.\<close>

fun jobStateInfo :: "JobState \<Rightarrow> ExecutionLevel \<times> bool" where
  "jobStateInfo JobStateNEW = (StepByStepAll, True)"
| "jobStateInfo JobStateCREATED = (StepByStepMajor, True)"
| "jobStateInfo JobStateCONSOLIDATIONINPROGRESS = (StepByStepCritical, False)"
| "jobStateInfo JobStateCONSOLIDATIONDONE = (StepByStepMajor, True)"
| "jobStateInfo JobStateCONSOLIDATIONINDEXED = (StepByStepAll, True)"
| "jobStateInfo JobStateCONSOLIDATIONEFFECTIVE = (StepByStepCritical, True)"
| "jobStateInfo JobStateCONSOLIDATIONFAILED = (StepByStepAll, False)"
| "jobStateInfo JobStateCONSOLIDATIONRETRYING = (StepByStepMajor, True)"
| "jobStateInfo JobStateCONSOLIDATIONFORCERETRYING = (StepByStepMajor, True)"
| "jobStateInfo JobStateCONSOLIDATIONCANCELLING = (StepByStepMajor, True)"
| "jobStateInfo JobStateDELETIONINPROGRESS = (StepByStepCritical, True)"
| "jobStateInfo JobStateDELETIONEFFECTIVE = (StepByStepMajor, True)"
| "jobStateInfo JobStateDELETIONFAILED = (StepByStepAll, False)"
| "jobStateInfo JobStateDONE = (StepByStepNever, False)"
| "jobStateInfo JobStateFAILED = (StepByStepNever, False)"
| "jobStateInfo JobStateINITIALISATIONFAILED = (StepByStepAll, False)"
| "jobStateInfo JobStateCANCELLATIONFAILED = (StepByStepAll, False)"
| "jobStateInfo JobStateABORTED = (StepByStepMajor, True)"
| "jobStateInfo JobStateROLLBACKFAILED = (StepByStepAll, False)"
| "jobStateInfo JobStateDONEBUTUNTIDY = (StepByStepNever, False)"

definition changeState :: "gtime \<Rightarrow> JobState \<Rightarrow> Job \<Rightarrow> (bool \<times> Job) go" where
  "changeState now newState j =
     go_bind (job_dirty now (j\<lparr>j_State := newState,
                               j_Waiting := (j_ExecutionLevel j \<ge> fst (jobStateInfo newState))\<rparr>))
       (\<lambda>j'. Ret (True, j'))"

definition retried :: "gtime \<Rightarrow> JobState \<Rightarrow> Job \<Rightarrow> (bool \<times> Job) go" where
  "retried now newState j = go_bind (LogMsg now INFO ''Retried by user'' j) (changeState now newState)"

definition triggerConsolidation :: "gtime \<Rightarrow> JobEvent \<Rightarrow> Job \<Rightarrow> (bool \<times> Job) go" where
  "triggerConsolidation now evt j =
     (case j_State j of
        JobStateNEW \<Rightarrow>
         (case je_Status evt of
            CancelledByUserForced \<Rightarrow> changeState now JobStateABORTED j
          | CancelledByUser \<Rightarrow> (if j_Waiting j then changeState now JobStateABORTED j else Ret (False, j))
          | JobCreated \<Rightarrow> changeState now JobStateCREATED j
          | _ \<Rightarrow> Ret (False, j))
      | JobStateCREATED \<Rightarrow>
         (case je_Status evt of
            CancelledByUserForced \<Rightarrow> changeState now JobStateABORTED j
          | CancelledByUser \<Rightarrow> (if j_Waiting j then changeState now JobStateABORTED j else Ret (False, j))
          | PrepareOrdersFailed \<Rightarrow> changeState now JobStateINITIALISATIONFAILED j
          | OrdersPrepared \<Rightarrow> changeState now JobStateCONSOLIDATIONINPROGRESS j
          | _ \<Rightarrow> Ret (False, j))
      | JobStateCONSOLIDATIONINPROGRESS \<Rightarrow>
         (case je_Status evt of
            RetryForced \<Rightarrow> changeState now JobStateCONSOLIDATIONFORCERETRYING j
          | Retried \<Rightarrow> changeState now JobStateCONSOLIDATIONRETRYING j
          | CancelledByUser \<Rightarrow> go_bind (LogMsg now INFO ''Cancelled by user'' j) (changeState now JobStateCONSOLIDATIONCANCELLING)
          | CancelledByUserForced \<Rightarrow> go_bind (LogMsg now INFO ''Cancelled by user'' j) (changeState now JobStateCONSOLIDATIONCANCELLING)
          | ConsolidationFailed \<Rightarrow> changeState now JobStateCONSOLIDATIONFAILED j
          | SendOrdersFailed \<Rightarrow> changeState now JobStateCONSOLIDATIONFAILED j
          | ConsolidationDone \<Rightarrow> changeState now JobStateCONSOLIDATIONDONE j
          | _ \<Rightarrow> Ret (False, j))
      | JobStateCONSOLIDATIONDONE \<Rightarrow>
         (case je_Status evt of
            CancelledByUserForced \<Rightarrow> changeState now JobStateABORTED j
          | CancelledByUser \<Rightarrow> (if j_Waiting j then changeState now JobStateABORTED j else Ret (False, j))
          | ConsolidationIndexingFailed \<Rightarrow> changeState now JobStateCONSOLIDATIONFAILED j
          | ConsolidationIndexed \<Rightarrow> changeState now JobStateCONSOLIDATIONINDEXED j
          | _ \<Rightarrow> Ret (False, j))
      | JobStateCONSOLIDATIONINDEXED \<Rightarrow>
         (case je_Status evt of
            CancelledByUserForced \<Rightarrow> changeState now JobStateABORTED j
          | CancelledByUser \<Rightarrow> (if j_Waiting j then changeState now JobStateABORTED j else Ret (False, j))
          | SwapDatasetsFailed \<Rightarrow> changeState now JobStateCONSOLIDATIONFAILED j
          | DatasetsSwapped \<Rightarrow> changeState now JobStateCONSOLIDATIONEFFECTIVE j
          | _ \<Rightarrow> Ret (False, j))
      | JobStateCONSOLIDATIONEFFECTIVE \<Rightarrow>
         (case je_Status evt of
            StartDeletionFailed \<Rightarrow> changeState now JobStateDONEBUTUNTIDY j
          | DeletionStarted \<Rightarrow> changeState now JobStateDONE j
          | _ \<Rightarrow> Ret (False, j))
      | JobStateDONE \<Rightarrow> Ret (False, j)
      | JobStateDONEBUTUNTIDY \<Rightarrow>
         (case je_Status evt of
            RetryForced \<Rightarrow> retried now JobStateCONSOLIDATIONEFFECTIVE j
          | Retried \<Rightarrow> retried now JobStateCONSOLIDATIONEFFECTIVE j
          | _ \<Rightarrow> Ret (False, j))
      | JobStateCONSOLIDATIONCANCELLING \<Rightarrow>
         (case je_Status evt of
            CancellationFailed \<Rightarrow> changeState now JobStateCANCELLATIONFAILED j
          | CancellationDone \<Rightarrow> changeState now JobStateABORTED j
          | _ \<Rightarrow> Ret (False, j))
      | JobStateCANCELLATIONFAILED \<Rightarrow>
         (case je_Status evt of
            Retried \<Rightarrow> retried now JobStateCONSOLIDATIONCANCELLING j
          | RetryForced \<Rightarrow> retried now JobStateCONSOLIDATIONCANCELLING j
          | _ \<Rightarrow> Ret (False, j))
      | JobStateINITIALISATIONFAILED \<Rightarrow>
         (case je_Status evt of
            Retried \<Rightarrow> retried now JobStateCREATED j
          | RetryForced \<Rightarrow> retried now JobStateCREATED j
          | CancelledByUser \<Rightarrow> changeState now JobStateABORTED j
          | CancelledByUserForced \<Rightarrow> changeState now JobStateABORTED j
          | _ \<Rightarrow> Ret (False, j))
      | JobStateCONSOLIDATIONFAILED \<Rightarrow>
         (case je_Status evt of
            Retried \<Rightarrow> changeState now JobStateCONSOLIDATIONRETRYING j
          | RetryForced \<Rightarrow> changeState now JobStateCONSOLIDATIONRETRYING j
          | CancelledByUser \<Rightarrow> changeState now JobStateABORTED j
          | CancelledByUserForced \<Rightarrow> changeState now JobStateABORTED j
          | _ \<Rightarrow> Ret (False, j))
      | JobStateABORTED \<Rightarrow>
         (case je_Status evt of
            RollbackFailed \<Rightarrow> changeState now JobStateROLLBACKFAILED j
          | RollbackDone \<Rightarrow> changeState now JobStateFAILED j
          | _ \<Rightarrow> Ret (False, j))
      | JobStateROLLBACKFAILED \<Rightarrow>
         (case je_Status evt of
            RetryForced \<Rightarrow> retried now JobStateABORTED j
          | Retried \<Rightarrow> retried now JobStateABORTED j
          | CancelledByUserForced \<Rightarrow> changeState now JobStateFAILED j
          | _ \<Rightarrow> Ret (False, j))
      | JobStateCONSOLIDATIONRETRYING \<Rightarrow>
         (case je_Status evt of
            ConsolidationRetryFailed \<Rightarrow> changeState now JobStateCONSOLIDATIONFAILED j
          | OrdersPrepared \<Rightarrow> changeState now JobStateCONSOLIDATIONINPROGRESS j
          | _ \<Rightarrow> Ret (False, j))
      | JobStateCONSOLIDATIONFORCERETRYING \<Rightarrow>
         (case je_Status evt of
            ConsolidationRetryFailed \<Rightarrow> changeState now JobStateCONSOLIDATIONFAILED j
          | OrdersPrepared \<Rightarrow> changeState now JobStateCONSOLIDATIONINPROGRESS j
          | _ \<Rightarrow> Ret (False, j))
      | JobStateFAILED \<Rightarrow> Ret (False, j)
      | _ \<Rightarrow> Panic (''trigger: Unknown state :'' @ JobState_String (j_State j)))"

definition triggerDeletion :: "gtime \<Rightarrow> JobEvent \<Rightarrow> Job \<Rightarrow> (bool \<times> Job) go" where
  "triggerDeletion now evt j =
     (case j_State j of
        JobStateNEW \<Rightarrow>
         (case je_Status evt of
            CancelledByUserForced \<Rightarrow> changeState now JobStateABORTED j
          | CancelledByUser \<Rightarrow> (if j_Waiting j then changeState now JobStateABORTED j else Ret (False, j))
          | JobCreated \<Rightarrow> changeState now JobStateCREATED j
          | _ \<Rightarrow> Ret (False, j))
      | JobStateCREATED \<Rightarrow>
         (case je_Status evt of
            CancelledByUserForced \<Rightarrow> changeState now JobStateABORTED j
          | CancelledByUser \<Rightarrow> (if j_Waiting j then changeState now JobStateABORTED j else Ret (False, j))
          | DeletionNotReady \<Rightarrow> changeState now JobStateINITIALISATIONFAILED j
          | DeletionReady \<Rightarrow> changeState now JobStateDELETIONINPROGRESS j
          | _ \<Rightarrow> Ret (False, j))
      | JobStateDELETIONINPROGRESS \<Rightarrow>
         (case je_Status evt of
            CancelledByUserForced \<Rightarrow> changeState now JobStateABORTED j
          | CancelledByUser \<Rightarrow> (if j_Waiting j then changeState now JobStateABORTED j else Ret (False, j))
          | RemovalFailed \<Rightarrow> changeState now JobStateDELETIONFAILED j
          | RemovalDone \<Rightarrow> changeState now JobStateDELETIONEFFECTIVE j
          | _ \<Rightarrow> Ret (False, j))
      | JobStateDELETIONEFFECTIVE \<Rightarrow>
         (case je_Status evt of
            CancelledByUserForced \<Rightarrow> go_bind (if \<not> j_Waiting j
                    then LogMsg now WARN ''Deletion has been cancelled, but files may have already been deleted'' j
                    else Ret j) (changeState now JobStateABORTED)
          | DeletionFailed \<Rightarrow> changeState now JobStateDONEBUTUNTIDY j
          | DeletionDone \<Rightarrow> changeState now JobStateDONE j
          | _ \<Rightarrow> Ret (False, j))
      | JobStateDONE \<Rightarrow> Ret (False, j)
      | JobStateDONEBUTUNTIDY \<Rightarrow>
         (case je_Status evt of
            RetryForced \<Rightarrow> retried now JobStateDELETIONEFFECTIVE j
          | _ \<Rightarrow> Ret (False, j))
      | JobStateDELETIONFAILED \<Rightarrow>
         (case je_Status evt of
            Retried \<Rightarrow> retried now JobStateDELETIONINPROGRESS j
          | RetryForced \<Rightarrow> retried now JobStateDELETIONINPROGRESS j
          | CancelledByUser \<Rightarrow> changeState now JobStateABORTED j
          | CancelledByUserForced \<Rightarrow> changeState now JobStateABORTED j
          | _ \<Rightarrow> Ret (False, j))
      | JobStateABORTED \<Rightarrow>
         (case je_Status evt of
            RollbackFailed \<Rightarrow> changeState now JobStateROLLBACKFAILED j
          | RollbackDone \<Rightarrow> changeState now JobStateFAILED j
          | _ \<Rightarrow> Ret (False, j))
      | JobStateROLLBACKFAILED \<Rightarrow>
         (case je_Status evt of
            RetryForced \<Rightarrow> retried now JobStateABORTED j
          | Retried \<Rightarrow> retried now JobStateABORTED j
          | CancelledByUserForced \<Rightarrow> changeState now JobStateFAILED j
          | _ \<Rightarrow> Ret (False, j))
      | JobStateINITIALISATIONFAILED \<Rightarrow>
         (case je_Status evt of
            RetryForced \<Rightarrow> retried now JobStateCREATED j
          | Retried \<Rightarrow> retried now JobStateCREATED j
          | CancelledByUserForced \<Rightarrow> changeState now JobStateFAILED j
          | _ \<Rightarrow> Ret (False, j))
      | JobStateFAILED \<Rightarrow> Ret (False, j)
      | _ \<Rightarrow> Panic (''trigger: Unknown state :'' @ JobState_String (j_State j)))"

definition triggerIngestion :: "JobEvent \<Rightarrow> Job \<Rightarrow> (bool \<times> Job) go" where
  "triggerIngestion evt j = Panic ''TODO Ingestion Not Implemented''"

definition trigger_dispatch :: "gtime \<Rightarrow> JobEvent \<Rightarrow> Job \<Rightarrow> (bool \<times> Job) go" where
  "trigger_dispatch now evt j =
     go_bind (if je_Error evt \<noteq> [] then LogErr now (je_Error evt) j else Ret j)
       (\<lambda>j. case j_Type j of
              JobTypeCONSOLIDATION \<Rightarrow> triggerConsolidation now evt j
            | JobTypeDELETION \<Rightarrow> triggerDeletion now evt j
            | JobTypeINGESTION \<Rightarrow> triggerIngestion evt j)"

definition Trigger :: "gtime \<Rightarrow> JobEvent \<Rightarrow> Job \<Rightarrow> (gerr option \<times> Job) go" where
  "Trigger now evt j =
     go_bind
       (if je_Status evt = Continue
        then (if j_Waiting j
              then go_bind (job_dirty now (j\<lparr>j_Waiting := False\<rparr>)) (\<lambda>j. Ret (True, j))
              else Ret (False, j))
        else if je_Status evt = RetryForced \<and> snd (jobStateInfo (j_State j))
        then go_bind (LogMsg now INFO ''Retried by user'' j) (\<lambda>j. Ret (True, j))
        else trigger_dispatch now evt j)
       (\<lambda>(handled, j).
          if handled
          then go_bind
                 (LogMsg now INFO
                    (if j_Waiting j
                     then ''New state: '' @ JobState_String (j_State j) @ '': waiting for user action''
                     else ''New state: '' @ JobState_String (j_State j)) j)
                 (\<lambda>j. Ret (None, j))
          else Ret (Some (NewUnhandledEvent
                 (''Job '' @ j_ID j @ '': Unable to trigger '' @ JobStatus_String (je_Status evt) @
                  '' (current state='' @ JobState_String (j_State j) @ '')'')), j))"

end
