(* ===== verification/JobMachineProps.thy ===== *)
theory JobMachineProps
  imports JobMachine
begin

text \<open>
  The job state machine against its specification.  \<open>csld_edge\<close> and \<open>del_edge\<close> are the
  transitions a consolidation job and a deletion job may make, as step relations; the dispatch
  functions of the code refine them exactly.  Safety and liveness are then proved on the
  relations and carried over to \<open>Trigger\<close> and to runs of it.
\<close>

section \<open>Computing with the operations\<close>

definition touched :: "persistenceState \<Rightarrow> persistenceState" where
  "touched p = (if p = CLEAN \<or> p = UNKNOWN then DIRTY else p)"

definition alive :: "Job \<Rightarrow> bool" where
  "alive j \<longleftrightarrow> j_ps j \<noteq> DELETED"

definition logged :: "gtime \<Rightarrow> LogSeverity \<Rightarrow> string \<Rightarrow> Job \<Rightarrow> Job" where
  "logged now severity msg j =
     (let log = \<lparr>jl_Severity = severity, jl_Msg = msg, jl_Status = JobState_String (j_State j), jl_Date = now\<rparr>
      in j\<lparr>j_NewLogs := j_NewLogs j @ [log], j_Logs := j_Logs j @ [log], j_LogsCount := j_LogsCount j + 1,
           j_LastUpdateTime := now, j_ps := touched (j_ps j)\<rparr>)"

definition entered :: "gtime \<Rightarrow> JobState \<Rightarrow> Job \<Rightarrow> Job" where
  "entered now s j =
     j\<lparr>j_State := s, j_Waiting := (j_ExecutionLevel j \<ge> fst (jobStateInfo s)),
       j_LastUpdateTime := now, j_ps := touched (j_ps j)\<rparr>"

text \<open>The part of a job that the state machine never writes.\<close>

definition job_core :: "Job \<Rightarrow> Job" where
  "job_core j = j\<lparr>j_ps := UNKNOWN, j_State := JobStateNEW, j_Waiting := False, j_Logs := [],
                  j_NewLogs := [], j_LogsCount := 0, j_LastUpdateTime := 0\<rparr>"

lemma touched_alive [simp]: "touched p = DELETED \<longleftrightarrow> p = DELETED"
  by (auto simp: touched_def)

lemma ps_dirty_touched: "p \<noteq> DELETED \<Longrightarrow> ps_dirty p = Ret (touched p)"
  by (simp add: ps_dirty_eq touched_def)

lemma logged_simps [simp]:
  "j_State (logged now sev msg j) = j_State j"
  "j_Waiting (logged now sev msg j) = j_Waiting j"
  "j_Type (logged now sev msg j) = j_Type j"
  "j_ID (logged now sev msg j) = j_ID j"
  "j_Tasks (logged now sev msg j) = j_Tasks j"
  "j_ActiveTasks (logged now sev msg j) = j_ActiveTasks j"
  "j_FailedTasks (logged now sev msg j) = j_FailedTasks j"
  "j_LockedDatasets (logged now sev msg j) = j_LockedDatasets j"
  "j_ExecutionLevel (logged now sev msg j) = j_ExecutionLevel j"
  "j_ps (logged now sev msg j) = touched (j_ps j)"
  "j_Params (logged now sev msg j) = j_Params j"
  "j_Payload (logged now sev msg j) = j_Payload j"
  "job_core (logged now sev msg j) = job_core j"
  "alive (logged now sev msg j) = alive j"
  by (simp_all add: logged_def job_core_def alive_def Let_def)

lemma entered_simps [simp]:
  "j_State (entered now s j) = s"
  "j_Waiting (entered now s j) = (j_ExecutionLevel j \<ge> fst (jobStateInfo s))"
  "j_Type (entered now s j) = j_Type j"
  "j_ID (entered now s j) = j_ID j"
  "j_Tasks (entered now s j) = j_Tasks j"
  "j_ExecutionLevel (entered now s j) = j_ExecutionLevel j"
  "j_LockedDatasets (entered now s j) = j_LockedDatasets j"
  "j_ActiveTasks (entered now s j) = j_ActiveTasks j"
  "j_FailedTasks (entered now s j) = j_FailedTasks j"
  "j_Params (entered now s j) = j_Params j"
  "j_Payload (entered now s j) = j_Payload j"
  "job_core (entered now s j) = job_core j"
  "alive (entered now s j) = alive j"
  by (simp_all add: entered_def job_core_def alive_def)

lemma LogMsg_alive: "alive j \<Longrightarrow> LogMsg now sev msg j = Ret (logged now sev msg j)"
  by (simp add: alive_def LogMsg_def job_dirty_def ps_dirty_touched logged_def Let_def)

lemma LogErr_alive:
  "alive j \<Longrightarrow> LogErr now err j = Ret (if err = [] then j else logged now ERROR err j)"
  by (simp add: LogErr_def LogMsg_alive)

lemma changeState_alive: "alive j \<Longrightarrow> changeState now s j = Ret (True, entered now s j)"
  by (simp add: alive_def changeState_def job_dirty_def ps_dirty_touched entered_def)

lemma retried_alive:
  "alive j \<Longrightarrow> retried now s j = Ret (True, entered now s (logged now INFO ''Retried by user'' j))"
  by (simp add: retried_def LogMsg_alive changeState_alive)

lemma job_dirty_alive:
  "alive j \<Longrightarrow> job_dirty now j = Ret (j\<lparr>j_LastUpdateTime := now, j_ps := touched (j_ps j)\<rparr>)"
  by (simp add: alive_def job_dirty_def ps_dirty_touched)

lemmas machine_alive = LogMsg_alive LogErr_alive changeState_alive retried_alive

section \<open>The specification of the transitions\<close>

definition user_cancellable :: "JobState set" where
  "user_cancellable = {JobStateNEW, JobStateCREATED, JobStateCONSOLIDATIONDONE, JobStateCONSOLIDATIONINDEXED}"

inductive csld_edge :: "bool \<Rightarrow> JobState \<Rightarrow> JobStatus \<Rightarrow> JobState \<Rightarrow> bool" where
  ce_created: "csld_edge w JobStateNEW JobCreated JobStateCREATED"
| ce_prepared: "s \<in> {JobStateCREATED, JobStateCONSOLIDATIONRETRYING, JobStateCONSOLIDATIONFORCERETRYING} \<Longrightarrow>
    csld_edge w s OrdersPrepared JobStateCONSOLIDATIONINPROGRESS"
| ce_init_failed: "csld_edge w JobStateCREATED PrepareOrdersFailed JobStateINITIALISATIONFAILED"
| ce_done: "csld_edge w JobStateCONSOLIDATIONINPROGRESS ConsolidationDone JobStateCONSOLIDATIONDONE"
| ce_failed: "e \<in> {ConsolidationFailed, SendOrdersFailed} \<Longrightarrow>
    csld_edge w JobStateCONSOLIDATIONINPROGRESS e JobStateCONSOLIDATIONFAILED"
| ce_retry_running: "csld_edge w JobStateCONSOLIDATIONINPROGRESS Retried JobStateCONSOLIDATIONRETRYING"
| ce_force_running: "csld_edge w JobStateCONSOLIDATIONINPROGRESS RetryForced JobStateCONSOLIDATIONFORCERETRYING"
| ce_cancel_running: "e \<in> {CancelledByUser, CancelledByUserForced} \<Longrightarrow>
    csld_edge w JobStateCONSOLIDATIONINPROGRESS e JobStateCONSOLIDATIONCANCELLING"
| ce_indexed: "csld_edge w JobStateCONSOLIDATIONDONE ConsolidationIndexed JobStateCONSOLIDATIONINDEXED"
| ce_index_failed: "csld_edge w JobStateCONSOLIDATIONDONE ConsolidationIndexingFailed JobStateCONSOLIDATIONFAILED"
| ce_swapped: "csld_edge w JobStateCONSOLIDATIONINDEXED DatasetsSwapped JobStateCONSOLIDATIONEFFECTIVE"
| ce_swap_failed: "csld_edge w JobStateCONSOLIDATIONINDEXED SwapDatasetsFailed JobStateCONSOLIDATIONFAILED"
| ce_finished: "csld_edge w JobStateCONSOLIDATIONEFFECTIVE DeletionStarted JobStateDONE"
| ce_untidy: "csld_edge w JobStateCONSOLIDATIONEFFECTIVE StartDeletionFailed JobStateDONEBUTUNTIDY"
| ce_tidy: "e \<in> {Retried, RetryForced} \<Longrightarrow> csld_edge w JobStateDONEBUTUNTIDY e JobStateCONSOLIDATIONEFFECTIVE"
| ce_cancelled: "csld_edge w JobStateCONSOLIDATIONCANCELLING CancellationDone JobStateABORTED"
| ce_cancel_failed: "csld_edge w JobStateCONSOLIDATIONCANCELLING CancellationFailed JobStateCANCELLATIONFAILED"
| ce_cancel_again: "e \<in> {Retried, RetryForced} \<Longrightarrow>
    csld_edge w JobStateCANCELLATIONFAILED e JobStateCONSOLIDATIONCANCELLING"
| ce_init_again: "e \<in> {Retried, RetryForced} \<Longrightarrow> csld_edge w JobStateINITIALISATIONFAILED e JobStateCREATED"
| ce_again: "e \<in> {Retried, RetryForced} \<Longrightarrow> csld_edge w JobStateCONSOLIDATIONFAILED e JobStateCONSOLIDATIONRETRYING"
| ce_give_up: "s \<in> {JobStateINITIALISATIONFAILED, JobStateCONSOLIDATIONFAILED} \<Longrightarrow>
    e \<in> {CancelledByUser, CancelledByUserForced} \<Longrightarrow> csld_edge w s e JobStateABORTED"
| ce_retry_failed: "s \<in> {JobStateCONSOLIDATIONRETRYING, JobStateCONSOLIDATIONFORCERETRYING} \<Longrightarrow>
    csld_edge w s ConsolidationRetryFailed JobStateCONSOLIDATIONFAILED"
| ce_abort_forced: "s \<in> user_cancellable \<Longrightarrow> csld_edge w s CancelledByUserForced JobStateABORTED"
| ce_abort_waiting: "s \<in> user_cancellable \<Longrightarrow> csld_edge True s CancelledByUser JobStateABORTED"
| ce_rolled_back: "csld_edge w JobStateABORTED RollbackDone JobStateFAILED"
| ce_rollback_failed: "csld_edge w JobStateABORTED RollbackFailed JobStateROLLBACKFAILED"
| ce_rollback_again: "e \<in> {Retried, RetryForced} \<Longrightarrow> csld_edge w JobStateROLLBACKFAILED e JobStateABORTED"
| ce_rollback_forced: "csld_edge w JobStateROLLBACKFAILED CancelledByUserForced JobStateFAILED"

inductive del_edge :: "bool \<Rightarrow> JobState \<Rightarrow> JobStatus \<Rightarrow> JobState \<Rightarrow> bool" where
  de_created: "del_edge w JobStateNEW JobCreated JobStateCREATED"
| de_ready: "del_edge w JobStateCREATED DeletionReady JobStateDELETIONINPROGRESS"
| de_not_ready: "del_edge w JobStateCREATED DeletionNotReady JobStateINITIALISATIONFAILED"
| de_removed: "del_edge w JobStateDELETIONINPROGRESS RemovalDone JobStateDELETIONEFFECTIVE"
| de_remove_failed: "del_edge w JobStateDELETIONINPROGRESS RemovalFailed JobStateDELETIONFAILED"
| de_deleted: "del_edge w JobStateDELETIONEFFECTIVE DeletionDone JobStateDONE"
| de_untidy: "del_edge w JobStateDELETIONEFFECTIVE DeletionFailed JobStateDONEBUTUNTIDY"
| de_tidy: "del_edge w JobStateDONEBUTUNTIDY RetryForced JobStateDELETIONEFFECTIVE"
| de_again: "e \<in> {Retried, RetryForced} \<Longrightarrow> del_edge w JobStateDELETIONFAILED e JobStateDELETIONINPROGRESS"
| de_give_up: "e \<in> {CancelledByUser, CancelledByUserForced} \<Longrightarrow> del_edge w JobStateDELETIONFAILED e JobStateABORTED"
| de_abort_effective: "del_edge w JobStateDELETIONEFFECTIVE CancelledByUserForced JobStateABORTED"
| de_abort_forced: "s \<in> {JobStateNEW, JobStateCREATED, JobStateDELETIONINPROGRESS} \<Longrightarrow>
    del_edge w s CancelledByUserForced JobStateABORTED"
| de_abort_waiting: "s \<in> {JobStateNEW, JobStateCREATED, JobStateDELETIONINPROGRESS} \<Longrightarrow>
    del_edge True s CancelledByUser JobStateABORTED"
| de_rolled_back: "del_edge w JobStateABORTED RollbackDone JobStateFAILED"
| de_rollback_failed: "del_edge w JobStateABORTED RollbackFailed JobStateROLLBACKFAILED"
| de_rollback_again: "e \<in> {Retried, RetryForced} \<Longrightarrow> del_edge w JobStateROLLBACKFAILED e JobStateABORTED"
| de_rollback_forced: "del_edge w JobStateROLLBACKFAILED CancelledByUserForced JobStateFAILED"
| de_init_again: "e \<in> {Retried, RetryForced} \<Longrightarrow> del_edge w JobStateINITIALISATIONFAILED e JobStateCREATED"
| de_init_forced: "del_edge w JobStateINITIALISATIONFAILED CancelledByUserForced JobStateFAILED"

inductive_simps csld_edge_iff: "csld_edge w s e s'"
inductive_simps del_edge_iff: "del_edge w s e s'"

definition csld_states :: "JobState set" where
  "csld_states = {JobStateNEW, JobStateCREATED, JobStateCONSOLIDATIONINPROGRESS, JobStateCONSOLIDATIONDONE,
     JobStateCONSOLIDATIONINDEXED, JobStateCONSOLIDATIONEFFECTIVE, JobStateCONSOLIDATIONFAILED,
     JobStateCONSOLIDATIONRETRYING, JobStateCONSOLIDATIONFORCERETRYING, JobStateCONSOLIDATIONCANCELLING,
     JobStateDONE, JobStateFAILED, JobStateINITIALISATIONFAILED, JobStateCANCELLATIONFAILED,
     JobStateABORTED, JobStateROLLBACKFAILED, JobStateDONEBUTUNTIDY}"

definition del_states :: "JobState set" where
  "del_states = {JobStateNEW, JobStateCREATED, JobStateDELETIONINPROGRESS, JobStateDELETIONEFFECTIVE,
     JobStateDELETIONFAILED, JobStateDONE, JobStateFAILED, JobStateINITIALISATIONFAILED,
     JobStateABORTED, JobStateROLLBACKFAILED, JobStateDONEBUTUNTIDY}"

text \<open>
  A dispatch function refines a relation on a set of states: on a job that is not deleted it
  returns, it handles exactly the events that label an edge, it takes the job along that edge
  and writes nothing outside the state machine's fields, and it leaves the job alone otherwise.
\<close>

definition refines_edges ::
  "(JobEvent \<Rightarrow> Job \<Rightarrow> (bool \<times> Job) go) \<Rightarrow> (bool \<Rightarrow> JobState \<Rightarrow> JobStatus \<Rightarrow> JobState \<Rightarrow> bool) \<Rightarrow>
   JobEvent \<Rightarrow> Job \<Rightarrow> bool" where
  "refines_edges f edge evt j \<longleftrightarrow>
     (\<exists>b j'. f evt j = Ret (b, j') \<and>
        (if b then edge (j_Waiting j) (j_State j) (je_Status evt) (j_State j') \<and>
                   job_core j' = job_core j \<and> alive j' \<and>
                   j_Waiting j' = (j_ExecutionLevel j \<ge> fst (jobStateInfo (j_State j')))
         else j' = j \<and> (\<forall>s. \<not> edge (j_Waiting j) (j_State j) (je_Status evt) s)))"

lemma triggerConsolidation_refines:
  assumes "alive j" and "j_State j \<in> csld_states"
  shows "refines_edges (triggerConsolidation now) csld_edge evt j"
  using assms(2) unfolding csld_states_def
  by (elim insertE emptyE; cases "je_Status evt")
     (auto simp: triggerConsolidation_def refines_edges_def machine_alive assms(1)
        csld_edge_iff user_cancellable_def)

lemma triggerDeletion_refines:
  assumes "alive j" and "j_State j \<in> del_states"
  shows "refines_edges (triggerDeletion now) del_edge evt j"
  using assms(2) unfolding del_states_def
  by (elim insertE emptyE; cases "je_Status evt")
     (auto simp: triggerDeletion_def refines_edges_def machine_alive assms(1) del_edge_iff)

section \<open>Trigger\<close>

fun states_of :: "JobType \<Rightarrow> JobState set" where
  "states_of JobTypeCONSOLIDATION = csld_states"
| "states_of JobTypeDELETION = del_states"
| "states_of JobTypeINGESTION = {}"

fun edge_of :: "JobType \<Rightarrow> bool \<Rightarrow> JobState \<Rightarrow> JobStatus \<Rightarrow> JobState \<Rightarrow> bool" where
  "edge_of JobTypeCONSOLIDATION = csld_edge"
| "edge_of JobTypeDELETION = del_edge"
| "edge_of JobTypeINGESTION = (\<lambda>w s e s'. False)"

text \<open>
  The transitions of a job as its users see them: a pause is left by \<open>Continue\<close>, a forced retry
  keeps the states that allow it, everything else follows the relation of the job's type.
\<close>

inductive job_edge :: "JobType \<Rightarrow> bool \<Rightarrow> JobState \<Rightarrow> JobStatus \<Rightarrow> JobState \<Rightarrow> bool" where
  je_continue: "job_edge t True s Continue s"
| je_stay: "snd (jobStateInfo s) \<Longrightarrow> job_edge t w s RetryForced s"
| je_move: "edge_of t w s e s' \<Longrightarrow> job_edge t w s e s'"

inductive_simps job_edge_iff: "job_edge t w s e s'"

lemma edge_of_not_continue: "\<not> edge_of t w s Continue s'"
  by (cases t) (auto simp: csld_edge_iff del_edge_iff)

lemma edge_of_retry_forced: "edge_of t w s RetryForced s' \<Longrightarrow> \<not> snd (jobStateInfo s)"
  by (cases t) (auto simp: csld_edge_iff del_edge_iff)

lemma edge_of_states: "s \<in> states_of t \<Longrightarrow> edge_of t w s e s' \<Longrightarrow> s' \<in> states_of t"
  by (cases t) (auto simp: csld_edge_iff del_edge_iff csld_states_def del_states_def)

lemma job_edge_states: "s \<in> states_of t \<Longrightarrow> job_edge t w s e s' \<Longrightarrow> s' \<in> states_of t"
  by (auto simp: job_edge_iff dest: edge_of_states)

lemma trigger_dispatch_refines:
  assumes "alive j" and "j_State j \<in> states_of (j_Type j)"
  shows "\<exists>b j'. trigger_dispatch now evt j = Ret (b, j') \<and> job_core j' = job_core j \<and> alive j' \<and>
     (if b then edge_of (j_Type j) (j_Waiting j) (j_State j) (je_Status evt) (j_State j') \<and>
                j_Waiting j' = (j_ExecutionLevel j \<ge> fst (jobStateInfo (j_State j')))
      else (\<forall>s. \<not> edge_of (j_Type j) (j_Waiting j) (j_State j) (je_Status evt) s) \<and>
           j_State j' = j_State j \<and> j_Waiting j' = j_Waiting j)"
proof -
  define k where "k = (if je_Error evt = [] then j else logged now ERROR (je_Error evt) j)"
  have k: "alive k" "j_State k = j_State j" "j_Type k = j_Type j" "j_Waiting k = j_Waiting j"
    "job_core k = job_core j" "j_ExecutionLevel k = j_ExecutionLevel j"
    using assms(1) by (auto simp: k_def)
  have d: "trigger_dispatch now evt j =
      (case j_Type j of
         JobTypeCONSOLIDATION \<Rightarrow> triggerConsolidation now evt k
       | JobTypeDELETION \<Rightarrow> triggerDeletion now evt k
       | JobTypeINGESTION \<Rightarrow> triggerIngestion evt k)"
    using assms(1) by (cases "j_Type j") (simp_all add: trigger_dispatch_def LogErr_alive k_def)
  show ?thesis
  proof (cases "j_Type j")
    case JobTypeCONSOLIDATION
    then have "refines_edges (triggerConsolidation now) csld_edge evt k"
      using assms(2) k by (intro triggerConsolidation_refines) auto
    with JobTypeCONSOLIDATION k d show ?thesis
      by (auto simp: refines_edges_def split: if_splits)
  next
    case JobTypeDELETION
    then have "refines_edges (triggerDeletion now) del_edge evt k"
      using assms(2) k by (intro triggerDeletion_refines) auto
    with JobTypeDELETION k d show ?thesis
      by (auto simp: refines_edges_def split: if_splits)
  next
    case JobTypeINGESTION
    with assms(2) show ?thesis by simp
  qed
qed

definition trigger_ok :: "JobStatus \<Rightarrow> Job \<Rightarrow> gerr option \<Rightarrow> Job \<Rightarrow> bool" where
  "trigger_ok e j eo j' \<longleftrightarrow>
     job_core j' = job_core j \<and> alive j' \<and>
     (case eo of
        None \<Rightarrow> job_edge (j_Type j) (j_Waiting j) (j_State j) e (j_State j') \<and>
          j_Waiting j' = (if e = Continue then False
                          else if e = RetryForced \<and> snd (jobStateInfo (j_State j)) then j_Waiting j
                          else j_ExecutionLevel j \<ge> fst (jobStateInfo (j_State j')))
      | Some err \<Rightarrow> IsError (Some err) UnhandledEvent \<and>
          j_State j' = j_State j \<and> j_Waiting j' = j_Waiting j \<and>
          (\<forall>s. \<not> job_edge (j_Type j) (j_Waiting j) (j_State j) e s))"

lemma Trigger_refines:
  assumes "alive j" and "j_State j \<in> states_of (j_Type j)"
  shows "\<exists>eo j'. Trigger now evt j = Ret (eo, j') \<and> trigger_ok (je_Status evt) j eo j'"
proof -
  consider (cont) "je_Status evt = Continue"
    | (stay) "je_Status evt = RetryForced" "snd (jobStateInfo (j_State j))"
    | (move) "je_Status evt \<noteq> Continue" "\<not> (je_Status evt = RetryForced \<and> snd (jobStateInfo (j_State j)))"
    by blast
  then show ?thesis
  proof cases
    case cont
    have core: "job_core (j\<lparr>j_Waiting := False, j_LastUpdateTime := now, j_ps := touched (j_ps j)\<rparr>) = job_core j"
      by (simp add: job_core_def)
    have al: "alive (j\<lparr>j_Waiting := False\<rparr>)"
      "alive (j\<lparr>j_Waiting := False, j_LastUpdateTime := now, j_ps := touched (j_ps j)\<rparr>)"
      using assms(1) by (simp_all add: alive_def)
    show ?thesis
      using cont assms(1) al core
      by (auto simp: Trigger_def trigger_ok_def job_dirty_alive LogMsg_alive job_edge_iff edge_of_not_continue)
  next
    case stay
    with assms(1) show ?thesis
      by (auto simp: Trigger_def trigger_ok_def LogMsg_alive job_edge_iff)
  next
    case move
    obtain b j' where d: "trigger_dispatch now evt j = Ret (b, j')" "job_core j' = job_core j" "alive j'"
      "if b then edge_of (j_Type j) (j_Waiting j) (j_State j) (je_Status evt) (j_State j') \<and>
            j_Waiting j' = (j_ExecutionLevel j \<ge> fst (jobStateInfo (j_State j')))
       else (\<forall>s. \<not> edge_of (j_Type j) (j_Waiting j) (j_State j) (je_Status evt) s) \<and>
            j_State j' = j_State j \<and> j_Waiting j' = j_Waiting j"
      using trigger_dispatch_refines [OF assms] by blast
    have "\<exists>eo j''. Trigger now evt j = Ret (eo, j'') \<and> (eo = None \<longleftrightarrow> b) \<and>
       job_core j'' = job_core j' \<and> alive j'' \<and> j_State j'' = j_State j' \<and> j_Waiting j'' = j_Waiting j' \<and>
       (\<not> b \<longrightarrow> IsError eo UnhandledEvent)"
      using move d(1,3) by (cases b) (auto simp: Trigger_def LogMsg_alive)
    with d move show ?thesis
      by (fastforce simp: trigger_ok_def job_edge_iff split: option.split if_splits)
  qed
qed

section \<open>Runs\<close>

text \<open>A job receives events one after the other; an unhandled event is reported and dropped.\<close>

fun trigger_run :: "(gtime \<times> JobEvent) list \<Rightarrow> Job \<Rightarrow> Job go" where
  "trigger_run [] j = Ret j"
| "trigger_run ((now, evt) # evts) j = go_bind (Trigger now evt j) (\<lambda>(eo, j'). trigger_run evts j')"

definition job_step :: "JobType \<Rightarrow> JobState \<Rightarrow> JobState \<Rightarrow> bool" where
  "job_step t s s' \<longleftrightarrow> (\<exists>w e. edge_of t w s e s')"

lemma job_edge_step: "job_edge t w s e s' \<Longrightarrow> s' = s \<or> job_step t s s'"
  by (auto simp: job_edge_iff job_step_def)

lemma job_core_Type: "job_core j' = job_core j \<Longrightarrow> j_Type j' = j_Type j"
  by (drule arg_cong [of _ _ j_Type]) (simp add: job_core_def)

lemma trigger_ok_step:
  assumes "trigger_ok e j eo j'"
  shows "(job_step (j_Type j))\<^sup>*\<^sup>* (j_State j) (j_State j')" and "j_Type j' = j_Type j"
    and "alive j'"
  using assms
  by (auto simp: trigger_ok_def split: option.splits dest!: job_edge_step intro: job_core_Type)

lemma trigger_run_reaches:
  assumes "alive j" and "j_State j \<in> states_of (j_Type j)"
  shows "\<exists>j'. trigger_run evts j = Ret j' \<and> alive j' \<and> job_core j' = job_core j \<and>
     j_State j' \<in> states_of (j_Type j) \<and> (job_step (j_Type j))\<^sup>*\<^sup>* (j_State j) (j_State j')"
  using assms
proof (induction evts arbitrary: j)
  case Nil
  then show ?case by simp
next
  case (Cons ne evts)
  obtain now evt where ne: "ne = (now, evt)" by (cases ne)
  from Trigger_refines [OF Cons.prems] obtain eo j1 where
    t: "Trigger now evt j = Ret (eo, j1)" "trigger_ok (je_Status evt) j eo j1" by blast
  note st = trigger_ok_step [OF t(2)]
  have core: "job_core j1 = job_core j" using t(2) by (simp add: trigger_ok_def)
  have "j_State j1 \<in> states_of (j_Type j)"
    using t(2) Cons.prems(2)
    by (auto simp: trigger_ok_def split: option.splits intro: job_edge_states)
  with st core Cons.IH [of j1] show ?case
    by (auto simp: ne t(1) intro: rtranclp_trans)
qed

lemma rtranclp_closed:
  assumes "r\<^sup>*\<^sup>* a b" and "a \<in> S" and "\<And>x y. x \<in> S \<Longrightarrow> r x y \<Longrightarrow> y \<in> S"
  shows "b \<in> S"
  using assms(1,2) by (induction rule: rtranclp_induct) (auto intro: assms(3))

lemma job_edge_deterministic:
  "s \<in> states_of t \<Longrightarrow> job_edge t w s e a \<Longrightarrow> job_edge t w s e b \<Longrightarrow> a = b"
  by (cases t) (auto simp: job_edge_iff csld_edge_iff del_edge_iff csld_states_def del_states_def user_cancellable_def)

lemma Trigger_follows:
  assumes "alive j" and "j_State j \<in> states_of (j_Type j)"
    and "job_edge (j_Type j) (j_Waiting j) (j_State j) (je_Status evt) s"
  shows "\<exists>j'. Trigger now evt j = Ret (None, j') \<and> j_State j' = s \<and> alive j' \<and> j_Type j' = j_Type j \<and>
     trigger_ok (je_Status evt) j None j'"
proof -
  from Trigger_refines [OF assms(1,2), of now evt] obtain eo j' where
    t: "Trigger now evt j = Ret (eo, j')" "trigger_ok (je_Status evt) j eo j'" by blast
  from t(2) assms(3) have "eo = None" by (auto simp: trigger_ok_def split: option.splits)
  with t assms(2,3) trigger_ok_step [OF t(2)] show ?thesis
    by (auto simp: trigger_ok_def intro: job_edge_deterministic)
qed

text \<open>A way out of every state, by events that an operator or the service can always send.\<close>

fun exit_path :: "JobType \<Rightarrow> JobState \<Rightarrow> (JobStatus \<times> JobState) list" where
  "exit_path t JobStateDONE = []"
| "exit_path t JobStateFAILED = []"
| "exit_path t JobStateABORTED = [(RollbackDone, JobStateFAILED)]"
| "exit_path t JobStateROLLBACKFAILED = [(CancelledByUserForced, JobStateFAILED)]"
| "exit_path t JobStateCONSOLIDATIONEFFECTIVE = [(DeletionStarted, JobStateDONE)]"
| "exit_path t JobStateDELETIONEFFECTIVE = [(DeletionDone, JobStateDONE)]"
| "exit_path t JobStateDONEBUTUNTIDY =
     (if t = JobTypeDELETION
      then [(RetryForced, JobStateDELETIONEFFECTIVE), (DeletionDone, JobStateDONE)]
      else [(RetryForced, JobStateCONSOLIDATIONEFFECTIVE), (DeletionStarted, JobStateDONE)])"
| "exit_path t JobStateCONSOLIDATIONINPROGRESS =
     [(CancelledByUserForced, JobStateCONSOLIDATIONCANCELLING), (CancellationDone, JobStateABORTED),
      (RollbackDone, JobStateFAILED)]"
| "exit_path t JobStateCONSOLIDATIONCANCELLING =
     [(CancellationDone, JobStateABORTED), (RollbackDone, JobStateFAILED)]"
| "exit_path t JobStateCANCELLATIONFAILED =
     [(RetryForced, JobStateCONSOLIDATIONCANCELLING), (CancellationDone, JobStateABORTED),
      (RollbackDone, JobStateFAILED)]"
| "exit_path t JobStateCONSOLIDATIONRETRYING =
     [(ConsolidationRetryFailed, JobStateCONSOLIDATIONFAILED), (CancelledByUserForced, JobStateABORTED),
      (RollbackDone, JobStateFAILED)]"
| "exit_path t JobStateCONSOLIDATIONFORCERETRYING =
     [(ConsolidationRetryFailed, JobStateCONSOLIDATIONFAILED), (CancelledByUserForced, JobStateABORTED),
      (RollbackDone, JobStateFAILED)]"
| "exit_path t JobStateINITIALISATIONFAILED =
     (if t = JobTypeDELETION then [(CancelledByUserForced, JobStateFAILED)]
      else [(CancelledByUserForced, JobStateABORTED), (RollbackDone, JobStateFAILED)])"
| "exit_path t _ = [(CancelledByUserForced, JobStateABORTED), (RollbackDone, JobStateFAILED)]"

fun path_ok :: "JobType \<Rightarrow> JobState \<Rightarrow> (JobStatus \<times> JobState) list \<Rightarrow> bool" where
  "path_ok t s [] \<longleftrightarrow> s = JobStateDONE \<or> s = JobStateFAILED"
| "path_ok t s ((e, s') # path) \<longleftrightarrow> edge_of t True s e s' \<and> edge_of t False s e s' \<and> path_ok t s' path"

lemma exit_path_ok: "s \<in> states_of t \<Longrightarrow> path_ok t s (exit_path t s) \<and> length (exit_path t s) \<le> 3"
  by (cases t; cases s) (simp_all add: csld_states_def del_states_def csld_edge_iff del_edge_iff user_cancellable_def)

definition plain_event :: "JobStatus \<Rightarrow> JobEvent" where
  "plain_event e = \<lparr>je_JobID = [], je_Status = e, je_Error = []\<rparr>"

lemma trigger_run_path:
  assumes "alive j" and "j_State j \<in> states_of (j_Type j)" and "path_ok (j_Type j) (j_State j) path"
  shows "\<exists>j'. trigger_run (map (\<lambda>(e, s). (now, plain_event e)) path) j = Ret j' \<and>
     (j_State j' = JobStateDONE \<or> j_State j' = JobStateFAILED)"
  using assms
proof (induction path arbitrary: j)
  case Nil
  then show ?case by simp
next
  case (Cons es path)
  obtain e s where es: "es = (e, s)" by (cases es)
  with Cons.prems(3) have "edge_of (j_Type j) (j_Waiting j) (j_State j) e s"
    by (cases "j_Waiting j") auto
  then have "job_edge (j_Type j) (j_Waiting j) (j_State j) (je_Status (plain_event e)) s"
    by (simp add: plain_event_def je_move)
  from Trigger_follows [OF Cons.prems(1,2) this] obtain j1 where
    j1: "Trigger now (plain_event e) j = Ret (None, j1)" "j_State j1 = s" "alive j1" "j_Type j1 = j_Type j"
    by blast
  have "j_State j1 \<in> states_of (j_Type j1)"
    using Cons.prems(2) \<open>edge_of (j_Type j) (j_Waiting j) (j_State j) e s\<close> j1
    by (auto intro: edge_of_states)
  with j1 Cons.IH [of j1] Cons.prems(3) show ?case by (simp add: es)
qed

section \<open>Properties\<close>

lemma edge_of_final: "s = JobStateDONE \<or> s = JobStateFAILED \<Longrightarrow> \<not> edge_of t w s e s'"
  by (cases t) (auto simp: csld_edge_iff del_edge_iff user_cancellable_def)

definition sample_csld_job :: "JobState \<Rightarrow> Job" where
  "sample_csld_job s =
     (NewJob ''j1'')\<lparr>j_ps := CLEAN, j_Type := JobTypeCONSOLIDATION, j_State := s,
                     j_ExecutionLevel := StepByStepMajor\<rparr>"

lemma sample_csld_job_simps [simp]:
  "alive (sample_csld_job s)" "j_State (sample_csld_job s) = s"
  "j_Type (sample_csld_job s) = JobTypeCONSOLIDATION" "j_Waiting (sample_csld_job s) = False"
  "j_ExecutionLevel (sample_csld_job s) = StepByStepMajor"
  by (simp_all add: sample_csld_job_def alive_def NewJob_def)

text \<open>C1: On a live job in a state of its type, Trigger returns (it never panics), changes the job only
  along the specified transitions, answers every other event with an UnhandledEvent error that leaves
  state and pause flag alone, and writes nothing outside the state machine's own fields.\<close>

theorem trigger_refines_specification:
  assumes "alive j" and "j_State j \<in> states_of (j_Type j)"
  shows "\<exists>eo j'. Trigger now evt j = Ret (eo, j') \<and> trigger_ok (je_Status evt) j eo j'"
  using assms by (rule Trigger_refines)

theorem trigger_refines_specification_witness:
  "\<exists>eo j'. Trigger 5 (plain_event ConsolidationDone) (sample_csld_job JobStateCONSOLIDATIONINPROGRESS) = Ret (eo, j') \<and>
     trigger_ok ConsolidationDone (sample_csld_job JobStateCONSOLIDATIONINPROGRESS) eo j'"
  using trigger_refines_specification
    [of "sample_csld_job JobStateCONSOLIDATIONINPROGRESS" 5 "plain_event ConsolidationDone"]
  by (simp add: csld_states_def plain_event_def)

text \<open>C4: Whatever events a freshly created deletion job receives, in whatever order, no panic occurs and
  the job stays within the states of the deletion life cycle.\<close>

theorem deletion_job_runs_safely:
  "\<exists>j'. trigger_run evts (NewDeletionJob uid now name level) = Ret j' \<and> j_State j' \<in> del_states"
proof -
  let ?j = "NewDeletionJob uid now name level"
  have "alive ?j" "j_State ?j \<in> states_of (j_Type ?j)" "j_Type ?j = JobTypeDELETION"
    by (simp_all add: NewDeletionJob_def NewJob_def alive_def del_states_def)
  then show ?thesis using trigger_run_reaches [of ?j evts] by auto
qed

text \<open>C5: Whatever events a consolidation job accepted by NewConsolidationJob receives, no panic occurs
  and the job stays within the states of the consolidation life cycle.\<close>

theorem consolidation_job_runs_safely:
  assumes "NewConsolidationJob uid now name layout inst rec level = Inr j"
  shows "\<exists>j'. trigger_run evts j = Ret j' \<and> j_State j' \<in> csld_states"
proof -
  have "alive j" "j_State j \<in> states_of (j_Type j)" "j_Type j = JobTypeCONSOLIDATION"
    using assms by (auto simp: NewConsolidationJob_def NewJob_def alive_def csld_states_def split: if_splits)
  then show ?thesis using trigger_run_reaches [of j evts] by auto
qed

theorem consolidation_job_runs_safely_witness:
  "\<exists>j j'. NewConsolidationJob ''u'' 0 ''n'' ''l'' ''i'' [] StepByStepAll = Inr j \<and>
     trigger_run [(1, plain_event JobCreated), (2, plain_event DeletionReady)] j = Ret j' \<and>
     j_State j' \<in> csld_states"
proof -
  obtain j where j: "NewConsolidationJob ''u'' 0 ''n'' ''l'' ''i'' [] StepByStepAll = Inr j"
    by (simp add: NewConsolidationJob_def)
  show ?thesis using consolidation_job_runs_safely [OF j] j by blast
qed

text \<open>DONE and FAILED are final: no sequence of events takes a job out of them.\<close>

theorem final_states_are_final:
  assumes "alive j" and "j_State j \<in> states_of (j_Type j)"
    and "j_State j = JobStateDONE \<or> j_State j = JobStateFAILED"
  shows "\<exists>j'. trigger_run evts j = Ret j' \<and> j_State j' = j_State j"
proof -
  from trigger_run_reaches [OF assms(1,2), of evts] obtain j' where
    j': "trigger_run evts j = Ret j'" "(job_step (j_Type j))\<^sup>*\<^sup>* (j_State j) (j_State j')" by blast
  have "j_State j' \<in> {j_State j}"
    using j'(2) by (rule rtranclp_closed)
      (use assms(3) edge_of_final in \<open>auto simp: job_step_def\<close>)
  with j'(1) show ?thesis by simp
qed

theorem final_states_are_final_witness:
  "\<exists>j'. trigger_run [(1, plain_event RetryForced), (2, plain_event CancelledByUserForced)]
       (sample_csld_job JobStateDONE) = Ret j' \<and> j_State j' = JobStateDONE"
  using final_states_are_final [of "sample_csld_job JobStateDONE"
      "[(1, plain_event RetryForced), (2, plain_event CancelledByUserForced)]"]
  by (simp add: csld_states_def del: trigger_run.simps)

text \<open>C3: The swap of the datasets is the point of no return of a consolidation: from
  CONSOLIDATIONEFFECTIVE on, no event (a forced cancellation included) can abort the job or make it fail.\<close>

theorem effective_consolidation_cannot_be_undone:
  assumes "alive j" and "j_Type j = JobTypeCONSOLIDATION" and "j_State j = JobStateCONSOLIDATIONEFFECTIVE"
  shows "\<exists>j'. trigger_run evts j = Ret j' \<and>
     j_State j' \<in> {JobStateCONSOLIDATIONEFFECTIVE, JobStateDONE, JobStateDONEBUTUNTIDY}"
proof -
  have st: "j_State j \<in> states_of (j_Type j)" using assms by (simp add: csld_states_def)
  from trigger_run_reaches [OF assms(1) st, of evts] obtain j' where
    j': "trigger_run evts j = Ret j'" "(job_step (j_Type j))\<^sup>*\<^sup>* (j_State j) (j_State j')" by blast
  from j'(2) have "j_State j' \<in> {JobStateCONSOLIDATIONEFFECTIVE, JobStateDONE, JobStateDONEBUTUNTIDY}"
    by (rule rtranclp_closed) (auto simp: assms job_step_def csld_edge_iff user_cancellable_def)
  with j'(1) show ?thesis by blast
qed

theorem effective_consolidation_cannot_be_undone_witness:
  "\<exists>j'. trigger_run [(1, plain_event CancelledByUserForced), (2, plain_event DeletionStarted)]
       (sample_csld_job JobStateCONSOLIDATIONEFFECTIVE) = Ret j' \<and>
     j_State j' \<in> {JobStateCONSOLIDATIONEFFECTIVE, JobStateDONE, JobStateDONEBUTUNTIDY}"
  by (rule effective_consolidation_cannot_be_undone) simp_all

text \<open>C7: A consolidation job fails only after a rollback was started: every run into FAILED from an
  earlier state passes through ABORTED.\<close>

theorem consolidation_fails_only_through_rollback:
  assumes "alive j" and "j_Type j = JobTypeCONSOLIDATION" and "j_State j \<in> csld_states"
    and "j_State j \<notin> {JobStateABORTED, JobStateROLLBACKFAILED, JobStateFAILED}"
    and "trigger_run evts j = Ret j'" and "j_State j' = JobStateFAILED"
  shows "\<exists>evts1 evts2 j1. evts = evts1 @ evts2 \<and> trigger_run evts1 j = Ret j1 \<and> j_State j1 = JobStateABORTED"
  using assms
proof (induction evts arbitrary: j)
  case Nil
  then show ?case by simp
next
  case (Cons ne evts)
  obtain now evt where ne: "ne = (now, evt)" by (cases ne)
  have st: "j_State j \<in> states_of (j_Type j)" using Cons.prems by simp
  from Trigger_refines [OF Cons.prems(1) st, of now evt] obtain eo j1 where
    t: "Trigger now evt j = Ret (eo, j1)" "trigger_ok (je_Status evt) j eo j1" by blast
  note ok = trigger_ok_step [OF t(2)]
  have run: "trigger_run evts j1 = Ret j'" using Cons.prems(5) by (simp add: ne t(1))
  have st1: "j_State j1 \<in> csld_states"
    using t(2) st Cons.prems(2) job_edge_states [of "j_State j" "j_Type j"]
    by (auto simp: trigger_ok_def split: option.splits)
  have step: "j_State j1 = j_State j \<or> job_step JobTypeCONSOLIDATION (j_State j) (j_State j1)"
    using t(2) Cons.prems(2) by (auto simp: trigger_ok_def split: option.splits dest!: job_edge_step)
  then have "j_State j1 \<noteq> JobStateROLLBACKFAILED \<and> j_State j1 \<noteq> JobStateFAILED"
    using Cons.prems(4) by (auto simp: job_step_def csld_edge_iff)
  then consider "j_State j1 = JobStateABORTED"
    | "j_State j1 \<notin> {JobStateABORTED, JobStateROLLBACKFAILED, JobStateFAILED}" by blast
  then show ?case
  proof cases
    case 1
    then have "trigger_run [ne] j = Ret j1" by (simp add: ne t(1))
    with 1 show ?thesis by (metis append_Cons append_Nil)
  next
    case 2
    from Cons.IH [OF ok(3) _ st1 2 run Cons.prems(6)] ok(2) Cons.prems(2)
    obtain e1 e2 k where "evts = e1 @ e2" "trigger_run e1 j1 = Ret k" "j_State k = JobStateABORTED" by auto
    then have "ne # evts = (ne # e1) @ e2 \<and> trigger_run (ne # e1) j = Ret k \<and> j_State k = JobStateABORTED"
      by (simp add: ne t(1))
    then show ?thesis by blast
  qed
qed

theorem consolidation_fails_only_through_rollback_witness:
  "\<exists>evts1 evts2 j1. [(1, plain_event CancelledByUserForced), (2, plain_event RollbackDone)] = evts1 @ evts2 \<and>
     trigger_run evts1 (sample_csld_job JobStateCONSOLIDATIONDONE) = Ret j1 \<and> j_State j1 = JobStateABORTED"
proof -
  let ?evts = "[(1, plain_event CancelledByUserForced), (2, plain_event RollbackDone)]"
  have "\<exists>j'. trigger_run ?evts (sample_csld_job JobStateCONSOLIDATIONDONE) = Ret j' \<and> j_State j' = JobStateFAILED"
    by (simp add: Trigger_def trigger_dispatch_def triggerConsolidation_def plain_event_def machine_alive)
  then show ?thesis
    using consolidation_fails_only_through_rollback by (auto simp: csld_states_def)
qed

text \<open>C6: No job is stuck: from every state of its life cycle at most three events bring a live job to DONE
  or FAILED.\<close>

theorem every_job_can_finish:
  assumes "alive j" and "j_State j \<in> states_of (j_Type j)"
  shows "\<exists>evts j'. length evts \<le> 3 \<and> trigger_run evts j = Ret j' \<and>
     (j_State j' = JobStateDONE \<or> j_State j' = JobStateFAILED)"
  using exit_path_ok [OF assms(2)] trigger_run_path [OF assms, of "exit_path (j_Type j) (j_State j)"]
  by (metis length_map)

theorem every_job_can_finish_witness:
  "\<exists>evts j'. length evts \<le> 3 \<and> trigger_run evts (sample_csld_job JobStateCANCELLATIONFAILED) = Ret j' \<and>
     (j_State j' = JobStateDONE \<or> j_State j' = JobStateFAILED)"
  by (rule every_job_can_finish) (simp_all add: csld_states_def)

text \<open>A deletion job whose initialisation failed is closed by a forced cancellation without the
  rollback that every other aborted job goes through: it moves to FAILED directly, with its dataset locks
  untouched, and the unforced cancellation that a consolidation job accepts there is refused.\<close>

theorem failed_deletion_init_skips_rollback:
  assumes "alive j" and "j_Type j = JobTypeDELETION" and "j_State j = JobStateINITIALISATIONFAILED"
  shows "(\<exists>j'. Trigger now (plain_event CancelledByUserForced) j = Ret (None, j') \<and>
           j_State j' = JobStateFAILED \<and> j_LockedDatasets j' = j_LockedDatasets j) \<and>
         (\<exists>err j'. Trigger now (plain_event CancelledByUser) j = Ret (Some err, j'))"
  using assms
  by (simp add: Trigger_def trigger_dispatch_def triggerDeletion_def plain_event_def machine_alive)

theorem failed_deletion_init_skips_rollback_witness:
  "\<exists>j'. Trigger 1 (plain_event CancelledByUserForced)
      ((NewDeletionJob ''d'' 0 ''n'' StepByStepAll)\<lparr>j_State := JobStateINITIALISATIONFAILED\<rparr>) = Ret (None, j') \<and>
     j_State j' = JobStateFAILED \<and>
     j_LockedDatasets j' = j_LockedDatasets (NewDeletionJob ''d'' 0 ''n'' StepByStepAll)"
proof -
  let ?j = "(NewDeletionJob ''d'' 0 ''n'' StepByStepAll)\<lparr>j_State := JobStateINITIALISATIONFAILED\<rparr>"
  have h: "alive ?j" "j_Type ?j = JobTypeDELETION" "j_State ?j = JobStateINITIALISATIONFAILED"
    by (simp_all add: NewDeletionJob_def NewJob_def alive_def)
  show ?thesis using failed_deletion_init_skips_rollback [OF h, of 1] by simp
qed

end
