(* ===== verification/JobTasks.thy ===== *)
theory JobTasks
  imports JobMachineProps
begin

text \<open>
  Tasks of a job, its dataset locks, its logs and its payload: internal/geocube/task.go and the
  second half of internal/geocube/job.go.  A \<open>*Task\<close> of \<open>job.Tasks\<close> is its index in the slice; an
  index out of range panics as the index expression does.  The set of new dataset ids of a lock is
  a list without duplicates (nil is the empty list).
\<close>

section \<open>Tasks\<close>

definition newConsolidationTask :: "string \<Rightarrow> ConsolidationEvent \<Rightarrow> gerr + Task" where
  "newConsolidationTask uid evt =
     (let evt = evt\<lparr>ce_TaskID := uid\<rparr>
      in Inr \<lparr>t_ps = NEW, t_ID = ce_TaskID evt, t_State = TaskStateNEW, t_Payload = MarshalConsolidationEvent evt\<rparr>)"

definition newDeletionTask :: "string \<Rightarrow> string \<Rightarrow> gerr + Task" where
  "newDeletionTask uid containerURI =
     Inr \<lparr>t_ps = NEW, t_ID = uid, t_State = TaskStateNEW, t_Payload = RawBytes containerURI\<rparr>"

definition ConsolidationOutput :: "Task \<Rightarrow> gerr + (ConsolidationContainer \<times> ConsolidationRecord list)" where
  "ConsolidationOutput t =
     (case UnmarshalConsolidationEvent (t_Payload t) of
        Inl e \<Rightarrow> Inl (WrapE ''ConsolidationOutput.'' e [])
      | Inr evt \<Rightarrow> Inr (ce_Container evt, ce_Records evt))"

text \<open>\<open>gob\<close> gives the bytes of an encoded event; a deletion task carries plain bytes.\<close>

definition DeletionPayload :: "(ConsolidationEvent \<Rightarrow> string) \<Rightarrow> Task \<Rightarrow> string" where
  "DeletionPayload gob t = (case t_Payload t of RawBytes b \<Rightarrow> b | GobEvent e \<Rightarrow> gob e)"

definition setState :: "TaskState \<Rightarrow> Task \<Rightarrow> (bool \<times> Task) go" where
  "setState newState t =
     (if t_State t \<noteq> newState
      then go_bind (ps_dirty (t_ps t)) (\<lambda>p. Ret (True, t\<lparr>t_State := newState, t_ps := p\<rparr>))
      else Ret (False, t))"

section \<open>Task counters of the job\<close>

definition index_panic :: string where
  "index_panic = ''runtime error: index out of range''"

fun taskStateFromStatus :: "TaskStatus \<Rightarrow> TaskState" where
  "taskStateFromStatus TaskSent = TaskStatePENDING"
| "taskStateFromStatus TaskFailed = TaskStateFAILED"
| "taskStateFromStatus TaskIgnored = TaskStateCANCELLED"
| "taskStateFromStatus TaskCancelled = TaskStateCANCELLED"
| "taskStateFromStatus TaskSuccessful = TaskStateDONE"

definition updateTaskCounters :: "gtime \<Rightarrow> TaskState \<Rightarrow> int \<Rightarrow> Job \<Rightarrow> Job go" where
  "updateTaskCounters now state inc j =
     go_bind
       (case state of
          TaskStatePENDING \<Rightarrow> job_dirty now (j\<lparr>j_ActiveTasks := j_ActiveTasks j + inc\<rparr>)
        | TaskStateNEW \<Rightarrow> job_dirty now (j\<lparr>j_ActiveTasks := j_ActiveTasks j + inc\<rparr>)
        | TaskStateFAILED \<Rightarrow> job_dirty now (j\<lparr>j_FailedTasks := j_FailedTasks j + inc\<rparr>)
        | _ \<Rightarrow> Ret j)
       (\<lambda>j. if j_ActiveTasks j < 0 then Panic ''Active tasks number cannot be negative''
            else if j_FailedTasks j < 0 then Panic ''Failed tasks number cannot be negative''
            else Ret j)"

definition setTaskState :: "gtime \<Rightarrow> nat \<Rightarrow> TaskState \<Rightarrow> Job \<Rightarrow> (bool \<times> Job) go" where
  "setTaskState now i newState j =
     (if i < length (j_Tasks j)
      then let oldState = t_State (j_Tasks j ! i)
           in go_bind (setState newState (j_Tasks j ! i)) (\<lambda>(changed, t).
                if changed
                then go_bind (updateTaskCounters now oldState (- 1) (j\<lparr>j_Tasks := (j_Tasks j)[i := t]\<rparr>)) (\<lambda>j.
                     go_bind (updateTaskCounters now newState 1 j) (\<lambda>j. Ret (True, j)))
                else Ret (False, j))
      else Panic index_panic)"

fun task_at :: "string \<Rightarrow> Task list \<Rightarrow> nat option" where
  "task_at taskID [] = None"
| "task_at taskID (t # ts) = (if t_ID t = taskID then Some 0 else map_option Suc (task_at taskID ts))"

definition CreateConsolidationTask :: "string \<Rightarrow> gtime \<Rightarrow> ConsolidationEvent \<Rightarrow> Job \<Rightarrow> (gerr option \<times> Job) go" where
  "CreateConsolidationTask uid now evt j =
     (case newConsolidationTask uid evt of
        Inl e \<Rightarrow> Ret (Some e, j)
      | Inr t \<Rightarrow> go_bind (job_dirty now (j\<lparr>j_ActiveTasks := j_ActiveTasks j + 1, j_Tasks := j_Tasks j @ [t]\<rparr>))
                   (\<lambda>j. Ret (None, j)))"

definition CreateDeletionTask :: "string \<Rightarrow> gtime \<Rightarrow> string \<Rightarrow> Job \<Rightarrow> (gerr option \<times> Job) go" where
  "CreateDeletionTask uid now containerURI j =
     (case newDeletionTask uid containerURI of
        Inl e \<Rightarrow> Ret (Some e, j)
      | Inr t \<Rightarrow> go_bind (job_dirty now (j\<lparr>j_ActiveTasks := j_ActiveTasks j + 1, j_Tasks := j_Tasks j @ [t]\<rparr>))
                   (\<lambda>j. Ret (None, j)))"

definition unhandled_task :: "TaskEvent \<Rightarrow> Job \<Rightarrow> (gerr option \<times> Job) go" where
  "unhandled_task evt j =
     go_bind (TaskStatus_String (te_Status evt)) (\<lambda>s.
       Ret (Some (NewUnhandledEvent (''Job '' @ j_ID j @ '' Task '' @ te_TaskID evt @ '' Status '' @ s)), j))"

definition UpdateTask :: "gtime \<Rightarrow> TaskEvent \<Rightarrow> Job \<Rightarrow> (gerr option \<times> Job) go" where
  "UpdateTask now evt j =
     (case task_at (te_TaskID evt) (j_Tasks j) of
        None \<Rightarrow> Ret (Some (NewEntityNotFound ''Task'' ''id'' (te_TaskID evt) []), j)
      | Some i \<Rightarrow>
          let newState = taskStateFromStatus (te_Status evt);
              state = t_State (j_Tasks j ! i);
              change = go_bind (setTaskState now i newState j) (\<lambda>(_, j).
                         go_bind (if newState = TaskStateFAILED
                                  then LogErr now (''Task '' @ te_TaskID evt @ '' failed: '' @ te_Error evt) j
                                  else Ret j)
                           (\<lambda>j. Ret (None, j)))
          in if newState = state then Ret (None, j)
             else if j_State j \<noteq> JobStateCONSOLIDATIONINPROGRESS \<and> j_State j \<noteq> JobStateDELETIONEFFECTIVE \<and>
                     j_State j \<noteq> JobStateCONSOLIDATIONCANCELLING
             then unhandled_task evt j
             else (case state of
                     TaskStateDONE \<Rightarrow> unhandled_task evt j
                   | TaskStateFAILED \<Rightarrow> if newState \<noteq> TaskStateDONE then Ret (None, j) else change
                   | TaskStateCANCELLED \<Rightarrow> if newState \<noteq> TaskStateDONE then Ret (None, j) else change
                   | _ \<Rightarrow> change))"

text \<open>\<open>None\<close> stands for the nil slice of states: every task is reset.\<close>

definition ResetTasks :: "gtime \<Rightarrow> TaskState list option \<Rightarrow> Job \<Rightarrow> Job go" where
  "ResetTasks now states j =
     go_fold (\<lambda>i j. if (case states of None \<Rightarrow> True | Some l \<Rightarrow> t_State (j_Tasks j ! i) \<in> set l)
                    then go_bind (setTaskState now i TaskStateNEW j) (\<lambda>(_, j). Ret j)
                    else Ret j)
       [0..<length (j_Tasks j)] j"

definition CancelTask :: "gtime \<Rightarrow> nat \<Rightarrow> Job \<Rightarrow> Job go" where
  "CancelTask now i j = go_bind (setTaskState now i TaskStateCANCELLED j) (\<lambda>(_, j). Ret j)"

definition DeleteTask :: "gtime \<Rightarrow> nat \<Rightarrow> Job \<Rightarrow> Job go" where
  "DeleteTask now i j =
     (if i < length (j_Tasks j)
      then go_bind (if IsActive (t_ps (j_Tasks j ! i))
                    then go_bind (setTaskState now i TaskStateCANCELLED j) (\<lambda>(_, j). Ret j)
                    else Ret j) (\<lambda>j.
           go_bind (ps_toDelete (t_ps (j_Tasks j ! i))) (\<lambda>p.
             Ret (j\<lparr>j_Tasks := (j_Tasks j)[i := (j_Tasks j ! i)\<lparr>t_ps := p\<rparr>]\<rparr>)))
      else Panic index_panic)"

definition DeleteAllTasks :: "gtime \<Rightarrow> Job \<Rightarrow> Job go" where
  "DeleteAllTasks now j = go_fold (DeleteTask now) [0..<length (j_Tasks j)] j"

section \<open>Locks\<close>

definition set_Push :: "string \<Rightarrow> string list \<Rightarrow> string list" where
  "set_Push s ss = (if s \<in> set ss then ss else ss @ [s])"

definition set_Pop :: "string \<Rightarrow> string list \<Rightarrow> string list" where
  "set_Pop s ss = filter (\<lambda>x. x \<noteq> s) ss"

definition set_Slice :: "string list \<Rightarrow> string list" where
  "set_Slice ss = ss"

definition set_Exists :: "string \<Rightarrow> string list \<Rightarrow> bool" where
  "set_Exists s ss \<longleftrightarrow> s \<in> set ss"

definition lock_Clean :: "LockedDatasets \<Rightarrow> LockedDatasets go" where
  "lock_Clean l = go_bind (ps_Clean (ld_ps l)) (\<lambda>p. Ret (l\<lparr>ld_newDatasetsID := [], ld_ps := p\<rparr>))"

definition NewIDs :: "LockedDatasets \<Rightarrow> string list" where
  "NewIDs l = set_Slice (ld_newDatasetsID l)"

fun flag_index :: "LockFlag \<Rightarrow> nat" where
  "flag_index LockFlagINIT = 0"
| "flag_index LockFlagTODELETE = 1"
| "flag_index LockFlagNEW = 2"
| "flag_index LockFlagALL = 3"

definition LockDatasets :: "string list \<Rightarrow> LockFlag \<Rightarrow> Job \<Rightarrow> Job go" where
  "LockDatasets datasetsID flag j =
     (if flag = LockFlagALL \<or> datasetsID = [] then Ret j
      else let l = j_LockedDatasets j ! flag_index flag
           in go_bind (ps_dirty (ld_ps l)) (\<lambda>p.
                Ret (j\<lparr>j_LockedDatasets := (j_LockedDatasets j)[flag_index flag :=
                     l\<lparr>ld_ps := p, ld_newDatasetsID := fold set_Push datasetsID (ld_newDatasetsID l)\<rparr>]\<rparr>)))"

definition release_lock :: "nat \<Rightarrow> Job \<Rightarrow> Job go" where
  "release_lock f j =
     go_bind (ps_toDelete (ld_ps (j_LockedDatasets j ! f))) (\<lambda>p.
       Ret (j\<lparr>j_LockedDatasets := (j_LockedDatasets j)[f := (j_LockedDatasets j ! f)\<lparr>ld_ps := p\<rparr>]\<rparr>))"

definition ReleaseDatasets :: "LockFlag \<Rightarrow> Job \<Rightarrow> Job go" where
  "ReleaseDatasets flag j =
     (if flag = LockFlagALL then go_fold release_lock [0..<length (j_LockedDatasets j)] j
      else release_lock (flag_index flag) j)"

section \<open>Persistence of the whole job\<close>

definition clean_list :: "('a \<Rightarrow> 'a go) \<Rightarrow> 'a list \<Rightarrow> 'a list go" where
  "clean_list f xs = go_fold (\<lambda>x ys. go_bind (f x) (\<lambda>y. Ret (ys @ [y]))) xs []"

definition task_Clean :: "Task \<Rightarrow> Task go" where
  "task_Clean t = go_bind (ps_Clean (t_ps t)) (\<lambda>p. Ret (t\<lparr>t_ps := p\<rparr>))"

definition job_Clean :: "bool \<Rightarrow> Job \<Rightarrow> Job go" where
  "job_Clean all j =
     go_bind
       (if all
        then go_bind (clean_list lock_Clean (j_LockedDatasets j)) (\<lambda>ls.
             go_bind (clean_list task_Clean (j_Tasks j)) (\<lambda>ts.
               Ret (j\<lparr>j_LockedDatasets := ls, j_Tasks := ts\<rparr>)))
        else Ret j) (\<lambda>j.
     go_bind (ps_Clean (j_ps j)) (\<lambda>p. Ret (j\<lparr>j_occTime := j_LastUpdateTime j, j_ps := p\<rparr>)))"

text \<open>The loop of \<open>ToDelete\<close> over the tasks stops at the first active one unless all are to go.\<close>

fun tasks_ToDelete :: "bool \<Rightarrow> Task list \<Rightarrow> (bool \<times> Task list) go" where
  "tasks_ToDelete all [] = Ret (True, [])"
| "tasks_ToDelete all (t # ts) =
     (if IsActive (t_ps t)
      then (if \<not> all then Ret (False, t # ts)
            else go_bind (ps_toDelete (t_ps t)) (\<lambda>p.
                 go_bind (tasks_ToDelete all ts) (\<lambda>(ok, ts'). Ret (ok, t\<lparr>t_ps := p\<rparr> # ts'))))
      else go_bind (tasks_ToDelete all ts) (\<lambda>(ok, ts'). Ret (ok, t # ts')))"

definition job_ToDelete :: "bool \<Rightarrow> Job \<Rightarrow> (bool \<times> Job) go" where
  "job_ToDelete all j =
     go_bind (tasks_ToDelete all (j_Tasks j)) (\<lambda>(ok, ts).
       if \<not> ok then Ret (False, j\<lparr>j_Tasks := ts\<rparr>)
       else go_bind (ReleaseDatasets LockFlagALL (j\<lparr>j_Tasks := ts\<rparr>)) (\<lambda>j.
            go_bind (ps_toDelete (j_ps j)) (\<lambda>p. Ret (True, j\<lparr>j_ps := p\<rparr>))))"

section \<open>Payload and logs\<close>

text \<open>The JSON object of a payload; empty fields are omitted and absent fields keep their value.\<close>

datatype json_column = JsonBytes "(string \<times> string) list" | NotBytes

definition JobPayload_Value :: "JobPayload \<Rightarrow> (string \<times> string) list" where
  "JobPayload_Value jp =
     filter (\<lambda>(k, v). v \<noteq> [])
       [(''layout'', jp_Layout jp), (''instance_id'', jp_InstanceID jp),
        (''params_id'', jp_ParamsID jp), (''collapse_record_id'', jp_CollapseRecordId jp)]"

definition json_field :: "(string \<times> string) list \<Rightarrow> string \<Rightarrow> string \<Rightarrow> string" where
  "json_field obj k old = (case map_of obj k of None \<Rightarrow> old | Some v \<Rightarrow> v)"

fun JobPayload_Scan :: "json_column \<Rightarrow> JobPayload \<Rightarrow> gerr + JobPayload" where
  "JobPayload_Scan NotBytes jp = Inl (PlainE ''type assertion to []byte failed'')"
| "JobPayload_Scan (JsonBytes obj) jp =
     Inr \<lparr>jp_Layout = json_field obj ''layout'' (jp_Layout jp),
          jp_InstanceID = json_field obj ''instance_id'' (jp_InstanceID jp),
          jp_ParamsID = json_field obj ''params_id'' (jp_ParamsID jp),
          jp_CollapseRecordId = json_field obj ''collapse_record_id'' (jp_CollapseRecordId jp)\<rparr>"

fun LogSeverity_String :: "LogSeverity \<Rightarrow> string" where
  "LogSeverity_String DEBUG = ''DEBUG''"
| "LogSeverity_String INFO = ''INFO''"
| "LogSeverity_String WARN = ''WARN''"
| "LogSeverity_String ERROR = ''ERROR''"

definition log_line :: "(gtime \<Rightarrow> string) \<Rightarrow> JobLog \<Rightarrow> string" where
  "log_line fmtTime l =
     fmtTime (jl_Date l) @ '' - '' @ LogSeverity_String (jl_Severity l) @ '' | Status: '' @ jl_Status l @
     '' - Message: '' @ jl_Msg l"

definition elided :: "int \<Rightarrow> int \<Rightarrow> int \<Rightarrow> int \<times> int" where
  "elided n logsCount offset =
     (if logsCount = - 1 then (0, offset)
      else let offset = min offset (logsCount - n) in (max 0 (logsCount - n - offset), offset))"

definition more_line :: "int \<Rightarrow> string" where
  "more_line n = ''[... '' @ itoa n @ '' more]''"

text \<open>\<open>sort.Sort\<close> orders by date; for equal dates the model keeps the order of the slice.\<close>

definition toSliceString :: "(gtime \<Rightarrow> string) \<Rightarrow> int \<Rightarrow> int \<Rightarrow> JobLog list \<Rightarrow> string list" where
  "toSliceString fmtTime logsCount offset jl =
     (let (first, off) = elided (int (length jl)) logsCount offset
      in (if logsCount = - 1 then [''[... may be more]''] else if first \<noteq> 0 then [more_line first] else []) @
         map (log_line fmtTime) (sort_key jl_Date jl) @
         (if off \<noteq> 0 then [more_line off] else []))"

record pb_Job = pbj_Id :: string
  pbj_Name :: string
  pbj_Type :: string
  pbj_CreationTime :: gtime
  pbj_LastUpdateTime :: gtime
  pbj_State :: string
  pbj_ActiveTasks :: int
  pbj_FailedTasks :: int
  pbj_ExecutionLevel :: int
  pbj_Waiting :: bool
  pbj_Logs :: "string list"

definition int32_of :: "int \<Rightarrow> int" where
  "int32_of i = (i + 2 ^ 31) mod 2 ^ 32 - 2 ^ 31"

text \<open>\<open>check\<close> is the validity check of a protobuf timestamp.\<close>

definition job_ToProtobuf :: "(gtime \<Rightarrow> gerr option) \<Rightarrow> (gtime \<Rightarrow> string) \<Rightarrow> int \<Rightarrow> Job \<Rightarrow> gerr + pb_Job" where
  "job_ToProtobuf check fmtTime offset j =
     (case check (j_CreationTime j) of Some e \<Rightarrow> Inl e
      | None \<Rightarrow> (case check (j_LastUpdateTime j) of Some e \<Rightarrow> Inl e
      | None \<Rightarrow> Inr \<lparr>pbj_Id = j_ID j, pbj_Name = j_Name j,
          pbj_Type = enum_String JobType_table (JobType_code (j_Type j)),
          pbj_CreationTime = j_CreationTime j, pbj_LastUpdateTime = j_LastUpdateTime j,
          pbj_State = JobState_String (j_State j),
          pbj_ActiveTasks = int32_of (j_ActiveTasks j), pbj_FailedTasks = int32_of (j_FailedTasks j),
          pbj_ExecutionLevel = ExecutionLevel_code (j_ExecutionLevel j), pbj_Waiting = j_Waiting j,
          pbj_Logs = toSliceString fmtTime (j_LogsCount j) offset (j_Logs j)\<rparr>))"

end
