(* ===== verification/Store.thy ===== *)
theory Store
  imports Containers Variables JobTasks
begin

text \<open>
  The database backend, src/interface/database/pg: the tables of create.sql as lists of rows with their
  keys and references, and the statements of pg_jobs.go, pg_containers.go, pg_variables.go and
  pg_layouts.go that the service uses on jobs, tasks, locks, datasets, containers and variables.  An
  operation takes the tables and returns an error or its result, and the tables; a statement that breaks
  a constraint changes nothing.  Failures of the server or the connection are added in \<open>World\<close>.
\<close>

section \<open>Tables\<close>

record job_row = jr_ID :: string
  jr_Name :: string
  jr_Type :: JobType
  jr_CreationTime :: gtime
  jr_LastUpdate :: gtime
  jr_State :: JobState
  jr_ActiveTasks :: int
  jr_FailedTasks :: int
  jr_Payload :: JobPayload
  jr_ExecutionLevel :: ExecutionLevel
  jr_Waiting :: bool

record task_row = tr_ID :: string
  tr_State :: TaskState
  tr_Payload :: payload
  tr_JobID :: string

record lock_row = lk_DatasetID :: string
  lk_JobID :: string
  lk_Flag :: int

record dataset_row = dr_Dataset :: Dataset
  dr_LockedBy :: "string option"

record container_row = ct_ID :: int
  ct_URI :: string
  ct_Managed :: bool
  ct_StorageClass :: StorageClass

record instance_row = ir_Instance :: VariableInstance
  ir_DefinitionID :: string

text \<open>\<open>db_RecordAOI\<close> is the column \<open>aoi_id\<close> of the records, \<open>db_AOIs\<close> the keys of the areas of interest.\<close>

record db = db_Jobs :: "job_row list"
  db_Tasks :: "task_row list"
  db_Locks :: "lock_row list"
  db_Datasets :: "dataset_row list"
  db_Containers :: "container_row list"
  db_NextContainer :: int
  db_ContainerLayouts :: "(string \<times> string) list"
  db_Layouts :: "Layout list"
  db_Params :: "(string \<times> ConsolidationParams) list"
  db_Logs :: "(string \<times> JobLog) list"
  db_Records :: "(string \<times> gtime) list"
  db_RecordAOI :: "string \<Rightarrow> string"
  db_AOIs :: "string list"
  db_Variables :: "Variable list"
  db_Instances :: "instance_row list"

section \<open>Errors of the driver\<close>

definition pq_error :: "string \<Rightarrow> gerr" where
  "pq_error msg = ForeignE msg None"

definition foreignKeyViolation :: string where "foreignKeyViolation = ''23503''"
definition uniqueViolation :: string where "uniqueViolation = ''23505''"
definition connectionFailure :: string where "connectionFailure = ''08006''"
definition notPqError :: string where "notPqError = ''X''"

definition pqErrorFormat :: "string \<Rightarrow> string \<Rightarrow> gerr \<Rightarrow> gerr" where
  "pqErrorFormat pre code err =
     (let ferr = WrapE pre err []
      in if code = connectionFailure then MakeTemporary ferr
         else let ferr = (if code = notPqError then ferr else WrapE [] ferr ('' ['' @ code @ '']''))
              in if sublist ''connection refused'' (ErrorMsg err) \<or> sublist ''connection reset'' (ErrorMsg err)
                 then MakeTemporary ferr else ferr)"

type_synonym 'a pg_op = "db \<Rightarrow> (gerr + 'a) \<times> db"

text \<open>\<open>DELETE FROM table WHERE key = id\<close>: \<open>refs\<close> is the table with a row that still refers to it, if any.\<close>

definition pg_delete :: "string \<Rightarrow> string \<Rightarrow> string \<Rightarrow> (db \<Rightarrow> string option) \<Rightarrow> (db \<Rightarrow> db) \<Rightarrow> unit pg_op" where
  "pg_delete table key i refs remove d =
     (case refs d of
        Some table2 \<Rightarrow> (Inl (NewDependencyStillExists table table2 key i []), d)
      | None \<Rightarrow> (Inr (), remove d))"

section \<open>Patterns\<close>

definition parseString :: "string \<Rightarrow> string \<times> bool" where
  "parseString s =
     (let s = concat (map (\<lambda>c. if c = CHR ''_'' then [CHR 0x5C, CHR ''_''] else [c]) s);
          news = map (\<lambda>c. if c = CHR ''*'' then CHR ''%'' else if c = CHR ''?'' then CHR ''_'' else c) s
      in (news, s \<noteq> news))"

definition HasSuffix :: "string \<Rightarrow> string \<Rightarrow> bool" where
  "HasSuffix s suf \<longleftrightarrow> length suf \<le> length s \<and> drop (length s - length suf) s = suf"

datatype like_pattern = LikeEquals string | Like string | ILike string

definition parseLike :: "string \<Rightarrow> like_pattern" where
  "parseLike value =
     (if HasSuffix value ''(?i)'' then ILike (fst (parseString (take (length value - 4) value)))
      else case parseString value of (newv, True) \<Rightarrow> Like newv | (_, False) \<Rightarrow> LikeEquals value)"

text \<open>\<open>LIKE\<close>: percent matches any text, underscore one character, a backslash quotes the next one.\<close>

fun like_match :: "string \<Rightarrow> string \<Rightarrow> bool" where
  "like_match [] s = (s = [])"
| "like_match (p # ps) s =
     (if p = CHR ''%'' then list_ex (\<lambda>k. like_match ps (drop k s)) [0..<Suc (length s)]
      else if p = CHR 0x5C then (case (ps, s) of (q # qs, c # cs) \<Rightarrow> q = c \<and> like_match qs cs | _ \<Rightarrow> False)
      else if p = CHR ''_'' then (case s of c # cs \<Rightarrow> like_match ps cs | [] \<Rightarrow> False)
      else (case s of c # cs \<Rightarrow> p = c \<and> like_match ps cs | [] \<Rightarrow> False))"

fun pattern_matches :: "like_pattern \<Rightarrow> string \<Rightarrow> bool" where
  "pattern_matches (LikeEquals v) s = (s = v)"
| "pattern_matches (Like p) s = like_match p s"
| "pattern_matches (ILike p) s = like_match (ToLower p) (ToLower s)"

section \<open>Jobs\<close>

text \<open>A TIMESTAMP column keeps microseconds; an instant is in nanoseconds.\<close>

definition pg_ts :: "gtime \<Rightarrow> gtime" where
  "pg_ts t = ((t + 500) div 1000) * 1000"

definition job_of_row :: "job_row \<Rightarrow> Job" where
  "job_of_row r =
     (NewJob (jr_ID r))
       \<lparr>j_Name := jr_Name r, j_Type := jr_Type r, j_CreationTime := jr_CreationTime r, j_LastUpdateTime := jr_LastUpdate r,
        j_State := jr_State r, j_ActiveTasks := jr_ActiveTasks r, j_FailedTasks := jr_FailedTasks r,
        j_Payload := jr_Payload r, j_ExecutionLevel := jr_ExecutionLevel r, j_Waiting := jr_Waiting r\<rparr>"

definition find_job :: "string \<Rightarrow> db \<Rightarrow> job_row option" where
  "find_job i d = find (\<lambda>r. jr_ID r = i) (db_Jobs d)"

definition pg_ReadJob :: "string \<Rightarrow> Job pg_op" where
  "pg_ReadJob i d =
     (case find_job i d of None \<Rightarrow> Inl (NewEntityNotFound ''Job'' ''id'' i []) | Some r \<Rightarrow> Inr (job_of_row r), d)"

text \<open>With a page of logs: the page in the order of time, and the number of all logs.  Where the page is
  empty the lateral join still yields one row of nulls, which is read as one blank log.\<close>

definition blank_log :: JobLog where
  "blank_log = \<lparr>jl_Severity = INFO, jl_Msg = [], jl_Status = [], jl_Date = 0\<rparr>"

definition pg_ReadJobWithLogs :: "string \<Rightarrow> nat \<Rightarrow> nat \<Rightarrow> Job pg_op" where
  "pg_ReadJobWithLogs i page limit d =
     (case find_job i d of
        None \<Rightarrow> Inl (NewEntityNotFound ''Job'' ''id'' i [])
      | Some r \<Rightarrow>
          let logs = map snd (filter (\<lambda>(k, l). k = i) (db_Logs d));
              sub = take limit (drop (page * limit) (rev (sort_key jl_Date logs)))
          in Inr ((job_of_row r)\<lparr>j_Logs := rev (if sub = [] then [blank_log] else sub), j_LogsCount := int (length logs)\<rparr>), d)"

definition pg_ReadJobWithTask :: "string \<Rightarrow> string \<Rightarrow> Job pg_op" where
  "pg_ReadJobWithTask jobID taskID d =
     (case (find_job jobID d, find (\<lambda>t. tr_ID t = taskID \<and> tr_JobID t = jobID) (db_Tasks d)) of
        (Some r, Some t) \<Rightarrow>
          Inr ((job_of_row r)\<lparr>j_Tasks := [\<lparr>t_ps = UNKNOWN, t_ID = tr_ID t, t_State = tr_State t, t_Payload = RawBytes []\<rparr>]\<rparr>)
      | _ \<Rightarrow> Inl (NewEntityNotFound ''Job/Task'' ''id/id'' (jobID @ ''/'' @ taskID) []), d)"

definition pg_CreateJob :: "Job \<Rightarrow> unit pg_op" where
  "pg_CreateJob j d =
     (if list_ex (\<lambda>r. jr_ID r = j_ID j \<or> jr_Name r = j_Name j) (db_Jobs d)
      then (Inl (NewEntityAlreadyExists ''Job'' ''name'' (j_Name j) []), d)
      else (Inr (), d\<lparr>db_Jobs := db_Jobs d @
        [\<lparr>jr_ID = j_ID j, jr_Name = j_Name j, jr_Type = j_Type j, jr_CreationTime = pg_ts (j_CreationTime j),
          jr_LastUpdate = pg_ts (j_LastUpdateTime j), jr_State = j_State j, jr_ActiveTasks = j_ActiveTasks j,
          jr_FailedTasks = j_FailedTasks j, jr_Payload = j_Payload j, jr_ExecutionLevel = j_ExecutionLevel j,
          jr_Waiting = False\<rparr>]\<rparr>))"

definition updates :: "Job \<Rightarrow> job_row \<Rightarrow> bool" where
  "updates j r \<longleftrightarrow> jr_ID r = j_ID j \<and> jr_LastUpdate r = pg_ts (OCCTime j)"

definition updated_row :: "Job \<Rightarrow> job_row \<Rightarrow> job_row" where
  "updated_row j r =
     r\<lparr>jr_LastUpdate := pg_ts (j_LastUpdateTime j), jr_State := j_State j, jr_ActiveTasks := j_ActiveTasks j,
       jr_FailedTasks := j_FailedTasks j, jr_Waiting := j_Waiting j\<rparr>"

definition pg_UpdateJob :: "Job \<Rightarrow> unit pg_op" where
  "pg_UpdateJob j d =
     (if list_ex (updates j) (db_Jobs d)
      then (Inr (), d\<lparr>db_Jobs := map (\<lambda>r. if updates j r then updated_row j r else r) (db_Jobs d)\<rparr>)
      else (Inl (NewEntityNotFound ''Job'' ''id/timestamp'' (j_ID j @ ''/'' @ itoa (OCCTime j)) []), d))"

definition pg_DeleteJob :: "string \<Rightarrow> unit pg_op" where
  "pg_DeleteJob i =
     pg_delete ''jobs'' ''id'' i
       (\<lambda>d. if list_ex (\<lambda>r. jr_ID r = i) (db_Jobs d) \<and> list_ex (\<lambda>t. tr_JobID t = i) (db_Tasks d) then Some ''tasks'' else None)
       (\<lambda>d. d\<lparr>db_Jobs := filter (\<lambda>r. jr_ID r \<noteq> i) (db_Jobs d), db_Logs := filter (\<lambda>(k, l). k \<noteq> i) (db_Logs d),
              db_Locks := filter (\<lambda>l. lk_JobID l \<noteq> i) (db_Locks d)\<rparr>)"

definition pg_PersistLogs :: "string \<Rightarrow> JobLog list \<Rightarrow> unit pg_op" where
  "pg_PersistLogs i logs d =
     (if logs = [] then (Inr (), d)
      else if \<not> list_ex (\<lambda>r. jr_ID r = i) (db_Jobs d)
      then (Inl (pqErrorFormat ''PersistLogs.exec: '' foreignKeyViolation (pq_error ''job_logs'')), d)
      else (Inr (), d\<lparr>db_Logs := db_Logs d @ map (\<lambda>l. (i, l)) logs\<rparr>))"

definition job_name_matches :: "string \<Rightarrow> job_row \<Rightarrow> bool" where
  "job_name_matches nameLike r \<longleftrightarrow> nameLike = [] \<or> pattern_matches (parseLike nameLike) (jr_Name r)"

definition pg_ListJobsID :: "string \<Rightarrow> JobState list \<Rightarrow> string list pg_op" where
  "pg_ListJobsID nameLike states d =
     (Inr (map jr_ID (filter (\<lambda>r. jr_State r \<in> set states \<and> job_name_matches nameLike r) (db_Jobs d))), d)"

section \<open>Locks\<close>

definition lock_conflict :: "string list \<Rightarrow> db \<Rightarrow> string option" where
  "lock_conflict ids d =
     (case find (\<lambda>i. list_ex (\<lambda>l. lk_DatasetID l = i) (db_Locks d)) ids of
        Some i \<Rightarrow> Some i
      | None \<Rightarrow> if distinct ids then None else find (\<lambda>i. count_list ids i > 1) ids)"

definition pg_LockDatasets :: "string \<Rightarrow> string list \<Rightarrow> int \<Rightarrow> unit pg_op" where
  "pg_LockDatasets job ids flag d =
     (case lock_conflict ids d of
        Some i \<Rightarrow> (Inl (NewEntityAlreadyExists ''dataset'' ''id'' i (''Dataset is already locked: '' @ i)), d)
      | None \<Rightarrow>
          if ids \<noteq> [] \<and> (\<not> list_ex (\<lambda>r. jr_ID r = job) (db_Jobs d) \<or>
               \<not> list_all (\<lambda>i. list_ex (\<lambda>r. d_ID (dr_Dataset r) = i) (db_Datasets d)) ids)
          then (Inl (pqErrorFormat ''LockDatasets.exec2: '' foreignKeyViolation (pq_error ''locked_datasets'')), d)
          else (Inr (), d\<lparr>db_Locks := db_Locks d @ map (\<lambda>i. \<lparr>lk_DatasetID = i, lk_JobID = job, lk_Flag = flag\<rparr>) ids,
                          db_Datasets := map (\<lambda>r. if d_ID (dr_Dataset r) \<in> set ids then r\<lparr>dr_LockedBy := Some job\<rparr> else r) (db_Datasets d)\<rparr>))"

definition pg_ReleaseDatasets :: "string \<Rightarrow> int \<Rightarrow> unit pg_op" where
  "pg_ReleaseDatasets job flag d =
     (Inr (), d\<lparr>db_Datasets := map (\<lambda>r. if dr_LockedBy r = Some job \<and>
                    list_ex (\<lambda>l. lk_DatasetID l = d_ID (dr_Dataset r) \<and> lk_Flag l = flag) (db_Locks d)
                  then r\<lparr>dr_LockedBy := None\<rparr> else r) (db_Datasets d),
               db_Locks := filter (\<lambda>l. \<not> (lk_JobID l = job \<and> lk_Flag l = flag)) (db_Locks d)\<rparr>)"

section \<open>Tasks\<close>

definition task_of_row :: "task_row \<Rightarrow> Task" where
  "task_of_row t = \<lparr>t_ps = UNKNOWN, t_ID = tr_ID t, t_State = tr_State t, t_Payload = tr_Payload t\<rparr>"

definition pg_CreateTasks :: "string \<Rightarrow> Task list \<Rightarrow> unit pg_op" where
  "pg_CreateTasks job tasks d =
     (if \<not> distinct (map t_ID tasks) \<or> list_ex (\<lambda>t. list_ex (\<lambda>r. tr_ID r = t_ID t) (db_Tasks d)) tasks
      then (Inl (NewEntityAlreadyExists [] [] [] ''Tasks''), d)
      else if tasks \<noteq> [] \<and> \<not> list_ex (\<lambda>r. jr_ID r = job) (db_Jobs d)
      then (Inl (pqErrorFormat ''CreateTasks: '' foreignKeyViolation (pq_error ''tasks'')), d)
      else (Inr (), d\<lparr>db_Tasks := db_Tasks d @
             map (\<lambda>t. \<lparr>tr_ID = t_ID t, tr_State = t_State t, tr_Payload = t_Payload t, tr_JobID = job\<rparr>) tasks\<rparr>))"

definition pg_ReadTasks :: "string \<Rightarrow> TaskState list option \<Rightarrow> Task list pg_op" where
  "pg_ReadTasks job states d =
     (Inr (map task_of_row (filter (\<lambda>t. tr_JobID t = job \<and>
        (case states of None \<Rightarrow> True | Some ss \<Rightarrow> tr_State t \<in> set ss)) (db_Tasks d))), d)"

definition pg_UpdateTask :: "Task \<Rightarrow> unit pg_op" where
  "pg_UpdateTask t d =
     (if list_ex (\<lambda>r. tr_ID r = t_ID t) (db_Tasks d)
      then (Inr (), d\<lparr>db_Tasks := map (\<lambda>r. if tr_ID r = t_ID t then r\<lparr>tr_State := t_State t\<rparr> else r) (db_Tasks d)\<rparr>)
      else (Inl (NewEntityNotFound ''Task'' ''id'' (t_ID t) []), d))"

definition pg_DeleteTask :: "string \<Rightarrow> unit pg_op" where
  "pg_DeleteTask i = pg_delete ''tasks'' ''id'' i (\<lambda>_. None)
     (\<lambda>d. d\<lparr>db_Tasks := filter (\<lambda>r. tr_ID r \<noteq> i) (db_Tasks d)\<rparr>)"

section \<open>Datasets and containers\<close>

definition pg_ChangeDatasetsStatus :: "string \<Rightarrow> DatasetStatus \<Rightarrow> DatasetStatus \<Rightarrow> unit pg_op" where
  "pg_ChangeDatasetsStatus job fromStatus toStatus d =
     (Inr (), d\<lparr>db_Datasets := map (\<lambda>r. if dr_LockedBy r = Some job \<and> d_Status (dr_Dataset r) = fromStatus
                then r\<lparr>dr_Dataset := (dr_Dataset r)\<lparr>d_Status := toStatus\<rparr>\<rparr> else r) (db_Datasets d)\<rparr>)"

definition record_time :: "db \<Rightarrow> string \<Rightarrow> gtime option" where
  "record_time d i = map_of (db_Records d) i"

definition read_dataset :: "dataset_row \<Rightarrow> Dataset" where
  "read_dataset r = (dr_Dataset r)\<lparr>d_ps := UNKNOWN\<rparr>"

text \<open>\<open>findDatasets\<close> without tags, times and geometry: an empty list of statuses, patterns, instances or
  records does not filter; with \<open>order\<close> the rows are joined with their records and sorted by their time
  and identifier.\<close>

definition selected_dataset ::
  "DatasetStatus list \<Rightarrow> string list \<Rightarrow> string \<Rightarrow> string list \<Rightarrow> string list \<Rightarrow> dataset_row \<Rightarrow> bool" where
  "selected_dataset status patterns job instances records r \<longleftrightarrow>
     (status = [] \<or> d_Status (dr_Dataset r) \<in> set status) \<and> (job = [] \<or> dr_LockedBy r = Some job) \<and>
     (patterns = [] \<or> list_ex (\<lambda>p. pattern_matches (parseLike p) (d_ContainerURI (dr_Dataset r))) patterns) \<and>
     (instances = [] \<or> d_InstanceID (dr_Dataset r) \<in> set instances) \<and>
     (records = [] \<or> d_RecordID (dr_Dataset r) \<in> set records)"

definition string_key :: "string \<Rightarrow> nat list" where
  "string_key s = map of_char s"

fun key_le :: "nat list \<Rightarrow> nat list \<Rightarrow> bool" where
  "key_le [] ys = True"
| "key_le (x # xs) [] = False"
| "key_le (x # xs) (y # ys) = (x < y \<or> x = y \<and> key_le xs ys)"

definition string_le :: "string \<Rightarrow> string \<Rightarrow> bool" where
  "string_le s t = key_le (string_key s) (string_key t)"

text \<open>Stable insertion sort by a comparison, the order of \<open>ORDER BY\<close>.\<close>

fun insert_by :: "('a \<Rightarrow> 'a \<Rightarrow> bool) \<Rightarrow> 'a \<Rightarrow> 'a list \<Rightarrow> 'a list" where
  "insert_by le x [] = [x]"
| "insert_by le x (y # ys) = (if le x y then x # y # ys else y # insert_by le x ys)"

definition sort_by :: "('a \<Rightarrow> 'a \<Rightarrow> bool) \<Rightarrow> 'a list \<Rightarrow> 'a list" where
  "sort_by le xs = foldr (insert_by le) xs []"

definition by_record_time :: "db \<Rightarrow> Dataset \<Rightarrow> Dataset \<Rightarrow> bool" where
  "by_record_time d a b =
     (let ta = the (record_time d (d_RecordID a)); tb = the (record_time d (d_RecordID b))
      in ta < tb \<or> ta = tb \<and> string_le (d_RecordID a) (d_RecordID b))"

definition findDatasets ::
  "DatasetStatus list \<Rightarrow> string list \<Rightarrow> string \<Rightarrow> string list \<Rightarrow> string list \<Rightarrow> bool \<Rightarrow> db \<Rightarrow> Dataset list" where
  "findDatasets status patterns job instances records order d =
     (let rows = map read_dataset (filter (selected_dataset status patterns job instances records) (db_Datasets d))
      in if order then sort_by (by_record_time d) (filter (\<lambda>x. record_time d (d_RecordID x) \<noteq> None) rows) else rows)"

definition pg_FindDatasets ::
  "DatasetStatus \<Rightarrow> string list \<Rightarrow> string \<Rightarrow> string list \<Rightarrow> string list \<Rightarrow> bool \<Rightarrow> Dataset list pg_op" where
  "pg_FindDatasets status patterns job instances records order d =
     (Inr (findDatasets [status] patterns job instances records order d), d)"

definition pg_ListActiveDatasetsID :: "string \<Rightarrow> string list \<Rightarrow> string list pg_op" where
  "pg_ListActiveDatasetsID inst records d =
     (Inr (map (\<lambda>r. d_ID (dr_Dataset r)) (filter (\<lambda>r. d_InstanceID (dr_Dataset r) = inst \<and>
        d_Status (dr_Dataset r) = DatasetStatusACTIVE \<and> (records = [] \<or> d_RecordID (dr_Dataset r) \<in> set records)) (db_Datasets d))), d)"

definition container_of_row :: "container_row \<Rightarrow> Container" where
  "container_of_row r =
     \<lparr>c_ps = UNKNOWN, c_ID = ct_ID r, c_URI = ct_URI r, c_Managed = ct_Managed r, c_StorageClass = ct_StorageClass r, c_Datasets = []\<rparr>"

fun first_index :: "string \<Rightarrow> string list \<Rightarrow> nat option" where
  "first_index x [] = None"
| "first_index x (y # ys) = (if x = y then Some 0 else map_option Suc (first_index x ys))"

text \<open>The datasets of the containers are looked up with the URIs as patterns; a dataset whose URI is not
  among the requested ones gets the index 0 of a missing map entry.\<close>

definition add_to_container :: "string list \<Rightarrow> Dataset \<Rightarrow> Container list \<Rightarrow> Container list" where
  "add_to_container uris x cs =
     (let i = (case first_index (d_ContainerURI x) uris of Some i \<Rightarrow> i | None \<Rightarrow> 0)
      in cs[i := (cs ! i)\<lparr>c_Datasets := c_Datasets (cs ! i) @ [x]\<rparr>])"

definition pg_ReadContainers :: "string list \<Rightarrow> Container list pg_op" where
  "pg_ReadContainers requested d =
     (let uris = rev (remdups (rev requested));
          row = (\<lambda>u. find (\<lambda>r. ct_URI r = u) (db_Containers d))
      in if requested = [] then (Inr [], d)
         else case find (\<lambda>u. row u = None) uris of
                Some u \<Rightarrow> (Inl (NewEntityNotFound ''Container'' ''uri'' u []), d)
              | None \<Rightarrow> (Inr (fold (add_to_container uris) (findDatasets [] requested [] [] [] False d)
                              (map (\<lambda>u. container_of_row (the (row u))) uris)), d))"

definition pg_CreateContainer :: "Container \<Rightarrow> unit pg_op" where
  "pg_CreateContainer c d =
     (if list_ex (\<lambda>r. ct_URI r = c_URI c) (db_Containers d)
      then (Inl (NewEntityAlreadyExists ''Container'' ''uri'' (c_URI c) []), d)
      else (Inr (), d\<lparr>db_Containers := db_Containers d @
              [\<lparr>ct_ID = db_NextContainer d, ct_URI = c_URI c, ct_Managed = c_Managed c, ct_StorageClass = c_StorageClass c\<rparr>],
              db_NextContainer := db_NextContainer d + 1\<rparr>))"

definition pg_UpdateContainer :: "Container \<Rightarrow> unit pg_op" where
  "pg_UpdateContainer c d = (Inr (), d)"

definition pg_DeleteContainer :: "Container \<Rightarrow> unit pg_op" where
  "pg_DeleteContainer c =
     pg_delete ''containers'' ''id'' (itoa (c_ID c))
       (\<lambda>d. if list_ex (\<lambda>r. ct_ID r = c_ID c \<and> list_ex (\<lambda>x. d_ContainerURI (dr_Dataset x) = ct_URI r) (db_Datasets d)) (db_Containers d)
            then Some ''datasets'' else None)
       (\<lambda>d. d\<lparr>db_ContainerLayouts := filter (\<lambda>(u, l). \<not> list_ex (\<lambda>r. ct_ID r = c_ID c \<and> ct_URI r = u) (db_Containers d)) (db_ContainerLayouts d),
              db_Containers := filter (\<lambda>r. ct_ID r \<noteq> c_ID c) (db_Containers d)\<rparr>)"

definition known_dataset :: "db \<Rightarrow> Dataset \<Rightarrow> bool" where
  "known_dataset d x \<longleftrightarrow>
     record_time d (d_RecordID x) \<noteq> None \<and> list_ex (\<lambda>i. vi_ID (ir_Instance i) = d_InstanceID x) (db_Instances d) \<and>
     list_ex (\<lambda>r. ct_URI r = d_ContainerURI x) (db_Containers d)"

definition pg_CreateDatasets :: "Dataset list \<Rightarrow> unit pg_op" where
  "pg_CreateDatasets xs d =
     (if \<not> distinct (map d_ID xs) \<or> list_ex (\<lambda>x. list_ex (\<lambda>r. d_ID (dr_Dataset r) = d_ID x) (db_Datasets d)) xs
      then (Inl (pqErrorFormat ''CreateDatasets.exec: '' uniqueViolation (pq_error ''datasets'')), d)
      else case find (\<lambda>x. \<not> known_dataset d x) xs of
             Some x \<Rightarrow> (Inl (NewEntityNotFound [] [] [] ''datasets''), d)
           | None \<Rightarrow> (Inr (), d\<lparr>db_Datasets := db_Datasets d @ map (\<lambda>x. \<lparr>dr_Dataset = x, dr_LockedBy = None\<rparr>) xs\<rparr>))"

definition pg_DeleteDatasets :: "string list \<Rightarrow> unit pg_op" where
  "pg_DeleteDatasets ids d =
     (if list_ex (\<lambda>r. d_ID (dr_Dataset r) \<in> set ids \<and> list_ex (\<lambda>l. lk_DatasetID l = d_ID (dr_Dataset r)) (db_Locks d)) (db_Datasets d)
      then (Inl (pqErrorFormat ''DeleteDatasets: '' foreignKeyViolation (pq_error ''locked_datasets'')), d)
      else (Inr (), d\<lparr>db_Datasets := filter (\<lambda>r. d_ID (dr_Dataset r) \<notin> set ids) (db_Datasets d)\<rparr>))"

definition pg_SaveContainerLayout :: "string \<Rightarrow> string \<Rightarrow> unit pg_op" where
  "pg_SaveContainerLayout uri layout d =
     (if list_ex (\<lambda>(u, l). u = uri) (db_ContainerLayouts d)
      then (Inl (NewEntityAlreadyExists ''ContainerURI'' ''container_uri'' uri []), d)
      else if \<not> list_ex (\<lambda>r. ct_URI r = uri) (db_Containers d) \<or> \<not> list_ex (\<lambda>l. l_Name l = layout) (db_Layouts d)
      then (Inl (pqErrorFormat ''saveContainerLayout.exec: '' foreignKeyViolation (pq_error ''container_layouts'')), d)
      else (Inr (), d\<lparr>db_ContainerLayouts := db_ContainerLayouts d @ [(uri, layout)]\<rparr>))"

definition pg_DeleteContainerLayout :: "string \<Rightarrow> unit pg_op" where
  "pg_DeleteContainerLayout uri = pg_delete ''container_layouts'' ''container_uri'' uri (\<lambda>_. None)
     (\<lambda>d. d\<lparr>db_ContainerLayouts := filter (\<lambda>(u, l). u \<noteq> uri) (db_ContainerLayouts d)\<rparr>)"

section \<open>Layouts\<close>

definition pg_CreateLayout :: "Layout \<Rightarrow> unit pg_op" where
  "pg_CreateLayout l d =
     (if list_ex (\<lambda>x. l_Name x = l_Name l) (db_Layouts d)
      then (Inl (NewEntityAlreadyExists ''Layout'' ''name'' (l_Name l) []), d)
      else (Inr (), d\<lparr>db_Layouts := db_Layouts d @ [l]\<rparr>))"

definition pg_DeleteLayout :: "string \<Rightarrow> unit pg_op" where
  "pg_DeleteLayout name = pg_delete ''layouts'' ''name'' name
     (\<lambda>d. if list_ex (\<lambda>(u, l). l = name) (db_ContainerLayouts d) then Some ''container_layouts'' else None)
     (\<lambda>d. d\<lparr>db_Layouts := filter (\<lambda>l. l_Name l \<noteq> name) (db_Layouts d)\<rparr>)"

text \<open>The array of flags is scanned into a copy (\<open>pq.Array(l.GridFlags)\<close>, not its address), so a layout is
  read without its flags.\<close>

definition pg_ReadLayout :: "string \<Rightarrow> Layout pg_op" where
  "pg_ReadLayout name d =
     (case find (\<lambda>l. l_Name l = name) (db_Layouts d) of
        None \<Rightarrow> Inl (NewEntityNotFound ''Layout'' ''name'' name [])
      | Some l \<Rightarrow> Inr (l\<lparr>l_GridFlags := []\<rparr>), d)"

section \<open>Consolidation parameters\<close>

definition pg_CreateConsolidationParams :: "string \<Rightarrow> ConsolidationParams \<Rightarrow> unit pg_op" where
  "pg_CreateConsolidationParams i cp d = (Inr (), d\<lparr>db_Params := AList.update i cp (db_Params d)\<rparr>)"

definition pg_ReadConsolidationParams :: "string \<Rightarrow> ConsolidationParams pg_op" where
  "pg_ReadConsolidationParams i d =
     (case map_of (db_Params d) i of
        None \<Rightarrow> Inl (NewEntityNotFound ''ConsolidationParams'' ''id'' i [])
      | Some cp \<Rightarrow> Inr (cp\<lparr>cp_ps := UNKNOWN\<rparr>), d)"

definition pg_DeleteConsolidationParams :: "string \<Rightarrow> unit pg_op" where
  "pg_DeleteConsolidationParams i = pg_delete ''consolidation_params'' ''id'' i (\<lambda>_. None)
     (\<lambda>d. d\<lparr>db_Params := AList.delete i (db_Params d)\<rparr>)"

section \<open>Variables\<close>

definition instances_of :: "string \<Rightarrow> db \<Rightarrow> (string \<times> VariableInstance) list" where
  "instances_of i d =
     map (\<lambda>r. (vi_ID (ir_Instance r), (ir_Instance r)\<lparr>vi_ps := UNKNOWN\<rparr>)) (filter (\<lambda>r. ir_DefinitionID r = i) (db_Instances d))"

definition read_variable :: "Variable \<Rightarrow> (string \<times> VariableInstance) list \<Rightarrow> Variable" where
  "read_variable v is = v\<lparr>v_ps := UNKNOWN, v_Instances := is, v_ConsolidationParams := empty_params\<rparr>"

definition pg_ReadVariable :: "string \<Rightarrow> Variable pg_op" where
  "pg_ReadVariable i d =
     (case find (\<lambda>v. v_ID v = i) (db_Variables d) of
        None \<Rightarrow> Inl (NewEntityNotFound ''Variable'' ''id'' i [])
      | Some v \<Rightarrow> Inr (read_variable v (instances_of i d)), d)"

definition pg_ReadVariableFromInstanceID :: "string \<Rightarrow> Variable pg_op" where
  "pg_ReadVariableFromInstanceID i d =
     (case find (\<lambda>r. vi_ID (ir_Instance r) = i) (db_Instances d) of
        None \<Rightarrow> Inl (NewEntityNotFound ''Variable Instance'' ''id'' i [])
      | Some r \<Rightarrow>
          (case find (\<lambda>v. v_ID v = ir_DefinitionID r) (db_Variables d) of
             None \<Rightarrow> Inl (NewEntityNotFound ''Variable Instance'' ''id'' i [])
           | Some v \<Rightarrow> Inr (read_variable v [(i, (ir_Instance r)\<lparr>vi_ps := UNKNOWN\<rparr>)])), d)"

definition pg_CreateVariable :: "Variable \<Rightarrow> unit pg_op" where
  "pg_CreateVariable v d =
     (if list_ex (\<lambda>x. v_ID x = v_ID v \<or> v_Name x = v_Name v) (db_Variables d)
      then (Inl (NewEntityAlreadyExists ''Variable'' ''name'' (v_Name v) []), d)
      else (Inr (), d\<lparr>db_Variables := db_Variables d @ [v\<lparr>v_Instances := []\<rparr>]\<rparr>))"

definition pg_UpdateVariable :: "Variable \<Rightarrow> unit pg_op" where
  "pg_UpdateVariable v d =
     (if list_ex (\<lambda>x. v_ID x \<noteq> v_ID v \<and> v_Name x = v_Name v) (db_Variables d) \<and> list_ex (\<lambda>x. v_ID x = v_ID v) (db_Variables d)
      then (Inl (NewEntityAlreadyExists ''Variable'' ''name'' (v_Name v) []), d)
      else if list_ex (\<lambda>x. v_ID x = v_ID v) (db_Variables d)
      then (Inr (), d\<lparr>db_Variables := map (\<lambda>x. if v_ID x = v_ID v
               then x\<lparr>v_Name := v_Name v, v_Unit := v_Unit v, v_Description := v_Description v, v_Palette := v_Palette v,
                      v_Resampling := v_Resampling v\<rparr> else x) (db_Variables d)\<rparr>)
      else (Inl (NewEntityNotFound ''Variable'' ''id'' (v_ID v) []), d))"

definition pg_DeleteVariable :: "string \<Rightarrow> unit pg_op" where
  "pg_DeleteVariable i = pg_delete ''variable_definitions'' ''id'' i
     (\<lambda>d. if list_ex (\<lambda>r. ir_DefinitionID r = i) (db_Instances d) then Some ''variable_instances'' else None)
     (\<lambda>d. d\<lparr>db_Variables := filter (\<lambda>v. v_ID v \<noteq> i) (db_Variables d)\<rparr>)"

definition same_instance_name :: "string \<Rightarrow> VariableInstance \<Rightarrow> instance_row \<Rightarrow> bool" where
  "same_instance_name definition_id vi r \<longleftrightarrow> ir_DefinitionID r = definition_id \<and> vi_Name (ir_Instance r) = vi_Name vi"

definition pg_CreateInstance :: "string \<Rightarrow> VariableInstance \<Rightarrow> unit pg_op" where
  "pg_CreateInstance variableID vi d =
     (if list_ex (\<lambda>r. vi_ID (ir_Instance r) = vi_ID vi \<or> same_instance_name variableID vi r) (db_Instances d)
      then (Inl (NewEntityAlreadyExists ''Instance'' ''name'' (vi_Name vi) []), d)
      else if \<not> list_ex (\<lambda>v. v_ID v = variableID) (db_Variables d)
      then (Inl (pqErrorFormat ''CreateInstance: '' foreignKeyViolation (pq_error ''variable_instances'')), d)
      else (Inr (), d\<lparr>db_Instances := db_Instances d @ [\<lparr>ir_Instance = vi, ir_DefinitionID = variableID\<rparr>]\<rparr>))"

definition pg_UpdateInstance :: "VariableInstance \<Rightarrow> unit pg_op" where
  "pg_UpdateInstance vi d =
     (case find (\<lambda>r. vi_ID (ir_Instance r) = vi_ID vi) (db_Instances d) of
        None \<Rightarrow> (Inl (NewEntityNotFound ''Instance'' ''id'' (vi_ID vi) []), d)
      | Some row \<Rightarrow>
          if list_ex (\<lambda>r. vi_ID (ir_Instance r) \<noteq> vi_ID vi \<and> same_instance_name (ir_DefinitionID row) vi r) (db_Instances d)
          then (Inl (NewEntityAlreadyExists ''Instance'' ''name'' (vi_Name vi) []), d)
          else (Inr (), d\<lparr>db_Instances := map (\<lambda>r. if vi_ID (ir_Instance r) = vi_ID vi
                 then r\<lparr>ir_Instance := (ir_Instance r)\<lparr>vi_Name := vi_Name vi, vi_Metadata := vi_Metadata vi\<rparr>\<rparr> else r) (db_Instances d)\<rparr>))"

definition pg_DeleteInstance :: "string \<Rightarrow> unit pg_op" where
  "pg_DeleteInstance i = pg_delete ''variable_instances'' ''id'' i
     (\<lambda>d. if list_ex (\<lambda>x. d_InstanceID (dr_Dataset x) = i) (db_Datasets d) then Some ''datasets'' else None)
     (\<lambda>d. d\<lparr>db_Instances := filter (\<lambda>r. vi_ID (ir_Instance r) \<noteq> i) (db_Instances d)\<rparr>)"

section \<open>Tidying\<close>

definition tidy :: "(db \<Rightarrow> 'a list) \<Rightarrow> (('a list \<Rightarrow> 'a list) \<Rightarrow> db \<Rightarrow> db) \<Rightarrow> (db \<Rightarrow> 'a \<Rightarrow> bool) \<Rightarrow> int pg_op" where
  "tidy get upd pending d =
     (Inr (int (length (filter (pending d) (get d)))), upd (filter (\<lambda>x. \<not> pending d x)) d)"

definition pg_DeletePendingAOIs :: "int pg_op" where
  "pg_DeletePendingAOIs =
     tidy db_AOIs db_AOIs_update (\<lambda>d a. \<not> list_ex (\<lambda>(i, t). db_RecordAOI d i = a) (db_Records d))"

definition pg_DeletePendingInstances :: "int pg_op" where
  "pg_DeletePendingInstances =
     tidy db_Instances db_Instances_update (\<lambda>d i. \<not> list_ex (\<lambda>x. d_InstanceID (dr_Dataset x) = vi_ID (ir_Instance i)) (db_Datasets d))"

definition pg_DeletePendingVariables :: "int pg_op" where
  "pg_DeletePendingVariables =
     tidy db_Variables db_Variables_update (\<lambda>d v. \<not> list_ex (\<lambda>i. ir_DefinitionID i = v_ID v) (db_Instances d))"

definition pg_DeletePendingContainers :: "int pg_op" where
  "pg_DeletePendingContainers d =
     (let pending = (\<lambda>c. \<not> list_ex (\<lambda>x. d_ContainerURI (dr_Dataset x) = ct_URI c) (db_Datasets d) \<and> \<not> ct_Managed c)
      in (Inr (int (length (filter pending (db_Containers d)))),
          d\<lparr>db_ContainerLayouts := filter (\<lambda>(u, l). \<not> list_ex (\<lambda>c. ct_URI c = u \<and> pending c) (db_Containers d)) (db_ContainerLayouts d),
            db_Containers := filter (\<lambda>c. \<not> pending c) (db_Containers d)\<rparr>))"

definition pg_DeletePendingConsolidationParams :: "int pg_op" where
  "pg_DeletePendingConsolidationParams =
     tidy db_Params db_Params_update (\<lambda>d (i, p). \<not> list_ex (\<lambda>v. v_ID v = i) (db_Variables d) \<and> \<not> list_ex (\<lambda>j. jr_ID j = i) (db_Jobs d))"

end
