(* ===== verification/World.thy ===== *)
theory World
  imports Store
begin

text \<open>
  What the service works on: the committed tables, the open transaction, the job at hand, the messages
  published and the files touched.  \<open>act\<close> is the shape of every method of \<open>Service\<close>: it may panic,
  return an error or a result, and changes the world in all three cases but the first.
  \<open>unitOfWork\<close> is the transaction of internal/svc/service.go.

  The answers of the outside are the fields of \<open>env\<close>, indexed by the number of interactions so far
  (\<open>w_tick\<close>): the clock, the identifiers drawn, the failure of a database call or of a publication.
\<close>

record env = e_now :: "nat \<Rightarrow> gtime"
  e_uuid :: "nat \<Rightarrow> string"
  e_fault :: "nat \<Rightarrow> gerr option"
  e_uri_error :: "string \<Rightarrow> gerr option"
  e_delete_error :: "nat \<Rightarrow> string \<Rightarrow> gerr option"
  e_upload_error :: "nat \<Rightarrow> string \<Rightarrow> gerr option"
  e_coords_text :: "Shape \<Rightarrow> string"
  e_gob :: "ConsolidationEvent \<Rightarrow> string"
  e_cancelledPath :: string

record world = w_db :: db
  w_txn :: "db option"
  w_job :: Job
  w_events :: "JobEvent list"
  w_orders :: "payload list"
  w_deleted :: "string list"
  w_cancelled :: "string list"
  w_tick :: nat

type_synonym 'a act = "world \<Rightarrow> ((gerr + 'a) \<times> world) go"

section \<open>Sequencing\<close>

definition ok :: "'a \<Rightarrow> 'a act" where
  "ok a w = Ret (Inr a, w)"

definition fails :: "gerr \<Rightarrow> 'a act" where
  "fails e w = Ret (Inl e, w)"

definition panics :: "string \<Rightarrow> 'a act" where
  "panics m w = Panic m"

text \<open>\<open>handle m f\<close> continues with the result of \<open>m\<close>, the error included; \<open>seq m f\<close> returns at an error.\<close>

definition handle :: "'a act \<Rightarrow> (gerr + 'a \<Rightarrow> 'b act) \<Rightarrow> 'b act" where
  "handle m f w = go_bind (m w) (\<lambda>(r, w'). f r w')"

definition seq :: "'a act \<Rightarrow> ('a \<Rightarrow> 'b act) \<Rightarrow> 'b act" where
  "seq m f = handle m (\<lambda>r. case r of Inl e \<Rightarrow> fails e | Inr a \<Rightarrow> f a)"

definition wrap :: "string \<Rightarrow> 'a act \<Rightarrow> 'a act" where
  "wrap pre m = handle m (\<lambda>r. case r of Inl e \<Rightarrow> fails (WrapE pre e []) | Inr a \<Rightarrow> ok a)"

definition whenever :: "bool \<Rightarrow> unit act \<Rightarrow> unit act" where
  "whenever b m = (if b then m else ok ())"

fun each :: "('a \<Rightarrow> unit act) \<Rightarrow> 'a list \<Rightarrow> unit act" where
  "each f [] = ok ()"
| "each f (x # xs) = seq (f x) (\<lambda>_. each f xs)"

definition reading :: "(world \<Rightarrow> 'a) \<Rightarrow> 'a act" where
  "reading f w = Ret (Inr (f w), w)"

definition ticking :: "(nat \<Rightarrow> 'a) \<Rightarrow> 'a act" where
  "ticking f w = Ret (Inr (f (w_tick w)), w\<lparr>w_tick := Suc (w_tick w)\<rparr>)"

definition lift_result :: "gerr + 'a \<Rightarrow> 'a act" where
  "lift_result r w = Ret (r, w)"

definition lift_go :: "'a go \<Rightarrow> 'a act" where
  "lift_go m w = go_bind m (\<lambda>a. Ret (Inr a, w))"

text \<open>A method of the job at hand: one that returns nothing, and one that returns an error.\<close>

definition on_job :: "(Job \<Rightarrow> Job go) \<Rightarrow> unit act" where
  "on_job f w = go_bind (f (w_job w)) (\<lambda>j. Ret (Inr (), w\<lparr>w_job := j\<rparr>))"

definition on_job_err :: "(Job \<Rightarrow> (gerr option \<times> Job) go) \<Rightarrow> unit act" where
  "on_job_err f w =
     go_bind (f (w_job w)) (\<lambda>(eo, j).
       Ret (case eo of None \<Rightarrow> Inr () | Some e \<Rightarrow> Inl e, w\<lparr>w_job := j\<rparr>))"

definition log_job :: "env \<Rightarrow> LogSeverity \<Rightarrow> string \<Rightarrow> unit act" where
  "log_job E severity msg = seq (ticking (e_now E)) (\<lambda>now. on_job (LogMsg now severity msg))"

section \<open>Database calls\<close>

definition nil_panic :: string where
  "nil_panic = ''runtime error: invalid memory address or nil pointer dereference''"

text \<open>A call on the database itself (\<open>svc.db\<close>) and a call on the open transaction (\<open>txn\<close>).\<close>

definition dbx :: "env \<Rightarrow> 'a pg_op \<Rightarrow> 'a act" where
  "dbx E op w =
     (let w' = w\<lparr>w_tick := Suc (w_tick w)\<rparr>
      in case e_fault E (w_tick w) of
           Some e \<Rightarrow> Ret (Inl e, w')
         | None \<Rightarrow> (case op (w_db w) of (r, d) \<Rightarrow> Ret (r, w'\<lparr>w_db := d\<rparr>)))"

definition tx :: "env \<Rightarrow> 'a pg_op \<Rightarrow> 'a act" where
  "tx E op w =
     (let w' = w\<lparr>w_tick := Suc (w_tick w)\<rparr>
      in case w_txn w of
           None \<Rightarrow> Panic nil_panic
         | Some d \<Rightarrow>
             (case e_fault E (w_tick w) of
                Some e \<Rightarrow> Ret (Inl e, w')
              | None \<Rightarrow> (case op d of (r, d') \<Rightarrow> Ret (r, w'\<lparr>w_txn := Some d'\<rparr>))))"

text \<open>
  \<open>unitOfWork\<close>: the transaction starts from the committed tables; an error drops its work, otherwise
  the commit makes it the committed tables.  A unit of work inside another one is only used to write
  logs: the enclosing transaction reads what the inner one committed, so the new logs join its tables.
\<close>

definition adopt_logs :: "db \<Rightarrow> db \<Rightarrow> db \<Rightarrow> db" where
  "adopt_logs before after d = d\<lparr>db_Logs := db_Logs d @ drop (length (db_Logs before)) (db_Logs after)\<rparr>"

definition start_txn :: "env \<Rightarrow> unit act" where
  "start_txn E w =
     (let w' = w\<lparr>w_tick := Suc (w_tick w)\<rparr>
      in case e_fault E (w_tick w) of
           Some e \<Rightarrow> Ret (Inl (WrapE ''uow.starttransaction: '' e []), w')
         | None \<Rightarrow> Ret (Inr (), w'\<lparr>w_txn := Some (w_db w)\<rparr>))"

definition commit_txn :: "env \<Rightarrow> db option \<Rightarrow> unit act" where
  "commit_txn E outer w =
     (let w' = w\<lparr>w_tick := Suc (w_tick w)\<rparr>
      in case w_txn w of
           None \<Rightarrow> Panic nil_panic
         | Some d \<Rightarrow>
             (case e_fault E (w_tick w) of
                Some e \<Rightarrow> Ret (Inl e, w'\<lparr>w_txn := outer\<rparr>)
              | None \<Rightarrow> Ret (Inr (), w'\<lparr>w_db := d, w_txn := map_option (adopt_logs (w_db w) d) outer\<rparr>)))"

definition unitOfWork :: "env \<Rightarrow> 'a act \<Rightarrow> 'a act" where
  "unitOfWork E f =
     seq (reading w_txn) (\<lambda>outer.
     seq (start_txn E) (\<lambda>_.
     handle f (\<lambda>r. case r of
         Inl e \<Rightarrow> (\<lambda>w. Ret (Inl (WrapE ''uow.'' e []), w\<lparr>w_txn := outer\<rparr>))
       | Inr a \<Rightarrow> seq (commit_txn E outer) (\<lambda>_. ok a))))"

section \<open>Reasoning\<close>

lemmas act_defs = ok_def fails_def panics_def handle_def seq_def reading_def ticking_def lift_result_def lift_go_def

lemma seq_ok [simp]: "seq (ok a) f = f a"
  by (rule ext) (simp add: act_defs)

lemma seq_fails [simp]: "seq (fails e) f = fails e"
  by (rule ext) (simp add: act_defs)

lemma seq_panics [simp]: "seq (panics m) f = panics m"
  by (rule ext) (simp add: act_defs)

lemma handle_assoc: "handle (handle m f) g = handle m (\<lambda>r. handle (f r) g)"
  by (rule ext) (auto simp: handle_def go_bind_assoc intro!: arg_cong2 [where f = go_bind])

lemma seq_assoc: "seq (seq m f) g = seq m (\<lambda>a. seq (f a) g)"
proof -
  have "handle (case r of Inl e \<Rightarrow> fails e | Inr a \<Rightarrow> f a) (\<lambda>r. case r of Inl e \<Rightarrow> fails e | Inr a \<Rightarrow> g a) =
        (case r of Inl e \<Rightarrow> fails e | Inr a \<Rightarrow> seq (f a) g)" for r
    by (cases r) (auto simp: seq_def fails_def handle_def fun_eq_iff)
  note step = this
  have "seq (seq m f) g = handle m (\<lambda>r. handle (case r of Inl e \<Rightarrow> fails e | Inr a \<Rightarrow> f a)
          (\<lambda>r. case r of Inl e \<Rightarrow> fails e | Inr a \<Rightarrow> g a))"
    by (simp only: seq_def handle_assoc)
  also have "\<dots> = seq m (\<lambda>a. seq (f a) g)" unfolding step by (simp only: seq_def)
  finally show ?thesis .
qed

lemma handle_Ret_iff:
  "handle m f w = Ret rw \<longleftrightarrow> (\<exists>r w'. m w = Ret (r, w') \<and> f r w' = Ret rw)"
  by (auto simp: handle_def go_bind_eq_Ret_iff)

lemma seq_Ret_iff:
  "seq m f w = Ret (r, w2) \<longleftrightarrow>
     (\<exists>e. m w = Ret (Inl e, w2) \<and> r = Inl e) \<or> (\<exists>a w1. m w = Ret (Inr a, w1) \<and> f a w1 = Ret (r, w2))"
proof
  assume "seq m f w = Ret (r, w2)"
  then obtain r0 w1 where "m w = Ret (r0, w1)" "(case r0 of Inl e \<Rightarrow> fails e | Inr a \<Rightarrow> f a) w1 = Ret (r, w2)"
    by (auto simp: seq_def handle_Ret_iff)
  then show "(\<exists>e. m w = Ret (Inl e, w2) \<and> r = Inl e) \<or> (\<exists>a w1. m w = Ret (Inr a, w1) \<and> f a w1 = Ret (r, w2))"
    by (cases r0) (auto simp: fails_def)
qed (auto simp: seq_def handle_def fails_def)

lemma seq_Inr_iff:
  "seq m f w = Ret (Inr b, w2) \<longleftrightarrow> (\<exists>a w1. m w = Ret (Inr a, w1) \<and> f a w1 = Ret (Inr b, w2))"
  by (auto simp: seq_Ret_iff)

lemma wrap_Ret_iff:
  "wrap pre m w = Ret (r, w2) \<longleftrightarrow>
     (\<exists>r0. m w = Ret (r0, w2) \<and> r = (case r0 of Inl e \<Rightarrow> Inl (WrapE pre e []) | Inr a \<Rightarrow> Inr a))"
proof
  assume "wrap pre m w = Ret (r, w2)"
  then obtain r0 w1 where "m w = Ret (r0, w1)"
    "(case r0 of Inl e \<Rightarrow> fails (WrapE pre e []) | Inr a \<Rightarrow> ok a) w1 = Ret (r, w2)"
    by (auto simp: wrap_def handle_Ret_iff)
  then show "\<exists>r0. m w = Ret (r0, w2) \<and> r = (case r0 of Inl e \<Rightarrow> Inl (WrapE pre e []) | Inr a \<Rightarrow> Inr a)"
    by (cases r0) (auto simp: fails_def ok_def)
next
  assume "\<exists>r0. m w = Ret (r0, w2) \<and> r = (case r0 of Inl e \<Rightarrow> Inl (WrapE pre e []) | Inr a \<Rightarrow> Inr a)"
  then obtain r0 where "m w = Ret (r0, w2)" "r = (case r0 of Inl e \<Rightarrow> Inl (WrapE pre e []) | Inr a \<Rightarrow> Inr a)"
    by blast
  then show "wrap pre m w = Ret (r, w2)"
    by (cases r0) (auto simp: wrap_def handle_def fails_def ok_def)
qed

lemma wrap_Inr_iff [simp]: "wrap pre m w = Ret (Inr a, w2) \<longleftrightarrow> m w = Ret (Inr a, w2)"
  unfolding wrap_Ret_iff by (metis obj_sumE old.sum.simps(5) old.sum.simps(6) sum.distinct(1))

text \<open>
  A relation between the worlds before and after that every step keeps: the workhorse for frame
  properties of whole methods.
\<close>

definition keeps :: "(world \<Rightarrow> world \<Rightarrow> bool) \<Rightarrow> 'a act \<Rightarrow> bool" where
  "keeps R m \<longleftrightarrow> (\<forall>w r w'. m w = Ret (r, w') \<longrightarrow> R w w')"

lemma keepsI: "(\<And>w r w'. m w = Ret (r, w') \<Longrightarrow> R w w') \<Longrightarrow> keeps R m"
  by (auto simp: keeps_def)

lemma keepsD: "keeps R m \<Longrightarrow> m w = Ret (r, w') \<Longrightarrow> R w w'"
  by (auto simp: keeps_def)

definition frame_rel :: "(world \<Rightarrow> world \<Rightarrow> bool) \<Rightarrow> bool" where
  "frame_rel R \<longleftrightarrow> (\<forall>w. R w w) \<and> (\<forall>u v w. R u v \<longrightarrow> R v w \<longrightarrow> R u w)"

lemma frame_rel_refl: "frame_rel R \<Longrightarrow> R w w"
  by (auto simp: frame_rel_def)

lemma frame_rel_trans: "frame_rel R \<Longrightarrow> R u v \<Longrightarrow> R v w \<Longrightarrow> R u w"
  by (auto simp: frame_rel_def)

lemma frame_rel_eq [simp]: "frame_rel (\<lambda>w w'. f w' = f w)"
  by (simp add: frame_rel_def)

named_theorems keeps_intros \<open>how sequencing keeps a relation\<close>

lemma keeps_ok [keeps_intros]: "frame_rel R \<Longrightarrow> keeps R (ok a)"
  by (auto simp: keeps_def ok_def frame_rel_refl)

lemma keeps_fails [keeps_intros]: "frame_rel R \<Longrightarrow> keeps R (fails e)"
  by (auto simp: keeps_def fails_def frame_rel_refl)

lemma keeps_panics [keeps_intros]: "keeps R (panics m)"
  by (auto simp: keeps_def panics_def)

lemma keeps_reading [keeps_intros]: "frame_rel R \<Longrightarrow> keeps R (reading f)"
  by (auto simp: keeps_def reading_def frame_rel_refl)

lemma keeps_lift_result [keeps_intros]: "frame_rel R \<Longrightarrow> keeps R (lift_result f)"
  by (auto simp: keeps_def lift_result_def frame_rel_refl)

lemma keeps_lift_go [keeps_intros]: "frame_rel R \<Longrightarrow> keeps R (lift_go f)"
  by (auto simp: keeps_def lift_go_def frame_rel_refl go_bind_eq_Ret_iff)

lemma keeps_handle [keeps_intros]:
  "frame_rel R \<Longrightarrow> keeps R m \<Longrightarrow> (\<And>r. keeps R (f r)) \<Longrightarrow> keeps R (handle m f)"
  unfolding keeps_def handle_Ret_iff by (blast intro: frame_rel_trans)

lemma keeps_seq [keeps_intros]:
  "frame_rel R \<Longrightarrow> keeps R m \<Longrightarrow> (\<And>a. keeps R (f a)) \<Longrightarrow> keeps R (seq m f)"
  by (auto simp: seq_def intro!: keeps_intros split: sum.splits)

lemma keeps_wrap [keeps_intros]: "frame_rel R \<Longrightarrow> keeps R m \<Longrightarrow> keeps R (wrap pre m)"
  by (auto simp: wrap_def intro!: keeps_intros split: sum.splits)

lemma keeps_whenever [keeps_intros]: "frame_rel R \<Longrightarrow> (b \<Longrightarrow> keeps R m) \<Longrightarrow> keeps R (whenever b m)"
  by (auto simp: whenever_def intro!: keeps_intros)

lemma keeps_each [keeps_intros]: "frame_rel R \<Longrightarrow> (\<And>x. keeps R (f x)) \<Longrightarrow> keeps R (each f xs)"
  by (induction xs) (auto intro!: keeps_intros)

text \<open>Inside a transaction the committed tables do not move; a unit of work restores the transaction.\<close>

abbreviation committed_kept :: "'a act \<Rightarrow> bool" where
  "committed_kept \<equiv> keeps (\<lambda>w w'. w_db w' = w_db w)"

lemma tx_keeps: "frame_rel R \<Longrightarrow> (\<And>w t d. R w (w\<lparr>w_tick := t, w_txn := d\<rparr>)) \<Longrightarrow> keeps R (tx E op)"
  apply (rule keepsI)
  subgoal premises p for w r w'
  proof -
    have "w' = w\<lparr>w_tick := w_tick w', w_txn := w_txn w'\<rparr>"
      using p(3) by (auto simp: tx_def Let_def split: option.splits prod.splits)
    moreover have "R w (w\<lparr>w_tick := w_tick w', w_txn := w_txn w'\<rparr>)" by (rule p(2))
    ultimately show ?thesis by simp
  qed
  done

lemma tx_committed [keeps_intros]: "committed_kept (tx E op)"
  by (rule tx_keeps) simp_all

lemma ticking_committed [keeps_intros]: "committed_kept (ticking f)"
  by (auto simp: keeps_def ticking_def)

lemma on_job_committed [keeps_intros]: "committed_kept (on_job f)"
  by (auto simp: keeps_def on_job_def go_bind_eq_Ret_iff)

lemma on_job_err_committed [keeps_intros]: "committed_kept (on_job_err f)"
  by (auto simp: keeps_def on_job_err_def go_bind_eq_Ret_iff)

lemma log_job_committed [keeps_intros]: "committed_kept (log_job E s m)"
  by (auto simp: log_job_def intro!: keeps_intros)

definition in_txn :: "world \<Rightarrow> world" where
  "in_txn w = w\<lparr>w_tick := Suc (w_tick w), w_txn := Some (w_db w)\<rparr>"

lemma unitOfWork_cases:
  assumes "unitOfWork E f w = Ret (r, w')"
  obtains (no_start) e where "e_fault E (w_tick w) = Some e" "r = Inl (WrapE ''uow.starttransaction: '' e [])"
      "w' = w\<lparr>w_tick := Suc (w_tick w)\<rparr>"
    | (rolled_back) e w1 where "f (in_txn w) = Ret (Inl e, w1)" "r = Inl (WrapE ''uow.'' e [])" "w' = w1\<lparr>w_txn := w_txn w\<rparr>"
    | (no_commit) e a w1 where "f (in_txn w) = Ret (Inr a, w1)" "e_fault E (w_tick w1) = Some e" "r = Inl e"
      "w' = w1\<lparr>w_tick := Suc (w_tick w1), w_txn := w_txn w\<rparr>"
    | (committed) a w1 d where "f (in_txn w) = Ret (Inr a, w1)" "w_txn w1 = Some d" "r = Inr a"
      "e_fault E (w_tick w1) = None"
      "w' = w1\<lparr>w_tick := Suc (w_tick w1), w_db := d, w_txn := map_option (adopt_logs (w_db w1) d) (w_txn w)\<rparr>"
proof (cases "e_fault E (w_tick w)")
  case (Some e)
  with assms show ?thesis
    by (auto intro!: no_start simp: unitOfWork_def seq_Ret_iff reading_def start_txn_def)
next
  case None
  with assms obtain r1 w1 where f: "f (in_txn w) = Ret (r1, w1)"
    and k: "(case r1 of Inl e \<Rightarrow> (\<lambda>w2. Ret (Inl (WrapE ''uow.'' e []), w2\<lparr>w_txn := w_txn w\<rparr>))
           | Inr a \<Rightarrow> seq (commit_txn E (w_txn w)) (\<lambda>_. ok a)) w1 = Ret (r, w')"
    by (auto simp: unitOfWork_def seq_Ret_iff reading_def start_txn_def handle_Ret_iff in_txn_def)
  show ?thesis
  proof (cases r1)
    case (Inl e)
    with f k show ?thesis by (auto intro!: rolled_back)
  next
    case (Inr a)
    with k have c: "seq (commit_txn E (w_txn w)) (\<lambda>_. ok a) w1 = Ret (r, w')" by simp
    then obtain d where d: "w_txn w1 = Some d"
      by (cases "w_txn w1") (auto simp: seq_Ret_iff commit_txn_def Let_def)
    show ?thesis
    proof (cases "e_fault E (w_tick w1)")
      case None
      with c d f Inr show ?thesis
        by (intro committed) (auto simp: seq_Ret_iff commit_txn_def Let_def ok_def)
    next
      case (Some e)
      with c d f Inr show ?thesis
        by (intro no_commit) (auto simp: seq_Ret_iff commit_txn_def Let_def ok_def)
    qed
  qed
qed

lemma unitOfWork_Inl:
  assumes "committed_kept f" "unitOfWork E f w = Ret (Inl e, w')"
  shows "w_db w' = w_db w"
proof -
  have k: "w_db w1 = w_db w" if "f (in_txn w) = Ret (x, w1)" for x w1
    using keepsD [OF assms(1) that] by (simp add: in_txn_def)
  from assms(2) show ?thesis by (cases rule: unitOfWork_cases) (auto dest: k)
qed

lemma unitOfWork_Inr:
  assumes "unitOfWork E f w = Ret (Inr a, w')" and "w_txn w = None"
  obtains w1 d where "f (in_txn w) = Ret (Inr a, w1)" "w_txn w1 = Some d"
    "w' = w1\<lparr>w_tick := Suc (w_tick w1), w_db := d, w_txn := None\<rparr>"
  using assms(1) by (cases rule: unitOfWork_cases) (auto simp: assms(2) intro: that)

end
