(* ===== verification/Persister.thy ===== *)
theory Persister
  imports World
begin

text \<open>
  internal/svc/persister.go: the job, the container and the variable are written to the tables according
  to their persistence flags and those of their parts.  Each \<open>save\<close> function runs on the open
  transaction, or opens one when it is given none (\<open>txn == nil\<close>).  The job is the one at hand; a
  container or a variable is passed and returned.
\<close>

section \<open>Jobs\<close>

definition params_flag :: "(persistenceState \<Rightarrow> bool) \<Rightarrow> Job \<Rightarrow> bool" where
  "params_flag p j \<longleftrightarrow> (case j_Params j of None \<Rightarrow> False | Some cp \<Rightarrow> p (cp_ps cp))"

definition deleted_tasks :: "Job \<Rightarrow> Task list" where
  "deleted_tasks j = filter (\<lambda>t. IsToDelete (t_ps t)) (j_Tasks j)"

definition created_tasks :: "Job \<Rightarrow> Task list" where
  "created_tasks j = filter (\<lambda>t. \<not> IsToDelete (t_ps t) \<and> IsNew (t_ps t)) (j_Tasks j)"

definition updated_tasks :: "Job \<Rightarrow> Task list" where
  "updated_tasks j = filter (\<lambda>t. \<not> IsToDelete (t_ps t) \<and> \<not> IsNew (t_ps t) \<and> IsDirty (t_ps t)) (j_Tasks j)"

definition savejob_flag :: "nat \<Rightarrow> string" where
  "savejob_flag i = ''savejob.'' @ itoa (int i) @ ''.''"

definition release_stored :: "env \<Rightarrow> Job \<Rightarrow> nat \<Rightarrow> unit act" where
  "release_stored E j i =
     whenever (IsToDelete (ld_ps (j_LockedDatasets j ! i)))
       (wrap (savejob_flag i) (tx E (pg_ReleaseDatasets (j_ID j) (int i))))"

definition lock_stored :: "env \<Rightarrow> Job \<Rightarrow> nat \<Rightarrow> unit act" where
  "lock_stored E j i =
     (let l = j_LockedDatasets j ! i
      in whenever (IsNew (ld_ps l) \<or> IsDirty (ld_ps l))
           (wrap (savejob_flag i) (tx E (pg_LockDatasets (j_ID j) (NewIDs l) (int i)))))"

definition saveJob_deletions :: "env \<Rightarrow> Job \<Rightarrow> unit act" where
  "saveJob_deletions E j =
     seq (each (release_stored E j) [0..<length (j_LockedDatasets j)]) (\<lambda>_.
     seq (each (\<lambda>t. wrap ''savejob.'' (tx E (pg_DeleteTask (t_ID t)))) (deleted_tasks j)) (\<lambda>_.
     seq (whenever (params_flag IsToDelete j \<and> j_Type j = JobTypeCONSOLIDATION)
            (wrap ''savejob.'' (tx E (pg_DeleteConsolidationParams (jp_ParamsID (j_Payload j)))))) (\<lambda>_.
     whenever (IsToDelete (j_ps j)) (wrap ''savejob.'' (tx E (pg_DeleteJob (j_ID j)))))))"

definition saveJob_creations :: "env \<Rightarrow> Job \<Rightarrow> unit act" where
  "saveJob_creations E j =
     seq (whenever (IsNew (j_ps j)) (wrap ''savejob.'' (tx E (pg_CreateJob j)))) (\<lambda>_.
     seq (whenever (params_flag IsNew j \<and> j_Type j = JobTypeCONSOLIDATION)
            (wrap ''savejob.'' (tx E (pg_CreateConsolidationParams (jp_ParamsID (j_Payload j)) (the (j_Params j)))))) (\<lambda>_.
     seq (each (lock_stored E j) [0..<length (j_LockedDatasets j)]) (\<lambda>_.
     whenever (created_tasks j \<noteq> []) (wrap ''savejob.'' (tx E (pg_CreateTasks (j_ID j) (created_tasks j)))))))"

definition occ_error :: "gerr \<Rightarrow> gerr" where
  "occ_error e = (if IsError (Some e) EntityNotFound then MakeTemporary (WrapE ''savejob.'' e '' (temporary)'')
                  else WrapE ''savejob.'' e [])"

definition saveJob_updates :: "env \<Rightarrow> Job \<Rightarrow> unit act" where
  "saveJob_updates E j =
     seq (each (\<lambda>t. wrap ''savejob.'' (tx E (pg_UpdateTask t))) (updated_tasks j)) (\<lambda>_.
     seq (if params_flag IsDirty j then panics ''Params cannot be dirty'' else ok ()) (\<lambda>_.
     whenever (IsDirty (j_ps j) \<or> IsClean (j_ps j))
       (handle (tx E (pg_UpdateJob j)) (\<lambda>r. case r of Inl e \<Rightarrow> fails (occ_error e) | Inr _ \<Rightarrow> ok ()))))"

text \<open>The state of the job after its rows are written, and after its logs are written.\<close>

definition drop_deleted :: "Job \<Rightarrow> Job" where
  "drop_deleted j =
     j\<lparr>j_Tasks := swap_remove (\<lambda>t. IsToDelete (t_ps t)) (length (j_Tasks j)) (j_Tasks j),
       j_Params := (if params_flag IsToDelete j then None else j_Params j),
       j_LockedDatasets := map (\<lambda>l. if IsToDelete (ld_ps l) then \<lparr>ld_ps = UNKNOWN, ld_newDatasetsID = []\<rparr> else l) (j_LockedDatasets j)\<rparr>"

definition mark_saved :: "Job \<Rightarrow> Job go" where
  "mark_saved j = (if IsToDelete (j_ps j) then Ret (j\<lparr>j_ps := ps_Deleted (j_ps j)\<rparr>) else job_Clean True j)"

definition saveJobLogs_body :: "env \<Rightarrow> unit act" where
  "saveJobLogs_body E =
     seq (reading w_job) (\<lambda>j.
     seq (wrap ''failed to persist logs in BDD: '' (tx E (pg_PersistLogs (j_ID j) (j_NewLogs j)))) (\<lambda>_.
     on_job (\<lambda>j. Ret (ClearPersistedLogs j))))"

definition saveJob_body :: "env \<Rightarrow> unit act" where
  "saveJob_body E =
     seq (reading w_job) (\<lambda>j.
     seq (saveJob_deletions E j) (\<lambda>_.
     seq (saveJob_creations E j) (\<lambda>_.
     seq (saveJob_updates E j) (\<lambda>_.
     seq (on_job (\<lambda>j. Ret (drop_deleted j))) (\<lambda>_.
     seq (saveJobLogs_body E) (\<lambda>_.
     on_job mark_saved))))))"

text \<open>With and without a transaction.\<close>

definition saveJob :: "env \<Rightarrow> bool \<Rightarrow> unit act" where
  "saveJob E txn = (if txn then saveJob_body E else unitOfWork E (saveJob_body E))"

definition saveJobLogs :: "env \<Rightarrow> bool \<Rightarrow> unit act" where
  "saveJobLogs E txn = (if txn then saveJobLogs_body E else unitOfWork E (saveJobLogs_body E))"

section \<open>Containers\<close>

definition saveContainer_rows :: "env \<Rightarrow> Container \<Rightarrow> unit act" where
  "saveContainer_rows E c =
     (let todelete = map d_ID (filter (\<lambda>d. IsToDelete (d_ps d)) (c_Datasets c));
          created = filter (\<lambda>d. \<not> IsToDelete (d_ps d) \<and> IsNew (d_ps d)) (c_Datasets c);
          w = wrap ''saveContainer.''
      in seq (whenever (IsNew (c_ps c)) (w (tx E (pg_CreateContainer c)))) (\<lambda>_.
         seq (whenever (todelete \<noteq> []) (w (tx E (pg_DeleteDatasets todelete)))) (\<lambda>_.
         seq (whenever (created \<noteq> []) (w (tx E (pg_CreateDatasets created)))) (\<lambda>_.
         seq (whenever (IsDirty (c_ps c)) (w (tx E (pg_UpdateContainer c)))) (\<lambda>_.
         whenever (IsToDelete (c_ps c))
           (if c_Managed c
            then fails (NewDependencyStillExists ''Container'' [] ''uri'' (c_URI c)
                   ''Attempt to delete a managed container from the database'')
            else seq (handle (tx E (pg_DeleteContainerLayout (c_URI c))) (\<lambda>r. case r of
                        Inl e \<Rightarrow> if IsError (Some e) EntityNotFound then ok () else fails (WrapE ''saveContainer.'' e [])
                      | Inr _ \<Rightarrow> ok ())) (\<lambda>_.
                 w (tx E (pg_DeleteContainer c)))))))))"

definition saved_container :: "Container \<Rightarrow> Container go" where
  "saved_container c =
     (let c = c\<lparr>c_Datasets := swap_remove (\<lambda>d. IsToDelete (d_ps d)) (length (c_Datasets c)) (c_Datasets c)\<rparr>
      in if IsToDelete (c_ps c) then Ret (c\<lparr>c_ps := ps_Deleted (c_ps c)\<rparr>) else Container_Clean True c)"

definition saveContainer_body :: "env \<Rightarrow> Container \<Rightarrow> Container act" where
  "saveContainer_body E c = seq (saveContainer_rows E c) (\<lambda>_. lift_go (saved_container c))"

definition saveContainer :: "env \<Rightarrow> bool \<Rightarrow> Container \<Rightarrow> Container act" where
  "saveContainer E txn c = (if txn then saveContainer_body E c else unitOfWork E (saveContainer_body E c))"

section \<open>Variables\<close>

definition saveVariable_rows :: "env \<Rightarrow> Variable \<Rightarrow> unit act" where
  "saveVariable_rows E v =
     (let instances = map snd (v_Instances v);
          todelete = filter (\<lambda>i. IsToDelete (vi_ps i)) instances;
          toupdate = filter (\<lambda>i. \<not> IsToDelete (vi_ps i) \<and> IsDirty (vi_ps i)) instances;
          tocreate = filter (\<lambda>i. \<not> IsToDelete (vi_ps i) \<and> \<not> IsDirty (vi_ps i) \<and> IsNew (vi_ps i)) instances;
          cp = v_ConsolidationParams v; w = wrap ''saveVariable.''
      in seq (each (\<lambda>i. w (tx E (pg_DeleteInstance (vi_ID i)))) todelete) (\<lambda>_.
         seq (whenever (IsToDelete (cp_ps cp)) (w (tx E (pg_DeleteConsolidationParams (v_ID v))))) (\<lambda>_.
         seq (whenever (IsToDelete (v_ps v)) (w (tx E (pg_DeleteVariable (v_ID v))))) (\<lambda>_.
         seq (whenever (IsDirty (v_ps v)) (w (tx E (pg_UpdateVariable v)))) (\<lambda>_.
         seq (whenever (IsNew (v_ps v)) (w (tx E (pg_CreateVariable v)))) (\<lambda>_.
         seq (whenever (IsNew (cp_ps cp) \<or> IsDirty (cp_ps cp)) (w (tx E (pg_CreateConsolidationParams (v_ID v) cp)))) (\<lambda>_.
         seq (each (\<lambda>i. w (tx E (pg_UpdateInstance i))) toupdate) (\<lambda>_.
         each (\<lambda>i. w (tx E (pg_CreateInstance (v_ID v) i))) tocreate))))))))"

definition saved_variable :: "Variable \<Rightarrow> Variable go" where
  "saved_variable v =
     (let gone = map vi_ID (filter (\<lambda>i. IsToDelete (vi_ps i)) (map snd (v_Instances v)));
          v = v\<lparr>v_Instances := filter (\<lambda>(k, i). k \<notin> set gone) (v_Instances v),
                v_ConsolidationParams := (if IsToDelete (cp_ps (v_ConsolidationParams v)) then empty_params else v_ConsolidationParams v)\<rparr>
      in if IsToDelete (v_ps v) then Ret (v\<lparr>v_ps := ps_Deleted (v_ps v)\<rparr>) else Variable_Clean True v)"

definition saveVariable_body :: "env \<Rightarrow> Variable \<Rightarrow> Variable act" where
  "saveVariable_body E v = seq (saveVariable_rows E v) (\<lambda>_. lift_go (saved_variable v))"

definition saveVariable :: "env \<Rightarrow> bool \<Rightarrow> Variable \<Rightarrow> Variable act" where
  "saveVariable E txn v = (if txn then saveVariable_body E v else unitOfWork E (saveVariable_body E v))"

section \<open>Indexation\<close>

fun add_datasets :: "env \<Rightarrow> Dataset list \<Rightarrow> Container \<Rightarrow> Container act" where
  "add_datasets E [] c = ok c"
| "add_datasets E (d # ds) c =
     (case AddDataset (e_coords_text E) d c of
        (Some e, _) \<Rightarrow> fails (WrapE ''prepareIndexation.'' e [])
      | (None, c) \<Rightarrow> add_datasets E ds c)"

text \<open>The container of the tables, when there is one, replaces the one given.\<close>

definition prepareIndexation :: "env \<Rightarrow> Container \<Rightarrow> Dataset list \<Rightarrow> Container act" where
  "prepareIndexation E c datasets =
     seq (handle (tx E (pg_ReadContainers [c_URI c])) (\<lambda>r. case r of
            Inl e \<Rightarrow> if IsError (Some e) EntityNotFound then ok c else fails (WrapE ''prepareIndexation.'' e [])
          | Inr cs \<Rightarrow> lift_go (Container_Clean True (hd cs)))) (\<lambda>c.
     add_datasets E datasets c)"

section \<open>A save that fails leaves the committed tables alone\<close>

lemma saveJob_body_committed [keeps_intros]: "committed_kept (saveJob_body E)"
  by (auto simp: saveJob_body_def saveJob_deletions_def saveJob_creations_def saveJob_updates_def saveJobLogs_body_def
      release_stored_def lock_stored_def Let_def intro!: keeps_intros split: sum.splits)

lemma saveJobLogs_body_committed [keeps_intros]: "committed_kept (saveJobLogs_body E)"
  by (auto simp: saveJobLogs_body_def intro!: keeps_intros)

lemma saveContainer_body_committed [keeps_intros]: "committed_kept (saveContainer_body E c)"
  by (auto simp: saveContainer_body_def saveContainer_rows_def Let_def intro!: keeps_intros split: sum.splits)

lemma saveVariable_body_committed [keeps_intros]: "committed_kept (saveVariable_body E v)"
  by (auto simp: saveVariable_body_def saveVariable_rows_def Let_def intro!: keeps_intros split: sum.splits)

lemma add_datasets_committed [keeps_intros]: "committed_kept (add_datasets E ds c)"
  by (induction ds arbitrary: c) (auto intro!: keeps_intros split: prod.splits option.splits)

lemma prepareIndexation_committed [keeps_intros]: "committed_kept (prepareIndexation E c ds)"
  by (auto simp: prepareIndexation_def intro!: keeps_intros split: sum.splits)

end
