(* ===== verification/Operations.thy ===== *)
theory Operations
  imports Persister
begin

text \<open>
  internal/svc/operations.go: the deletion of datasets, and the parts of it that the consolidation
  shares.  The methods work on the job at hand.  \<open>notify\<close> is \<open>handleJobEvt\<close>, which \<open>publishEvent\<close>
  calls at once on a synchronous job; the recursion is closed in \<open>Handlers\<close>.
\<close>

section \<open>The job at hand\<close>

definition set_job :: "Job \<Rightarrow> unit act" where
  "set_job j w = Ret (Inr (), w\<lparr>w_job := j\<rparr>)"

text \<open>Another job for the time of a call: the caller keeps its own.\<close>

definition with_job :: "Job \<Rightarrow> 'a act \<Rightarrow> 'a act" where
  "with_job j m =
     seq (reading w_job) (\<lambda>outer.
     seq (set_job j) (\<lambda>_.
     handle m (\<lambda>r. seq (set_job outer) (\<lambda>_. lift_result r))))"

definition on_job_now :: "env \<Rightarrow> (gtime \<Rightarrow> Job \<Rightarrow> Job go) \<Rightarrow> unit act" where
  "on_job_now E f = seq (ticking (e_now E)) (\<lambda>now. on_job (f now))"

definition on_job_err_now :: "env \<Rightarrow> (gtime \<Rightarrow> Job \<Rightarrow> (gerr option \<times> Job) go) \<Rightarrow> unit act" where
  "on_job_err_now E f = seq (ticking (e_now E)) (\<lambda>now. on_job_err (f now))"

definition err_job :: "env \<Rightarrow> string \<Rightarrow> unit act" where
  "err_job E msg = on_job_now E (\<lambda>now. LogErr now msg)"

definition GetJob :: "env \<Rightarrow> string \<Rightarrow> Job act" where
  "GetJob E i = seq (wrap ''GetJob.'' (dbx E (pg_ReadJob i))) (\<lambda>j. lift_go (job_Clean True j))"

section \<open>Publication\<close>

definition publish_job_event :: "env \<Rightarrow> JobEvent \<Rightarrow> unit act" where
  "publish_job_event E evt w =
     (let w' = w\<lparr>w_tick := Suc (w_tick w)\<rparr>
      in case e_fault E (w_tick w) of
           Some e \<Rightarrow> Ret (Inl e, w')
         | None \<Rightarrow> Ret (Inr (), w'\<lparr>w_events := w_events w @ [evt]\<rparr>))"

definition publishEvent :: "env \<Rightarrow> (JobEvent \<Rightarrow> unit act) \<Rightarrow> JobStatus \<Rightarrow> string \<Rightarrow> unit act" where
  "publishEvent E notify status serr =
     seq (log_job E DEBUG (''  Event '' @ JobStatus_String status @ '' '' @ serr @ ''...'')) (\<lambda>_.
     seq (reading w_job) (\<lambda>j.
     seq (lift_go (NewJobEvent (j_ID j) status serr)) (\<lambda>evt.
     if j_ExecutionLevel j = ExecutionSynchronous then notify evt else publish_job_event E evt)))"

text \<open>The shape of most states: an operation, then the event of its failure or of its success.\<close>

definition conclude :: "env \<Rightarrow> (JobEvent \<Rightarrow> unit act) \<Rightarrow> unit act \<Rightarrow> JobStatus \<Rightarrow> JobStatus \<Rightarrow> unit act" where
  "conclude E notify m failure success =
     handle m (\<lambda>r. case r of Inl e \<Rightarrow> publishEvent E notify failure (ErrorMsg e) | Inr _ \<Rightarrow> publishEvent E notify success [])"

section \<open>Files and containers\<close>

definition opSubFncDeleteContainer :: "env \<Rightarrow> string \<Rightarrow> unit act" where
  "opSubFncDeleteContainer E uri w =
     (let w' = w\<lparr>w_tick := Suc (w_tick w)\<rparr>
      in case e_uri_error E uri of
           Some e \<Rightarrow> Ret (Inl (WrapE ''opSubFncDeleteContainer.'' e []), w')
         | None \<Rightarrow>
             (case e_delete_error E (w_tick w) uri of
                Some e \<Rightarrow> Ret (Inl (WrapE (''opSubFncDeleteContainer['' @ uri @ ''].'') e []), w')
              | None \<Rightarrow> Ret (Inr (), w'\<lparr>w_deleted := w_deleted w @ [uri]\<rparr>)))"

definition opContactAdmin :: "env \<Rightarrow> unit act" where
  "opContactAdmin E = log_job E WARN ''Contact admin...''"

text \<open>
  \<open>opSubFncRemoveDatasets\<close>: the containers of the datasets, read once each, lose their datasets; one
  that becomes empty is marked for deletion and, when it was managed, its file will be deleted.  The map
  from URIs to containers is the list of the containers in the order they are read.
\<close>

fun container_URIs :: "string list \<Rightarrow> Dataset list \<Rightarrow> string list" where
  "container_URIs uris [] = uris"
| "container_URIs uris (d # ds) =
     container_URIs (if d_ContainerURI d \<in> set uris then uris else uris @ [d_ContainerURI d]) ds"

fun clean_containers :: "Container list \<Rightarrow> Container list act" where
  "clean_containers [] = ok []"
| "clean_containers (c # cs) =
     seq (lift_go (Container_Clean True c)) (\<lambda>c. seq (clean_containers cs) (\<lambda>cs. ok (c # cs)))"

fun container_at :: "string \<Rightarrow> Container list \<Rightarrow> nat option" where
  "container_at uri [] = None"
| "container_at uri (c # cs) = (if c_URI c = uri then Some 0 else map_option Suc (container_at uri cs))"

fun remove_datasets :: "Dataset list \<Rightarrow> Container list \<Rightarrow> string list \<Rightarrow> (Container list \<times> string list) act" where
  "remove_datasets [] cs uris = ok (cs, uris)"
| "remove_datasets (d # ds) cs uris =
     (case container_at (d_ContainerURI d) cs of
        None \<Rightarrow> panics nil_panic
      | Some i \<Rightarrow>
          seq (lift_go (RemoveDataset (d_ID d) (cs ! i))) (\<lambda>(r, c). case r of
              Inl e \<Rightarrow> fails (WrapE ''opSubFncRemoveDatasets.'' e [])
            | Inr False \<Rightarrow> remove_datasets ds (cs[i := c]) uris
            | Inr True \<Rightarrow>
                seq (lift_go (Container_Delete (c\<lparr>c_Managed := False\<rparr>))) (\<lambda>(_, c').
                remove_datasets ds (cs[i := c']) (if c_Managed c then uris @ [c_URI c] else uris))))"

definition opSubFncRemoveDatasets :: "env \<Rightarrow> Dataset list \<Rightarrow> string list act" where
  "opSubFncRemoveDatasets E datasets =
     seq (wrap ''opSubFncRemoveDatasets.'' (tx E (pg_ReadContainers (container_URIs [] datasets)))) (\<lambda>cs.
     seq (clean_containers cs) (\<lambda>cs.
     seq (remove_datasets datasets cs []) (\<lambda>(cs, emptyManagedContainers).
     seq (each (\<lambda>c. seq (wrap ''opSubFncRemoveDatasets.'' (saveContainer E True c)) (\<lambda>_. ok ())) cs) (\<lambda>_.
     ok emptyManagedContainers))))"

definition remove_job_datasets :: "env \<Rightarrow> LockFlag \<Rightarrow> DatasetStatus \<Rightarrow> string list act" where
  "remove_job_datasets E lockFlag datasetStatus =
     seq (reading w_job) (\<lambda>j.
     seq (wrap ''opRemoveJobDatasetsAndContainers.'' (tx E (pg_FindDatasets datasetStatus [] (j_ID j) [] [] True))) (\<lambda>datasets.
     seq (log_job E DEBUG (itoa (int (length datasets)) @ '' datasets to delete'')) (\<lambda>_.
     seq (on_job (ReleaseDatasets lockFlag)) (\<lambda>_.
     seq (wrap ''opRemoveJobDatasetsAndContainers.'' (saveJob E True)) (\<lambda>_.
     opSubFncRemoveDatasets E datasets)))))"

definition opSubFncRemoveDatasetsAndContainers :: "env \<Rightarrow> bool \<Rightarrow> LockFlag \<Rightarrow> DatasetStatus \<Rightarrow> string list act" where
  "opSubFncRemoveDatasetsAndContainers E txn lockFlag datasetStatus =
     (if txn then remove_job_datasets E lockFlag datasetStatus
      else unitOfWork E (remove_job_datasets E lockFlag datasetStatus))"

section \<open>Deletion of datasets\<close>

definition ints_text :: "int list \<Rightarrow> string" where
  "ints_text xs = ''['' @ str_join '' '' (map itoa xs) @ '']''"

definition delSetToDelete :: "env \<Rightarrow> unit act" where
  "delSetToDelete E =
     seq (log_job E INFO ''Set datasets to delete...'') (\<lambda>_.
     unitOfWork E (
       seq (reading w_job) (\<lambda>j.
       seq (tx E (pg_ChangeDatasetsStatus (j_ID j) DatasetStatusACTIVE DatasetStatusTODELETE)) (\<lambda>_.
       saveJob E True))))"

definition delRemoveDatasets :: "env \<Rightarrow> unit act" where
  "delRemoveDatasets E =
     seq (log_job E INFO ''Remove datasets...'') (\<lambda>_.
     unitOfWork E (
       seq (opSubFncRemoveDatasetsAndContainers E True LockFlagTODELETE DatasetStatusTODELETE) (\<lambda>containersURI.
       seq (each (\<lambda>uri.
              seq (log_job E DEBUG (''Create task to delete: '' @ uri)) (\<lambda>_.
              seq (ticking (e_uuid E)) (\<lambda>uid.
              on_job_err_now E (\<lambda>now. CreateDeletionTask uid now uri)))) containersURI) (\<lambda>_.
       saveJob E True))))"

text \<open>
  The worker pool of \<open>delDeleteContainers\<close>, each task in turn: \<open>n\<close> counts the failures, of which at most
  1000 are reported.
\<close>

definition deletion_errors :: "nat \<Rightarrow> gerr option \<Rightarrow> gerr \<Rightarrow> gerr option" where
  "deletion_errors n errs e =
     (if n = 1000 then MergeErrors True errs [Some (MakeTemporary (PlainE ''more than 1000 errors''))]
      else if n < 1000 then MergeErrors True errs [Some e] else errs)"

fun delete_files :: "env \<Rightarrow> Task list \<Rightarrow> nat \<Rightarrow> gerr option \<Rightarrow> gerr option act" where
  "delete_files E [] n errs = ok errs"
| "delete_files E (t # ts) n errs =
     seq (reading (j_ID \<circ> w_job)) (\<lambda>jobID.
     handle (opSubFncDeleteContainer E (DeletionPayload (e_gob E) t)) (\<lambda>r. case r of
         Inr _ \<Rightarrow>
           handle (on_job_err_now E (\<lambda>now. UpdateTask now (NewTaskEvent jobID (t_ID t) TaskSuccessful None))) (\<lambda>_.
           delete_files E ts n errs)
       | Inl e \<Rightarrow>
           handle (on_job_err_now E (\<lambda>now. UpdateTask now (NewTaskEvent jobID (t_ID t) TaskFailed (Some e)))) (\<lambda>_.
           delete_files E ts (Suc n) (deletion_errors (Suc n) errs e))))"

definition delete_done_tasks :: "env \<Rightarrow> unit act" where
  "delete_done_tasks E =
     seq (reading (j_Tasks \<circ> w_job)) (\<lambda>tasks.
     each (\<lambda>i. seq (reading (j_Tasks \<circ> w_job)) (\<lambda>ts.
            whenever (t_State (ts ! i) = TaskStateDONE) (on_job_now E (\<lambda>now. DeleteTask now i)))) [0..<length tasks])"

definition set_tasks :: "Task list \<Rightarrow> unit act" where
  "set_tasks ts = on_job (\<lambda>j. Ret (j\<lparr>j_Tasks := ts\<rparr>))"

definition load_tasks :: "env \<Rightarrow> TaskState list option \<Rightarrow> unit act" where
  "load_tasks E states =
     seq (reading (j_ID \<circ> w_job)) (\<lambda>i.
     handle (dbx E (pg_ReadTasks i states)) (\<lambda>r. case r of
         Inl e \<Rightarrow> seq (set_tasks []) (\<lambda>_. fails e)
       | Inr ts \<Rightarrow> set_tasks ts))"

definition delDeleteContainers :: "env \<Rightarrow> unit act" where
  "delDeleteContainers E =
     seq (log_job E INFO ''Delete containers...'') (\<lambda>_.
     seq (load_tasks E (Some [TaskStateNEW, TaskStatePENDING, TaskStateFAILED])) (\<lambda>_.
     seq (reading (j_Tasks \<circ> w_job)) (\<lambda>tasks.
     if tasks = [] then log_job E DEBUG ''Nothing to delete''
     else
       seq (log_job E DEBUG (''Start deletion of '' @ itoa (int (length tasks)) @ '' containers...'')) (\<lambda>_.
       seq (delete_files E tasks 0 None) (\<lambda>errs.
       seq (log_job E DEBUG (''End deletion of '' @ itoa (int (length tasks)) @ '' containers...'')) (\<lambda>_.
       seq (delete_done_tasks E) (\<lambda>_.
       handle (saveJob E False) (\<lambda>r.
         case MergeErrors True errs [case r of Inl e \<Rightarrow> Some e | Inr _ \<Rightarrow> None] of
           Some e \<Rightarrow> fails e
         | None \<Rightarrow> ok ()))))))))"

definition delRollback :: "env \<Rightarrow> unit act" where
  "delRollback E =
     seq (log_job E INFO ''Rollback...'') (\<lambda>_.
     seq (reading w_job) (\<lambda>j.
     seq (wrap ''Rollback.'' (dbx E (pg_ChangeDatasetsStatus (j_ID j) DatasetStatusTODELETE DatasetStatusACTIVE))) (\<lambda>_.
     seq (on_job (ReleaseDatasets LockFlagTODELETE)) (\<lambda>_.
     wrap ''Rollback.'' (saveJob E False)))))"

definition delOnEnterNewState :: "env \<Rightarrow> (JobEvent \<Rightarrow> unit act) \<Rightarrow> unit act" where
  "delOnEnterNewState E notify =
     seq (reading (j_State \<circ> w_job)) (\<lambda>s. case s of
         JobStateNEW \<Rightarrow> publishEvent E notify JobCreated []
       | JobStateCREATED \<Rightarrow> conclude E notify (delSetToDelete E) DeletionNotReady DeletionReady
       | JobStateDELETIONINPROGRESS \<Rightarrow> conclude E notify (delRemoveDatasets E) RemovalFailed RemovalDone
       | JobStateDELETIONEFFECTIVE \<Rightarrow> conclude E notify (delDeleteContainers E) DeletionFailed DeletionDone
       | JobStateDONEBUTUNTIDY \<Rightarrow> opContactAdmin E
       | JobStateDELETIONFAILED \<Rightarrow>
           seq (err_job E ''Deletion failed'') (\<lambda>_. log_job E INFO ''Wait for user command...'')
       | JobStateABORTED \<Rightarrow> conclude E notify (delRollback E) RollbackFailed RollbackDone
       | JobStateROLLBACKFAILED \<Rightarrow>
           seq (err_job E ''Rollback failed'') (\<lambda>_. log_job E INFO ''Wait for user command...'')
       | JobStateFAILED \<Rightarrow> err_job E ''Job failed''
       | _ \<Rightarrow> ok ())"

definition lock_message :: "Dataset \<Rightarrow> string" where
  "lock_message d =
     ''Lock '' @ Dataset_GDALURI d @ ints_text (d_Bands d) @ '' '' @ d_ID d @ '' (record:'' @ d_RecordID d @
     '', instance:'' @ d_InstanceID d @ '')''"

definition no_dataset :: string where
  "no_dataset = ''No dataset found for these records, instances and/or pattern''"

definition delInit :: "env \<Rightarrow> (JobEvent \<Rightarrow> unit act) \<Rightarrow> string list \<Rightarrow> string list \<Rightarrow> string list \<Rightarrow> unit act" where
  "delInit E notify instanceIDs recordIDs datasetPatterns =
     seq (wrap ''delInit.'' (unitOfWork E (
       seq (tx E (pg_FindDatasets DatasetStatusACTIVE datasetPatterns [] instanceIDs recordIDs False)) (\<lambda>datasets.
       if datasets = [] then fails (NewEntityNotFound [] [] [] no_dataset)
       else
         seq (each (\<lambda>d. log_job E DEBUG (lock_message d)) datasets) (\<lambda>_.
         seq (on_job (LockDatasets (map d_ID datasets) LockFlagTODELETE)) (\<lambda>_.
         saveJob E True)))))) (\<lambda>_.
     wrap ''delInit.'' (delOnEnterNewState E notify))"

end
