(* ===== verification/Orders.thy ===== *)
theory Orders
  imports Store
begin

text \<open>
  What a consolidation order is made of: the second half of internal/geocube/consolidation_event.go,
  internal/geocube/layout.go, and the functions of internal/svc/consolidater.go that choose, sort, group
  and split the datasets of a cell.  They work on values only; the reads around them are in
  \<open>Consolidater\<close>.
\<close>

section \<open>Layouts\<close>

definition ReplaceChar :: "char \<Rightarrow> char \<Rightarrow> string \<Rightarrow> string" where
  "ReplaceChar old new s = map (\<lambda>c. if c = old then new else c) s"

definition MucogInterlacingPattern :: "Layout \<Rightarrow> string" where
  "MucogInterlacingPattern l =
     ReplaceChar (CHR ''Z'') (CHR ''L'') (ReplaceChar (CHR ''B'') (CHR ''P'') (ReplaceChar (CHR ''R'') (CHR ''I'') (l_InterlacingPattern l)))"

text \<open>\<open>iterators\<close> is the check of a pattern by package mucog.\<close>

definition Layout_validate :: "(string \<Rightarrow> gerr option) \<Rightarrow> bool \<Rightarrow> Layout \<Rightarrow> gerr option" where
  "Layout_validate iterators ignoreName l =
     (if \<not> ignoreName \<and> \<not> isValidURN (l_Name l) then Some (NewValidationError (''invalid name: '' @ l_Name l))
      else if l_BlockXSize l \<le> 0 \<or> l_BlockYSize l \<le> 0 then Some (NewValidationError ''blocksize must be positive'')
      else if l_MaxRecords l \<le> 0 then Some (NewValidationError ''maxRecords must be positive'')
      else (case iterators (MucogInterlacingPattern l) of
              Some e \<Rightarrow> Some (NewValidationError (''InterlacingPattern is incorrect: '' @ ErrorMsg e))
            | None \<Rightarrow> None))"

record pb_Layout = pbl_Name :: string
  pbl_GridFlags :: "string list"
  pbl_GridParameters :: Metadata
  pbl_BlockXSize :: int
  pbl_BlockYSize :: int
  pbl_MaxRecords :: int
  pbl_OverviewsMinSize :: int
  pbl_InterlacingPattern :: string

definition NewLayoutFromProtobuf :: "(string \<Rightarrow> gerr option) \<Rightarrow> pb_Layout \<Rightarrow> bool \<Rightarrow> gerr + Layout" where
  "NewLayoutFromProtobuf iterators pbl ignoreName =
     (let l = \<lparr>l_Name = pbl_Name pbl, l_GridFlags = pbl_GridFlags pbl, l_GridParameters = pbl_GridParameters pbl,
               l_BlockXSize = pbl_BlockXSize pbl, l_BlockYSize = pbl_BlockYSize pbl, l_MaxRecords = pbl_MaxRecords pbl,
               l_OverviewsMinSize = pbl_OverviewsMinSize pbl, l_InterlacingPattern = pbl_InterlacingPattern pbl\<rparr>
      in case Layout_validate iterators ignoreName l of Some e \<Rightarrow> Inl e | None \<Rightarrow> Inr l)"

definition Layout_ToProtobuf :: "Layout \<Rightarrow> pb_Layout" where
  "Layout_ToProtobuf l =
     \<lparr>pbl_Name = l_Name l, pbl_GridFlags = l_GridFlags l, pbl_GridParameters = l_GridParameters l,
      pbl_BlockXSize = l_BlockXSize l, pbl_BlockYSize = l_BlockYSize l, pbl_MaxRecords = l_MaxRecords l,
      pbl_OverviewsMinSize = l_OverviewsMinSize l, pbl_InterlacingPattern = l_InterlacingPattern l\<rparr>"

text \<open>
  A cell of a grid, with the text of its reference system (or the failure to write it) and the hash of its
  ring, and the stream of the cells of a layout: the grid gives the identifiers of the cells over an area
  and each cell; a cell whose ring was seen before is skipped on demand.
\<close>

record cell = cell_URI :: string
  cell_WKT :: "gerr + string"
  cell_PixelToCRS :: Affine
  cell_SizeX :: int
  cell_SizeY :: int
  cell_Hash :: "gerr + string"

record grid = grid_Covers :: "Shape \<Rightarrow> gerr + string list"
  grid_Cell :: "string \<Rightarrow> gerr + cell"

fun stream_cells :: "grid \<Rightarrow> bool \<Rightarrow> string list \<Rightarrow> string list \<Rightarrow> (gerr + cell) list" where
  "stream_cells g removeDuplicate hashes [] = []"
| "stream_cells g removeDuplicate hashes (u # us) =
     (case grid_Cell g u of
        Inl e \<Rightarrow> Inl (WrapE ''Covers.'' e []) # stream_cells g removeDuplicate hashes us
      | Inr c \<Rightarrow>
          if removeDuplicate
          then (case cell_Hash c of
                  Inl e \<Rightarrow> Inl (WrapE ''Covers.'' e []) # stream_cells g removeDuplicate hashes us
                | Inr h \<Rightarrow> if set_Exists h hashes then stream_cells g removeDuplicate hashes us
                           else Inr c # stream_cells g removeDuplicate (set_Push h hashes) us)
          else Inr c # stream_cells g removeDuplicate hashes us)"

definition Covers :: "grid option \<Rightarrow> Shape \<Rightarrow> bool \<Rightarrow> gerr + (gerr + cell) list" where
  "Covers grid aoi removeDuplicate =
     (case grid of
        None \<Rightarrow> Inl (NewValidationError ''covers: grid is not initialized. Call CreateGrid()'')
      | Some g \<Rightarrow> (case grid_Covers g aoi of Inl e \<Rightarrow> Inl e | Inr us \<Rightarrow> Inr (stream_cells g removeDuplicate [] us)))"

section \<open>Containers and datasets of an order\<close>

fun overview_resampling :: "Resampling \<Rightarrow> Resampling" where
  "overview_resampling ResamplingBILINEAR = ResamplingAVERAGE"
| "overview_resampling ResamplingCUBIC = ResamplingAVERAGE"
| "overview_resampling ResamplingCUBICSPLINE = ResamplingAVERAGE"
| "overview_resampling ResamplingLANCZOS = ResamplingAVERAGE"
| "overview_resampling r = r"

definition affine_coefficients :: "Affine \<Rightarrow> float64 list" where
  "affine_coefficients a = [a0 a, a1 a, a2 a, a3 a, a4 a, a5 a]"

definition NewConsolidationContainer ::
  "string \<Rightarrow> Variable \<Rightarrow> ConsolidationParams \<Rightarrow> Layout \<Rightarrow> cell \<Rightarrow> gerr + ConsolidationContainer" where
  "NewConsolidationContainer uri variable params layout cell =
     (case cell_WKT cell of
        Inl e \<Rightarrow> Inl (WrapE ''NewConsolidationContainer: '' e [])
      | Inr crs \<Rightarrow> Inr
          \<lparr>cc_URI = uri,
           cc_DatasetFormat = \<lparr>dm_DataFormat = cp_DFormat params, dm_RangeExt = df_Range (v_DFormat variable), dm_Exponent = cp_Exponent params\<rparr>,
           cc_CRS = crs, cc_Transform = affine_coefficients (cell_PixelToCRS cell), cc_Width = cell_SizeX cell, cc_Height = cell_SizeY cell,
           cc_Cutline = [], cc_BandsCount = int (length (v_Bands variable)), cc_BlockXSize = l_BlockXSize layout,
           cc_BlockYSize = l_BlockYSize layout, cc_InterlacingPattern = MucogInterlacingPattern layout,
           cc_OverviewsMinSize = l_OverviewsMinSize layout, cc_ResamplingAlg = cp_ResamplingAlg params,
           cc_OvrResamplingAlg = overview_resampling (cp_ResamplingAlg params), cc_OptimizeExtent = False,
           cc_CreationParams = cp_CreationParams params, cc_StorageClass = cp_StorageClass params\<rparr>)"

definition NewConsolidationDataset :: "Dataset \<Rightarrow> ConsolidationDataset" where
  "NewConsolidationDataset d =
     \<lparr>cd_URI = d_ContainerURI d, cd_Subdir = d_ContainerSubDir d, cd_Bands = d_Bands d, cd_Overviews = d_Overviews d,
      cd_DatasetFormat = d_DataMapping d\<rparr>"

definition InGroupOfContainers :: "ConsolidationDataset \<Rightarrow> ConsolidationContainer \<Rightarrow> bool" where
  "InGroupOfContainers d c = HasPrefix (cd_URI d) (cc_URI c)"

definition NeedsReconsolidation :: "ConsolidationDataset \<Rightarrow> ConsolidationContainer \<Rightarrow> bool" where
  "NeedsReconsolidation d c \<longleftrightarrow>
     \<not> DataMapping_Equals (cd_DatasetFormat d) (cc_DatasetFormat c) \<or> list_ex (\<lambda>b. b > cc_BandsCount c) (cd_Bands d)"

section \<open>The datasets of a cell\<close>

record CsldDataset = cs_ID :: string
  cs_Event :: ConsolidationDataset
  cs_Consolidation :: bool
  cs_RecordID :: string

definition csld_dataset :: "Dataset \<Rightarrow> CsldDataset" where
  "csld_dataset d = \<lparr>cs_ID = d_ID d, cs_Event = NewConsolidationDataset d, cs_Consolidation = False, cs_RecordID = d_RecordID d\<rparr>"

text \<open>
  Which datasets must be consolidated.  \<open>known\<close> is the map from the URI of a container that was already
  looked at to whether it must be reconsolidated; the last result is the list of the containers that need not.
\<close>

fun need_loop :: "ConsolidationContainer \<Rightarrow> (string \<times> bool) list \<Rightarrow> CsldDataset list \<Rightarrow> bool \<times> CsldDataset list \<times> string list" where
  "need_loop c known [] = (False, [], [])"
| "need_loop c known (d # ds) =
     (let uri = cd_URI (cs_Event d)
      in if \<not> InGroupOfContainers (cs_Event d) c
         then (case need_loop c known ds of (_, ds', none) \<Rightarrow> (True, d\<lparr>cs_Consolidation := True\<rparr> # ds', none))
         else (case map_of known uri of
           Some need \<Rightarrow> (case need_loop c known ds of (b, ds', none) \<Rightarrow> (b, d\<lparr>cs_Consolidation := need\<rparr> # ds', none))
         | None \<Rightarrow>
             if NeedsReconsolidation (cs_Event d) c
             then (case need_loop c ((uri, True) # known) ds of (_, ds', none) \<Rightarrow> (True, d\<lparr>cs_Consolidation := True\<rparr> # ds', none))
             else (case need_loop c ((uri, False) # known) ds of (b, ds', none) \<Rightarrow> (b, d # ds', uri # none))))"

definition csldPrepareOrdersNeedReconsolidation ::
  "CsldDataset list \<Rightarrow> ConsolidationContainer \<Rightarrow> bool \<times> CsldDataset list \<times> string list" where
  "csldPrepareOrdersNeedReconsolidation datasets containerBase = need_loop containerBase [] datasets"

text \<open>
  \<open>csldPrepareOrdersExcludeFullContainers\<close>: \<open>run\<close> is the inner loop from index \<open>i\<close>, which counts the
  datasets in the container of the dataset at \<open>ii\<close>; \<open>exclude_loop\<close> is the outer loop, with fuel: it
  does not end when \<open>maxRecords\<close> is 0.
\<close>

fun run :: "string \<Rightarrow> CsldDataset list \<Rightarrow> nat" where
  "run uri [] = 0"
| "run uri (d # ds) = (if \<not> cs_Consolidation d \<and> cd_URI (cs_Event d) = uri then Suc (run uri ds) else 0)"

fun exclude_loop :: "nat \<Rightarrow> int \<Rightarrow> nat \<Rightarrow> nat \<Rightarrow> CsldDataset list \<Rightarrow> CsldDataset list option" where
  "exclude_loop fuel maxRecords ii i ds =
     (if length ds \<le> i then Some ds
      else case fuel of
        0 \<Rightarrow> None
      | Suc fuel \<Rightarrow>
          let n = run (cd_URI (cs_Event (ds ! ii))) (drop i ds); i = i + n
          in if int n = maxRecords then exclude_loop fuel maxRecords ii ii (take ii ds @ drop i ds)
             else exclude_loop fuel maxRecords i (Suc i) ds)"

declare exclude_loop.simps [simp del]

definition exclude_fuel :: "CsldDataset list \<Rightarrow> nat" where
  "exclude_fuel ds = (length ds + 1) * (length ds + 1)"

definition csldPrepareOrdersExcludeFullContainers :: "nat \<Rightarrow> CsldDataset list \<Rightarrow> int \<Rightarrow> CsldDataset list option" where
  "csldPrepareOrdersExcludeFullContainers fuel datasets maxRecords = exclude_loop fuel maxRecords 0 0 datasets"

text \<open>
  Sorting by the time of the record and its identifier.  \<open>sort.Slice\<close> may order the datasets of one record
  in any way; here they keep their order.
\<close>

definition record_text :: "(string \<times> string) list \<Rightarrow> CsldDataset \<Rightarrow> string" where
  "record_text recordsTime d = (case map_of recordsTime (cs_RecordID d) of Some t \<Rightarrow> t | None \<Rightarrow> [])"

definition by_record :: "(string \<times> string) list \<Rightarrow> CsldDataset \<Rightarrow> CsldDataset \<Rightarrow> bool" where
  "by_record recordsTime a b =
     (let ta = record_text recordsTime a; tb = record_text recordsTime b
      in string_le ta tb \<and> (ta = tb \<longrightarrow> string_le (cs_RecordID a) (cs_RecordID b)))"

text \<open>One group per record: consecutive datasets of the same record.\<close>

fun same_record :: "string \<Rightarrow> CsldDataset list \<Rightarrow> CsldDataset list \<times> CsldDataset list" where
  "same_record r [] = ([], [])"
| "same_record r (d # ds) =
     (if cs_RecordID d = r then (case same_record r ds of (a, b) \<Rightarrow> (d # a, b)) else ([], d # ds))"

lemma same_record_length: "length (snd (same_record r ds)) \<le> length ds"
  by (induction ds) (auto split: prod.splits)

function group_records :: "CsldDataset list \<Rightarrow> (string \<times> CsldDataset list) list" where
  "group_records [] = []"
| "group_records (d # ds) =
     (case same_record (cs_RecordID d) ds of (a, b) \<Rightarrow> (cs_RecordID d, d # a) # group_records b)"
  by pat_completeness auto

termination
  by (relation "measure length") (auto simp: less_Suc_eq_le, metis same_record_length snd_conv)

text \<open>
  The containers: slices of at most \<open>maxRecords\<close> records, with the truncated division and the bounds
  checks of Go.
\<close>

definition int_quot :: "int \<Rightarrow> int \<Rightarrow> int go" where
  "int_quot a b =
     (if b = 0 then Panic ''runtime error: integer divide by zero''
      else Ret (if (a < 0) = (b < 0) then \<bar>a\<bar> div \<bar>b\<bar> else - (\<bar>a\<bar> div \<bar>b\<bar>)))"

definition nbOfContainers :: "int \<Rightarrow> int \<Rightarrow> int go" where
  "nbOfContainers records maxRecords = go_bind (int_quot (records - 1) maxRecords) (\<lambda>q. Ret (q + 1))"

definition slice :: "int \<Rightarrow> int \<Rightarrow> 'a list \<Rightarrow> 'a list go" where
  "slice i j xs =
     (if 0 \<le> i \<and> i \<le> j \<and> j \<le> int (length xs) then Ret (drop (nat i) (take (nat j) xs))
      else Panic ''runtime error: slice bounds out of range'')"

definition container_records :: "int \<Rightarrow> 'a list \<Rightarrow> 'a list list go" where
  "container_records maxRecords records =
     go_bind (nbOfContainers (int (length records)) maxRecords) (\<lambda>n.
     go_map (\<lambda>i. slice (int i * maxRecords) (MinI (int (length records)) ((int i + 1) * maxRecords)) records) [0..<nat n])"

end
