(* ===== verification/Consolidater.thy ===== *)
theory Consolidater
  imports Operations Orders
begin

text \<open>
  internal/svc/consolidater.go: the handlers of the states of a consolidation job.  What PostGIS, PROJ and
  the grids answer is in the record \<open>geo\<close>: the union of the geometries a job locks, the cells of a
  layout, the datasets that meet a cell, the valid shape of a record in a cell, and the reference systems.
\<close>

record 'crs geo =
  g_union :: "db \<Rightarrow> string \<Rightarrow> gerr + Shape"
  g_NewGrid :: "string list \<Rightarrow> Metadata \<Rightarrow> gerr + grid"
  g_intersects :: "cell \<Rightarrow> Dataset \<Rightarrow> bool"
  g_validShape :: "db \<Rightarrow> string list \<Rightarrow> cell \<Rightarrow> gerr + Shape"
  g_cell_text :: "cell \<Rightarrow> string"
  g_time_text :: "gtime \<Rightarrow> string"
  g_gdal :: "'crs gdal"
  g_clone4326 :: "'crs \<Rightarrow> bool \<Rightarrow> Shape \<Rightarrow> gerr + Shape"
  g_bounds :: "float64 \<Rightarrow> float64 \<Rightarrow> float64 \<Rightarrow> float64 \<Rightarrow> float64 list"
  g_uuid_ok :: "string \<Rightarrow> bool"
  g_storagePath :: string

section \<open>Records and paths\<close>

text \<open>The records of the datasets a job locks, one row per dataset, and records by their identifiers.\<close>

definition pg_FindJobRecords :: "string \<Rightarrow> (string \<times> gtime) list pg_op" where
  "pg_FindJobRecords job d =
     (Inr (concat (map (\<lambda>x. filter (\<lambda>(i, t). i = d_RecordID (dr_Dataset x)) (db_Records d))
        (filter (\<lambda>x. dr_LockedBy x = Some job) (db_Datasets d)))), d)"

definition pg_ReadRecords :: "string list \<Rightarrow> (string \<times> gtime) list pg_op" where
  "pg_ReadRecords ids d =
     (let uniq = rev (remdups (rev ids))
      in case find (\<lambda>i. record_time d i = None) uniq of
           Some i \<Rightarrow> (Inl (NewEntityNotFound ''Record'' ''id'' i []), d)
         | None \<Rightarrow> (Inr (map (\<lambda>i. (i, the (record_time d i))) uniq), d))"

definition fillRecordsTime :: "(gtime \<Rightarrow> string) \<Rightarrow> (string \<times> gtime) list \<Rightarrow> (string \<times> string) list \<Rightarrow> (string \<times> string) list" where
  "fillRecordsTime time_text records recordsTime = fold (\<lambda>(i, t). AList.update i (time_text t)) records recordsTime"

fun clean_segments :: "bool \<Rightarrow> string list \<Rightarrow> string list \<Rightarrow> string list" where
  "clean_segments rooted out [] = out"
| "clean_segments rooted out (s # ss) =
     clean_segments rooted
       (if s = [] \<or> s = ''.'' then out
        else if s = ''..'' then (if out \<noteq> [] \<and> last out \<noteq> ''..'' then butlast out else if rooted then out else out @ [s])
        else out @ [s]) ss"

definition path_Clean :: "string \<Rightarrow> string" where
  "path_Clean p =
     (let rooted = (p \<noteq> [] \<and> hd p = CHR ''/''); out = str_join ''/'' (clean_segments rooted [] (split_on CHR ''/'' p))
      in if rooted then ''/'' @ out else if out = [] then ''.'' else out)"

definition path_Join :: "string list \<Rightarrow> string" where
  "path_Join elems =
     (let es = filter (\<lambda>e. e \<noteq> []) elems in if es = [] then [] else path_Clean (str_join ''/'' es))"

definition URLJoin :: "string \<Rightarrow> string list \<Rightarrow> string" where
  "URLJoin url elems = rev (dropWhile (\<lambda>c. c = CHR ''/'') (rev url)) @ ''/'' @ path_Join elems"

section \<open>Initialisation\<close>

definition csld_params :: "env \<Rightarrow> ConsolidationParams act" where
  "csld_params E =
     seq (reading w_job) (\<lambda>j.
     seq (tx E (pg_ReadVariableFromInstanceID (jp_InstanceID (j_Payload j)))) (\<lambda>variable.
     seq (tx E (pg_ReadConsolidationParams (v_ID variable))) (\<lambda>params.
     seq (lift_go (ps_Clean (cp_ps params))) (\<lambda>p.
     ok (params\<lparr>cp_ps := p\<rparr>)))))"

definition log_count :: "env \<Rightarrow> LogSeverity \<Rightarrow> string \<Rightarrow> nat \<Rightarrow> string \<Rightarrow> unit act" where
  "log_count E severity pre n post = log_job E severity (pre @ itoa (int n) @ post)"

section \<open>Preparation of the orders\<close>

record orders_ctx = oc_variable :: Variable
  oc_params :: ConsolidationParams
  oc_layout :: Layout
  oc_collapse :: "(string \<times> gtime) option"

definition noneed_datasets :: "string list \<Rightarrow> Container list \<Rightarrow> CsldDataset list" where
  "noneed_datasets unique containers =
     snd (fold (\<lambda>d (seen, out). if set_Exists (d_ID d) seen then (seen, out)
                                else (set_Push (d_ID d) seen, out @ [csld_dataset d]))
            (concat (map c_Datasets containers)) (unique, []))"

definition csldPrepareOrdersNeedConsolidation ::
  "env \<Rightarrow> CsldDataset list \<Rightarrow> string list \<Rightarrow> ConsolidationContainer \<Rightarrow> (bool \<times> CsldDataset list) act" where
  "csldPrepareOrdersNeedConsolidation E datasets uniqueDatasetsID containerBase =
     (case csldPrepareOrdersNeedReconsolidation datasets containerBase of
        (False, ds, noNeed) \<Rightarrow> ok (False, ds)
      | (True, ds, noNeed) \<Rightarrow>
          if noNeed = [] then ok (True, ds)
          else seq (wrap ''csldPrepareOrders.'' (tx E (pg_ReadContainers noNeed))) (\<lambda>containers.
               ok (True, ds @ noneed_datasets uniqueDatasetsID containers)))"

definition csldPrepareOrdersSortDatasets ::
  "env \<Rightarrow> (gtime \<Rightarrow> string) \<Rightarrow> CsldDataset list \<Rightarrow> (string \<times> string) list \<Rightarrow> (CsldDataset list \<times> (string \<times> string) list) act" where
  "csldPrepareOrdersSortDatasets E time_text datasets recordsTime =
     (let unknown = filter (\<lambda>i. map_of recordsTime i = None) (map cs_RecordID datasets)
      in seq (wrap ''csldPrepareOrdersSortDatasets.'' (tx E (pg_ReadRecords unknown))) (\<lambda>rs.
         let recordsTime = fillRecordsTime time_text rs recordsTime
         in ok (sort_by (by_record recordsTime) datasets, recordsTime)))"

text \<open>A record with its datasets gets its valid shape; a record without one in the cell is skipped.\<close>

definition consolidation_record :: "string \<Rightarrow> string \<Rightarrow> CsldDataset list \<Rightarrow> ConsolidationRecord" where
  "consolidation_record i t ds = \<lparr>cr_ID = i, cr_DateTime = t, cr_Datasets = map cs_Event ds, cr_ValidShape = None\<rparr>"

fun shape_records ::
  "env \<Rightarrow> 'crs geo \<Rightarrow> cell \<Rightarrow> (ConsolidationRecord \<times> string list) list \<Rightarrow> string list \<Rightarrow>
   (ConsolidationRecord list \<times> string list) act" where
  "shape_records E G c [] used = ok ([], used)"
| "shape_records E G c ((record, ids) # rest) used =
     handle (dbx E (\<lambda>d. (g_validShape G d ids c, d))) (\<lambda>r. case r of
         Inl e \<Rightarrow>
           if IsError (Some e) EntityNotFound then shape_records E G c rest used
           else fails (WrapE (''csldPrepareOrders: failed to compute valid shape from cell ('' @ g_cell_text G c @ ''): '') e [])
       | Inr s \<Rightarrow>
           seq (shape_records E G c rest (fold set_Push ids used)) (\<lambda>(records, used).
           ok (record\<lparr>cr_ValidShape := Some s\<rparr> # records, used)))"

definition grouped_records ::
  "'crs geo \<Rightarrow> (string \<times> gtime) option \<Rightarrow> (string \<times> string) list \<Rightarrow> CsldDataset list \<Rightarrow> (ConsolidationRecord \<times> string list) list" where
  "grouped_records G collapse recordsTime ds =
     (case collapse of
        Some (i, t) \<Rightarrow> [(consolidation_record i (g_time_text G t) ds, map cs_ID ds)]
      | None \<Rightarrow> map (\<lambda>(i, group). (consolidation_record i (record_text recordsTime (hd group)) group, map cs_ID group))
                  (group_records ds))"

definition create_tasks :: "env \<Rightarrow> string \<Rightarrow> ConsolidationContainer \<Rightarrow> ConsolidationRecord list list \<Rightarrow> unit act" where
  "create_tasks E containerBaseName containerBase batches =
     each (\<lambda>records.
       seq (ticking (e_uuid E)) (\<lambda>name.
       seq (reading w_job) (\<lambda>j.
       seq (ticking (e_uuid E)) (\<lambda>uid.
       wrap ''csldPrepareOrders.'' (on_job_err_now E (\<lambda>now. CreateConsolidationTask uid now
         \<lparr>ce_JobID = j_ID j, ce_TaskID = [], ce_Records = records,
          ce_Container = containerBase\<lparr>cc_URI := containerBaseName @ ''/'' @ name @ ''.tif''\<rparr>\<rparr>)))))) batches"

definition no_end :: string where
  "no_end = ''csldPrepareOrdersExcludeFullContainers does not end''"

text \<open>One cell: the times of the records and the datasets to consolidate grow.\<close>

type_synonym cell_state = "(string \<times> string) list \<times> string list"

definition cell_orders ::
  "env \<Rightarrow> 'crs geo \<Rightarrow> orders_ctx \<Rightarrow> cell \<Rightarrow> string \<Rightarrow> ConsolidationContainer \<Rightarrow> CsldDataset list \<Rightarrow> cell_state \<Rightarrow> cell_state act" where
  "cell_orders E G C c name containerBase datasets st =
     (case st of (recordsTime, used) \<Rightarrow>
      seq (log_job E DEBUG ''Sorting datasets by datetime...'') (\<lambda>_.
      seq (wrap ''csldPrepareOrders.'' (csldPrepareOrdersSortDatasets E (g_time_text G) datasets recordsTime)) (\<lambda>(datasets, recordsTime).
      seq (case oc_collapse C of
             Some _ \<Rightarrow> ok datasets
           | None \<Rightarrow> (case csldPrepareOrdersExcludeFullContainers (exclude_fuel datasets) datasets (l_MaxRecords (oc_layout C)) of
                        None \<Rightarrow> panics no_end
                      | Some ds \<Rightarrow> ok ds)) (\<lambda>datasets.
      seq (log_job E DEBUG ''Grouping datasets by records...'') (\<lambda>_.
      seq (shape_records E G c (grouped_records G (oc_collapse C) recordsTime datasets) used) (\<lambda>(records, used).
      if records = [] then ok (recordsTime, used)
      else
        seq (lift_go (container_records (l_MaxRecords (oc_layout C)) records)) (\<lambda>batches.
        seq (create_tasks E name containerBase batches) (\<lambda>_.
        seq (reading (j_Tasks \<circ> w_job)) (\<lambda>tasks.
        if tasks = [] then panics index_panic
        else
          seq (log_job E DEBUG (''Prepare '' @ itoa (int (length batches)) @ '' container(s) with '' @ itoa (int (length records)) @
                 '' record(s) and '' @ itoa (int (length datasets)) @ '' dataset(s) (Cell:'' @ cell_URI c @ '', geographic: '' @
                 g_cell_text G c @ '') (id:'' @ t_ID (last tasks) @ '')'')) (\<lambda>_.
          handle (saveJobLogs E False) (\<lambda>_.
          ok (recordsTime, used))))))))))))"

definition pg_FindCellDatasets :: "'crs geo \<Rightarrow> string \<Rightarrow> cell \<Rightarrow> Dataset list pg_op" where
  "pg_FindCellDatasets G job c d =
     (Inr (filter (g_intersects G c) (findDatasets [DatasetStatusACTIVE] [] job [] [] True d)), d)"

definition prepare_cell :: "env \<Rightarrow> 'crs geo \<Rightarrow> orders_ctx \<Rightarrow> cell \<Rightarrow> cell_state \<Rightarrow> cell_state act" where
  "prepare_cell E G C c st =
     seq (reading w_job) (\<lambda>j.
     seq (wrap ''csldPrepareOrders.'' (tx E (pg_FindCellDatasets G (j_ID j) c))) (\<lambda>ds.
     if ds = [] then ok st
     else
       (let base = URLJoin (g_storagePath G) [l_Name (oc_layout C), cell_URI c, jp_InstanceID (j_Payload j)];
            name = (case oc_collapse C of None \<Rightarrow> base | Some _ \<Rightarrow> URLJoin base [jp_CollapseRecordId (j_Payload j)])
        in seq (wrap ''csldPrepareOrders.'' (lift_result
                 (NewConsolidationContainer name (oc_variable C) (oc_params C) (oc_layout C) c))) (\<lambda>containerBase.
           seq (wrap ''csldPrepareOrders.'' (csldPrepareOrdersNeedConsolidation E (map csld_dataset ds) (map d_ID ds) containerBase))
             (\<lambda>(need, datasets).
           if \<not> need then ok st else cell_orders E G C c name containerBase datasets st)))))"

fun prepare_cells :: "env \<Rightarrow> 'crs geo \<Rightarrow> orders_ctx \<Rightarrow> (gerr + cell) list \<Rightarrow> cell_state \<Rightarrow> cell_state act" where
  "prepare_cells E G C [] st = ok st"
| "prepare_cells E G C (Inl e # cells) st = fails (WrapE ''csldPrepareOrders.'' e [])"
| "prepare_cells E G C (Inr c # cells) st = seq (prepare_cell E G C c st) (\<lambda>st. prepare_cells E G C cells st)"

definition InitGrid :: "'crs geo \<Rightarrow> Layout \<Rightarrow> gerr + grid" where
  "InitGrid G l =
     (case g_NewGrid G (l_GridFlags l) (l_GridParameters l) of Inl e \<Rightarrow> Inl (WrapE ''InitGrid.'' e []) | Inr g \<Rightarrow> Inr g)"

definition csldPrepareOrders_body :: "env \<Rightarrow> 'crs geo \<Rightarrow> unit act" where
  "csldPrepareOrders_body E G =
     (seq (reading w_job) (\<lambda>j.
         seq (wrap ''csldPrepareOrders.'' (tx E (pg_FindJobRecords (j_ID j)))) (\<lambda>records.
         let recordsTime = fillRecordsTime (g_time_text G) records []
         in seq (log_count E DEBUG [] (length recordsTime) '' record(s) found'') (\<lambda>_.
         seq (if jp_CollapseRecordId (j_Payload j) = [] then ok None
              else seq (wrap ''csldPrepareOrders.'' (tx E (pg_ReadRecords [jp_CollapseRecordId (j_Payload j)]))) (\<lambda>rs. ok (Some (hd rs)))) (\<lambda>collapse.
         seq (wrap ''csldPrepareOrders.'' (tx E (pg_ReadVariableFromInstanceID (jp_InstanceID (j_Payload j))))) (\<lambda>variable.
         seq (lift_go (Variable_Clean True variable)) (\<lambda>variable.
         seq (wrap ''csldPrepareOrders.'' (tx E (pg_ReadConsolidationParams (jp_ParamsID (j_Payload j))))) (\<lambda>params.
         seq (lift_go (ps_Clean (cp_ps params))) (\<lambda>p.
         seq (wrap ''csldPrepareOrders.'' (tx E (\<lambda>d. (g_union G d (j_ID j), d)))) (\<lambda>aoi.
         seq (wrap ''csldPrepareOrders.'' (tx E (pg_ReadLayout (jp_Layout (j_Payload j))))) (\<lambda>layout.
         seq (wrap ''csldPrepareOrders.'' (lift_result (InitGrid G layout))) (\<lambda>grid.
         seq (wrap ''csldPrepareOrders.'' (lift_result (Covers (Some grid) aoi True))) (\<lambda>cells.
         seq (prepare_cells E G \<lparr>oc_variable = variable, oc_params = params\<lparr>cp_ps := p\<rparr>, oc_layout = layout, oc_collapse = collapse\<rparr>
                cells (recordsTime, [])) (\<lambda>(_, used).
         seq (reading (j_Tasks \<circ> w_job)) (\<lambda>tasks.
         seq (whenever (tasks \<noteq> []) (log_count E INFO [] (length tasks) '' tasks are created'')) (\<lambda>_.
         seq (on_job (LockDatasets (set_Slice used) LockFlagTODELETE)) (\<lambda>_.
         seq (on_job (ReleaseDatasets LockFlagINIT)) (\<lambda>_.
         seq (log_count E INFO ''Consolidation orders prepared ('' (length tasks) '' task(s))'') (\<lambda>_.
         saveJob E True)))))))))))))))))))"

definition csldPrepareOrders :: "env \<Rightarrow> 'crs geo \<Rightarrow> unit act" where
  "csldPrepareOrders E G =
     seq (log_job E INFO ''Prepare consolidation orders...'') (\<lambda>_. unitOfWork E (csldPrepareOrders_body E G))"

end
