(* ===== verification/ConsolidaterStates.thy ===== *)
theory ConsolidaterStates
  imports Consolidater
begin

text \<open>
  internal/svc/consolidater.go, second half: the orders sent to the workers, the indexation of their
  results, the swap and the deletion of the datasets, cancellation, retries and rollback, and the handler
  that starts them on entering a state.
\<close>

section \<open>Sending the orders\<close>

fun send_tasks :: "env \<Rightarrow> nat list \<Rightarrow> payload list \<Rightarrow> bool \<Rightarrow> (payload list \<times> bool) act" where
  "send_tasks E [] orders allTasksDone = ok (orders, allTasksDone)"
| "send_tasks E (i # is) orders allTasksDone =
     seq (reading w_job) (\<lambda>j.
     let t = j_Tasks j ! i
     in seq (whenever (t_State t = TaskStateNEW)
               (on_job_err_now E (\<lambda>now. UpdateTask now (NewTaskEvent (j_ID j) (t_ID t) TaskSent None)))) (\<lambda>_.
        seq (reading (\<lambda>w. t_State (j_Tasks (w_job w) ! i))) (\<lambda>s.
        send_tasks E is (if t_State t = TaskStateNEW then orders @ [t_Payload t] else orders)
          (allTasksDone \<and> s = TaskStateDONE))))"

definition publish_orders :: "env \<Rightarrow> payload list \<Rightarrow> unit act" where
  "publish_orders E orders w =
     (let w' = w\<lparr>w_tick := Suc (w_tick w)\<rparr>
      in case e_fault E (w_tick w) of
           Some e \<Rightarrow> Ret (Inl e, w')
         | None \<Rightarrow> Ret (Inr (), w'\<lparr>w_orders := w_orders w @ orders\<rparr>))"

definition csldSendOrders :: "env \<Rightarrow> (JobEvent \<Rightarrow> unit act) \<Rightarrow> unit act" where
  "csldSendOrders E notify =
     seq (log_job E INFO ''Send consolidation orders...'') (\<lambda>_.
     seq (load_tasks E None) (\<lambda>_.
     seq (reading (j_Tasks \<circ> w_job)) (\<lambda>tasks.
     seq (send_tasks E [0..<length tasks] [] True) (\<lambda>(orders, allTasksDone).
     seq (saveJob E False) (\<lambda>_.
     if allTasksDone
     then seq (log_job E INFO ''No consolidation orders found !'') (\<lambda>_. publishEvent E notify ConsolidationDone [])
     else publish_orders E orders)))))"

section \<open>Indexing the results\<close>

text \<open>The datasets of a container: one per record, in its own subdirectory unless there is only one.\<close>

definition wrong_srid :: "int \<Rightarrow> int \<Rightarrow> string \<Rightarrow> string" where
  "wrong_srid a b crs =
     ''csldIndex: container.srid='' @ itoa a @ '' != dataset.srid='' @ itoa b @ '' (container.crs='' @ crs @ '')''"

fun index_datasets ::
  "env \<Rightarrow> 'crs geo \<Rightarrow> ConsolidationContainer \<Rightarrow> Dataset \<Rightarrow> nat \<Rightarrow> ConsolidationRecord list \<Rightarrow> Dataset list act" where
  "index_datasets E G c incomplete i [] = ok []"
| "index_datasets E G c incomplete i (r # rs) =
     (if (case cr_ValidShape r of None \<Rightarrow> False | Some s \<Rightarrow> sh_SRID s \<noteq> sh_SRID (d_Shape incomplete))
      then fails (PlainE (wrong_srid (sh_SRID (d_Shape incomplete)) (sh_SRID (the (cr_ValidShape r))) (cc_CRS c)))
      else
        seq (ticking (e_uuid E)) (\<lambda>uid.
        seq (lift_go (NewDatasetFromIncomplete (g_uuid_ok G) (g_gdal G) (g_clone4326 G) uid incomplete r
               (''GTIFF_DIR:'' @ itoa (int i + 1)))) (\<lambda>res.
        seq (wrap ''csldIndex.'' (lift_result res)) (\<lambda>d.
        seq (index_datasets E G c incomplete (Suc i) rs) (\<lambda>ds.
        ok (d # ds))))))"

definition own_subdir :: "Dataset list \<Rightarrow> Dataset list" where
  "own_subdir ds = (case ds of [d] \<Rightarrow> [d\<lparr>d_ContainerSubDir := []\<rparr>] | _ \<Rightarrow> ds)"

definition index_container :: "env \<Rightarrow> Container \<Rightarrow> Dataset list \<Rightarrow> unit act" where
  "index_container E newContainer ds =
     seq (reading w_job) (\<lambda>j.
     seq (log_count E DEBUG ''Preparing indexation of '' (length ds) '' new datasets'') (\<lambda>_.
     seq (wrap ''csldIndex.'' (prepareIndexation E newContainer (own_subdir ds))) (\<lambda>newContainer.
     seq (on_job (LockDatasets (map d_ID (filter (\<lambda>d. IsNew (d_ps d)) (c_Datasets newContainer))) LockFlagNEW)) (\<lambda>_.
     seq (wrap ''csldIndex.'' (saveContainer E True newContainer)) (\<lambda>newContainer.
     seq (wrap ''csldIndex.'' (tx E (pg_SaveContainerLayout (c_URI newContainer) (jp_Layout (j_Payload j))))) (\<lambda>_.
     seq (on_job_now E (\<lambda>now. DeleteTask now 0)) (\<lambda>_.
     seq (log_job E DEBUG ''Datasets indexed'') (\<lambda>_.
     saveJob E True))))))))"

definition index_task :: "env \<Rightarrow> 'crs geo \<Rightarrow> Task \<Rightarrow> unit act" where
  "index_task E G t =
     seq (reading w_job) (\<lambda>j.
     seq (wrap ''csldIndex.'' (lift_result (ConsolidationOutput t))) (\<lambda>(container, records).
     seq (wrap ''csldIndex.'' (lift_result (NewContainerFromConsolidation container))) (\<lambda>newContainer.
     seq (lift_go (IncompleteDatasetFromConsolidation (g_gdal G) (g_clone4326 G) (g_bounds G) container
            (jp_InstanceID (j_Payload j)))) (\<lambda>res.
     seq (wrap ''csldIndex.'' (lift_result res)) (\<lambda>incomplete.
     seq (index_datasets E G container incomplete 0 records) (\<lambda>ds.
     index_container E newContainer ds))))))"

text \<open>One transaction per task, until no task is left: the fuel is the number of tasks.\<close>

fun index_loop :: "env \<Rightarrow> 'crs geo \<Rightarrow> nat \<Rightarrow> unit act" where
  "index_loop E G fuel =
     seq (reading (j_Tasks \<circ> w_job)) (\<lambda>tasks. case tasks of
         [] \<Rightarrow> ok ()
       | t # _ \<Rightarrow>
           (case fuel of
              0 \<Rightarrow> panics ''csldIndex does not end''
            | Suc fuel \<Rightarrow> seq (unitOfWork E (index_task E G t)) (\<lambda>_. index_loop E G fuel)))"

declare index_loop.simps [simp del]

definition csldIndex :: "env \<Rightarrow> 'crs geo \<Rightarrow> unit act" where
  "csldIndex E G =
     seq (log_job E INFO ''Indexing new datasets...'') (\<lambda>_.
     seq (load_tasks E (Some [TaskStateDONE])) (\<lambda>_.
     seq (reading (j_Tasks \<circ> w_job)) (\<lambda>tasks. index_loop E G (length tasks))))"

section \<open>Swapping and deleting the datasets\<close>

definition csldSwapDatasets_body :: "env \<Rightarrow> unit act" where
  "csldSwapDatasets_body E =
     seq (reading w_job) (\<lambda>j.
     seq (if jp_CollapseRecordId (j_Payload j) = []
          then tx E (pg_ChangeDatasetsStatus (j_ID j) DatasetStatusACTIVE DatasetStatusTODELETE)
          else on_job (ReleaseDatasets LockFlagTODELETE)) (\<lambda>_.
     seq (tx E (pg_ChangeDatasetsStatus (j_ID j) DatasetStatusINACTIVE DatasetStatusACTIVE)) (\<lambda>_.
     seq (on_job (ReleaseDatasets LockFlagNEW)) (\<lambda>_.
     seq (log_job E INFO ''Datasets swapped'') (\<lambda>_.
     saveJob E True)))))"

definition csldSwapDatasets :: "env \<Rightarrow> unit act" where
  "csldSwapDatasets E =
     seq (log_job E INFO ''Swap datasets...'') (\<lambda>_. unitOfWork E (csldSwapDatasets_body E))"

text \<open>The datasets replaced are handed over to a deletion job of their own, in one transaction.\<close>

definition hand_over :: "env \<Rightarrow> Job option act" where
  "hand_over E =
     seq (reading w_job) (\<lambda>j.
     seq (tx E (pg_FindDatasets DatasetStatusTODELETE [] (j_ID j) [] [] True)) (\<lambda>datasets.
     if datasets = [] then ok None
     else
       seq (ticking (e_uuid E)) (\<lambda>suffix.
       seq (ticking (e_uuid E)) (\<lambda>uid.
       seq (ticking (e_now E)) (\<lambda>now.
       let created = NewDeletionJob uid now (j_Name j @ ''_deletion_'' @ suffix) ExecutionAsynchronous
       in seq (lift_go (LockDatasets (map d_ID datasets) LockFlagTODELETE created)) (\<lambda>deletionJob.
          seq (on_job (ReleaseDatasets LockFlagTODELETE)) (\<lambda>_.
          seq (log_job E INFO (''Create a deletion job to delete '' @ itoa (int (length datasets)) @ '' dataset(s): '' @ j_Name deletionJob)) (\<lambda>_.
          seq (saveJob E True) (\<lambda>_.
          seq (with_job deletionJob (seq (saveJob E True) (\<lambda>_. reading w_job))) (\<lambda>deletionJob.
          ok (Some deletionJob)))))))))))"

definition csldDeleteDatasets :: "env \<Rightarrow> (JobEvent \<Rightarrow> unit act) \<Rightarrow> unit act" where
  "csldDeleteDatasets E notify =
     seq (wrap ''csldDeleteDatasets.'' (unitOfWork E (hand_over E))) (\<lambda>deletionJob. case deletionJob of
         None \<Rightarrow> ok ()
       | Some dj \<Rightarrow> wrap ''csldDeleteDatasets.'' (with_job dj (delOnEnterNewState E notify)))"

section \<open>Cancellation, retries and rollback\<close>

definition delete_pending_container :: "env \<Rightarrow> nat \<Rightarrow> unit act" where
  "delete_pending_container E i =
     seq (reading (\<lambda>w. j_Tasks (w_job w) ! i)) (\<lambda>t.
     whenever (t_State t = TaskStateDONE \<or> t_State t = TaskStatePENDING)
       (seq (wrap ''DeletePendingRemoteContainers.'' (lift_result (ConsolidationOutput t))) (\<lambda>(container, _).
        handle (dbx E (pg_ReadContainers [cc_URI container])) (\<lambda>r. case r of
            Inr _ \<Rightarrow> log_job E WARN (''Rollback: RemoteContainer '' @ cc_URI container @ '' is not pending and cannot be deleted.'')
          | Inl e \<Rightarrow>
              if \<not> IsError (Some e) EntityNotFound then fails (WrapE ''DeletePendingRemoteContainers.'' e [])
              else
                seq (wrap ''DeletePendingRemoteContainers.'' (opSubFncDeleteContainer E (cc_URI container))) (\<lambda>_.
                seq (on_job_now E (\<lambda>now. CancelTask now i)) (\<lambda>_.
                wrap ''DeletePendingRemoteContainers.'' (saveJob E False)))))))"

definition csldSubFncDeletePendingRemoteContainers :: "env \<Rightarrow> unit act" where
  "csldSubFncDeletePendingRemoteContainers E =
     seq (reading (j_Tasks \<circ> w_job)) (\<lambda>tasks. each (delete_pending_container E) [0..<length tasks])"

text \<open>
  The pool of 20 workers of \<open>csldCancel\<close>: a worker that fails returns, and when none is left the next
  path is sent to nobody: the call blocks for ever.  The paths are taken in order; the errors are the ones
  of the workers that returned.
\<close>

definition blocked :: string where
  "blocked = ''blocked for ever: all goroutines of the pool have returned''"

definition upload_cancelled :: "env \<Rightarrow> string \<Rightarrow> unit act" where
  "upload_cancelled E path w =
     (let w' = w\<lparr>w_tick := Suc (w_tick w)\<rparr>
      in case e_uri_error E path of
           Some e \<Rightarrow> Ret (Inl (WrapE [] e ('': '' @ path)), w')
         | None \<Rightarrow>
             (case e_upload_error E (w_tick w) path of
                Some e \<Rightarrow> Ret (Inl e, w')
              | None \<Rightarrow> Ret (Inr (), w'\<lparr>w_cancelled := w_cancelled w @ [path]\<rparr>)))"

fun cancel_pool :: "env \<Rightarrow> nat \<Rightarrow> string list \<Rightarrow> gerr list \<Rightarrow> gerr list act" where
  "cancel_pool E workers [] errs = ok errs"
| "cancel_pool E 0 (p # ps) errs = panics blocked"
| "cancel_pool E (Suc workers) (p # ps) errs =
     handle (upload_cancelled E p) (\<lambda>r. case r of
         Inl e \<Rightarrow> cancel_pool E workers ps (errs @ [e])
       | Inr _ \<Rightarrow> cancel_pool E (Suc workers) ps errs)"

definition cancelled_path :: "env \<Rightarrow> string \<Rightarrow> Task \<Rightarrow> string" where
  "cancelled_path E jobID t = e_cancelledPath E @ ''/'' @ jobID @ ''_'' @ t_ID t"

definition csldCancel :: "env \<Rightarrow> unit act" where
  "csldCancel E =
     seq (log_job E INFO ''Cancel all tasks...'') (\<lambda>_.
     seq (reading w_job) (\<lambda>j.
     if j_ActiveTasks j = 0 then ok ()
     else
       seq (load_tasks E (Some [TaskStatePENDING])) (\<lambda>_.
       seq (reading (j_Tasks \<circ> w_job)) (\<lambda>tasks.
       seq (cancel_pool E 20 (map (cancelled_path E (j_ID j)) tasks) []) (\<lambda>errs. case errs of
           e # _ \<Rightarrow> fails e
         | [] \<Rightarrow>
             seq (log_job E INFO ''Job and associated tasks are cancelled'') (\<lambda>_.
             saveJob E False))))))"

definition csldConsolidationRetry :: "env \<Rightarrow> unit act" where
  "csldConsolidationRetry E =
     seq (log_job E INFO ''Retry consolidation...'') (\<lambda>_.
     seq (load_tasks E None) (\<lambda>_.
     seq (on_job_now E (\<lambda>now. ResetTasks now (Some [TaskStateFAILED]))) (\<lambda>_.
     saveJob E False)))"

definition csldConsolidationForceRetry :: "env \<Rightarrow> unit act" where
  "csldConsolidationForceRetry E =
     seq (log_job E INFO ''Retry consolidation...'') (\<lambda>_.
     seq (load_tasks E None) (\<lambda>_.
     seq (reading (j_ActiveTasks \<circ> w_job)) (\<lambda>active.
     seq (on_job_now E (\<lambda>now. ResetTasks now (Some [TaskStateNEW, TaskStateFAILED, TaskStatePENDING]))) (\<lambda>_.
     seq (reading (j_ActiveTasks \<circ> w_job)) (\<lambda>active2.
     seq (log_job E DEBUG (''Set '' @ itoa (active2 - active) @ '' tasks to retry'')) (\<lambda>_.
     saveJob E False))))))"

definition csldSubFncDeleteContainers :: "env \<Rightarrow> string list \<Rightarrow> unit act" where
  "csldSubFncDeleteContainers E uris = each (\<lambda>u. handle (opSubFncDeleteContainer E u) (\<lambda>_. ok ())) uris"

definition csldRollback :: "env \<Rightarrow> unit act" where
  "csldRollback E =
     seq (log_job E INFO ''Rollback...'') (\<lambda>_.
     seq (wrap ''Rollback.'' (load_tasks E None)) (\<lambda>_.
     seq (wrap ''Rollback.'' (opSubFncRemoveDatasetsAndContainers E False LockFlagNEW DatasetStatusINACTIVE)) (\<lambda>containersURI.
     seq (wrap ''Rollback.'' (csldSubFncDeleteContainers E containersURI)) (\<lambda>_.
     seq (wrap ''Rollback.'' (csldSubFncDeletePendingRemoteContainers E)) (\<lambda>_.
     seq (on_job_now E DeleteAllTasks) (\<lambda>_.
     seq (on_job (ReleaseDatasets LockFlagTODELETE)) (\<lambda>_.
     seq (on_job (ReleaseDatasets LockFlagINIT)) (\<lambda>_.
     wrap ''Rollback.'' (saveJob E False)))))))))"

section \<open>The states\<close>

definition csldOnEnterNewState :: "env \<Rightarrow> 'crs geo \<Rightarrow> (JobEvent \<Rightarrow> unit act) \<Rightarrow> unit act" where
  "csldOnEnterNewState E G notify =
     seq (reading (j_State \<circ> w_job)) (\<lambda>s. case s of
         JobStateNEW \<Rightarrow> publishEvent E notify JobCreated []
       | JobStateCREATED \<Rightarrow> conclude E notify (csldPrepareOrders E G) PrepareOrdersFailed OrdersPrepared
       | JobStateCONSOLIDATIONINPROGRESS \<Rightarrow>
           handle (csldSendOrders E notify) (\<lambda>r. case r of
               Inl e \<Rightarrow> publishEvent E notify SendOrdersFailed (ErrorMsg e)
             | Inr _ \<Rightarrow> ok ())
       | JobStateCONSOLIDATIONDONE \<Rightarrow> conclude E notify (csldIndex E G) ConsolidationIndexingFailed ConsolidationIndexed
       | JobStateCONSOLIDATIONINDEXED \<Rightarrow> conclude E notify (csldSwapDatasets E) SwapDatasetsFailed DatasetsSwapped
       | JobStateCONSOLIDATIONEFFECTIVE \<Rightarrow> conclude E notify (csldDeleteDatasets E notify) StartDeletionFailed DeletionStarted
       | JobStateDONEBUTUNTIDY \<Rightarrow> opContactAdmin E
       | JobStateCONSOLIDATIONCANCELLING \<Rightarrow> conclude E notify (csldCancel E) CancellationFailed CancellationDone
       | JobStateCONSOLIDATIONFAILED \<Rightarrow>
           seq (err_job E ''Consolidation failed'') (\<lambda>_. log_job E INFO ''Wait for user command...'')
       | JobStateINITIALISATIONFAILED \<Rightarrow>
           seq (err_job E ''Consolidation failed'') (\<lambda>_. log_job E INFO ''Wait for user command...'')
       | JobStateCANCELLATIONFAILED \<Rightarrow>
           seq (err_job E ''Consolidation failed'') (\<lambda>_. log_job E INFO ''Wait for user command...'')
       | JobStateCONSOLIDATIONRETRYING \<Rightarrow> conclude E notify (csldConsolidationRetry E) ConsolidationRetryFailed OrdersPrepared
       | JobStateCONSOLIDATIONFORCERETRYING \<Rightarrow> conclude E notify (csldConsolidationForceRetry E) ConsolidationRetryFailed OrdersPrepared
       | JobStateABORTED \<Rightarrow> conclude E notify (csldRollback E) RollbackFailed RollbackDone
       | JobStateROLLBACKFAILED \<Rightarrow>
           seq (err_job E ''Rollback failed'') (\<lambda>_. log_job E INFO ''Wait for user command...'')
       | JobStateFAILED \<Rightarrow> err_job E ''Job failed''
       | _ \<Rightarrow> ok ())"

definition csldInit :: "env \<Rightarrow> 'crs geo \<Rightarrow> (JobEvent \<Rightarrow> unit act) \<Rightarrow> string list \<Rightarrow> unit act" where
  "csldInit E G notify datasetsID =
     seq (log_count E DEBUG ''Init with '' (length datasetsID) '' datasets'') (\<lambda>_.
     if datasetsID = [] then fails (NewEntityNotFound [] [] [] ''No dataset found for these records and instances'')
     else
       seq (wrap ''csldInit.'' (unitOfWork E (
         seq (csld_params E) (\<lambda>params.
         seq (on_job_err (\<lambda>j. Ret (SetParams params j))) (\<lambda>_.
         seq (on_job (LockDatasets datasetsID LockFlagINIT)) (\<lambda>_.
         saveJob E True)))))) (\<lambda>_.
       wrap ''csldInit.'' (csldOnEnterNewState E G notify)))"

end
