(* ===== verification/Handlers.thy ===== *)
theory Handlers
  imports ConsolidaterStates
begin

text \<open>
  The handlers of job events and of task events of internal/svc/operations.go.  A synchronous job handles
  the events it publishes at once: \<open>handleJobEvt\<close> calls the handler of the state, which calls
  \<open>handleJobEvt\<close>.  The fuel is the depth of the calls; without fuel the stack overflows.
\<close>

definition stack_overflow :: string where
  "stack_overflow = ''runtime: goroutine stack exceeds 1000000000-byte limit''"

definition onEnterNewState :: "env \<Rightarrow> 'crs geo \<Rightarrow> (JobEvent \<Rightarrow> unit act) \<Rightarrow> unit act" where
  "onEnterNewState E G notify =
     seq (reading (j_Type \<circ> w_job)) (\<lambda>t. case t of
         JobTypeCONSOLIDATION \<Rightarrow> csldOnEnterNewState E G notify
       | JobTypeDELETION \<Rightarrow> delOnEnterNewState E notify
       | JobTypeINGESTION \<Rightarrow> ok ())"

definition trigger_job :: "env \<Rightarrow> JobEvent \<Rightarrow> unit act" where
  "trigger_job E evt = on_job_err_now E (\<lambda>now. Trigger now evt)"

text \<open>The event is handled on a fresh copy of the job; the caller keeps its own.\<close>

definition handle_event :: "env \<Rightarrow> 'crs geo \<Rightarrow> (JobEvent \<Rightarrow> unit act) \<Rightarrow> JobEvent \<Rightarrow> unit act" where
  "handle_event E G notify evt =
     seq (wrap ''handleJobEvt.'' (GetJob E (je_JobID evt))) (\<lambda>job.
     with_job job (
       seq (wrap ''handleJobEvt.'' (trigger_job E evt)) (\<lambda>_.
       seq (wrap ''handleJobEvt.'' (saveJob E False)) (\<lambda>_.
       seq (reading (j_Waiting \<circ> w_job)) (\<lambda>waiting.
       if waiting then ok ()
       else handle (onEnterNewState E G notify) (\<lambda>r. handle (saveJobLogs E False) (\<lambda>_. lift_result r)))))))"

fun handleJobEvt :: "nat \<Rightarrow> env \<Rightarrow> 'crs geo \<Rightarrow> JobEvent \<Rightarrow> unit act" where
  "handleJobEvt 0 E G evt = panics stack_overflow"
| "handleJobEvt (Suc fuel) E G evt = handle_event E G (handleJobEvt fuel E G) evt"

text \<open>Seven nested calls are enough for every chain of events.\<close>

definition event_depth :: nat where
  "event_depth = 7"

abbreviation notify_of :: "env \<Rightarrow> 'crs geo \<Rightarrow> JobEvent \<Rightarrow> unit act" where
  "notify_of E G \<equiv> handleJobEvt event_depth E G"

section \<open>Task events\<close>

definition task_event_end :: "env \<Rightarrow> 'crs geo \<Rightarrow> unit act" where
  "task_event_end E G =
     seq (reading w_job) (\<lambda>j.
     if j_ActiveTasks j \<noteq> 0 then ok ()
     else if j_State j = JobStateCONSOLIDATIONCANCELLING
     then seq (log_job E INFO ''Job has been canceled'') (\<lambda>_. publishEvent E (notify_of E G) CancellationDone [])
     else if j_State j \<in> {JobStateCANCELLATIONFAILED, JobStateABORTED, JobStateROLLBACKFAILED, JobStateFAILED} then ok ()
     else if j_FailedTasks j > 0
     then publishEvent E (notify_of E G) ConsolidationFailed (''Job failed: '' @ itoa (j_FailedTasks j) @ '' tasks failed'' @ [CHR 0x0A])
     else publishEvent E (notify_of E G) ConsolidationDone [])"

definition handleTaskEvt :: "env \<Rightarrow> 'crs geo \<Rightarrow> TaskEvent \<Rightarrow> unit act" where
  "handleTaskEvt E G evt =
     (let pre = ''handleTaskEvt('' @ te_TaskID evt @ '').''
      in if te_Status evt = TaskCancelled then ok ()
         else
           seq (wrap pre (dbx E (pg_ReadJobWithTask (te_JobID evt) (te_TaskID evt)))) (\<lambda>job.
           if j_State job = JobStateFAILED then ok ()
           else
             seq (lift_go (job_Clean True job)) (\<lambda>job.
             with_job job (
               seq (wrap pre (on_job_err_now E (\<lambda>now. UpdateTask now evt))) (\<lambda>_.
               seq (lift_go (TaskStatus_String (te_Status evt))) (\<lambda>status.
               seq (log_job E DEBUG (''TaskEvent received with status '' @ status @ '' (id:'' @ te_TaskID evt @ '', err:'' @ te_Error evt @ '')'')) (\<lambda>_.
               seq (wrap pre (saveJob E False)) (\<lambda>_.
               task_event_end E G))))))))"

definition HandleEvent :: "env \<Rightarrow> 'crs geo \<Rightarrow> Event \<Rightarrow> unit act" where
  "HandleEvent E G evt =
     (case evt of
        EvTask t \<Rightarrow>
          handle (handleTaskEvt E G t) (\<lambda>r. case r of
              Inr _ \<Rightarrow> ok ()
            | Inl e \<Rightarrow>
                if \<not> Temporary e
                then seq (lift_go (TaskStatus_String (te_Status t))) (\<lambda>status.
                     fails (NewUnhandledEvent (''FATAL '' @ ErrorMsg e @ ''!!! Job '' @ te_JobID t @ '' Task '' @ te_TaskID t @
                       '' Status '' @ status)))
                else fails e)
      | EvJob j \<Rightarrow> notify_of E G j)"

section \<open>Bounded recursion\<close>

text \<open>
  The rank of an event bounds the depth of the events it leads to: every event published on entering the
  states it leads to has a smaller rank.
\<close>

fun rank :: "JobStatus \<Rightarrow> nat" where
  "rank Continue = 6"
| "rank RetryForced = 6"
| "rank Retried = 5"
| "rank JobCreated = 5"
| "rank OrdersPrepared = 4"
| "rank ConsolidationDone = 3"
| "rank ConsolidationIndexed = 2"
| "rank DeletionReady = 2"
| "rank CancelledByUser = 2"
| "rank CancelledByUserForced = 2"
| "rank CancellationDone = 1"
| "rank DatasetsSwapped = 1"
| "rank RemovalDone = 1"
| "rank _ = 0"

text \<open>The rank of what a state publishes, plus one.\<close>

fun state_rank :: "JobState \<Rightarrow> nat" where
  "state_rank JobStateNEW = 6"
| "state_rank JobStateCREATED = 5"
| "state_rank JobStateCONSOLIDATIONRETRYING = 5"
| "state_rank JobStateCONSOLIDATIONFORCERETRYING = 5"
| "state_rank JobStateCONSOLIDATIONINPROGRESS = 4"
| "state_rank JobStateCONSOLIDATIONDONE = 3"
| "state_rank JobStateDELETIONINPROGRESS = 2"
| "state_rank JobStateCONSOLIDATIONINDEXED = 2"
| "state_rank JobStateCONSOLIDATIONCANCELLING = 2"
| "state_rank JobStateCONSOLIDATIONEFFECTIVE = 1"
| "state_rank JobStateDELETIONEFFECTIVE = 1"
| "state_rank JobStateABORTED = 1"
| "state_rank _ = 0"

end
