(* ===== verification/ServiceApi.thy ===== *)
theory ServiceApi
  imports Handlers
begin

text \<open>
  The operations of internal/svc/service.go and internal/svc/admin.go on records, variables, containers,
  datasets, layouts and jobs, as the gRPC service calls them.  What the remote files answer is in the
  record \<open>remote\<close>: the protocol and the storage class of a URI, and what GDAL finds in a dataset.
\<close>

section \<open>Records\<close>

definition pg_DeleteRecords :: "string list \<Rightarrow> int pg_op" where
  "pg_DeleteRecords ids d =
     (case find (\<lambda>(i, t). i \<in> set ids \<and> list_ex (\<lambda>x. d_RecordID (dr_Dataset x) = i) (db_Datasets d)) (db_Records d) of
        Some (i, t) \<Rightarrow> (Inl (NewDependencyStillExists ''records'' ''datasets'' ''id'' i []), d)
      | None \<Rightarrow> (Inr (int (length (filter (\<lambda>(i, t). i \<in> set ids) (db_Records d)))),
                 d\<lparr>db_Records := filter (\<lambda>(i, t). i \<notin> set ids) (db_Records d)\<rparr>))"

definition pg_DeletePendingRecords :: "string list \<Rightarrow> int pg_op" where
  "pg_DeletePendingRecords ids =
     tidy db_Records db_Records_update (\<lambda>d (i, t). (ids = [] \<or> i \<in> set ids) \<and>
       \<not> list_ex (\<lambda>x. d_RecordID (dr_Dataset x) = i) (db_Datasets d))"

definition GetRecords :: "env \<Rightarrow> string list \<Rightarrow> (string \<times> gtime) list act" where
  "GetRecords E ids = dbx E (pg_ReadRecords ids)"

definition DeleteRecords :: "env \<Rightarrow> string list \<Rightarrow> bool \<Rightarrow> int act" where
  "DeleteRecords E ids noFail =
     unitOfWork E (if noFail \<and> ids \<noteq> [] then tx E (pg_DeletePendingRecords ids) else tx E (pg_DeleteRecords ids))"

section \<open>Variables\<close>

text \<open>An error returned by a method of a variable beside its new state.\<close>

definition checked :: "gerr option \<times> 'a \<Rightarrow> 'a act" where
  "checked r = (case r of (Some e, _) \<Rightarrow> fails e | (None, a) \<Rightarrow> ok a)"

definition clean_variable :: "Variable \<Rightarrow> Variable act" where
  "clean_variable v = lift_go (Variable_Clean True v)"

definition pg_ReadVariableFromName :: "string \<Rightarrow> Variable pg_op" where
  "pg_ReadVariableFromName name d =
     (case find (\<lambda>v. v_Name v = name) (db_Variables d) of
        None \<Rightarrow> Inl (NewEntityNotFound ''Variable'' ''name'' name [])
      | Some v \<Rightarrow> Inr (read_variable v (instances_of (v_ID v) d)), d)"

definition CreateVariable :: "env \<Rightarrow> Variable \<Rightarrow> Variable act" where
  "CreateVariable E v =
     (if \<not> IsNew (v_ps v) then fails (NewValidationError ''wrong persistent status'') else saveVariable E False v)"

definition svc_UpdateVariable ::
  "env \<Rightarrow> (string \<Rightarrow> bool) \<Rightarrow> string \<Rightarrow> string option \<Rightarrow> string option \<Rightarrow> string option \<Rightarrow> string option \<Rightarrow>
   Resampling option \<Rightarrow> Variable act" where
  "svc_UpdateVariable E uuid_ok variableID name unit description palette resampling =
     unitOfWork E (
       seq (wrap ''UpdateVariable.'' (tx E (pg_ReadVariable variableID))) (\<lambda>v.
       seq (clean_variable v) (\<lambda>v.
       seq (lift_go (Variable_Update uuid_ok name unit description palette resampling v)) (\<lambda>r.
       seq (checked r) (\<lambda>v.
       saveVariable E True v)))))"

definition GetVariable :: "env \<Rightarrow> string \<Rightarrow> string \<Rightarrow> string \<Rightarrow> Variable act" where
  "GetVariable E variableID instanceID variableName =
     (if variableID = [] \<and> instanceID = [] \<and> variableName = []
      then fails (NewValidationError ''GetVariable: all parameters are empty'')
      else
        seq (wrap ''GetVariable.''
              (if variableID \<noteq> [] then dbx E (pg_ReadVariable variableID)
               else if instanceID \<noteq> [] then dbx E (pg_ReadVariableFromInstanceID instanceID)
               else dbx E (pg_ReadVariableFromName variableName))) clean_variable)"

definition InstantiateVariable :: "env \<Rightarrow> string \<Rightarrow> VariableInstance \<Rightarrow> Variable act" where
  "InstantiateVariable E variableID vi =
     unitOfWork E (
       seq (wrap ''InstantiateVariable.'' (tx E (pg_ReadVariable variableID))) (\<lambda>v.
       seq (clean_variable v) (\<lambda>v.
       seq (wrap ''InstantiateVariable.'' (checked (AddInstance vi v))) (\<lambda>v.
       saveVariable E True v))))"

definition DeleteVariable :: "env \<Rightarrow> string \<Rightarrow> Variable act" where
  "DeleteVariable E i =
     unitOfWork E (
       seq (tx E (pg_ReadVariable i)) (\<lambda>v.
       seq (lift_go (Variable_ToDelete [] v)) (\<lambda>v.
       saveVariable E True v)))"

definition svc_UpdateInstance ::
  "env \<Rightarrow> (string \<Rightarrow> bool) \<Rightarrow> string \<Rightarrow> string option \<Rightarrow> Metadata \<Rightarrow> string list \<Rightarrow> Variable act" where
  "svc_UpdateInstance E uuid_ok i name newMetadata delMetadataKeys =
     unitOfWork E (
       seq (tx E (pg_ReadVariableFromInstanceID i)) (\<lambda>v.
       seq (clean_variable v) (\<lambda>v.
       seq (lift_go (UpdateInstance uuid_ok i name newMetadata delMetadataKeys v)) (\<lambda>r.
       seq (checked r) (\<lambda>v.
       saveVariable E True v)))))"

definition DeleteInstance :: "env \<Rightarrow> string \<Rightarrow> Variable act" where
  "DeleteInstance E i =
     unitOfWork E (
       seq (tx E (pg_ReadVariableFromInstanceID i)) (\<lambda>v.
       seq (lift_go (Variable_ToDelete i v)) (\<lambda>v.
       saveVariable E True v)))"

definition GetConsolidationParams :: "env \<Rightarrow> string \<Rightarrow> ConsolidationParams act" where
  "GetConsolidationParams E i =
     seq (wrap ''GetVariable.'' (dbx E (pg_ReadConsolidationParams i))) (\<lambda>params.
     seq (lift_go (ps_Clean (cp_ps params))) (\<lambda>p. ok (params\<lparr>cp_ps := p\<rparr>)))"

definition ConfigConsolidation :: "env \<Rightarrow> string \<Rightarrow> ConsolidationParams \<Rightarrow> Variable act" where
  "ConfigConsolidation E variableID params =
     unitOfWork E (
       seq (wrap ''ConfigConsolidation.'' (tx E (pg_ReadVariable variableID))) (\<lambda>v.
       seq (clean_variable v) (\<lambda>v.
       seq (checked (SetConsolidationParams params v)) (\<lambda>v.
       wrap ''ConfigConsolidation.'' (saveVariable E True v)))))"

section \<open>Indexation of external datasets\<close>

record gdal_dataset = gd_NBands :: int
  gd_Bounds :: "gerr + float64 \<times> float64 \<times> float64 \<times> float64"
  gd_Projection :: string
  gd_DataType :: "int \<Rightarrow> GdalType"
  gd_NOverviews :: "int \<Rightarrow> int"

record remote = rm_Protocol :: "string \<Rightarrow> string"
  rm_StorageClass :: "string \<Rightarrow> gerr + string"
  rm_open :: "string \<Rightarrow> gerr + gdal_dataset"
  rm_dtype_text :: "GdalType \<Rightarrow> string"

definition validateRemoteContainer :: "env \<Rightarrow> remote \<Rightarrow> Container \<Rightarrow> gerr + Container" where
  "validateRemoteContainer E R c =
     (case e_uri_error E (c_URI c) of
        Some e \<Rightarrow> Inl (WrapE (''failed to parse container URI ['' @ c_URI c @ '']: '') e [])
      | None \<Rightarrow>
          let class =
            (if ToLower (rm_Protocol R (c_URI c)) = ''gs''
             then (case rm_StorageClass R (c_URI c) of
                     Inl e \<Rightarrow> Inl (NewValidationError (c_URI c @ '' is not reachable: '' @ ErrorMsg e))
                   | Inr s \<Rightarrow> (case ToGcStorageClass s of
                       (Some e, _) \<Rightarrow> Inl (NewValidationError (c_URI c @ '': '' @ ErrorMsg e))
                     | (None, k) \<Rightarrow> Inr k))
             else Inr StorageClassSTANDARD)
          in case class of
               Inl e \<Rightarrow> Inl e
             | Inr k \<Rightarrow>
                 if c_StorageClass c = StorageClassUNDEFINED then Inr (snd (SetStorageClass k c))
                 else if c_StorageClass c \<noteq> k then Inl (NewValidationError (c_URI c @ '' has wrong storage class''))
                 else Inr c)"

text \<open>The data type shared by the bands: \<open>GdalUnknown\<close> until a band is read.\<close>

fun bands_dtype :: "remote \<Rightarrow> gdal_dataset \<Rightarrow> string \<Rightarrow> GdalType \<Rightarrow> int list \<Rightarrow> gerr + GdalType" where
  "bands_dtype R ds uri t [] = Inr t"
| "bands_dtype R ds uri t (b # bs) =
     (if t = GdalUnknown then bands_dtype R ds uri (gd_DataType ds (b - 1)) bs
      else if t \<noteq> gd_DataType ds (b - 1)
      then Inl (NewValidationError (uri @ '' : all bands must have the same data type (found '' @ rm_dtype_text R t @ '' and '' @
             rm_dtype_text R (gd_DataType ds (b - 1)) @ '')''))
      else bands_dtype R ds uri t bs)"

definition set_remote_format :: "remote \<Rightarrow> gdal_dataset \<Rightarrow> string \<Rightarrow> Dataset \<Rightarrow> (gerr + Dataset) go" where
  "set_remote_format R ds uri d =
     (case bands_dtype R ds uri GdalUnknown (d_Bands d) of
        Inl e \<Rightarrow> Ret (Inl e)
      | Inr t \<Rightarrow>
          if DTypeFromGDal t = DTypeUNDEFINED
          then Ret (Inl (NewValidationError (uri @ '' : datatype not found or not supported: '' @ rm_dtype_text R t)))
          else go_bind (SetDataType (DTypeFromGDal t) d) (\<lambda>(eo, d). case eo of
                 Some e \<Rightarrow> Ret (Inl e)
               | None \<Rightarrow> Ret (Inr (snd (SetOverviews (list_all (\<lambda>b. gd_NOverviews ds (b - 1) \<noteq> 0) (d_Bands d)) d)))))"

definition validateAndSetRemoteDataset :: "'crs geo \<Rightarrow> remote \<Rightarrow> Dataset \<Rightarrow> (gerr + Dataset) go" where
  "validateAndSetRemoteDataset G R d =
     (let uri = Dataset_GDALURI d
      in case rm_open R uri of
           Inl e \<Rightarrow> Ret (Inl (NewValidationError (uri @ '' cannot be opened: '' @ ErrorMsg e)))
         | Inr ds \<Rightarrow>
             (case find (\<lambda>b. b \<le> 0 \<or> b > gd_NBands ds) (d_Bands d) of
                Some b \<Rightarrow> Ret (Inl (NewValidationError (uri @ '' has no band: '' @ itoa b)))
              | None \<Rightarrow>
                  (case gd_Bounds ds of
                     Inl e \<Rightarrow> Ret (Inl (NewValidationError (''failed to get dataset's bounds : '' @ ErrorMsg e)))
                   | Inr (xMin, yMin, xMax, yMax) \<Rightarrow>
                       go_bind (SetShape (g_gdal G) (g_clone4326 G)
                                  \<lparr>sh_SRID = 0, sh_FlatCoords = g_bounds G xMin yMin xMax yMax, sh_Endss = [[10]]\<rparr> (gd_Projection ds) d) (\<lambda>(eo, d).
                         case eo of Some e \<Rightarrow> Ret (Inl e) | None \<Rightarrow> set_remote_format R ds uri d))))"

text \<open>The datasets are completed in turn; the variable of an instance is read once.\<close>

fun check_external ::
  "env \<Rightarrow> 'crs geo \<Rightarrow> remote \<Rightarrow> (string \<times> Variable) list \<Rightarrow> Dataset list \<Rightarrow> Dataset list act" where
  "check_external E G R variables [] = ok []"
| "check_external E G R variables (d # ds) =
     seq (case map_of variables (d_InstanceID d) of
            Some v \<Rightarrow> ok v
          | None \<Rightarrow> wrap ''IndexExternalDatasets.'' (dbx E (pg_ReadVariableFromInstanceID (d_InstanceID d)))) (\<lambda>v.
     case ValidateWithVariable v d of
       Some e \<Rightarrow> fails (WrapE ''IndexExternalDatasets.'' e [])
     | None \<Rightarrow>
         seq (lift_go (validateAndSetRemoteDataset G R d)) (\<lambda>r.
         seq (wrap ''IndexExternalDatasets.'' (lift_result r)) (\<lambda>d.
         seq (check_external E G R (AList.update (d_InstanceID d) v variables) ds) (\<lambda>ds.
         ok (d # ds)))))"

definition IndexExternalDatasets :: "env \<Rightarrow> 'crs geo \<Rightarrow> remote \<Rightarrow> Container \<Rightarrow> Dataset list \<Rightarrow> Container act" where
  "IndexExternalDatasets E G R newcontainer datasets =
     seq (wrap ''IndexExternalDatasets.'' (lift_result (validateRemoteContainer E R newcontainer))) (\<lambda>c.
     seq (check_external E G R [] datasets) (\<lambda>datasets.
     unitOfWork E (seq (prepareIndexation E c datasets) (saveContainer E True))))"

definition GetContainers :: "env \<Rightarrow> string list \<Rightarrow> Container list act" where
  "GetContainers E uris = wrap ''GetVariable.'' (dbx E (pg_ReadContainers uris))"

section \<open>Layouts\<close>

definition CreateLayout :: "env \<Rightarrow> Layout \<Rightarrow> unit act" where
  "CreateLayout E l = unitOfWork E (tx E (pg_CreateLayout l))"

definition DeleteLayout :: "env \<Rightarrow> string \<Rightarrow> unit act" where
  "DeleteLayout E name = unitOfWork E (tx E (pg_DeleteLayout name))"

text \<open>
  \<open>TileAOI\<close>: the memory limit is put into the grid parameters of the layout.  A layout of the database has
  a map of parameters, possibly empty; a layout of the request without parameters has a nil map, into which
  nothing can be assigned.
\<close>

definition TileAOI :: "env \<Rightarrow> 'crs geo \<Rightarrow> string \<Rightarrow> Shape \<Rightarrow> string \<Rightarrow> Layout option \<Rightarrow> (gerr + cell) list act" where
  "TileAOI E G memory_limit aoi layoutName layout =
     seq (case layout of
            None \<Rightarrow> wrap ''TileAOI.'' (dbx E (pg_ReadLayout layoutName))
          | Some l \<Rightarrow> if l_GridParameters l = [] then panics ''assignment to entry in nil map'' else ok l) (\<lambda>l.
     let l = l\<lparr>l_GridParameters := AList.update ''memory_limit'' memory_limit (l_GridParameters l)\<rparr>
     in seq (wrap ''TileAOI.'' (lift_result (InitGrid G l))) (\<lambda>g.
        lift_result (Covers (Some g) aoi True)))"

end
