(* ===== verification/JobApi.thy ===== *)
theory JobApi
  imports ServiceApi
begin

text \<open>
  The operations of internal/svc/service.go that start and steer jobs, and the two maintenance operations
  of internal/svc/admin.go.
\<close>

section \<open>Starting jobs\<close>

definition DeleteDatasets ::
  "env \<Rightarrow> 'crs geo \<Rightarrow> string \<Rightarrow> string list \<Rightarrow> string list \<Rightarrow> string list \<Rightarrow> ExecutionLevel \<Rightarrow> Job act" where
  "DeleteDatasets E G jobName instanceIDs recordIDs datasetPatterns executionLevel =
     seq (if jobName = [] then ticking (e_uuid E) else ok jobName) (\<lambda>jobName.
     seq (ticking (e_uuid E)) (\<lambda>uid.
     seq (ticking (e_now E)) (\<lambda>now.
     with_job (NewDeletionJob uid now jobName executionLevel) (
       seq (wrap ''DeleteDatasets.'' (delInit E (notify_of E G) instanceIDs recordIDs datasetPatterns)) (\<lambda>_.
       reading w_job)))))"

text \<open>The filters on tags and times select records in the SQL of the database.\<close>

definition pg_ListFilteredDatasetsID :: "(db \<Rightarrow> string \<Rightarrow> bool) \<Rightarrow> string \<Rightarrow> string list pg_op" where
  "pg_ListFilteredDatasetsID matches inst d =
     (Inr (map (\<lambda>r. d_ID (dr_Dataset r)) (filter (\<lambda>r. d_InstanceID (dr_Dataset r) = inst \<and>
        d_Status (dr_Dataset r) = DatasetStatusACTIVE \<and> matches d (d_RecordID (dr_Dataset r))) (db_Datasets d))), d)"

definition ConsolidateFromRecords :: "env \<Rightarrow> 'crs geo \<Rightarrow> string list \<Rightarrow> unit act" where
  "ConsolidateFromRecords E G recordsID =
     seq (log_job E DEBUG ''Listing active datasets...'') (\<lambda>_.
     seq (reading w_job) (\<lambda>j.
     seq (wrap ''ConsolidateFromRecords.'' (dbx E (pg_ListActiveDatasetsID (jp_InstanceID (j_Payload j)) recordsID))) (\<lambda>datasetsID.
     wrap ''ConsolidateFromRecords.'' (csldInit E G (notify_of E G) datasetsID))))"

definition ConsolidateFromFilters :: "env \<Rightarrow> 'crs geo \<Rightarrow> (db \<Rightarrow> string \<Rightarrow> bool) \<Rightarrow> unit act" where
  "ConsolidateFromFilters E G matches =
     seq (log_job E DEBUG ''Listing active datasets...'') (\<lambda>_.
     seq (reading w_job) (\<lambda>j.
     seq (wrap ''ConsolidateFromFilters.'' (dbx E (pg_ListFilteredDatasetsID matches (jp_InstanceID (j_Payload j))))) (\<lambda>datasetsID.
     wrap ''ConsolidateFromFilters.'' (csldInit E G (notify_of E G) datasetsID))))"

section \<open>Commands of the user\<close>

text \<open>The event is tried on a copy of the job that is not saved, then published.\<close>

definition user_command :: "env \<Rightarrow> 'crs geo \<Rightarrow> string \<Rightarrow> string \<Rightarrow> JobStatus \<Rightarrow> unit act" where
  "user_command E G pre jobID event =
     seq (wrap pre (GetJob E jobID)) (\<lambda>job.
     with_job job (
       seq (lift_go (NewJobEvent jobID event [])) (\<lambda>evt.
       seq (wrap pre (trigger_job E evt)) (\<lambda>_.
       publishEvent E (notify_of E G) event []))))"

definition RetryJob :: "env \<Rightarrow> 'crs geo \<Rightarrow> string \<Rightarrow> bool \<Rightarrow> unit act" where
  "RetryJob E G jobID forceAnyState = user_command E G ''RetryJob.'' jobID (if forceAnyState then RetryForced else Retried)"

definition CancelJob :: "env \<Rightarrow> 'crs geo \<Rightarrow> string \<Rightarrow> bool \<Rightarrow> unit act" where
  "CancelJob E G jobID forceAnyState =
     user_command E G ''CancelJob.'' jobID (if forceAnyState then CancelledByUserForced else CancelledByUser)"

definition ContinueJob :: "env \<Rightarrow> 'crs geo \<Rightarrow> string \<Rightarrow> unit act" where
  "ContinueJob E G jobID = user_command E G ''ContinueJob.'' jobID Continue"

section \<open>Cleaning jobs\<close>

definition flag_deleted :: "Job \<Rightarrow> Job go" where
  "flag_deleted j =
     go_bind (job_ToDelete False j) (\<lambda>(ok, j).
       if ok then Ret j else go_bind (job_ToDelete True j) (\<lambda>(_, j). Ret j))"

definition clean_job :: "env \<Rightarrow> string \<Rightarrow> unit act" where
  "clean_job E jobID =
     unitOfWork E (
       seq (wrap ''CleanJobs.'' (dbx E (pg_ReadJob jobID))) (\<lambda>job.
       seq (wrap ''CleanJobs.'' (dbx E (pg_ReadTasks jobID None))) (\<lambda>tasks.
       seq (lift_go (job_Clean True (job\<lparr>j_Tasks := tasks\<rparr>))) (\<lambda>job.
       with_job job (
         seq (on_job flag_deleted) (\<lambda>_.
         wrap ''CleanJobs.'' (saveJob E True)))))))"

fun clean_jobs :: "env \<Rightarrow> string list \<Rightarrow> int \<Rightarrow> gerr option \<Rightarrow> (int \<times> gerr option) act" where
  "clean_jobs E [] n err = ok (n, err)"
| "clean_jobs E (i # is) n err =
     handle (clean_job E i) (\<lambda>r. case r of
         Inl e \<Rightarrow> clean_jobs E is n
           (MergeErrors True err [Some (PlainE (''unable to delete job '' @ i @ '': '' @ ErrorMsg e))])
       | Inr _ \<Rightarrow> clean_jobs E is (n + 1) err)"

text \<open>The number of jobs deleted comes back with the error of the others.\<close>

definition CleanJobs :: "env \<Rightarrow> string \<Rightarrow> JobState option \<Rightarrow> (int \<times> gerr option) act" where
  "CleanJobs E nameLike state =
     seq (wrap ''CleanJobs.'' (dbx E (pg_ListJobsID nameLike
            (case state of None \<Rightarrow> [JobStateDONE, JobStateFAILED] | Some s \<Rightarrow> [s])))) (\<lambda>ids.
     clean_jobs E ids 0 None)"

section \<open>Maintenance\<close>

definition errSimulationEnded :: gerr where
  "errSimulationEnded = PlainE ''simulation ended''"

definition errors_Is :: "gerr \<Rightarrow> gerr \<Rightarrow> bool" where
  "errors_Is e target \<longleftrightarrow> target \<in> set (err_chain e)"

text \<open>
  A unit of work that assigns variables of the caller: its function returns an error and the values of the
  variables, which come back whether the transaction is committed or not.
\<close>

definition unitOfWork_var :: "env \<Rightarrow> 'a \<Rightarrow> (gerr option \<times> 'a) act \<Rightarrow> (gerr option \<times> 'a) act" where
  "unitOfWork_var E init f =
     seq (reading w_txn) (\<lambda>outer.
     handle (start_txn E) (\<lambda>r. case r of
         Inl e \<Rightarrow> ok (Some e, init)
       | Inr _ \<Rightarrow>
           seq f (\<lambda>(eo, a). case eo of
               Some e \<Rightarrow> (\<lambda>w. Ret (Inr (Some (WrapE ''uow.'' e []), a), w\<lparr>w_txn := outer\<rparr>))
             | None \<Rightarrow> handle (commit_txn E outer) (\<lambda>r. ok (case r of Inl e \<Rightarrow> Some e | Inr _ \<Rightarrow> None, a)))))"

text \<open>The end of a simulation is an error of the transaction, which rolls it back, and none of the operation.\<close>

definition end_simulation :: "bool \<Rightarrow> gerr option \<times> 'a \<Rightarrow> (gerr option \<times> 'a) act" where
  "end_simulation simulate r =
     (case r of (Some e, a) \<Rightarrow> ok (Some e, a) | (None, a) \<Rightarrow> ok (if simulate then Some errSimulationEnded else None, a))"

definition simulation_error :: "string \<Rightarrow> gerr option \<times> 'a \<Rightarrow> (gerr option \<times> 'a) act" where
  "simulation_error pre r =
     (case r of
        (None, a) \<Rightarrow> ok (None, a)
      | (Some e, a) \<Rightarrow> ok (if errors_Is e errSimulationEnded then None else Some (WrapE pre e []), a))"

text \<open>The steps of \<open>TidyPending\<close>: whether it is wanted, the place of its number, its name and its statement.\<close>

fun tidy_steps :: "env \<Rightarrow> (bool \<times> nat \<times> string \<times> int pg_op) list \<Rightarrow> int list \<Rightarrow> (gerr option \<times> int list) act" where
  "tidy_steps E [] nbs = ok (None, nbs)"
| "tidy_steps E ((wanted, k, what, op) # steps) nbs =
     (if \<not> wanted then tidy_steps E steps nbs
      else handle (tx E op) (\<lambda>r. case r of
          Inl e \<Rightarrow> ok (Some (WrapE (''tidy '' @ what @ '': '') e []), nbs[k := 0])
        | Inr n \<Rightarrow> tidy_steps E steps (nbs[k := n])))"

record tidy_flags = tf_aois :: bool
  tf_records :: bool
  tf_variables :: bool
  tf_instances :: bool
  tf_containers :: bool
  tf_params :: bool

definition tidy_order :: "tidy_flags \<Rightarrow> (bool \<times> nat \<times> string \<times> int pg_op) list" where
  "tidy_order F =
     [(tf_records F, 1, ''records'', pg_DeletePendingRecords []),
      (tf_aois F, 0, ''aois'', pg_DeletePendingAOIs),
      (tf_instances F, 2, ''instances'', pg_DeletePendingInstances),
      (tf_variables F, 3, ''variables'', pg_DeletePendingVariables),
      (tf_containers F, 4, ''containers'', pg_DeletePendingContainers),
      (tf_params F, 5, ''params'', pg_DeletePendingConsolidationParams)]"

definition TidyPending :: "env \<Rightarrow> tidy_flags \<Rightarrow> bool \<Rightarrow> (gerr option \<times> int list) act" where
  "TidyPending E F simulate =
     seq (unitOfWork_var E (replicate 6 0)
            (seq (tidy_steps E (tidy_order F) (replicate 6 0)) (end_simulation simulate)))
         (simulation_error ''TidyPending: '')"

text \<open>
  The update of the data mappings of datasets, all but the type of the data: the numbers of datasets per
  current mapping, whose text the SQL builds, and the new rows.
\<close>

definition updated_mapping :: "DataMapping \<Rightarrow> DataMapping \<Rightarrow> DataMapping" where
  "updated_mapping dm old =
     old\<lparr>dm_DataFormat := (dm_DataFormat dm)\<lparr>df_DType := df_DType (dm_DataFormat old)\<rparr>,
         dm_RangeExt := dm_RangeExt dm, dm_Exponent := dm_Exponent dm\<rparr>"

definition in_update :: "string \<Rightarrow> string list \<Rightarrow> Dataset \<Rightarrow> bool" where
  "in_update instanceID recordIds x \<longleftrightarrow> d_InstanceID x = instanceID \<and> d_RecordID x \<in> set recordIds"

definition pg_UpdateDatasets ::
  "(DataMapping \<Rightarrow> string) \<Rightarrow> string \<Rightarrow> string list \<Rightarrow> DataMapping \<Rightarrow> (string \<times> int) list pg_op" where
  "pg_UpdateDatasets mapping_text instanceID recordIds dm d =
     (let hit = filter (in_update instanceID recordIds) (map dr_Dataset (db_Datasets d)); ms = map d_DataMapping hit
      in (Inr (fold (\<lambda>m. AList.update (mapping_text m) (int (length (filter (\<lambda>x. x = m) ms)))) (remdups ms) []),
          d\<lparr>db_Datasets := map (\<lambda>r. if in_update instanceID recordIds (dr_Dataset r)
               then r\<lparr>dr_Dataset := (dr_Dataset r)\<lparr>d_DataMapping := updated_mapping dm (d_DataMapping (dr_Dataset r))\<rparr>\<rparr> else r)
               (db_Datasets d)\<rparr>))"

definition UpdateDatasets ::
  "env \<Rightarrow> (DataMapping \<Rightarrow> string) \<Rightarrow> bool \<Rightarrow> string \<Rightarrow> string list \<Rightarrow> DataMapping \<Rightarrow> (gerr option \<times> (string \<times> int) list) act" where
  "UpdateDatasets E mapping_text simulate instanceID recordIds dm =
     seq (unitOfWork_var E []
            (seq (handle (tx E (pg_UpdateDatasets mapping_text instanceID recordIds dm)) (\<lambda>r. case r of
                    Inl e \<Rightarrow> ok (Some (WrapE ''UpdateDatasets.'' e []), [])
                  | Inr results \<Rightarrow> ok (None, results)))
                 (end_simulation simulate)))
         (simulation_error ''UpdateDatasets.'')"

end
