(* ===== verification/StoreProps.thy ===== *)
theory StoreProps
  imports Store
begin

text \<open>
  Facts on the tables of \<open>Store\<close>.  The locale \<open>keyed_table\<close> is the interface of a table with a key, as
  the statements of the database use it: select, delete, update and insert by the key; it is interpreted
  on the tables of jobs, tasks, datasets, containers, variables and locks.  The second part is the
  agreement between the table of locks and the column \<open>locked_by_job_id\<close> of the datasets, which the
  statements keep.
\<close>

section \<open>Tables with a key\<close>

locale keyed_table =
  fixes rows :: "'d \<Rightarrow> 'r list" and upd :: "('r list \<Rightarrow> 'r list) \<Rightarrow> 'd \<Rightarrow> 'd" and key :: "'r \<Rightarrow> string"
  assumes rows_upd: "rows (upd f d) = f (rows d)"
begin

definition keys :: "'d \<Rightarrow> string set" where
  "keys d = key ` set (rows d)"

definition keyed :: "'d \<Rightarrow> bool" where
  "keyed d \<longleftrightarrow> distinct (map key (rows d))"

definition lookup :: "string \<Rightarrow> 'd \<Rightarrow> 'r option" where
  "lookup k d = find (\<lambda>r. key r = k) (rows d)"

definition remove :: "string \<Rightarrow> 'd \<Rightarrow> 'd" where
  "remove k = upd (filter (\<lambda>r. key r \<noteq> k))"

definition modify :: "string \<Rightarrow> ('r \<Rightarrow> 'r) \<Rightarrow> 'd \<Rightarrow> 'd" where
  "modify k g = upd (map (\<lambda>r. if key r = k then g r else r))"

definition append :: "'r list \<Rightarrow> 'd \<Rightarrow> 'd" where
  "append rs = upd (\<lambda>xs. xs @ rs)"

lemma lookup_None_iff: "lookup k d = None \<longleftrightarrow> k \<notin> keys d"
  by (auto simp: lookup_def keys_def find_None_iff)

lemma lookup_key: "lookup k d = Some r \<Longrightarrow> key r = k \<and> r \<in> set (rows d)"
  by (auto simp: lookup_def find_Some_iff)

lemma lookup_Some_iff: "keyed d \<Longrightarrow> lookup k d = Some r \<longleftrightarrow> r \<in> set (rows d) \<and> key r = k"
proof
  assume keyed: "keyed d" and r: "r \<in> set (rows d) \<and> key r = k"
  then obtain s where s: "lookup k d = Some s"
    using lookup_None_iff [of k d] by (cases "lookup k d") (auto simp: keys_def)
  from lookup_key [OF s] r keyed have "s = r"
    by (auto simp: keyed_def distinct_map dest: inj_onD)
  with s show "lookup k d = Some r" by simp
qed (simp add: lookup_key)

lemma lookup_remove: "lookup k' (remove k d) = (if k' = k then None else lookup k' d)"
proof -
  have "find (\<lambda>r. key r = k') (filter (\<lambda>r. key r \<noteq> k) xs) = (if k' = k then None else find (\<lambda>r. key r = k') xs)" for xs
    by (induction xs) auto
  then show ?thesis by (simp add: lookup_def remove_def rows_upd)
qed

lemma lookup_modify:
  assumes "\<And>r. key (g r) = key r"
  shows "lookup k' (modify k g d) = (if k' = k then map_option g (lookup k' d) else lookup k' d)"
proof -
  have "find (\<lambda>r. key r = k') (map (\<lambda>r. if key r = k then g r else r) xs) =
        (if k' = k then map_option g (find (\<lambda>r. key r = k') xs) else find (\<lambda>r. key r = k') xs)" for xs
    by (induction xs) (auto simp: assms)
  then show ?thesis by (simp add: lookup_def modify_def rows_upd)
qed

lemma lookup_filter:
  assumes "keyed d" and "rows d' = filter p (rows d)"
  shows "lookup k d' = (case lookup k d of None \<Rightarrow> None | Some r \<Rightarrow> if p r then Some r else None)"
proof -
  have "find (\<lambda>r. key r = k) (filter p xs) =
        (case find (\<lambda>r. key r = k) xs of None \<Rightarrow> None | Some r \<Rightarrow> if p r then Some r else None)"
    if "distinct (map key xs)" for xs
    using that
  proof (induction xs)
    case (Cons x xs)
    have "find (\<lambda>r. key r = key x) (filter p xs) = None"
      using Cons.prems by (auto simp: find_None_iff image_iff)
    with Cons show ?case by auto
  qed simp
  with assms show ?thesis by (simp add: keyed_def lookup_def)
qed

lemma keyed_filter: "keyed d \<Longrightarrow> rows d' = filter p (rows d) \<Longrightarrow> keyed d'"
  by (simp add: keyed_def distinct_map_filter)

lemma lookup_append:
  "lookup k (append rs d) = (case lookup k d of Some r \<Rightarrow> Some r | None \<Rightarrow> find (\<lambda>r. key r = k) rs)"
proof -
  have "find p (xs @ rs) = (case find p xs of Some r \<Rightarrow> Some r | None \<Rightarrow> find p rs)" for p and xs :: "'r list"
    by (induction xs) auto
  then show ?thesis by (simp add: lookup_def append_def rows_upd)
qed

lemma keyed_remove: "keyed d \<Longrightarrow> keyed (remove k d)"
  by (simp add: keyed_def remove_def rows_upd distinct_map_filter)

lemma map_key_modify: "(\<And>r. key (g r) = key r) \<Longrightarrow> map key (rows (modify k g d)) = map key (rows d)"
  by (simp add: modify_def rows_upd)

lemma keyed_modify: "(\<And>r. key (g r) = key r) \<Longrightarrow> keyed d \<Longrightarrow> keyed (modify k g d)"
  by (simp add: keyed_def map_key_modify)

lemma keyed_append:
  "keyed d \<Longrightarrow> distinct (map key rs) \<Longrightarrow> key ` set rs \<inter> keys d = {} \<Longrightarrow> keyed (append rs d)"
  by (auto simp: keyed_def append_def rows_upd keys_def)

text \<open>Loops of statements over a list of keys.\<close>

lemma lookup_fold_remove: "lookup k (fold remove ks d) = (if k \<in> set ks then None else lookup k d)"
  by (induction ks arbitrary: d) (auto simp: lookup_remove)

lemma lookup_fold_modify:
  assumes "\<And>x r. key (g x r) = key r" and "distinct (map f xs)"
  shows "lookup k (fold (\<lambda>x. modify (f x) (g x)) xs d) =
         (case find (\<lambda>x. f x = k) xs of None \<Rightarrow> lookup k d | Some x \<Rightarrow> map_option (g x) (lookup k d))"
  using assms(2)
proof (induction xs arbitrary: d)
  case Nil
  then show ?case by simp
next
  case (Cons x xs)
  have "find (\<lambda>y. f y = f x) xs = None" using Cons.prems unfolding find_None_iff by (metis distinct.simps(2) image_eqI list.set_map list.simps(9))
  with Cons show ?case by (cases "k = f x"; cases "find (\<lambda>x. f x = k) xs") (simp_all add: lookup_modify assms(1))
qed

end

interpretation jobs: keyed_table db_Jobs db_Jobs_update jr_ID by unfold_locales simp
interpretation tasks: keyed_table db_Tasks db_Tasks_update tr_ID by unfold_locales simp
interpretation datasets: keyed_table db_Datasets db_Datasets_update "\<lambda>r. d_ID (dr_Dataset r)" by unfold_locales simp
interpretation containers: keyed_table db_Containers db_Containers_update ct_URI by unfold_locales simp
interpretation variables: keyed_table db_Variables db_Variables_update v_ID by unfold_locales simp
interpretation locks: keyed_table db_Locks db_Locks_update lk_DatasetID by unfold_locales simp

section \<open>The statements as operations on keyed tables\<close>

lemma find_job_lookup: "find_job = jobs.lookup"
  by (simp add: fun_eq_iff find_job_def jobs.lookup_def)

lemma pg_DeleteTask_eq: "pg_DeleteTask i d = (Inr (), tasks.remove i d)"
  by (simp add: pg_DeleteTask_def pg_delete_def tasks.remove_def)

lemma pg_UpdateTask_eq:
  "pg_UpdateTask t d =
     (if t_ID t \<in> tasks.keys d then (Inr (), tasks.modify (t_ID t) (tr_State_update (\<lambda>_. t_State t)) d)
      else (Inl (NewEntityNotFound ''Task'' ''id'' (t_ID t) []), d))"
proof -
  have "list_ex (\<lambda>r. tr_ID r = t_ID t) (db_Tasks d) \<longleftrightarrow> t_ID t \<in> tasks.keys d"
    by (force simp: tasks.keys_def list_ex_iff)
  moreover have "(\<lambda>r. if tr_ID r = t_ID t then r\<lparr>tr_State := t_State t\<rparr> else r) =
                 (\<lambda>r. if tr_ID r = t_ID t then tr_State_update (\<lambda>_. t_State t) r else r)"
    by (rule ext) simp
  ultimately show ?thesis by (simp add: pg_UpdateTask_def tasks.modify_def)
qed

definition new_task_row :: "string \<Rightarrow> Task \<Rightarrow> task_row" where
  "new_task_row job t = \<lparr>tr_ID = t_ID t, tr_State = t_State t, tr_Payload = t_Payload t, tr_JobID = job\<rparr>"

lemma pg_CreateTasks_Inr:
  "pg_CreateTasks job ts d = (Inr u, d') \<longleftrightarrow>
     distinct (map t_ID ts) \<and> t_ID ` set ts \<inter> tasks.keys d = {} \<and> (ts = [] \<or> job \<in> jobs.keys d) \<and>
     d' = tasks.append (map (new_task_row job) ts) d"
proof -
  have "list_ex (\<lambda>t. list_ex (\<lambda>r. tr_ID r = t_ID t) (db_Tasks d)) ts \<longleftrightarrow> t_ID ` set ts \<inter> tasks.keys d \<noteq> {}"
    by (force simp: list_ex_iff tasks.keys_def)
  moreover have "list_ex (\<lambda>r. jr_ID r = job) (db_Jobs d) \<longleftrightarrow> job \<in> jobs.keys d"
    by (force simp: list_ex_iff jobs.keys_def)
  moreover have "new_task_row job = (\<lambda>t. \<lparr>tr_ID = t_ID t, tr_State = t_State t, tr_Payload = t_Payload t, tr_JobID = job\<rparr>)"
    by (rule ext) (simp add: new_task_row_def)
  ultimately show ?thesis
    by (auto simp: pg_CreateTasks_def tasks.append_def)
qed

section \<open>Locks\<close>

text \<open>The column of a dataset names the job that holds its row in the table of locks.\<close>

definition lock_holder :: "db \<Rightarrow> string \<Rightarrow> string option" where
  "lock_holder d i = map_option lk_JobID (locks.lookup i d)"

definition locks_agree :: "db \<Rightarrow> bool" where
  "locks_agree d \<longleftrightarrow>
     locks.keyed d \<and> (\<forall>r \<in> set (db_Datasets d). dr_LockedBy r = lock_holder d (d_ID (dr_Dataset r))) \<and>
     locks.keys d \<subseteq> datasets.keys d"

lemma lock_holder_simps:
  "locks.keyed d \<Longrightarrow> lock_holder d i = Some j \<longleftrightarrow> (\<exists>l \<in> set (db_Locks d). lk_DatasetID l = i \<and> lk_JobID l = j)"
  by (auto simp: lock_holder_def locks.lookup_Some_iff)

lemma lock_conflict_None:
  "lock_conflict ids d = None \<longleftrightarrow> distinct ids \<and> set ids \<inter> locks.keys d = {}"
proof -
  have "\<exists>i \<in> set ids. count_list ids i > 1" if "\<not> distinct ids"
    using that
  proof (induction ids)
    case (Cons x xs)
    show ?case
    proof (cases "distinct xs")
      case True
      with Cons.prems have "x \<in> set xs" by simp
      then show ?thesis by (intro bexI [of _ x]) (auto simp: zero_less_iff_neq_zero count_list_0_iff)
    next
      case False
      with Cons.IH obtain i where "i \<in> set xs" "count_list xs i > 1" by auto
      then show ?thesis by (intro bexI [of _ i]) auto
    qed
  qed simp
  then have d: "find (\<lambda>i. count_list ids i > 1) ids \<noteq> None" if "\<not> distinct ids"
    using that by (auto simp: find_None_iff)
  have f: "find (\<lambda>i. list_ex (\<lambda>l. lk_DatasetID l = i) (db_Locks d)) ids = None \<longleftrightarrow> set ids \<inter> locks.keys d = {}"
    by (force simp: find_None_iff list_ex_iff locks.keys_def)
  show ?thesis
  proof (cases "find (\<lambda>i. list_ex (\<lambda>l. lk_DatasetID l = i) (db_Locks d)) ids")
    case None
    with f d show ?thesis by (auto simp: lock_conflict_def)
  next
    case (Some i)
    with f show ?thesis by (simp add: lock_conflict_def)
  qed
qed

definition new_lock_row :: "string \<Rightarrow> int \<Rightarrow> string \<Rightarrow> lock_row" where
  "new_lock_row job flag i = \<lparr>lk_DatasetID = i, lk_JobID = job, lk_Flag = flag\<rparr>"

definition set_locker :: "string option \<Rightarrow> (dataset_row \<Rightarrow> bool) \<Rightarrow> db \<Rightarrow> db" where
  "set_locker j p d = d\<lparr>db_Datasets := map (\<lambda>r. if p r then r\<lparr>dr_LockedBy := j\<rparr> else r) (db_Datasets d)\<rparr>"

lemma datasets_keys_set_locker [simp]: "datasets.keys (set_locker j p d) = datasets.keys d"
proof -
  have "map (\<lambda>r. d_ID (dr_Dataset r)) (db_Datasets (set_locker j p d)) = map (\<lambda>r. d_ID (dr_Dataset r)) (db_Datasets d)"
    by (simp add: set_locker_def)
  from arg_cong [OF this, of set] show ?thesis by (simp add: datasets.keys_def)
qed

lemma pg_LockDatasets_Inr:
  "pg_LockDatasets job ids flag d = (Inr u, d') \<longleftrightarrow>
     distinct ids \<and> set ids \<inter> locks.keys d = {} \<and>
     (ids = [] \<or> job \<in> jobs.keys d \<and> set ids \<subseteq> datasets.keys d) \<and>
     d' = set_locker (Some job) (\<lambda>r. d_ID (dr_Dataset r) \<in> set ids) (locks.append (map (new_lock_row job flag) ids) d)"
proof -
  have "list_all (\<lambda>i. list_ex (\<lambda>r. d_ID (dr_Dataset r) = i) (db_Datasets d)) ids \<longleftrightarrow> set ids \<subseteq> datasets.keys d"
    by (auto simp: datasets.keys_def list_all_iff list_ex_iff)
  moreover have "list_ex (\<lambda>r. jr_ID r = job) (db_Jobs d) \<longleftrightarrow> job \<in> jobs.keys d"
    by (auto simp: jobs.keys_def list_ex_iff)
  moreover have "new_lock_row job flag = (\<lambda>i. \<lparr>lk_DatasetID = i, lk_JobID = job, lk_Flag = flag\<rparr>)"
    by (rule ext) (simp add: new_lock_row_def)
  note facts = calculation this
  show ?thesis
  proof (cases "lock_conflict ids d")
    case None
    then have "distinct ids" "set ids \<inter> locks.keys d = {}" by (simp_all add: lock_conflict_None)
    with None facts show ?thesis
      by (auto simp: pg_LockDatasets_def set_locker_def locks.append_def)
  next
    case (Some i)
    then have "\<not> (distinct ids \<and> set ids \<inter> locks.keys d = {})"
      by (simp add: lock_conflict_None [symmetric])
    with Some show ?thesis by (auto simp: pg_LockDatasets_def)
  qed
qed

lemma locks_agree_lock:
  assumes "pg_LockDatasets job ids flag d = (Inr u, d')" "locks_agree d"
  shows "locks_agree d'"
proof -
  from assms(1) have g: "distinct ids" "set ids \<inter> locks.keys d = {}" "ids = [] \<or> set ids \<subseteq> datasets.keys d"
    and d': "d' = set_locker (Some job) (\<lambda>r. d_ID (dr_Dataset r) \<in> set ids) (locks.append (map (new_lock_row job flag) ids) d)"
    by (auto simp: pg_LockDatasets_Inr)
  let ?d = "locks.append (map (new_lock_row job flag) ids) d"
  have look: "locks.lookup i d' = (if i \<in> set ids then Some (new_lock_row job flag i) else locks.lookup i d)" for i
  proof -
    have l: "locks.lookup i d' = locks.lookup i ?d" by (simp add: d' set_locker_def locks.lookup_def)
    have f: "find (\<lambda>r. lk_DatasetID r = i) (map (new_lock_row job flag) ids) =
             (if i \<in> set ids then Some (new_lock_row job flag i) else None)"
      by (induction ids) (auto simp: new_lock_row_def)
    show ?thesis using g(2) locks.lookup_None_iff [of i d]
      by (auto simp: l f locks.lookup_append split: option.splits)
  qed
  have kd: "locks.keyed d'" using assms(2) g
    by (auto simp: locks_agree_def locks.keyed_def d' set_locker_def locks.append_def new_lock_row_def comp_def locks.keys_def)
  have "locks.keys d' = locks.keys d \<union> set ids"
    by (simp add: d' set_locker_def locks.append_def locks.keys_def new_lock_row_def image_Un image_image)
  moreover have "datasets.keys d' = datasets.keys d"
    unfolding d' datasets_keys_set_locker by (simp add: locks.append_def datasets.keys_def)
  ultimately have sub: "locks.keys d' \<subseteq> datasets.keys d'" using assms(2) g(3) by (auto simp: locks_agree_def)
  have "\<forall>r \<in> set (db_Datasets d'). dr_LockedBy r = lock_holder d' (d_ID (dr_Dataset r))"
  proof
    fix r assume "r \<in> set (db_Datasets d')"
    then obtain x where x: "x \<in> set (db_Datasets d)"
      "r = (if d_ID (dr_Dataset x) \<in> set ids then x\<lparr>dr_LockedBy := Some job\<rparr> else x)"
      by (auto simp: d' set_locker_def locks.append_def)
    from assms(2) x(1) have "dr_LockedBy x = lock_holder d (d_ID (dr_Dataset x))" by (simp add: locks_agree_def)
    with x(2) show "dr_LockedBy r = lock_holder d' (d_ID (dr_Dataset r))"
      by (simp add: lock_holder_def look new_lock_row_def)
  qed
  with kd sub show ?thesis by (simp add: locks_agree_def)
qed

definition held :: "string \<Rightarrow> int \<Rightarrow> lock_row \<Rightarrow> bool" where
  "held job flag l \<longleftrightarrow> lk_JobID l = job \<and> lk_Flag l = flag"

definition drop_locks :: "(lock_row \<Rightarrow> bool) \<Rightarrow> db \<Rightarrow> db" where
  "drop_locks p d = d\<lparr>db_Locks := filter (\<lambda>l. \<not> p l) (db_Locks d)\<rparr>"

lemma pg_ReleaseDatasets_eq:
  "pg_ReleaseDatasets job flag d =
     (Inr (), drop_locks (held job flag) (set_locker None (\<lambda>r. dr_LockedBy r = Some job \<and>
         list_ex (\<lambda>l. lk_DatasetID l = d_ID (dr_Dataset r) \<and> lk_Flag l = flag) (db_Locks d)) d))"
  by (simp add: pg_ReleaseDatasets_def set_locker_def held_def drop_locks_def)

lemma locks_agree_drop:
  assumes "locks_agree d" "db_Locks d' = filter (\<lambda>l. \<not> p l) (db_Locks d)"
    and ds: "db_Datasets d' = map (\<lambda>r. if \<exists>l \<in> set (db_Locks d). lk_DatasetID l = d_ID (dr_Dataset r) \<and> p l
                                     then r\<lparr>dr_LockedBy := None\<rparr> else r) (db_Datasets d)"
  shows "locks_agree d'"
proof -
  from assms(1) have k: "locks.keyed d" by (simp add: locks_agree_def)
  then have k': "locks.keyed d'" by (rule locks.keyed_filter) (rule assms(2))
  have look: "locks.lookup i d' = (case locks.lookup i d of None \<Rightarrow> None | Some l \<Rightarrow> if p l then None else Some l)" for i
    using locks.lookup_filter [OF k assms(2), of i] by (simp split: option.splits)
  have held: "(\<exists>l \<in> set (db_Locks d). lk_DatasetID l = i \<and> p l) \<longleftrightarrow> (\<exists>l. locks.lookup i d = Some l \<and> p l)" for i
    by (auto simp: locks.lookup_Some_iff [OF k])
  have "\<forall>r \<in> set (db_Datasets d'). dr_LockedBy r = lock_holder d' (d_ID (dr_Dataset r))"
    using assms(1) unfolding ds held
    by (auto simp: locks_agree_def lock_holder_def look split: option.splits)
  moreover have "map (\<lambda>r. d_ID (dr_Dataset r)) (db_Datasets d') = map (\<lambda>r. d_ID (dr_Dataset r)) (db_Datasets d)"
    by (simp add: ds)
  then have "datasets.keys d' = datasets.keys d"
    unfolding datasets.keys_def by (metis list.set_map)
  moreover have "locks.keys d' \<subseteq> locks.keys d" by (auto simp: locks.keys_def assms(2))
  ultimately show ?thesis using assms(1) k' by (auto simp: locks_agree_def)
qed

lemma locks_agree_release:
  assumes "locks_agree d"
  shows "locks_agree (snd (pg_ReleaseDatasets job flag d))"
proof (rule locks_agree_drop [where p = "held job flag", OF assms])
  from assms have k: "locks.keyed d" by (simp add: locks_agree_def)
  have "dr_LockedBy r = Some job \<and> list_ex (\<lambda>l. lk_DatasetID l = d_ID (dr_Dataset r) \<and> lk_Flag l = flag) (db_Locks d)
        \<longleftrightarrow> (\<exists>l \<in> set (db_Locks d). lk_DatasetID l = d_ID (dr_Dataset r) \<and> held job flag l)" if "r \<in> set (db_Datasets d)" for r
  proof -
    have r: "dr_LockedBy r = lock_holder d (d_ID (dr_Dataset r))" using assms that by (simp add: locks_agree_def)
    have u: "l = l'" if "l \<in> set (db_Locks d)" "l' \<in> set (db_Locks d)" "lk_DatasetID l = lk_DatasetID l'" for l l'
      using k that by (auto simp: locks.keyed_def distinct_map dest: inj_onD)
    show ?thesis
    proof
      assume "dr_LockedBy r = Some job \<and> list_ex (\<lambda>l. lk_DatasetID l = d_ID (dr_Dataset r) \<and> lk_Flag l = flag) (db_Locks d)"
      then obtain l l' where "l \<in> set (db_Locks d)" "lk_DatasetID l = d_ID (dr_Dataset r)" "lk_JobID l = job"
        "l' \<in> set (db_Locks d)" "lk_DatasetID l' = d_ID (dr_Dataset r)" "lk_Flag l' = flag"
        unfolding r lock_holder_simps [OF k] by (auto simp: list_ex_iff)
      with u [of l l'] show "\<exists>l \<in> set (db_Locks d). lk_DatasetID l = d_ID (dr_Dataset r) \<and> held job flag l"
        by (auto simp: held_def)
    next
      assume "\<exists>l \<in> set (db_Locks d). lk_DatasetID l = d_ID (dr_Dataset r) \<and> held job flag l"
      then show "dr_LockedBy r = Some job \<and> list_ex (\<lambda>l. lk_DatasetID l = d_ID (dr_Dataset r) \<and> lk_Flag l = flag) (db_Locks d)"
        unfolding r lock_holder_simps [OF k] by (auto simp: list_ex_iff held_def)
    qed
  qed
  then show "db_Datasets (snd (pg_ReleaseDatasets job flag d)) =
      map (\<lambda>r. if \<exists>l \<in> set (db_Locks d). lk_DatasetID l = d_ID (dr_Dataset r) \<and> held job flag l
               then r\<lparr>dr_LockedBy := None\<rparr> else r) (db_Datasets d)"
    by (simp add: pg_ReleaseDatasets_eq drop_locks_def set_locker_def)
qed (simp add: pg_ReleaseDatasets_eq drop_locks_def set_locker_def)

text \<open>The agreement only reads two tables.\<close>

lemma locks_agree_cong:
  assumes "db_Locks d' = db_Locks d" "map (\<lambda>r. (d_ID (dr_Dataset r), dr_LockedBy r)) (db_Datasets d') =
      map (\<lambda>r. (d_ID (dr_Dataset r), dr_LockedBy r)) (db_Datasets d)"
  shows "locks_agree d' = locks_agree d"
proof -
  let ?f = "\<lambda>r. (d_ID (dr_Dataset r), dr_LockedBy r)"
  have s: "?f ` set (db_Datasets d') = ?f ` set (db_Datasets d)"
    using arg_cong [OF assms(2), of set] by simp
  have a': "(\<forall>r \<in> set (db_Datasets e). dr_LockedBy r = h (d_ID (dr_Dataset r))) \<longleftrightarrow>
           (\<forall>x \<in> ?f ` set (db_Datasets e). snd x = h (fst x))" for e h
    by simp
  have b: "datasets.keys e = fst ` ?f ` set (db_Datasets e)" for e
    unfolding datasets.keys_def image_image fst_conv ..
  have c: "lock_holder d' = lock_holder d"
    by (simp add: lock_holder_def locks.lookup_def assms(1) fun_eq_iff)
  show ?thesis
    unfolding locks_agree_def a' b c s locks.keyed_def locks.keys_def assms(1) ..
qed

lemma locks_agree_frame:
  "db_Locks d' = db_Locks d \<Longrightarrow> db_Datasets d' = db_Datasets d \<Longrightarrow> locks_agree d' = locks_agree d"
  by (rule locks_agree_cong) simp_all

end
