(* ===== verification/JobTasksProps.thy ===== *)
theory JobTasksProps
  imports JobTasks
begin

text \<open>
  The counters of a job against its tasks.  A job may hold only some of its tasks (the code loads
  them by state), so the invariant is about the difference between a counter and the tasks that
  are loaded: every operation keeps it, and where it is not negative no counter ever goes below
  zero, so the panics of \<open>updateTaskCounters\<close> are unreachable.
\<close>

section \<open>Weights and slack\<close>

definition aw :: "TaskState \<Rightarrow> int" where
  "aw s = (if s = TaskStatePENDING \<or> s = TaskStateNEW then 1 else 0)"

definition fw :: "TaskState \<Rightarrow> int" where
  "fw s = (if s = TaskStateFAILED then 1 else 0)"

definition active_in :: "Task list \<Rightarrow> int" where
  "active_in ts = sum_list (map (\<lambda>t. aw (t_State t)) ts)"

definition failed_in :: "Task list \<Rightarrow> int" where
  "failed_in ts = sum_list (map (\<lambda>t. fw (t_State t)) ts)"

definition active_slack :: "Job \<Rightarrow> int" where
  "active_slack j = j_ActiveTasks j - active_in (j_Tasks j)"

definition failed_slack :: "Job \<Rightarrow> int" where
  "failed_slack j = j_FailedTasks j - failed_in (j_Tasks j)"

definition tasks_alive :: "Job \<Rightarrow> bool" where
  "tasks_alive j \<longleftrightarrow> (\<forall>t \<in> set (j_Tasks j). t_ps t \<noteq> DELETED)"

definition job_ok :: "Job \<Rightarrow> bool" where
  "job_ok j \<longleftrightarrow> alive j \<and> tasks_alive j \<and> 0 \<le> active_slack j \<and> 0 \<le> failed_slack j"

text \<open>What an operation on tasks keeps.\<close>

definition task_frame :: "Job \<Rightarrow> Job \<Rightarrow> bool" where
  "task_frame j j' \<longleftrightarrow>
     job_ok j' \<and> active_slack j' = active_slack j \<and> failed_slack j' = failed_slack j \<and>
     map t_ID (j_Tasks j') = map t_ID (j_Tasks j) \<and> j_State j' = j_State j \<and> j_Waiting j' = j_Waiting j \<and>
     j_LockedDatasets j' = j_LockedDatasets j \<and> j_ID j' = j_ID j \<and> j_Type j' = j_Type j"

lemma task_frame_refl [intro]: "job_ok j \<Longrightarrow> task_frame j j"
  by (simp add: task_frame_def)

lemma task_frame_trans: "task_frame a b \<Longrightarrow> task_frame b c \<Longrightarrow> task_frame a c"
  by (simp add: task_frame_def)

lemma task_frame_length: "task_frame j j' \<Longrightarrow> length (j_Tasks j') = length (j_Tasks j)"
  by (metis task_frame_def length_map)

lemma aw_nonneg [simp]: "0 \<le> aw s" and fw_nonneg [simp]: "0 \<le> fw s"
  by (simp_all add: aw_def fw_def)

lemma active_in_nonneg: "0 \<le> active_in ts" and failed_in_nonneg: "0 \<le> failed_in ts"
  by (induction ts) (simp_all add: active_in_def failed_in_def)

lemma sum_list_update_int:
  "i < length xs \<Longrightarrow> sum_list (map f (xs[i := y])) = sum_list (map f xs) - f (xs ! i) + (f y :: int)"
  by (induction xs arbitrary: i) (auto split: nat.split)

lemma weights_update:
  assumes "i < length ts"
  shows "active_in (ts[i := t]) = active_in ts - aw (t_State (ts ! i)) + aw (t_State t)"
    and "failed_in (ts[i := t]) = failed_in ts - fw (t_State (ts ! i)) + fw (t_State t)"
  using assms by (simp_all add: active_in_def failed_in_def sum_list_update_int)

lemma member_le_sum_int:
  fixes f :: "'a \<Rightarrow> int"
  assumes "\<And>x. 0 \<le> f x"
  shows "i < length xs \<Longrightarrow> f (xs ! i) \<le> sum_list (map f xs)"
proof (induction xs arbitrary: i)
  case Nil
  then show ?case by simp
next
  case (Cons x xs)
  have "0 \<le> sum_list (map f xs)" using assms by (induction xs) (simp_all add: add_nonneg_nonneg)
  with Cons assms [of x] show ?case by (cases i) (auto intro: add_increasing)
qed

lemma weight_member:
  assumes "i < length ts"
  shows "aw (t_State (ts ! i)) \<le> active_in ts" and "fw (t_State (ts ! i)) \<le> failed_in ts"
  using member_le_sum_int [of "\<lambda>t. aw (t_State t)", OF _ assms]
    member_le_sum_int [of "\<lambda>t. fw (t_State t)", OF _ assms]
  by (simp_all add: active_in_def failed_in_def)

section \<open>One task\<close>

definition counted :: "gtime \<Rightarrow> TaskState \<Rightarrow> int \<Rightarrow> Job \<Rightarrow> Job" where
  "counted now s inc j =
     (if aw s + fw s = 0 then j
      else j\<lparr>j_ActiveTasks := j_ActiveTasks j + inc * aw s, j_FailedTasks := j_FailedTasks j + inc * fw s,
             j_LastUpdateTime := now, j_ps := touched (j_ps j)\<rparr>)"

lemma counted_simps [simp]:
  "j_ActiveTasks (counted now s inc j) = j_ActiveTasks j + inc * aw s"
  "j_FailedTasks (counted now s inc j) = j_FailedTasks j + inc * fw s"
  "j_Tasks (counted now s inc j) = j_Tasks j"
  "alive (counted now s inc j) = alive j"
  "j_State (counted now s inc j) = j_State j"
  "j_Waiting (counted now s inc j) = j_Waiting j"
  "j_LockedDatasets (counted now s inc j) = j_LockedDatasets j"
  "j_ID (counted now s inc j) = j_ID j"
  "j_Type (counted now s inc j) = j_Type j"
  by (auto simp: counted_def alive_def aw_def fw_def)

lemma updateTaskCounters_counted:
  assumes "alive j" and "0 \<le> j_ActiveTasks j + inc * aw s" and "0 \<le> j_FailedTasks j + inc * fw s"
  shows "updateTaskCounters now s inc j = Ret (counted now s inc j)"
proof -
  have al: "alive (j\<lparr>j_ActiveTasks := a\<rparr>)" "alive (j\<lparr>j_FailedTasks := a\<rparr>)" for a
    using assms(1) by (simp_all add: alive_def)
  show ?thesis
    using assms by (cases s) (auto simp: updateTaskCounters_def job_dirty_alive al counted_def aw_def fw_def)
qed

lemma setTaskState_ok:
  assumes "job_ok j" and "i < length (j_Tasks j)"
  shows "\<exists>b j'. setTaskState now i s j = Ret (b, j') \<and> task_frame j j' \<and>
     (\<exists>p. p \<noteq> DELETED \<and> (IsToDelete (t_ps (j_Tasks j ! i)) \<longrightarrow> IsToDelete p) \<and>
        j_Tasks j' = (j_Tasks j)[i := (j_Tasks j ! i)\<lparr>t_State := s, t_ps := p\<rparr>])"
proof (cases "t_State (j_Tasks j ! i) = s")
  case True
  have "t_ps (j_Tasks j ! i) \<noteq> DELETED" using assms by (simp add: job_ok_def tasks_alive_def)
  moreover have "(j_Tasks j)[i := (j_Tasks j ! i)\<lparr>t_State := s, t_ps := t_ps (j_Tasks j ! i)\<rparr>] = j_Tasks j"
    using True by (simp flip: True)
  ultimately show ?thesis
    using True assms
    by (auto simp: setTaskState_def setState_def Let_def task_frame_def intro!: exI [of _ "t_ps (j_Tasks j ! i)"])
next
  case False
  let ?t = "j_Tasks j ! i"
  let ?p = "touched (t_ps ?t)"
  let ?t' = "?t\<lparr>t_State := s, t_ps := ?p\<rparr>"
  let ?j1 = "j\<lparr>j_Tasks := (j_Tasks j)[i := ?t']\<rparr>"
  let ?j' = "counted now s 1 (counted now (t_State ?t) (- 1) ?j1)"
  have p: "t_ps ?t \<noteq> DELETED" using assms by (simp add: job_ok_def tasks_alive_def)
  have al: "alive ?j1" using assms(1) by (simp add: job_ok_def alive_def)
  have "0 \<le> j_ActiveTasks j - aw (t_State ?t)" "0 \<le> j_FailedTasks j - fw (t_State ?t)"
    using assms weight_member [OF assms(2)] by (auto simp: job_ok_def active_slack_def failed_slack_def)
  then have run: "setTaskState now i s j = Ret (True, ?j')"
    using assms(2) False p al
    by (simp add: setTaskState_def setState_def Let_def ps_dirty_touched updateTaskCounters_counted)
  have tasks: "j_Tasks ?j' = (j_Tasks j)[i := ?t']" by simp
  have "map t_ID ((j_Tasks j)[i := ?t']) = map t_ID (j_Tasks j)"
    by (simp add: map_update) (metis assms(2) list_update_id map_update)
  moreover have "tasks_alive ?j'"
    using assms p by (auto simp: job_ok_def tasks_alive_def dest!: set_update_subset_insert [THEN subsetD])
  moreover have "active_slack ?j' = active_slack j" "failed_slack ?j' = failed_slack j"
    using weights_update [OF assms(2), of ?t'] by (simp_all add: active_slack_def failed_slack_def)
  ultimately have "task_frame j ?j'"
    using assms(1) al by (simp add: task_frame_def job_ok_def)
  with run tasks p show ?thesis
    by (auto simp: ps_tests touched_def intro!: exI [of _ ?p])
qed

section \<open>The operations\<close>

lemma task_frame_logged: "job_ok j \<Longrightarrow> task_frame j (logged now sev msg j)"
  by (simp add: task_frame_def job_ok_def tasks_alive_def active_slack_def failed_slack_def)

lemma task_at_Some:
  "task_at taskID ts = Some i \<Longrightarrow> i < length ts \<and> t_ID (ts ! i) = taskID \<and> (\<forall>k<i. t_ID (ts ! k) \<noteq> taskID)"
proof (induction ts arbitrary: i)
  case Nil
  then show ?case by simp
next
  case (Cons t ts)
  show ?case
  proof (cases "t_ID t = taskID")
    case True
    with Cons.prems show ?thesis by simp
  next
    case False
    with Cons.prems obtain z where "i = Suc z" "task_at taskID ts = Some z" by auto
    with Cons.IH [of z] False show ?thesis by (auto simp: less_Suc_eq_0_disj)
  qed
qed

lemma task_at_None: "task_at taskID ts = None \<longleftrightarrow> (\<forall>t \<in> set ts. t_ID t \<noteq> taskID)"
  by (induction ts) auto

text \<open>The states a task may move to by a task event.\<close>

fun task_move :: "TaskState \<Rightarrow> TaskState \<Rightarrow> bool" where
  "task_move TaskStateDONE s \<longleftrightarrow> s = TaskStateDONE"
| "task_move TaskStateFAILED s \<longleftrightarrow> s = TaskStateFAILED \<or> s = TaskStateDONE"
| "task_move TaskStateCANCELLED s \<longleftrightarrow> s = TaskStateCANCELLED \<or> s = TaskStateDONE"
| "task_move _ s \<longleftrightarrow> True"

lemma task_move_refl [simp]: "task_move s s"
  by (cases s) simp_all

definition handles_task_events :: "JobState \<Rightarrow> bool" where
  "handles_task_events s \<longleftrightarrow>
     s = JobStateCONSOLIDATIONINPROGRESS \<or> s = JobStateDELETIONEFFECTIVE \<or> s = JobStateCONSOLIDATIONCANCELLING"

definition task_moved :: "Job \<Rightarrow> Job \<Rightarrow> bool" where
  "task_moved j j' \<longleftrightarrow>
     task_frame j j' \<and>
     (\<forall>k < length (j_Tasks j). task_move (t_State (j_Tasks j ! k)) (t_State (j_Tasks j' ! k)))"

lemma unhandled_task_cases:
  "unhandled_task evt j = Panic ''undefined task status'' \<and> (te_Status evt = TaskSent \<or> te_Status evt = TaskIgnored) \<or>
   (\<exists>err. unhandled_task evt j = Ret (Some err, j) \<and> IsError (Some err) UnhandledEvent)"
  by (cases "te_Status evt") (simp_all add: unhandled_task_def)

lemma change_task_ok:
  assumes "job_ok j" and "i < length (j_Tasks j)" and "task_move (t_State (j_Tasks j ! i)) s"
  shows "\<exists>j'. go_bind (setTaskState now i s j) (\<lambda>(_, j).
            go_bind (if s = TaskStateFAILED then LogErr now msg j else Ret j)
              (\<lambda>j. Ret (None, j))) = Ret (None, j') \<and>
     task_moved j j' \<and> t_State (j_Tasks j' ! i) = s"
proof -
  from setTaskState_ok [OF assms(1,2), of now s] obtain b j1 p where
    j1: "setTaskState now i s j = Ret (b, j1)" "task_frame j j1"
      "j_Tasks j1 = (j_Tasks j)[i := (j_Tasks j ! i)\<lparr>t_State := s, t_ps := p\<rparr>]" by blast
  have ok: "job_ok j1" "alive j1" using j1(2) by (auto simp: task_frame_def job_ok_def)
  let ?j' = "if s = TaskStateFAILED then (if msg = [] then j1 else logged now ERROR msg j1) else j1"
  have tasks: "j_Tasks ?j' = j_Tasks j1" by simp
  have "task_frame j ?j'"
    using j1(2) ok by (auto intro: task_frame_trans task_frame_logged)
  then have "task_moved j ?j'"
    using assms(2,3) by (auto simp: task_moved_def tasks j1(3) nth_list_update)
  moreover have "t_State (j_Tasks ?j' ! i) = s" using assms(2) by (simp add: tasks j1(3))
  ultimately show ?thesis
    using j1(1) ok by (auto simp: LogErr_alive)
qed

lemma UpdateTask_ok:
  assumes "job_ok j"
  shows "(\<exists>eo j'. UpdateTask now evt j = Ret (eo, j') \<and> task_moved j j') \<or>
     UpdateTask now evt j = Panic ''undefined task status'' \<and> (te_Status evt = TaskSent \<or> te_Status evt = TaskIgnored)"
proof (cases "task_at (te_TaskID evt) (j_Tasks j)")
  case None
  with assms show ?thesis by (auto simp: UpdateTask_def task_moved_def)
next
  case (Some i)
  let ?s = "taskStateFromStatus (te_Status evt)"
  let ?old = "t_State (j_Tasks j ! i)"
  have i: "i < length (j_Tasks j)" using task_at_Some [OF Some] by simp
  have same: "task_moved j j" using assms by (auto simp: task_moved_def)
  note un = unhandled_task_cases [of evt j]
  have change: "task_move ?old ?s \<Longrightarrow> \<exists>j'. go_bind (setTaskState now i ?s j) (\<lambda>(_, j).
            go_bind (if ?s = TaskStateFAILED
                     then LogErr now (''Task '' @ te_TaskID evt @ '' failed: '' @ te_Error evt) j else Ret j)
              (\<lambda>j. Ret (None, j))) = Ret (None, j') \<and> task_moved j j'"
    using change_task_ok [OF assms i, of ?s now "''Task '' @ te_TaskID evt @ '' failed: '' @ te_Error evt"]
    by blast
  consider (same) "?s = ?old" | (refused) "?s \<noteq> ?old" "\<not> handles_task_events (j_State j) \<or> ?old = TaskStateDONE"
    | (kept) "?s \<noteq> ?old" "handles_task_events (j_State j)" "?old = TaskStateFAILED \<or> ?old = TaskStateCANCELLED" "?s \<noteq> TaskStateDONE"
    | (change) "?s \<noteq> ?old" "handles_task_events (j_State j)" "?old \<noteq> TaskStateDONE" "task_move ?old ?s"
    by (cases ?old) auto
  then show ?thesis
  proof cases
    case same
    with Some \<open>task_moved j j\<close> show ?thesis by (simp add: UpdateTask_def Let_def)
  next
    case refused
    then have "UpdateTask now evt j = unhandled_task evt j"
      using Some by (auto simp: UpdateTask_def Let_def handles_task_events_def)
    with un \<open>task_moved j j\<close> show ?thesis by auto
  next
    case kept
    then have "UpdateTask now evt j = Ret (None, j)"
      using Some by (auto simp: UpdateTask_def Let_def handles_task_events_def)
    with \<open>task_moved j j\<close> show ?thesis by auto
  next
    case change
    then have "UpdateTask now evt j = go_bind (setTaskState now i ?s j) (\<lambda>(_, j).
            go_bind (if ?s = TaskStateFAILED
                     then LogErr now (''Task '' @ te_TaskID evt @ '' failed: '' @ te_Error evt) j else Ret j)
              (\<lambda>j. Ret (None, j)))"
      using Some by (cases ?old) (auto simp: UpdateTask_def Let_def handles_task_events_def)
    with \<open>task_move ?old ?s \<Longrightarrow> _\<close> change(4) show ?thesis by auto
  qed
qed

text \<open>What a task event does to the tasks: only the task it is about may change, and of it only the state
  (to the one reported) and the persistence status.\<close>

definition task_updated :: "TaskEvent \<Rightarrow> Job \<Rightarrow> Job \<Rightarrow> nat \<Rightarrow> bool" where
  "task_updated evt j j' k \<longleftrightarrow>
     (let t = j_Tasks j ! k; t' = j_Tasks j' ! k
      in if task_at (te_TaskID evt) (j_Tasks j) = Some k
         then (t' = t \<or> t_State t' = taskStateFromStatus (te_Status evt)) \<and> task_move (t_State t) (t_State t') \<and>
              t_ID t' = t_ID t \<and> t_Payload t' = t_Payload t
         else t' = t)"

lemma task_updated_refl: "task_updated evt j j k"
  by (simp add: task_updated_def Let_def)

lemma LogErr_tasks: "LogErr now msg j = Ret j' \<Longrightarrow> alive j \<Longrightarrow> j_Tasks j' = j_Tasks j"
  by (auto simp: LogErr_alive split: if_splits)

lemma change_task_updates:
  assumes "job_ok j" and "task_at (te_TaskID evt) (j_Tasks j) = Some i" and "s = taskStateFromStatus (te_Status evt)"
    and "task_move (t_State (j_Tasks j ! i)) s"
    and "go_bind (setTaskState now i s j) (\<lambda>(_, j).
            go_bind (if s = TaskStateFAILED then LogErr now msg j else Ret j) (\<lambda>j. Ret (None, j))) = Ret (eo, j')"
  shows "task_updated evt j j' k"
proof -
  have i: "i < length (j_Tasks j)" using task_at_Some [OF assms(2)] by simp
  from setTaskState_ok [OF assms(1) i, of now s] obtain b j1 p where
    j1: "setTaskState now i s j = Ret (b, j1)" "task_frame j j1"
      "j_Tasks j1 = (j_Tasks j)[i := (j_Tasks j ! i)\<lparr>t_State := s, t_ps := p\<rparr>]" by blast
  have "alive j1" using j1(2) by (simp add: task_frame_def job_ok_def)
  with assms(5) have "j_Tasks j' = j_Tasks j1"
    by (auto simp: j1(1) go_bind_eq_Ret_iff LogErr_tasks split: if_splits)
  then show ?thesis
    using assms(2-4) i by (cases "k = i") (auto simp: task_updated_def Let_def j1(3))
qed

lemma unhandled_task_Ret: "unhandled_task evt j = Ret (eo, j') \<Longrightarrow> j' = j"
  by (cases "te_Status evt") (auto simp: unhandled_task_def)

lemma UpdateTask_updates:
  assumes "job_ok j" and "UpdateTask now evt j = Ret (eo, j')"
  shows "task_updated evt j j' k"
proof (cases "j' = j")
  case True
  then show ?thesis by (simp add: task_updated_refl)
next
  case False
  with assms(2) obtain i where i: "task_at (te_TaskID evt) (j_Tasks j) = Some i"
    by (auto simp: UpdateTask_def split: option.splits)
  with False assms(2) have "task_move (t_State (j_Tasks j ! i)) (taskStateFromStatus (te_Status evt))"
    by (cases "t_State (j_Tasks j ! i)")
       (auto simp: UpdateTask_def Let_def split: if_splits dest: unhandled_task_Ret)
  moreover have "go_bind (setTaskState now i (taskStateFromStatus (te_Status evt)) j) (\<lambda>(_, j).
            go_bind (if taskStateFromStatus (te_Status evt) = TaskStateFAILED
                     then LogErr now (''Task '' @ te_TaskID evt @ '' failed: '' @ te_Error evt) j else Ret j)
              (\<lambda>j. Ret (None, j))) = Ret (eo, j')"
    using i False assms(2)
    by (cases "t_State (j_Tasks j ! i)")
       (auto simp: UpdateTask_def Let_def split: if_splits dest: unhandled_task_Ret)
  ultimately show ?thesis using change_task_updates [OF assms(1) i refl] by blast
qed

definition selected :: "TaskState list option \<Rightarrow> TaskState \<Rightarrow> bool" where
  "selected states s \<longleftrightarrow> (case states of None \<Rightarrow> True | Some l \<Rightarrow> s \<in> set l)"

lemma job_ok_frame: "task_frame j j' \<Longrightarrow> job_ok j'"
  by (simp add: task_frame_def)

lemma ResetTasks_ok:
  assumes "job_ok j"
  shows "\<exists>j'. ResetTasks now states j = Ret j' \<and> task_frame j j' \<and>
     (\<forall>k < length (j_Tasks j). t_State (j_Tasks j' ! k) =
        (if selected states (t_State (j_Tasks j ! k)) then TaskStateNEW else t_State (j_Tasks j ! k)))"
proof -
  let ?n = "length (j_Tasks j)"
  let ?I = "\<lambda>i u. task_frame j u \<and> (\<forall>k < ?n. t_State (j_Tasks u ! k) =
        (if k < i \<and> selected states (t_State (j_Tasks j ! k)) then TaskStateNEW else t_State (j_Tasks j ! k)))"
  have "\<exists>t. ResetTasks now states j = Ret t \<and> ?I ?n t"
    unfolding ResetTasks_def selected_def [symmetric]
  proof (rule go_fold_upt [where I = ?I])
    fix i u
    assume i: "i < ?n" and u: "?I i u"
    then have iu: "i < length (j_Tasks u)" using task_frame_length [of j u] by simp
    show "\<exists>v. (if selected states (t_State (j_Tasks u ! i))
          then go_bind (setTaskState now i TaskStateNEW u) (\<lambda>(_, j). Ret j) else Ret u) = Ret v \<and> ?I (Suc i) v"
    proof (cases "selected states (t_State (j_Tasks u ! i))")
      case True
      from setTaskState_ok [OF _ iu, of now TaskStateNEW] u obtain b v p where
        v: "setTaskState now i TaskStateNEW u = Ret (b, v)" "task_frame u v"
          "j_Tasks v = (j_Tasks u)[i := (j_Tasks u ! i)\<lparr>t_State := TaskStateNEW, t_ps := p\<rparr>]"
        by (meson job_ok_frame)
      have "?I (Suc i) v"
        using u v(2,3) iu True i by (auto intro: task_frame_trans simp: nth_list_update less_Suc_eq)
      with v(1) True show ?thesis by auto
    next
      case False
      with u i show ?thesis by (auto simp: less_Suc_eq)
    qed
  qed (use assms in auto)
  then show ?thesis by auto
qed

lemma CancelTask_ok:
  assumes "job_ok j" and "i < length (j_Tasks j)"
  shows "\<exists>j'. CancelTask now i j = Ret j' \<and> task_frame j j' \<and> t_State (j_Tasks j' ! i) = TaskStateCANCELLED"
  using setTaskState_ok [OF assms, of now TaskStateCANCELLED] assms(2) by (auto simp: CancelTask_def)

lemma flag_task_frame:
  assumes "job_ok j" and "i < length (j_Tasks j)" and "p \<noteq> DELETED"
  shows "task_frame j (j\<lparr>j_Tasks := (j_Tasks j)[i := (j_Tasks j ! i)\<lparr>t_ps := p\<rparr>]\<rparr>)"
proof -
  let ?t = "(j_Tasks j ! i)\<lparr>t_ps := p\<rparr>"
  have "map t_ID ((j_Tasks j)[i := ?t]) = map t_ID (j_Tasks j)"
    by (simp add: map_update) (metis assms(2) list_update_id map_update)
  moreover have "\<forall>t \<in> set ((j_Tasks j)[i := ?t]). t_ps t \<noteq> DELETED"
    using assms by (auto simp: job_ok_def tasks_alive_def dest!: set_update_subset_insert [THEN subsetD])
  ultimately show ?thesis
    using assms weights_update [OF assms(2), of ?t]
    by (simp add: task_frame_def job_ok_def tasks_alive_def alive_def active_slack_def failed_slack_def)
qed

lemma DeleteTask_ok:
  assumes "job_ok j" and "i < length (j_Tasks j)"
  shows "\<exists>j'. DeleteTask now i j = Ret j' \<and> task_frame j j' \<and>
     t_ps (j_Tasks j' ! i) = TODELETE \<and>
     (IsActive (t_ps (j_Tasks j ! i)) \<longrightarrow> t_State (j_Tasks j' ! i) = TaskStateCANCELLED) \<and>
     (\<forall>k. k \<noteq> i \<longrightarrow> j_Tasks j' ! k = j_Tasks j ! k)"
proof -
  let ?first = "if IsActive (t_ps (j_Tasks j ! i))
     then go_bind (setTaskState now i TaskStateCANCELLED j) (\<lambda>(_, j). Ret j) else Ret j"
  from setTaskState_ok [OF assms, of now TaskStateCANCELLED] obtain b j1 p where
    j1: "setTaskState now i TaskStateCANCELLED j = Ret (b, j1)" "task_frame j j1"
      "j_Tasks j1 = (j_Tasks j)[i := (j_Tasks j ! i)\<lparr>t_State := TaskStateCANCELLED, t_ps := p\<rparr>]" by blast
  define u where "u = (if IsActive (t_ps (j_Tasks j ! i)) then j1 else j)"
  have u: "?first = Ret u" "task_frame j u"
    "IsActive (t_ps (j_Tasks j ! i)) \<longrightarrow> t_State (j_Tasks u ! i) = TaskStateCANCELLED"
    "\<forall>k. k \<noteq> i \<longrightarrow> j_Tasks u ! k = j_Tasks j ! k"
    using j1 assms by (auto simp: u_def)
  have iu: "i < length (j_Tasks u)" using u(2) assms(2) by (simp add: task_frame_length)
  have "t_ps (j_Tasks u ! i) \<noteq> DELETED"
    using u(2) iu by (simp add: task_frame_def job_ok_def tasks_alive_def)
  then have tod: "ps_toDelete (t_ps (j_Tasks u ! i)) = Ret TODELETE" by (simp add: ps_toDelete_eq)
  let ?v = "u\<lparr>j_Tasks := (j_Tasks u)[i := (j_Tasks u ! i)\<lparr>t_ps := TODELETE\<rparr>]\<rparr>"
  have "DeleteTask now i j = Ret ?v"
    using assms(2) u(1) tod by (simp add: DeleteTask_def)
  moreover have "task_frame j ?v"
    using u(2) flag_task_frame [OF job_ok_frame [OF u(2)] iu] by (blast intro: task_frame_trans)
  ultimately show ?thesis using u(3,4) iu by auto
qed

lemma DeleteAllTasks_ok:
  assumes "job_ok j"
  shows "\<exists>j'. DeleteAllTasks now j = Ret j' \<and> task_frame j j' \<and> (\<forall>t \<in> set (j_Tasks j'). IsToDelete (t_ps t))"
proof -
  let ?n = "length (j_Tasks j)"
  let ?I = "\<lambda>i u. task_frame j u \<and> (\<forall>k < i. t_ps (j_Tasks u ! k) = TODELETE)"
  have "\<exists>t. DeleteAllTasks now j = Ret t \<and> ?I ?n t"
    unfolding DeleteAllTasks_def
  proof (rule go_fold_upt [where I = ?I])
    fix i u
    assume i: "i < ?n" and u: "?I i u"
    then have "i < length (j_Tasks u)" "job_ok u"
      using task_frame_length [of j u] job_ok_frame [of j u] by simp_all
    from DeleteTask_ok [OF this(2,1), of now] u show "\<exists>v. DeleteTask now i u = Ret v \<and> ?I (Suc i) v"
      by (metis less_Suc_eq task_frame_trans)
  qed (use assms in auto)
  then show ?thesis by (auto simp: ps_tests in_set_conv_nth task_frame_length)
qed

lemma append_task_ok:
  assumes "job_ok j" and "t_State t = TaskStateNEW" and "t_ps t \<noteq> DELETED"
  shows "\<exists>j'. job_dirty now (j\<lparr>j_ActiveTasks := j_ActiveTasks j + 1, j_Tasks := j_Tasks j @ [t]\<rparr>) = Ret j' \<and>
     job_ok j' \<and> active_slack j' = active_slack j \<and> failed_slack j' = failed_slack j \<and> j_Tasks j' = j_Tasks j @ [t]"
proof -
  let ?u = "j\<lparr>j_ActiveTasks := j_ActiveTasks j + 1, j_Tasks := j_Tasks j @ [t]\<rparr>"
  have "alive ?u" using assms(1) by (simp add: job_ok_def alive_def)
  with assms show ?thesis
    by (auto simp: job_dirty_alive job_ok_def tasks_alive_def alive_def active_slack_def failed_slack_def
        active_in_def failed_in_def aw_def fw_def)
qed

section \<open>Any sequence of operations\<close>

datatype task_op = OpCreateConsolidation string ConsolidationEvent | OpCreateDeletion string string
  | OpUpdate TaskEvent | OpReset "TaskState list option" | OpCancel nat | OpDelete nat | OpDeleteAll

fun run_task_op :: "gtime \<Rightarrow> task_op \<Rightarrow> Job \<Rightarrow> Job go" where
  "run_task_op now (OpCreateConsolidation uid evt) j = go_bind (CreateConsolidationTask uid now evt j) (\<lambda>(_, j). Ret j)"
| "run_task_op now (OpCreateDeletion uid uri) j = go_bind (CreateDeletionTask uid now uri j) (\<lambda>(_, j). Ret j)"
| "run_task_op now (OpUpdate evt) j = go_bind (UpdateTask now evt j) (\<lambda>(_, j). Ret j)"
| "run_task_op now (OpReset states) j = ResetTasks now states j"
| "run_task_op now (OpCancel i) j = CancelTask now i j"
| "run_task_op now (OpDelete i) j = DeleteTask now i j"
| "run_task_op now OpDeleteAll j = DeleteAllTasks now j"

definition run_task_ops :: "gtime \<Rightarrow> task_op list \<Rightarrow> Job \<Rightarrow> Job go" where
  "run_task_ops now ops j = go_fold (run_task_op now) ops j"

definition benign_panic :: "string \<Rightarrow> bool" where
  "benign_panic m \<longleftrightarrow> m = index_panic \<or> m = ''undefined task status''"

lemma run_task_op_ok:
  assumes "job_ok j"
  shows "(\<exists>j'. run_task_op now op j = Ret j' \<and> job_ok j' \<and> active_slack j' = active_slack j \<and> failed_slack j' = failed_slack j) \<or>
     (\<exists>m. run_task_op now op j = Panic m \<and> benign_panic m)"
proof (cases op)
  case (OpCreateConsolidation uid evt)
  then show ?thesis
    using append_task_ok [OF assms, of "\<lparr>t_ps = NEW, t_ID = uid, t_State = TaskStateNEW, t_Payload = MarshalConsolidationEvent (evt\<lparr>ce_TaskID := uid\<rparr>)\<rparr>" now]
    by (auto simp: CreateConsolidationTask_def newConsolidationTask_def Let_def)
next
  case (OpCreateDeletion uid uri)
  then show ?thesis
    using append_task_ok [OF assms, of "\<lparr>t_ps = NEW, t_ID = uid, t_State = TaskStateNEW, t_Payload = RawBytes uri\<rparr>" now]
    by (auto simp: CreateDeletionTask_def newDeletionTask_def)
next
  case (OpUpdate evt)
  then show ?thesis
    using UpdateTask_ok [OF assms, of now evt] by (auto simp: task_moved_def task_frame_def benign_panic_def)
next
  case (OpReset states)
  then show ?thesis using ResetTasks_ok [OF assms, of now states] by (auto simp: task_frame_def)
next
  case (OpCancel i)
  show ?thesis
  proof (cases "i < length (j_Tasks j)")
    case True
    with OpCancel show ?thesis using CancelTask_ok [OF assms, of i now] by (auto simp: task_frame_def)
  next
    case False
    with OpCancel show ?thesis by (simp add: CancelTask_def setTaskState_def benign_panic_def)
  qed
next
  case (OpDelete i)
  show ?thesis
  proof (cases "i < length (j_Tasks j)")
    case True
    with OpDelete show ?thesis using DeleteTask_ok [OF assms, of i now] by (auto simp: task_frame_def)
  next
    case False
    with OpDelete show ?thesis by (simp add: DeleteTask_def benign_panic_def)
  qed
next
  case OpDeleteAll
  then show ?thesis using DeleteAllTasks_ok [OF assms, of now] by (auto simp: task_frame_def)
qed

lemma run_task_ops_ok:
  assumes "job_ok j"
  shows "(\<exists>j'. run_task_ops now ops j = Ret j' \<and> job_ok j' \<and> active_slack j' = active_slack j \<and> failed_slack j' = failed_slack j) \<or>
     (\<exists>m. run_task_ops now ops j = Panic m \<and> benign_panic m)"
  using assms
proof (induction ops arbitrary: j)
  case Nil
  then show ?case by (simp add: run_task_ops_def)
next
  case (Cons op ops)
  from run_task_op_ok [OF Cons.prems, of now op] show ?case
  proof (elim disjE exE conjE)
    fix j1
    assume "run_task_op now op j = Ret j1" "job_ok j1" "active_slack j1 = active_slack j"
      "failed_slack j1 = failed_slack j"
    with Cons.IH [of j1] show ?case by (simp add: run_task_ops_def)
  qed (simp add: run_task_ops_def)
qed

section \<open>Locks, payload and log window\<close>

lemma fold_set_Push: "set (fold set_Push xs ss) = set xs \<union> set ss"
  by (induction xs arbitrary: ss) (auto simp: set_Push_def)

lemma distinct_fold_set_Push: "distinct ss \<Longrightarrow> distinct (fold set_Push xs ss)"
  by (induction xs arbitrary: ss) (auto simp: set_Push_def)

lemma map_of_filter_nonempty:
  "distinct (map fst kvs) \<Longrightarrow> (k, v) \<in> set kvs \<Longrightarrow>
   map_of (filter (\<lambda>(k, v). v \<noteq> []) kvs) k = (if v = [] then None else Some v)"
  by (induction kvs) (auto simp: map_of_eq_None_iff, (force simp: image_iff)+)

lemma json_field_filter:
  "distinct (map fst kvs) \<Longrightarrow> (k, v) \<in> set kvs \<Longrightarrow>
   json_field (filter (\<lambda>(k, v). v \<noteq> []) kvs) k old = (if v = [] then old else v)"
  by (simp add: json_field_def map_of_filter_nonempty)

lemma elided_total:
  assumes "logsCount \<noteq> - 1" and "0 \<le> offset" and "n \<le> logsCount"
  shows "fst (elided n logsCount offset) + n + snd (elided n logsCount offset) = logsCount"
    and "0 \<le> fst (elided n logsCount offset)" and "0 \<le> snd (elided n logsCount offset)"
  using assms by (auto simp: elided_def Let_def)

section \<open>Properties\<close>

definition counters_exact :: "Job \<Rightarrow> bool" where
  "counters_exact j \<longleftrightarrow>
     alive j \<and> tasks_alive j \<and>
     j_ActiveTasks j = int (length (filter (\<lambda>t. t_State t = TaskStatePENDING \<or> t_State t = TaskStateNEW) (j_Tasks j))) \<and>
     j_FailedTasks j = int (length (filter (\<lambda>t. t_State t = TaskStateFAILED) (j_Tasks j)))"

lemma active_in_count:
  "active_in ts = int (length (filter (\<lambda>t. t_State t = TaskStatePENDING \<or> t_State t = TaskStateNEW) ts))"
  by (induction ts) (auto simp: active_in_def aw_def)

lemma failed_in_count: "failed_in ts = int (length (filter (\<lambda>t. t_State t = TaskStateFAILED) ts))"
  by (induction ts) (auto simp: failed_in_def fw_def)

lemma counters_exact_iff: "counters_exact j \<longleftrightarrow> job_ok j \<and> active_slack j = 0 \<and> failed_slack j = 0"
  by (auto simp: counters_exact_def job_ok_def active_slack_def failed_slack_def active_in_count failed_in_count)

text \<open>C2: Task accounting: whatever sequence of task operations (creations, task events, resets,
  cancellations, deletions) runs on a job whose counters are exact, the counters of active and failed tasks
  stay exact, and the panics on negative counters are unreachable; the only panics left are an index out
  of range and the status without a name.\<close>

theorem task_counters_stay_exact:
  assumes "counters_exact j"
  shows "(\<exists>j'. run_task_ops now ops j = Ret j' \<and> counters_exact j') \<or>
     (\<exists>m. run_task_ops now ops j = Panic m \<and> benign_panic m)"
  using run_task_ops_ok [of j now ops] assms by (auto simp: counters_exact_iff)

theorem task_counters_stay_exact_witness:
  "(\<exists>j'. run_task_ops 9 [OpCreateDeletion ''t1'' ''gs://a'', OpCreateDeletion ''t2'' ''gs://b'', OpCancel 0, OpDeleteAll]
        (NewDeletionJob ''d'' 0 ''n'' ExecutionAsynchronous) = Ret j' \<and> counters_exact j') \<or>
   (\<exists>m. run_task_ops 9 [OpCreateDeletion ''t1'' ''gs://a'', OpCreateDeletion ''t2'' ''gs://b'', OpCancel 0, OpDeleteAll]
        (NewDeletionJob ''d'' 0 ''n'' ExecutionAsynchronous) = Panic m \<and> benign_panic m)"
  by (rule task_counters_stay_exact)
     (simp add: counters_exact_def NewDeletionJob_def NewJob_def alive_def tasks_alive_def)

text \<open>C8: The outcome of a task is not lost: a task event changes no task but the first one that has its
  identifier, and of that one only the state (to the reported one) and the persistence status; it never takes
  it out of DONE, and takes a failed or cancelled task only to DONE. The call either returns or panics on a
  status that has no name.\<close>

theorem update_task_keeps_outcomes:
  assumes "job_ok j"
  shows "(\<exists>eo j'. UpdateTask now evt j = Ret (eo, j') \<and> job_ok j' \<and> length (j_Tasks j') = length (j_Tasks j) \<and>
       (\<forall>k < length (j_Tasks j). task_updated evt j j' k)) \<or>
     UpdateTask now evt j = Panic ''undefined task status'' \<and> (te_Status evt = TaskSent \<or> te_Status evt = TaskIgnored)"
  using UpdateTask_ok [OF assms, of now evt] task_frame_length UpdateTask_updates [OF assms]
  by (auto simp: task_moved_def dest: job_ok_frame)

definition sample_task :: "TaskState \<Rightarrow> Task" where
  "sample_task s = \<lparr>t_ps = CLEAN, t_ID = ''t1'', t_State = s, t_Payload = RawBytes ''gs://a''\<rparr>"

definition sample_running_job :: "TaskState \<Rightarrow> Job" where
  "sample_running_job s =
     (sample_csld_job JobStateCONSOLIDATIONINPROGRESS)\<lparr>j_Tasks := [sample_task s], j_ActiveTasks := aw s, j_FailedTasks := fw s\<rparr>"

lemma sample_running_job_ok: "job_ok (sample_running_job s)"
  by (simp add: sample_running_job_def sample_csld_job_def sample_task_def NewJob_def job_ok_def alive_def
      tasks_alive_def active_slack_def failed_slack_def active_in_def failed_in_def)

theorem update_task_keeps_outcomes_witness:
  "\<exists>eo j'. UpdateTask 4 (NewTaskEvent ''j1'' ''t1'' TaskFailed None) (sample_running_job TaskStateDONE) = Ret (eo, j') \<and>
     task_updated (NewTaskEvent ''j1'' ''t1'' TaskFailed None) (sample_running_job TaskStateDONE) j' 0"
  using update_task_keeps_outcomes [OF sample_running_job_ok, of 4 "NewTaskEvent ''j1'' ''t1'' TaskFailed None" TaskStateDONE]
  by (auto simp: NewTaskEvent_def sample_running_job_def)

text \<open>UpdateTask panics instead of returning its UnhandledEvent error when it must refuse a TaskSent or
  TaskIgnored event: the status has no case in TaskStatus.String, which builds the error text.\<close>

theorem refused_ignored_task_panics:
  assumes "task_at (te_TaskID evt) (j_Tasks j) = Some i" and "te_Status evt = TaskIgnored \<or> te_Status evt = TaskSent"
    and "t_State (j_Tasks j ! i) = TaskStateDONE"
  shows "UpdateTask now evt j = Panic ''undefined task status''"
  using assms by (auto simp: UpdateTask_def Let_def unhandled_task_def)

theorem refused_ignored_task_panics_witness:
  "UpdateTask 4 (NewTaskEvent ''j1'' ''t1'' TaskIgnored None) (sample_running_job TaskStateDONE) = Panic ''undefined task status''"
  by (rule refused_ignored_task_panics [of _ _ 0]) (simp_all add: NewTaskEvent_def sample_running_job_def sample_task_def)

text \<open>The JSON column of a job payload: reading back what Value writes into a fresh payload gives the
  payload, and reading it into a used payload keeps the old value of the fields that are empty.\<close>

theorem job_payload_json_roundtrip:
  "JobPayload_Scan (JsonBytes (JobPayload_Value jp)) old =
     Inr \<lparr>jp_Layout = (if jp_Layout jp = [] then jp_Layout old else jp_Layout jp),
          jp_InstanceID = (if jp_InstanceID jp = [] then jp_InstanceID old else jp_InstanceID jp),
          jp_ParamsID = (if jp_ParamsID jp = [] then jp_ParamsID old else jp_ParamsID jp),
          jp_CollapseRecordId = (if jp_CollapseRecordId jp = [] then jp_CollapseRecordId old else jp_CollapseRecordId jp)\<rparr>"
proof -
  let ?kvs = "[(''layout'', jp_Layout jp), (''instance_id'', jp_InstanceID jp),
        (''params_id'', jp_ParamsID jp), (''collapse_record_id'', jp_CollapseRecordId jp)]"
  have d: "distinct (map fst ?kvs)" by simp
  have f: "json_field (JobPayload_Value jp) k o' = (if v = [] then o' else v)" if "(k, v) \<in> set ?kvs" for k v o'
    unfolding JobPayload_Value_def using d that by (rule json_field_filter)
  show ?thesis by (simp add: f)
qed

text \<open>The log excerpt of a job accounts for every log: the lines announced as left out before and after
  plus the lines shown add up to the number of logs of the job, and the shown lines are the loaded logs in
  the order of their dates.\<close>

theorem log_excerpt_accounts_for_all:
  assumes "logsCount \<noteq> - 1" and "0 \<le> offset" and "int (length jl) \<le> logsCount"
  shows "\<exists>first off. 0 \<le> first \<and> 0 \<le> off \<and> first + int (length jl) + off = logsCount \<and>
     toSliceString fmtTime logsCount offset jl =
       (if first \<noteq> 0 then [more_line first] else []) @ map (log_line fmtTime) (sort_key jl_Date jl) @
       (if off \<noteq> 0 then [more_line off] else [])"
proof -
  obtain first off where e: "elided (int (length jl)) logsCount offset = (first, off)" by fastforce
  show ?thesis
    using elided_total [OF assms] assms(1) e
    by (intro exI [of _ first] exI [of _ off]) (simp add: toSliceString_def)
qed

theorem log_excerpt_accounts_for_all_witness:
  "\<exists>first off. 0 \<le> first \<and> 0 \<le> off \<and> first + int (length ([] :: JobLog list)) + off = 7 \<and>
     toSliceString (\<lambda>_. []) 7 3 [] =
       (if first \<noteq> 0 then [more_line first] else []) @ map (log_line (\<lambda>_. [])) (sort_key jl_Date []) @
       (if off \<noteq> 0 then [more_line off] else [])"
  by (rule log_excerpt_accounts_for_all) simp_all

end
