(* ===== verification/ContainersProps.thy ===== *)
theory ContainersProps
  imports Containers
begin

text \<open>
  Properties of containers: the bands of the datasets of one sub-directory stay apart, a re-submitted
  dataset is recognised, and a container goes only when it is unmanaged and empty.
\<close>

section \<open>Lemmas\<close>

lemma bandsIntersect_iff: "bandsIntersect a b \<longleftrightarrow> set a \<inter> set b \<noteq> {}"
  by (auto simp: bandsIntersect_def list_ex_iff)

lemma numActive_fold: "fold (\<lambda>d n. if IsActive (d_ps d) then n + 1 else n) ds k = k + int (length (filter (\<lambda>d. IsActive (d_ps d)) ds))"
  by (induction ds arbitrary: k) auto

lemma numActiveDatasets_eq: "numActiveDatasets c = int (length (filter (\<lambda>d. IsActive (d_ps d)) (c_Datasets c)))"
  by (simp add: numActiveDatasets_def numActive_fold)

lemma numActive_zero: "numActiveDatasets c = 0 \<longleftrightarrow> (\<forall>d \<in> set (c_Datasets c). \<not> IsActive (d_ps d))"
  by (auto simp: numActiveDatasets_eq filter_empty_conv)

definition conflict :: "Dataset \<Rightarrow> Dataset \<Rightarrow> bool" where
  "conflict d d' \<longleftrightarrow> d_ContainerSubDir d = d_ContainerSubDir d' \<and> set (d_Bands d) \<inter> set (d_Bands d') \<noteq> {}"

definition bands_apart :: "Dataset list \<Rightarrow> bool" where
  "bands_apart ds \<longleftrightarrow> (\<forall>i < length ds. \<forall>j < i. \<not> conflict (ds ! j) (ds ! i))"

lemma bands_apart_snoc: "bands_apart (ds @ [d]) \<longleftrightarrow> bands_apart ds \<and> (\<forall>x \<in> set ds. \<not> conflict x d)"
proof
  assume l: "bands_apart (ds @ [d])"
  have "bands_apart ds"
    unfolding bands_apart_def
  proof (intro allI impI)
    fix i j assume "i < length ds" "j < i"
    with l [unfolded bands_apart_def, rule_format, of i j] show "\<not> conflict (ds ! j) (ds ! i)"
      by (simp add: nth_append)
  qed
  moreover have "\<not> conflict x d" if "x \<in> set ds" for x
  proof -
    from that obtain j where j: "j < length ds" "ds ! j = x" by (auto simp: in_set_conv_nth)
    with l [unfolded bands_apart_def, rule_format, of "length ds" j] show ?thesis by (simp add: nth_append)
  qed
  ultimately show "bands_apart ds \<and> (\<forall>x \<in> set ds. \<not> conflict x d)" by blast
next
  assume r: "bands_apart ds \<and> (\<forall>x \<in> set ds. \<not> conflict x d)"
  show "bands_apart (ds @ [d])"
    unfolding bands_apart_def
  proof (intro allI impI)
    fix i j assume "i < length (ds @ [d])" "j < i"
    with r show "\<not> conflict ((ds @ [d]) ! j) ((ds @ [d]) ! i)"
      by (cases "i = length ds") (auto simp: nth_append bands_apart_def)
  qed
qed

lemma status_active_iff:
  "d_Status x = DatasetStatusACTIVE \<longleftrightarrow> \<not> (d_Status x = DatasetStatusTODELETE \<or> d_Status x = DatasetStatusINACTIVE)"
  by (cases "d_Status x") simp_all

lemma add_check_FallsThrough:
  "add_check ct c d ds = FallsThrough \<longleftrightarrow> (\<forall>x \<in> set ds. d_Status x = DatasetStatusACTIVE \<and> \<not> conflict x d)"
  by (induction ds) (auto simp: conflict_def bandsIntersect_iff status_active_iff)

lemma add_check_AlreadyThere:
  "add_check ct c d ds = AlreadyThere \<Longrightarrow> \<exists>x \<in> set ds. identicalTo x d"
  by (induction ds) (auto split: if_splits)

lemma add_check_Refused:
  "add_check ct c d ds = Refused e \<Longrightarrow> IsError (Some e) EntityAlreadyExists"
  by (induction ds) (auto simp: NewEntityAlreadyExists_def IsError_def split: if_splits)

lemma dataset_at_Some: "dataset_at i ds = Some k \<Longrightarrow> k < length ds \<and> d_ID (ds ! k) = i"
  by (induction ds arbitrary: k) (auto split: if_splits)

section \<open>Properties\<close>

text \<open>C9: Two datasets of a container never share a band of the same sub-directory: AddDataset keeps them
  apart.  It reports success only when the dataset is in the container afterwards, itself or one identical
  up to identifier and persistence state, and otherwise leaves the container alone.\<close>

theorem add_dataset_keeps_bands_apart:
  assumes "bands_apart (c_Datasets c)" and "AddDataset ct d c = (eo, c')"
  shows "bands_apart (c_Datasets c') \<and>
     (eo = None \<longrightarrow> c' = c\<lparr>c_Datasets := c_Datasets c @ [d]\<rparr> \<or> c' = c \<and> (\<exists>x \<in> set (c_Datasets c). identicalTo x d)) \<and>
     (eo \<noteq> None \<longrightarrow> c' = c \<and> (IsError eo EntityAlreadyExists \<or> IsError eo EntityValidationError))"
proof (cases "IsNew (d_ps d)")
  case True
  show ?thesis
  proof (cases "add_check ct c d (c_Datasets c)")
    case FallsThrough
    with add_check_FallsThrough [of ct c d "c_Datasets c"] assms True show ?thesis
      by (auto simp: AddDataset_def bands_apart_snoc)
  next
    case AlreadyThere
    with add_check_AlreadyThere [OF AlreadyThere] assms True show ?thesis by (auto simp: AddDataset_def)
  next
    case (Refused e)
    with add_check_Refused [OF Refused] assms True show ?thesis by (auto simp: AddDataset_def)
  qed
qed (use assms in \<open>auto simp: AddDataset_def NewValidationError_def IsError_def\<close>)

definition sample_mapping :: DataMapping where
  "sample_mapping =
     \<lparr>dm_DataFormat = \<lparr>df_DType = DTypeUINT8, df_NoData = Fin 0, df_Range = \<lparr>r_Min = Fin 0, r_Max = Fin 255\<rparr>\<rparr>,
      dm_RangeExt = \<lparr>r_Min = Fin 0, r_Max = Fin 1\<rparr>, dm_Exponent = Fin 1\<rparr>"

definition sample_dataset :: "string \<Rightarrow> persistenceState \<Rightarrow> int list \<Rightarrow> Dataset" where
  "sample_dataset i p bands =
     \<lparr>d_ps = p, d_ID = i, d_RecordID = ''r1'', d_InstanceID = ''i1'', d_ContainerURI = ''gs://a'', d_ContainerSubDir = [],
      d_Bands = bands, d_DataMapping = sample_mapping, d_Status = DatasetStatusACTIVE, d_Shape = empty_shape,
      d_GeogShape = empty_shape, d_GeomShape = empty_shape, d_Overviews = False\<rparr>"

definition sample_container :: Container where
  "sample_container =
     \<lparr>c_ps = CLEAN, c_ID = 7, c_URI = ''gs://a'', c_Managed = False, c_StorageClass = StorageClassSTANDARD,
      c_Datasets = [sample_dataset ''d1'' CLEAN [1, 2], sample_dataset ''d2'' CLEAN [3]]\<rparr>"

lemma sample_container_apart: "bands_apart (c_Datasets sample_container)"
  by (auto simp: bands_apart_def sample_container_def sample_dataset_def conflict_def less_Suc_eq nth_Cons split: nat.splits)

theorem add_dataset_keeps_bands_apart_witness:
  "AddDataset (\<lambda>_. []) (sample_dataset ''d3'' NEW [3]) sample_container = (None, sample_container) \<and>
   bands_apart (c_Datasets (snd (AddDataset (\<lambda>_. []) (sample_dataset ''d4'' NEW [4]) sample_container)))"
proof -
  have "AddDataset (\<lambda>_. []) (sample_dataset ''d3'' NEW [3]) sample_container = (None, sample_container)"
    by (simp add: AddDataset_def IsNew_def sample_container_def sample_dataset_def bandsIntersect_def identicalTo_def
        DataMapping_Equals_iff sample_mapping_def Shape_Equal_iff empty_shape_def)
  then show ?thesis
    using add_dataset_keeps_bands_apart [OF sample_container_apart, of "\<lambda>_. []" "sample_dataset ''d4'' NEW [4]"]
    by (metis prod.collapse)
qed

text \<open>A live container is deleted exactly when it is unmanaged and none of its datasets is active, and
  RemoveDataset announces that state: after it reports the container empty, Delete of an unmanaged
  container succeeds.\<close>

theorem container_deletion_guard:
  assumes "c_ps c \<noteq> DELETED"
  shows "((\<exists>c'. Container_Delete c = Ret (None, c') \<and> c_ps c' = TODELETE) \<longleftrightarrow>
       \<not> c_Managed c \<and> (\<forall>d \<in> set (c_Datasets c). \<not> IsActive (d_ps d))) \<and>
     (\<forall>i gone c1. RemoveDataset i c = Ret (Inr gone, c1) \<longrightarrow>
       (\<exists>d \<in> set (c_Datasets c1). d_ID d = i \<and> d_ps d = TODELETE) \<and>
       (gone \<longleftrightarrow> (\<forall>d \<in> set (c_Datasets c1). \<not> IsActive (d_ps d))) \<and>
       (gone \<and> \<not> c_Managed c \<longrightarrow> (\<exists>c'. Container_Delete c1 = Ret (None, c'))))"
proof (intro conjI [OF _ allI [OF allI [OF allI [OF impI]]]])
  show "(\<exists>c'. Container_Delete c = Ret (None, c') \<and> c_ps c' = TODELETE) \<longleftrightarrow>
     \<not> c_Managed c \<and> (\<forall>d \<in> set (c_Datasets c). \<not> IsActive (d_ps d))"
    using assms by (auto simp: Container_Delete_def numActive_zero ps_toDelete_eq)
  fix i gone c1
  assume r: "RemoveDataset i c = Ret (Inr gone, c1)"
  then obtain k where k: "dataset_at i (c_Datasets c) = Some k" by (auto simp: RemoveDataset_def split: option.splits)
  note at = dataset_at_Some [OF k]
  from r k have c1: "c1 = c\<lparr>c_Datasets := (c_Datasets c)[k := (c_Datasets c ! k)\<lparr>d_ps := TODELETE\<rparr>]\<rparr>"
    and e: "gone = (numActiveDatasets c1 = 0)"
    by (auto simp: RemoveDataset_def go_bind_eq_Ret_iff ps_toDelete_eq Let_def split: if_splits)
  have "(c_Datasets c ! k)\<lparr>d_ps := TODELETE\<rparr> \<in> set (c_Datasets c1)" using at c1 by (simp add: set_update_memI)
  with at have m: "\<exists>d \<in> set (c_Datasets c1). d_ID d = i \<and> d_ps d = TODELETE"
    by (intro bexI [of _ "(c_Datasets c ! k)\<lparr>d_ps := TODELETE\<rparr>"]) simp_all
  from c1 assms have "c_ps c1 \<noteq> DELETED" "c_Managed c1 = c_Managed c" by simp_all
  then show "(\<exists>d \<in> set (c_Datasets c1). d_ID d = i \<and> d_ps d = TODELETE) \<and>
       (gone \<longleftrightarrow> (\<forall>d \<in> set (c_Datasets c1). \<not> IsActive (d_ps d))) \<and>
       (gone \<and> \<not> c_Managed c \<longrightarrow> (\<exists>c'. Container_Delete c1 = Ret (None, c')))"
    using m e by (auto simp: numActive_zero Container_Delete_def ps_toDelete_eq)
qed

theorem container_deletion_guard_witness:
  "\<not> (\<exists>c'. Container_Delete sample_container = Ret (None, c') \<and> c_ps c' = TODELETE)"
proof -
  have "c_ps sample_container \<noteq> DELETED" by (simp add: sample_container_def)
  from container_deletion_guard [OF this] show ?thesis
    by (simp add: sample_container_def sample_dataset_def IsActive_def)
qed

text \<open>What the validation of a data mapping accepts: a format inside the limits of its type, a range that
  is not reversed and an exponent that is not negative or zero.  A limit of the external range or an
  exponent that is not a number is accepted too, and a dataset with such a mapping is not identical to
  itself.\<close>

theorem accepted_data_mapping:
  "(DataMapping_validate dm = Ret None \<longleftrightarrow>
     DataFormat_validate (dm_DataFormat dm) = Ret None \<and>
     (f_lt (r_Min (dm_RangeExt dm)) (r_Max (dm_RangeExt dm)) \<or> r_Min (dm_RangeExt dm) = NaN \<or> r_Max (dm_RangeExt dm) = NaN) \<and>
     (f_lt (Fin 0) (dm_Exponent dm) \<or> dm_Exponent dm = NaN)) \<and>
   (dm_Exponent (d_DataMapping d) = NaN \<longrightarrow> \<not> identicalTo d d)"
proof -
  have r: "Range_validate r = None \<longleftrightarrow> f_lt (r_Min r) (r_Max r) \<or> r_Min r = NaN \<or> r_Max r = NaN" for r
    using f_not_ge_iff [of "r_Min r" "r_Max r"] f_not_nan(2) by (auto simp: Range_validate_def)
  have e: "\<not> f_le x (Fin 0) \<longleftrightarrow> f_lt (Fin 0) x \<or> x = NaN" for x
    by (cases x) (auto simp: f_le_def)
  have "DataMapping_validate dm = Ret None \<longleftrightarrow>
     DataFormat_validate (dm_DataFormat dm) = Ret None \<and>
     (f_lt (r_Min (dm_RangeExt dm)) (r_Max (dm_RangeExt dm)) \<or> r_Min (dm_RangeExt dm) = NaN \<or> r_Max (dm_RangeExt dm) = NaN) \<and>
     (f_lt (Fin 0) (dm_Exponent dm) \<or> dm_Exponent dm = NaN)"
    unfolding r [symmetric] e [symmetric]
    by (auto simp: DataMapping_validate_def go_bind_eq_Ret_iff split: option.splits if_splits)
  then show ?thesis by (simp add: identicalTo_def DataMapping_Equals_iff)
qed

theorem accepted_data_mapping_witness:
  "DataMapping_validate (sample_mapping\<lparr>dm_Exponent := NaN\<rparr>) = Ret None \<and>
   \<not> identicalTo ((sample_dataset ''d'' NEW [1])\<lparr>d_DataMapping := sample_mapping\<lparr>dm_Exponent := NaN\<rparr>\<rparr>)
      ((sample_dataset ''d'' NEW [1])\<lparr>d_DataMapping := sample_mapping\<lparr>dm_Exponent := NaN\<rparr>\<rparr>)"
  using accepted_data_mapping [of "sample_mapping\<lparr>dm_Exponent := NaN\<rparr>"
      "(sample_dataset ''d'' NEW [1])\<lparr>d_DataMapping := sample_mapping\<lparr>dm_Exponent := NaN\<rparr>\<rparr>"]
  by (simp add: sample_mapping_def DataFormat_validate_def MinValue_def MaxValue_def
       array_at_def minValues_def maxValues_def f_le_def Range_validate_def)

end
