(* ===== verification/PersisterProps.thy ===== *)
theory PersisterProps
  imports Persister StoreProps JobTasksProps ContainersProps
begin

text \<open>
  What a save does to the tables.  \<open>effects P f m\<close>: when the method \<open>m\<close> succeeds on an open transaction
  the tables satisfied \<open>P\<close>, are transformed by \<open>f\<close>, and the job at hand is the same.  The effect of
  \<open>saveJob\<close> is computed once, and the properties read the tables it leaves through the lookups of
  \<open>StoreProps\<close>.
\<close>

section \<open>Effects of methods on the tables\<close>

definition effects :: "(db \<Rightarrow> bool) \<Rightarrow> (db \<Rightarrow> db) \<Rightarrow> 'a act \<Rightarrow> bool" where
  "effects P f m \<longleftrightarrow>
     (\<forall>w d a w'. w_txn w = Some d \<longrightarrow> m w = Ret (Inr a, w') \<longrightarrow> P d \<and> w_txn w' = Some (f d) \<and> w_job w' = w_job w)"

lemma effectsI:
  "(\<And>w d a w'. w_txn w = Some d \<Longrightarrow> m w = Ret (Inr a, w') \<Longrightarrow> P d \<and> w_txn w' = Some (f d) \<and> w_job w' = w_job w) \<Longrightarrow> effects P f m"
  unfolding effects_def by blast

lemma effectsD:
  "effects P f m \<Longrightarrow> m w = Ret (Inr a, w') \<Longrightarrow> w_txn w = Some d \<Longrightarrow> P d \<and> w_txn w' = Some (f d) \<and> w_job w' = w_job w"
  unfolding effects_def by blast

lemma effects_eq: "effects P f m \<Longrightarrow> (\<And>d. f d = g d) \<Longrightarrow> (\<And>d. P d \<Longrightarrow> Q d) \<Longrightarrow> effects Q g m"
  unfolding effects_def by metis

lemma effects_ok: "effects (\<lambda>_. True) (\<lambda>d. d) (ok a)"
  by (rule effectsI) (simp add: ok_def)

lemma effects_seq:
  "effects P f m \<Longrightarrow> (\<And>a. effects Q g (k a)) \<Longrightarrow> effects (\<lambda>d. P d \<and> Q (f d)) (\<lambda>d. g (f d)) (seq m k)"
  unfolding effects_def seq_Inr_iff by metis

lemma effects_wrap: "effects P f m \<Longrightarrow> effects P f (wrap pre m)"
  unfolding effects_def wrap_Inr_iff .

lemma effects_whenever:
  assumes "effects P f m"
  shows "effects (\<lambda>d. b \<longrightarrow> P d) (\<lambda>d. if b then f d else d) (whenever b m)"
proof (cases b)
  case True
  with assms show ?thesis by (simp add: whenever_def)
next
  case False
  with effects_ok show ?thesis by (simp add: whenever_def)
qed

text \<open>What held before each step of a loop.\<close>

fun all_along :: "('x \<Rightarrow> db \<Rightarrow> bool) \<Rightarrow> ('x \<Rightarrow> db \<Rightarrow> db) \<Rightarrow> 'x list \<Rightarrow> db \<Rightarrow> bool" where
  "all_along P f [] d = True"
| "all_along P f (x # xs) d = (P x d \<and> all_along P f xs (f x d))"

lemma effects_each:
  "(\<And>x. effects (P x) (f x) (m x)) \<Longrightarrow> effects (all_along P f xs) (fold f xs) (each m xs)"
proof (induction xs)
  case Nil
  have "effects (\<lambda>_. True) (\<lambda>d. d) (each m [])" by (simp add: effects_ok)
  then show ?case by (rule effects_eq) simp_all
next
  case (Cons x xs)
  show ?case unfolding each.simps
    by (rule effects_eq [OF effects_seq [OF Cons.prems [of x] Cons.IH [OF Cons.prems]]]) simp_all
qed

lemma effects_tx:
  assumes "\<And>d a d'. op d = (Inr a, d') \<Longrightarrow> P d \<and> d' = f d"
  shows "effects P f (tx E op)"
proof (rule effectsI)
  fix w d a w' assume "w_txn w = Some d" "tx E op w = Ret (Inr a, w')"
  with assms [of d a] show "P d \<and> w_txn w' = Some (f d) \<and> w_job w' = w_job w"
    by (auto simp: tx_def Let_def split: option.splits prod.splits)
qed

lemma effects_tx_snd: "effects (\<lambda>_. True) (\<lambda>d. snd (op d)) (tx E op)"
  by (rule effects_tx) simp

section \<open>The effect of a save\<close>

definition released :: "Job \<Rightarrow> nat \<Rightarrow> db \<Rightarrow> db" where
  "released j i d = (if IsToDelete (ld_ps (j_LockedDatasets j ! i)) then snd (pg_ReleaseDatasets (j_ID j) (int i) d) else d)"

definition before_job_deletion :: "Job \<Rightarrow> db \<Rightarrow> db" where
  "before_job_deletion j d =
     (let d = fold (released j) [0..<length (j_LockedDatasets j)] d;
          d = fold (\<lambda>t. tasks.remove (t_ID t)) (deleted_tasks j) d
      in if params_flag IsToDelete j \<and> j_Type j = JobTypeCONSOLIDATION
         then snd (pg_DeleteConsolidationParams (jp_ParamsID (j_Payload j)) d) else d)"

definition after_deletions :: "Job \<Rightarrow> db \<Rightarrow> db" where
  "after_deletions j d =
     (let d = before_job_deletion j d in if IsToDelete (j_ps j) then snd (pg_DeleteJob (j_ID j) d) else d)"

definition locked :: "Job \<Rightarrow> nat \<Rightarrow> db \<Rightarrow> db" where
  "locked j i d =
     (let l = j_LockedDatasets j ! i
      in if IsNew (ld_ps l) \<or> IsDirty (ld_ps l) then snd (pg_LockDatasets (j_ID j) (NewIDs l) (int i) d) else d)"

definition after_creations :: "Job \<Rightarrow> db \<Rightarrow> db" where
  "after_creations j d =
     (let d = (if IsNew (j_ps j) then snd (pg_CreateJob j d) else d);
          d = (if params_flag IsNew j \<and> j_Type j = JobTypeCONSOLIDATION
               then snd (pg_CreateConsolidationParams (jp_ParamsID (j_Payload j)) (the (j_Params j)) d) else d);
          d = fold (locked j) [0..<length (j_LockedDatasets j)] d
      in if created_tasks j \<noteq> [] then tasks.append (map (new_task_row (j_ID j)) (created_tasks j)) d else d)"

definition after_updates :: "Job \<Rightarrow> db \<Rightarrow> db" where
  "after_updates j d =
     (let d = fold (\<lambda>t. tasks.modify (t_ID t) (tr_State_update (\<lambda>_. t_State t))) (updated_tasks j) d
      in if IsDirty (j_ps j) \<or> IsClean (j_ps j) then snd (pg_UpdateJob j d) else d)"

definition saved_tables :: "Job \<Rightarrow> db \<Rightarrow> db" where
  "saved_tables j d = snd (pg_PersistLogs (j_ID j) (j_NewLogs j) (after_updates j (after_creations j (after_deletions j d))))"

lemma effects_release: "effects (\<lambda>_. True) (released j i) (release_stored E j i)"
  unfolding release_stored_def
  by (rule effects_eq [OF effects_whenever [OF effects_wrap [OF effects_tx_snd]]]) (simp_all add: released_def)

lemma effects_DeleteTask: "effects (\<lambda>_. True) (tasks.remove i) (wrap p (tx E (pg_DeleteTask i)))"
  by (rule effects_eq [OF effects_wrap [OF effects_tx_snd]]) (simp_all add: pg_DeleteTask_eq)

lemma effects_UpdateTask:
  "effects (\<lambda>_. True) (tasks.modify (t_ID t) (tr_State_update (\<lambda>_. t_State t))) (wrap p (tx E (pg_UpdateTask t)))"
  by (rule effects_wrap, rule effects_tx) (auto simp: pg_UpdateTask_eq split: if_splits)

lemma effects_CreateTasks:
  "effects (\<lambda>d. t_ID ` set ts \<inter> tasks.keys d = {}) (tasks.append (map (new_task_row i) ts)) (wrap p (tx E (pg_CreateTasks i ts)))"
  by (rule effects_wrap, rule effects_tx) (simp add: pg_CreateTasks_Inr)

lemma effects_succeeds: "effects (\<lambda>d. \<exists>d'. op d = (Inr (), d')) (\<lambda>d. snd (op d)) (wrap p (tx E op))"
  by (rule effects_wrap, rule effects_tx) auto

definition to_lock :: "Job \<Rightarrow> nat \<Rightarrow> bool" where
  "to_lock j i \<longleftrightarrow> IsNew (ld_ps (j_LockedDatasets j ! i)) \<or> IsDirty (ld_ps (j_LockedDatasets j ! i))"

definition lock_guard :: "Job \<Rightarrow> nat \<Rightarrow> db \<Rightarrow> bool" where
  "lock_guard j i d \<longleftrightarrow> to_lock j i \<longrightarrow> (\<exists>d'. pg_LockDatasets (j_ID j) (NewIDs (j_LockedDatasets j ! i)) (int i) d = (Inr (), d'))"

lemma effects_lock: "effects (lock_guard j i) (locked j i) (lock_stored E j i)"
  unfolding lock_stored_def Let_def
  by (rule effects_eq [OF effects_whenever [OF effects_succeeds]]) (simp_all add: locked_def Let_def lock_guard_def to_lock_def)

definition job_absent :: "Job \<Rightarrow> db \<Rightarrow> bool" where
  "job_absent j d \<longleftrightarrow> \<not> list_ex (\<lambda>r. jr_ID r = j_ID j \<or> jr_Name r = j_Name j) (db_Jobs d)"

lemma effects_CreateJob: "effects (job_absent j) (\<lambda>d. snd (pg_CreateJob j d)) (wrap p (tx E (pg_CreateJob j)))"
  by (rule effects_wrap, rule effects_tx) (simp add: pg_CreateJob_def job_absent_def split: if_splits)

definition deletions_ok :: "Job \<Rightarrow> db \<Rightarrow> bool" where
  "deletions_ok j d \<longleftrightarrow> (IsToDelete (j_ps j) \<longrightarrow> (\<exists>d'. pg_DeleteJob (j_ID j) (before_job_deletion j d) = (Inr (), d')))"

lemma effects_deletions: "effects (deletions_ok j) (after_deletions j) (saveJob_deletions E j)"
  unfolding saveJob_deletions_def
  by (rule effects_eq [OF effects_seq [OF effects_each [OF effects_release] effects_seq [OF effects_each [OF effects_DeleteTask]
       effects_seq [OF effects_whenever [OF effects_wrap [OF effects_tx_snd]] effects_whenever [OF effects_succeeds]]]]])
     (simp_all add: after_deletions_def before_job_deletion_def deletions_ok_def Let_def)

definition before_locks :: "Job \<Rightarrow> db \<Rightarrow> db" where
  "before_locks j d =
     (let d = (if IsNew (j_ps j) then snd (pg_CreateJob j d) else d)
      in if params_flag IsNew j \<and> j_Type j = JobTypeCONSOLIDATION
         then snd (pg_CreateConsolidationParams (jp_ParamsID (j_Payload j)) (the (j_Params j)) d) else d)"

definition lock_indices :: "Job \<Rightarrow> nat list" where
  "lock_indices j = [0..<length (j_LockedDatasets j)]"

definition creations_ok :: "Job \<Rightarrow> db \<Rightarrow> bool" where
  "creations_ok j d \<longleftrightarrow>
     (IsNew (j_ps j) \<longrightarrow> job_absent j d) \<and> all_along (lock_guard j) (locked j) (lock_indices j) (before_locks j d) \<and>
     (created_tasks j \<noteq> [] \<longrightarrow> t_ID ` set (created_tasks j) \<inter> tasks.keys (fold (locked j) (lock_indices j) (before_locks j d)) = {})"

lemma effects_creations: "effects (creations_ok j) (after_creations j) (saveJob_creations E j)"
  unfolding saveJob_creations_def
  by (rule effects_eq [OF effects_seq [OF effects_whenever [OF effects_CreateJob]
       effects_seq [OF effects_whenever [OF effects_wrap [OF effects_tx_snd]]
       effects_seq [OF effects_each [OF effects_lock] effects_whenever [OF effects_CreateTasks]]]]])
     (simp_all add: after_creations_def creations_ok_def before_locks_def lock_indices_def Let_def)

lemma effects_UpdateJob:
  "effects (\<lambda>d. list_ex (updates j) (db_Jobs d)) (\<lambda>d. snd (pg_UpdateJob j d))
     (handle (tx E (pg_UpdateJob j)) (\<lambda>r. case r of Inl e \<Rightarrow> fails (occ_error e) | Inr _ \<Rightarrow> ok ()))"
proof (rule effectsI)
  fix w d a w' assume w: "w_txn w = Some d"
    and m: "handle (tx E (pg_UpdateJob j)) (\<lambda>r. case r of Inl e \<Rightarrow> fails (occ_error e) | Inr _ \<Rightarrow> ok ()) w = Ret (Inr a, w')"
  from m obtain r w1 where t: "tx E (pg_UpdateJob j) w = Ret (r, w1)"
    and k: "(case r of Inl e \<Rightarrow> fails (occ_error e) | Inr _ \<Rightarrow> ok ()) w1 = Ret (Inr a, w')"
    by (auto simp: handle_Ret_iff)
  from k obtain b where "r = Inr b" "w1 = w'" by (cases r) (simp_all add: fails_def ok_def)
  with t have "tx E (pg_UpdateJob j) w = Ret (Inr b, w')" by simp
  moreover have "effects (\<lambda>d. list_ex (updates j) (db_Jobs d)) (\<lambda>d. snd (pg_UpdateJob j d)) (tx E (pg_UpdateJob j))"
    by (rule effects_tx) (simp add: pg_UpdateJob_def split: if_splits)
  ultimately show "list_ex (updates j) (db_Jobs d) \<and> w_txn w' = Some (snd (pg_UpdateJob j d)) \<and> w_job w' = w_job w"
    using w by (intro effectsD)
qed

lemma effects_params_check: "effects (\<lambda>_. True) (\<lambda>d. d) (if b then panics m else ok ())"
  by (rule effectsI) (auto simp: panics_def ok_def split: if_splits)

lemma effects_updates:
  "effects (\<lambda>d. IsDirty (j_ps j) \<or> IsClean (j_ps j) \<longrightarrow>
         list_ex (updates j) (db_Jobs (fold (\<lambda>t. tasks.modify (t_ID t) (tr_State_update (\<lambda>_. t_State t))) (updated_tasks j) d)))
     (after_updates j) (saveJob_updates E j)"
  unfolding saveJob_updates_def
  by (rule effects_eq [OF effects_seq [OF effects_each [OF effects_UpdateTask] effects_seq [OF effects_params_check
       effects_whenever [OF effects_UpdateJob]]]])
     (simp_all add: after_updates_def Let_def)

definition create_guard :: "Job \<Rightarrow> db \<Rightarrow> bool" where
  "create_guard j d \<longleftrightarrow> deletions_ok j d \<and> creations_ok j (after_deletions j d)"

definition update_guard :: "Job \<Rightarrow> db \<Rightarrow> bool" where
  "update_guard j d \<longleftrightarrow> IsDirty (j_ps j) \<or> IsClean (j_ps j) \<longrightarrow>
     list_ex (updates j) (db_Jobs (fold (\<lambda>t. tasks.modify (t_ID t) (tr_State_update (\<lambda>_. t_State t))) (updated_tasks j)
       (after_creations j (after_deletions j d))))"

lemma effects_rows:
  "effects (\<lambda>d. create_guard j d \<and> update_guard j d) (\<lambda>d. after_updates j (after_creations j (after_deletions j d)))
     (seq (saveJob_deletions E j) (\<lambda>_. seq (saveJob_creations E j) (\<lambda>_. saveJob_updates E j)))"
  by (rule effects_eq [OF effects_seq [OF effects_deletions effects_seq [OF effects_creations effects_updates]]])
     (auto simp: create_guard_def update_guard_def)

lemma on_job_Inr: "on_job f w = Ret (Inr u, w') \<longleftrightarrow> (\<exists>j. f (w_job w) = Ret j \<and> w' = w\<lparr>w_job := j\<rparr>)"
  by (auto simp: on_job_def go_bind_eq_Ret_iff)

theorem saveJob_body_Inr:
  assumes "saveJob_body E w = Ret (Inr u, w')" and d: "w_txn w = Some d"
  shows "w_txn w' = Some (saved_tables (w_job w) d) \<and> create_guard (w_job w) d \<and> update_guard (w_job w) d \<and>
         mark_saved (ClearPersistedLogs (drop_deleted (w_job w))) = Ret (w_job w')"
proof -
  let ?j = "w_job w"
  let ?rows = "seq (saveJob_deletions E ?j) (\<lambda>_. seq (saveJob_creations E ?j) (\<lambda>_. saveJob_updates E ?j))"
  have "saveJob_body E w = seq ?rows (\<lambda>_. seq (on_job (\<lambda>j. Ret (drop_deleted j))) (\<lambda>_. seq (saveJobLogs_body E) (\<lambda>_. on_job mark_saved))) w"
    by (simp add: saveJob_body_def seq_assoc) (simp add: seq_def handle_def reading_def)
  with assms(1) obtain w1 w2 w3 where rows: "?rows w = Ret (Inr (), w1)"
    and drop: "on_job (\<lambda>j. Ret (drop_deleted j)) w1 = Ret (Inr (), w2)"
    and logs: "saveJobLogs_body E w2 = Ret (Inr (), w3)" and mark: "on_job mark_saved w3 = Ret (Inr u, w')"
    by (auto simp: seq_Inr_iff)
  from effectsD [OF effects_rows rows d]
  have 1: "w_txn w1 = Some (after_updates ?j (after_creations ?j (after_deletions ?j d)))" "w_job w1 = ?j"
    and g: "create_guard ?j d" "update_guard ?j d" by simp_all
  from drop have 2: "w_job w2 = drop_deleted ?j" "w_txn w2 = w_txn w1" by (auto simp: on_job_Inr 1)
  from logs obtain w4 where "tx E (pg_PersistLogs (j_ID (w_job w2)) (j_NewLogs (w_job w2))) w2 = Ret (Inr (), w4)"
    and 4: "w3 = w4\<lparr>w_job := ClearPersistedLogs (w_job w4)\<rparr>"
    by (auto simp: saveJobLogs_body_def seq_Inr_iff on_job_Inr reading_def)
  from effectsD [OF effects_tx_snd this(1)] 1 2
  have "w_txn w4 = Some (saved_tables ?j d)" "w_job w4 = drop_deleted ?j"
    by (simp_all add: saved_tables_def drop_deleted_def)
  with mark 4 g show ?thesis by (auto simp: on_job_Inr)
qed

theorem saveJob_Inr:
  assumes "saveJob E False w = Ret (Inr u, w')" and "w_txn w = None"
  shows "w_db w' = saved_tables (w_job w) (w_db w) \<and> create_guard (w_job w) (w_db w) \<and> update_guard (w_job w) (w_db w) \<and>
         mark_saved (ClearPersistedLogs (drop_deleted (w_job w))) = Ret (w_job w') \<and> w_txn w' = None"
proof -
  from assms have "unitOfWork E (saveJob_body E) w = Ret (Inr u, w')" by (simp add: saveJob_def)
  then obtain w1 d where b: "saveJob_body E (in_txn w) = Ret (Inr u, w1)" "w_txn w1 = Some d"
    "w' = w1\<lparr>w_tick := Suc (w_tick w1), w_db := d, w_txn := None\<rparr>"
    using assms(2) by (rule unitOfWork_Inr)
  from saveJob_body_Inr [OF b(1), of "w_db w"] b(2,3) show ?thesis by (simp add: in_txn_def)
qed

section \<open>Which statement touches which table\<close>

named_theorems table_frames \<open>tables a statement leaves alone\<close>

lemma pg_job_frames [table_frames]:
  "db_Tasks (snd (pg_ReleaseDatasets i f d)) = db_Tasks d"
  "db_Jobs (snd (pg_ReleaseDatasets i f d)) = db_Jobs d"
  "db_Jobs (tasks.remove k d) = db_Jobs d"
  "db_Jobs (tasks.modify k g d) = db_Jobs d"
  "db_Jobs (tasks.append ts d) = db_Jobs d"
  "db_Tasks (snd (pg_DeleteConsolidationParams p d)) = db_Tasks d"
  "db_Jobs (snd (pg_DeleteConsolidationParams p d)) = db_Jobs d"
  "db_Tasks (snd (pg_DeleteJob i d)) = db_Tasks d"
  "db_Tasks (snd (pg_CreateJob j d)) = db_Tasks d"
  "db_Tasks (snd (pg_CreateConsolidationParams p cp d)) = db_Tasks d"
  "db_Jobs (snd (pg_CreateConsolidationParams p cp d)) = db_Jobs d"
  "db_Tasks (snd (pg_LockDatasets i ids f d)) = db_Tasks d"
  "db_Jobs (snd (pg_LockDatasets i ids f d)) = db_Jobs d"
  "db_Tasks (snd (pg_UpdateJob j d)) = db_Tasks d"
  "db_Tasks (snd (pg_PersistLogs i ls d)) = db_Tasks d"
  "db_Jobs (snd (pg_PersistLogs i ls d)) = db_Jobs d"
  by (simp_all add: pg_ReleaseDatasets_def tasks.remove_def tasks.modify_def tasks.append_def pg_DeleteConsolidationParams_def pg_delete_def
      pg_DeleteJob_def pg_CreateJob_def pg_CreateConsolidationParams_def pg_LockDatasets_def pg_UpdateJob_def pg_PersistLogs_def
      split: option.splits)

lemma fold_frame: "(\<And>x d. t (f x d) = t d) \<Longrightarrow> t (fold f xs d) = t d"
  by (induction xs arbitrary: d) simp_all

lemma table_folds [table_frames]:
  "db_Tasks (fold (released j) ns d) = db_Tasks d" "db_Jobs (fold (released j) ns d) = db_Jobs d"
  "db_Tasks (fold (locked j) ns d) = db_Tasks d" "db_Jobs (fold (locked j) ns d) = db_Jobs d"
  "db_Jobs (fold (\<lambda>t. tasks.remove (f t)) ts d) = db_Jobs d"
  "db_Jobs (fold (\<lambda>t. tasks.modify (f t) (g t)) ts d) = db_Jobs d"
  by (rule fold_frame, simp add: released_def locked_def table_frames Let_def)+

lemma tasks_lookup_cong: "db_Tasks d = db_Tasks d' \<Longrightarrow> tasks.lookup i d = tasks.lookup i d' \<and> tasks.keys d = tasks.keys d'"
  by (simp add: tasks.lookup_def tasks.keys_def)

end
