(* ===== verification/Quiet.thy ===== *)
theory Quiet
  imports Handlers JobMachineProps PersisterProps
begin

text \<open>
  A quiet method neither publishes an event nor changes the identity, type, state or execution level of
  the job at hand: every operation that a handler starts is quiet, only \<open>publishEvent\<close> is not.
\<close>

definition calm :: "world \<Rightarrow> (string \<times> JobType \<times> JobState \<times> ExecutionLevel) \<times> JobEvent list" where
  "calm w = ((j_ID (w_job w), j_Type (w_job w), j_State (w_job w), j_ExecutionLevel (w_job w)), w_events w)"

abbreviation quiet :: "'a act \<Rightarrow> bool" where
  "quiet \<equiv> keeps (\<lambda>w w'. calm w' = calm w)"

definition keeps_key :: "(Job \<Rightarrow> Job go) \<Rightarrow> bool" where
  "keeps_key f \<longleftrightarrow> (\<forall>j j'. f j = Ret j' \<longrightarrow>
     j_ID j' = j_ID j \<and> j_Type j' = j_Type j \<and> j_State j' = j_State j \<and> j_ExecutionLevel j' = j_ExecutionLevel j)"

lemma keeps_keyI:
  "(\<And>j j'. f j = Ret j' \<Longrightarrow> j_ID j' = j_ID j \<and> j_Type j' = j_Type j \<and> j_State j' = j_State j \<and>
     j_ExecutionLevel j' = j_ExecutionLevel j) \<Longrightarrow> keeps_key f"
  by (auto simp: keeps_key_def)

lemma keeps_keyD:
  "keeps_key f \<Longrightarrow> f j = Ret j' \<Longrightarrow> j_ID j' = j_ID j \<and> j_Type j' = j_Type j \<and> j_State j' = j_State j \<and>
     j_ExecutionLevel j' = j_ExecutionLevel j"
  by (auto simp: keeps_key_def)

definition keeps_key_err :: "(Job \<Rightarrow> (gerr option \<times> Job) go) \<Rightarrow> bool" where
  "keeps_key_err f \<longleftrightarrow> keeps_key (\<lambda>j. go_bind (f j) (\<lambda>(eo, j'). Ret j'))"

named_theorems key_intros \<open>methods of a job that keep its identity, type, state and level\<close>

section \<open>Methods of the job\<close>

lemma LogMsg_key [key_intros]: "keeps_key (LogMsg now s m)"
  by (rule keeps_keyI) (auto simp: LogMsg_def job_dirty_def go_bind_eq_Ret_iff Let_def)

lemma LogErr_key [key_intros]: "keeps_key (LogErr now m)"
  by (rule keeps_keyI) (auto simp: LogErr_def dest: keeps_keyD [OF LogMsg_key] split: if_splits)

lemma ClearPersistedLogs_key [key_intros]: "keeps_key (\<lambda>j. Ret (ClearPersistedLogs j))"
  by (rule keeps_keyI) (auto simp: ClearPersistedLogs_def)

lemma drop_deleted_key [key_intros]: "keeps_key (\<lambda>j. Ret (drop_deleted j))"
  by (rule keeps_keyI) (auto simp: drop_deleted_def)

lemma set_tasks_key [key_intros]: "keeps_key (\<lambda>j. Ret (j\<lparr>j_Tasks := ts\<rparr>))"
  by (rule keeps_keyI) auto

lemma job_Clean_key [key_intros]: "keeps_key (job_Clean b)"
  by (rule keeps_keyI) (auto simp: job_Clean_def go_bind_eq_Ret_iff split: if_splits)

lemma mark_saved_key [key_intros]: "keeps_key mark_saved"
  by (rule keeps_keyI) (auto simp: mark_saved_def dest: keeps_keyD [OF job_Clean_key] split: if_splits)

lemma LockDatasets_key [key_intros]: "keeps_key (LockDatasets ids flag)"
  by (rule keeps_keyI) (auto simp: LockDatasets_def go_bind_eq_Ret_iff Let_def split: if_splits)

lemma release_lock_key: "keeps_key (release_lock i)"
  by (rule keeps_keyI) (auto simp: release_lock_def go_bind_eq_Ret_iff Let_def split: if_splits)

lemma go_fold_key: "(\<And>x. keeps_key (f x)) \<Longrightarrow> keeps_key (go_fold f xs)"
proof (rule keeps_keyI)
  fix j j' assume f: "\<And>x. keeps_key (f x)" and r: "go_fold f xs j = Ret j'"
  from r show "j_ID j' = j_ID j \<and> j_Type j' = j_Type j \<and> j_State j' = j_State j \<and> j_ExecutionLevel j' = j_ExecutionLevel j"
    by (induction xs arbitrary: j) (auto simp: go_bind_eq_Ret_iff dest!: keeps_keyD [OF f])
qed

lemma ReleaseDatasets_key [key_intros]: "keeps_key (ReleaseDatasets flag)"
  by (cases "flag = LockFlagALL")
     (auto simp: keeps_key_def ReleaseDatasets_def dest!: keeps_keyD [OF release_lock_key] keeps_keyD [OF go_fold_key [OF release_lock_key]])

lemma updateTaskCounters_key: "keeps_key (updateTaskCounters now st n)"
  by (rule keeps_keyI) (auto simp: updateTaskCounters_def job_dirty_def go_bind_eq_Ret_iff split: TaskState.splits if_splits)

lemma setTaskState_key: "setTaskState now i st j = Ret (b, j') \<Longrightarrow>
  j_ID j' = j_ID j \<and> j_Type j' = j_Type j \<and> j_State j' = j_State j \<and> j_ExecutionLevel j' = j_ExecutionLevel j"
  by (auto simp: setTaskState_def Let_def go_bind_eq_Ret_iff dest!: keeps_keyD [OF updateTaskCounters_key] split: if_splits)

lemma CancelTask_key [key_intros]: "keeps_key (CancelTask now i)"
  by (rule keeps_keyI) (auto simp: CancelTask_def go_bind_eq_Ret_iff dest!: setTaskState_key)

lemma DeleteTask_key [key_intros]: "keeps_key (DeleteTask now i)"
  by (rule keeps_keyI) (auto simp: DeleteTask_def go_bind_eq_Ret_iff dest!: setTaskState_key split: if_splits)

lemma DeleteAllTasks_key [key_intros]: "keeps_key (DeleteAllTasks now)"
  by (rule keeps_keyI) (auto simp: DeleteAllTasks_def dest!: keeps_keyD [OF go_fold_key [OF DeleteTask_key]])

lemma ResetTasks_key [key_intros]: "keeps_key (ResetTasks now states)"
proof (rule keeps_keyI)
  fix j j' assume r: "ResetTasks now states j = Ret j'"
  have "keeps_key (\<lambda>j. if (case states of None \<Rightarrow> True | Some l \<Rightarrow> t_State (j_Tasks j ! i) \<in> set l)
                    then go_bind (setTaskState now i TaskStateNEW j) (\<lambda>(_, j). Ret j) else Ret j)" for i
    by (rule keeps_keyI) (auto simp: go_bind_eq_Ret_iff dest!: setTaskState_key split: if_splits)
  from keeps_keyD [OF go_fold_key [OF this] r [unfolded ResetTasks_def]]
  show "j_ID j' = j_ID j \<and> j_Type j' = j_Type j \<and> j_State j' = j_State j \<and> j_ExecutionLevel j' = j_ExecutionLevel j" .
qed

lemma keeps_key_errI:
  "(\<And>j eo j'. f j = Ret (eo, j') \<Longrightarrow> j_ID j' = j_ID j \<and> j_Type j' = j_Type j \<and> j_State j' = j_State j \<and>
     j_ExecutionLevel j' = j_ExecutionLevel j) \<Longrightarrow> keeps_key_err f"
  by (auto simp: keeps_key_err_def keeps_key_def go_bind_eq_Ret_iff)

lemma CreateDeletionTask_key [key_intros]: "keeps_key_err (CreateDeletionTask uid now uri)"
  by (rule keeps_key_errI) (auto simp: CreateDeletionTask_def job_dirty_def go_bind_eq_Ret_iff split: sum.splits)

lemma CreateConsolidationTask_key [key_intros]: "keeps_key_err (CreateConsolidationTask uid now evt)"
  by (rule keeps_key_errI) (auto simp: CreateConsolidationTask_def job_dirty_def go_bind_eq_Ret_iff split: sum.splits)

lemma SetParams_key [key_intros]: "keeps_key_err (\<lambda>j. Ret (SetParams p j))"
  by (rule keeps_key_errI) (auto simp: SetParams_def split: if_splits)

lemma UpdateTask_key [key_intros]: "keeps_key_err (UpdateTask now evt)"
  by (rule keeps_key_errI)
     (auto simp: UpdateTask_def unhandled_task_def Let_def go_bind_eq_Ret_iff
       dest!: setTaskState_key keeps_keyD [OF LogErr_key] split: option.splits if_splits TaskState.splits)

section \<open>Steps\<close>

lemma on_job_quiet [keeps_intros]: "keeps_key f \<Longrightarrow> quiet (on_job f)"
  by (auto simp: keeps_def on_job_def go_bind_eq_Ret_iff keeps_key_def calm_def)

lemma on_job_err_quiet [keeps_intros]: "keeps_key_err f \<Longrightarrow> quiet (on_job_err f)"
  by (fastforce simp: keeps_def on_job_err_def go_bind_eq_Ret_iff keeps_key_err_def keeps_key_def calm_def)

lemma tx_quiet [keeps_intros]: "quiet (tx E op)"
  by (rule tx_keeps, simp, simp add: calm_def)

lemma ticking_quiet [keeps_intros]: "quiet (ticking f)"
  by (auto simp: keeps_def ticking_def calm_def)

lemma dbx_quiet [keeps_intros]: "quiet (dbx E op)"
  by (auto simp: keeps_def dbx_def Let_def calm_def split: option.splits prod.splits)

lemma on_job_now_quiet [keeps_intros]: "(\<And>now. keeps_key (f now)) \<Longrightarrow> quiet (on_job_now E f)"
  unfolding on_job_now_def by (intro keeps_intros) auto

lemma on_job_err_now_quiet [keeps_intros]: "(\<And>now. keeps_key_err (f now)) \<Longrightarrow> quiet (on_job_err_now E f)"
  unfolding on_job_err_now_def by (intro keeps_intros) auto

lemma log_job_quiet [keeps_intros]: "quiet (log_job E s m)"
  unfolding log_job_def by (intro keeps_intros key_intros) auto

lemma log_count_quiet [keeps_intros]: "quiet (log_count E s a n b)"
  unfolding log_count_def by (rule log_job_quiet)

lemma set_tasks_quiet [keeps_intros]: "quiet (set_tasks ts)"
  unfolding set_tasks_def by (intro keeps_intros key_intros)

lemma calm_simps [simp]:
  "calm (w\<lparr>w_tick := t\<rparr>) = calm w" "calm (w\<lparr>w_db := d\<rparr>) = calm w" "calm (w\<lparr>w_txn := x\<rparr>) = calm w"
  "calm (w\<lparr>w_deleted := l\<rparr>) = calm w" "calm (w\<lparr>w_cancelled := l\<rparr>) = calm w" "calm (w\<lparr>w_orders := o'\<rparr>) = calm w"
  by (simp_all add: calm_def)

lemma unitOfWork_quiet [keeps_intros]:
  assumes "quiet f" shows "quiet (unitOfWork E f)"
proof (rule keepsI)
  fix w r w' assume u: "unitOfWork E f w = Ret (r, w')"
  have k: "calm w1 = calm w" if "f (in_txn w) = Ret (x, w1)" for x w1
    using keepsD [OF assms that] by (simp add: in_txn_def calm_def)
  from u show "calm w' = calm w"
    by (cases rule: unitOfWork_cases) (auto dest: k)
qed

lemma opSubFncDeleteContainer_quiet [keeps_intros]: "quiet (opSubFncDeleteContainer E u)"
  by (rule keepsI) (auto simp: opSubFncDeleteContainer_def Let_def split: option.splits)

lemma upload_cancelled_quiet [keeps_intros]: "quiet (upload_cancelled E u)"
  by (rule keepsI) (auto simp: upload_cancelled_def Let_def split: option.splits)

lemma publish_orders_quiet [keeps_intros]: "quiet (publish_orders E u)"
  by (rule keepsI) (auto simp: publish_orders_def Let_def split: option.splits)

lemma with_job_quiet:
  assumes "\<And>w r w'. m w = Ret (r, w') \<Longrightarrow> w_events w' = w_events w" shows "quiet (with_job j m)"
proof (rule keepsI)
  fix w r w' assume "with_job j m w = Ret (r, w')"
  then obtain r1 w1 where "m (w\<lparr>w_job := j\<rparr>) = Ret (r1, w1)" "w' = w1\<lparr>w_job := w_job w\<rparr>"
    by (auto simp: with_job_def seq_Ret_iff reading_def set_job_def handle_Ret_iff lift_result_def)
  with assms show "calm w' = calm w" by (fastforce simp: calm_def)
qed

lemma case_sum_quiet [keeps_intros]:
  "(\<And>e. r = Inl e \<Longrightarrow> quiet (f e)) \<Longrightarrow> (\<And>a. r = Inr a \<Longrightarrow> quiet (g a)) \<Longrightarrow> quiet (case r of Inl e \<Rightarrow> f e | Inr a \<Rightarrow> g a)"
  by (cases r) auto

lemma case_option_quiet [keeps_intros]:
  "(r = None \<Longrightarrow> quiet f) \<Longrightarrow> (\<And>a. r = Some a \<Longrightarrow> quiet (g a)) \<Longrightarrow> quiet (case r of None \<Rightarrow> f | Some a \<Rightarrow> g a)"
  by (cases r) auto

lemma case_list_quiet [keeps_intros]:
  "(r = [] \<Longrightarrow> quiet f) \<Longrightarrow> (\<And>a as. r = a # as \<Longrightarrow> quiet (g a as)) \<Longrightarrow> quiet (case r of [] \<Rightarrow> f | a # as \<Rightarrow> g a as)"
  by (cases r) auto

lemma case_prod_quiet [keeps_intros]:
  "(\<And>a b. p = (a, b) \<Longrightarrow> quiet (f a b)) \<Longrightarrow> quiet (case p of (a, b) \<Rightarrow> f a b)"
  by (cases p) auto

lemma case_bool_quiet [keeps_intros]: "(b \<Longrightarrow> quiet m) \<Longrightarrow> (\<not> b \<Longrightarrow> quiet m') \<Longrightarrow> quiet (case b of True \<Rightarrow> m | False \<Rightarrow> m')"
  by (cases b) auto

lemma if_quiet [keeps_intros]: "(b \<Longrightarrow> quiet m) \<Longrightarrow> (\<not> b \<Longrightarrow> quiet m') \<Longrightarrow> quiet (if b then m else m')"
  by simp

declare frame_rel_eq [keeps_intros]

section \<open>Methods of the service\<close>

lemma saveJobLogs_body_quiet [keeps_intros]: "quiet (saveJobLogs_body E)"
  unfolding saveJobLogs_body_def by (intro keeps_intros key_intros)

lemma saveJobLogs_quiet [keeps_intros]: "quiet (saveJobLogs E txn)"
  unfolding saveJobLogs_def by (intro keeps_intros key_intros)

lemma saveJob_body_quiet [keeps_intros]: "quiet (saveJob_body E)"
  unfolding saveJob_body_def saveJob_deletions_def saveJob_creations_def saveJob_updates_def
    release_stored_def lock_stored_def Let_def
  by (intro keeps_intros key_intros)

lemma saveJob_quiet [keeps_intros]: "quiet (saveJob E txn)"
  unfolding saveJob_def by (intro keeps_intros key_intros)

lemma saveContainer_body_quiet [keeps_intros]: "quiet (saveContainer_body E c)"
  unfolding saveContainer_body_def saveContainer_rows_def Let_def by (intro keeps_intros key_intros)

lemma saveContainer_quiet [keeps_intros]: "quiet (saveContainer E txn c)"
  unfolding saveContainer_def by (intro keeps_intros key_intros)

lemma add_datasets_quiet [keeps_intros]: "quiet (add_datasets E ds c)"
proof (induction ds arbitrary: c)
  case (Cons d ds)
  then show ?case unfolding add_datasets.simps by (intro keeps_intros) auto
qed (simp, intro keeps_intros)

lemma prepareIndexation_quiet [keeps_intros]: "quiet (prepareIndexation E c ds)"
  unfolding prepareIndexation_def by (intro keeps_intros key_intros)

lemma clean_containers_quiet [keeps_intros]: "quiet (clean_containers cs)"
  by (induction cs) (auto intro!: keeps_intros key_intros)

lemma remove_datasets_quiet [keeps_intros]: "quiet (remove_datasets ds cs uris)"
proof (induction ds arbitrary: cs uris)
  case (Cons d ds)
  show ?case unfolding remove_datasets.simps by (intro keeps_intros Cons)
qed (auto intro!: keeps_intros key_intros)

lemma opSubFncRemoveDatasets_quiet [keeps_intros]: "quiet (opSubFncRemoveDatasets E ds)"
  unfolding opSubFncRemoveDatasets_def by (intro keeps_intros key_intros)

lemma opSubFncRemoveDatasetsAndContainers_quiet [keeps_intros]: "quiet (opSubFncRemoveDatasetsAndContainers E b l s)"
  unfolding opSubFncRemoveDatasetsAndContainers_def remove_job_datasets_def by (intro keeps_intros key_intros)

lemma load_tasks_quiet [keeps_intros]: "quiet (load_tasks E states)"
  unfolding load_tasks_def by (intro keeps_intros key_intros)

lemma delSetToDelete_quiet [keeps_intros]: "quiet (delSetToDelete E)"
  unfolding delSetToDelete_def by (intro keeps_intros key_intros)

lemma delRemoveDatasets_quiet [keeps_intros]: "quiet (delRemoveDatasets E)"
  unfolding delRemoveDatasets_def by (intro keeps_intros key_intros)

lemma delete_files_quiet [keeps_intros]: "quiet (delete_files E ts n errs)"
proof (induction ts arbitrary: n errs)
  case (Cons t ts)
  show ?case unfolding delete_files.simps by (intro keeps_intros key_intros Cons)
qed (simp, intro keeps_intros)

lemma delete_done_tasks_quiet [keeps_intros]: "quiet (delete_done_tasks E)"
  unfolding delete_done_tasks_def by (intro keeps_intros key_intros)

lemma delDeleteContainers_quiet [keeps_intros]: "quiet (delDeleteContainers E)"
  unfolding delDeleteContainers_def by (intro keeps_intros key_intros)

lemma delRollback_quiet [keeps_intros]: "quiet (delRollback E)"
  unfolding delRollback_def by (intro keeps_intros key_intros)

lemma err_job_quiet [keeps_intros]: "quiet (err_job E m)"
  unfolding err_job_def by (intro keeps_intros key_intros)

lemma opContactAdmin_quiet [keeps_intros]: "quiet (opContactAdmin E)"
  unfolding opContactAdmin_def by (intro keeps_intros)

lemma shape_records_quiet [keeps_intros]: "quiet (shape_records E G c rs used)"
proof (induction rs arbitrary: used)
  case (Cons r rs)
  obtain x ids where r: "r = (x, ids)" by fastforce
  show ?case unfolding r shape_records.simps by (intro keeps_intros Cons)
qed (simp, intro keeps_intros)

lemma create_tasks_quiet [keeps_intros]: "quiet (create_tasks E n c bs)"
  unfolding create_tasks_def by (intro keeps_intros key_intros)

lemma need_quiet [keeps_intros]: "quiet (csldPrepareOrdersNeedConsolidation E ds u c)"
  unfolding csldPrepareOrdersNeedConsolidation_def by (intro keeps_intros)

lemma sort_quiet [keeps_intros]: "quiet (csldPrepareOrdersSortDatasets E f ds u)"
  unfolding csldPrepareOrdersSortDatasets_def Let_def by (intro keeps_intros)

lemma cell_orders_quiet [keeps_intros]: "quiet (cell_orders E G C c n b ds st)"
  unfolding cell_orders_def by (intro keeps_intros)

lemma prepare_cell_quiet [keeps_intros]: "quiet (prepare_cell E G C c st)"
  unfolding prepare_cell_def Let_def by (intro keeps_intros)

lemma prepare_cells_quiet [keeps_intros]: "quiet (prepare_cells E G C cs st)"
proof (induction cs arbitrary: st)
  case (Cons c cs)
  show ?case by (cases c) (simp_all, (intro keeps_intros Cons)+)
qed (simp, intro keeps_intros)

lemma csldPrepareOrders_quiet [keeps_intros]: "quiet (csldPrepareOrders E G)"
  unfolding csldPrepareOrders_def csldPrepareOrders_body_def Let_def by (intro keeps_intros key_intros)

lemma send_tasks_quiet [keeps_intros]: "quiet (send_tasks E is os b)"
proof (induction "is" arbitrary: os b)
  case (Cons i "is")
  show ?case unfolding send_tasks.simps Let_def by (intro keeps_intros key_intros Cons)
qed (simp, intro keeps_intros)

lemma index_datasets_quiet [keeps_intros]: "quiet (index_datasets E G c d i rs)"
proof (induction rs arbitrary: i)
  case (Cons r rs)
  show ?case unfolding index_datasets.simps by (intro keeps_intros Cons)
qed (simp, intro keeps_intros)

lemma index_task_quiet [keeps_intros]: "quiet (index_task E G t)"
  unfolding index_task_def index_container_def by (intro keeps_intros key_intros)

lemma index_loop_quiet [keeps_intros]: "quiet (index_loop E G n)"
proof (induction n)
  case (Suc n)
  show ?case unfolding index_loop.simps [of E G "Suc n"] by (simp, intro keeps_intros Suc)
qed (simp add: index_loop.simps, intro keeps_intros)

lemma csldIndex_quiet [keeps_intros]: "quiet (csldIndex E G)"
  unfolding csldIndex_def by (intro keeps_intros key_intros)

lemma csldSwapDatasets_quiet [keeps_intros]: "quiet (csldSwapDatasets E)"
  unfolding csldSwapDatasets_def csldSwapDatasets_body_def by (intro keeps_intros key_intros)

lemma saveJob_with_job_quiet [keeps_intros]: "quiet (with_job j (seq (saveJob E b) (\<lambda>_. reading w_job)))"
proof (rule with_job_quiet)
  fix w r w' assume s: "seq (saveJob E b) (\<lambda>_. reading w_job) w = Ret (r, w')"
  have "quiet (seq (saveJob E b) (\<lambda>_. reading w_job))" by (intro keeps_intros)
  from keepsD [OF this s] show "w_events w' = w_events w" by (simp add: calm_def)
qed

lemma hand_over_quiet [keeps_intros]: "quiet (hand_over E)"
  unfolding hand_over_def Let_def by (intro keeps_intros key_intros)

lemma delete_pending_quiet [keeps_intros]: "quiet (csldSubFncDeletePendingRemoteContainers E)"
  unfolding csldSubFncDeletePendingRemoteContainers_def delete_pending_container_def by (intro keeps_intros key_intros)

lemma cancel_pool_quiet [keeps_intros]: "quiet (cancel_pool E n ps errs)"
proof (induction E n ps errs rule: cancel_pool.induct)
  case (3 E n p ps errs)
  show ?case unfolding cancel_pool.simps by (intro keeps_intros 3)
qed (simp_all, (intro keeps_intros)+)

lemma csldCancel_quiet [keeps_intros]: "quiet (csldCancel E)"
  unfolding csldCancel_def by (intro keeps_intros)

lemma retry_quiet [keeps_intros]: "quiet (csldConsolidationRetry E)" "quiet (csldConsolidationForceRetry E)"
  unfolding csldConsolidationRetry_def csldConsolidationForceRetry_def by (intro keeps_intros key_intros)+

lemma csldRollback_quiet [keeps_intros]: "quiet (csldRollback E)"
  unfolding csldRollback_def csldSubFncDeleteContainers_def by (intro keeps_intros key_intros)

end
