(* ===== verification/Samples.thy ===== *)
theory Samples
  imports Persister JobTasksProps ContainersProps
begin

text \<open>
  A small database and a world on which the properties of the service are applied: a consolidation job
  \<open>j1\<close> with two tasks, which holds the dataset \<open>d1\<close> for its initialisation, and a second dataset.  The
  outside answers without failure.
\<close>

definition sample_env :: env where
  "sample_env =
     \<lparr>e_now = (\<lambda>n. 1000000 + 1000 * int n), e_uuid = (\<lambda>n. ''u'' @ nat_digits n), e_fault = (\<lambda>_. None),
      e_uri_error = (\<lambda>_. None), e_delete_error = (\<lambda>_ _. None), e_upload_error = (\<lambda>_ _. None),
      e_coords_text = (\<lambda>_. []), e_gob = (\<lambda>_. []), e_cancelledPath = ''gs://cancelled''\<rparr>"

definition sample_job_row :: "JobType \<Rightarrow> JobState \<Rightarrow> job_row" where
  "sample_job_row t s =
     \<lparr>jr_ID = ''j1'', jr_Name = ''job'', jr_Type = t, jr_CreationTime = 1000, jr_LastUpdate = 5000,
      jr_State = s, jr_ActiveTasks = 1, jr_FailedTasks = 0,
      jr_Payload = \<lparr>jp_Layout = ''l'', jp_InstanceID = ''i1'', jp_ParamsID = ''j1'', jp_CollapseRecordId = []\<rparr>,
      jr_ExecutionLevel = ExecutionAsynchronous, jr_Waiting = False\<rparr>"

definition sample_db :: "JobType \<Rightarrow> JobState \<Rightarrow> db" where
  "sample_db t s =
     \<lparr>db_Jobs = [sample_job_row t s],
      db_Tasks = [\<lparr>tr_ID = ''t1'', tr_State = TaskStatePENDING, tr_Payload = RawBytes ''gs://b'', tr_JobID = ''j1''\<rparr>,
                  \<lparr>tr_ID = ''t2'', tr_State = TaskStateDONE, tr_Payload = RawBytes ''gs://c'', tr_JobID = ''j1''\<rparr>],
      db_Locks = [\<lparr>lk_DatasetID = ''d1'', lk_JobID = ''j1'', lk_Flag = 0\<rparr>],
      db_Datasets = [\<lparr>dr_Dataset = sample_dataset ''d1'' UNKNOWN [1], dr_LockedBy = Some ''j1''\<rparr>,
                     \<lparr>dr_Dataset = sample_dataset ''d2'' UNKNOWN [2], dr_LockedBy = None\<rparr>],
      db_Containers = [\<lparr>ct_ID = 7, ct_URI = ''gs://a'', ct_Managed = False, ct_StorageClass = StorageClassSTANDARD\<rparr>],
      db_NextContainer = 8, db_ContainerLayouts = [], db_Layouts = [], db_Params = [], db_Logs = [],
      db_Records = [(''r1'', 0)], db_RecordAOI = (\<lambda>_. ''a1''), db_AOIs = [''a1''], db_Variables = [], db_Instances = []\<rparr>"

text \<open>The job as the first handler reads it: the first task fails, the second is deleted, a third is new; the
  dataset \<open>d1\<close> changes its flag.\<close>

definition sample_saved_job :: Job where
  "sample_saved_job =
     (job_of_row (sample_job_row JobTypeCONSOLIDATION JobStateCREATED))
       \<lparr>j_ps := DIRTY, j_occTime := 5000, j_LastUpdateTime := 9000, j_State := JobStateCONSOLIDATIONINPROGRESS,
        j_Tasks := [\<lparr>t_ps = DIRTY, t_ID = ''t1'', t_State = TaskStateFAILED, t_Payload = RawBytes []\<rparr>,
                    \<lparr>t_ps = TODELETE, t_ID = ''t2'', t_State = TaskStateDONE, t_Payload = RawBytes []\<rparr>,
                    \<lparr>t_ps = NEW, t_ID = ''t3'', t_State = TaskStateNEW, t_Payload = RawBytes ''gs://d''\<rparr>],
        j_LockedDatasets := [\<lparr>ld_ps = TODELETE, ld_newDatasetsID = []\<rparr>,
                             \<lparr>ld_ps = DIRTY, ld_newDatasetsID = [''d1'']\<rparr>,
                             \<lparr>ld_ps = CLEAN, ld_newDatasetsID = []\<rparr>]\<rparr>"

definition sample_world :: "db \<Rightarrow> Job \<Rightarrow> world" where
  "sample_world d j =
     \<lparr>w_db = d, w_txn = None, w_job = j, w_events = [], w_orders = [], w_deleted = [], w_cancelled = [], w_tick = 0\<rparr>"

definition saving_world :: world where
  "saving_world = sample_world (sample_db JobTypeCONSOLIDATION JobStateCREATED) sample_saved_job"

definition succeeds :: "((gerr + 'a) \<times> world) go \<Rightarrow> bool" where
  "succeeds m = (case m of Ret (Inr _, _) \<Rightarrow> True | _ \<Rightarrow> False)"

lemma succeeds_iff: "succeeds m \<longleftrightarrow> (\<exists>a w. m = Ret (Inr a, w))"
  by (auto simp: succeeds_def split: go.splits sum.splits)

lemma saving_succeeds: "succeeds (saveJob sample_env False saving_world)"
  by code_simp

end
