(* ===== verification/HandlersProps.thy ===== *)
theory HandlersProps
  imports Quiet Samples
begin

text \<open>
  The recursion of the handlers is bounded: a synchronous job handles a chain of at most seven events, in
  whatever state the tables are and whatever calls fail.
\<close>

section \<open>Where an event leads\<close>

lemma state_rank_le: "state_rank s \<le> 6"
  by (cases s) simp_all

lemma edge_of_rank: "edge_of t w s e s' \<Longrightarrow> state_rank s' \<le> rank e"
  by (cases t) (auto simp: csld_edge_iff del_edge_iff)

lemma job_edge_rank: "job_edge t w s e s' \<Longrightarrow> state_rank s' \<le> rank e"
  by (auto simp: job_edge_iff state_rank_le dest: edge_of_rank)

lemma trigger_dispatch_panics:
  assumes "alive j" and "j_State j \<notin> states_of (j_Type j)"
  shows "\<exists>m. trigger_dispatch now evt j = Panic m"
proof -
  define j1 where "j1 = (if je_Error evt = [] then j else logged now ERROR (je_Error evt) j)"
  have j1: "(if je_Error evt \<noteq> [] then LogErr now (je_Error evt) j else Ret j) = Ret j1"
    using assms(1) by (simp add: j1_def LogErr_alive)
  have s: "j_State j1 = j_State j" "j_Type j1 = j_Type j" by (simp_all add: j1_def)
  show ?thesis
    using assms(2)
    by (cases "j_Type j"; cases "j_State j")
       (simp_all add: trigger_dispatch_def j1 s csld_states_def del_states_def triggerConsolidation_def
         triggerDeletion_def triggerIngestion_def)
qed

lemma Trigger_rank:
  assumes "alive j" and t: "Trigger now evt j = Ret (None, j')"
  shows "state_rank (j_State j') \<le> rank (je_Status evt)"
proof (cases "j_State j \<in> states_of (j_Type j)")
  case True
  with assms Trigger_refines [OF assms(1) True, of now evt]
  have "trigger_ok (je_Status evt) j None j'" by auto
  then show ?thesis by (auto simp: trigger_ok_def dest: job_edge_rank)
next
  case False
  show ?thesis
  proof (cases "je_Status evt = Continue \<or> je_Status evt = RetryForced")
    case True
    then show ?thesis using state_rank_le [of "j_State j'"] by auto
  next
    case no: False
    with trigger_dispatch_panics [OF assms(1) False, of now evt] t
    show ?thesis by (auto simp: Trigger_def)
  qed
qed

section \<open>Handlers that agree on smaller events\<close>

lemma handle_cong_at:
  "m w = m' w \<Longrightarrow> (\<And>r w'. m w = Ret (r, w') \<Longrightarrow> f r w' = f' r w') \<Longrightarrow> handle m f w = handle m' f' w"
  by (cases "m' w") (auto simp: handle_def)

lemma seq_cong_at:
  "m w = m' w \<Longrightarrow> (\<And>a w'. m w = Ret (Inr a, w') \<Longrightarrow> f a w' = f' a w') \<Longrightarrow> seq m f w = seq m' f' w"
  unfolding seq_def by (rule handle_cong_at) (auto split: sum.splits)

lemma seq_reading_at: "seq (reading g) f w = f (g w) w"
  by (simp add: seq_def handle_def reading_def)

lemma publishEvent_cong:
  "(\<And>evt. je_Status evt = status \<Longrightarrow> h evt = h' evt) \<Longrightarrow> publishEvent E h status s = publishEvent E h' status s"
  unfolding publishEvent_def
  by (intro ext seq_cong_at refl) (auto simp: lift_go_def go_bind_eq_Ret_iff NewJobEvent_Ret_iff)

lemma publishEvent_async:
  assumes "j_ExecutionLevel (w_job w) \<noteq> ExecutionSynchronous"
  shows "publishEvent E h status s w = publishEvent E h' status s w"
  unfolding publishEvent_def
proof (intro seq_cong_at refl)
  fix w1 w2 w3 evt and j :: Job and u :: unit
  assume l: "log_job E DEBUG (''  Event '' @ JobStatus_String status @ '' '' @ s @ ''...'') w = Ret (Inr u, w1)"
    and r: "reading w_job w1 = Ret (Inr j, w2)"
  from keepsD [OF log_job_quiet l] r assms have "j_ExecutionLevel j \<noteq> ExecutionSynchronous"
    by (auto simp: calm_def reading_def)
  then show "(if j_ExecutionLevel j = ExecutionSynchronous then h evt else publish_job_event E evt) w3 =
             (if j_ExecutionLevel j = ExecutionSynchronous then h' evt else publish_job_event E evt) w3"
    by simp
qed

lemma hand_over_job:
  assumes "hand_over E w = Ret (Inr (Some dj), w')"
  shows "j_State dj = JobStateNEW \<and> j_ExecutionLevel dj = ExecutionAsynchronous"
proof -
  from assms obtain uid now nm ids d1 w1 w2 where
    l: "LockDatasets ids LockFlagTODELETE (NewDeletionJob uid now nm ExecutionAsynchronous) = Ret d1"
    and s: "with_job d1 (seq (saveJob E True) (\<lambda>_. reading w_job)) w1 = Ret (Inr dj, w2)"
    unfolding hand_over_def Let_def
    by (auto simp: seq_Inr_iff lift_go_def go_bind_eq_Ret_iff ok_def split: if_splits)
  from l have "j_State d1 = JobStateNEW" "j_ExecutionLevel d1 = ExecutionAsynchronous"
    using LockDatasets_key [of ids LockFlagTODELETE] by (auto simp: keeps_key_def NewDeletionJob_def NewJob_def)
  moreover from s obtain w3 where w3: "saveJob E True (w1\<lparr>w_job := d1\<rparr>) = Ret (Inr (), w3)" "dj = w_job w3"
    by (auto simp: with_job_def seq_Inr_iff reading_def set_job_def handle_Ret_iff lift_result_def)
  moreover from keepsD [OF saveJob_quiet w3(1)] w3(2) have "j_State dj = j_State d1 \<and> j_ExecutionLevel dj = j_ExecutionLevel d1"
    by (simp add: calm_def)
  ultimately show ?thesis by simp
qed

lemma with_job_cong_at: "m (w\<lparr>w_job := j\<rparr>) = m' (w\<lparr>w_job := j\<rparr>) \<Longrightarrow> with_job j m w = with_job j m' w"
  by (simp add: with_job_def seq_reading_at seq_def [of "set_job j"] handle_def set_job_def)

lemma wrap_cong_at: "m w = m' w \<Longrightarrow> wrap pre m w = wrap pre m' w"
  unfolding wrap_def by (rule handle_cong_at) auto

lemma csldDeleteDatasets_async: "csldDeleteDatasets E h = csldDeleteDatasets E h'"
  unfolding csldDeleteDatasets_def
proof (intro ext seq_cong_at refl)
  fix w a w'
  assume "wrap ''csldDeleteDatasets.'' (unitOfWork E (hand_over E)) w = Ret (Inr a, w')"
  then have "unitOfWork E (hand_over E) w = Ret (Inr a, w')" by simp
  then obtain w1 where ho: "hand_over E (in_txn w) = Ret (Inr a, w1)"
    by (cases rule: unitOfWork_cases) auto
  have "delOnEnterNewState E h (w'\<lparr>w_job := dj\<rparr>) = delOnEnterNewState E h' (w'\<lparr>w_job := dj\<rparr>)" if "a = Some dj" for dj
  proof -
    from hand_over_job [OF ho [unfolded that]]
    have "j_State dj = JobStateNEW" "j_ExecutionLevel dj = ExecutionAsynchronous" by auto
    then show ?thesis
      by (simp add: delOnEnterNewState_def seq_reading_at publishEvent_async [where h = h and h' = h'])
  qed
  then show "(case a of None \<Rightarrow> ok () | Some dj \<Rightarrow> wrap ''csldDeleteDatasets.'' (with_job dj (delOnEnterNewState E h))) w' =
             (case a of None \<Rightarrow> ok () | Some dj \<Rightarrow> wrap ''csldDeleteDatasets.'' (with_job dj (delOnEnterNewState E h'))) w'"
    by (auto split: option.splits intro!: wrap_cong_at with_job_cong_at)
qed

definition agree_below :: "nat \<Rightarrow> (JobEvent \<Rightarrow> unit act) \<Rightarrow> (JobEvent \<Rightarrow> unit act) \<Rightarrow> bool" where
  "agree_below n h h' \<longleftrightarrow> (\<forall>evt. rank (je_Status evt) < n \<longrightarrow> h evt = h' evt)"

lemma publishEvent_agree:
  "agree_below n h h' \<Longrightarrow> rank status < n \<Longrightarrow> publishEvent E h status s = publishEvent E h' status s"
  by (rule publishEvent_cong) (auto simp: agree_below_def)

lemma conclude_agree:
  "agree_below n h h' \<Longrightarrow> rank failure < n \<Longrightarrow> rank success < n \<Longrightarrow>
   conclude E h m failure success = conclude E h' m failure success"
  unfolding conclude_def by (simp add: publishEvent_agree [of n h h'])

lemma csldSendOrders_agree: "agree_below n h h' \<Longrightarrow> 3 < n \<Longrightarrow> csldSendOrders E h = csldSendOrders E h'"
  unfolding csldSendOrders_def by (intro ext seq_cong_at refl) (auto simp: publishEvent_agree [of n h h'] intro: seq_cong_at)

lemma delOnEnterNewState_agree:
  assumes "agree_below (state_rank (j_State (w_job w))) h h'"
  shows "delOnEnterNewState E h w = delOnEnterNewState E h' w"
proof -
  define s where "s = j_State (w_job w)"
  show ?thesis using assms unfolding s_def [symmetric] delOnEnterNewState_def seq_reading_at
    by (cases s) (simp_all add: s_def [symmetric] conclude_agree [of _ h h'] publishEvent_agree [of _ h h'])
qed

lemma csldOnEnterNewState_agree:
  assumes "agree_below (state_rank (j_State (w_job w))) h h'"
  shows "csldOnEnterNewState E G h w = csldOnEnterNewState E G h' w"
proof -
  define s where "s = j_State (w_job w)"
  have d: "csldDeleteDatasets E h = csldDeleteDatasets E h'" by (rule csldDeleteDatasets_async)
  show ?thesis using assms unfolding s_def [symmetric] csldOnEnterNewState_def seq_reading_at
    by (cases s) (simp_all add: s_def [symmetric] d conclude_agree [of _ h h'] publishEvent_agree [of _ h h']
        csldSendOrders_agree [of _ h h'])
qed

lemma onEnterNewState_agree:
  assumes "agree_below (state_rank (j_State (w_job w))) h h'"
  shows "onEnterNewState E G h w = onEnterNewState E G h' w"
  using assms csldOnEnterNewState_agree delOnEnterNewState_agree
  by (cases "j_Type (w_job w)") (auto simp: onEnterNewState_def seq_reading_at)

section \<open>The chain of events\<close>

lemma job_Clean_alive: "job_Clean b j = Ret j' \<Longrightarrow> alive j'"
  by (auto simp: job_Clean_def alive_def go_bind_eq_Ret_iff ps_Clean_def split: if_splits)

lemma handle_event_agree:
  assumes "agree_below (rank (je_Status evt)) h h'"
  shows "handle_event E G h evt = handle_event E G h' evt"
  unfolding handle_event_def
proof (intro ext seq_cong_at refl with_job_cong_at, goal_cases)
  case (1 w job w1 u1 w2 u2 w3 waiting w4)
  from 1(1) have "alive job"
    by (auto simp: GetJob_def seq_Inr_iff lift_go_def go_bind_eq_Ret_iff dest: job_Clean_alive)
  moreover from 1(2) obtain now where t: "Trigger now evt job = Ret (None, w_job w2)"
    by (auto simp: trigger_job_def on_job_err_now_def seq_Inr_iff ticking_def on_job_err_def go_bind_eq_Ret_iff
        split: option.splits)
  ultimately have "state_rank (j_State (w_job w2)) \<le> rank (je_Status evt)"
    by (auto dest: Trigger_rank)
  moreover from 1(3) keepsD [OF saveJob_quiet] have "calm w3 = calm w2" by fastforce
  moreover from 1(4) have "w4 = w3" by (simp add: reading_def)
  ultimately have "agree_below (state_rank (j_State (w_job w4))) h h'"
    using assms by (auto simp: agree_below_def calm_def)
  then have "onEnterNewState E G h w4 = onEnterNewState E G h' w4" by (rule onEnterNewState_agree)
  then show ?case by (auto intro: handle_cong_at)
qed

lemma chain_agree:
  "rank (je_Status evt) < n \<Longrightarrow> rank (je_Status evt) < m \<Longrightarrow>
   (handle_event E G ^^ n) h evt = (handle_event E G ^^ m) h' evt"
proof (induction "rank (je_Status evt)" arbitrary: evt n m rule: less_induct)
  case less
  from less(2,3) obtain n' m' where nm: "n = Suc n'" "m = Suc m'" by (metis not_less_zero old.nat.exhaust)
  have "agree_below (rank (je_Status evt)) ((handle_event E G ^^ n') h) ((handle_event E G ^^ m') h')"
    using less(2,3) nm by (auto simp: agree_below_def intro!: less(1))
  then show ?case by (simp add: nm handle_event_agree)
qed

lemma handleJobEvt_chain: "handleJobEvt n E G = (handle_event E G ^^ n) (\<lambda>_. panics stack_overflow)"
proof (induction n)
  case (Suc n)
  then show ?case by (intro ext) simp
qed (simp add: fun_eq_iff)

lemma rank_le: "rank e \<le> 6"
  by (cases e) simp_all

text \<open>C18: The handlers of a synchronous job call each other for at most seven events: what stands for the
  call at the eighth level (h, a stack overflow in the model) is never reached, and more levels change
  nothing, whatever the tables hold and whatever calls fail.\<close>

theorem event_chains_are_bounded:
  "(handle_event E G ^^ (event_depth + n)) h evt = handleJobEvt event_depth E G evt"
  unfolding handleJobEvt_chain using rank_le [of "je_Status evt"] by (intro chain_agree) (auto simp: event_depth_def)

section \<open>The events published on entering a state\<close>

definition outcome :: "JobStatus set \<Rightarrow> bool \<Rightarrow> world \<Rightarrow> world \<Rightarrow> bool" where
  "outcome A other w w' \<longleftrightarrow>
     (j_ExecutionLevel (w_job w) \<noteq> ExecutionSynchronous \<longrightarrow>
        fst (calm w') = fst (calm w) \<and>
        (\<exists>evs. w_events w' = w_events w @ evs \<and>
           (\<forall>e \<in> set evs. je_JobID e = j_ID (w_job w) \<and> je_Status e \<in> A \<or> other \<and> je_Status e = JobCreated)))"

lemma outcome_frame [keeps_intros]: "frame_rel (outcome A other)"
  unfolding frame_rel_def
proof (intro conjI allI impI)
  fix u v w assume uv: "outcome A other u v" and vw: "outcome A other v w"
  show "outcome A other u w"
    unfolding outcome_def
  proof (intro impI)
    assume l: "j_ExecutionLevel (w_job u) \<noteq> ExecutionSynchronous"
    with uv obtain e1 where 1: "fst (calm v) = fst (calm u)" "w_events v = w_events u @ e1"
      "\<forall>e \<in> set e1. je_JobID e = j_ID (w_job u) \<and> je_Status e \<in> A \<or> other \<and> je_Status e = JobCreated"
      by (auto simp: outcome_def)
    with l vw obtain e2 where 2: "fst (calm w) = fst (calm v)" "w_events w = w_events v @ e2"
      "\<forall>e \<in> set e2. je_JobID e = j_ID (w_job v) \<and> je_Status e \<in> A \<or> other \<and> je_Status e = JobCreated"
      by (auto simp: outcome_def calm_def)
    have "j_ID (w_job v) = j_ID (w_job u)" using 1(1) by (simp add: calm_def)
    with 1 2 show "fst (calm w) = fst (calm u) \<and> (\<exists>evs. w_events w = w_events u @ evs \<and>
        (\<forall>e \<in> set evs. je_JobID e = j_ID (w_job u) \<and> je_Status e \<in> A \<or> other \<and> je_Status e = JobCreated))"
      by (intro conjI exI [of _ "e1 @ e2"]) auto
  qed
qed (simp add: outcome_def)

lemma quiet_outcome: "quiet m \<Longrightarrow> keeps (outcome A other) m"
  by (auto simp: keeps_def outcome_def calm_def)

lemma publish_outcome: "status \<in> A \<Longrightarrow> keeps (outcome A other) (publishEvent E h status s)"
proof (rule keepsI)
  fix w r w' assume st: "status \<in> A" and p: "publishEvent E h status s w = Ret (r, w')"
  show "outcome A other w w'"
  proof (cases "j_ExecutionLevel (w_job w) = ExecutionSynchronous")
    case False
    from p publishEvent_async [OF False, of E h status s "publish_job_event E"]
    have "publishEvent E (publish_job_event E) status s w = Ret (r, w')" by simp
    then consider e where "log_job E DEBUG (''  Event '' @ JobStatus_String status @ '' '' @ s @ ''...'') w = Ret (Inl e, w')"
      | evt u w1 where "log_job E DEBUG (''  Event '' @ JobStatus_String status @ '' '' @ s @ ''...'') w = Ret (Inr u, w1)"
        "NewJobEvent (j_ID (w_job w1)) status s = Ret evt" "publish_job_event E evt w1 = Ret (r, w')"
      unfolding publishEvent_def by (auto simp: seq_Ret_iff reading_def lift_go_def go_bind_eq_Ret_iff)
    then show ?thesis
    proof cases
      case 1
      then show ?thesis using keepsD [OF quiet_outcome [OF log_job_quiet]] by blast
    next
      case 2
      from keepsD [OF log_job_quiet 2(1)] have "calm w1 = calm w" .
      moreover from 2(3) have "w_job w' = w_job w1 \<and> (w_events w' = w_events w1 \<or> w_events w' = w_events w1 @ [evt])"
        by (auto simp: publish_job_event_def Let_def split: option.splits)
      moreover from 2(2) have "je_JobID evt = j_ID (w_job w1)" "je_Status evt = status" by (auto simp: NewJobEvent_Ret_iff)
      ultimately show ?thesis using st unfolding outcome_def calm_def by auto
    qed
  qed (simp add: outcome_def)
qed

lemma conclude_outcome:
  assumes "keeps (outcome A other) m" "failure \<in> A" "success \<in> A"
  shows "keeps (outcome A other) (conclude E h m failure success)"
  unfolding conclude_def
proof (intro keeps_handle outcome_frame assms(1))
  fix r show "keeps (outcome A other) (case r of Inl e \<Rightarrow> publishEvent E h failure (ErrorMsg e) | Inr _ \<Rightarrow> publishEvent E h success [])"
    using assms by (cases r) (auto intro: publish_outcome)
qed

lemma csldSendOrders_outcome: "ConsolidationDone \<in> A \<Longrightarrow> keeps (outcome A other) (csldSendOrders E h)"
  unfolding csldSendOrders_def
  by (rule keeps_seq [OF outcome_frame], rule quiet_outcome, intro keeps_intros)+
     (auto intro!: keeps_seq [OF outcome_frame] publish_outcome quiet_outcome [OF saveJob_quiet]
       quiet_outcome [OF log_job_quiet] quiet_outcome [OF publish_orders_quiet] split: prod.splits)

lemma csldDeleteDatasets_outcome: "keeps (outcome A True) (csldDeleteDatasets E h)"
proof (rule keepsI)
  fix w r w' assume d: "csldDeleteDatasets E h w = Ret (r, w')"
  have q: "quiet (wrap ''csldDeleteDatasets.'' (unitOfWork E (hand_over E)))" by (intro keeps_intros)
  from d consider e where "wrap ''csldDeleteDatasets.'' (unitOfWork E (hand_over E)) w = Ret (Inl e, w')"
    | a w1 where "wrap ''csldDeleteDatasets.'' (unitOfWork E (hand_over E)) w = Ret (Inr a, w1)"
        "(case a of None \<Rightarrow> ok () | Some dj \<Rightarrow> wrap ''csldDeleteDatasets.'' (with_job dj (delOnEnterNewState E h))) w1 = Ret (r, w')"
    unfolding csldDeleteDatasets_def by (auto simp: seq_Ret_iff)
  then show "outcome A True w w'"
  proof cases
    case 1
    then show ?thesis using keepsD [OF quiet_outcome [OF q]] by blast
  next
    case 2
    note c = keepsD [OF q 2(1)]
    show ?thesis
    proof (cases a)
      case None
      with 2 c show ?thesis by (auto simp: ok_def outcome_def calm_def)
    next
      case (Some dj)
      from 2(1) obtain w0 where "hand_over E (in_txn w) = Ret (Inr (Some dj), w0)"
        unfolding wrap_Inr_iff Some by (cases rule: unitOfWork_cases) auto
      then have j: "j_State dj = JobStateNEW" "j_ExecutionLevel dj = ExecutionAsynchronous"
        by (auto dest: hand_over_job)
      from 2(2) Some obtain r1 w2 where p: "publishEvent E h JobCreated [] (w1\<lparr>w_job := dj\<rparr>) = Ret (r1, w2)"
        and w': "w' = w2\<lparr>w_job := w_job w1\<rparr>"
        by (auto simp: wrap_Ret_iff with_job_def seq_Ret_iff reading_def set_job_def handle_Ret_iff lift_result_def
            delOnEnterNewState_def j)
      from keepsD [OF publish_outcome [of JobCreated "{JobCreated}" True] p]
      obtain evs where "w_events w2 = w_events w1 @ evs" "\<forall>e \<in> set evs. je_Status e = JobCreated"
        by (auto simp: outcome_def j)
      with c w' show ?thesis by (auto simp: outcome_def calm_def)
    qed
  qed
qed

definition accepted_in :: "JobType \<Rightarrow> JobState \<Rightarrow> JobStatus set" where
  "accepted_in t s = {e. \<forall>w. \<exists>s'. edge_of t w s e s'}"

lemma conclude_ret:
  "conclude E h m failure success w = Ret (r, w') \<Longrightarrow> quiet m \<Longrightarrow> failure \<in> A \<Longrightarrow> success \<in> A \<Longrightarrow> outcome A other w w'"
  by (rule keepsD [OF conclude_outcome [OF quiet_outcome]])

lemma publish_ret: "publishEvent E h status s w = Ret (r, w') \<Longrightarrow> status \<in> A \<Longrightarrow> outcome A other w w'"
  by (rule keepsD [OF publish_outcome])

lemma quiet_ret: "m w = Ret (r, w') \<Longrightarrow> quiet m \<Longrightarrow> outcome A other w w'"
  by (rule keepsD [OF quiet_outcome])

lemma outcome_mono: "outcome A other w w' \<Longrightarrow> (other \<Longrightarrow> other') \<Longrightarrow> outcome A other' w w'"
  unfolding outcome_def by blast

lemma accepted_iff:
  "e \<in> accepted_in JobTypeCONSOLIDATION s \<longleftrightarrow> (\<forall>w. \<exists>s'. csld_edge w s e s' \<and> True)"
  "e \<in> accepted_in JobTypeDELETION s \<longleftrightarrow> (\<forall>w. \<exists>s'. del_edge w s e s' \<and> True)"
  by (simp_all add: accepted_in_def)

lemma delOnEnterNewState_outcome:
  assumes "j_State (w_job w) \<in> del_states" and "delOnEnterNewState E h w = Ret (r, w')"
  shows "outcome (accepted_in JobTypeDELETION (j_State (w_job w))) other w w'"
proof -
  define s where "s = j_State (w_job w)"
  note a = accepted_iff del_edge_iff
  show ?thesis
    using assms unfolding s_def [symmetric] delOnEnterNewState_def seq_reading_at
    by (cases s)
       (simp_all add: s_def [symmetric] del_states_def,
        ((erule conclude_ret, intro keeps_intros, simp add: a, simp add: a)
         | (erule publish_ret, simp add: a)
         | (erule quiet_ret, intro keeps_intros))+)
qed

lemma send_ret:
  assumes "handle (csldSendOrders E h) (case_sum (\<lambda>e. publishEvent E h SendOrdersFailed (ErrorMsg e)) ok) w = Ret (r, w')"
    and "ConsolidationDone \<in> A" "SendOrdersFailed \<in> A"
  shows "outcome A other w w'"
proof -
  have "keeps (outcome A other) (handle (csldSendOrders E h) (case_sum (\<lambda>e. publishEvent E h SendOrdersFailed (ErrorMsg e)) ok))"
  proof (intro keeps_handle outcome_frame csldSendOrders_outcome assms(2))
    fix r show "keeps (outcome A other) (case_sum (\<lambda>e. publishEvent E h SendOrdersFailed (ErrorMsg e)) ok r)"
      using assms(3) by (cases r) (auto intro: publish_outcome keeps_ok outcome_frame)
  qed
  from keepsD [OF this assms(1)] show ?thesis .
qed

lemma delete_ret:
  assumes "conclude E h (csldDeleteDatasets E h) failure success w = Ret (r, w')" and "failure \<in> A" "success \<in> A"
  shows "outcome A True w w'"
  by (rule keepsD [OF conclude_outcome [OF csldDeleteDatasets_outcome] assms(1)]) (fact assms)+

lemma csldOnEnterNewState_outcome:
  assumes "j_State (w_job w) \<in> csld_states" and r: "csldOnEnterNewState E G h w = Ret (r, w')"
  shows "outcome (accepted_in JobTypeCONSOLIDATION (j_State (w_job w)))
           (j_State (w_job w) = JobStateCONSOLIDATIONEFFECTIVE) w w'"
proof -
  define s where "s = j_State (w_job w)"
  note a = accepted_iff csld_edge_iff
  show ?thesis
    using assms unfolding s_def [symmetric] csldOnEnterNewState_def seq_reading_at
    by (cases s)
       (simp_all add: s_def [symmetric] csld_states_def,
        ((erule conclude_ret, intro keeps_intros, simp add: a, simp add: a)
         | (erule publish_ret, simp add: a)
         | (erule send_ret, simp add: a, simp add: a)
         | (erule delete_ret, simp add: a, simp add: a)
         | (erule quiet_ret, intro keeps_intros))+)
qed

text \<open>C17: Every event that entering a state publishes is one that the state accepts: on an asynchronous job in
  a state of its life cycle, whatever the tables hold and whatever calls fail, the handler of the state
  publishes only events of the job that Trigger handles at any time, and in CONSOLIDATIONEFFECTIVE the
  creation of the deletion job; the job itself keeps its state.\<close>

theorem published_events_are_accepted:
  assumes "alive (w_job w)" and "j_State (w_job w) \<in> states_of (j_Type (w_job w))"
    and "j_ExecutionLevel (w_job w) \<noteq> ExecutionSynchronous"
    and "onEnterNewState E G notify w = Ret (r, w')"
  shows "j_State (w_job w') = j_State (w_job w) \<and>
    (\<exists>evs. w_events w' = w_events w @ evs \<and>
       (\<forall>evt \<in> set evs.
          je_JobID evt = j_ID (w_job w) \<and> (\<forall>now. \<exists>j. Trigger now evt (w_job w) = Ret (None, j)) \<or>
          j_State (w_job w) = JobStateCONSOLIDATIONEFFECTIVE \<and> je_Status evt = JobCreated))"
proof -
  let ?j = "w_job w"
  have "outcome (accepted_in (j_Type ?j) (j_State ?j)) (j_State ?j = JobStateCONSOLIDATIONEFFECTIVE) w w'"
    using assms(2,4) delOnEnterNewState_outcome [of w E notify r w'] csldOnEnterNewState_outcome [of w E G notify r w']
    by (cases "j_Type ?j") (auto simp: onEnterNewState_def seq_reading_at)
  with assms(3) obtain evs where c: "fst (calm w') = fst (calm w)" "w_events w' = w_events w @ evs"
    and e: "\<forall>e \<in> set evs. je_JobID e = j_ID ?j \<and> je_Status e \<in> accepted_in (j_Type ?j) (j_State ?j) \<or>
              j_State ?j = JobStateCONSOLIDATIONEFFECTIVE \<and> je_Status e = JobCreated"
    by (auto simp: outcome_def)
  have "\<exists>j. Trigger now evt ?j = Ret (None, j)" if "je_Status evt \<in> accepted_in (j_Type ?j) (j_State ?j)" for now evt
  proof -
    from that obtain s' where "edge_of (j_Type ?j) (j_Waiting ?j) (j_State ?j) (je_Status evt) s'"
      by (auto simp: accepted_in_def)
    then have "job_edge (j_Type ?j) (j_Waiting ?j) (j_State ?j) (je_Status evt) s'" by (rule je_move)
    from Trigger_follows [OF assms(1,2) this] show ?thesis by blast
  qed
  with c e show ?thesis by (auto simp: calm_def)
qed

definition sample_geo :: "unit geo" where
  "sample_geo =
     \<lparr>g_union = (\<lambda>_ _. Inr empty_shape), g_NewGrid = (\<lambda>_ _. Inl (PlainE ''no grid'')), g_intersects = (\<lambda>_ _. True),
      g_validShape = (\<lambda>_ _ _. Inr empty_shape), g_cell_text = (\<lambda>_. []), g_time_text = (\<lambda>_. []), g_gdal = undefined,
      g_clone4326 = (\<lambda>_ _ s. Inr s), g_bounds = (\<lambda>_ _ _ _. []), g_uuid_ok = (\<lambda>_. True), g_storagePath = ''gs://s''\<rparr>"

definition deletion_world :: world where
  "deletion_world =
     (let d = sample_db JobTypeDELETION JobStateCREATED
      in sample_world d ((job_of_row (sample_job_row JobTypeDELETION JobStateCREATED))
           \<lparr>j_ps := CLEAN, j_occTime := 5000,
            j_LockedDatasets := replicate 3 \<lparr>ld_ps = CLEAN, ld_newDatasetsID = []\<rparr>\<rparr>))"

definition published :: "((gerr + 'a) \<times> world) go \<Rightarrow> JobEvent list" where
  "published m = (case m of Ret (r, w) \<Rightarrow> w_events w | Panic _ \<Rightarrow> [])"

lemma deletion_publishes: "succeeds (delOnEnterNewState sample_env (publish_job_event sample_env) deletion_world)"
  "length (published (delOnEnterNewState sample_env (publish_job_event sample_env) deletion_world)) = 1"
  by code_simp+

theorem published_events_are_accepted_witness:
  "\<exists>w' evt j. onEnterNewState sample_env sample_geo (publish_job_event sample_env) deletion_world = Ret (Inr (), w') \<and>
     w_events w' = [evt] \<and> Trigger 0 evt (w_job deletion_world) = Ret (None, j)"
proof -
  let ?m = "onEnterNewState sample_env sample_geo (publish_job_event sample_env) deletion_world"
  have "?m = delOnEnterNewState sample_env (publish_job_event sample_env) deletion_world"
    by (simp add: onEnterNewState_def seq_def handle_def reading_def deletion_world_def Let_def sample_world_def
        sample_job_row_def job_of_row_def NewJob_def)
  with deletion_publishes obtain w' where r: "?m = Ret (Inr (), w')" and l: "length (w_events w') = 1"
    by (auto simp: succeeds_iff published_def)
  have a: "alive (w_job deletion_world)" "j_State (w_job deletion_world) \<in> states_of (j_Type (w_job deletion_world))"
    "j_ExecutionLevel (w_job deletion_world) \<noteq> ExecutionSynchronous" "j_State (w_job deletion_world) = JobStateCREATED"
    "w_events deletion_world = []"
    by (simp_all add: deletion_world_def Let_def sample_world_def sample_job_row_def job_of_row_def NewJob_def alive_def del_states_def)
  from l obtain evt where e: "w_events w' = [evt]" by (cases "w_events w'") auto
  with published_events_are_accepted [OF a(1-3) r] a(4,5) r show ?thesis by auto
qed

end
