(* ===== verification/SaveProps.thy ===== *)
theory SaveProps
  imports PersisterProps Samples
begin

text \<open>
  The properties of \<open>saveJob\<close>: what it leaves in the tables of tasks, jobs and locks, the optimistic
  concurrency control on the job, and the atomicity of the saves.
\<close>

section \<open>The sample save\<close>

lemmas saving_defs = saving_world_def sample_world_def sample_db_def sample_saved_job_def sample_job_row_def job_of_row_def NewJob_def

lemma saving_world_facts:
  "w_txn saving_world = None" "jobs.keyed (w_db saving_world)" "j_ps (w_job saving_world) = DIRTY"
  "j_ID (w_job saving_world) = ''j1''" "pg_ts (j_LastUpdateTime (w_job saving_world)) = 9000"
  by (simp_all add: saving_defs jobs.keyed_def pg_ts_def)

lemma saving_result: "\<exists>w'. saveJob sample_env False saving_world = Ret (Inr (), w')"
  using saving_succeeds by (simp add: succeeds_iff)

section \<open>Tasks\<close>

lemma find_filter_distinct:
  "distinct (map f xs) \<Longrightarrow>
   find (\<lambda>x. f x = k) (filter p xs) = (case find (\<lambda>x. f x = k) xs of None \<Rightarrow> None | Some x \<Rightarrow> if p x then Some x else None)"
proof (induction xs)
  case (Cons x xs)
  have "find (\<lambda>y. f y = f x) (filter p xs) = None" using Cons.prems by (force simp: find_None_iff image_iff)
  with Cons show ?case by auto
qed simp

lemma find_map_key: "(\<And>x. key (g x) = f x) \<Longrightarrow> find (\<lambda>r. key r = k) (map g xs) = map_option g (find (\<lambda>x. f x = k) xs)"
  by (induction xs) simp_all

definition stored_task :: "Job \<Rightarrow> Task \<Rightarrow> task_row option \<Rightarrow> task_row option" where
  "stored_task j t before =
     (if IsToDelete (t_ps t) then None
      else if IsNew (t_ps t) then Some (new_task_row (j_ID j) t)
      else if IsDirty (t_ps t) then map_option (tr_State_update (\<lambda>_. t_State t)) before
      else before)"

lemma lookup_after_deletions:
  "tasks.lookup i (after_deletions j d) = (if i \<in> t_ID ` set (deleted_tasks j) then None else tasks.lookup i d)"
proof -
  let ?d = "fold (released j) [0..<length (j_LockedDatasets j)] d"
  have "tasks.lookup i (after_deletions j d) = tasks.lookup i (fold tasks.remove (map t_ID (deleted_tasks j)) ?d)"
    by (simp add: after_deletions_def before_job_deletion_def Let_def tasks.lookup_def table_frames fold_map comp_def)
  also have "\<dots> = (if i \<in> t_ID ` set (deleted_tasks j) then None else tasks.lookup i ?d)"
    by (simp add: tasks.lookup_fold_remove)
  also have "tasks.lookup i ?d = tasks.lookup i d" by (simp add: tasks.lookup_def table_frames)
  finally show ?thesis .
qed

lemma lookup_after_creations:
  assumes "creations_ok j d"
  shows "tasks.lookup i (after_creations j d) =
    (case find (\<lambda>t. t_ID t = i) (created_tasks j) of None \<Rightarrow> tasks.lookup i d | Some t \<Rightarrow> Some (new_task_row (j_ID j) t))"
proof -
  let ?d = "fold (locked j) (lock_indices j) (before_locks j d)"
  have d: "tasks.lookup i ?d = tasks.lookup i d" for i
    by (simp add: tasks.lookup_def table_frames before_locks_def Let_def)
  have "after_creations j d = (if created_tasks j \<noteq> [] then tasks.append (map (new_task_row (j_ID j)) (created_tasks j)) ?d else ?d)"
    by (simp add: after_creations_def before_locks_def lock_indices_def Let_def)
  then have a: "tasks.lookup i (after_creations j d) =
      (case tasks.lookup i d of Some r \<Rightarrow> Some r | None \<Rightarrow> map_option (new_task_row (j_ID j)) (find (\<lambda>t. t_ID t = i) (created_tasks j)))"
    by (simp add: tasks.lookup_append d find_map_key [of tr_ID _ t_ID] new_task_row_def split: option.splits)
  show ?thesis
  proof (cases "find (\<lambda>t. t_ID t = i) (created_tasks j)")
    case None
    with a show ?thesis by (simp split: option.splits)
  next
    case (Some t)
    then have t: "t \<in> set (created_tasks j)" "t_ID t = i" by (auto simp: find_Some_iff)
    with assms have "i \<notin> tasks.keys ?d" by (force simp: creations_ok_def)
    with d have "tasks.lookup i d = None" by (metis tasks.lookup_None_iff)
    with a Some show ?thesis by simp
  qed
qed

lemma lookup_after_updates:
  assumes "distinct (map t_ID (updated_tasks j))"
  shows "tasks.lookup i (after_updates j d) =
    (case find (\<lambda>t. t_ID t = i) (updated_tasks j) of None \<Rightarrow> tasks.lookup i d
     | Some t \<Rightarrow> map_option (tr_State_update (\<lambda>_. t_State t)) (tasks.lookup i d))"
proof -
  let ?d = "fold (\<lambda>t. tasks.modify (t_ID t) (tr_State_update (\<lambda>_. t_State t))) (updated_tasks j) d"
  have "tasks.lookup i (after_updates j d) = tasks.lookup i ?d"
    by (simp add: after_updates_def Let_def tasks.lookup_def table_frames)
  also have "\<dots> = (case find (\<lambda>t. t_ID t = i) (updated_tasks j) of None \<Rightarrow> tasks.lookup i d
     | Some t \<Rightarrow> map_option (tr_State_update (\<lambda>_. t_State t)) (tasks.lookup i d))"
    by (rule tasks.lookup_fold_modify [where f = t_ID and g = "\<lambda>t. tr_State_update (\<lambda>_. t_State t)"]) (simp_all add: assms)
  finally show ?thesis .
qed

text \<open>C11: After a successful save the table of tasks holds, for each task of the job, what its persistence
  flag asks for: nothing for a deleted task, its row for a new one, the row with the new state for a
  modified one; the rows of every other task are untouched.\<close>
theorem saved_tasks:
  assumes "saveJob E False w = Ret (Inr u, w')" and "w_txn w = None"
    and dist: "distinct (map t_ID (j_Tasks (w_job w)))"
  shows "tasks.lookup i (w_db w') =
    (case find (\<lambda>t. t_ID t = i) (j_Tasks (w_job w)) of
       None \<Rightarrow> tasks.lookup i (w_db w)
     | Some t \<Rightarrow> stored_task (w_job w) t (tasks.lookup i (w_db w)))"
proof -
  let ?j = "w_job w" let ?d = "w_db w" let ?t = "find (\<lambda>t. t_ID t = i) (j_Tasks (w_job w))"
  from saveJob_Inr [OF assms(1,2)] have db: "w_db w' = saved_tables ?j ?d" and g: "creations_ok ?j (after_deletions ?j ?d)"
    by (simp_all add: create_guard_def)
  have "tasks.lookup i (w_db w') = tasks.lookup i (after_updates ?j (after_creations ?j (after_deletions ?j ?d)))"
    by (simp add: db saved_tables_def tasks.lookup_def table_frames)
  moreover have "i \<in> t_ID ` set (deleted_tasks ?j) \<longleftrightarrow> (\<exists>t. ?t = Some t \<and> IsToDelete (t_ps t))"
  proof -
    have "i \<in> t_ID ` set (deleted_tasks ?j) \<longleftrightarrow> find (\<lambda>t. t_ID t = i) (deleted_tasks ?j) \<noteq> None"
      by (auto simp: find_None_iff)
    then show ?thesis
      by (simp add: deleted_tasks_def find_filter_distinct [OF dist] split: option.splits)
  qed
  moreover have "distinct (map t_ID (updated_tasks ?j))"
    using dist by (simp add: updated_tasks_def distinct_map_filter)
  ultimately show ?thesis
    by (cases ?t)
       (auto simp: lookup_after_updates lookup_after_creations [OF g] lookup_after_deletions stored_task_def
         created_tasks_def updated_tasks_def find_filter_distinct [OF dist] IsToDelete_def IsNew_def IsDirty_def)
qed

theorem saved_tasks_witness:
  "\<exists>w'. saveJob sample_env False saving_world = Ret (Inr (), w') \<and>
     map_option tr_State (tasks.lookup ''t1'' (w_db w')) = Some TaskStateFAILED \<and> tasks.lookup ''t2'' (w_db w') = None \<and>
     map_option tr_State (tasks.lookup ''t3'' (w_db w')) = Some TaskStateNEW"
proof -
  from saving_result obtain w' where w': "saveJob sample_env False saving_world = Ret (Inr (), w')" by blast
  have d: "distinct (map t_ID (j_Tasks (w_job saving_world)))" by (simp add: saving_defs)
  note t = saved_tasks [OF w' saving_world_facts(1) d]
  have "map_option tr_State (tasks.lookup ''t1'' (w_db w')) = Some TaskStateFAILED" "tasks.lookup ''t2'' (w_db w') = None"
    "map_option tr_State (tasks.lookup ''t3'' (w_db w')) = Some TaskStateNEW"
    unfolding t by (simp_all add: saving_defs stored_task_def ps_tests new_task_row_def tasks.lookup_def)
  with w' show ?thesis by blast
qed

section \<open>The row of the job\<close>

definition new_job_row :: "Job \<Rightarrow> job_row" where
  "new_job_row j =
     \<lparr>jr_ID = j_ID j, jr_Name = j_Name j, jr_Type = j_Type j, jr_CreationTime = pg_ts (j_CreationTime j),
      jr_LastUpdate = pg_ts (j_LastUpdateTime j), jr_State = j_State j, jr_ActiveTasks = j_ActiveTasks j,
      jr_FailedTasks = j_FailedTasks j, jr_Payload = j_Payload j, jr_ExecutionLevel = j_ExecutionLevel j, jr_Waiting = False\<rparr>"

lemma db_Jobs_UpdateJob:
  "db_Jobs (snd (pg_UpdateJob j d)) = map (\<lambda>r. if updates j r then updated_row j r else r) (db_Jobs d)"
proof (cases "list_ex (updates j) (db_Jobs d)")
  case False
  then have "map (\<lambda>r. if updates j r then updated_row j r else r) (db_Jobs d) = db_Jobs d"
    by (intro map_idI) (simp add: list_ex_iff)
  with False show ?thesis by (simp add: pg_UpdateJob_def)
qed (simp add: pg_UpdateJob_def)

lemma lookup_UpdateJob:
  "jobs.lookup i (snd (pg_UpdateJob j d)) =
     map_option (\<lambda>r. if updates j r then updated_row j r else r) (jobs.lookup i d)"
proof -
  have key: "jr_ID (if updates j r then updated_row j r else r) = jr_ID r" for r
    by (simp add: updated_row_def)
  show ?thesis
    unfolding jobs.lookup_def db_Jobs_UpdateJob by (rule find_map_key [of jr_ID _ jr_ID]) (rule key)
qed

lemma jobs_lookup_cong: "db_Jobs d = db_Jobs d' \<Longrightarrow> jobs.lookup i d = jobs.lookup i d'"
  by (simp add: jobs.lookup_def)

lemma db_Jobs_before: "db_Jobs (before_job_deletion j d) = db_Jobs d"
  by (simp add: before_job_deletion_def Let_def table_frames)

lemma db_Jobs_after_creations: "db_Jobs (after_creations j d) = db_Jobs (if IsNew (j_ps j) then snd (pg_CreateJob j d) else d)"
  by (simp add: after_creations_def Let_def table_frames)

lemma db_Jobs_after_updates:
  "db_Jobs (after_updates j d) =
     (if IsDirty (j_ps j) \<or> IsClean (j_ps j) then map (\<lambda>r. if updates j r then updated_row j r else r) (db_Jobs d) else db_Jobs d)"
  by (simp add: after_updates_def Let_def table_frames db_Jobs_UpdateJob)

definition stored_job :: "Job \<Rightarrow> job_row option \<Rightarrow> job_row option" where
  "stored_job j before =
     (case j_ps j of TODELETE \<Rightarrow> None | NEW \<Rightarrow> Some (new_job_row j)
      | DIRTY \<Rightarrow> map_option (updated_row j) before | CLEAN \<Rightarrow> map_option (updated_row j) before | _ \<Rightarrow> before)"

text \<open>The row of the job after a successful save; the rows of other jobs are as before.\<close>

lemma saved_job_row:
  assumes "saveJob E False w = Ret (Inr u, w')" and "w_txn w = None" and k: "jobs.keyed (w_db w)"
  shows "jobs.lookup i (w_db w') =
    (if i = j_ID (w_job w) then stored_job (w_job w) (jobs.lookup i (w_db w)) else jobs.lookup i (w_db w))"
proof -
  let ?j = "w_job w" let ?d = "w_db w"
  from saveJob_Inr [OF assms(1,2)] have db: "w_db w' = saved_tables ?j ?d"
    and del: "deletions_ok ?j ?d" and cre: "creations_ok ?j (after_deletions ?j ?d)" and upd: "update_guard ?j ?d"
    by (simp_all add: create_guard_def)
  have j0: "jobs.lookup i (after_deletions ?j ?d) = (if IsToDelete (j_ps ?j) \<and> i = j_ID ?j then None else jobs.lookup i ?d)" for i
  proof (cases "IsToDelete (j_ps ?j)")
    case True
    with del obtain d' where "pg_DeleteJob (j_ID ?j) (before_job_deletion ?j ?d) = (Inr (), d')" by (auto simp: deletions_ok_def)
    with True have "db_Jobs (after_deletions ?j ?d) = filter (\<lambda>r. jr_ID r \<noteq> j_ID ?j) (db_Jobs ?d)"
      by (auto simp: after_deletions_def pg_DeleteJob_def pg_delete_def db_Jobs_before split: option.splits)
    then show ?thesis
      using True jobs.lookup_remove [of i "j_ID ?j" ?d] by (simp add: jobs.lookup_def jobs.remove_def)
  next
    case False
    then show ?thesis by (simp add: after_deletions_def jobs.lookup_def db_Jobs_before)
  qed
  show ?thesis
  proof (cases "j_ps ?j = NEW")
    case True
    from cre True have abs: "job_absent ?j (after_deletions ?j ?d)" by (simp add: creations_ok_def IsNew_def)
    have "db_Jobs (w_db w') = db_Jobs (after_deletions ?j ?d) @ [new_job_row ?j]"
      using True abs by (simp add: db saved_tables_def table_frames db_Jobs_after_updates db_Jobs_after_creations ps_tests
          pg_CreateJob_def job_absent_def new_job_row_def)
    then have "jobs.lookup i (w_db w') = jobs.lookup i (jobs.append [new_job_row ?j] (after_deletions ?j ?d))"
      by (simp add: jobs.lookup_def jobs.append_def)
    moreover have "jobs.lookup (j_ID ?j) (after_deletions ?j ?d) = None"
      using abs by (auto simp: job_absent_def jobs.lookup_def find_None_iff list_ex_iff)
    ultimately show ?thesis
      using j0 True by (auto simp: jobs.lookup_append new_job_row_def stored_job_def ps_tests split: option.splits)
  next
    case False
    have l: "jobs.lookup i (w_db w') = (if IsDirty (j_ps ?j) \<or> IsClean (j_ps ?j)
        then map_option (\<lambda>r. if updates ?j r then updated_row ?j r else r) (jobs.lookup i (after_deletions ?j ?d))
        else jobs.lookup i (after_deletions ?j ?d))"
    proof -
      have "db_Jobs (w_db w') = db_Jobs (if IsDirty (j_ps ?j) \<or> IsClean (j_ps ?j) then snd (pg_UpdateJob ?j (after_deletions ?j ?d))
                                        else after_deletions ?j ?d)"
        using False by (simp add: db saved_tables_def table_frames db_Jobs_after_updates db_Jobs_after_creations ps_tests db_Jobs_UpdateJob)
      then have "jobs.lookup i (w_db w') = jobs.lookup i (if IsDirty (j_ps ?j) \<or> IsClean (j_ps ?j)
          then snd (pg_UpdateJob ?j (after_deletions ?j ?d)) else after_deletions ?j ?d)" by (rule jobs_lookup_cong)
      then show ?thesis by (simp add: lookup_UpdateJob)
    qed
    show ?thesis
    proof (cases "IsDirty (j_ps ?j) \<or> IsClean (j_ps ?j)")
      case True
      then have nd: "\<not> IsToDelete (j_ps ?j)" by (auto simp: ps_tests)
      have "db_Jobs (after_deletions ?j ?d) = db_Jobs ?d" using nd by (simp add: after_deletions_def db_Jobs_before)
      with upd True False have "list_ex (updates ?j) (db_Jobs ?d)"
        by (simp add: update_guard_def table_frames db_Jobs_after_creations IsNew_def)
      then obtain r where r: "r \<in> set (db_Jobs ?d)" "updates ?j r" by (auto simp: list_ex_iff)
      then have "jobs.lookup (j_ID ?j) ?d = Some r" using k by (simp add: jobs.lookup_Some_iff updates_def)
      moreover have "\<not> updates ?j s" if "jobs.lookup i ?d = Some s" "i \<noteq> j_ID ?j" for s
        using jobs.lookup_key [OF that(1)] that(2) by (simp add: updates_def)
      moreover have "j_ps ?j = DIRTY \<or> j_ps ?j = CLEAN" using True by (simp add: ps_tests)
      ultimately show ?thesis
        using l j0 True nd r(2) by (cases "jobs.lookup i ?d") (auto simp: stored_job_def split: persistenceState.splits)
    next
      case no: False
      with l j0 False show ?thesis by (auto simp: stored_job_def ps_tests split: persistenceState.splits)
    qed
  qed
qed

lemma saved_job_exists:
  assumes "saveJob E False w = Ret (Inr u, w')" and "w_txn w = None" and "j_ps (w_job w) = DIRTY \<or> j_ps (w_job w) = CLEAN"
  shows "list_ex (updates (w_job w)) (db_Jobs (w_db w))"
proof -
  let ?j = "w_job w"
  from saveJob_Inr [OF assms(1,2)] have "update_guard ?j (w_db w)" by simp
  moreover have "db_Jobs (after_deletions ?j (w_db w)) = db_Jobs (w_db w)"
    using assms(3) by (auto simp: after_deletions_def db_Jobs_before ps_tests)
  ultimately show ?thesis
    using assms(3) by (auto simp: update_guard_def table_frames db_Jobs_after_creations ps_tests)
qed

lemma updated_job_present:
  assumes "list_ex (updates j) (db_Jobs d)"
  shows "jobs.lookup (j_ID j) d \<noteq> None"
proof -
  from assms obtain r where "r \<in> set (db_Jobs d)" "jr_ID r = j_ID j"
    by (auto simp: list_ex_iff updates_def)
  then have "j_ID j \<in> jobs.keys d" unfolding jobs.keys_def by (metis imageI)
  then show ?thesis by (simp add: jobs.lookup_None_iff)
qed

lemma saved_job_lookup:
  assumes "saveJob E False w = Ret (Inr u, w')" and "w_txn w = None" and "j_ps (w_job w) = DIRTY \<or> j_ps (w_job w) = CLEAN"
  shows "jobs.lookup (j_ID (w_job w)) (w_db w) \<noteq> None"
  by (rule updated_job_present [OF saved_job_exists [OF assms]])

lemma mark_saved_fields:
  assumes "mark_saved j = Ret j'" "j_ps j \<noteq> TODELETE"
  shows "j_ps j' = CLEAN \<and> j_occTime j' = j_LastUpdateTime j \<and> j_ID j' = j_ID j"
  using assms by (auto simp: mark_saved_def IsToDelete_def job_Clean_def go_bind_eq_Ret_iff ps_Clean_eq split: if_splits)

text \<open>C14: A job that has been saved is read back with the state, the counters and the pause flag it had (a new
  job always unpaused), under a time stamp that lets its owner save it again: no lost update, no spurious
  conflict.  A job marked for deletion is not found any more.\<close>
theorem saved_job_is_read_back:
  assumes "saveJob E False w = Ret (Inr u, w')" and "w_txn w = None" and "jobs.keyed (w_db w)"
    and "j_ps (w_job w) \<in> {NEW, CLEAN, DIRTY, TODELETE}"
  shows "case fst (pg_ReadJob (j_ID (w_job w)) (w_db w')) of
      Inl e \<Rightarrow> j_ps (w_job w) = TODELETE \<and> IsError (Some e) EntityNotFound \<and> j_ps (w_job w') = DELETED
    | Inr job \<Rightarrow> j_ps (w_job w) \<noteq> TODELETE \<and> j_State job = j_State (w_job w) \<and>
        j_ActiveTasks job = j_ActiveTasks (w_job w) \<and> j_FailedTasks job = j_FailedTasks (w_job w) \<and>
        j_Waiting job = (j_ps (w_job w) \<noteq> NEW \<and> j_Waiting (w_job w)) \<and>
        j_LastUpdateTime job = pg_ts (OCCTime (w_job w')) \<and>
        j_ps (w_job w') = CLEAN \<and> list_ex (updates (w_job w')) (db_Jobs (w_db w'))"
proof -
  let ?j = "w_job w"
  note row = saved_job_row [OF assms(1-3), of "j_ID ?j"]
  have m: "mark_saved (ClearPersistedLogs (drop_deleted ?j)) = Ret (w_job w')"
    using saveJob_Inr [OF assms(1,2)] by simp
  show ?thesis
  proof (cases "j_ps ?j = TODELETE")
    case True
    then have "jobs.lookup (j_ID ?j) (w_db w') = None" using row by (simp add: stored_job_def)
    moreover have "j_ps (w_job w') = DELETED"
    proof -
      from m True have "w_job w' = (ClearPersistedLogs (drop_deleted ?j))\<lparr>j_ps := DELETED\<rparr>"
        by (simp add: mark_saved_def ClearPersistedLogs_def drop_deleted_def IsToDelete_def ps_Deleted_def)
      then show ?thesis by simp
    qed
    ultimately show ?thesis using True by (simp add: pg_ReadJob_def find_job_lookup)
  next
    case False
    have clean: "j_ps (w_job w') = CLEAN" "j_occTime (w_job w') = j_LastUpdateTime ?j" "j_ID (w_job w') = j_ID ?j"
      using mark_saved_fields [OF m] False by (simp_all add: ClearPersistedLogs_def drop_deleted_def)
    from row obtain r where r: "jobs.lookup (j_ID ?j) (w_db w') = Some r" and
      "r = new_job_row ?j \<and> j_ps ?j = NEW \<or> (\<exists>r0. r = updated_row ?j r0) \<and> j_ps ?j \<noteq> NEW"
    proof (cases "j_ps ?j = NEW")
      case True
      with row that show ?thesis by (simp add: stored_job_def)
    next
      case no: False
      then have dc: "j_ps ?j = DIRTY \<or> j_ps ?j = CLEAN" using False assms(4) by auto
      then have s: "jobs.lookup (j_ID ?j) (w_db w') = map_option (updated_row ?j) (jobs.lookup (j_ID ?j) (w_db w))"
        using row by (auto simp: stored_job_def)
      have "jobs.lookup (j_ID ?j) (w_db w) \<noteq> None"
        by (rule saved_job_lookup [OF assms(1,2) dc])
      with s no that show ?thesis by auto
    qed
    then have f: "jr_State r = j_State ?j" "jr_ActiveTasks r = j_ActiveTasks ?j" "jr_FailedTasks r = j_FailedTasks ?j"
      "jr_Waiting r = (j_ps ?j \<noteq> NEW \<and> j_Waiting ?j)" "jr_LastUpdate r = pg_ts (j_LastUpdateTime ?j)"
      by (auto simp: new_job_row_def updated_row_def)
    from jobs.lookup_key [OF r] f(5) have "list_ex (updates (w_job w')) (db_Jobs (w_db w'))"
      by (auto simp: list_ex_iff updates_def OCCTime_def clean intro!: bexI [of _ r])
    with r f clean False show ?thesis
      by (simp add: pg_ReadJob_def find_job_lookup job_of_row_def OCCTime_def)
  qed
qed

theorem saved_job_is_read_back_witness:
  "\<exists>w' job. saveJob sample_env False saving_world = Ret (Inr (), w') \<and> fst (pg_ReadJob ''j1'' (w_db w')) = Inr job \<and>
     j_State job = JobStateCONSOLIDATIONINPROGRESS \<and> j_LastUpdateTime job = pg_ts (OCCTime (w_job w'))"
proof -
  from saving_result obtain w' where w': "saveJob sample_env False saving_world = Ret (Inr (), w')" by blast
  have "j_ps (w_job saving_world) \<in> {NEW, CLEAN, DIRTY, TODELETE}" by (simp add: saving_world_facts)
  from saved_job_is_read_back [OF w' saving_world_facts(1,2) this] w' show ?thesis
    by (auto simp: saving_defs split: sum.splits)
qed

section \<open>Optimistic concurrency control\<close>

lemma stale_row:
  assumes "jobs.keyed d" and "jobs.lookup (j_ID j) d = Some r" and "jr_LastUpdate r \<noteq> pg_ts (OCCTime j)"
  shows "\<not> list_ex (updates j) (db_Jobs d)"
proof
  assume "list_ex (updates j) (db_Jobs d)"
  then obtain s where "s \<in> set (db_Jobs d)" "jr_ID s = j_ID j" "jr_LastUpdate s = pg_ts (OCCTime j)"
    by (auto simp: list_ex_iff updates_def)
  with jobs.lookup_Some_iff [OF assms(1), of "j_ID j" s] assms(2,3) show False by simp
qed

text \<open>A job of which nothing but its own row is to be written: no task, parameter or lock.\<close>

definition only_row_to_write :: "Job \<Rightarrow> bool" where
  "only_row_to_write j \<longleftrightarrow>
     (\<forall>t \<in> set (j_Tasks j). t_ps t \<in> {UNKNOWN, CLEAN}) \<and>
     (\<forall>cp. j_Params j = Some cp \<longrightarrow> cp_ps cp \<in> {UNKNOWN, CLEAN}) \<and>
     (\<forall>l \<in> set (j_LockedDatasets j). ld_ps l \<in> {UNKNOWN, CLEAN})"

lemma only_row_to_write_flags:
  assumes "only_row_to_write j"
  shows "deleted_tasks j = []" "created_tasks j = []" "updated_tasks j = []"
    "\<not> params_flag IsNew j" "\<not> params_flag IsDirty j" "\<not> params_flag IsToDelete j"
  using assms
  by (auto simp: only_row_to_write_def deleted_tasks_def created_tasks_def updated_tasks_def params_flag_def
      filter_empty_conv ps_tests split: option.splits)

lemma stale_save:
  assumes "j_ps (w_job w) \<in> {CLEAN, DIRTY}" and "only_row_to_write (w_job w)"
    and "jobs.keyed (w_db w)" and "jobs.lookup (j_ID (w_job w)) (w_db w) = Some r"
    and "jr_LastUpdate r \<noteq> pg_ts (OCCTime (w_job w))" and "\<forall>n. e_fault E n = None"
  shows "\<exists>e w'. saveJob E False w = Ret (Inl e, w') \<and> Temporary e \<and> w_db w' = w_db w \<and> w_job w' = w_job w"
proof -
  let ?j = "w_job w"
  have no: "\<not> list_ex (updates ?j) (db_Jobs (w_db w))" by (rule stale_row [OF assms(3-5)])
  have skip: "each (release_stored E ?j) is = ok ()" "each (lock_stored E ?j) is = ok ()"
    if "\<forall>i \<in> set is. i < length (j_LockedDatasets ?j)" for "is"
  proof -
    have "release_stored E ?j i = ok ()" "lock_stored E ?j i = ok ()" if "i < length (j_LockedDatasets ?j)" for i
      using assms(2) nth_mem [OF that] by (auto simp: only_row_to_write_def release_stored_def lock_stored_def whenever_def ps_tests Let_def)
    with that show "each (release_stored E ?j) is = ok ()" "each (lock_stored E ?j) is = ok ()"
      by (induction "is") simp_all
  qed
  have body: "saveJob_body E (in_txn w) =
      Ret (Inl (occ_error (NewEntityNotFound ''Job'' ''id/timestamp'' (j_ID ?j @ ''/'' @ itoa (OCCTime ?j)) [])),
           (in_txn w)\<lparr>w_tick := Suc (w_tick (in_txn w))\<rparr>)"
  proof -
    have "saveJob_body E (in_txn w) =
      seq (handle (tx E (pg_UpdateJob ?j)) (\<lambda>r. case r of Inl e \<Rightarrow> fails (occ_error e) | Inr _ \<Rightarrow> ok ()))
        (\<lambda>_. seq (on_job (\<lambda>j. Ret (drop_deleted j))) (\<lambda>_. seq (saveJobLogs_body E) (\<lambda>_. on_job mark_saved))) (in_txn w)"
      using assms(1) only_row_to_write_flags [OF assms(2)]
      by (auto simp: saveJob_body_def saveJob_deletions_def saveJob_creations_def saveJob_updates_def skip
          whenever_def ps_tests seq_assoc
          seq_def [of "reading w_job"] handle_def [of "reading w_job"] reading_def in_txn_def)
    also have "handle (tx E (pg_UpdateJob ?j)) (\<lambda>r. case r of Inl e \<Rightarrow> fails (occ_error e) | Inr _ \<Rightarrow> ok ()) (in_txn w) =
      Ret (Inl (occ_error (NewEntityNotFound ''Job'' ''id/timestamp'' (j_ID ?j @ ''/'' @ itoa (OCCTime ?j)) [])),
           (in_txn w)\<lparr>w_tick := Suc (w_tick (in_txn w))\<rparr>)"
      using no assms(6) by (simp add: handle_def tx_def pg_UpdateJob_def in_txn_def fails_def)
    then have "seq (handle (tx E (pg_UpdateJob ?j)) (\<lambda>r. case r of Inl e \<Rightarrow> fails (occ_error e) | Inr _ \<Rightarrow> ok ())) k (in_txn w) =
      Ret (Inl (occ_error (NewEntityNotFound ''Job'' ''id/timestamp'' (j_ID ?j @ ''/'' @ itoa (OCCTime ?j)) [])),
           (in_txn w)\<lparr>w_tick := Suc (w_tick (in_txn w))\<rparr>)" for k
      by (simp add: seq_def handle_def fails_def)
    finally show ?thesis .
  qed
  let ?e = "occ_error (NewEntityNotFound ''Job'' ''id/timestamp'' (j_ID ?j @ ''/'' @ itoa (OCCTime ?j)) [])"
  have "saveJob E False w = Ret (Inl (WrapE ''uow.'' ?e []), (in_txn w)\<lparr>w_tick := Suc (w_tick (in_txn w)), w_txn := w_txn w\<rparr>)"
    using assms(6) body
    by (simp add: saveJob_def unitOfWork_def seq_def handle_def reading_def start_txn_def in_txn_def)
  moreover have "Temporary (WrapE ''uow.'' ?e [])"
    by (rule Temporary_WrapE) (simp add: occ_error_def MakeTemporary_def)
  ultimately show ?thesis by (simp add: in_txn_def)
qed

lemma saved_jobs_keyed:
  assumes "saveJob E False w = Ret (Inr u, w1)" "w_txn w = None" "jobs.keyed (w_db w)" "j_ps (w_job w) = CLEAN \<or> j_ps (w_job w) = DIRTY"
  shows "jobs.keyed (w_db w1)"
proof -
  have "map jr_ID (db_Jobs (w_db w1)) = map jr_ID (db_Jobs (w_db w))"
    using saveJob_Inr [OF assms(1,2)] assms(4)
    by (auto simp: saved_tables_def table_frames db_Jobs_after_updates db_Jobs_after_creations after_deletions_def
        db_Jobs_before ps_tests updated_row_def)
  with assms(3) show ?thesis by (simp add: jobs.keyed_def)
qed

text \<open>C13: Two handlers that read the same job cannot both update it: once the first has saved its live copy,
  stamped with a time that differs (in microseconds) from the one the second copy was read under, a save of
  the second copy that is to update the job does not succeed and the tables stay as the first left them.
  Saves that delete the job are not guarded by the time stamp.\<close>
theorem concurrent_saves_conflict:
  assumes "saveJob E False w = Ret (Inr u, w1)" and "w_txn w = None" and "jobs.keyed (w_db w)"
    and "j_ps (w_job w) \<in> {CLEAN, DIRTY}" and "j_ps copy \<in> {CLEAN, DIRTY}"
    and "j_ID copy = j_ID (w_job w)" and "pg_ts (j_LastUpdateTime (w_job w)) \<noteq> pg_ts (OCCTime copy)"
    and "saveJob E2 False (w1\<lparr>w_job := copy\<rparr>) = Ret (r, w2)"
  shows "\<exists>e. r = Inl e \<and> w_db w2 = w_db w1"
proof -
  have stored: "jobs.lookup (j_ID copy) (w_db w1) = Some row \<Longrightarrow> jr_LastUpdate row \<noteq> pg_ts (OCCTime copy)" for row
    using saved_job_row [OF assms(1-3), of "j_ID copy"] assms(4,6,7)
    by (cases "jobs.lookup (j_ID (w_job w)) (w_db w)") (auto simp: stored_job_def updated_row_def)
  have keyed: "jobs.keyed (w_db w1)" using saved_jobs_keyed [OF assms(1-3)] assms(4) by auto
  have no: "\<not> list_ex (updates copy) (db_Jobs (w_db w1))"
    using stored stale_row [OF keyed] updated_job_present [of copy "w_db w1"]
    by (cases "jobs.lookup (j_ID copy) (w_db w1)") auto
  show ?thesis
  proof (cases r)
    case (Inr v)
    have t: "w_txn (w1\<lparr>w_job := copy\<rparr>) = None" using saveJob_Inr [OF assms(1,2)] by simp
    from saved_job_exists [OF assms(8) [unfolded Inr] t] assms(5) no show ?thesis by auto
  next
    case (Inl e)
    from assms(8) [unfolded Inl saveJob_def] have "w_db w2 = w_db w1"
      by (auto dest!: unitOfWork_Inl [OF saveJob_body_committed])
    with Inl show ?thesis by simp
  qed
qed

text \<open>The second handler read the job before the first saved it.\<close>

definition sample_copy :: Job where
  "sample_copy = (job_of_row (sample_job_row JobTypeCONSOLIDATION JobStateCREATED))
     \<lparr>j_ps := DIRTY, j_occTime := 5000, j_LastUpdateTime := 9500, j_State := JobStateABORTED\<rparr>"

theorem concurrent_saves_conflict_witness:
  "\<exists>w1 e w2. saveJob sample_env False saving_world = Ret (Inr (), w1) \<and>
     saveJob sample_env False (w1\<lparr>w_job := sample_copy\<rparr>) = Ret (Inl e, w2) \<and> w_db w2 = w_db w1"
proof -
  from saving_result obtain w1 where w1: "saveJob sample_env False saving_world = Ret (Inr (), w1)" by blast
  let ?w = "w1\<lparr>w_job := sample_copy\<rparr>"
  let ?r = "updated_row (w_job saving_world) (sample_job_row JobTypeCONSOLIDATION JobStateCREATED)"
  have "jobs.keyed (w_db w1)"
    using saved_jobs_keyed [OF w1 saving_world_facts(1,2)] by (simp add: saving_world_facts)
  moreover have "jobs.lookup ''j1'' (w_db w1) = Some ?r"
    unfolding saved_job_row [OF w1 saving_world_facts(1,2)]
    by (simp add: stored_job_def saving_defs jobs.lookup_def)
  ultimately have "\<exists>e w'. saveJob sample_env False ?w = Ret (Inl e, w') \<and> Temporary e \<and> w_db w' = w_db ?w \<and> w_job w' = w_job ?w"
    by (intro stale_save [of _ ?r])
       (simp_all add: only_row_to_write_def sample_copy_def updated_row_def saving_defs empty_locks_def OCCTime_def pg_ts_def
         sample_env_def)
  then obtain e w2 where w2: "saveJob sample_env False ?w = Ret (Inl e, w2)" by blast
  have "j_ps (w_job saving_world) \<in> {CLEAN, DIRTY}" "j_ps sample_copy \<in> {CLEAN, DIRTY}" "j_ID sample_copy = j_ID (w_job saving_world)"
    "pg_ts (j_LastUpdateTime (w_job saving_world)) \<noteq> pg_ts (OCCTime sample_copy)"
    by (simp_all add: saving_defs sample_copy_def sample_job_row_def job_of_row_def NewJob_def OCCTime_def pg_ts_def)
  from concurrent_saves_conflict [OF w1 saving_world_facts(1,2) this w2] w1 w2 show ?thesis by blast
qed

text \<open>C15: After another process has updated a job, a save that is to update it never succeeds and writes
  nothing, whatever else it was to write; when nothing but the row of the job was to be written and the
  database answers, the error is temporary, so that the message is delivered again, and the job in memory is
  left as it was.\<close>
theorem stale_job_is_refused:
  assumes "j_ps (w_job w) \<in> {CLEAN, DIRTY}" and "w_txn w = None"
    and "jobs.keyed (w_db w)" and "jobs.lookup (j_ID (w_job w)) (w_db w) = Some r"
    and "jr_LastUpdate r \<noteq> pg_ts (OCCTime (w_job w))"
  shows "(\<forall>res w'. saveJob E False w = Ret (res, w') \<longrightarrow> (\<exists>e. res = Inl e) \<and> w_db w' = w_db w) \<and>
    (only_row_to_write (w_job w) \<and> (\<forall>n. e_fault E n = None) \<longrightarrow>
      (\<exists>e w'. saveJob E False w = Ret (Inl e, w') \<and> Temporary e \<and> w_db w' = w_db w \<and> w_job w' = w_job w))"
proof (intro conjI allI impI)
  fix res w' assume run: "saveJob E False w = Ret (res, w')"
  show "\<exists>e. res = Inl e"
    using run saved_job_exists [of E w _ w'] stale_row [OF assms(3-5)] assms(1,2) by (cases res) auto
  then show "w_db w' = w_db w"
    using run by (auto simp: saveJob_def dest!: unitOfWork_Inl [OF saveJob_body_committed])
qed (use stale_save [OF assms(1) _ assms(3-5)] in blast)

theorem stale_job_is_refused_witness:
  "\<exists>e w'. saveJob sample_env False (sample_world ((sample_db JobTypeCONSOLIDATION JobStateCREATED)
       \<lparr>db_Jobs := [(sample_job_row JobTypeCONSOLIDATION JobStateCREATED)\<lparr>jr_LastUpdate := 9000\<rparr>]\<rparr>) sample_copy) = Ret (Inl e, w') \<and>
     Temporary e"
proof -
  let ?r = "(sample_job_row JobTypeCONSOLIDATION JobStateCREATED)\<lparr>jr_LastUpdate := 9000\<rparr>"
  let ?w = "sample_world ((sample_db JobTypeCONSOLIDATION JobStateCREATED)\<lparr>db_Jobs := [?r]\<rparr>) sample_copy"
  have "only_row_to_write (w_job ?w)" "\<forall>n. e_fault sample_env n = None"
    by (simp_all add: only_row_to_write_def sample_world_def sample_copy_def sample_job_row_def job_of_row_def NewJob_def
        empty_locks_def sample_env_def)
  moreover have "(\<forall>res w'. saveJob sample_env False ?w = Ret (res, w') \<longrightarrow> (\<exists>e. res = Inl e) \<and> w_db w' = w_db ?w) \<and>
    (only_row_to_write (w_job ?w) \<and> (\<forall>n. e_fault sample_env n = None) \<longrightarrow>
      (\<exists>e w'. saveJob sample_env False ?w = Ret (Inl e, w') \<and> Temporary e \<and> w_db w' = w_db ?w \<and> w_job w' = w_job ?w))"
    by (rule stale_job_is_refused [of _ ?r])
       (simp_all add: sample_world_def sample_copy_def sample_job_row_def job_of_row_def NewJob_def empty_locks_def
         jobs.keyed_def jobs.lookup_def OCCTime_def pg_ts_def)
  ultimately show ?thesis by blast
qed

end
