(* ===== verification/LockProps.thy ===== *)
theory LockProps
  imports SaveProps
begin

text \<open>
  Locks through a save: \<open>saveJob\<close> first releases the locks marked for deletion, then takes the new ones.
\<close>

definition to_release :: "Job \<Rightarrow> nat \<Rightarrow> bool" where
  "to_release j i \<longleftrightarrow> IsToDelete (ld_ps (j_LockedDatasets j ! i))"

definition released_row :: "Job \<Rightarrow> nat list \<Rightarrow> lock_row \<Rightarrow> bool" where
  "released_row j ns l \<longleftrightarrow> lk_JobID l = j_ID j \<and> (\<exists>n \<in> set ns. to_release j n \<and> lk_Flag l = int n)"

lemma db_Locks_released: "db_Locks (released j n d) = filter (\<lambda>l. \<not> (to_release j n \<and> held (j_ID j) (int n) l)) (db_Locks d)"
  by (simp add: released_def to_release_def pg_ReleaseDatasets_eq drop_locks_def set_locker_def)

lemma db_Locks_fold_released: "db_Locks (fold (released j) ns d) = filter (\<lambda>l. \<not> released_row j ns l) (db_Locks d)"
proof (induction ns arbitrary: d)
  case Nil
  then show ?case by (simp add: released_row_def)
next
  case (Cons n ns)
  then show ?case
    by (auto simp: db_Locks_released released_row_def held_def intro!: filter_cong)
qed

lemma locks_agree_fold_released: "locks_agree d \<Longrightarrow> locks_agree (fold (released j) ns d)"
  by (induction ns arbitrary: d) (simp_all add: released_def locks_agree_release)

lemma db_Locks_tasks [table_frames]:
  "db_Locks (fold (\<lambda>t. tasks.remove (f t)) ts d) = db_Locks d"
  "db_Datasets (fold (\<lambda>t. tasks.remove (f t)) ts d) = db_Datasets d"
  "db_Locks (fold (\<lambda>t. tasks.modify (f t) (g t)) ts d) = db_Locks d"
  "db_Datasets (fold (\<lambda>t. tasks.modify (f t) (g t)) ts d) = db_Datasets d"
  by (rule fold_frame, simp add: tasks.remove_def tasks.modify_def)+

lemma pg_lock_frames [table_frames]:
  "db_Locks (snd (pg_DeleteConsolidationParams p d)) = db_Locks d"
  "db_Datasets (snd (pg_DeleteConsolidationParams p d)) = db_Datasets d"
  "db_Locks (snd (pg_CreateJob j d)) = db_Locks d" "db_Datasets (snd (pg_CreateJob j d)) = db_Datasets d"
  "db_Locks (snd (pg_CreateConsolidationParams p cp d)) = db_Locks d"
  "db_Datasets (snd (pg_CreateConsolidationParams p cp d)) = db_Datasets d"
  "db_Locks (tasks.append ts d) = db_Locks d" "db_Datasets (tasks.append ts d) = db_Datasets d"
  "db_Locks (snd (pg_UpdateJob j d)) = db_Locks d" "db_Datasets (snd (pg_UpdateJob j d)) = db_Datasets d"
  "db_Locks (snd (pg_PersistLogs i ls d)) = db_Locks d" "db_Datasets (snd (pg_PersistLogs i ls d)) = db_Datasets d"
  by (simp_all add: pg_DeleteConsolidationParams_def pg_delete_def pg_CreateJob_def pg_CreateConsolidationParams_def
      tasks.append_def pg_UpdateJob_def pg_PersistLogs_def)

lemma before_job_deletion_locks:
  "db_Locks (before_job_deletion j d) = filter (\<lambda>l. \<not> released_row j [0..<length (j_LockedDatasets j)] l) (db_Locks d)"
  by (simp add: before_job_deletion_def Let_def table_frames db_Locks_fold_released)

lemma locks_agree_before_job_deletion: "locks_agree d \<Longrightarrow> locks_agree (before_job_deletion j d)"
proof -
  assume "locks_agree d"
  then have "locks_agree (fold (released j) [0..<length (j_LockedDatasets j)] d)" by (rule locks_agree_fold_released)
  then show ?thesis
    by (subst locks_agree_frame [where d = "fold (released j) [0..<length (j_LockedDatasets j)] d"])
       (simp_all add: before_job_deletion_def Let_def table_frames)
qed

text \<open>Every lock that is stored carries one of the three flags.\<close>

definition flags_known :: "db \<Rightarrow> bool" where
  "flags_known d \<longleftrightarrow> (\<forall>l \<in> set (db_Locks d). \<exists>n < 3. lk_Flag l = int n)"

text \<open>The job drops its last locks before its row goes, if all three are marked.\<close>

definition releases_all :: "Job \<Rightarrow> bool" where
  "releases_all j \<longleftrightarrow> (\<forall>l \<in> set (j_LockedDatasets j). IsToDelete (ld_ps l))"

lemma after_deletions_locks:
  assumes ok: "deletions_ok j d" and len: "length (j_LockedDatasets j) = 3" and "flags_known d"
    and "IsToDelete (j_ps j) \<longrightarrow> releases_all j" and agree: "locks_agree d"
  shows "db_Locks (after_deletions j d) = filter (\<lambda>l. \<not> released_row j [0..<3] l) (db_Locks d) \<and> locks_agree (after_deletions j d)"
proof (cases "IsToDelete (j_ps j)")
  case False
  with len agree show ?thesis
    by (simp add: after_deletions_def before_job_deletion_locks locks_agree_before_job_deletion)
next
  case True
  with ok obtain d' where d': "pg_DeleteJob (j_ID j) (before_job_deletion j d) = (Inr (), d')" by (auto simp: deletions_ok_def)
  have none: "lk_JobID l \<noteq> j_ID j" if "l \<in> set (db_Locks (before_job_deletion j d))" for l
  proof
    assume eq: "lk_JobID l = j_ID j"
    from that have l: "l \<in> set (db_Locks d)" "\<not> released_row j [0..<3] l" by (simp_all add: before_job_deletion_locks len)
    with assms(3) obtain n where "n < 3" "lk_Flag l = int n" by (auto simp: flags_known_def)
    moreover from True assms(4) len \<open>n < 3\<close> have "to_release j n" by (simp add: releases_all_def to_release_def)
    ultimately show False using l(2) eq by (auto simp: released_row_def)
  qed
  from d' have a: "after_deletions j d = d'" using True by (simp add: after_deletions_def)
  from d' have "db_Locks d' = filter (\<lambda>l. lk_JobID l \<noteq> j_ID j) (db_Locks (before_job_deletion j d))"
      "db_Datasets d' = db_Datasets (before_job_deletion j d)"
    by (auto simp: pg_DeleteJob_def pg_delete_def split: option.splits)
  moreover from none have "filter (\<lambda>l. lk_JobID l \<noteq> j_ID j) (db_Locks (before_job_deletion j d)) = db_Locks (before_job_deletion j d)"
    by (simp add: filter_True)
  ultimately have e: "db_Locks d' = db_Locks (before_job_deletion j d)" "db_Datasets d' = db_Datasets (before_job_deletion j d)" by simp_all
  then show ?thesis
    using locks_agree_before_job_deletion [OF agree, of j] by (simp add: a before_job_deletion_locks len locks_agree_frame [OF e])
qed

section \<open>Taking locks\<close>

definition locker :: "Job \<Rightarrow> string \<Rightarrow> nat \<Rightarrow> bool" where
  "locker j i n \<longleftrightarrow> to_lock j n \<and> i \<in> set (NewIDs (j_LockedDatasets j ! n))"

lemma lookup_set_locker [simp]: "locks.lookup i (set_locker j p d) = locks.lookup i d"
  by (simp add: locks.lookup_def set_locker_def)

lemma locked_step:
  assumes "lock_guard j n d"
  shows "locks.lookup i (locked j n d) = (if locker j i n then Some (new_lock_row (j_ID j) (int n) i) else locks.lookup i d) \<and>
         (locks_agree d \<longrightarrow> locks_agree (locked j n d)) \<and> (n < 3 \<and> flags_known d \<longrightarrow> flags_known (locked j n d))"
proof (cases "to_lock j n")
  case False
  then show ?thesis by (simp add: locked_def to_lock_def locker_def Let_def)
next
  case True
  let ?ids = "NewIDs (j_LockedDatasets j ! n)"
  from assms True obtain d' where d': "pg_LockDatasets (j_ID j) ?ids (int n) d = (Inr (), d')" by (auto simp: lock_guard_def)
  then have l: "locked j n d = d'" using True by (simp add: locked_def to_lock_def Let_def)
  from d' have g: "set ?ids \<inter> locks.keys d = {}"
    and e: "d' = set_locker (Some (j_ID j)) (\<lambda>r. d_ID (dr_Dataset r) \<in> set ?ids) (locks.append (map (new_lock_row (j_ID j) (int n)) ?ids) d)"
    by (simp_all add: pg_LockDatasets_Inr)
  have f: "find (\<lambda>r. lk_DatasetID r = i) (map (new_lock_row (j_ID j) (int n)) ids) =
           (if i \<in> set ids then Some (new_lock_row (j_ID j) (int n) i) else None)" for ids
    by (induction ids) (auto simp: new_lock_row_def)
  have "locks.lookup i d' = (if i \<in> set ?ids then Some (new_lock_row (j_ID j) (int n) i) else locks.lookup i d)"
    using g locks.lookup_None_iff [of i d] by (auto simp: e locks.lookup_append f split: option.splits)
  moreover have "flags_known d'" if "n < 3" "flags_known d"
    using that by (auto simp: e flags_known_def set_locker_def locks.append_def new_lock_row_def)
  ultimately show ?thesis using locks_agree_lock [OF d'] True by (simp add: l locker_def)
qed

lemma held_not_locked_again:
  "all_along (lock_guard j) (locked j) ns d \<Longrightarrow> locks.lookup i d \<noteq> None \<Longrightarrow> find (locker j i) ns = None"
proof (induction ns arbitrary: d)
  case (Cons n ns)
  then have g: "lock_guard j n d" and rest: "all_along (lock_guard j) (locked j) ns (locked j n d)" by simp_all
  have no: "\<not> locker j i n"
  proof
    assume "locker j i n"
    with g have "i \<notin> locks.keys d" by (auto simp: locker_def lock_guard_def pg_LockDatasets_Inr)
    with Cons.prems(2) show False by (simp add: locks.lookup_None_iff)
  qed
  with locked_step [OF g, of i] Cons.prems(2) have "locks.lookup i (locked j n d) \<noteq> None" by simp
  from Cons.IH [OF rest this] no show ?case by simp
qed simp

lemma fold_locked:
  assumes "all_along (lock_guard j) (locked j) ns d" and "\<forall>n \<in> set ns. n < 3"
  shows "locks.lookup i (fold (locked j) ns d) =
      (case find (locker j i) ns of Some n \<Rightarrow> Some (new_lock_row (j_ID j) (int n) i) | None \<Rightarrow> locks.lookup i d) \<and>
    (locks_agree d \<longrightarrow> locks_agree (fold (locked j) ns d)) \<and> (flags_known d \<longrightarrow> flags_known (fold (locked j) ns d))"
  using assms
proof (induction ns arbitrary: d)
  case (Cons n ns)
  then have g: "lock_guard j n d" and rest: "all_along (lock_guard j) (locked j) ns (locked j n d)" by simp_all
  note step = locked_step [OF g, of i]
  show ?case
  proof (cases "locker j i n")
    case True
    with step have "locks.lookup i (locked j n d) \<noteq> None" by simp
    with held_not_locked_again [OF rest] have "find (locker j i) ns = None" by simp
    with True step Cons.IH [OF rest] Cons.prems(2) show ?thesis by simp
  next
    case False
    with step Cons.IH [OF rest] Cons.prems(2) show ?thesis by (cases "find (locker j i) ns") simp_all
  qed
qed simp

section \<open>A save moves the locks as asked\<close>

definition saved_lock :: "Job \<Rightarrow> string \<Rightarrow> lock_row option \<Rightarrow> lock_row option" where
  "saved_lock j i before =
     (case find (locker j i) [0..<3] of
        Some n \<Rightarrow> Some (new_lock_row (j_ID j) (int n) i)
      | None \<Rightarrow> (case before of None \<Rightarrow> None | Some l \<Rightarrow> if released_row j [0..<3] l then None else Some l))"

text \<open>C12: A successful save moves exactly the locks the job asks for: a dataset in one of the new sets is locked
  by the job under that flag, also when the job held it under a flag it releases; the locks of a released flag
  are gone; all others, those of other jobs included, stay.  The column of each dataset keeps naming
  the holder of its lock.\<close>
theorem saved_locks:
  assumes "saveJob E False w = Ret (Inr u, w')" and "w_txn w = None"
    and "length (j_LockedDatasets (w_job w)) = 3" and "locks_agree (w_db w)" and "flags_known (w_db w)"
    and "j_ps (w_job w) = TODELETE \<longrightarrow> releases_all (w_job w)"
  shows "locks.lookup i (w_db w') = saved_lock (w_job w) i (locks.lookup i (w_db w)) \<and>
    locks_agree (w_db w') \<and> flags_known (w_db w')"
proof -
  let ?j = "w_job w" let ?d = "w_db w"
  let ?a = "after_deletions ?j ?d" let ?b = "before_locks ?j ?a"
  from saveJob_Inr [OF assms(1,2)] have db: "w_db w' = saved_tables ?j ?d"
    and del: "deletions_ok ?j ?d" and cre: "creations_ok ?j ?a" by (simp_all add: create_guard_def)
  have a: "db_Locks ?a = filter (\<lambda>l. \<not> released_row ?j [0..<3] l) (db_Locks ?d)" "locks_agree ?a"
    using after_deletions_locks [OF del assms(3,5) _ assms(4)] assms(6) by (simp_all add: IsToDelete_def)
  have b: "db_Locks ?b = db_Locks ?a" "db_Datasets ?b = db_Datasets ?a"
    by (simp_all add: before_locks_def Let_def table_frames)
  have agree_b: "locks_agree ?b" using a(2) by (simp add: locks_agree_frame [OF b])
  have flags_b: "flags_known ?b" using assms(5) by (auto simp: flags_known_def b a)
  have k: "locks.keyed ?d" using assms(4) by (simp add: locks_agree_def)
  have look_b: "locks.lookup i ?b = (case locks.lookup i ?d of None \<Rightarrow> None | Some l \<Rightarrow> if released_row ?j [0..<3] l then None else Some l)"
    using locks.lookup_filter [OF k, of ?b _ i] a(1) b(1) by (auto split: option.splits)
  have idx: "lock_indices ?j = [0..<3]" by (simp add: lock_indices_def assms(3))
  from cre have "all_along (lock_guard ?j) (locked ?j) [0..<3] ?b" by (simp add: creations_ok_def idx)
  note f = fold_locked [OF this, of i]
  let ?l = "fold (locked ?j) [0..<3] ?b"
  have e: "db_Locks (w_db w') = db_Locks ?l" "db_Datasets (w_db w') = db_Datasets ?l"
    unfolding db saved_tables_def after_updates_def after_creations_def before_locks_def assms(3)
    by (simp_all add: table_frames Let_def)
  have "locks.lookup i (w_db w') = locks.lookup i ?l" by (simp add: locks.lookup_def e)
  moreover have "locks_agree (w_db w') = locks_agree ?l" by (rule locks_agree_frame [OF e])
  moreover have "flags_known (w_db w') = flags_known ?l" by (simp add: flags_known_def e)
  ultimately show ?thesis using f agree_b flags_b look_b
    by (cases "find (locker ?j i) [0..<3]") (simp_all add: saved_lock_def)
qed

theorem saved_locks_witness:
  "\<exists>w'. saveJob sample_env False saving_world = Ret (Inr (), w') \<and>
     map_option lk_Flag (locks.lookup ''d1'' (w_db w')) = Some 1 \<and> locks.lookup ''d2'' (w_db w') = None"
proof -
  from saving_result obtain w' where w': "saveJob sample_env False saving_world = Ret (Inr (), w')" by blast
  have "length (j_LockedDatasets (w_job saving_world)) = 3" "locks_agree (w_db saving_world)" "flags_known (w_db saving_world)"
    "j_ps (w_job saving_world) = TODELETE \<longrightarrow> releases_all (w_job saving_world)"
    by (simp_all add: saving_defs locks_agree_def locks.keyed_def locks.keys_def datasets.keys_def lock_holder_def locks.lookup_def
        sample_dataset_def flags_known_def)
  note l = saved_locks [OF w' saving_world_facts(1) this]
  have "saved_lock (w_job saving_world) ''d1'' (locks.lookup ''d1'' (w_db saving_world)) = Some (new_lock_row ''j1'' 1 ''d1'')"
    "saved_lock (w_job saving_world) ''d2'' (locks.lookup ''d2'' (w_db saving_world)) = None"
    by (simp_all add: saved_lock_def saving_defs locker_def to_lock_def ps_tests NewIDs_def set_Slice_def locks.lookup_def upt_rec numeral_3_eq_3)
  with w' l show ?thesis by (intro exI [of _ w']) (simp add: new_lock_row_def)
qed

section \<open>A save that fails writes nothing\<close>

text \<open>A save of a job, a container or a variable that returns an error leaves the committed tables as they were,
  at whichever statement it failed.\<close>
theorem failed_save_writes_nothing:
  "(saveJob E False w = Ret (Inl e, w') \<longrightarrow> w_db w' = w_db w) \<and>
   (saveContainer E False c w = Ret (Inl e, w') \<longrightarrow> w_db w' = w_db w) \<and>
   (saveVariable E False v w = Ret (Inl e, w') \<longrightarrow> w_db w' = w_db w)"
  unfolding saveJob_def saveContainer_def saveVariable_def if_False
  by (intro conjI impI; rule unitOfWork_Inl, rule keeps_intros, assumption)

theorem failed_save_writes_nothing_witness:
  "\<exists>e w'. saveJob (sample_env\<lparr>e_fault := (\<lambda>n. if n = 5 then Some CtxCanceled else None)\<rparr>) False saving_world = Ret (Inl e, w') \<and>
     w_db w' = w_db saving_world"
proof -
  let ?E = "sample_env\<lparr>e_fault := (\<lambda>n. if n = 5 then Some CtxCanceled else None)\<rparr>"
  have "(case saveJob ?E False saving_world of Ret (Inl _, _) \<Rightarrow> True | _ \<Rightarrow> False)" by code_simp
  then obtain e w' where "saveJob ?E False saving_world = Ret (Inl e, w')" by (auto split: go.splits sum.splits prod.splits)
  with failed_save_writes_nothing [of ?E saving_world e w'] show ?thesis by blast
qed

end
