(* ===== verification/DatasetsProps.thy ===== *)
theory DatasetsProps
  imports HandlersProps LockProps
begin

text \<open>
  What the handlers do to the datasets of a job: the swap at the end of a consolidation, and the marking,
  the removal and the rollback of a deletion.  A save of the job moves locks only: the rows of the
  datasets themselves are the ones before it.
\<close>

section \<open>Frames\<close>

definition dataset_list :: "db \<Rightarrow> Dataset list" where
  "dataset_list d = map dr_Dataset (db_Datasets d)"

lemma dataset_list_simps [table_frames]:
  "dataset_list (snd (pg_ReleaseDatasets i f d)) = dataset_list d"
  "dataset_list (snd (pg_LockDatasets i ids f d)) = dataset_list d"
  "dataset_list (tasks.remove k d) = dataset_list d" "dataset_list (tasks.modify k g d) = dataset_list d"
  "dataset_list (tasks.append ts d) = dataset_list d"
  "dataset_list (snd (pg_DeleteConsolidationParams p d)) = dataset_list d"
  "dataset_list (snd (pg_DeleteJob i d)) = dataset_list d"
  "dataset_list (snd (pg_CreateJob j d)) = dataset_list d"
  "dataset_list (snd (pg_CreateConsolidationParams p cp d)) = dataset_list d"
  "dataset_list (snd (pg_UpdateJob j d)) = dataset_list d"
  "dataset_list (snd (pg_PersistLogs i ls d)) = dataset_list d"
  by (auto simp: dataset_list_def pg_ReleaseDatasets_def pg_LockDatasets_def tasks.remove_def tasks.modify_def tasks.append_def
      pg_DeleteConsolidationParams_def pg_delete_def pg_DeleteJob_def pg_CreateJob_def pg_CreateConsolidationParams_def
      pg_UpdateJob_def pg_PersistLogs_def split: option.splits)

lemma dataset_list_folds [table_frames]:
  "dataset_list (fold (released j) ns d) = dataset_list d"
  "dataset_list (fold (locked j) ns d) = dataset_list d"
  "dataset_list (fold (\<lambda>t. tasks.remove (f t)) ts d) = dataset_list d"
  "dataset_list (fold (\<lambda>t. tasks.modify (f t) (g t)) ts d) = dataset_list d"
  by (rule fold_frame, simp add: released_def locked_def table_frames Let_def)+

lemma saved_tables_datasets: "dataset_list (saved_tables j d) = dataset_list d"
  by (simp add: saved_tables_def after_updates_def after_creations_def after_deletions_def before_job_deletion_def
      table_frames Let_def)

lemma saveJob_body_datasets:
  "saveJob_body E w = Ret (Inr u, w') \<Longrightarrow> w_txn w = Some d \<Longrightarrow> \<exists>d'. w_txn w' = Some d' \<and> dataset_list d' = dataset_list d"
  using saveJob_body_Inr [of E w u w' d] by (auto simp: saved_tables_datasets)

lemma saveJob_datasets:
  "saveJob E False w = Ret (Inr u, w') \<Longrightarrow> w_txn w = None \<Longrightarrow> dataset_list (w_db w') = dataset_list (w_db w) \<and> w_txn w' = None"
  using saveJob_Inr [of E w u w'] by (auto simp: saved_tables_datasets)

text \<open>Steps on the job leave the tables alone; calls on the transaction do what they say.\<close>

lemma on_job_tables: "on_job f w = Ret (r, w') \<Longrightarrow> w_txn w' = w_txn w \<and> w_db w' = w_db w"
  by (auto simp: on_job_def go_bind_eq_Ret_iff)

lemma log_job_tables: "log_job E s m w = Ret (r, w') \<Longrightarrow> w_txn w' = w_txn w \<and> w_db w' = w_db w"
  by (auto simp: log_job_def seq_Ret_iff ticking_def dest!: on_job_tables)

lemma tx_Inr: "tx E op w = Ret (Inr a, w') \<Longrightarrow> w_txn w = Some d \<Longrightarrow> op d = (Inr a, snd (op d)) \<and> w_txn w' = Some (snd (op d)) \<and> w_job w' = w_job w"
  by (auto simp: tx_def Let_def split: option.splits prod.splits)

lemma dbx_Inr: "dbx E op w = Ret (Inr a, w') \<Longrightarrow> op (w_db w) = (Inr a, w_db w') \<and> w_job w' = w_job w \<and> w_txn w' = w_txn w"
  by (auto simp: dbx_def Let_def split: option.splits prod.splits)

definition changed_status :: "string \<Rightarrow> DatasetStatus \<Rightarrow> DatasetStatus \<Rightarrow> dataset_row \<Rightarrow> dataset_row" where
  "changed_status job a b r =
     (if dr_LockedBy r = Some job \<and> d_Status (dr_Dataset r) = a then r\<lparr>dr_Dataset := (dr_Dataset r)\<lparr>d_Status := b\<rparr>\<rparr> else r)"

lemma pg_ChangeDatasetsStatus_eq:
  "pg_ChangeDatasetsStatus job a b d = (Inr (), d\<lparr>db_Datasets := map (changed_status job a b) (db_Datasets d)\<rparr>)"
  by (simp add: pg_ChangeDatasetsStatus_def changed_status_def [abs_def])

lemma changed_status_LockedBy [simp]: "dr_LockedBy (changed_status job a b r) = dr_LockedBy r"
  by (simp add: changed_status_def)

section \<open>The swap\<close>

text \<open>What the swap makes of a dataset: those of the job that are active are marked for deletion, unless records
  are collapsed, and the new ones become active.\<close>

definition swapped :: "Job \<Rightarrow> dataset_row \<Rightarrow> Dataset" where
  "swapped j r =
     (if dr_LockedBy r = Some (j_ID j)
      then (case d_Status (dr_Dataset r) of
              DatasetStatusACTIVE \<Rightarrow>
                if jp_CollapseRecordId (j_Payload j) = [] then (dr_Dataset r)\<lparr>d_Status := DatasetStatusTODELETE\<rparr> else dr_Dataset r
            | DatasetStatusINACTIVE \<Rightarrow> (dr_Dataset r)\<lparr>d_Status := DatasetStatusACTIVE\<rparr>
            | DatasetStatusTODELETE \<Rightarrow> dr_Dataset r)
      else dr_Dataset r)"

lemma swapped_twice:
  "dr_Dataset (changed_status (j_ID j) DatasetStatusINACTIVE DatasetStatusACTIVE
     (if jp_CollapseRecordId (j_Payload j) = [] then changed_status (j_ID j) DatasetStatusACTIVE DatasetStatusTODELETE r else r)) = swapped j r"
  by (cases "d_Status (dr_Dataset r)") (auto simp: changed_status_def swapped_def)

lemma swap_body_datasets:
  assumes b: "csldSwapDatasets_body E w = Ret (Inr u, w')" and d: "w_txn w = Some d"
  shows "\<exists>d'. w_txn w' = Some d' \<and> dataset_list d' = map (swapped (w_job w)) (db_Datasets d)"
proof -
  let ?j = "w_job w"
  let ?first = "if jp_CollapseRecordId (j_Payload ?j) = []
          then tx E (pg_ChangeDatasetsStatus (j_ID ?j) DatasetStatusACTIVE DatasetStatusTODELETE)
          else on_job (ReleaseDatasets LockFlagTODELETE)"
  from b obtain w1 w2 w3 w4 where
    1: "?first w = Ret (Inr (), w1)"
    and 2: "tx E (pg_ChangeDatasetsStatus (j_ID ?j) DatasetStatusINACTIVE DatasetStatusACTIVE) w1 = Ret (Inr (), w2)"
    and 3: "on_job (ReleaseDatasets LockFlagNEW) w2 = Ret (Inr (), w3)"
    and 4: "log_job E INFO ''Datasets swapped'' w3 = Ret (Inr (), w4)" and 5: "saveJob_body E w4 = Ret (Inr u, w')"
    by (auto simp: csldSwapDatasets_body_def seq_Inr_iff reading_def saveJob_def)
  define first where "first r = (if jp_CollapseRecordId (j_Payload ?j) = []
      then changed_status (j_ID ?j) DatasetStatusACTIVE DatasetStatusTODELETE r else r)" for r
  have t1: "w_txn w1 = Some (d\<lparr>db_Datasets := map first (db_Datasets d)\<rparr>)"
  proof (cases "jp_CollapseRecordId (j_Payload ?j) = []")
    case True
    with 1 tx_Inr [of E "pg_ChangeDatasetsStatus (j_ID ?j) DatasetStatusACTIVE DatasetStatusTODELETE" w "()" w1, OF _ d]
    show ?thesis by (simp add: pg_ChangeDatasetsStatus_eq first_def [abs_def])
  next
    case False
    with 1 d show ?thesis by (auto simp: first_def [abs_def] dest: on_job_tables)
  qed
  from tx_Inr [OF 2 t1] have t2: "w_txn w2 = Some (d\<lparr>db_Datasets :=
      map (changed_status (j_ID ?j) DatasetStatusINACTIVE DatasetStatusACTIVE \<circ> first) (db_Datasets d)\<rparr>)"
    by (simp add: pg_ChangeDatasetsStatus_eq)
  have "w_txn w4 = w_txn w2" using on_job_tables [OF 3] log_job_tables [OF 4] by simp
  with saveJob_body_datasets [OF 5] t2 obtain d' where "w_txn w' = Some d'"
    "dataset_list d' = map dr_Dataset (map (changed_status (j_ID ?j) DatasetStatusINACTIVE DatasetStatusACTIVE \<circ> first) (db_Datasets d))"
    by (auto simp: dataset_list_def)
  then show ?thesis by (auto simp: first_def swapped_twice)
qed

lemma csldSwapDatasets_committed: "committed_kept (csldSwapDatasets_body E)"
  unfolding csldSwapDatasets_body_def saveJob_def if_True by (auto intro!: keeps_intros)

text \<open>C16: The swap is exact and atomic: when it succeeds every active dataset of the job is marked for deletion
  (kept active when records are collapsed), every new one is active, and no other dataset moves; when it
  fails the tables are as before.\<close>

theorem swap_is_exact:
  assumes "csldSwapDatasets E w = Ret (r, w')" and "w_txn w = None"
  shows "(\<forall>e. r = Inl e \<longrightarrow> w_db w' = w_db w) \<and>
    (\<forall>u. r = Inr u \<longrightarrow> dataset_list (w_db w') = map (swapped (w_job w)) (db_Datasets (w_db w)))"
proof -
  from assms(1) have "(\<exists>e. log_job E INFO ''Swap datasets...'' w = Ret (Inl e, w') \<and> r = Inl e) \<or>
      (\<exists>w1. log_job E INFO ''Swap datasets...'' w = Ret (Inr (), w1) \<and> unitOfWork E (csldSwapDatasets_body E) w1 = Ret (r, w'))"
    by (auto simp: csldSwapDatasets_def seq_Ret_iff)
  then show ?thesis
  proof (elim disjE exE conjE)
    fix e assume "log_job E INFO ''Swap datasets...'' w = Ret (Inl e, w')" "r = Inl e"
    with log_job_tables show ?thesis by auto
  next
    fix w1 assume l: "log_job E INFO ''Swap datasets...'' w = Ret (Inr (), w1)" and u: "unitOfWork E (csldSwapDatasets_body E) w1 = Ret (r, w')"
    note t = log_job_tables [OF l]
    from l have j: "j_ID (w_job w1) = j_ID (w_job w)" "j_Payload (w_job w1) = j_Payload (w_job w)"
      by (auto simp: log_job_def seq_Inr_iff ticking_def on_job_Inr LogMsg_def job_dirty_def go_bind_eq_Ret_iff Let_def)
    have s: "swapped (w_job w1) = swapped (w_job w)" unfolding swapped_def [abs_def] j ..
    show ?thesis
    proof (cases r)
      case (Inl e)
      with unitOfWork_Inl [OF csldSwapDatasets_committed] u t show ?thesis by simp
    next
      case (Inr x)
      from u t assms(2) Inr obtain w2 d where b: "csldSwapDatasets_body E (in_txn w1) = Ret (Inr x, w2)" "w_txn w2 = Some d"
        "w' = w2\<lparr>w_tick := Suc (w_tick w2), w_db := d, w_txn := None\<rparr>"
        by (auto elim: unitOfWork_Inr)
      from swap_body_datasets [OF b(1), of "w_db w1"] b t s show ?thesis by (auto simp: in_txn_def Inr)
    qed
  qed
qed

definition swap_world :: world where
  "swap_world =
     (let j = job_of_row (sample_job_row JobTypeCONSOLIDATION JobStateCONSOLIDATIONINDEXED)
      in sample_world (sample_db JobTypeCONSOLIDATION JobStateCONSOLIDATIONINDEXED)
           (j\<lparr>j_ps := CLEAN, j_occTime := 5000, j_LockedDatasets := replicate 3 \<lparr>ld_ps = CLEAN, ld_newDatasetsID = []\<rparr>\<rparr>))"

theorem swap_is_exact_witness:
  "\<exists>w'. csldSwapDatasets sample_env swap_world = Ret (Inr (), w') \<and>
     map d_Status (dataset_list (w_db w')) = [DatasetStatusTODELETE, DatasetStatusACTIVE]"
proof -
  have "succeeds (csldSwapDatasets sample_env swap_world)" by code_simp
  then obtain u w' where r: "csldSwapDatasets sample_env swap_world = Ret (Inr u, w')" by (auto simp: succeeds_iff)
  have "w_txn swap_world = None" by (simp add: swap_world_def sample_world_def Let_def)
  with swap_is_exact [OF r] r show ?thesis
    by (simp add: swap_world_def sample_world_def Let_def sample_db_def swapped_def sample_job_row_def job_of_row_def NewJob_def sample_dataset_def)
qed

end
