(* ===== verification/SortLemmas.thy ===== *)
theory SortLemmas
  imports Store
begin

text \<open>The sort behind \<open>ORDER BY\<close> and the order of strings: permutation, sortedness, a linear order.\<close>

lemma mset_insert_by: "mset (insert_by le x xs) = add_mset x (mset xs)"
  by (induction xs) auto

lemma mset_sort_by [simp]: "mset (sort_by le xs) = mset xs"
  unfolding sort_by_def by (induction xs) (auto simp: mset_insert_by)

lemma set_sort_by [simp]: "set (sort_by le xs) = set xs"
  by (metis mset_sort_by set_mset_mset)

lemma sorted_insert_by:
  assumes "\<And>x y. le x y \<or> le y x" "\<And>x y z. le x y \<Longrightarrow> le y z \<Longrightarrow> le x z"
  shows "sorted_wrt le xs \<Longrightarrow> sorted_wrt le (insert_by le x xs)"
proof (induction xs)
  case (Cons y ys)
  have "set (insert_by le x ys) = insert x (set ys)" by (metis mset_insert_by set_mset_add_mset_insert set_mset_mset)
  with Cons assms show ?case by (auto intro: assms(2))
qed simp

lemma sorted_sort_by:
  assumes "\<And>x y. le x y \<or> le y x" "\<And>x y z. le x y \<Longrightarrow> le y z \<Longrightarrow> le x z"
  shows "sorted_wrt le (sort_by le xs)"
proof -
  have "sorted_wrt le ys \<Longrightarrow> sorted_wrt le (insert_by le x ys)" for x ys by (rule sorted_insert_by) (use assms in blast)+
  then show ?thesis unfolding sort_by_def by (induction xs) auto
qed

lemma key_le_total: "key_le xs ys \<or> key_le ys xs"
  by (induction xs ys rule: key_le.induct) auto

lemma key_le_trans: "key_le xs ys \<Longrightarrow> key_le ys zs \<Longrightarrow> key_le xs zs"
proof (induction xs ys arbitrary: zs rule: key_le.induct)
  case (3 x xs y ys)
  then show ?case by (cases zs) (auto split: if_splits)
qed auto

lemma key_le_antisym: "key_le xs ys \<Longrightarrow> key_le ys xs \<Longrightarrow> xs = ys"
proof (induction xs ys rule: key_le.induct)
  case (1 ys)
  then show ?case by (cases ys) auto
qed auto

lemma string_key_inj: "string_key s = string_key t \<Longrightarrow> s = t"
  unfolding string_key_def by (rule map_injective) (auto intro: injI)

lemma string_le_total: "string_le s t \<or> string_le t s"
  unfolding string_le_def by (rule key_le_total)

lemma string_le_trans: "string_le s t \<Longrightarrow> string_le t u \<Longrightarrow> string_le s u"
  unfolding string_le_def by (rule key_le_trans)

lemma string_le_antisym: "string_le s t \<Longrightarrow> string_le t s \<Longrightarrow> s = t"
  unfolding string_le_def by (blast dest: key_le_antisym string_key_inj)

end
