(* ===== verification/RemovalProps.thy ===== *)
theory RemovalProps
  imports DatasetsProps SortLemmas
begin

text \<open>
  The removal of the datasets of a deletion job and its rollback.  \<open>shrinks ids m\<close> says what a method does
  to the rows of the datasets in the open transaction: those with the identifiers \<open>ids\<close> go, the others
  stay; it is composed along the sequence of the calls.
\<close>

section \<open>Methods that remove datasets\<close>

definition shrinks :: "string set \<Rightarrow> 'a act \<Rightarrow> bool" where
  "shrinks ids m \<longleftrightarrow> (\<forall>w a w' d. m w = Ret (Inr a, w') \<longrightarrow> w_txn w = Some d \<longrightarrow>
     (\<exists>d'. w_txn w' = Some d' \<and> dataset_list d' = filter (\<lambda>x. d_ID x \<notin> ids) (dataset_list d)))"

abbreviation datasets_kept :: "'a act \<Rightarrow> bool" where
  "datasets_kept \<equiv> keeps (\<lambda>w w'. map_option dataset_list (w_txn w') = map_option dataset_list (w_txn w))"

lemma shrinksI:
  "(\<And>w a w' d. m w = Ret (Inr a, w') \<Longrightarrow> w_txn w = Some d \<Longrightarrow>
     \<exists>d'. w_txn w' = Some d' \<and> dataset_list d' = filter (\<lambda>x. d_ID x \<notin> ids) (dataset_list d)) \<Longrightarrow> shrinks ids m"
  by (auto simp: shrinks_def)

lemma shrinksD:
  assumes "shrinks ids m" "m w = Ret (Inr a, w')" "w_txn w = Some d"
  obtains d' where "w_txn w' = Some d'" "dataset_list d' = filter (\<lambda>x. d_ID x \<notin> ids) (dataset_list d)"
  using assms unfolding shrinks_def by blast

lemma kept_shrinks: "datasets_kept m \<Longrightarrow> shrinks {} m"
  by (rule shrinksI) (auto dest: keepsD)

lemma shrinks_seq: "shrinks A m \<Longrightarrow> (\<And>a. shrinks B (f a)) \<Longrightarrow> shrinks (A \<union> B) (seq m f)"
proof (rule shrinksI)
  fix w a w' d assume m: "shrinks A m" and f: "\<And>a. shrinks B (f a)"
    and r: "seq m f w = Ret (Inr a, w')" and d: "w_txn w = Some d"
  from r obtain b w1 where 1: "m w = Ret (Inr b, w1)" "f b w1 = Ret (Inr a, w')" by (auto simp: seq_Inr_iff)
  from shrinksD [OF m 1(1) d] obtain d1 where d1: "w_txn w1 = Some d1" "dataset_list d1 = filter (\<lambda>x. d_ID x \<notin> A) (dataset_list d)" .
  from shrinksD [OF f 1(2) d1(1)] obtain d2 where
    "w_txn w' = Some d2" "dataset_list d2 = filter (\<lambda>x. d_ID x \<notin> B) (dataset_list d1)" .
  then show "\<exists>d'. w_txn w' = Some d' \<and> dataset_list d' = filter (\<lambda>x. d_ID x \<notin> A \<union> B) (dataset_list d)"
    by (auto simp: d1 intro!: filter_cong)
qed

lemma shrinks_seq_kept: "shrinks A m \<Longrightarrow> (\<And>a. datasets_kept (f a)) \<Longrightarrow> shrinks A (seq m f)"
  using shrinks_seq [of A m "{}" f] by (auto intro: kept_shrinks)

lemma kept_seq_shrinks: "datasets_kept m \<Longrightarrow> (\<And>a. shrinks A (f a)) \<Longrightarrow> shrinks A (seq m f)"
  using shrinks_seq [of "{}" m A f] by (auto intro: kept_shrinks)

lemma shrinks_wrap: "shrinks A m \<Longrightarrow> shrinks A (wrap pre m)"
  by (auto simp: shrinks_def)

lemma shrinks_each: "(\<And>x. x \<in> set xs \<Longrightarrow> shrinks (F x) (f x)) \<Longrightarrow> shrinks (\<Union>x \<in> set xs. F x) (each f xs)"
proof (induction xs)
  case Nil
  then show ?case by (auto intro!: kept_shrinks keeps_intros)
next
  case (Cons x xs)
  then show ?case by (auto intro!: shrinks_seq)
qed

lemma tx_kept [keeps_intros]: "(\<And>d. dataset_list (snd (op d)) = dataset_list d) \<Longrightarrow> datasets_kept (tx E op)"
  by (rule keepsI) (auto simp: tx_def Let_def split: option.splits prod.splits, metis snd_conv)

lemma on_job_kept [keeps_intros]: "datasets_kept (on_job f)"
  by (auto simp: keeps_def on_job_def go_bind_eq_Ret_iff)

lemma on_job_err_kept [keeps_intros]: "datasets_kept (on_job_err f)"
  by (auto simp: keeps_def on_job_err_def go_bind_eq_Ret_iff)

lemma ticking_kept [keeps_intros]: "datasets_kept (ticking f)"
  by (auto simp: keeps_def ticking_def)

lemma log_job_kept [keeps_intros]: "datasets_kept (log_job E s m)"
  by (auto simp: log_job_def intro!: keeps_intros)

lemma on_job_err_now_kept [keeps_intros]: "datasets_kept (on_job_err_now E f)"
  by (auto simp: on_job_err_now_def intro!: keeps_intros)

lemma saveJob_shrinks: "shrinks {} (saveJob E True)"
  by (rule shrinksI) (auto simp: saveJob_def dest: saveJob_body_datasets)

lemma container_statements_kept [simp]:
  "dataset_list (snd (pg_CreateContainer c d)) = dataset_list d" "dataset_list (snd (pg_UpdateContainer c d)) = dataset_list d"
  "dataset_list (snd (pg_DeleteContainer c d)) = dataset_list d" "dataset_list (snd (pg_DeleteContainerLayout u d)) = dataset_list d"
  "dataset_list (snd (pg_ReadContainers us d)) = dataset_list d" "dataset_list (snd (pg_FindDatasets s p j is rs b d)) = dataset_list d"
  by (auto simp: dataset_list_def pg_CreateContainer_def pg_UpdateContainer_def pg_DeleteContainer_def pg_delete_def
      pg_DeleteContainerLayout_def pg_ReadContainers_def pg_FindDatasets_def Let_def split: option.splits)

lemma delete_datasets_shrinks: "shrinks (set ids) (tx E (pg_DeleteDatasets ids))"
proof (rule shrinksI)
  fix w a w' d assume r: "tx E (pg_DeleteDatasets ids) w = Ret (Inr a, w')" and d: "w_txn w = Some d"
  from tx_Inr [OF r d] show "\<exists>d'. w_txn w' = Some d' \<and> dataset_list d' = filter (\<lambda>x. d_ID x \<notin> set ids) (dataset_list d)"
    by (auto simp: pg_DeleteDatasets_def dataset_list_def filter_map o_def split: if_splits)
qed

section \<open>The containers that lose their datasets\<close>

definition marked :: "Container \<Rightarrow> string set" where
  "marked c = d_ID ` {d \<in> set (c_Datasets c). d_ps d = TODELETE}"

definition settled :: "Container \<Rightarrow> bool" where
  "settled c \<longleftrightarrow> list_all (\<lambda>d. d_ps d = CLEAN \<or> d_ps d = TODELETE) (c_Datasets c)"

lemma saveContainer_shrinks:
  assumes "settled c"
  shows "shrinks (marked c) (saveContainer E True c)"
proof -
  have created: "filter (\<lambda>d. \<not> IsToDelete (d_ps d) \<and> IsNew (d_ps d)) (c_Datasets c) = []"
    using assms by (auto simp: settled_def list_all_iff filter_empty_conv ps_tests)
  have m: "set (map d_ID (filter (\<lambda>d. IsToDelete (d_ps d)) (c_Datasets c))) = marked c"
    by (auto simp: marked_def IsToDelete_def)
  have del: "shrinks (marked c) (whenever (map d_ID (filter (\<lambda>d. IsToDelete (d_ps d)) (c_Datasets c)) \<noteq> [])
      (wrap pre (tx E (pg_DeleteDatasets (map d_ID (filter (\<lambda>d. IsToDelete (d_ps d)) (c_Datasets c)))))))" for pre
  proof (cases "map d_ID (filter (\<lambda>d. IsToDelete (d_ps d)) (c_Datasets c)) = []")
    case True
    then have "marked c = {}" unfolding m [symmetric] by simp
    with True show ?thesis by (auto simp: whenever_def intro!: kept_shrinks keeps_intros)
  next
    case False
    then show ?thesis unfolding m [symmetric] whenever_def by (simp only: if_True not_False_eq_True shrinks_wrap delete_datasets_shrinks)
  qed
  show ?thesis
    unfolding saveContainer_def if_True saveContainer_body_def saveContainer_rows_def Let_def created seq_assoc
    by (rule kept_seq_shrinks, (auto intro!: keeps_intros)[1], rule shrinks_seq_kept, rule del)
       (auto intro!: keeps_intros split: sum.splits)
qed

lemma in_marked: "x \<in> marked c \<longleftrightarrow> (\<exists>n < length (c_Datasets c). d_ID (c_Datasets c ! n) = x \<and> d_ps (c_Datasets c ! n) = TODELETE)"
  unfolding marked_def by (auto simp: set_conv_nth)

lemma RemoveDataset_marked:
  assumes "RemoveDataset i c = Ret (Inr b, c')"
  shows "marked c' = insert i (marked c)" and "settled c \<Longrightarrow> settled c'" and "c_URI c' = c_URI c" and "c_Managed c' = c_Managed c"
proof -
  from assms obtain k where k: "dataset_at i (c_Datasets c) = Some k" "d_ps (c_Datasets c ! k) \<noteq> DELETED"
    and c': "c' = c\<lparr>c_Datasets := (c_Datasets c)[k := (c_Datasets c ! k)\<lparr>d_ps := TODELETE\<rparr>]\<rparr>"
    by (auto simp: RemoveDataset_def go_bind_eq_Ret_iff ps_toDelete_eq Let_def split: option.splits if_splits)
  from dataset_at_Some [OF k(1)] have l: "k < length (c_Datasets c)" and i: "d_ID (c_Datasets c ! k) = i" by auto
  show "marked c' = insert i (marked c)"
  proof (rule set_eqI)
    fix x
    have "d_ID (c_Datasets c' ! n) = d_ID (c_Datasets c ! n) \<and>
        (d_ps (c_Datasets c' ! n) = TODELETE \<longleftrightarrow> n = k \<or> d_ps (c_Datasets c ! n) = TODELETE)" if "n < length (c_Datasets c)" for n
      using that l by (cases "k = n") (auto simp: c')
    moreover have "length (c_Datasets c') = length (c_Datasets c)" by (simp add: c')
    ultimately have "x \<in> marked c' \<longleftrightarrow> (\<exists>n < length (c_Datasets c). d_ID (c_Datasets c ! n) = x \<and> (n = k \<or> d_ps (c_Datasets c ! n) = TODELETE))"
      unfolding in_marked by auto
    also have "\<dots> \<longleftrightarrow> x \<in> insert i (marked c)" using l i by (auto simp: in_marked)
    finally show "x \<in> marked c' \<longleftrightarrow> x \<in> insert i (marked c)" .
  qed
  show "settled c \<Longrightarrow> settled c'"
    using l by (auto simp: settled_def list_all_length c' nth_list_update)
  show "c_URI c' = c_URI c" "c_Managed c' = c_Managed c" by (simp_all add: c')
qed

lemma Container_Delete_datasets: "Container_Delete c = Ret (e, c') \<Longrightarrow> c_Datasets c' = c_Datasets c"
  by (auto simp: Container_Delete_def go_bind_eq_Ret_iff split: if_splits)

lemma container_at_Some: "container_at uri cs = Some i \<Longrightarrow> i < length cs \<and> c_URI (cs ! i) = uri"
  by (induction cs arbitrary: i) (auto split: if_splits)

definition all_marked :: "Container list \<Rightarrow> string set" where
  "all_marked cs = (\<Union>c \<in> set cs. marked c)"

lemma all_marked_update:
  assumes "k < length cs" "marked c = insert i (marked (cs ! k))"
  shows "all_marked (cs[k := c]) = insert i (all_marked cs)"
proof -
  have "all_marked xs = (\<Union>n < length xs. marked (xs ! n))" for xs by (auto simp: all_marked_def set_conv_nth)
  with assms show ?thesis by (auto simp: nth_list_update split: if_splits)
qed

lemma settled_update: "\<forall>c \<in> set cs. settled c \<Longrightarrow> settled c' \<Longrightarrow> \<forall>c \<in> set (cs[k := c']). settled c"
  by (metis in_set_conv_nth length_list_update nth_list_update_eq nth_list_update_neq)

lemma same_datasets: "c_Datasets c' = c_Datasets c \<Longrightarrow> marked c' = marked c \<and> settled c' = settled c"
  by (simp add: marked_def settled_def)

lemma remove_step:
  "(case r of Inl e \<Rightarrow> fails (g e) | Inr False \<Rightarrow> m | Inr True \<Rightarrow> m') w = Ret (Inr x, w') \<longleftrightarrow>
   (\<exists>b. r = Inr b \<and> (if b then m' else m) w = Ret (Inr x, w'))"
  by (auto simp: fails_def split: sum.splits bool.splits)

lemma remove_datasets_marks:
  assumes "remove_datasets ds cs uris w = Ret (Inr (cs', uris'), w')" and "\<forall>c \<in> set cs. settled c"
  shows "w' = w \<and> all_marked cs' = d_ID ` set ds \<union> all_marked cs \<and> (\<forall>c \<in> set cs'. settled c)"
  using assms
proof (induction ds arbitrary: cs uris)
  case Nil
  then show ?case by (simp add: ok_def)
next
  case (Cons d ds)
  from Cons.prems(1) obtain k where k: "container_at (d_ContainerURI d) cs = Some k"
    by (cases "container_at (d_ContainerURI d) cs") (auto simp: panics_def)
  with Cons.prems(1) obtain b c where r: "RemoveDataset (d_ID d) (cs ! k) = Ret (Inr b, c)"
    and rest: "(if b then seq (lift_go (Container_Delete (c\<lparr>c_Managed := False\<rparr>))) (\<lambda>(_, c').
                remove_datasets ds (cs[k := c']) (if c_Managed c then uris @ [c_URI c] else uris))
               else remove_datasets ds (cs[k := c]) uris) w = Ret (Inr (cs', uris'), w')"
    by (auto simp: seq_Inr_iff lift_go_def go_bind_eq_Ret_iff remove_step simp del: split_paired_Ex)
  from container_at_Some [OF k] have l: "k < length cs" by simp
  then have s: "settled c" using RemoveDataset_marked(2) [OF r] Cons.prems(2) by simp
  have step: "w' = w \<and> all_marked cs' = d_ID ` set (d # ds) \<union> all_marked cs \<and> (\<forall>c \<in> set cs'. settled c)"
    if "remove_datasets ds (cs[k := c2]) us w = Ret (Inr (cs', uris'), w')" and "c_Datasets c2 = c_Datasets c" for c2 us
  proof -
    from same_datasets [OF that(2)] RemoveDataset_marked(1) [OF r] s
    have c2: "marked c2 = insert (d_ID d) (marked (cs ! k))" "settled c2" by auto
    from Cons.IH [OF that(1) settled_update [OF Cons.prems(2) c2(2)]] all_marked_update [OF l c2(1)] show ?thesis by auto
  qed
  show ?case
  proof (cases b)
    case False
    with rest step [of c] show ?thesis by simp
  next
    case True
    with rest obtain e c2 us where "Container_Delete (c\<lparr>c_Managed := False\<rparr>) = Ret (e, c2)"
      "remove_datasets ds (cs[k := c2]) us w = Ret (Inr (cs', uris'), w')"
      by (auto simp: seq_Inr_iff lift_go_def go_bind_eq_Ret_iff split: prod.splits)
    with step [of c2] Container_Delete_datasets show ?thesis by fastforce
  qed
qed

section \<open>The containers as they are read\<close>

definition fresh :: "Container \<Rightarrow> bool" where
  "fresh c \<longleftrightarrow> list_all (\<lambda>d. d_ps d = UNKNOWN) (c_Datasets c)"

lemma add_to_container_fresh:
  assumes "list_all fresh cs" "d_ps x = UNKNOWN"
  shows "list_all fresh (add_to_container uris x cs)"
proof -
  define i where "i = (case first_index (d_ContainerURI x) uris of Some i \<Rightarrow> i | None \<Rightarrow> 0)"
  show ?thesis
  proof (cases "i < length cs")
    case True
    with assms(1) have "fresh (cs ! i)" by (simp add: list_all_length)
    with assms(2) have "fresh ((cs ! i)\<lparr>c_Datasets := c_Datasets (cs ! i) @ [x]\<rparr>)" by (simp add: fresh_def)
    with assms(1) show ?thesis
      by (auto simp: add_to_container_def i_def [symmetric] list_all_iff dest!: set_update_subset_insert [THEN subsetD])
  next
    case False
    with assms(1) show ?thesis by (simp add: add_to_container_def i_def [symmetric] list_update_beyond)
  qed
qed

lemma ReadContainers_fresh: "pg_ReadContainers us d = (Inr cs, d') \<Longrightarrow> list_all fresh cs"
proof -
  have that_fresh: "list_all fresh (fold (add_to_container uris) xs cs)" if "list_all fresh cs" "list_all (\<lambda>x. d_ps x = UNKNOWN) xs" for uris xs cs
    using that by (induction xs arbitrary: cs) (auto simp: add_to_container_fresh)
  have "list_all fresh (fold (add_to_container uris) (findDatasets [] us [] [] [] False d) (map (\<lambda>u. container_of_row (f u)) vs))" for uris vs f
    by (rule that_fresh) (auto simp: findDatasets_def read_dataset_def list_all_iff fresh_def container_of_row_def)
  then show "pg_ReadContainers us d = (Inr cs, d') \<Longrightarrow> list_all fresh cs"
    by (auto simp: pg_ReadContainers_def Let_def split: if_splits option.splits)
qed

lemma go_map_list_all: "go_map f xs = Ret ys \<Longrightarrow> (\<And>x y. x \<in> set xs \<Longrightarrow> f x = Ret y \<Longrightarrow> P y) \<Longrightarrow> list_all P ys"
proof (induction xs arbitrary: ys)
  case (Cons x xs)
  from Cons.prems(1) obtain y zs where "f x = Ret y" "go_map f xs = Ret zs" "ys = y # zs" by (auto simp: go_bind_eq_Ret_iff)
  moreover have "list_all P zs" by (rule Cons.IH) (use Cons.prems(2) calculation in auto)
  ultimately show ?case using Cons.prems(2) by auto
qed simp

lemma Container_Clean_fresh:
  assumes "Container_Clean True c = Ret c'" "fresh c"
  shows "settled c' \<and> marked c' = {}"
proof -
  from assms(1) obtain ds where ds: "go_map dataset_Clean (c_Datasets c) = Ret ds" and c': "c_Datasets c' = ds"
    by (auto simp: Container_Clean_def go_bind_eq_Ret_iff)
  have "list_all (\<lambda>d. d_ps d = CLEAN) ds"
    by (rule go_map_list_all [OF ds])
       (use assms(2) in \<open>auto simp: fresh_def list_all_iff dataset_Clean_def go_bind_eq_Ret_iff ps_Clean_eq\<close>)
  then show ?thesis by (auto simp: settled_def marked_def c' list_all_iff)
qed

lemma clean_containers_fresh:
  "clean_containers cs w = Ret (Inr cs', w') \<Longrightarrow> list_all fresh cs \<Longrightarrow>
   w' = w \<and> (\<forall>c \<in> set cs'. settled c) \<and> all_marked cs' = {}"
proof (induction cs arbitrary: cs' w)
  case Nil
  then show ?case by (simp add: ok_def all_marked_def)
next
  case (Cons c cs)
  from Cons.prems obtain c1 cs1 where 1: "Container_Clean True c = Ret c1" "clean_containers cs w = Ret (Inr cs1, w')" "cs' = c1 # cs1"
    by (auto simp: seq_Inr_iff lift_go_def go_bind_eq_Ret_iff ok_def)
  from Cons.IH [OF 1(2)] Container_Clean_fresh [OF 1(1)] Cons.prems(2) show ?case by (auto simp: 1(3) all_marked_def)
qed

lemma remove_datasets_shrinks: "shrinks (d_ID ` set ds) (opSubFncRemoveDatasets E ds)"
proof (rule shrinksI)
  fix w a w' d assume r: "opSubFncRemoveDatasets E ds w = Ret (Inr a, w')" and d: "w_txn w = Some d"
  from r obtain cs w1 cs1 w2 cs2 w3 where
    1: "tx E (pg_ReadContainers (container_URIs [] ds)) w = Ret (Inr cs, w1)"
    and 2: "clean_containers cs w1 = Ret (Inr cs1, w2)" and 3: "remove_datasets ds cs1 [] w2 = Ret (Inr (cs2, a), w3)"
    and 4: "each (\<lambda>c. seq (wrap ''opSubFncRemoveDatasets.'' (saveContainer E True c)) (\<lambda>_. ok ())) cs2 w3 = Ret (Inr (), w')"
    by (auto simp: opSubFncRemoveDatasets_def seq_Inr_iff ok_def)
  from tx_Inr [OF 1 d] have f: "list_all fresh cs" and t: "w_txn w1 = Some (snd (pg_ReadContainers (container_URIs [] ds) d))"
    by (auto intro: ReadContainers_fresh)
  from clean_containers_fresh [OF 2 f] have c: "w2 = w1" "\<forall>c \<in> set cs1. settled c" "all_marked cs1 = {}" by auto
  from remove_datasets_marks [OF 3 c(2)] c have m: "w3 = w1" "all_marked cs2 = d_ID ` set ds" "\<forall>c \<in> set cs2. settled c" by auto
  have "shrinks (\<Union>c \<in> set cs2. marked c) (each (\<lambda>c. seq (wrap ''opSubFncRemoveDatasets.'' (saveContainer E True c)) (\<lambda>_. ok ())) cs2)"
    by (rule shrinks_each, rule shrinks_seq_kept) (use m(3) in \<open>auto intro!: shrinks_wrap saveContainer_shrinks keeps_intros\<close>)
  then have "shrinks (d_ID ` set ds) (each (\<lambda>c. seq (wrap ''opSubFncRemoveDatasets.'' (saveContainer E True c)) (\<lambda>_. ok ())) cs2)"
    unfolding m(2) [unfolded all_marked_def] .
  from shrinksD [OF this 4] t m(1) obtain d' where "w_txn w' = Some d'"
    "dataset_list d' = filter (\<lambda>x. d_ID x \<notin> d_ID ` set ds) (dataset_list (snd (pg_ReadContainers (container_URIs [] ds) d)))" by blast
  then show "\<exists>d'. w_txn w' = Some d' \<and> dataset_list d' = filter (\<lambda>x. d_ID x \<notin> d_ID ` set ds) (dataset_list d)"
    by simp
qed

section \<open>The datasets of a job\<close>

definition job_dataset :: "Job \<Rightarrow> db \<Rightarrow> DatasetStatus \<Rightarrow> dataset_row \<Rightarrow> bool" where
  "job_dataset j d s r \<longleftrightarrow>
     dr_LockedBy r = Some (j_ID j) \<and> d_Status (dr_Dataset r) = s \<and> record_time d (d_RecordID (dr_Dataset r)) \<noteq> None"

lemma found_ids:
  assumes "j_ID j \<noteq> []"
  shows "d_ID ` set (findDatasets [s] [] (j_ID j) [] [] True d) = (\<lambda>r. d_ID (dr_Dataset r)) ` {r \<in> set (db_Datasets d). job_dataset j d s r}"
proof -
  have "d_ID ` set (findDatasets [s] [] (j_ID j) [] [] True d) =
      d_ID ` read_dataset ` {r \<in> set (db_Datasets d). selected_dataset [s] [] (j_ID j) [] [] r \<and> record_time d (d_RecordID (read_dataset r)) \<noteq> None}"
    by (auto simp: findDatasets_def Let_def)
  also have "{r \<in> set (db_Datasets d). selected_dataset [s] [] (j_ID j) [] [] r \<and> record_time d (d_RecordID (read_dataset r)) \<noteq> None} =
      {r \<in> set (db_Datasets d). job_dataset j d s r}"
    using assms by (auto simp: selected_dataset_def read_dataset_def job_dataset_def)
  finally show ?thesis by (simp add: image_image read_dataset_def)
qed

lemma without_ids:
  assumes "datasets.keyed d"
  shows "filter (\<lambda>x. d_ID x \<notin> (\<lambda>r. d_ID (dr_Dataset r)) ` {r \<in> set (db_Datasets d). p r}) (dataset_list d) =
         map dr_Dataset (filter (\<lambda>r. \<not> p r) (db_Datasets d))"
proof -
  have "(d_ID (dr_Dataset r) \<notin> (\<lambda>r. d_ID (dr_Dataset r)) ` {r \<in> set (db_Datasets d). p r}) = (\<not> p r)" if "r \<in> set (db_Datasets d)" for r
    using assms that by (auto simp: datasets.keyed_def distinct_map dest: inj_onD)
  then show ?thesis unfolding dataset_list_def filter_map o_def by (auto intro: filter_cong arg_cong [where f = "map dr_Dataset"])
qed

lemma remove_job_datasets_exact:
  assumes r: "remove_job_datasets E flag s w = Ret (Inr a, w')" and d: "w_txn w = Some d"
    and "datasets.keyed d" "j_ID (w_job w) \<noteq> []"
  shows "\<exists>d'. w_txn w' = Some d' \<and> dataset_list d' = map dr_Dataset (filter (\<lambda>r. \<not> job_dataset (w_job w) d s r) (db_Datasets d))"
proof -
  let ?ds = "findDatasets [s] [] (j_ID (w_job w)) [] [] True d"
  from r obtain ds w1 where 1: "tx E (pg_FindDatasets s [] (j_ID (w_job w)) [] [] True) w = Ret (Inr ds, w1)"
    and rest: "seq (log_job E DEBUG (itoa (int (length ds)) @ '' datasets to delete'')) (\<lambda>_.
       seq (on_job (ReleaseDatasets flag)) (\<lambda>_. seq (wrap ''opRemoveJobDatasetsAndContainers.'' (saveJob E True)) (\<lambda>_.
       opSubFncRemoveDatasets E ds))) w1 = Ret (Inr a, w')"
    by (auto simp: remove_job_datasets_def seq_Inr_iff reading_def)
  from tx_Inr [OF 1 d] have ds: "ds = ?ds" and t: "w_txn w1 = Some d" by (auto simp: pg_FindDatasets_def)
  have "shrinks ({} \<union> d_ID ` set ds) (seq (wrap ''opRemoveJobDatasetsAndContainers.'' (saveJob E True)) (\<lambda>_. opSubFncRemoveDatasets E ds))"
    by (intro shrinks_seq shrinks_wrap saveJob_shrinks remove_datasets_shrinks)
  then have "shrinks (d_ID ` set ds) (seq (log_job E DEBUG (itoa (int (length ds)) @ '' datasets to delete'')) (\<lambda>_.
       seq (on_job (ReleaseDatasets flag)) (\<lambda>_. seq (wrap ''opRemoveJobDatasetsAndContainers.'' (saveJob E True)) (\<lambda>_.
       opSubFncRemoveDatasets E ds))))"
    unfolding Un_empty_left by (rule kept_seq_shrinks [OF log_job_kept kept_seq_shrinks [OF on_job_kept]])
  from shrinksD [OF this rest t] obtain d' where "w_txn w' = Some d'" "dataset_list d' = filter (\<lambda>x. d_ID x \<notin> d_ID ` set ds) (dataset_list d)" .
  then show ?thesis unfolding ds found_ids [OF assms(4)] without_ids [OF assms(3)] by blast
qed

lemma remove_datasets_committed [keeps_intros]: "committed_kept (remove_datasets ds cs uris)"
  by (induction ds arbitrary: cs uris) (auto intro!: keeps_intros split: option.splits sum.splits bool.splits)

lemma clean_containers_committed [keeps_intros]: "committed_kept (clean_containers cs)"
  by (induction cs) (auto intro!: keeps_intros)

lemma saveContainer_committed [keeps_intros]: "committed_kept (saveContainer E True c)"
  by (simp add: saveContainer_def saveContainer_body_committed)

lemma saveJob_True_committed [keeps_intros]: "committed_kept (saveJob E True)"
  by (simp add: saveJob_def saveJob_body_committed)

lemma on_job_err_now_committed [keeps_intros]: "committed_kept (on_job_err_now E f)"
  by (auto simp: on_job_err_now_def intro!: keeps_intros)

lemma opSubFncRemoveDatasets_committed [keeps_intros]: "committed_kept (opSubFncRemoveDatasets E ds)"
  by (auto simp: opSubFncRemoveDatasets_def intro!: keeps_intros)

lemma remove_job_datasets_committed [keeps_intros]: "committed_kept (remove_job_datasets E flag s)"
  by (auto simp: remove_job_datasets_def intro!: keeps_intros)

section \<open>Properties\<close>

lemma logged_unit_of_work:
  assumes r: "seq (log_job E s m) (\<lambda>_. unitOfWork E f) w = Ret (r, w')" and t: "w_txn w = None" and c: "committed_kept f"
  shows "(\<exists>e. r = Inl e \<and> w_db w' = w_db w) \<or>
    (\<exists>u w0 w1 d. r = Inr u \<and> f w0 = Ret (Inr u, w1) \<and> w_txn w0 = Some (w_db w) \<and> w_txn w1 = Some d \<and> w_db w' = d \<and>
       w_txn w' = None \<and> j_ID (w_job w0) = j_ID (w_job w) \<and> j_LockedDatasets (w_job w0) = j_LockedDatasets (w_job w))"
proof -
  from r consider e where "log_job E s m w = Ret (Inl e, w')" "r = Inl e"
    | w0 where "log_job E s m w = Ret (Inr (), w0)" "unitOfWork E f w0 = Ret (r, w')"
    by (auto simp: seq_Ret_iff)
  then show ?thesis
  proof cases
    case 1
    then show ?thesis using log_job_tables by blast
  next
    case 2
    note l = log_job_tables [OF 2(1)]
    from 2(1) have j: "j_ID (w_job w0) = j_ID (w_job w)" "j_LockedDatasets (w_job w0) = j_LockedDatasets (w_job w)"
      by (auto simp: log_job_def seq_Inr_iff ticking_def on_job_Inr LogMsg_def job_dirty_def go_bind_eq_Ret_iff Let_def)
    show ?thesis
    proof (cases r)
      case (Inl e)
      with unitOfWork_Inl [OF c] 2(2) l show ?thesis by simp
    next
      case (Inr u)
      from 2(2) l t Inr obtain w1 d where "f (in_txn w0) = Ret (Inr u, w1)" "w_txn w1 = Some d"
        "w' = w1\<lparr>w_tick := Suc (w_tick w1), w_db := d, w_txn := None\<rparr>"
        by (auto elim: unitOfWork_Inr)
      with Inr l j show ?thesis
        by (intro disjI2 exI [of _ u] exI [of _ "in_txn w0"] exI [of _ w1] exI [of _ d]) (simp add: in_txn_def)
    qed
  qed
qed

text \<open>C22: The removal of the datasets of a deletion job is exact and atomic: when it succeeds the datasets of the
  job marked for deletion (those whose record is known) are gone, whichever containers they were in, and every other
  dataset stays; when it fails the tables are as before.\<close>

theorem removal_is_exact:
  assumes "delRemoveDatasets E w = Ret (r, w')" and "w_txn w = None"
    and "datasets.keyed (w_db w)" and "j_ID (w_job w) \<noteq> []"
  shows "(\<forall>e. r = Inl e \<longrightarrow> w_db w' = w_db w) \<and>
    (\<forall>u. r = Inr u \<longrightarrow> dataset_list (w_db w') =
       map dr_Dataset (filter (\<lambda>x. \<not> job_dataset (w_job w) (w_db w) DatasetStatusTODELETE x) (db_Datasets (w_db w))))"
proof -
  let ?create = "\<lambda>uri. seq (log_job E DEBUG (''Create task to delete: '' @ uri)) (\<lambda>_. seq (ticking (e_uuid E)) (\<lambda>uid.
              on_job_err_now E (\<lambda>now. CreateDeletionTask uid now uri)))"
  let ?rest = "\<lambda>uris. seq (each ?create uris) (\<lambda>_. saveJob E True)"
  have rest: "shrinks {} (?rest uris)" for uris
    by (rule kept_seq_shrinks [OF _ saveJob_shrinks]) (auto intro!: keeps_intros)
  have c: "committed_kept (seq (opSubFncRemoveDatasetsAndContainers E True LockFlagTODELETE DatasetStatusTODELETE) ?rest)"
    by (auto simp: opSubFncRemoveDatasetsAndContainers_def intro!: keeps_intros)
  have "dataset_list (w_db w') = map dr_Dataset (filter (\<lambda>x. \<not> job_dataset (w_job w) (w_db w) DatasetStatusTODELETE x) (db_Datasets (w_db w)))"
    if u: "seq (opSubFncRemoveDatasetsAndContainers E True LockFlagTODELETE DatasetStatusTODELETE) ?rest w0 = Ret (Inr u, w1)"
      and t: "w_txn w0 = Some (w_db w)" "w_txn w1 = Some (w_db w')" and j: "j_ID (w_job w0) = j_ID (w_job w)" for u w0 w1
  proof -
    from u obtain uris w2 where 2: "remove_job_datasets E LockFlagTODELETE DatasetStatusTODELETE w0 = Ret (Inr uris, w2)"
      and 3: "?rest uris w2 = Ret (Inr u, w1)"
      by (auto simp: seq_Inr_iff opSubFncRemoveDatasetsAndContainers_def)
    from remove_job_datasets_exact [OF 2 t(1) assms(3)] assms(4) j obtain d where d: "w_txn w2 = Some d"
      "dataset_list d = map dr_Dataset (filter (\<lambda>x. \<not> job_dataset (w_job w0) (w_db w) DatasetStatusTODELETE x) (db_Datasets (w_db w)))" by auto
    from shrinksD [OF rest 3 d(1)] t(2) d(2) show ?thesis by (simp add: job_dataset_def j)
  qed
  with logged_unit_of_work [OF assms(1) [unfolded delRemoveDatasets_def] assms(2) c] show ?thesis by auto
qed

text \<open>With no lock to change, a save leaves the whole table of datasets alone.\<close>

definition locks_clean :: "Job \<Rightarrow> bool" where
  "locks_clean j \<longleftrightarrow> list_all (\<lambda>l. ld_ps l = CLEAN) (j_LockedDatasets j)"

lemma fold_ident: "(\<And>x d. x \<in> set xs \<Longrightarrow> f x d = d) \<Longrightarrow> fold f xs d = d"
  by (induction xs) auto

lemma saved_tables_rows:
  assumes "locks_clean j"
  shows "db_Datasets (saved_tables j d) = db_Datasets d"
proof -
  have r: "fold (released j) [0..<length (j_LockedDatasets j)] d = d" and l: "fold (locked j) [0..<length (j_LockedDatasets j)] d = d" for d
    using assms by (auto simp: locks_clean_def list_all_length released_def locked_def ps_tests intro!: fold_ident)
  have t: "db_Datasets (fold (\<lambda>t. tasks.remove (f t)) ts d) = db_Datasets d" "db_Datasets (fold (\<lambda>t. tasks.modify (f t) (g t)) ts d) = db_Datasets d" for f g ts d
    by (rule fold_frame, simp add: tasks.remove_def tasks.modify_def)+
  have "db_Datasets (snd (pg_DeleteJob i d)) = db_Datasets d" for i d
    by (simp add: pg_DeleteJob_def pg_delete_def)
  then show ?thesis
    by (simp add: saved_tables_def after_updates_def after_creations_def after_deletions_def before_job_deletion_def r l t
        table_frames Let_def)
qed

text \<open>A rollback undoes the marking of a deletion: when every dataset of the job was active and the job has no
  lock to save, marking the datasets and rolling back, on the copy of the job that the next handler reads and
  in whatever order other fields of it were changed, gives every dataset its status back.\<close>

theorem deletion_rollback_restores:
  assumes "delSetToDelete E w = Ret (Inr u, w1)" and "w_txn w = None" and "locks_clean (w_job w)"
    and "\<forall>x \<in> set (db_Datasets (w_db w)). dr_LockedBy x = Some (j_ID (w_job w)) \<longrightarrow> d_Status (dr_Dataset x) \<noteq> DatasetStatusTODELETE"
    and "delRollback E' w2 = Ret (Inr u', w3)" and "w_txn w2 = None" and "w_db w2 = w_db w1" and "j_ID (w_job w2) = j_ID (w_job w)"
  shows "dataset_list (w_db w3) = dataset_list (w_db w)"
proof -
  let ?i = "j_ID (w_job w)"
  let ?mark = "changed_status ?i DatasetStatusACTIVE DatasetStatusTODELETE"
  let ?body = "seq (reading w_job) (\<lambda>j. seq (tx E (pg_ChangeDatasetsStatus (j_ID j) DatasetStatusACTIVE DatasetStatusTODELETE)) (\<lambda>_. saveJob E True))"
  have c: "committed_kept ?body" by (auto intro!: keeps_intros)
  have marked: "db_Datasets (w_db w1) = map ?mark (db_Datasets (w_db w))"
    if r: "?body w0 = Ret (Inr u, w1')" and t: "w_txn w0 = Some (w_db w)" "w_txn w1' = Some (w_db w1)"
      and j: "j_ID (w_job w0) = ?i" "j_LockedDatasets (w_job w0) = j_LockedDatasets (w_job w)" for w0 w1'
  proof -
    from r obtain wa where a: "tx E (pg_ChangeDatasetsStatus ?i DatasetStatusACTIVE DatasetStatusTODELETE) w0 = Ret (Inr (), wa)"
      and s: "saveJob_body E wa = Ret (Inr u, w1')"
      by (auto simp: seq_Inr_iff reading_def saveJob_def j)
    from tx_Inr [OF a t(1)] have wa: "w_txn wa = Some ((w_db w)\<lparr>db_Datasets := map ?mark (db_Datasets (w_db w))\<rparr>)" "w_job wa = w_job w0"
      by (simp_all add: pg_ChangeDatasetsStatus_eq)
    from saveJob_body_Inr [OF s wa(1)] t(2) have "w_db w1 = saved_tables (w_job w0) ((w_db w)\<lparr>db_Datasets := map ?mark (db_Datasets (w_db w))\<rparr>)"
      by (simp add: wa(2))
    moreover have "locks_clean (w_job w0)" using assms(3) by (simp add: locks_clean_def j)
    ultimately show ?thesis by (simp add: saved_tables_rows)
  qed
  from logged_unit_of_work [OF assms(1) [unfolded delSetToDelete_def] assms(2) c] marked
  have m: "db_Datasets (w_db w1) = map ?mark (db_Datasets (w_db w))" by auto
  from assms(5) obtain wb wc wd where
    b: "log_job E' INFO ''Rollback...'' w2 = Ret (Inr (), wb)"
    and c: "dbx E' (pg_ChangeDatasetsStatus (j_ID (w_job wb)) DatasetStatusTODELETE DatasetStatusACTIVE) wb = Ret (Inr (), wc)"
    and d: "on_job (ReleaseDatasets LockFlagTODELETE) wc = Ret (Inr (), wd)" and e: "saveJob E' False wd = Ret (Inr u', w3)"
    by (auto simp: delRollback_def seq_Inr_iff reading_def)
  note lb = log_job_tables [OF b]
  have "j_ID (w_job wb) = ?i" using keepsD [OF log_job_quiet b] assms(8) by (simp add: calm_def)
  with dbx_Inr [OF c] lb assms(6,7) have "w_txn wc = None"
    and "w_db wc = (w_db w1)\<lparr>db_Datasets := map (changed_status ?i DatasetStatusTODELETE DatasetStatusACTIVE) (db_Datasets (w_db w1))\<rparr>"
    by (auto simp: pg_ChangeDatasetsStatus_eq)
  then have wc: "w_txn wc = None"
    "db_Datasets (w_db wc) = map (changed_status ?i DatasetStatusTODELETE DatasetStatusACTIVE) (db_Datasets (w_db w1))"
    by simp_all
  have "dataset_list (w_db w3) = dataset_list (w_db wc)"
    using saveJob_datasets [OF e] on_job_tables [OF d] wc(1) by simp
  also have "\<dots> = map (\<lambda>x. dr_Dataset (changed_status ?i DatasetStatusTODELETE DatasetStatusACTIVE (?mark x))) (db_Datasets (w_db w))"
    by (simp add: dataset_list_def wc(2) m)
  also have "\<dots> = dataset_list (w_db w)"
    unfolding dataset_list_def using assms(4) by (auto simp: changed_status_def)
  finally show ?thesis .
qed

section \<open>Witnesses\<close>

definition removal_db :: db where
  "removal_db =
     (let d = sample_db JobTypeDELETION JobStateDELETIONINPROGRESS
      in d\<lparr>db_Locks := [\<lparr>lk_DatasetID = ''d1'', lk_JobID = ''j1'', lk_Flag = 1\<rparr>],
           db_Datasets := [\<lparr>dr_Dataset = (sample_dataset ''d1'' UNKNOWN [1])\<lparr>d_Status := DatasetStatusTODELETE\<rparr>, dr_LockedBy = Some ''j1''\<rparr>,
                           \<lparr>dr_Dataset = sample_dataset ''d2'' UNKNOWN [2], dr_LockedBy = None\<rparr>]\<rparr>)"

definition removal_world :: world where
  "removal_world =
     sample_world removal_db ((job_of_row (sample_job_row JobTypeDELETION JobStateDELETIONINPROGRESS))
       \<lparr>j_ps := CLEAN, j_occTime := 5000, j_LockedDatasets := replicate 3 \<lparr>ld_ps = CLEAN, ld_newDatasetsID = []\<rparr>\<rparr>)"

lemma removal_succeeds: "succeeds (delRemoveDatasets sample_env removal_world)"
  by code_simp

theorem removal_is_exact_witness:
  "\<exists>w'. delRemoveDatasets sample_env removal_world = Ret (Inr (), w') \<and> map d_ID (dataset_list (w_db w')) = [''d2'']"
proof -
  from removal_succeeds obtain u w' where r: "delRemoveDatasets sample_env removal_world = Ret (Inr u, w')" by (auto simp: succeeds_iff)
  have "w_txn removal_world = None" "datasets.keyed (w_db removal_world)" "j_ID (w_job removal_world) \<noteq> []"
    by (simp_all add: removal_world_def sample_world_def removal_db_def Let_def sample_db_def datasets.keyed_def sample_dataset_def
        job_of_row_def sample_job_row_def NewJob_def)
  from removal_is_exact [OF r this] r show ?thesis
    by (simp add: removal_world_def sample_world_def removal_db_def Let_def sample_db_def sample_dataset_def
        job_of_row_def sample_job_row_def NewJob_def job_dataset_def record_time_def)
qed

definition rolled_back :: "((gerr + unit) \<times> world) go" where
  "rolled_back = (case delSetToDelete sample_env deletion_world of
     Ret (Inr u, w1) \<Rightarrow> delRollback sample_env w1 | r \<Rightarrow> r)"

lemma rolled_back_succeeds: "succeeds (delSetToDelete sample_env deletion_world)" "succeeds rolled_back"
  by code_simp+

theorem deletion_rollback_restores_witness:
  "\<exists>w1 w3. delSetToDelete sample_env deletion_world = Ret (Inr (), w1) \<and> delRollback sample_env w1 = Ret (Inr (), w3) \<and>
     dataset_list (w_db w3) = dataset_list (w_db deletion_world)"
proof -
  from rolled_back_succeeds obtain w1 w3 where r: "delSetToDelete sample_env deletion_world = Ret (Inr (), w1)"
    and b: "delRollback sample_env w1 = Ret (Inr (), w3)"
    by (auto simp: succeeds_iff rolled_back_def)
  have t: "w_txn deletion_world = None" and l: "locks_clean (w_job deletion_world)"
    and s: "\<forall>x \<in> set (db_Datasets (w_db deletion_world)). dr_LockedBy x = Some (j_ID (w_job deletion_world)) \<longrightarrow>
        d_Status (dr_Dataset x) \<noteq> DatasetStatusTODELETE"
    by (simp_all add: deletion_world_def Let_def sample_world_def sample_db_def locks_clean_def sample_dataset_def list_all_iff)
  from r obtain wa where a: "log_job sample_env INFO ''Set datasets to delete...'' deletion_world = Ret (Inr (), wa)"
    and u: "\<exists>f. unitOfWork sample_env f wa = Ret (Inr (), w1)"
    by (auto simp: delSetToDelete_def seq_Inr_iff)
  from log_job_tables [OF a] t have "w_txn wa = None" by simp
  with u have w1: "w_txn w1 = None" by (auto elim: unitOfWork_Inr)
  have "j_ID (w_job w1) = j_ID (w_job deletion_world)" using keepsD [OF delSetToDelete_quiet r] by (simp add: calm_def)
  from deletion_rollback_restores [OF r t l s b w1 refl this] r b show ?thesis by blast
qed

end
