(* ===== verification/IndexProps.thy ===== *)
theory IndexProps
  imports RemovalProps
begin

text \<open>
  The indexation of the results of a consolidation: it ends, and what it can index.
\<close>

section \<open>The tasks of the job are only dropped by its save\<close>

definition same_tasks :: "world \<Rightarrow> world \<Rightarrow> bool" where
  "same_tasks w w' \<longleftrightarrow>
     length (j_Tasks (w_job w')) = length (j_Tasks (w_job w)) \<and> (w_txn w \<noteq> None \<longrightarrow> w_txn w' \<noteq> None)"

abbreviation tasks_kept :: "'a act \<Rightarrow> bool" where
  "tasks_kept \<equiv> keeps same_tasks"

lemma tasks_frame [simp]: "frame_rel same_tasks"
  by (auto simp: frame_rel_def same_tasks_def)

lemma tx_tasks [keeps_intros]: "tasks_kept (tx E op)"
  by (rule keepsI) (auto simp: same_tasks_def tx_def Let_def split: option.splits prod.splits)

lemma ticking_tasks [keeps_intros]: "tasks_kept (ticking f)"
  by (auto simp: keeps_def ticking_def same_tasks_def)

lemma on_job_tasks [keeps_intros]:
  "(\<And>j j'. f j = Ret j' \<Longrightarrow> length (j_Tasks j') = length (j_Tasks j)) \<Longrightarrow> tasks_kept (on_job f)"
  by (auto simp: keeps_def on_job_def go_bind_eq_Ret_iff same_tasks_def)

lemma LogMsg_tasks: "LogMsg now s m j = Ret j' \<Longrightarrow> j_Tasks j' = j_Tasks j"
  by (auto simp: LogMsg_def job_dirty_def go_bind_eq_Ret_iff Let_def)

lemma log_job_tasks [keeps_intros]: "tasks_kept (log_job E s m)"
  by (auto simp: log_job_def intro!: keeps_intros dest: LogMsg_tasks)

lemma log_count_tasks [keeps_intros]: "tasks_kept (log_count E s p n q)"
  by (auto simp: log_count_def intro!: keeps_intros)

lemma LockDatasets_tasks: "LockDatasets ids flag j = Ret j' \<Longrightarrow> j_Tasks j' = j_Tasks j"
  by (auto simp: LockDatasets_def go_bind_eq_Ret_iff Let_def split: if_splits)

lemma saveContainer_tasks [keeps_intros]: "tasks_kept (saveContainer E True c)"
  by (auto simp: saveContainer_def saveContainer_body_def saveContainer_rows_def Let_def intro!: keeps_intros split: sum.splits)

lemma add_datasets_tasks [keeps_intros]: "tasks_kept (add_datasets E ds c)"
  by (induction ds arbitrary: c) (auto intro!: keeps_intros split: prod.splits option.splits)

lemma prepareIndexation_tasks [keeps_intros]: "tasks_kept (prepareIndexation E c ds)"
  by (auto simp: prepareIndexation_def intro!: keeps_intros split: sum.splits)

lemma index_datasets_tasks [keeps_intros]: "tasks_kept (index_datasets E G c incomplete i rs)"
  by (induction rs arbitrary: i) (auto intro!: keeps_intros split: option.splits)

lemma updateTaskCounters_tasks: "updateTaskCounters now st n j = Ret j' \<Longrightarrow> j_Tasks j' = j_Tasks j"
  by (cases st) (auto simp: updateTaskCounters_def job_dirty_def go_bind_eq_Ret_iff split: if_splits)

lemma setTaskState_tasks: "setTaskState now i s j = Ret (b, j') \<Longrightarrow> length (j_Tasks j') = length (j_Tasks j)"
  by (auto simp: setTaskState_def Let_def go_bind_eq_Ret_iff dest!: updateTaskCounters_tasks split: if_splits)

lemma DeleteTask_marks:
  assumes "DeleteTask now i j = Ret j'"
  shows "i < length (j_Tasks j) \<and> length (j_Tasks j') = length (j_Tasks j) \<and> IsToDelete (t_ps (j_Tasks j' ! i))"
  using assms setTaskState_tasks
  by (auto simp: DeleteTask_def go_bind_eq_Ret_iff ps_toDelete_eq IsToDelete_def split: if_splits)

section \<open>Each task indexed is dropped\<close>

lemma job_Clean_length: "job_Clean b j = Ret j' \<Longrightarrow> length (j_Tasks j') = length (j_Tasks j)"
proof -
  have "length ys' = length ys + length xs" if "go_fold (\<lambda>x ys. go_bind (f x) (\<lambda>y. Ret (ys @ [y]))) xs ys = Ret ys'" for f :: "Task \<Rightarrow> Task go" and xs ys ys'
    using that by (induction xs arbitrary: ys) (auto simp: go_bind_eq_Ret_iff)
  from this [of task_Clean _ "[]"] show "job_Clean b j = Ret j' \<Longrightarrow> length (j_Tasks j') = length (j_Tasks j)"
    by (auto simp: job_Clean_def clean_list_def go_bind_eq_Ret_iff split: if_splits)
qed

lemma saved_tasks_shorter:
  assumes "saveJob_body E w = Ret (Inr u, w')" "w_txn w \<noteq> None" "i < length (j_Tasks (w_job w))" "IsToDelete (t_ps (j_Tasks (w_job w) ! i))"
  shows "length (j_Tasks (w_job w')) < length (j_Tasks (w_job w))"
proof -
  let ?ts = "j_Tasks (w_job w)"
  from assms(1,2) saveJob_body_Inr obtain d where "mark_saved (ClearPersistedLogs (drop_deleted (w_job w))) = Ret (w_job w')" by blast
  then have "length (j_Tasks (w_job w')) = length (j_Tasks (ClearPersistedLogs (drop_deleted (w_job w))))"
    by (auto simp: mark_saved_def split: if_splits dest: job_Clean_length dest!: sym [of _ "w_job w'"])
  also have "\<dots> = size (filter_mset (\<lambda>t. \<not> IsToDelete (t_ps t)) (mset ?ts))"
    unfolding mset_swap_remove [symmetric] by (simp add: ClearPersistedLogs_def drop_deleted_def)
  also have "\<dots> = length (filter (\<lambda>t. \<not> IsToDelete (t_ps t)) ?ts)"
    by (metis mset_filter size_mset)
  also have "\<dots> < length ?ts"
    using assms(3,4) by (intro length_filter_less [of "?ts ! i"]) auto
  finally show ?thesis .
qed

definition drops :: "'a act \<Rightarrow> bool" where
  "drops m \<longleftrightarrow> (\<forall>w u w'. m w = Ret (Inr u, w') \<longrightarrow> w_txn w \<noteq> None \<longrightarrow> length (j_Tasks (w_job w')) < length (j_Tasks (w_job w)))"

lemma drops_seq:
  assumes "tasks_kept m" "\<And>a. drops (f a)"
  shows "drops (seq m f)"
  unfolding drops_def
proof (intro allI impI)
  fix w u w' assume "seq m f w = Ret (Inr u, w')" and t: "w_txn w \<noteq> None"
  then obtain a w1 where 1: "m w = Ret (Inr a, w1)" "f a w1 = Ret (Inr u, w')" by (auto simp: seq_Inr_iff)
  from keepsD [OF assms(1) 1(1)] assms(2) [of a] 1(2) t show "length (j_Tasks (w_job w')) < length (j_Tasks (w_job w))"
    unfolding same_tasks_def drops_def by fastforce
qed

lemma drops_split: "(\<And>a b. drops (f a b)) \<Longrightarrow> drops (case p of (a, b) \<Rightarrow> f a b)"
  by (cases p) simp

lemma delete_and_save_drops:
  "drops (seq (on_job_now E (\<lambda>now. DeleteTask now 0)) (\<lambda>_. seq (log_job E DEBUG ''Datasets indexed'') (\<lambda>_. saveJob E True)))"
  unfolding drops_def
proof (intro allI impI)
  fix w1 u w'
  assume r: "seq (on_job_now E (\<lambda>now. DeleteTask now 0)) (\<lambda>_. seq (log_job E DEBUG ''Datasets indexed'') (\<lambda>_. saveJob E True)) w1 = Ret (Inr u, w')"
    and t: "w_txn w1 \<noteq> None"
  from r obtain w2 w3 where 2: "on_job_now E (\<lambda>now. DeleteTask now 0) w1 = Ret (Inr (), w2)"
    and l: "log_job E DEBUG ''Datasets indexed'' w2 = Ret (Inr (), w3)" and s: "saveJob_body E w3 = Ret (Inr u, w')"
    by (auto simp: seq_Inr_iff saveJob_def)
  from 2 obtain now where d: "DeleteTask now 0 (w_job w1) = Ret (w_job w2)" "w_txn w2 = w_txn w1"
    by (auto simp: on_job_now_def seq_Inr_iff ticking_def on_job_def go_bind_eq_Ret_iff)
  from l have "j_Tasks (w_job w3) = j_Tasks (w_job w2)"
    by (auto simp: log_job_def seq_Inr_iff ticking_def on_job_def go_bind_eq_Ret_iff dest: LogMsg_tasks)
  with DeleteTask_marks [OF d(1)] saved_tasks_shorter [OF s, of 0] log_job_tables [OF l] d(2) t
  show "length (j_Tasks (w_job w')) < length (j_Tasks (w_job w1))" by auto
qed

lemma index_task_drops: "drops (index_task E G t)"
  unfolding index_task_def index_container_def
  by (intro drops_seq drops_split delete_and_save_drops keeps_intros tasks_frame) (auto dest: LockDatasets_tasks)

lemma index_step_shorter:
  assumes "unitOfWork E (index_task E G t) w = Ret (Inr u, w')"
  shows "length (j_Tasks (w_job w')) < length (j_Tasks (w_job w))"
  using assms
proof (cases rule: unitOfWork_cases)
  case (committed a w1 d)
  have "w_txn (in_txn w) \<noteq> None" by (simp add: in_txn_def)
  with index_task_drops [of E G t] committed(1) have "length (j_Tasks (w_job w1)) < length (j_Tasks (w_job (in_txn w)))"
    unfolding drops_def by blast
  with committed show ?thesis by (simp add: in_txn_def)
qed auto

lemma index_loop_enough:
  "length (j_Tasks (w_job w)) \<le> n \<Longrightarrow> index_loop E G (n + m) w = index_loop E G n w"
proof (induction n arbitrary: w)
  case 0
  then show ?case by (simp add: index_loop.simps seq_def handle_def reading_def)
next
  case (Suc n)
  show ?case
  proof (cases "j_Tasks (w_job w)")
    case Nil
    then show ?thesis by (simp add: index_loop.simps seq_def handle_def reading_def)
  next
    case (Cons t ts)
    have "seq (unitOfWork E (index_task E G t)) (\<lambda>_. index_loop E G (n + m)) w = seq (unitOfWork E (index_task E G t)) (\<lambda>_. index_loop E G n) w"
      by (rule seq_cong_at) (use Suc index_step_shorter in \<open>fastforce\<close>)+
    with Cons show ?thesis by (simp add: index_loop.simps [of E G "Suc _"] seq_reading_at)
  qed
qed

section \<open>Containers of several records\<close>

text \<open>A dataset that is being indexed is inactive, and \<open>AddDataset\<close> refuses any dataset next to an inactive one.\<close>

definition incoming :: "Dataset \<Rightarrow> bool" where
  "incoming d \<longleftrightarrow> d_ps d = NEW \<and> d_Status d = DatasetStatusINACTIVE"

lemma add_incoming:
  assumes "AddDataset ct d c = (None, c')" "incoming d"
  shows "\<exists>x \<in> set (c_Datasets c'). d_Status x = DatasetStatusINACTIVE"
proof -
  have "add_check ct c d ds \<noteq> AlreadyThere" for ds
    using assms(2) by (induction ds) (auto simp: incoming_def identicalTo_def)
  with assms show ?thesis
    by (auto simp: AddDataset_def incoming_def split: if_splits add_outcome.splits)
qed

lemma add_next_to_inactive:
  assumes "\<exists>x \<in> set (c_Datasets c). d_Status x = DatasetStatusINACTIVE" "incoming d"
  shows "fst (AddDataset ct d c) \<noteq> None"
proof -
  have "add_check ct c d ds \<noteq> AlreadyThere" for ds
    using assms(2) by (induction ds) (auto simp: incoming_def identicalTo_def)
  moreover have "add_check ct c d ds \<noteq> FallsThrough" if "\<exists>x \<in> set ds. d_Status x = DatasetStatusINACTIVE" for ds
    using that by (induction ds) (auto split: if_splits)
  ultimately show ?thesis
    using assms by (cases "add_check ct c d (c_Datasets c)") (auto simp: AddDataset_def)
qed

lemma add_several_fails:
  assumes "list_all incoming ds" "add_datasets E ds c w = Ret (Inr c', w')"
  shows "length ds \<le> 1"
proof (rule ccontr)
  assume "\<not> length ds \<le> 1"
  then obtain a b rest where ds: "ds = a # b # rest" by (cases ds; cases "tl ds") auto
  obtain e c1 where a: "AddDataset (e_coords_text E) a c = (e, c1)" by (cases "AddDataset (e_coords_text E) a c")
  with assms ds have e: "e = None" by (cases e) (auto simp: fails_def)
  with a add_incoming assms(1) ds have "\<exists>x \<in> set (c_Datasets c1). d_Status x = DatasetStatusINACTIVE" by fastforce
  with add_next_to_inactive assms(1) ds have "fst (AddDataset (e_coords_text E) b c1) \<noteq> None" by auto
  with a e assms(2) ds show False by (auto simp: fails_def split: option.splits prod.splits)
qed

lemma setGeomGeogShape_status: "setGeomGeogShape f crs d = (eo, d') \<Longrightarrow> d_Status d' = d_Status d \<and> d_ps d' = d_ps d"
  by (auto simp: setGeomGeogShape_def split: sum.splits)

lemma SetShape_status:
  assumes "SetShape g f sh crs d = Ret (eo, d')"
  shows "d_Status d' = d_Status d"
proof (cases "CRSFromUserInput g crs")
  case (Ret r)
  with assms show ?thesis by (cases r) (auto simp: SetShape_def dest: setGeomGeogShape_status split: if_splits)
qed (use assms in \<open>auto simp: SetShape_def split: if_splits\<close>)

lemma incomplete_status:
  "IncompleteDatasetFromConsolidation g f b c i = Ret (Inr d) \<Longrightarrow> d_Status d = DatasetStatusINACTIVE"
  by (auto simp: IncompleteDatasetFromConsolidation_def Let_def go_bind_eq_Ret_iff
      dest!: SetShape_status split: if_splits option.splits)

lemma from_incomplete: 
  "NewDatasetFromIncomplete known g f u inc r s = Ret (Inr d) \<Longrightarrow> d_Status d = d_Status inc \<and> d_ps d = NEW"
  by (auto simp: NewDatasetFromIncomplete_def Let_def go_bind_eq_Ret_iff
      dest!: setGeomGeogShape_status split: if_splits option.splits sum.splits prod.splits)

lemma index_datasets_incoming:
  "index_datasets E G c inc i rs w = Ret (Inr ds, w') \<Longrightarrow> d_Status inc = DatasetStatusINACTIVE \<Longrightarrow>
   list_all incoming ds \<and> length ds = length rs"
proof (induction rs arbitrary: i w ds)
  case Nil
  then show ?case by (simp add: ok_def)
next
  case (Cons r rs)
  from Cons.prems(1) obtain uid d ds' w1 where
    "NewDatasetFromIncomplete (g_uuid_ok G) (g_gdal G) (g_clone4326 G) uid inc r (''GTIFF_DIR:'' @ itoa (int i + 1)) = Ret (Inr d)"
    "index_datasets E G c inc (Suc i) rs w1 = Ret (Inr ds', w')" "ds = d # ds'"
    by (auto simp: seq_Inr_iff ok_def fails_def lift_go_def lift_result_def go_bind_eq_Ret_iff split: if_splits)
  with Cons.IH [of "Suc i" w1 ds'] Cons.prems(2) show ?case by (auto simp: incoming_def dest: from_incomplete)
qed

lemma own_subdir_incoming: "list_all incoming ds \<Longrightarrow> list_all incoming (own_subdir ds) \<and> length (own_subdir ds) = length ds"
  by (cases ds; cases "tl ds") (auto simp: own_subdir_def incoming_def)

text \<open>The indexation ends: with as many turns as there are tasks the loop never runs out of them, whatever
  the tables hold and whatever calls fail, since each container indexed drops its task from the job.\<close>

theorem indexation_ends:
  "csldIndex E G =
     seq (log_job E INFO ''Indexing new datasets...'') (\<lambda>_.
     seq (load_tasks E (Some [TaskStateDONE])) (\<lambda>_.
     seq (reading (j_Tasks \<circ> w_job)) (\<lambda>tasks. index_loop E G (length tasks + extra))))"
proof -
  have "seq (reading (j_Tasks \<circ> w_job)) (\<lambda>tasks. index_loop E G (length tasks)) =
        seq (reading (j_Tasks \<circ> w_job)) (\<lambda>tasks. index_loop E G (length tasks + extra))"
    by (rule ext) (simp add: seq_reading_at index_loop_enough)
  then show ?thesis by (simp add: csldIndex_def)
qed

text \<open>
  A limit of the code that its documentation does not announce (docs/user-guide/consolidation.md describes
  containers of several records): the datasets of a consolidated container are inactive until the swap, and
  a container refuses any dataset while it holds an inactive one, so only containers of one record are ever
  indexed.
\<close>

theorem indexed_containers_have_one_record:
  assumes "index_task E G t w = Ret (Inr u, w')"
  shows "\<exists>container records. ConsolidationOutput t = Inr (container, records) \<and> length records \<le> 1"
proof -
  from assms obtain container records where o: "ConsolidationOutput t = Inr (container, records)"
    by (cases "ConsolidationOutput t") (auto simp: index_task_def seq_Inr_iff reading_def lift_result_def)
  with assms obtain inc ds w1 w2 c0 c1 w3 w4 where
    inc: "IncompleteDatasetFromConsolidation (g_gdal G) (g_clone4326 G) (g_bounds G) container (jp_InstanceID (j_Payload (w_job w))) = Ret (Inr inc)"
    and ds: "index_datasets E G container inc 0 records w1 = Ret (Inr ds, w2)"
    and p: "prepareIndexation E c0 (own_subdir ds) w3 = Ret (Inr c1, w4)"
    by (auto simp: index_task_def index_container_def seq_Inr_iff reading_def lift_result_def lift_go_def go_bind_eq_Ret_iff)
  from p obtain c w5 where "add_datasets E (own_subdir ds) c w5 = Ret (Inr c1, w4)" by (auto simp: prepareIndexation_def seq_Inr_iff)
  with add_several_fails own_subdir_incoming index_datasets_incoming [OF ds incomplete_status [OF inc]]
  have "length records \<le> 1" by metis
  with o show ?thesis by blast
qed

section \<open>Witness\<close>

definition sample_gdal :: "unit gdal" where
  "sample_gdal = \<lparr>g_FromEPSG = (\<lambda>_. Inr ()), g_FromProj4 = (\<lambda>_. Inr ()), g_FromWKT = (\<lambda>_. Inr ()),
     g_Authority = (\<lambda>_ _ _. (''EPSG'', ''4326''))\<rparr>"

definition indexing_geo :: "unit geo" where
  "indexing_geo = sample_geo\<lparr>g_gdal := sample_gdal\<rparr>"

definition indexing_output :: ConsolidationContainer where
  "indexing_output =
     \<lparr>cc_URI = ''gs://new'', cc_DatasetFormat = sample_mapping, cc_CRS = ''4326'', cc_Transform = replicate 6 (Fin 0),
      cc_Width = 0, cc_Height = 0, cc_Cutline = [], cc_BandsCount = 1, cc_BlockXSize = 1, cc_BlockYSize = 1,
      cc_InterlacingPattern = [], cc_OverviewsMinSize = 0, cc_ResamplingAlg = ResamplingNEAR,
      cc_OvrResamplingAlg = ResamplingNEAR, cc_OptimizeExtent = False, cc_CreationParams = [], cc_StorageClass = StorageClassSTANDARD\<rparr>"

definition indexing_record :: ConsolidationRecord where
  "indexing_record = \<lparr>cr_ID = ''r1'', cr_DateTime = [], cr_Datasets = [], cr_ValidShape = None\<rparr>"

definition indexing_task :: Task where
  "indexing_task =
     \<lparr>t_ps = CLEAN, t_ID = ''t2'', t_State = TaskStateDONE, t_Payload = GobEvent
        \<lparr>ce_JobID = ''j1'', ce_TaskID = ''t2'', ce_Records = [indexing_record], ce_Container = indexing_output\<rparr>\<rparr>"

definition indexing_db :: db where
  "indexing_db =
     (sample_db JobTypeCONSOLIDATION JobStateCONSOLIDATIONDONE)
       \<lparr>db_Instances := [\<lparr>ir_Instance = \<lparr>vi_ps = UNKNOWN, vi_ID = ''i1'', vi_Name = ''i'', vi_Metadata = []\<rparr>, ir_DefinitionID = ''v''\<rparr>],
        db_Layouts := [\<lparr>l_Name = ''l'', l_GridFlags = [], l_GridParameters = [], l_BlockXSize = 1, l_BlockYSize = 1, l_MaxRecords = 1,
          l_OverviewsMinSize = 0, l_InterlacingPattern = []\<rparr>]\<rparr>"

definition indexing_world :: world where
  "indexing_world =
     (sample_world indexing_db ((job_of_row (sample_job_row JobTypeCONSOLIDATION JobStateCONSOLIDATIONDONE))
        \<lparr>j_ps := CLEAN, j_occTime := 5000, j_Tasks := [indexing_task],
         j_LockedDatasets := replicate 3 \<lparr>ld_ps = CLEAN, ld_newDatasetsID = []\<rparr>\<rparr>))\<lparr>w_txn := Some indexing_db\<rparr>"

definition new_shape :: Shape where
  "new_shape = NewShape 4326 \<lparr>sh_SRID = 0, sh_FlatCoords = [], sh_Endss = [[10]]\<rparr>"

definition incomplete_dataset :: Dataset where
  "incomplete_dataset =
     \<lparr>d_ps = UNKNOWN, d_ID = [], d_RecordID = [], d_InstanceID = ''i1'', d_ContainerURI = ''gs://new'',
      d_ContainerSubDir = [], d_Bands = [1], d_DataMapping = sample_mapping, d_Status = DatasetStatusINACTIVE, d_Shape = new_shape,
      d_GeogShape = new_shape, d_GeomShape = new_shape, d_Overviews = False\<rparr>"

lemma zero_transform: "Transform \<lparr>a0 = Fin 0, a1 = Fin 0, a2 = Fin 0, a3 = Fin 0, a4 = Fin 0, a5 = Fin 0\<rparr> (Fin 0) (Fin 0) = Ret (Fin 0, Fin 0)"
  by code_simp

lemma incomplete_output:
  "IncompleteDatasetFromConsolidation sample_gdal (\<lambda>_ _ s. Inr s) (\<lambda>_ _ _ _. []) indexing_output ''i1'' = Ret (Inr incomplete_dataset)"
proof -
  have a: "Atoi ''4326'' = Some 4326" by code_simp
  have "transform_of (replicate 6 (Fin 0)) = \<lparr>a0 = Fin 0, a1 = Fin 0, a2 = Fin 0, a3 = Fin 0, a4 = Fin 0, a5 = Fin 0\<rparr>"
    by (simp add: transform_of_def NewAffine_def)
  then show ?thesis
    by (simp add: IncompleteDatasetFromConsolidation_def indexing_output_def NewPolygonFromExtent_def zero_transform round64_def round_format_def
        SetShape_def CRSFromUserInput_def a from_epsg_def sample_gdal_def setGeomGeogShape_def Let_def
        incomplete_dataset_def new_shape_def IsNew_def)
qed

lemma sample_mapping_valid: "DataMapping_validate sample_mapping = Ret None"
  by (simp add: sample_mapping_def DataMapping_validate_def DataFormat_validate_def MinValue_def MaxValue_def
       array_at_def minValues_def maxValues_def f_le_def Range_validate_def)

lemma digits_01: "nat_digits 0 = ''0''" "itoa 1 = ''1''"
  by code_simp+

lemma indexing_datasets:
  "index_datasets sample_env indexing_geo indexing_output incomplete_dataset 0 [indexing_record] indexing_world =
     Ret (Inr [incomplete_dataset\<lparr>d_ps := NEW, d_ID := ''u0'', d_RecordID := ''r1'', d_ContainerSubDir := ''GTIFF_DIR:1''\<rparr>],
          indexing_world\<lparr>w_tick := 1\<rparr>)"
  by (simp add: index_datasets.simps indexing_record_def seq_def handle_def ticking_def lift_go_def lift_result_def wrap_def ok_def fails_def
      NewDatasetFromIncomplete_def Let_def Dataset_validate_def indexing_geo_def sample_geo_def incomplete_dataset_def sample_mapping_valid
      indexing_world_def sample_world_def sample_env_def digits_01)

lemma task_output: "ConsolidationOutput indexing_task = Inr (indexing_output, [indexing_record])"
  by (simp add: ConsolidationOutput_def indexing_task_def)

lemma container_output:
  "NewContainerFromConsolidation indexing_output =
     Inr \<lparr>c_ps = NEW, c_ID = 0, c_URI = ''gs://new'', c_Managed = True, c_StorageClass = StorageClassSTANDARD, c_Datasets = []\<rparr>"
  by (simp add: NewContainerFromConsolidation_def indexing_output_def Container_validate_def Let_def)

lemma instance_i1: "jp_InstanceID (j_Payload (w_job indexing_world)) = ''i1''"
  by (simp add: indexing_world_def sample_world_def job_of_row_def sample_job_row_def)

lemma geo_fields: "g_gdal indexing_geo = sample_gdal" "g_clone4326 indexing_geo = (\<lambda>_ _ s. Inr s)" "g_bounds indexing_geo = (\<lambda>_ _ _ _. [])"
  by (simp_all add: indexing_geo_def sample_geo_def)

lemma container_indexed:
  "succeeds (index_container sample_env \<lparr>c_ps = NEW, c_ID = 0, c_URI = ''gs://new'', c_Managed = True, c_StorageClass = StorageClassSTANDARD, c_Datasets = []\<rparr>
     [incomplete_dataset\<lparr>d_ps := NEW, d_ID := ''u0'', d_RecordID := ''r1'', d_ContainerSubDir := ''GTIFF_DIR:1''\<rparr>] (indexing_world\<lparr>w_tick := 1\<rparr>))"
  by code_simp

theorem indexed_containers_have_one_record_witness:
  "\<exists>w' container records. index_task sample_env indexing_geo indexing_task indexing_world = Ret (Inr (), w') \<and>
     ConsolidationOutput indexing_task = Inr (container, records) \<and> length records \<le> 1"
proof -
  have "index_task sample_env indexing_geo indexing_task indexing_world =
      index_container sample_env \<lparr>c_ps = NEW, c_ID = 0, c_URI = ''gs://new'', c_Managed = True, c_StorageClass = StorageClassSTANDARD, c_Datasets = []\<rparr>
     [incomplete_dataset\<lparr>d_ps := NEW, d_ID := ''u0'', d_RecordID := ''r1'', d_ContainerSubDir := ''GTIFF_DIR:1''\<rparr>] (indexing_world\<lparr>w_tick := 1\<rparr>)"
    by (simp add: index_task_def seq_def handle_def wrap_def lift_result_def lift_go_def reading_def ok_def fails_def task_output
        container_output instance_i1 geo_fields incomplete_output indexing_datasets del: index_datasets.simps)
  with container_indexed obtain w' where r: "index_task sample_env indexing_geo indexing_task indexing_world = Ret (Inr (), w')"
    by (auto simp: succeeds_iff)
  from indexed_containers_have_one_record [OF r] r show ?thesis by blast
qed

end
