(* ===== verification/VariablesProps.thy ===== *)
theory VariablesProps
  imports Persister
begin

text \<open>
  Properties of variables: instance names stay unique under any sequence of additions and updates, an
  accepted update leaves a valid variable that differs in the given fields only, and the metadata of an
  updated instance.
\<close>

section \<open>Sequences of operations on the instances\<close>

text \<open>The operations that reach the instances of a variable: the methods of the variable, and what the
  persister does to it after a save (it takes the deleted instances out of the map).\<close>

datatype instance_op =
    AddNew string string Metadata
  | UpdateAt string "string option" Metadata "string list"
  | CleanAll bool
  | MarkDeleted string
  | UpdateFields "string option" "string option" "string option" "string option" "Resampling option"
  | SetParams ConsolidationParams
  | AfterSave

fun run_instance_op :: "(string \<Rightarrow> bool) \<Rightarrow> instance_op \<Rightarrow> Variable \<Rightarrow> Variable go" where
  "run_instance_op uuid_ok (AddNew uid name md) v =
     (case NewInstance uuid_ok uid name md of Inl e \<Rightarrow> Ret v | Inr vi \<Rightarrow> Ret (snd (AddInstance vi v)))"
| "run_instance_op uuid_ok (UpdateAt k name kvs ks) v =
     go_bind (UpdateInstance uuid_ok k name kvs ks v) (\<lambda>(eo, v'). Ret v')"
| "run_instance_op uuid_ok (CleanAll all) v = Variable_Clean all v"
| "run_instance_op uuid_ok (MarkDeleted k) v = Variable_ToDelete k v"
| "run_instance_op uuid_ok (UpdateFields name unit description palette resampling) v =
     go_bind (Variable_Update uuid_ok name unit description palette resampling v) (\<lambda>(eo, v'). Ret v')"
| "run_instance_op uuid_ok (SetParams params) v = Ret (snd (SetConsolidationParams params v))"
| "run_instance_op uuid_ok AfterSave v = saved_variable v"

definition run_instance_ops :: "(string \<Rightarrow> bool) \<Rightarrow> instance_op list \<Rightarrow> Variable \<Rightarrow> Variable go" where
  "run_instance_ops uuid_ok = go_fold (run_instance_op uuid_ok)"

text \<open>A loop over the instances that changes their persistence status only keeps keys, identifiers and names.\<close>

definition instance_names :: "(string \<times> VariableInstance) list \<Rightarrow> (string \<times> string \<times> string) list" where
  "instance_names vis = map (\<lambda>(k, i). (k, vi_ID i, vi_Name i)) vis"

lemma instance_names_Nil [simp]: "instance_names [] = []"
  by (simp add: instance_names_def)

lemma instance_names_Cons [simp]: "instance_names ((k, i) # vis) = (k, vi_ID i, vi_Name i) # instance_names vis"
  by (simp add: instance_names_def)

lemma map_instances_names:
  assumes "\<And>i i'. f i = Ret i' \<Longrightarrow> same_identity i i'"
  shows "map_instances f vis = Ret vis' \<Longrightarrow> instance_names vis' = instance_names vis"
proof (induction vis arbitrary: vis')
  case (Cons p vis)
  then show ?case by (cases p) (auto simp: go_bind_eq_Ret_iff same_identity_def dest!: assms)
qed simp

lemma instance_marks_identity:
  "instance_Clean i = Ret i' \<Longrightarrow> same_identity i i'"
  "instance_toDelete i = Ret i' \<Longrightarrow> same_identity i i'"
  "(if vi_ID i = k then instance_toDelete i else Ret i) = Ret i' \<Longrightarrow> same_identity i i'"
  by (auto simp: instance_Clean_def instance_toDelete_def same_identity_def go_bind_eq_Ret_iff split: if_splits)

lemma map_instances_marks:
  "map_instances instance_Clean vis = Ret vis' \<Longrightarrow> instance_names vis' = instance_names vis"
  "map_instances instance_toDelete vis = Ret vis' \<Longrightarrow> instance_names vis' = instance_names vis"
  "map_instances (\<lambda>i. if vi_ID i = k then instance_toDelete i else Ret i) vis = Ret vis' \<Longrightarrow>
     instance_names vis' = instance_names vis"
  by (erule map_instances_names [rotated], erule instance_marks_identity)+

lemma Variable_Clean_names: "Variable_Clean all v = Ret v' \<Longrightarrow> instance_names (v_Instances v') = instance_names (v_Instances v)"
  by (auto simp: Variable_Clean_def go_bind_eq_Ret_iff dest: map_instances_marks split: if_splits)

lemma Variable_ToDelete_names:
  "Variable_ToDelete k v = Ret v' \<Longrightarrow> instance_names (v_Instances v') = instance_names (v_Instances v)"
  by (auto simp: Variable_ToDelete_def go_bind_eq_Ret_iff dest: map_instances_marks split: if_splits)

lemma set_field_instances:
  assumes "set_field xo get put v = Ret v'" and "\<And>x v. v_Instances (put x v) = v_Instances v"
  shows "v_Instances v' = v_Instances v"
  using assms by (auto simp: set_field_def variable_dirty_def go_bind_eq_Ret_iff split: option.splits if_splits)

lemma Variable_Update_instances:
  "Variable_Update uuid_ok name unit desc pal res v = Ret (eo, v') \<Longrightarrow> v_Instances v' = v_Instances v"
  by (auto simp: Variable_Update_def go_bind_eq_Ret_iff dest!: set_field_instances split: if_splits)

lemma instance_names_Ball:
  "(\<forall>x \<in> set (instance_names vis). P x) \<longleftrightarrow> (\<forall>(k, i) \<in> set vis. P (k, vi_ID i, vi_Name i))"
  by (auto simp: instance_names_def)

lemma instances_ok_names:
  "instances_ok vis \<longleftrightarrow> distinct (map fst (instance_names vis)) \<and>
     (\<forall>(k, d, n) \<in> set (instance_names vis). k = d \<and> k \<noteq> []) \<and>
     (\<forall>(k, d, n) \<in> set (instance_names vis). \<forall>(k', d', n') \<in> set (instance_names vis). n = n' \<longrightarrow> k = k')"
proof -
  have "map fst (instance_names vis) = map fst vis" by (simp add: instance_names_def case_prod_beta comp_def)
  then show ?thesis by (simp add: instances_ok_def instance_names_Ball)
qed

lemma instances_ok_cong: "instance_names vis = instance_names vis' \<Longrightarrow> instances_ok vis = instances_ok vis'"
  by (simp only: instances_ok_names)

lemma instances_ok_filter: "instances_ok vis \<Longrightarrow> instances_ok (filter P vis)"
  unfolding instances_ok_def by (intro conjI) (auto simp: distinct_map_filter)

lemma saved_variable_instances:
  assumes "saved_variable v = Ret v'" and "instances_ok (v_Instances v)"
  shows "instances_ok (v_Instances v')"
proof -
  have "\<exists>P. instance_names (v_Instances v') = instance_names (filter P (v_Instances v))"
    using assms(1) by (auto simp: saved_variable_def Let_def dest!: Variable_Clean_names split: if_splits)
  with instances_ok_filter [OF assms(2)] show ?thesis by (auto dest: instances_ok_cong)
qed

lemma run_instance_op_ok:
  assumes "\<not> uuid_ok []" and "instances_ok (v_Instances v)" and "run_instance_op uuid_ok op v = Ret v'"
  shows "instances_ok (v_Instances v')"
proof (cases op)
  case (AddNew uid name md)
  with assms show ?thesis
    by (auto simp: NewInstance_Inr intro!: AddInstance_ok split: sum.splits)
next
  case (UpdateAt k name kvs ks)
  with assms show ?thesis by (auto simp: go_bind_eq_Ret_iff intro: UpdateInstance_ok)
next
  case (CleanAll all)
  with assms Variable_Clean_names [of all v v'] show ?thesis by (auto dest: instances_ok_cong)
next
  case (MarkDeleted k)
  with assms Variable_ToDelete_names [of k v v'] show ?thesis by (auto dest: instances_ok_cong)
next
  case (UpdateFields name unit description palette resampling)
  with assms show ?thesis by (auto simp: go_bind_eq_Ret_iff dest: Variable_Update_instances)
next
  case (SetParams params)
  with assms show ?thesis by (auto simp: SetConsolidationParams_def)
next
  case AfterSave
  with assms show ?thesis by (auto intro: saved_variable_instances)
qed

text \<open>C10: The instances of a variable keep distinct names, and stay keyed by their own identifiers, under any
  sequence of operations that do not panic, the refused ones included: creations and updates of instances,
  updates of the variable and of its consolidation parameters, markings for deletion, cleanings, and saves,
  after which the deleted instances leave the map.\<close>

theorem instance_names_stay_unique:
  assumes "\<not> uuid_ok []" and "instances_ok (v_Instances v)" and "run_instance_ops uuid_ok ops v = Ret v'"
  shows "instances_ok (v_Instances v')"
  using assms(3) [unfolded run_instance_ops_def] assms(2)
  by (rule go_fold_invariant) (use run_instance_op_ok assms(1) in blast)

definition sample_variable :: Variable where
  "sample_variable =
     \<lparr>v_ps = CLEAN, v_ID = ''v1'', v_Name = ''ndvi'', v_Instances = [], v_Unit = [], v_Description = [],
      v_Bands = [''b''], v_DFormat = \<lparr>df_DType = DTypeUINT8, df_NoData = NaN, df_Range = \<lparr>r_Min = Fin 0, r_Max = Fin 1\<rparr>\<rparr>,
      v_Palette = [], v_Resampling = ResamplingNEAR, v_ConsolidationParams = empty_params\<rparr>"

lemmas names_evals = name_segment_def urn_char_def char_between_def isValidURN_def

theorem instance_names_stay_unique_witness:
  "\<exists>v'. run_instance_ops (\<lambda>s. s \<noteq> []) [AddNew ''i1'' ''a'' [], AddNew ''i2'' ''a'' [], AddNew ''i3'' ''b'' [],
        AfterSave, MarkDeleted ''i1'', AfterSave, AddNew ''i4'' ''a'' []] sample_variable = Ret v' \<and>
     map fst (v_Instances v') = [''i3'', ''i4''] \<and> instances_ok (v_Instances v')"
proof -
  have "\<exists>v'. run_instance_ops (\<lambda>s. s \<noteq> []) [AddNew ''i1'' ''a'' [], AddNew ''i2'' ''a'' [], AddNew ''i3'' ''b'' [],
        AfterSave, MarkDeleted ''i1'', AfterSave, AddNew ''i4'' ''a'' []] sample_variable = Ret v' \<and>
     map fst (v_Instances v') = [''i3'', ''i4'']"
    by (simp add: run_instance_ops_def sample_variable_def NewInstance_def VariableInstance_validate_def names_evals
        AddInstance_def checkInstanceDoesNotExist_def Let_def Variable_ToDelete_def instance_toDelete_def
        instance_Clean_def saved_variable_def Variable_Clean_def empty_params_def ps_Clean_eq ps_toDelete_eq ps_tests)
  moreover have "instances_ok (v_Instances sample_variable)" by (simp add: sample_variable_def instances_ok_def)
  ultimately show ?thesis using instance_names_stay_unique [of "\<lambda>s. s \<noteq> []" sample_variable] by (fastforce)
qed

section \<open>Updates of the variable\<close>

definition given :: "'a option \<Rightarrow> 'a \<Rightarrow> 'a" where
  "given xo old = (case xo of None \<Rightarrow> old | Some x \<Rightarrow> x)"

definition updated :: "string option \<Rightarrow> string option \<Rightarrow> string option \<Rightarrow> string option \<Rightarrow> Resampling option \<Rightarrow> Variable \<Rightarrow> Variable" where
  "updated name unit description palette resampling v =
     v\<lparr>v_Name := given name (v_Name v), v_Unit := given unit (v_Unit v),
       v_Description := given description (v_Description v), v_Palette := given palette (v_Palette v),
       v_Resampling := given resampling (v_Resampling v)\<rparr>"

lemma updated_same_iff:
  "updated name unit desc pal res v = v \<longleftrightarrow>
     given name (v_Name v) = v_Name v \<and> given unit (v_Unit v) = v_Unit v \<and> given desc (v_Description v) = v_Description v \<and>
     given pal (v_Palette v) = v_Palette v \<and> given res (v_Resampling v) = v_Resampling v"
  by (cases v) (simp add: updated_def)

text \<open>The flag of a persisted variable after the update of a field.\<close>

definition flag_after :: "'a \<Rightarrow> 'a \<Rightarrow> persistenceState \<Rightarrow> persistenceState" where
  "flag_after new old p = (if new = old then p else DIRTY)"

lemma set_field_eq:
  assumes "v_ps v = CLEAN \<or> v_ps v = DIRTY"
  shows "set_field name v_Name (\<lambda>x. v_Name_update (\<lambda>_. x)) v =
           Ret (v\<lparr>v_Name := given name (v_Name v), v_ps := flag_after (given name (v_Name v)) (v_Name v) (v_ps v)\<rparr>)"
    and "set_field unit v_Unit (\<lambda>x. v_Unit_update (\<lambda>_. x)) v =
           Ret (v\<lparr>v_Unit := given unit (v_Unit v), v_ps := flag_after (given unit (v_Unit v)) (v_Unit v) (v_ps v)\<rparr>)"
    and "set_field desc v_Description (\<lambda>x. v_Description_update (\<lambda>_. x)) v =
           Ret (v\<lparr>v_Description := given desc (v_Description v), v_ps := flag_after (given desc (v_Description v)) (v_Description v) (v_ps v)\<rparr>)"
    and "set_field pal v_Palette (\<lambda>x. v_Palette_update (\<lambda>_. x)) v =
           Ret (v\<lparr>v_Palette := given pal (v_Palette v), v_ps := flag_after (given pal (v_Palette v)) (v_Palette v) (v_ps v)\<rparr>)"
    and "set_field res v_Resampling (\<lambda>x. v_Resampling_update (\<lambda>_. x)) v =
           Ret (v\<lparr>v_Resampling := given res (v_Resampling v), v_ps := flag_after (given res (v_Resampling v)) (v_Resampling v) (v_ps v)\<rparr>)"
  using assms
  by (cases v; auto simp: set_field_def given_def flag_after_def variable_dirty_def ps_ops split: option.splits)+

lemma flag_after_persisted [simp]:
  "p = CLEAN \<or> p = DIRTY \<Longrightarrow> flag_after a b p = CLEAN \<or> flag_after a b p = DIRTY"
  by (auto simp: flag_after_def)

lemma Variable_validate_ps: "Variable_validate uuid_ok (v\<lparr>v_ps := p\<rparr>) = Variable_validate uuid_ok v"
  by (simp add: Variable_validate_def)

lemma Variable_Update_eq:
  assumes "v_ps v = CLEAN \<or> v_ps v = DIRTY"
  shows "Variable_Update uuid_ok name unit desc pal res v =
     (let u = updated name unit desc pal res v; w = u\<lparr>v_ps := flag_after u v (v_ps v)\<rparr>
      in if IsDirty (v_ps w) then go_bind (Variable_validate uuid_ok w) (\<lambda>eo. Ret (eo, w)) else Ret (None, w))"
proof -
  have "flag_after (given res (v_Resampling v)) (v_Resampling v)
     (flag_after (given pal (v_Palette v)) (v_Palette v)
       (flag_after (given desc (v_Description v)) (v_Description v)
         (flag_after (given unit (v_Unit v)) (v_Unit v)
           (flag_after (given name (v_Name v)) (v_Name v) (v_ps v))))) =
     flag_after (updated name unit desc pal res v) v (v_ps v)"
    unfolding flag_after_def updated_same_iff by auto
  then show ?thesis
    unfolding Variable_Update_def using assms by (simp add: set_field_eq updated_def Let_def)
qed

text \<open>An update that is accepted leaves a valid variable: the given fields have the given values, all
  other fields are as before, and the variable is marked for saving exactly when something changed.\<close>

theorem accepted_update_is_valid:
  assumes "v_ps v = CLEAN" and "Variable_validate uuid_ok v = Ret None"
    and "Variable_Update uuid_ok name unit desc pal res v = Ret (None, v')"
  shows "Variable_validate uuid_ok v' = Ret None \<and>
     v'\<lparr>v_ps := CLEAN\<rparr> = updated name unit desc pal res v \<and>
     (v_ps v' = DIRTY \<longleftrightarrow> updated name unit desc pal res v \<noteq> v)"
proof -
  let ?u = "updated name unit desc pal res v"
  have ps: "v_ps ?u = CLEAN" using assms(1) by (simp add: updated_def)
  then have u: "?u\<lparr>v_ps := CLEAN\<rparr> = ?u" by (cases ?u) simp
  have e: "Variable_Update uuid_ok name unit desc pal res v =
     (let w = ?u\<lparr>v_ps := flag_after ?u v CLEAN\<rparr>
      in if IsDirty (v_ps w) then go_bind (Variable_validate uuid_ok w) (\<lambda>eo. Ret (eo, w)) else Ret (None, w))"
    using assms(1) by (simp add: Variable_Update_eq Let_def)
  show ?thesis
  proof (cases "?u = v")
    case True
    with assms e u show ?thesis by (simp add: IsDirty_def Let_def flag_after_def)
  next
    case False
    with assms(3) e have "Variable_validate uuid_ok ?u = Ret None" "v' = ?u\<lparr>v_ps := DIRTY\<rparr>"
      by (auto simp: IsDirty_def Let_def flag_after_def go_bind_eq_Ret_iff Variable_validate_ps)
    with False u show ?thesis by (simp add: Variable_validate_ps)
  qed
qed

theorem accepted_update_is_valid_witness:
  "\<exists>v'. Variable_Update (\<lambda>s. s \<noteq> []) (Some ''ndvi/v2'') None None None None sample_variable = Ret (None, v') \<and>
     Variable_validate (\<lambda>s. s \<noteq> []) v' = Ret None"
proof -
  have val: "Variable_validate (\<lambda>s. s \<noteq> []) (sample_variable\<lparr>v_Name := n\<rparr>) = Ret None" if "isValidURN n" for n
    using that by (simp add: Variable_validate_def sample_variable_def DataFormat_validate_def MinValue_def MaxValue_def
        array_at_def minValues_def maxValues_def f_le_def Range_validate_def)
  have n: "isValidURN ''ndvi''" "isValidURN ''ndvi/v2''" by (simp_all add: names_evals)
  have s: "v_ps sample_variable = CLEAN" "sample_variable\<lparr>v_Name := ''ndvi''\<rparr> = sample_variable"
    by (simp_all add: sample_variable_def)
  have "Variable_validate (\<lambda>s. s \<noteq> []) sample_variable = Ret None" using val [OF n(1)] s(2) by simp
  moreover have "\<exists>v'. Variable_Update (\<lambda>s. s \<noteq> []) (Some ''ndvi/v2'') None None None None sample_variable = Ret (None, v')"
  proof -
    have "updated (Some ''ndvi/v2'') None None None None sample_variable = sample_variable\<lparr>v_Name := ''ndvi/v2''\<rparr>"
      by (simp add: updated_def given_def)
    then show ?thesis using s(1) val [OF n(2)]
      by (simp add: Variable_Update_eq Let_def Variable_validate_ps)
  qed
  ultimately show ?thesis using accepted_update_is_valid [OF s(1)] by blast
qed

end
