(* ===== verification/MaintenanceProps.thy ===== *)
theory MaintenanceProps
  imports JobApi IndexProps VariablesProps
begin

text \<open>
  The maintenance operations: tidying keeps the references between the tables, a simulation changes nothing
  and gives the numbers of the real run, and cleaning deletes the jobs it is asked for, counting them.
\<close>

section \<open>References between the tables\<close>

text \<open>The foreign keys of create.sql between the tables of the model.\<close>

definition has_job :: "db \<Rightarrow> string \<Rightarrow> bool" where
  "has_job d i \<longleftrightarrow> list_ex (\<lambda>j. jr_ID j = i) (db_Jobs d)"

definition references_ok :: "db \<Rightarrow> bool" where
  "references_ok d \<longleftrightarrow>
     list_all (\<lambda>x. known_dataset d (dr_Dataset x)) (db_Datasets d) \<and>
     list_all (\<lambda>(i, t). db_RecordAOI d i \<in> set (db_AOIs d)) (db_Records d) \<and>
     list_all (\<lambda>i. list_ex (\<lambda>v. v_ID v = ir_DefinitionID i) (db_Variables d)) (db_Instances d) \<and>
     list_all (\<lambda>(u, l). list_ex (\<lambda>c. ct_URI c = u) (db_Containers d) \<and> list_ex (\<lambda>x. l_Name x = l) (db_Layouts d)) (db_ContainerLayouts d) \<and>
     list_all (\<lambda>t. has_job d (tr_JobID t)) (db_Tasks d) \<and>
     list_all (\<lambda>l. has_job d (lk_JobID l) \<and> list_ex (\<lambda>x. d_ID (dr_Dataset x) = lk_DatasetID l) (db_Datasets d)) (db_Locks d) \<and>
     list_all (\<lambda>(i, l). has_job d i) (db_Logs d)"

text \<open>
  What tidying may change: rows of records, areas, instances, variables, containers, their layouts and
  consolidation parameters disappear, but no parameters that a remaining variable or a job may read (they
  are under its identifier, with no foreign key); all other tables stay.
\<close>

definition has_owner :: "db \<Rightarrow> string \<Rightarrow> bool" where
  "has_owner d i \<longleftrightarrow> list_ex (\<lambda>v. v_ID v = i) (db_Variables d) \<or> has_job d i"

definition only_tidied :: "db \<Rightarrow> db \<Rightarrow> bool" where
  "only_tidied d d' \<longleftrightarrow>
     db_Datasets d' = db_Datasets d \<and> db_Jobs d' = db_Jobs d \<and> db_Tasks d' = db_Tasks d \<and> db_Locks d' = db_Locks d \<and>
     db_Logs d' = db_Logs d \<and> db_Layouts d' = db_Layouts d \<and> db_RecordAOI d' = db_RecordAOI d \<and>
     set (db_Records d') \<subseteq> set (db_Records d) \<and> set (db_AOIs d') \<subseteq> set (db_AOIs d) \<and>
     set (db_Instances d') \<subseteq> set (db_Instances d) \<and> set (db_Variables d') \<subseteq> set (db_Variables d) \<and>
     set (db_Containers d') \<subseteq> set (db_Containers d) \<and> set (db_ContainerLayouts d') \<subseteq> set (db_ContainerLayouts d) \<and>
     set (db_Params d') \<subseteq> set (db_Params d) \<and>
     (\<forall>i. has_owner d' i \<longrightarrow> map_of (db_Params d') i = map_of (db_Params d) i)"

lemma only_tidied_refl [simp]: "only_tidied d d"
  by (simp add: only_tidied_def)

lemma only_tidied_owner: "only_tidied d d' \<Longrightarrow> has_owner d' i \<Longrightarrow> has_owner d i"
  by (auto simp: only_tidied_def has_owner_def has_job_def list_ex_iff)

lemma only_tidied_params_kept:
  "only_tidied d d' \<Longrightarrow> has_owner d' i \<Longrightarrow> map_of (db_Params d') i = map_of (db_Params d) i"
  by (simp add: only_tidied_def)

lemma only_tidied_trans:
  assumes "only_tidied a b" "only_tidied b c"
  shows "only_tidied a c"
proof -
  have "map_of (db_Params c) i = map_of (db_Params a) i" if "has_owner c i" for i
    using that only_tidied_owner [OF assms(2)] only_tidied_params_kept [OF assms(1)] only_tidied_params_kept [OF assms(2)]
    by simp
  with assms show ?thesis unfolding only_tidied_def by (elim conjE) (intro conjI; simp)
qed

lemma only_tidied_datasets: "only_tidied d d' \<Longrightarrow> db_Datasets d' = db_Datasets d"
  by (auto simp: only_tidied_def)

lemma known_dataset_iff:
  "known_dataset d x \<longleftrightarrow> (\<exists>t. (d_RecordID x, t) \<in> set (db_Records d)) \<and> (\<exists>i \<in> set (db_Instances d). vi_ID (ir_Instance i) = d_InstanceID x) \<and>
     (\<exists>c \<in> set (db_Containers d). ct_URI c = d_ContainerURI x)"
proof -
  have "map_of rs i \<noteq> None \<longleftrightarrow> (\<exists>t. (i, t) \<in> set rs)" for rs :: "(string \<times> gtime) list" and i
    by (induction rs) auto
  then show ?thesis by (auto simp: known_dataset_def record_time_def list_ex_iff)
qed

lemma references_ok_iff:
  "references_ok d \<longleftrightarrow>
     (\<forall>x \<in> set (db_Datasets d). known_dataset d (dr_Dataset x)) \<and>
     (\<forall>(i, t) \<in> set (db_Records d). db_RecordAOI d i \<in> set (db_AOIs d)) \<and>
     (\<forall>i \<in> set (db_Instances d). \<exists>v \<in> set (db_Variables d). v_ID v = ir_DefinitionID i) \<and>
     (\<forall>(u, l) \<in> set (db_ContainerLayouts d). (\<exists>c \<in> set (db_Containers d). ct_URI c = u) \<and> (\<exists>x \<in> set (db_Layouts d). l_Name x = l)) \<and>
     (\<forall>t \<in> set (db_Tasks d). has_job d (tr_JobID t)) \<and>
     (\<forall>l \<in> set (db_Locks d). has_job d (lk_JobID l) \<and> (\<exists>x \<in> set (db_Datasets d). d_ID (dr_Dataset x) = lk_DatasetID l)) \<and>
     (\<forall>(i, l) \<in> set (db_Logs d). has_job d i)"
  by (simp add: references_ok_def list_all_iff list_ex_iff)

definition tidies :: "'a pg_op \<Rightarrow> bool" where
  "tidies op \<longleftrightarrow> (\<forall>d. references_ok d \<longrightarrow> references_ok (snd (op d)) \<and> only_tidied d (snd (op d)))"

text \<open>A statement that deletes rows of one table, without those of the consolidation parameters.\<close>

lemma only_tidied_rows:
  "set records \<subseteq> set (db_Records d) \<Longrightarrow> only_tidied d (d\<lparr>db_Records := records\<rparr>)"
  "set aois \<subseteq> set (db_AOIs d) \<Longrightarrow> only_tidied d (d\<lparr>db_AOIs := aois\<rparr>)"
  "set instances \<subseteq> set (db_Instances d) \<Longrightarrow> only_tidied d (d\<lparr>db_Instances := instances\<rparr>)"
  "set variables \<subseteq> set (db_Variables d) \<Longrightarrow> only_tidied d (d\<lparr>db_Variables := variables\<rparr>)"
  "set containers \<subseteq> set (db_Containers d) \<Longrightarrow> set layouts \<subseteq> set (db_ContainerLayouts d) \<Longrightarrow>
     only_tidied d (d\<lparr>db_ContainerLayouts := layouts, db_Containers := containers\<rparr>)"
  by (simp_all add: only_tidied_def)

lemma map_of_filter_key:
  "P i \<Longrightarrow> map_of (filter (\<lambda>(k, v). P k) kvs) i = map_of kvs i"
  by (induction kvs) auto

lemma only_tidied_params:
  "only_tidied d (d\<lparr>db_Params := filter (\<lambda>(i, p). has_owner d i) (db_Params d)\<rparr>)"
proof -
  have "has_owner (d\<lparr>db_Params := ps\<rparr>) i = has_owner d i" for ps i by (simp add: has_owner_def has_job_def)
  then show ?thesis by (auto simp: only_tidied_def map_of_filter_key)
qed

lemma tidiesI:
  "(\<And>d. only_tidied d (snd (op d))) \<Longrightarrow> (\<And>d. references_ok d \<Longrightarrow> references_ok (snd (op d))) \<Longrightarrow> tidies op"
  by (simp add: tidies_def)

lemma has_job_update [simp]:
  "has_job (d\<lparr>db_Records := rs\<rparr>) = has_job d" "has_job (d\<lparr>db_AOIs := aois\<rparr>) = has_job d"
  "has_job (d\<lparr>db_Instances := is\<rparr>) = has_job d" "has_job (d\<lparr>db_Variables := vs\<rparr>) = has_job d"
  "has_job (d\<lparr>db_Containers := cs\<rparr>) = has_job d" "has_job (d\<lparr>db_ContainerLayouts := ls\<rparr>) = has_job d"
  "has_job (d\<lparr>db_Params := ps\<rparr>) = has_job d"
  by (rule ext, simp add: has_job_def)+

text \<open>Taking rows out of one table keeps the references when no row of another one refers to them.\<close>

lemma references_ok_records:
  assumes "references_ok d" "set rs \<subseteq> set (db_Records d)"
    and "\<And>x t. x \<in> set (db_Datasets d) \<Longrightarrow> (d_RecordID (dr_Dataset x), t) \<in> set (db_Records d) \<Longrightarrow> (d_RecordID (dr_Dataset x), t) \<in> set rs"
  shows "references_ok (d\<lparr>db_Records := rs\<rparr>)"
  using assms unfolding references_ok_iff known_dataset_iff by (elim conjE) (intro conjI; simp; blast)

lemma references_ok_aois:
  assumes "references_ok d" "\<And>i t. (i, t) \<in> set (db_Records d) \<Longrightarrow> db_RecordAOI d i \<in> set (db_AOIs d) \<Longrightarrow> db_RecordAOI d i \<in> set aois"
  shows "references_ok (d\<lparr>db_AOIs := aois\<rparr>)"
  using assms unfolding references_ok_iff known_dataset_iff by (elim conjE) (intro conjI; simp; blast)

lemma references_ok_instances:
  assumes "references_ok d" "set is \<subseteq> set (db_Instances d)"
    and "\<And>x i. x \<in> set (db_Datasets d) \<Longrightarrow> i \<in> set (db_Instances d) \<Longrightarrow> vi_ID (ir_Instance i) = d_InstanceID (dr_Dataset x) \<Longrightarrow> i \<in> set is"
  shows "references_ok (d\<lparr>db_Instances := is\<rparr>)"
  using assms unfolding references_ok_iff known_dataset_iff by (elim conjE) (intro conjI; simp; blast)

lemma references_ok_variables:
  assumes "references_ok d"
    and "\<And>i v. i \<in> set (db_Instances d) \<Longrightarrow> v \<in> set (db_Variables d) \<Longrightarrow> v_ID v = ir_DefinitionID i \<Longrightarrow> v \<in> set vs"
  shows "references_ok (d\<lparr>db_Variables := vs\<rparr>)"
  using assms unfolding references_ok_iff known_dataset_iff by (elim conjE) (intro conjI; simp; blast)

lemma references_ok_containers:
  assumes "references_ok d" "set ls \<subseteq> set (db_ContainerLayouts d)"
    and "\<And>x c. x \<in> set (db_Datasets d) \<Longrightarrow> c \<in> set (db_Containers d) \<Longrightarrow> ct_URI c = d_ContainerURI (dr_Dataset x) \<Longrightarrow> c \<in> set cs"
    and "\<And>u l c. (u, l) \<in> set ls \<Longrightarrow> c \<in> set (db_Containers d) \<Longrightarrow> ct_URI c = u \<Longrightarrow> c \<in> set cs"
  shows "references_ok (d\<lparr>db_ContainerLayouts := ls, db_Containers := cs\<rparr>)"
proof -
  have "(\<exists>c \<in> set cs. ct_URI c = u) \<and> (\<exists>x \<in> set (db_Layouts d). l_Name x = l)" if "(u, l) \<in> set ls" for u l
  proof -
    have "(u, l) \<in> set (db_ContainerLayouts d)" using assms(2) that by blast
    then have "(\<exists>c \<in> set (db_Containers d). ct_URI c = u) \<and> (\<exists>x \<in> set (db_Layouts d). l_Name x = l)"
      using assms(1) unfolding references_ok_iff by blast
    with assms(4) [OF that] show ?thesis by blast
  qed
  with assms show ?thesis unfolding references_ok_iff known_dataset_iff by (elim conjE) (intro conjI; simp; blast)
qed

lemma tidy_rows:
  "snd (tidy db_Records db_Records_update p1 d) = d\<lparr>db_Records := filter (\<lambda>x. \<not> p1 d x) (db_Records d)\<rparr>"
  "snd (tidy db_AOIs db_AOIs_update p2 d) = d\<lparr>db_AOIs := filter (\<lambda>x. \<not> p2 d x) (db_AOIs d)\<rparr>"
  "snd (tidy db_Instances db_Instances_update p3 d) = d\<lparr>db_Instances := filter (\<lambda>x. \<not> p3 d x) (db_Instances d)\<rparr>"
  "snd (tidy db_Variables db_Variables_update p4 d) = d\<lparr>db_Variables := filter (\<lambda>x. \<not> p4 d x) (db_Variables d)\<rparr>"
  "snd (tidy db_Params db_Params_update p5 d) = d\<lparr>db_Params := filter (\<lambda>x. \<not> p5 d x) (db_Params d)\<rparr>"
  by (cases d, simp add: tidy_def)+

lemma tidy_references [simp]:
  "tidies (pg_DeletePendingRecords ids)" "tidies pg_DeletePendingAOIs" "tidies pg_DeletePendingInstances"
  "tidies pg_DeletePendingVariables" "tidies pg_DeletePendingContainers" "tidies pg_DeletePendingConsolidationParams"
proof -
  show "tidies (pg_DeletePendingRecords ids)"
  proof (rule tidiesI, unfold pg_DeletePendingRecords_def tidy_rows)
    fix d assume "references_ok d"
    then show "references_ok (d\<lparr>db_Records := filter (\<lambda>x. \<not> (case x of (i, t) \<Rightarrow> (ids = [] \<or> i \<in> set ids) \<and>
        \<not> list_ex (\<lambda>x. d_RecordID (dr_Dataset x) = i) (db_Datasets d))) (db_Records d)\<rparr>)"
      by (rule references_ok_records) (auto simp: list_ex_iff)
  qed (rule only_tidied_rows, simp)
  show "tidies pg_DeletePendingAOIs"
  proof (rule tidiesI, unfold pg_DeletePendingAOIs_def tidy_rows)
    fix d assume "references_ok d"
    then show "references_ok (d\<lparr>db_AOIs := filter (\<lambda>x. \<not> \<not> list_ex (\<lambda>(i, t). db_RecordAOI d i = x) (db_Records d)) (db_AOIs d)\<rparr>)"
      by (rule references_ok_aois) (auto simp: list_ex_iff)
  qed (rule only_tidied_rows, simp)
  show "tidies pg_DeletePendingInstances"
  proof (rule tidiesI, unfold pg_DeletePendingInstances_def tidy_rows)
    fix d assume "references_ok d"
    then show "references_ok (d\<lparr>db_Instances := filter (\<lambda>x. \<not> \<not> list_ex (\<lambda>y. d_InstanceID (dr_Dataset y) = vi_ID (ir_Instance x))
        (db_Datasets d)) (db_Instances d)\<rparr>)"
      by (rule references_ok_instances) (auto simp: list_ex_iff)
  qed (rule only_tidied_rows, simp)
  show "tidies pg_DeletePendingVariables"
  proof (rule tidiesI, unfold pg_DeletePendingVariables_def tidy_rows)
    fix d assume "references_ok d"
    then show "references_ok (d\<lparr>db_Variables := filter (\<lambda>x. \<not> \<not> list_ex (\<lambda>i. ir_DefinitionID i = v_ID x) (db_Instances d)) (db_Variables d)\<rparr>)"
      by (rule references_ok_variables) (auto simp: list_ex_iff)
  qed (rule only_tidied_rows, simp)
  show "tidies pg_DeletePendingContainers"
  proof (rule tidiesI, unfold pg_DeletePendingContainers_def Let_def snd_conv)
    fix d assume "references_ok d"
    then show "references_ok (d\<lparr>db_ContainerLayouts := filter (\<lambda>(u, l). \<not> list_ex (\<lambda>c. ct_URI c = u \<and>
          \<not> list_ex (\<lambda>x. d_ContainerURI (dr_Dataset x) = ct_URI c) (db_Datasets d) \<and> \<not> ct_Managed c) (db_Containers d)) (db_ContainerLayouts d),
        db_Containers := filter (\<lambda>c. \<not> (\<not> list_ex (\<lambda>x. d_ContainerURI (dr_Dataset x) = ct_URI c) (db_Datasets d) \<and> \<not> ct_Managed c)) (db_Containers d)\<rparr>)"
      by (rule references_ok_containers) (auto simp: list_ex_iff)
  qed (rule only_tidied_rows, auto)
  have "snd (pg_DeletePendingConsolidationParams d) = d\<lparr>db_Params := filter (\<lambda>(i, p). has_owner d i) (db_Params d)\<rparr>" for d
    unfolding pg_DeletePendingConsolidationParams_def tidy_rows
    by (auto simp: has_owner_def has_job_def intro!: arg_cong [where f = "\<lambda>ps. d\<lparr>db_Params := ps\<rparr>"] filter_cong)
  moreover have "references_ok (d\<lparr>db_Params := ps\<rparr>) = references_ok d" for d ps
    by (simp add: references_ok_def known_dataset_def record_time_def)
  ultimately show "tidies pg_DeletePendingConsolidationParams"
    unfolding tidies_def using only_tidied_params by simp
qed

section \<open>Tidying\<close>

lemma tx_tidies:
  assumes "tx E op w = Ret (r, w')" "w_txn w = Some d" "references_ok d" "tidies op"
  shows "\<exists>d'. w_txn w' = Some d' \<and> references_ok d' \<and> only_tidied d d' \<and> w_db w' = w_db w"
proof (cases "e_fault E (w_tick w)")
  case (Some e)
  with assms show ?thesis by (auto simp: tx_def Let_def)
next
  case None
  with assms(1,2) have "w_txn w' = Some (snd (op d))" "w_db w' = w_db w" by (auto simp: tx_def Let_def split: prod.splits)
  with assms(3,4) show ?thesis by (simp add: tidies_def)
qed

lemma tidy_steps_keep:
  assumes "tidy_steps E steps nbs w = Ret (r, w')" "w_txn w = Some d" "references_ok d" "\<forall>(b, k, s, op) \<in> set steps. tidies op"
  shows "\<exists>d' x. r = Inr x \<and> w_txn w' = Some d' \<and> references_ok d' \<and> only_tidied d d' \<and> w_db w' = w_db w"
  using assms
proof (induction steps arbitrary: nbs w d)
  case Nil
  then show ?case by (auto simp: ok_def)
next
  case (Cons step steps)
  obtain b k s op where step: "step = (b, k, s, op)" by (cases step)
  show ?case
  proof (cases b)
    case False
    with Cons step show ?thesis by simp
  next
    case True
    with Cons.prems(1) step have "handle (tx E op) (\<lambda>r. case r of Inl e \<Rightarrow> ok (Some (WrapE (''tidy '' @ s @ '': '') e []), nbs[k := 0])
        | Inr n \<Rightarrow> tidy_steps E steps (nbs[k := n])) w = Ret (r, w')" by (simp only: tidy_steps.simps not_True_eq_False if_False)
    then obtain r1 w1 where t: "tx E op w = Ret (r1, w1)"
      and rest: "(case r1 of Inl e \<Rightarrow> ok (Some (WrapE (''tidy '' @ s @ '': '') e []), nbs[k := 0])
        | Inr n \<Rightarrow> tidy_steps E steps (nbs[k := n])) w1 = Ret (r, w')"
      unfolding handle_Ret_iff by blast
    from tx_tidies [OF t Cons.prems(2,3)] Cons.prems(4) step obtain d1 where
      d1: "w_txn w1 = Some d1" "references_ok d1" "only_tidied d d1" "w_db w1 = w_db w" by auto
    show ?thesis
    proof (cases r1)
      case (Inl e)
      with rest d1 show ?thesis by (auto simp: ok_def)
    next
      case (Inr n)
      with rest Cons.IH [of "nbs[k := n]" w1 d1] d1 Cons.prems(4) show ?thesis by (auto intro: only_tidied_trans)
    qed
  qed
qed

lemma unitOfWork_var_cases:
  assumes "unitOfWork_var E i f w = Ret (r, w')"
  obtains (no_start) e where "r = Inr (Some e, i)" "w' = w\<lparr>w_tick := Suc (w_tick w)\<rparr>"
    | (failed) e w1 where "f (in_txn w) = Ret (Inl e, w1)" "r = Inl e" "w' = w1"
    | (rolled_back) e a w1 where "f (in_txn w) = Ret (Inr (Some e, a), w1)" "r = Inr (Some (WrapE ''uow.'' e []), a)" "w' = w1\<lparr>w_txn := w_txn w\<rparr>"
    | (no_commit) e a w1 where "f (in_txn w) = Ret (Inr (None, a), w1)" "r = Inr (Some e, a)" "w' = w1\<lparr>w_tick := Suc (w_tick w1), w_txn := w_txn w\<rparr>"
    | (committed) a w1 d where "f (in_txn w) = Ret (Inr (None, a), w1)" "w_txn w1 = Some d" "r = Inr (None, a)"
      "w' = w1\<lparr>w_tick := Suc (w_tick w1), w_db := d, w_txn := map_option (adopt_logs (w_db w1) d) (w_txn w)\<rparr>"
proof (cases "e_fault E (w_tick w)")
  case (Some e)
  with assms show ?thesis
    by (auto intro!: no_start simp: unitOfWork_var_def seq_Ret_iff handle_Ret_iff reading_def start_txn_def ok_def)
next
  case None
  let ?k = "\<lambda>(eo, a). case eo of
               Some e \<Rightarrow> (\<lambda>w2. Ret (Inr (Some (WrapE ''uow.'' e []), a), w2\<lparr>w_txn := w_txn w\<rparr>))
             | None \<Rightarrow> handle (commit_txn E (w_txn w)) (\<lambda>r. ok (case r of Inl e \<Rightarrow> Some e | Inr _ \<Rightarrow> None, a))"
  from None assms have "seq f ?k (in_txn w) = Ret (r, w')"
    by (simp add: unitOfWork_var_def seq_reading_at handle_def [of "start_txn E"] start_txn_def in_txn_def Let_def)
  then obtain r1 w1 where f: "f (in_txn w) = Ret (r1, w1)" and k: "(case r1 of Inl e \<Rightarrow> fails e | Inr a \<Rightarrow> ?k a) w1 = Ret (r, w')"
    unfolding seq_def handle_Ret_iff by blast
  show ?thesis
  proof (cases r1)
    case (Inl e)
    with f k show ?thesis by (auto intro!: failed simp: fails_def)
  next
    case (Inr x)
    obtain eo a where x: "x = (eo, a)" by (cases x)
    show ?thesis
    proof (cases eo)
      case (Some e)
      with f k Inr x show ?thesis by (auto intro!: rolled_back)
    next
      case None
      with k Inr x have c: "handle (commit_txn E (w_txn w)) (\<lambda>r. ok (case r of Inl e \<Rightarrow> Some e | Inr _ \<Rightarrow> None, a)) w1 = Ret (r, w')" by simp
      then obtain d where d: "w_txn w1 = Some d" by (cases "w_txn w1") (auto simp: handle_Ret_iff commit_txn_def Let_def)
      show ?thesis
      proof (cases "e_fault E (w_tick w1)")
        case Some
        with c d f Inr x None show ?thesis by (intro no_commit) (auto simp: handle_Ret_iff commit_txn_def Let_def ok_def)
      next
        case no_fault: None
        with c d f Inr x None show ?thesis by (intro committed) (auto simp: handle_Ret_iff commit_txn_def Let_def ok_def)
      qed
    qed
  qed
qed

lemma end_simulation_eq:
  "end_simulation b (eo, a) = ok (case eo of Some e \<Rightarrow> Some e | None \<Rightarrow> if b then Some errSimulationEnded else None, a)"
  by (cases eo) (simp_all add: end_simulation_def)

lemma simulation_error_eq:
  "simulation_error pre (eo, a) =
     ok (case eo of None \<Rightarrow> None | Some e \<Rightarrow> if errors_Is e errSimulationEnded then None else Some (WrapE pre e []), a)"
  by (cases eo) (simp_all add: simulation_error_def)

lemma uow_is_simulation_end: "errors_Is (WrapE ''uow.'' errSimulationEnded []) errSimulationEnded"
  by (simp add: errors_Is_def errSimulationEnded_def)

text \<open>C23: Tidying is safe, whatever parts are tidied, as a simulation or not, and whatever calls fail: the foreign
  keys keep pointing at rows that are there (datasets to their record, instance and container, records to their
  area, instances to their variable, layouts of containers to both, tasks, locks and logs to their job, locks
  to their dataset), rows only disappear and only from the tidied tables, so no dataset, job, task, lock or
  log changes, and the consolidation parameters of a remaining variable or job stay as they were.\<close>

theorem tidying_keeps_references:
  assumes "TidyPending E F simulate w = Ret (r, w')" and "references_ok (w_db w)" and "w_txn w = None"
  shows "references_ok (w_db w') \<and> only_tidied (w_db w) (w_db w') \<and> w_txn w' = None"
proof -
  let ?steps = "tidy_steps E (tidy_order F) (replicate 6 0)"
  have t: "\<forall>(b, k, s, op) \<in> set (tidy_order F). tidies op" by (simp add: tidy_order_def)
  have body: "\<exists>d' x. r1 = Inr x \<and> w_txn w1 = Some d' \<and> references_ok d' \<and> only_tidied (w_db w) d' \<and> w_db w1 = w_db w"
    if "seq ?steps (end_simulation simulate) (in_txn w) = Ret (r1, w1)" for r1 w1
  proof -
    from that obtain r2 w2 where 2: "?steps (in_txn w) = Ret (r2, w2)"
      and e: "(case r2 of Inl e \<Rightarrow> fails e | Inr a \<Rightarrow> end_simulation simulate a) w2 = Ret (r1, w1)"
      unfolding seq_def handle_Ret_iff by blast
    from tidy_steps_keep [OF 2 _ assms(2) t] obtain d x where "r2 = Inr x" "w_txn w2 = Some d" "references_ok d"
      "only_tidied (w_db w) d" "w_db w2 = w_db w" by (auto simp: in_txn_def)
    with e show ?thesis by (cases x) (auto simp: end_simulation_eq ok_def)
  qed
  from assms(1) obtain r0 w0 where u: "unitOfWork_var E (replicate 6 0) (seq ?steps (end_simulation simulate)) w = Ret (r0, w0)"
    and e: "(case r0 of Inl e \<Rightarrow> fails e | Inr a \<Rightarrow> simulation_error ''TidyPending: '' a) w0 = Ret (r, w')"
    unfolding TidyPending_def seq_def [of "unitOfWork_var E (replicate 6 0) (seq ?steps (end_simulation simulate))"] handle_Ret_iff by blast
  from e have "w' = w0" by (cases r0) (auto simp: fails_def simulation_error_eq ok_def split: prod.splits)
  moreover from u have "references_ok (w_db w0) \<and> only_tidied (w_db w) (w_db w0) \<and> w_txn w0 = None"
    by (cases rule: unitOfWork_var_cases) (use assms body in \<open>auto dest!: body\<close>)
  ultimately show ?thesis by simp
qed

section \<open>Simulations\<close>

definition simulation :: "env \<Rightarrow> 'a \<Rightarrow> (gerr option \<times> 'a) act \<Rightarrow> string \<Rightarrow> bool \<Rightarrow> (gerr option \<times> 'a) act" where
  "simulation E i f pre b = seq (unitOfWork_var E i (seq f (end_simulation b))) (simulation_error pre)"

lemma simulation_cases:
  assumes "simulation E i f pre b w = Ret (r, w')"
  obtains r0 where "unitOfWork_var E i (seq f (end_simulation b)) w = Ret (r0, w')"
    "r = (case r0 of Inl e \<Rightarrow> Inl e | Inr (eo, a) \<Rightarrow>
            Inr (case eo of None \<Rightarrow> None | Some e \<Rightarrow> if errors_Is e errSimulationEnded then None else Some (WrapE pre e []), a))"
proof -
  from assms obtain r0 w0 where 1: "unitOfWork_var E i (seq f (end_simulation b)) w = Ret (r0, w0)"
    "(case r0 of Inl e \<Rightarrow> fails e | Inr a \<Rightarrow> simulation_error pre a) w0 = Ret (r, w')"
    unfolding simulation_def seq_def [of "unitOfWork_var E i (seq f (end_simulation b))"] handle_Ret_iff by blast
  then show ?thesis by (intro that [of r0]) (auto simp: fails_def simulation_error_eq ok_def split: sum.splits prod.splits)
qed

lemma ended:
  assumes "seq f (end_simulation b) w = Ret (Inr (eo, a), w')"
  obtains eo' where "f w = Ret (Inr (eo', a), w')" "eo = (case eo' of Some e \<Rightarrow> Some e | None \<Rightarrow> if b then Some errSimulationEnded else None)"
  using assms by (auto simp: seq_Inr_iff end_simulation_eq ok_def)

lemma end_now: "f w = Ret (Inr (eo, a), w') \<Longrightarrow>
  seq f (end_simulation b) w = Ret (Inr (case eo of Some e \<Rightarrow> Some e | None \<Rightarrow> if b then Some errSimulationEnded else None, a), w')"
  by (simp add: seq_def handle_def end_simulation_eq ok_def)

lemma simulated_unchanged:
  assumes "simulation E i f pre True w = Ret (r, w')" "committed_kept f"
  shows "w_db w' = w_db w"
proof -
  have k: "committed_kept (seq f (end_simulation True))"
    by (rule keeps_seq [OF _ assms(2)]) (auto simp: keeps_def end_simulation_eq ok_def)
  from assms(1) obtain r0 where u: "unitOfWork_var E i (seq f (end_simulation True)) w = Ret (r0, w')" by (rule simulation_cases)
  have db: "w_db w1 = w_db w" if "seq f (end_simulation True) (in_txn w) = Ret (x, w1)" for x w1
    using keepsD [OF k that] by (simp add: in_txn_def)
  from u show ?thesis
  proof (cases rule: unitOfWork_var_cases)
    case (committed a w1 d)
    from ended [OF committed(1)] obtain eo' where "None = (case eo' of Some e \<Rightarrow> Some e | None \<Rightarrow> if True then Some errSimulationEnded else None)" .
    then show ?thesis by (cases eo') simp_all
  next
    case no_commit
    from ended [OF no_commit(1)] obtain eo' where "None = (case eo' of Some e \<Rightarrow> Some e | None \<Rightarrow> if True then Some errSimulationEnded else None)" .
    then show ?thesis by (cases eo') simp_all
  qed (auto dest: db)
qed

lemma unitOfWork_var_start:
  "e_fault E (w_tick w) = None \<Longrightarrow> unitOfWork_var E i g w = seq g (\<lambda>(eo, a). case eo of
       Some e \<Rightarrow> (\<lambda>w2. Ret (Inr (Some (WrapE ''uow.'' e []), a), w2\<lparr>w_txn := w_txn w\<rparr>))
     | None \<Rightarrow> handle (commit_txn E (w_txn w)) (\<lambda>r. ok (case r of Inl e \<Rightarrow> Some e | Inr _ \<Rightarrow> None, a))) (in_txn w)"
  by (simp add: unitOfWork_var_def seq_reading_at handle_def [of "start_txn E"] start_txn_def in_txn_def Let_def)

lemma simulation_agrees:
  assumes "simulation E i f pre False w = Ret (Inr (None, a), w')"
  shows "\<exists>w''. simulation E i f pre True w = Ret (Inr (None, a), w'')"
proof -
  have ends: "\<exists>w''. simulation E i f pre True w = Ret (Inr (None, a), w'')"
    if "unitOfWork_var E i (seq f (end_simulation True)) w = Ret (Inr (Some e, a), w2)" "errors_Is e errSimulationEnded" for e w2
    using that by (simp add: simulation_def seq_def handle_def simulation_error_eq ok_def)
  from assms obtain eo where u: "unitOfWork_var E i (seq f (end_simulation False)) w = Ret (Inr (eo, a), w')"
    and e: "eo = None \<or> (\<exists>e. eo = Some e \<and> errors_Is e errSimulationEnded)"
  proof (rule simulation_cases)
    fix r0
    assume u0: "unitOfWork_var E i (seq f (end_simulation False)) w = Ret (r0, w')"
      and "Inr (None, a) = (case r0 of Inl e \<Rightarrow> Inl e | Inr (eo, a) \<Rightarrow>
            Inr (case eo of None \<Rightarrow> None | Some e \<Rightarrow> if errors_Is e errSimulationEnded then None else Some (WrapE pre e []), a))"
    then obtain eo where "r0 = Inr (eo, a)" "eo = None \<or> (\<exists>e. eo = Some e \<and> errors_Is e errSimulationEnded)"
      by (cases r0) (auto split: option.splits if_splits)
    with u0 show thesis by (intro that [of eo]) simp_all
  qed
  show ?thesis
  proof (cases "e_fault E (w_tick w)")
    case (Some x)
    then have "unitOfWork_var E i g w = Ret (Inr (Some (WrapE ''uow.starttransaction: '' x []), i), w\<lparr>w_tick := Suc (w_tick w)\<rparr>)" for g
      by (simp add: unitOfWork_var_def seq_reading_at handle_def start_txn_def Let_def ok_def)
    note start = this
    from u e have ia: "i = a" and ended: "errors_Is (WrapE ''uow.starttransaction: '' x []) errSimulationEnded" unfolding start by auto
    from start [of "seq f (end_simulation True)"] have "unitOfWork_var E i (seq f (end_simulation True)) w =
      Ret (Inr (Some (WrapE ''uow.starttransaction: '' x []), a), w\<lparr>w_tick := Suc (w_tick w)\<rparr>)" unfolding ia .
    from ends [OF this ended] show ?thesis .
  next
    case None
    from u [unfolded unitOfWork_var_start [OF None]] obtain eo1 a1 w1 where
      g: "seq f (end_simulation False) (in_txn w) = Ret (Inr (eo1, a1), w1)"
      and k: "(case eo1 of Some e \<Rightarrow> (\<lambda>w2. Ret (Inr (Some (WrapE ''uow.'' e []), a1), w2\<lparr>w_txn := w_txn w\<rparr>))
     | None \<Rightarrow> handle (commit_txn E (w_txn w)) (\<lambda>r. ok (case r of Inl e \<Rightarrow> Some e | Inr _ \<Rightarrow> None, a1))) w1 = Ret (Inr (eo, a), w')"
      by (auto simp: seq_Inr_iff)
    from ended [OF g] obtain eo' where f: "f (in_txn w) = Ret (Inr (eo', a1), w1)"
      and "eo1 = (case eo' of Some e \<Rightarrow> Some e | None \<Rightarrow> if False then Some errSimulationEnded else None)" .
    then have eo1: "eo1 = eo'" by (cases eo') simp_all
    have a: "a1 = a" using k by (cases eo1) (auto simp: handle_Ret_iff ok_def)
    define x where "x = (case eo' of Some e \<Rightarrow> e | None \<Rightarrow> errSimulationEnded)"
    have "errors_Is (WrapE ''uow.'' x []) errSimulationEnded"
      using e k eo1 by (cases eo') (auto simp: x_def uow_is_simulation_end)
    moreover have "unitOfWork_var E i (seq f (end_simulation True)) w = Ret (Inr (Some (WrapE ''uow.'' x []), a), w1\<lparr>w_txn := w_txn w\<rparr>)"
      unfolding unitOfWork_var_start [OF None] using end_now [where b = True and f = f and w = "in_txn w", OF f] by (cases eo') (simp_all add: seq_def handle_def x_def a)
    ultimately show ?thesis by (rule ends [rotated])
  qed
qed

lemma tidy_steps_committed [keeps_intros]: "committed_kept (tidy_steps E steps nbs)"
proof (induction steps arbitrary: nbs)
  case (Cons step steps)
  obtain b k s op where "step = (b, k, s, op)" by (cases step)
  with Cons show ?case by (auto intro!: keeps_intros split: sum.splits)
qed (auto intro!: keeps_intros)

lemma update_committed: "committed_kept (handle (tx E op) (\<lambda>r. case r of Inl e \<Rightarrow> ok (Some (WrapE ''UpdateDatasets.'' e []), []) | Inr x \<Rightarrow> ok (None, x)))"
  by (auto intro!: keeps_intros split: sum.splits)

text \<open>C24: A simulation of TidyPending or UpdateDatasets never changes the committed tables, and predicts the real
  run: whenever the real one succeeds, the simulated one succeeds with the same numbers.\<close>

theorem simulations_predict_and_change_nothing:
  "(TidyPending E F True w = Ret (r, w') \<longrightarrow> w_db w' = w_db w) \<and>
   (UpdateDatasets E text True instanceID recordIds dm w = Ret (q, w') \<longrightarrow> w_db w' = w_db w) \<and>
   (TidyPending E F False w = Ret (Inr (None, nbs), w') \<longrightarrow>
      (\<exists>w''. TidyPending E F True w = Ret (Inr (None, nbs), w''))) \<and>
   (UpdateDatasets E text False instanceID recordIds dm w = Ret (Inr (None, results), w') \<longrightarrow>
      (\<exists>w''. UpdateDatasets E text True instanceID recordIds dm w = Ret (Inr (None, results), w'')))"
  unfolding TidyPending_def UpdateDatasets_def simulation_def [symmetric]
  by (intro conjI impI simulated_unchanged [OF _ tidy_steps_committed] simulated_unchanged [OF _ update_committed] simulation_agrees)

section \<open>Cleaning of the jobs\<close>

lemma saved_deletion:
  assumes "saveJob_body E w = Ret (Inr u, w')" "w_txn w = Some d" "j_ps (w_job w) = TODELETE"
  shows "\<exists>d'. w_txn w' = Some d' \<and> db_Jobs d' = filter (\<lambda>r. jr_ID r \<noteq> j_ID (w_job w)) (db_Jobs d)"
proof -
  let ?j = "w_job w"
  from saveJob_body_Inr [OF assms(1,2)] have t: "w_txn w' = Some (saved_tables ?j d)" and del: "deletions_ok ?j d"
    by (simp_all add: create_guard_def)
  from del assms(3) obtain d' where "pg_DeleteJob (j_ID ?j) (before_job_deletion ?j d) = (Inr (), d')"
    by (auto simp: deletions_ok_def ps_tests)
  with assms(3) have "db_Jobs (after_deletions ?j d) = filter (\<lambda>r. jr_ID r \<noteq> j_ID ?j) (db_Jobs d)"
    by (auto simp: after_deletions_def pg_DeleteJob_def pg_delete_def db_Jobs_before ps_tests split: option.splits)
  with assms(3) t show ?thesis
    by (simp add: saved_tables_def table_frames db_Jobs_after_updates db_Jobs_after_creations ps_tests)
qed

lemma tasks_ToDelete_all: "tasks_ToDelete True ts = Ret (b, ts') \<Longrightarrow> b"
  by (induction ts arbitrary: b ts') (auto simp: go_bind_eq_Ret_iff split: if_splits)

lemma release_lock_keeps: "release_lock i j = Ret j' \<Longrightarrow> j_ID j' = j_ID j"
  by (auto simp: release_lock_def go_bind_eq_Ret_iff Let_def split: if_splits)

lemma go_fold_keeps: "(\<And>x a b. f x a = Ret b \<Longrightarrow> g b = g a) \<Longrightarrow> go_fold f xs a = Ret b \<Longrightarrow> g b = g a"
  by (induction xs arbitrary: a) (auto simp: go_bind_eq_Ret_iff)

lemma ReleaseDatasets_keeps: "ReleaseDatasets f j = Ret j' \<Longrightarrow> j_ID j' = j_ID j"
proof (cases "f = LockFlagALL")
  case True
  assume "ReleaseDatasets f j = Ret j'"
  with True have "go_fold release_lock [0..<length (j_LockedDatasets j)] j = Ret j'" by (simp add: ReleaseDatasets_def)
  then show ?thesis by (rule go_fold_keeps [rotated]) (rule release_lock_keeps)
qed (auto simp: ReleaseDatasets_def dest: release_lock_keeps)

lemma ToDelete_flags: "job_ToDelete all j = Ret (b, j') \<Longrightarrow> j_ID j' = j_ID j \<and> (b \<longrightarrow> j_ps j' = TODELETE) \<and> (all \<longrightarrow> b)"
  by (auto simp: job_ToDelete_def go_bind_eq_Ret_iff ps_toDelete_def split: prod.splits if_splits
      dest!: ReleaseDatasets_keeps tasks_ToDelete_all)

lemma flag_deleted_flags: "flag_deleted j = Ret j' \<Longrightarrow> j_ID j' = j_ID j \<and> j_ps j' = TODELETE"
  by (auto simp: flag_deleted_def go_bind_eq_Ret_iff split: prod.splits if_splits dest!: ToDelete_flags)

lemma job_Clean_ID: "job_Clean b j = Ret j' \<Longrightarrow> j_ID j' = j_ID j"
  by (auto simp: job_Clean_def go_bind_eq_Ret_iff split: if_splits)

lemma with_job_Inr: "with_job j m w = Ret (Inr a, w') \<longleftrightarrow> (\<exists>w1. m (w\<lparr>w_job := j\<rparr>) = Ret (Inr a, w1) \<and> w' = w1\<lparr>w_job := w_job w\<rparr>)"
  by (auto simp: with_job_def seq_Inr_iff reading_def set_job_def handle_Ret_iff lift_result_def)

text \<open>A job is cleaned in one transaction: its row is gone, the other rows are there; or nothing is changed.\<close>

lemma dbx_reads [keeps_intros]: "(\<And>d. snd (op d) = d) \<Longrightarrow> committed_kept (dbx E op)"
  by (rule keepsI) (auto simp: dbx_def Let_def split: option.splits prod.splits, metis snd_conv)

lemma with_job_committed:
  assumes "committed_kept m" shows "committed_kept (with_job j m)"
proof (rule keepsI)
  fix w r w' assume "with_job j m w = Ret (r, w')"
  then obtain r1 w1 where m: "m (w\<lparr>w_job := j\<rparr>) = Ret (r1, w1)" and "w' = w1\<lparr>w_job := w_job w\<rparr>"
    by (auto simp: with_job_def seq_Ret_iff reading_def set_job_def handle_Ret_iff lift_result_def split: sum.splits)
  with keepsD [OF assms m] show "w_db w' = w_db w" by simp
qed

definition cleaning :: "env \<Rightarrow> string \<Rightarrow> unit act" where
  "cleaning E jobID =
     seq (wrap ''CleanJobs.'' (dbx E (pg_ReadJob jobID))) (\<lambda>job.
     seq (wrap ''CleanJobs.'' (dbx E (pg_ReadTasks jobID None))) (\<lambda>tasks.
     seq (lift_go (job_Clean True (job\<lparr>j_Tasks := tasks\<rparr>))) (\<lambda>job.
     with_job job (seq (on_job flag_deleted) (\<lambda>_. wrap ''CleanJobs.'' (saveJob E True))))))"

lemma clean_job_eq: "clean_job E i = unitOfWork E (cleaning E i)"
  by (simp add: clean_job_def cleaning_def)

lemma cleaning_committed: "committed_kept (cleaning E i)"
  unfolding cleaning_def
  by (intro keeps_intros with_job_committed) (simp_all add: pg_ReadJob_def pg_ReadTasks_def)

lemma cleaning_rows:
  assumes "cleaning E i w = Ret (Inr u, w')" and "w_txn w = Some (w_db w)"
  shows "\<exists>d. w_txn w' = Some d \<and> db_Jobs d = filter (\<lambda>x. jr_ID x \<noteq> i) (db_Jobs (w_db w))"
proof -
  from assms(1) obtain j w1 ts w2 j1 w3 w4 where 1: "dbx E (pg_ReadJob i) w = Ret (Inr j, w1)"
    and 2: "dbx E (pg_ReadTasks i None) w1 = Ret (Inr ts, w2)" and 3: "job_Clean True (j\<lparr>j_Tasks := ts\<rparr>) = Ret j1"
    and 4: "on_job flag_deleted (w2\<lparr>w_job := j1\<rparr>) = Ret (Inr (), w3)" and 5: "saveJob E True w3 = Ret (Inr u, w4)" and 6: "w_txn w' = w_txn w4"
    unfolding cleaning_def seq_Inr_iff wrap_Inr_iff with_job_Inr lift_go_def by (auto simp: go_bind_eq_Ret_iff)
  from dbx_Inr [OF 1] dbx_Inr [OF 2] have t: "w_txn w2 = Some (w_db w)" and "j_ID j = i"
    using assms(2) by (auto simp: pg_ReadJob_def find_job_def job_of_row_def NewJob_def find_Some_iff split: option.splits)
  with job_Clean_ID [OF 3] have "j_ID j1 = i" by simp
  with 4 obtain j2 where j2: "w3 = w2\<lparr>w_job := j2\<rparr>" "j_ID j2 = i" "j_ps j2 = TODELETE"
    by (auto simp: on_job_Inr dest!: flag_deleted_flags)
  from saved_deletion [of E w3 u w4 "w_db w"] 5 6 t j2 show ?thesis by (simp add: saveJob_def)
qed

lemma clean_job_rows:
  assumes "clean_job E i w = Ret (r, w')" and "w_txn w = None"
  shows "w_txn w' = None \<and> db_Jobs (w_db w') = (case r of Inl _ \<Rightarrow> db_Jobs (w_db w) | Inr _ \<Rightarrow> filter (\<lambda>x. jr_ID x \<noteq> i) (db_Jobs (w_db w)))"
proof -
  from assms(1) have u: "unitOfWork E (cleaning E i) w = Ret (r, w')" by (simp add: clean_job_eq)
  have k: "w_db w1 = w_db w" if "cleaning E i (in_txn w) = Ret (x, w1)" for x w1
    using keepsD [OF cleaning_committed that] by (simp add: in_txn_def)
  from u show ?thesis
  proof (cases rule: unitOfWork_cases)
    case (committed a w1 d)
    from cleaning_rows [OF committed(1)] committed assms(2) show ?thesis by (simp add: in_txn_def)
  next
    case no_start
    then show ?thesis by (simp add: assms(2))
  next
    case (rolled_back e w1)
    from k [OF rolled_back(1)] rolled_back(2,3) show ?thesis by (simp add: assms(2))
  next
    case (no_commit e a w1)
    from k [OF no_commit(1)] no_commit(3,4) show ?thesis by (simp add: assms(2))
  qed
qed

text \<open>The loop: the rows that go are those of the jobs cleaned, as many as are counted.\<close>

lemma clean_jobs_rows:
  assumes "clean_jobs E ids n err w = Ret (Inr (m, err'), w')" and "w_txn w = None"
  shows "\<exists>gone. set gone \<subseteq> set ids \<and> length gone \<le> length ids \<and> m = n + int (length gone) \<and> (distinct ids \<longrightarrow> distinct gone) \<and>
     db_Jobs (w_db w') = filter (\<lambda>x. jr_ID x \<notin> set gone) (db_Jobs (w_db w)) \<and> (length gone < length ids \<longrightarrow> err' \<noteq> None) \<and>
     (err \<noteq> None \<longrightarrow> err' \<noteq> None)"
  using assms
proof (induction ids arbitrary: n err w)
  case Nil
  then show ?case by (auto simp: ok_def)
next
  case (Cons i ids)
  from Cons.prems(1) obtain r w1 where c: "clean_job E i w = Ret (r, w1)"
    and rest: "(case r of Inl e \<Rightarrow> clean_jobs E ids n (MergeErrors True err [Some (PlainE (''unable to delete job '' @ i @ '': '' @ ErrorMsg e))])
       | Inr _ \<Rightarrow> clean_jobs E ids (n + 1) err) w1 = Ret (Inr (m, err'), w')"
    unfolding clean_jobs.simps handle_Ret_iff by blast
  from clean_job_rows [OF c Cons.prems(2)] have t: "w_txn w1 = None" and
    j: "db_Jobs (w_db w1) = (case r of Inl _ \<Rightarrow> db_Jobs (w_db w) | Inr _ \<Rightarrow> filter (\<lambda>x. jr_ID x \<noteq> i) (db_Jobs (w_db w)))" by simp_all
  show ?case
  proof (cases r)
    case (Inl e)
    from rest have "clean_jobs E ids n (MergeErrors True err [Some (PlainE (''unable to delete job '' @ i @ '': '' @ ErrorMsg e))]) w1 = Ret (Inr (m, err'), w')"
      unfolding Inl by simp
    from Cons.IH [OF this t] obtain gone where g: "set gone \<subseteq> set ids" "length gone \<le> length ids" "m = n + int (length gone)"
      "distinct ids \<longrightarrow> distinct gone" "db_Jobs (w_db w') = filter (\<lambda>x. jr_ID x \<notin> set gone) (db_Jobs (w_db w1))"
      "MergeErrors True err [Some (PlainE (''unable to delete job '' @ i @ '': '' @ ErrorMsg e))] \<noteq> None \<longrightarrow> err' \<noteq> None" by blast
    from g(6) have "err' \<noteq> None" by (cases err) simp_all
    moreover have "db_Jobs (w_db w1) = db_Jobs (w_db w)" using j unfolding Inl by simp
    ultimately show ?thesis using g(1-5) by (intro exI [of _ gone]) (simp add: subset_insertI2)
  next
    case (Inr u)
    from rest have "clean_jobs E ids (n + 1) err w1 = Ret (Inr (m, err'), w')" unfolding Inr by simp
    from Cons.IH [OF this t] obtain gone where g: "set gone \<subseteq> set ids" "length gone \<le> length ids" "m = n + 1 + int (length gone)"
      "distinct ids \<longrightarrow> distinct gone" "db_Jobs (w_db w') = filter (\<lambda>x. jr_ID x \<notin> set gone) (db_Jobs (w_db w1))"
      "length gone < length ids \<longrightarrow> err' \<noteq> None" "err \<noteq> None \<longrightarrow> err' \<noteq> None"
      by (elim exE conjE) (rule that; assumption)
    moreover have "filter (\<lambda>x. jr_ID x \<notin> set gone) (db_Jobs (w_db w1)) = filter (\<lambda>x. jr_ID x \<notin> set (i # gone)) (db_Jobs (w_db w))"
      unfolding j Inr by (auto intro: filter_cong)
    ultimately show ?thesis by (intro exI [of _ "i # gone"] conjI impI) (simp_all, blast+)
  qed
qed

text \<open>C25: Cleaning deletes finished jobs and nothing else: the rows of the jobs that are left are untouched, each row
  that is gone was that of a job with the wanted name in a wanted state, their number is the one returned, and
  if some selected job is still there an error is returned.\<close>

theorem cleaning_is_exact:
  assumes "CleanJobs E nameLike state w = Ret (Inr (n, err), w')" and "w_txn w = None" and "jobs.keyed (w_db w)"
  shows "\<exists>gone. db_Jobs (w_db w') = filter (\<lambda>x. jr_ID x \<notin> set gone) (db_Jobs (w_db w)) \<and> n = int (length gone) \<and> distinct gone \<and>
     (\<forall>i \<in> set gone. \<exists>r \<in> set (db_Jobs (w_db w)). jr_ID r = i \<and> job_name_matches nameLike r \<and>
        (case state of None \<Rightarrow> jr_State r = JobStateDONE \<or> jr_State r = JobStateFAILED | Some s \<Rightarrow> jr_State r = s)) \<and>
     (err = None \<longrightarrow> set gone = {jr_ID r | r. r \<in> set (db_Jobs (w_db w)) \<and> job_name_matches nameLike r \<and>
        (case state of None \<Rightarrow> jr_State r = JobStateDONE \<or> jr_State r = JobStateFAILED | Some s \<Rightarrow> jr_State r = s)})"
proof -
  let ?states = "case state of None \<Rightarrow> [JobStateDONE, JobStateFAILED] | Some s \<Rightarrow> [s]"
  let ?sel = "\<lambda>r. jr_State r \<in> set ?states \<and> job_name_matches nameLike r"
  let ?ids = "map jr_ID (filter ?sel (db_Jobs (w_db w)))"
  from assms(1) obtain ids w1 where l: "dbx E (pg_ListJobsID nameLike ?states) w = Ret (Inr ids, w1)"
    and c: "clean_jobs E ids 0 None w1 = Ret (Inr (n, err), w')" by (auto simp: CleanJobs_def seq_Inr_iff)
  from dbx_Inr [OF l] assms(2) have ids: "ids = ?ids" and w1: "w_db w1 = w_db w" "w_txn w1 = None"
    by (auto simp: pg_ListJobsID_def)
  from clean_jobs_rows [OF c w1(2)] obtain gone where g: "set gone \<subseteq> set ids" "length gone \<le> length ids" "n = 0 + int (length gone)"
    "distinct ids \<longrightarrow> distinct gone" "db_Jobs (w_db w') = filter (\<lambda>x. jr_ID x \<notin> set gone) (db_Jobs (w_db w))"
    "length gone < length ids \<longrightarrow> err \<noteq> None" unfolding w1 by blast
  have "distinct ids" using assms(3) unfolding ids jobs.keyed_def by (rule distinct_map_filter)
  with g have d: "distinct gone" by simp
  have s: "jr_State r \<in> set ?states \<longleftrightarrow> (case state of None \<Rightarrow> jr_State r = JobStateDONE \<or> jr_State r = JobStateFAILED | Some s \<Rightarrow> jr_State r = s)" for r
    by (cases state) simp_all
  have "set gone = set ids" if "err = None"
    using that g(1,2,6) d \<open>distinct ids\<close> by (intro card_subset_eq) (auto simp: distinct_card)
  then have "err = None \<longrightarrow> set gone = {jr_ID r | r. r \<in> set (db_Jobs (w_db w)) \<and> job_name_matches nameLike r \<and> jr_State r \<in> set ?states}"
    unfolding ids by auto
  moreover have "\<forall>i \<in> set gone. \<exists>r \<in> set (db_Jobs (w_db w)). jr_ID r = i \<and> job_name_matches nameLike r \<and> jr_State r \<in> set ?states"
    using g(1) unfolding ids by auto
  ultimately show ?thesis unfolding s using g(3,5) d by (intro exI [of _ gone]) simp
qed

section \<open>Witnesses\<close>

definition maintenance_db :: db where
  "maintenance_db =
     (sample_db JobTypeCONSOLIDATION JobStateDONE)
       \<lparr>db_Records := [(''r1'', 0), (''r2'', 0)], db_RecordAOI := (\<lambda>i. if i = ''r1'' then ''a1'' else ''a2''),
        db_AOIs := [''a1'', ''a2'', ''a3''], db_Variables := [sample_variable], db_Params := [(''v1'', empty_params), (''v2'', empty_params)],
        db_Instances := [\<lparr>ir_Instance = \<lparr>vi_ps = CLEAN, vi_ID = ''i1'', vi_Name = ''n'', vi_Metadata = []\<rparr>, ir_DefinitionID = v_ID sample_variable\<rparr>]\<rparr>"

definition maintenance_world :: world where
  "maintenance_world = sample_world maintenance_db (NewJob [])"

definition everything :: tidy_flags where
  "everything = \<lparr>tf_aois = True, tf_records = True, tf_variables = True, tf_instances = True, tf_containers = True, tf_params = True\<rparr>"

definition answer :: "((gerr + 'a) \<times> world) go \<Rightarrow> 'a option" where
  "answer m = (case m of Ret (Inr a, _) \<Rightarrow> Some a | _ \<Rightarrow> None)"

lemma answer_Some: "answer m = Some a \<longleftrightarrow> (\<exists>w. m = Ret (Inr a, w))"
  by (auto simp: answer_def split: go.splits sum.splits)

lemma maintenance_facts: "references_ok maintenance_db" "w_txn maintenance_world = None" "w_db maintenance_world = maintenance_db"
  "jobs.keyed maintenance_db"
  by (code_simp, simp_all add: maintenance_world_def sample_world_def jobs.keyed_def maintenance_db_def sample_db_def)

lemma tidy_answer: "answer (TidyPending sample_env everything False maintenance_world) = Some (None, [2, 1, 0, 0, 0, 1])"
  by code_simp

lemma clean_answer: "answer (CleanJobs sample_env [] None maintenance_world) = Some (1, None)"
  by code_simp

theorem tidying_keeps_references_witness:
  "\<exists>w'. TidyPending sample_env everything False maintenance_world = Ret (Inr (None, [2, 1, 0, 0, 0, 1]), w') \<and> references_ok (w_db w')"
proof -
  from tidy_answer obtain w' where w': "TidyPending sample_env everything False maintenance_world = Ret (Inr (None, [2, 1, 0, 0, 0, 1]), w')"
    unfolding answer_Some by blast
  from tidying_keeps_references [OF this] maintenance_facts w' show ?thesis by simp
qed

theorem simulations_predict_and_change_nothing_witness:
  "\<exists>w'. TidyPending sample_env everything True maintenance_world = Ret (Inr (None, [2, 1, 0, 0, 0, 1]), w') \<and> w_db w' = maintenance_db"
proof -
  from tidy_answer obtain w1 where w1: "TidyPending sample_env everything False maintenance_world = Ret (Inr (None, [2, 1, 0, 0, 0, 1]), w1)"
    unfolding answer_Some by blast
  with simulations_predict_and_change_nothing obtain w' where
    w': "TidyPending sample_env everything True maintenance_world = Ret (Inr (None, [2, 1, 0, 0, 0, 1]), w')" by blast
  with simulations_predict_and_change_nothing maintenance_facts(3) have "w_db w' = maintenance_db" by metis
  with w' show ?thesis by blast
qed

theorem cleaning_is_exact_witness:
  "\<exists>w'. CleanJobs sample_env [] None maintenance_world = Ret (Inr (1, None), w') \<and> db_Jobs (w_db w') = []"
proof -
  from clean_answer obtain w' where w': "CleanJobs sample_env [] None maintenance_world = Ret (Inr (1, None), w')"
    unfolding answer_Some by blast
  have "jobs.keyed (w_db maintenance_world)" by (simp add: maintenance_facts)
  from cleaning_is_exact [OF w' maintenance_facts(2) this] obtain gone where
    g: "db_Jobs (w_db w') = filter (\<lambda>x. jr_ID x \<notin> set gone) (db_Jobs (w_db maintenance_world))" "1 = int (length gone)"
    and s: "\<forall>i \<in> set gone. \<exists>r \<in> set (db_Jobs (w_db maintenance_world)). jr_ID r = i"
    by (elim exE conjE) (rule that, assumption, assumption, blast)
  have "gone = [''j1'']" using g(2) s
    by (auto simp: maintenance_facts maintenance_db_def sample_db_def sample_job_row_def length_Suc_conv)
  with g have "db_Jobs (w_db w') = []" by (simp add: maintenance_facts maintenance_db_def sample_db_def sample_job_row_def)
  with w' show ?thesis by blast
qed

end
