(* ===== verification/OrdersProps.thy ===== *)
theory OrdersProps
  imports Orders ContainersProps SortLemmas
begin

text \<open>
  Properties of the choice, the order and the batches of the datasets of a cell.
\<close>

section \<open>Excluding full containers\<close>

lemma run_le: "run uri ds \<le> length ds"
  by (induction ds) auto

lemma run_same: "d \<in> set (take (run uri ds) ds) \<Longrightarrow> \<not> cs_Consolidation d \<and> cd_URI (cs_Event d) = uri"
  by (induction ds) (auto split: if_splits)

definition exclude_potential :: "nat \<Rightarrow> nat \<Rightarrow> CsldDataset list \<Rightarrow> nat" where
  "exclude_potential N i ds = length ds * (N + 1) + (length ds - i)"

lemma exclude_shorter:
  assumes "ii \<le> i" "i + n \<le> length ds" "0 < n" "length ds \<le> N"
  shows "exclude_potential N ii (take ii ds @ drop (i + n) ds) < exclude_potential N i ds"
proof -
  have l: "length (take ii ds @ drop (i + n) ds) \<le> length ds - 1" using assms by simp
  then have "length (take ii ds @ drop (i + n) ds) * (N + 1) \<le> (length ds - 1) * (N + 1)" by (rule mult_le_mono1)
  moreover have "(length ds - 1) * (N + 1) + (N + 1) = length ds * (N + 1)"
    using assms by (cases "length ds") auto
  moreover have "length (take ii ds @ drop (i + n) ds) - ii \<le> N" using l assms by linarith
  ultimately show ?thesis unfolding exclude_potential_def by linarith
qed

lemma exclude_loop_ends:
  "maxRecords \<noteq> 0 \<Longrightarrow> ii \<le> i \<Longrightarrow> length ds \<le> N \<Longrightarrow> exclude_potential N i ds \<le> fuel \<Longrightarrow>
   \<exists>r. exclude_loop fuel maxRecords ii i ds = Some r"
proof (induction fuel arbitrary: ii i ds)
  case 0
  then show ?case by (auto simp: exclude_loop.simps exclude_potential_def)
next
  case (Suc fuel)
  define n where "n = run (cd_URI (cs_Event (ds ! ii))) (drop i ds)"
  show ?case
  proof (cases "length ds \<le> i")
    case True
    then show ?thesis by (simp add: exclude_loop.simps)
  next
    case False
    have n: "i + n \<le> length ds" using run_le [of "cd_URI (cs_Event (ds ! ii))" "drop i ds"] False by (simp add: n_def)
    show ?thesis
    proof (cases "int n = maxRecords")
      case True
      with Suc.prems have "0 < n" by auto
      with exclude_shorter [OF Suc.prems(2) n _ Suc.prems(3)] Suc.prems(4)
      have "exclude_potential N ii (take ii ds @ drop (i + n) ds) \<le> fuel" by simp
      moreover have "length (take ii ds @ drop (i + n) ds) \<le> N" using Suc.prems(2,3) n by simp
      ultimately have "\<exists>r. exclude_loop fuel maxRecords ii ii (take ii ds @ drop (i + n) ds) = Some r"
        using Suc.IH [of ii ii] Suc.prems(1) by simp
      then show ?thesis using False True by (simp add: exclude_loop.simps [of "Suc fuel"] n_def Let_def)
    next
      case no: False
      have "exclude_potential N (Suc (i + n)) ds \<le> fuel"
        using Suc.prems(4) False n by (auto simp: exclude_potential_def)
      then have "\<exists>r. exclude_loop fuel maxRecords (i + n) (Suc (i + n)) ds = Some r"
        using Suc.IH [of "i + n" "Suc (i + n)" ds] Suc.prems(1,3) by simp
      then show ?thesis using False no by (simp add: exclude_loop.simps [of "Suc fuel"] n_def Let_def)
    qed
  qed
qed

lemma exclude_fuel_enough: "exclude_potential (length ds) 0 ds \<le> exclude_fuel ds"
  by (simp add: exclude_potential_def exclude_fuel_def)

lemma exclude_loop_stuck:
  "cs_Consolidation d \<Longrightarrow> exclude_loop fuel 0 0 0 (d # ds) = None"
  by (induction fuel) (simp_all add: exclude_loop.simps Let_def)

text \<open>C21: The loop that excludes the full containers ends within exclude_fuel turns for every list of datasets
  when the layout allows at least one record per container; with zero records per container it never ends
  on a list that begins with a dataset to consolidate.\<close>

theorem exclude_full_containers_ends:
  "(maxRecords \<noteq> 0 \<longrightarrow> (\<exists>r. csldPrepareOrdersExcludeFullContainers (exclude_fuel ds) ds maxRecords = Some r)) \<and>
   (ds \<noteq> [] \<and> cs_Consolidation (hd ds) \<longrightarrow> csldPrepareOrdersExcludeFullContainers fuel ds 0 = None)"
proof (intro conjI impI)
  assume "maxRecords \<noteq> 0"
  then show "\<exists>r. csldPrepareOrdersExcludeFullContainers (exclude_fuel ds) ds maxRecords = Some r"
    unfolding csldPrepareOrdersExcludeFullContainers_def
    by (intro exclude_loop_ends [where N = "length ds"] exclude_fuel_enough) auto
next
  assume "ds \<noteq> [] \<and> cs_Consolidation (hd ds)"
  then show "csldPrepareOrdersExcludeFullContainers fuel ds 0 = None"
    by (cases ds) (auto simp: csldPrepareOrdersExcludeFullContainers_def exclude_loop_stuck)
qed

definition sample_csld :: "string \<Rightarrow> bool \<Rightarrow> CsldDataset" where
  "sample_csld uri b = \<lparr>cs_ID = ''d'' @ uri, cs_Event = \<lparr>cd_URI = uri, cd_Subdir = [], cd_Bands = [1], cd_Overviews = False,
     cd_DatasetFormat = sample_mapping\<rparr>, cs_Consolidation = b, cs_RecordID = ''r''\<rparr>"

theorem exclude_full_containers_ends_witness:
  "(\<exists>r. csldPrepareOrdersExcludeFullContainers (exclude_fuel [sample_csld ''a'' True]) [sample_csld ''a'' True] 2 = Some r) \<and>
   csldPrepareOrdersExcludeFullContainers 100 [sample_csld ''a'' True] 0 = None"
  using exclude_full_containers_ends [of 2 "[sample_csld ''a'' True]"] exclude_full_containers_ends [of 0 "[sample_csld ''a'' True]" 100]
  by (simp add: sample_csld_def)

text \<open>What the loop removes: blocks of one container none of whose datasets must be consolidated.\<close>

definition flags_agree :: "CsldDataset list \<Rightarrow> bool" where
  "flags_agree ds \<longleftrightarrow> (\<forall>a \<in> set ds. \<forall>b \<in> set ds. cd_URI (cs_Event a) = cd_URI (cs_Event b) \<longrightarrow> cs_Consolidation a = cs_Consolidation b)"

definition one_container :: "CsldDataset list \<Rightarrow> bool" where
  "one_container block \<longleftrightarrow> (\<forall>a \<in> set block. \<not> cs_Consolidation a \<and> cd_URI (cs_Event a) = cd_URI (cs_Event (hd block)))"

inductive excluded :: "nat \<Rightarrow> CsldDataset list \<Rightarrow> CsldDataset list \<Rightarrow> bool" for m where
  ex_none: "excluded m ds ds"
| ex_block: "excluded m (xs @ ys) r \<Longrightarrow> one_container block \<Longrightarrow> m \<le> length block \<Longrightarrow> length block \<le> m + 1 \<Longrightarrow>
    excluded m (xs @ block @ ys) r"

lemma excluded_keeps:
  "excluded m ds r \<Longrightarrow> subseq r ds \<and> filter cs_Consolidation r = filter cs_Consolidation ds"
proof (induction rule: excluded.induct)
  case (ex_block xs ys r block)
  have "filter cs_Consolidation block = []" using ex_block.hyps(2) by (auto simp: one_container_def filter_empty_conv)
  moreover have "subseq (xs @ ys) (xs @ block @ ys)" by (intro list_emb_append_mono) auto
  ultimately show ?case using ex_block.IH by (auto intro: subseq_order.trans)
qed simp

lemma exclude_block:
  assumes ii: "ii \<le> i" "i \<le> Suc ii" and i: "i < length ds" and n: "0 < run (cd_URI (cs_Event (ds ! ii))) (drop i ds)"
    (is "0 < ?n") and agree: "flags_agree ds"
  shows "\<exists>block. ds = take ii ds @ block @ drop (i + ?n) ds \<and> one_container block \<and> ?n \<le> length block \<and> length block \<le> ?n + 1"
proof -
  let ?u = "cd_URI (cs_Event (ds ! ii))"
  define block where "block = drop ii (take (i + ?n) ds)"
  have n': "i + ?n \<le> length ds" using run_le [of ?u "drop i ds"] i by simp
  have ds: "ds = take ii ds @ block @ drop (i + ?n) ds"
    using ii(1) unfolding block_def by (metis append_take_drop_id le_add1 order_trans take_take min.absorb1 append_assoc)
  have l: "length block = i + ?n - ii" using n' by (simp add: block_def)
  have hd: "block \<noteq> []" "hd block = ds ! ii" using l n ii n' by (auto simp: block_def hd_drop_conv_nth)
  have "drop (i - ii) block = take ?n (drop i ds)" using ii(1) by (simp add: block_def drop_take)
  then have tail: "\<not> cs_Consolidation a \<and> cd_URI (cs_Event a) = ?u" if "a \<in> set (drop (i - ii) block)" for a
    using that run_same [of a ?u "drop i ds"] by simp
  have sub: "set block \<subseteq> set ds" by (auto simp: block_def dest!: in_set_dropD in_set_takeD)
  obtain z where z: "z \<in> set (drop (i - ii) block)" using l n ii by (cases "drop (i - ii) block") auto
  have "z \<in> set ds" "ds ! ii \<in> set ds" using z hd sub by (auto dest: in_set_dropD) (metis hd_in_set subset_iff)
  with z tail agree have head: "\<not> cs_Consolidation (ds ! ii)" unfolding flags_agree_def by metis
  have "i = ii \<or> take (i - ii) block = [ds ! ii]" using ii hd by (cases block) (auto simp: le_Suc_eq)
  moreover have "set block = set (take (i - ii) block) \<union> set (drop (i - ii) block)"
    by (metis append_take_drop_id set_append)
  ultimately have "one_container block" unfolding one_container_def using head tail hd by auto
  with ds l n ii show ?thesis by (intro exI [of _ block]) auto
qed

lemma flags_agree_remove: "flags_agree ds \<Longrightarrow> flags_agree (take a ds @ drop b ds)"
  by (auto simp: flags_agree_def dest!: in_set_takeD in_set_dropD)

lemma exclude_loop_excluded:
  "exclude_loop fuel (int m) ii i ds = Some r \<Longrightarrow> 0 < m \<Longrightarrow> flags_agree ds \<Longrightarrow> ii \<le> i \<Longrightarrow> i \<le> Suc ii \<Longrightarrow> excluded m ds r"
proof (induction fuel arbitrary: ii i ds)
  case 0
  then show ?case by (auto simp: exclude_loop.simps intro: ex_none split: if_splits)
next
  case (Suc fuel)
  define n where "n = run (cd_URI (cs_Event (ds ! ii))) (drop i ds)"
  consider "length ds \<le> i" | "i < length ds" "n = m" | "i < length ds" "n \<noteq> m" by linarith
  then show ?case
  proof cases
    case 1
    with Suc.prems show ?thesis by (auto simp: exclude_loop.simps intro: ex_none)
  next
    case 2
    then have "exclude_loop fuel (int m) ii ii (take ii ds @ drop (i + n) ds) = Some r"
      using Suc.prems(1) by (simp add: exclude_loop.simps [of "Suc fuel"] n_def Let_def)
    then have "excluded m (take ii ds @ drop (i + n) ds) r"
      by (rule Suc.IH) (use Suc.prems flags_agree_remove in auto)
    moreover from exclude_block [OF Suc.prems(4,5) 2(1) _ Suc.prems(3)] 2(2) Suc.prems(2)
    obtain block where "ds = take ii ds @ block @ drop (i + n) ds" "one_container block" "m \<le> length block" "length block \<le> m + 1"
      by (auto simp: n_def)
    ultimately show ?thesis using ex_block by metis
  next
    case 3
    then have "exclude_loop fuel (int m) (i + n) (Suc (i + n)) ds = Some r"
      using Suc.prems(1) by (simp add: exclude_loop.simps [of "Suc fuel"] n_def Let_def)
    then show ?thesis by (rule Suc.IH) (use Suc.prems in auto)
  qed
qed

text \<open>Excluding full containers never drops a dataset that must be consolidated: when the flags depend on
  the container, the result is a subsequence with all those datasets, obtained by removing blocks of one
  unchanged container, of maxRecords datasets or one more.\<close>

theorem exclude_full_containers_keeps:
  assumes "csldPrepareOrdersExcludeFullContainers fuel ds (int m) = Some r" and "0 < m" and "flags_agree ds"
  shows "excluded m ds r \<and> subseq r ds \<and> filter cs_Consolidation r = filter cs_Consolidation ds"
  using exclude_loop_excluded [of fuel m 0 0 ds r] excluded_keeps [of m ds r] assms
  by (auto simp: csldPrepareOrdersExcludeFullContainers_def)

theorem exclude_full_containers_keeps_witness:
  "let ds = [sample_csld ''a'' False, sample_csld ''a'' False, sample_csld ''b'' True]
   in csldPrepareOrdersExcludeFullContainers (exclude_fuel ds) ds 2 = Some [sample_csld ''b'' True] \<and>
      excluded 2 ds [sample_csld ''b'' True]"
proof -
  let ?ds = "[sample_csld ''a'' False, sample_csld ''a'' False, sample_csld ''b'' True]"
  have r: "csldPrepareOrdersExcludeFullContainers (exclude_fuel ?ds) ?ds (int 2) = Some [sample_csld ''b'' True]"
    by code_simp
  have "flags_agree ?ds" by (simp add: flags_agree_def sample_csld_def)
  with exclude_full_containers_keeps [OF r] r show ?thesis by simp
qed

text \<open>A full container is seen only at the head of what is left: behind a dataset of another container the
  counting starts at its second dataset.\<close>

definition all_in :: "string \<Rightarrow> CsldDataset list \<Rightarrow> bool" where
  "all_in uri ds \<longleftrightarrow> list_all (\<lambda>d. \<not> cs_Consolidation d \<and> cd_URI (cs_Event d) = uri) ds"

lemma run_all_in: "all_in uri ds \<Longrightarrow> run uri ds = length ds"
  by (induction ds) (auto simp: all_in_def)

lemma run_other: "all_in uri ds \<Longrightarrow> uri \<noteq> u \<Longrightarrow> run u ds = 0"
  by (cases ds) (auto simp: all_in_def)

lemma exclude_alone:
  assumes "all_in uri ds" "ds \<noteq> []" "0 < fuel"
  shows "exclude_loop fuel (int (length ds)) 0 0 ds = Some []"
proof -
  from assms(3) obtain f where f: "fuel = Suc f" by (cases fuel) auto
  have "cd_URI (cs_Event (ds ! 0)) = uri" using assms(1,2) by (cases ds) (auto simp: all_in_def)
  then have "run (cd_URI (cs_Event (ds ! 0))) (drop 0 ds) = length ds" using run_all_in [OF assms(1)] by simp
  then show ?thesis using assms(2) by (simp add: f exclude_loop.simps [of "Suc f"] exclude_loop.simps [of f _ _ _ "[]"] Let_def)
qed

lemma exclude_behind:
  assumes ys: "all_in uri ys" "ys \<noteq> []" and x: "cd_URI (cs_Event x) \<noteq> uri" "cs_Consolidation x" and "3 \<le> fuel"
  shows "exclude_loop fuel (int (length ys)) 0 0 (x # ys) = Some (x # ys)"
proof -
  from \<open>3 \<le> fuel\<close> obtain f where f: "fuel = Suc (Suc (Suc f))" by (metis Suc_le_D numeral_3_eq_3 Suc_le_mono)
  obtain y zs where y: "ys = y # zs" using ys(2) by (cases ys) auto
  have u: "cd_URI (cs_Event y) = uri" "all_in uri zs" using ys(1) y by (auto simp: all_in_def)
  have r: "run uri zs = length zs" "run (cd_URI (cs_Event x)) ys = 0" using run_all_in u run_other ys x by metis+
  have 1: "exclude_loop fuel (int (length ys)) 0 0 (x # ys) = exclude_loop (Suc (Suc f)) (int (length ys)) 0 1 (x # ys)"
    using x(2) y by (simp add: f exclude_loop.simps [of "Suc (Suc (Suc f))"] Let_def)
  have 2: "\<dots> = exclude_loop (Suc f) (int (length ys)) 1 2 (x # ys)"
    using r(2) y by (simp add: exclude_loop.simps [of "Suc (Suc f)"] Let_def numeral_2_eq_2)
  have 3: "\<dots> = Some (x # ys)"
    using r(1) u(1) y by (simp add: exclude_loop.simps [of "Suc f"] exclude_loop.simps [of f] Let_def numeral_2_eq_2)
  show ?thesis using 1 2 3 by simp
qed

text \<open>A full container that need not be consolidated is left out when its datasets come first, and kept
  when they come behind a dataset to consolidate: it is then consolidated again for nothing.\<close>

theorem full_container_behind_another_is_kept:
  assumes "all_in uri ys" "ys \<noteq> []" and "cd_URI (cs_Event x) \<noteq> uri" "cs_Consolidation x"
  shows "csldPrepareOrdersExcludeFullContainers (exclude_fuel ys) ys (int (length ys)) = Some [] \<and>
    csldPrepareOrdersExcludeFullContainers (exclude_fuel (x # ys)) (x # ys) (int (length ys)) = Some (x # ys)"
proof -
  have "3 \<le> exclude_fuel (x # ys)" "0 < exclude_fuel ys" using assms(2) by (cases ys; simp add: exclude_fuel_def)+
  then show ?thesis
    using exclude_alone [OF assms(1,2), of "exclude_fuel ys"] exclude_behind [OF assms, of "exclude_fuel (x # ys)"]
    by (simp add: csldPrepareOrdersExcludeFullContainers_def)
qed

theorem full_container_behind_another_is_kept_witness:
  "let ys = [sample_csld ''a'' False, sample_csld ''a'' False]; x = sample_csld ''b'' True
   in csldPrepareOrdersExcludeFullContainers (exclude_fuel ys) ys 2 = Some [] \<and>
      csldPrepareOrdersExcludeFullContainers (exclude_fuel (x # ys)) (x # ys) 2 = Some (x # ys)"
  using full_container_behind_another_is_kept [of "''a''" "[sample_csld ''a'' False, sample_csld ''a'' False]" "sample_csld ''b'' True"]
  by (simp add: all_in_def sample_csld_def)

section \<open>Which datasets must be consolidated\<close>

text \<open>The reference: a dataset outside the containers of the cell, or whose container needs to be consolidated
  again, which is asked of the first dataset of the container.\<close>

definition container_needs :: "ConsolidationContainer \<Rightarrow> CsldDataset list \<Rightarrow> string \<Rightarrow> bool" where
  "container_needs c ds uri =
     (case find (\<lambda>d. cd_URI (cs_Event d) = uri) ds of None \<Rightarrow> False | Some d \<Rightarrow> NeedsReconsolidation (cs_Event d) c)"

definition must_consolidate :: "ConsolidationContainer \<Rightarrow> CsldDataset list \<Rightarrow> CsldDataset \<Rightarrow> bool" where
  "must_consolidate c ds d \<longleftrightarrow>
     \<not> InGroupOfContainers (cs_Event d) c \<or> container_needs c ds (cd_URI (cs_Event d))"

text \<open>The memory of the loop agrees with the datasets seen so far.\<close>

definition memory_ok :: "ConsolidationContainer \<Rightarrow> CsldDataset list \<Rightarrow> (string \<times> bool) list \<Rightarrow> bool" where
  "memory_ok c seen known \<longleftrightarrow>
     (\<forall>u. HasPrefix u (cc_URI c) \<longrightarrow>
        map_of known u = (if u \<in> (\<lambda>d. cd_URI (cs_Event d)) ` set seen then Some (container_needs c seen u) else None))"

lemma container_needs_app:
  "u \<in> (\<lambda>d. cd_URI (cs_Event d)) ` set seen \<Longrightarrow> container_needs c (seen @ ds) u = container_needs c seen u"
  unfolding container_needs_def by (induction seen) auto

lemma container_needs_new:
  "cd_URI (cs_Event d) \<notin> (\<lambda>d. cd_URI (cs_Event d)) ` set seen \<Longrightarrow>
   container_needs c (seen @ d # ds) (cd_URI (cs_Event d)) = NeedsReconsolidation (cs_Event d) c"
  unfolding container_needs_def by (induction seen) auto

lemma memory_ok_known:
  "memory_ok c seen known \<Longrightarrow> InGroupOfContainers (cs_Event d) c \<Longrightarrow> map_of known (cd_URI (cs_Event d)) = Some need \<Longrightarrow>
   cd_URI (cs_Event d) \<in> (\<lambda>d. cd_URI (cs_Event d)) ` set seen \<and> need = container_needs c seen (cd_URI (cs_Event d))"
  unfolding memory_ok_def InGroupOfContainers_def by (auto split: if_splits)

lemma memory_ok_unknown:
  "memory_ok c seen known \<Longrightarrow> InGroupOfContainers (cs_Event d) c \<Longrightarrow> map_of known (cd_URI (cs_Event d)) = None \<Longrightarrow>
   cd_URI (cs_Event d) \<notin> (\<lambda>d. cd_URI (cs_Event d)) ` set seen"
  unfolding memory_ok_def InGroupOfContainers_def by (metis option.distinct(1))

lemma memory_ok_step:
  assumes "memory_ok c seen known"
  shows "\<not> InGroupOfContainers (cs_Event d) c \<Longrightarrow> memory_ok c (seen @ [d]) known"
    and "cd_URI (cs_Event d) \<in> (\<lambda>d. cd_URI (cs_Event d)) ` set seen \<Longrightarrow> memory_ok c (seen @ [d]) known"
    and "cd_URI (cs_Event d) \<notin> (\<lambda>d. cd_URI (cs_Event d)) ` set seen \<Longrightarrow>
      memory_ok c (seen @ [d]) ((cd_URI (cs_Event d), NeedsReconsolidation (cs_Event d) c) # known)"
proof -
  assume "\<not> InGroupOfContainers (cs_Event d) c"
  with assms show "memory_ok c (seen @ [d]) known"
    by (auto simp: memory_ok_def InGroupOfContainers_def container_needs_app)
next
  assume "cd_URI (cs_Event d) \<in> (\<lambda>d. cd_URI (cs_Event d)) ` set seen"
  with assms show "memory_ok c (seen @ [d]) known"
    by (auto simp: memory_ok_def container_needs_app)
next
  assume n: "cd_URI (cs_Event d) \<notin> (\<lambda>d. cd_URI (cs_Event d)) ` set seen"
  show "memory_ok c (seen @ [d]) ((cd_URI (cs_Event d), NeedsReconsolidation (cs_Event d) c) # known)"
    unfolding memory_ok_def
  proof (intro allI impI)
    fix u assume p: "HasPrefix u (cc_URI c)"
    show "map_of ((cd_URI (cs_Event d), NeedsReconsolidation (cs_Event d) c) # known) u =
        (if u \<in> (\<lambda>d. cd_URI (cs_Event d)) ` set (seen @ [d]) then Some (container_needs c (seen @ [d]) u) else None)"
      using assms p n container_needs_new [of d seen c "[]"] container_needs_app [of u seen c "[d]"]
      by (cases "u = cd_URI (cs_Event d)") (auto simp: memory_ok_def)
  qed
qed

text \<open>One turn of the loop, in terms of the reference.\<close>

lemma need_step:
  assumes mem: "memory_ok c seen known" and flag: "\<not> cs_Consolidation d"
    and must_def: "must = must_consolidate c (seen @ d # ds) d"
  defines "u \<equiv> cd_URI (cs_Event d)"
  defines "fresh \<equiv> u \<notin> (\<lambda>d. cd_URI (cs_Event d)) ` set seen" and "grouped \<equiv> InGroupOfContainers (cs_Event d) c"
  shows "\<exists>known'. memory_ok c (seen @ [d]) known' \<and>
     need_loop c known (d # ds) =
       (case need_loop c known' ds of (b, ds', none) \<Rightarrow>
          (b \<or> \<not> grouped \<or> fresh \<and> must, d\<lparr>cs_Consolidation := must\<rparr> # ds',
           if grouped \<and> fresh \<and> \<not> must then u # none else none))"
proof -
  consider "\<not> grouped" | need where "grouped" "map_of known u = Some need" | "grouped" "map_of known u = None" by fastforce
  then show ?thesis
  proof cases
    case 1
    then show ?thesis
      using memory_ok_step(1) [OF mem, of d]
      by (intro exI [of _ known]) (auto simp: grouped_def must_def must_consolidate_def split: prod.splits)
  next
    case 2
    with memory_ok_known [OF mem, of d need]
    have k: "\<not> fresh" "need = container_needs c seen u" by (auto simp: u_def grouped_def fresh_def)
    with 2 have "must = need"
      by (auto simp: must_def must_consolidate_def u_def grouped_def fresh_def container_needs_app)
    with 2 k show ?thesis
      using memory_ok_step(2) [OF mem, of d]
      by (intro exI [of _ known]) (auto simp: u_def grouped_def fresh_def split: prod.splits)
  next
    case 3
    with memory_ok_unknown [OF mem, of d] have f: "fresh" by (auto simp: u_def grouped_def fresh_def)
    then have m: "must = NeedsReconsolidation (cs_Event d) c"
      using 3 container_needs_new [of d seen c ds] by (auto simp: must_def must_consolidate_def u_def grouped_def fresh_def)
    have same: "d\<lparr>cs_Consolidation := False\<rparr> = d" using flag by simp
    from 3 f m show ?thesis
      using memory_ok_step(3) [OF mem, of d] same
      by (intro exI [of _ "(u, must) # known"]) (auto simp: u_def grouped_def fresh_def Let_def split: prod.splits)
  qed
qed

lemma first_seen_set:
  assumes "\<And>e. f e = f d \<Longrightarrow> M e = M d" "\<not> M d \<Longrightarrow> I"
  shows "{u. \<exists>e \<in> insert d D. u = f e \<and> u \<notin> S \<and> \<not> M e} =
    (if I \<and> f d \<notin> S \<and> \<not> M d then insert (f d) {u. \<exists>e \<in> D. u = f e \<and> u \<notin> insert (f d) S \<and> \<not> M e}
     else {u. \<exists>e \<in> D. u = f e \<and> u \<notin> insert (f d) S \<and> \<not> M e})"
proof (rule set_eqI)
  fix u
  show "u \<in> {u. \<exists>e \<in> insert d D. u = f e \<and> u \<notin> S \<and> \<not> M e} \<longleftrightarrow>
    u \<in> (if I \<and> f d \<notin> S \<and> \<not> M d then insert (f d) {u. \<exists>e \<in> D. u = f e \<and> u \<notin> insert (f d) S \<and> \<not> M e}
     else {u. \<exists>e \<in> D. u = f e \<and> u \<notin> insert (f d) S \<and> \<not> M e})"
  proof (cases "u = f d")
    case True
    have "(\<exists>e \<in> insert d D. f d = f e \<and> f d \<notin> S \<and> \<not> M e) \<longleftrightarrow> f d \<notin> S \<and> \<not> M d" using assms(1) by (metis insertI1)
    with True assms(2) show ?thesis by (cases "M d") simp_all
  qed auto
qed

lemma first_seen_ex:
  assumes "\<And>e. f e = f d \<Longrightarrow> M e = M d"
  shows "(\<exists>e \<in> insert d D. J e \<or> f e \<notin> S \<and> M e) \<longleftrightarrow>
    (\<exists>e \<in> D. J e \<or> f e \<notin> insert (f d) S \<and> M e) \<or> J d \<or> f d \<notin> S \<and> M d"
proof -
  have "(\<exists>e \<in> D. f e = f d \<and> f e \<notin> S \<and> M e) \<Longrightarrow> f d \<notin> S \<and> M d" using assms by metis
  then show ?thesis by auto
qed

lemma need_loop_spec:
  "memory_ok c seen known \<Longrightarrow> list_all (\<lambda>d. \<not> cs_Consolidation d) ds \<Longrightarrow> need_loop c known ds = (b, ds', none) \<Longrightarrow>
   ds' = map (\<lambda>d. d\<lparr>cs_Consolidation := must_consolidate c (seen @ ds) d\<rparr>) ds \<and>
   set none = {u. \<exists>d \<in> set ds. u = cd_URI (cs_Event d) \<and> u \<notin> (\<lambda>d. cd_URI (cs_Event d)) ` set seen \<and> \<not> must_consolidate c (seen @ ds) d} \<and>
   b = (\<exists>d \<in> set ds. \<not> InGroupOfContainers (cs_Event d) c \<or>
          cd_URI (cs_Event d) \<notin> (\<lambda>d. cd_URI (cs_Event d)) ` set seen \<and> must_consolidate c (seen @ ds) d)"
proof (induction ds arbitrary: seen known b ds' none)
  case (Cons d ds)
  from Cons.prems(2) have f: "\<not> cs_Consolidation d" "list_all (\<lambda>d. \<not> cs_Consolidation d) ds" by auto
  from need_step [OF Cons.prems(1) f(1) refl, of ds] obtain known' where k: "memory_ok c (seen @ [d]) known'"
    and n: "need_loop c known (d # ds) =
       (case need_loop c known' ds of (b, ds', none) \<Rightarrow>
          (b \<or> \<not> InGroupOfContainers (cs_Event d) c \<or>
             cd_URI (cs_Event d) \<notin> (\<lambda>d. cd_URI (cs_Event d)) ` set seen \<and> must_consolidate c (seen @ d # ds) d,
           d\<lparr>cs_Consolidation := must_consolidate c (seen @ d # ds) d\<rparr> # ds',
           if InGroupOfContainers (cs_Event d) c \<and> cd_URI (cs_Event d) \<notin> (\<lambda>d. cd_URI (cs_Event d)) ` set seen \<and>
              \<not> must_consolidate c (seen @ d # ds) d then cd_URI (cs_Event d) # none else none))" by blast
  obtain b1 ds1 n1 where r: "need_loop c known' ds = (b1, ds1, n1)" by (metis prod_cases3)
  have assoc: "(seen @ [d]) @ ds = seen @ d # ds" by simp
  note IH = Cons.IH [OF k f(2) r, unfolded assoc]
  have same: "must_consolidate c (seen @ d # ds) e = must_consolidate c (seen @ d # ds) d"
    if "cd_URI (cs_Event e) = cd_URI (cs_Event d)" for e
    using that by (simp add: must_consolidate_def InGroupOfContainers_def)
  have grouped: "InGroupOfContainers (cs_Event d) c" if "\<not> must_consolidate c (seen @ d # ds) d"
    using that by (simp add: must_consolidate_def)
  let ?f = "\<lambda>d. cd_URI (cs_Event d)" and ?M = "must_consolidate c (seen @ d # ds)"
  have sets: "set (d # ds) = insert d (set ds)" "?f ` set (seen @ [d]) = insert (?f d) (?f ` set seen)" by auto
  from Cons.prems(3) n r have out:
    "b = (b1 \<or> \<not> InGroupOfContainers (cs_Event d) c \<or> ?f d \<notin> ?f ` set seen \<and> ?M d)"
    "ds' = d\<lparr>cs_Consolidation := ?M d\<rparr> # ds1"
    "none = (if InGroupOfContainers (cs_Event d) c \<and> ?f d \<notin> ?f ` set seen \<and> \<not> ?M d then ?f d # n1 else n1)" by simp_all
  have "set none = (if InGroupOfContainers (cs_Event d) c \<and> ?f d \<notin> ?f ` set seen \<and> \<not> ?M d then insert (?f d) (set n1) else set n1)"
    using out(3) by simp
  then have n: "set none = {u. \<exists>e \<in> insert d (set ds). u = ?f e \<and> u \<notin> ?f ` set seen \<and> \<not> ?M e}"
    unfolding IH [THEN conjunct2, THEN conjunct1] sets(2)
    by (rule trans) (rule first_seen_set [symmetric, where f = ?f and M = ?M, OF same grouped])
  have m: "b \<longleftrightarrow> (\<exists>e \<in> insert d (set ds). \<not> InGroupOfContainers (cs_Event e) c \<or> ?f e \<notin> ?f ` set seen \<and> ?M e)"
    unfolding out(1) IH [THEN conjunct2, THEN conjunct2] sets(2)
    by (rule first_seen_ex [symmetric, where f = ?f and M = ?M, OF same])
  show ?case unfolding sets(1) using out(2) IH n m by (intro conjI) simp_all
qed simp

text \<open>C19: The loop that marks the datasets to consolidate, which remembers the containers it has looked at, computes
  the reference must_consolidate; it reports a consolidation exactly when some dataset needs one, and
  lists the containers that need none.\<close>

theorem consolidation_flags_are_exact:
  assumes "csldPrepareOrdersNeedReconsolidation (map csld_dataset ds) c = (need, ds', noNeed)"
  shows "ds' = map (\<lambda>d. d\<lparr>cs_Consolidation := must_consolidate c (map csld_dataset ds) d\<rparr>) (map csld_dataset ds) \<and>
    (need \<longleftrightarrow> (\<exists>d \<in> set ds'. cs_Consolidation d)) \<and>
    set noNeed = cd_URI ` cs_Event ` {d \<in> set ds'. \<not> cs_Consolidation d}"
proof -
  let ?ds = "map csld_dataset ds"
  have "memory_ok c [] []" by (simp add: memory_ok_def)
  moreover have "list_all (\<lambda>d. \<not> cs_Consolidation d) ?ds" by (simp add: list_all_iff csld_dataset_def)
  ultimately have s: "ds' = map (\<lambda>d. d\<lparr>cs_Consolidation := must_consolidate c ?ds d\<rparr>) ?ds"
    "set noNeed = {u. \<exists>d \<in> set ?ds. u = cd_URI (cs_Event d) \<and> \<not> must_consolidate c ?ds d}"
    "need = (\<exists>d \<in> set ?ds. \<not> InGroupOfContainers (cs_Event d) c \<or> must_consolidate c ?ds d)"
    using need_loop_spec [of c "[]" "[]" ?ds need ds' noNeed] assms
    by (auto simp: csldPrepareOrdersNeedReconsolidation_def)
  have m: "(\<not> InGroupOfContainers (cs_Event d) c \<or> must_consolidate c ?ds d) = must_consolidate c ?ds d" for d
    by (auto simp: must_consolidate_def)
  have flags: "set ds' = (\<lambda>d. d\<lparr>cs_Consolidation := must_consolidate c ?ds d\<rparr>) ` set ?ds" unfolding s(1) by (rule set_map)
  have "need \<longleftrightarrow> (\<exists>d \<in> set ds'. cs_Consolidation d)" unfolding s(3) m flags by simp
  moreover have "set noNeed = cd_URI ` cs_Event ` {d \<in> set ds'. \<not> cs_Consolidation d}"
    unfolding s(2) flags by (auto simp: image_iff) force
  ultimately show ?thesis using s(1) by simp
qed

theorem consolidation_flags_are_exact_witness:
  "\<exists>c. csldPrepareOrdersNeedReconsolidation (map csld_dataset [sample_dataset ''d1'' CLEAN [1]]) c =
     (True, [(csld_dataset (sample_dataset ''d1'' CLEAN [1]))\<lparr>cs_Consolidation := True\<rparr>], []) \<and>
     must_consolidate c (map csld_dataset [sample_dataset ''d1'' CLEAN [1]]) (csld_dataset (sample_dataset ''d1'' CLEAN [1]))"
proof -
  define c where "c = \<lparr>cc_URI = ''gs://b'', cc_DatasetFormat = sample_mapping, cc_CRS = [], cc_Transform = [], cc_Width = 1, cc_Height = 1,
    cc_Cutline = [], cc_BandsCount = 1, cc_BlockXSize = 1, cc_BlockYSize = 1, cc_InterlacingPattern = [], cc_OverviewsMinSize = 0,
    cc_ResamplingAlg = ResamplingNEAR, cc_OvrResamplingAlg = ResamplingNEAR, cc_OptimizeExtent = False, cc_CreationParams = [],
    cc_StorageClass = StorageClassSTANDARD\<rparr>"
  have r: "csldPrepareOrdersNeedReconsolidation (map csld_dataset [sample_dataset ''d1'' CLEAN [1]]) c =
     (True, [(csld_dataset (sample_dataset ''d1'' CLEAN [1]))\<lparr>cs_Consolidation := True\<rparr>], [])"
    unfolding c_def by code_simp
  from consolidation_flags_are_exact [OF r] r show ?thesis by (auto simp: csld_dataset_def)
qed

section \<open>Sorting and grouping\<close>

lemma by_record_total: "by_record T a b \<or> by_record T b a"
  unfolding by_record_def Let_def using string_le_total by metis

lemma by_record_trans: "by_record T a b \<Longrightarrow> by_record T b c \<Longrightarrow> by_record T a c"
  unfolding by_record_def Let_def by (metis string_le_antisym string_le_trans)

lemma by_record_between:
  "by_record T a b \<Longrightarrow> by_record T b c \<Longrightarrow> cs_RecordID a = cs_RecordID c \<Longrightarrow> cs_RecordID b = cs_RecordID c"
  unfolding by_record_def Let_def record_text_def by (metis string_le_antisym)

lemma same_record_split:
  "same_record r ds = (a, b) \<Longrightarrow> ds = a @ b \<and> (\<forall>d \<in> set a. cs_RecordID d = r) \<and> (b \<noteq> [] \<longrightarrow> cs_RecordID (hd b) \<noteq> r)"
  by (induction ds arbitrary: a b) (auto split: if_splits prod.splits)

definition group_ok :: "string \<times> CsldDataset list \<Rightarrow> bool" where
  "group_ok g \<longleftrightarrow> snd g \<noteq> [] \<and> (\<forall>d \<in> set (snd g). cs_RecordID d = fst g)"

lemma group_records_concat:
  "concat (map snd (group_records ds)) = ds \<and> list_all group_ok (group_records ds)"
proof (induction ds rule: group_records.induct)
  case (2 d ds)
  obtain a b where ab: "same_record (cs_RecordID d) ds = (a, b)" by (cases "same_record (cs_RecordID d) ds")
  have g: "group_records (d # ds) = (cs_RecordID d, d # a) # group_records b" by (simp add: ab)
  from 2 [OF ab [symmetric]] same_record_split [OF ab] show ?case unfolding g by (auto simp: group_ok_def)
qed simp

lemma group_records_ids: "fst ` set (group_records ds) = cs_RecordID ` set ds"
proof -
  have "cs_RecordID ` set (concat (map snd gs)) = fst ` set gs" if "list_all group_ok gs" for gs
    using that by (induction gs) (auto simp: group_ok_def image_Un, (metis hd_in_set image_eqI)+)
  then show ?thesis using group_records_concat by metis
qed

lemma group_records_distinct:
  "sorted_wrt (by_record T) ds \<Longrightarrow> distinct (map fst (group_records ds))"
proof (induction ds rule: group_records.induct)
  case (2 d ds)
  obtain a b where ab: "same_record (cs_RecordID d) ds = (a, b)" by (cases "same_record (cs_RecordID d) ds")
  note s = same_record_split [OF ab]
  have "cs_RecordID x \<noteq> cs_RecordID d" if x: "x \<in> set b" for x
  proof
    assume eq: "cs_RecordID x = cs_RecordID d"
    from x obtain y ys where b: "b = y # ys" by (cases b) auto
    with 2(2) s have le: "by_record T d y" "\<forall>z \<in> set ys. by_record T y z" by (auto simp: sorted_wrt_append)
    with x b eq s show False by (metis by_record_between list.sel(1) list.distinct(1) set_ConsD)
  qed
  moreover have "distinct (map fst (group_records b))"
    by (rule 2(1) [OF ab [symmetric]]) (use 2(2) s in \<open>auto simp: sorted_wrt_append\<close>)
  moreover have g: "group_records (d # ds) = (cs_RecordID d, d # a) # group_records b" by (simp add: ab)
  ultimately show ?case unfolding g using group_records_ids [of b] by (simp add: image_iff) metis
qed simp

text \<open>Sorted by the time and identifier of their records, the datasets of a cell fall into one group per
  record: no dataset is lost or repeated, and no record is split between two groups.\<close>

theorem one_group_per_record:
  "mset (concat (map snd (group_records (sort_by (by_record T) ds)))) = mset ds \<and>
   list_all group_ok (group_records (sort_by (by_record T) ds)) \<and>
   distinct (map fst (group_records (sort_by (by_record T) ds)))"
proof -
  have "sorted_wrt (by_record T) (sort_by (by_record T) ds)"
    by (rule sorted_sort_by) (use by_record_total by_record_trans in blast)+
  from group_records_distinct [OF this] group_records_concat [of "sort_by (by_record T) ds"] show ?thesis by simp
qed

section \<open>The batches of records\<close>

lemma slice_Ret: "0 \<le> i \<Longrightarrow> i \<le> j \<Longrightarrow> j \<le> int (length xs) \<Longrightarrow> slice i j xs = Ret (drop (nat i) (take (nat j) xs))"
  by (simp add: slice_def)

definition batch :: "nat \<Rightarrow> 'a list \<Rightarrow> nat \<Rightarrow> 'a list" where
  "batch m xs i = drop (i * m) (take ((i + 1) * m) xs)"

lemma batches_upto: "concat (map (batch m xs) [0..<n]) = take (n * m) xs"
proof (induction n)
  case (Suc n)
  have "take (Suc n * m) xs = take (n * m) (take (Suc n * m) xs) @ drop (n * m) (take (Suc n * m) xs)"
    by (simp only: append_take_drop_id)
  also have "take (n * m) (take (Suc n * m) xs) = take (n * m) xs" by (simp add: min_def)
  finally show ?case using Suc by (simp add: batch_def)
qed simp

lemma go_map_Ret: "(\<And>x. x \<in> set xs \<Longrightarrow> f x = Ret (g x)) \<Longrightarrow> go_map f xs = Ret (map g xs)"
  by (induction xs) auto

lemma last_batch:
  assumes "0 < m" "0 < n" "i < (n - 1) div m + 1"
  shows "i * m < (n::nat)"
proof -
  have "i \<le> (n - 1) div m" using assms(3) by simp
  then have "i * m \<le> n - 1" by (metis div_times_less_eq_dividend le_trans mult_le_mono1)
  with assms(2) show ?thesis by simp
qed

lemma container_records_batches:
  assumes "0 < m" "xs \<noteq> []"
  shows "container_records (int m) xs = Ret (map (batch m xs) [0..<(length xs - 1) div m + 1])"
proof -
  let ?n = "(length xs - 1) div m + 1"
  have n: "nbOfContainers (int (length xs)) (int m) = Ret (int ?n)"
    using assms by (cases xs) (auto simp: nbOfContainers_def int_quot_def zdiv_int)
  have "slice (int i * int m) (MinI (int (length xs)) ((int i + 1) * int m)) xs = Ret (batch m xs i)" if "i < ?n" for i
  proof -
    have le: "i * m < length xs" using last_batch [OF assms(1) _ that] assms(2) by simp
    have j: "MinI (int (length xs)) ((int i + 1) * int m) = int (min (length xs) ((i + 1) * m))"
      unfolding MinI_def min_def by (simp add: algebra_simps flip: of_nat_mult of_nat_add)
    have "slice (int i * int m) (int (min (length xs) ((i + 1) * m))) xs =
        Ret (drop (i * m) (take (min (length xs) ((i + 1) * m)) xs))"
      using le by (subst slice_Ret) (auto simp: nat_mult_distrib of_nat_mult [symmetric] simp del: of_nat_mult)
    then show ?thesis unfolding j by (simp add: batch_def min_def)
  qed
  then have "go_map (\<lambda>i. slice (int i * int m) (MinI (int (length xs)) ((int i + 1) * int m)) xs) [0..<?n] =
      Ret (map (batch m xs) [0..<?n])"
    by (intro go_map_Ret) auto
  then show ?thesis unfolding container_records_def n by (simp only: go_bind.simps nat_int)
qed

text \<open>C20: The records of a cell are cut without a panic into containers of at least one and at most
  maxRecords records, in order and without loss, as few containers as possible.\<close>

theorem container_batches_bounded:
  assumes "0 < maxRecords" "records \<noteq> []"
  shows "\<exists>batches. container_records (int maxRecords) records = Ret batches \<and> concat batches = records \<and>
    (\<forall>b \<in> set batches. b \<noteq> [] \<and> length b \<le> maxRecords) \<and>
    (length batches - 1) * maxRecords < length records"
proof -
  let ?n = "(length records - 1) div maxRecords + 1"
  have "length records - 1 < ?n * maxRecords" using dividend_less_div_times [OF assms(1), of "length records - 1"] by simp
  then have full: "length records \<le> ?n * maxRecords" by linarith
  have "concat (map (batch maxRecords records) [0..<?n]) = records" unfolding batches_upto using full by simp
  moreover have "batch maxRecords records i \<noteq> [] \<and> length (batch maxRecords records i) \<le> maxRecords" if "i < ?n" for i
    using last_batch [OF assms(1) _ that] assms by (auto simp: batch_def min_def algebra_simps)
  moreover have "(?n - 1) * maxRecords < length records" using last_batch [OF assms(1), of "length records" "?n - 1"] assms(2) by simp
  ultimately show ?thesis using container_records_batches [OF assms]
    by (intro exI [of _ "map (batch maxRecords records) [0..<?n]"]) auto
qed

theorem container_batches_bounded_witness:
  "\<exists>batches. container_records 2 [10, 20, 30::nat] = Ret batches \<and> concat batches = [10, 20, 30] \<and> (length batches - 1) * 2 < 3"
  using container_batches_bounded [of 2 "[10, 20, 30::nat]"] by auto

end
