(* ===== verification/FloatText.thy ===== *)
theory FloatText
  imports Geometry "HOL-Library.Word"
begin

text \<open>
  Numbers read from text, as the grids, the palettes and the configuration do it: \<open>strconv.ParseFloat\<close> and
  the verbs \<open>%f\<close> and \<open>%d\<close> of \<open>fmt.Sscanf\<close>, and the conversions between floats and integers.  A float read
  beyond the range is an infinity beside its error, as \<open>ParseFloat\<close> returns it.
\<close>

section \<open>Conversions\<close>

text \<open>A Go int has 64 bits.\<close>

definition wrap64 :: "int \<Rightarrow> int" where
  "wrap64 i = (i + 2 ^ 63) mod 2 ^ 64 - 2 ^ 63"

definition wrap32 :: "int \<Rightarrow> int" where
  "wrap32 i = (i + 2 ^ 31) mod 2 ^ 32 - 2 ^ 31"

definition truncate :: "rat \<Rightarrow> int" where
  "truncate q = (if q < 0 then - \<lfloor>- q\<rfloor> else \<lfloor>q\<rfloor>)"

text \<open>\<open>int(x)\<close>: towards zero; what does not fit gives the least int, as the instruction of amd64 does.\<close>

fun float_int :: "float64 \<Rightarrow> int" where
  "float_int (Fin q) = (let i = truncate q in if - (2 ^ 63) \<le> i \<and> i < 2 ^ 63 then i else - (2 ^ 63))"
| "float_int x = - (2 ^ 63)"

definition int_float :: "int \<Rightarrow> float64" where
  "int_float i = round64 (of_int i)"

fun to_float32 :: "float64 \<Rightarrow> float64" where
  "to_float32 (Fin q) = round32 q"
| "to_float32 x = x"

text \<open>Arithmetic of \<open>float32\<close> values.\<close>

fun f32_add :: "float64 \<Rightarrow> float64 \<Rightarrow> float64" where
  "f32_add (Fin a) (Fin b) = round32 (a + b)"
| "f32_add x y = f_add x y"

definition f32_sub :: "float64 \<Rightarrow> float64 \<Rightarrow> float64" where
  "f32_sub x y = f32_add x (f_neg y)"

fun f32_mul :: "float64 \<Rightarrow> float64 \<Rightarrow> float64" where
  "f32_mul (Fin a) (Fin b) = round32 (a * b)"
| "f32_mul x y = f_mul x y"

fun f32_div :: "float64 \<Rightarrow> float64 \<Rightarrow> float64" where
  "f32_div (Fin a) (Fin b) = (if b = 0 then signed_inf (sgn a) else round32 (a / b))"
| "f32_div x y = f_div x y"

fun f_abs :: "float64 \<Rightarrow> float64" where
  "f_abs (Fin q) = Fin \<bar>q\<bar>"
| "f_abs NegInf = PosInf"
| "f_abs x = x"

fun f_floor :: "float64 \<Rightarrow> float64" where
  "f_floor (Fin q) = Fin (of_int \<lfloor>q\<rfloor>)"
| "f_floor x = x"

fun f_ceil :: "float64 \<Rightarrow> float64" where
  "f_ceil (Fin q) = Fin (of_int \<lceil>q\<rceil>)"
| "f_ceil x = x"

text \<open>\<open>math.Round\<close>: half away from zero.\<close>

fun f_round :: "float64 \<Rightarrow> float64" where
  "f_round (Fin q) = Fin (of_int (if q < 0 then - \<lfloor>- q + 1 / 2\<rfloor> else \<lfloor>q + 1 / 2\<rfloor>))"
| "f_round x = x"

section \<open>Tokens\<close>

text \<open>\<open>accept\<close> takes one character of a class, \<open>accept_all\<close> as many as there are.\<close>

definition accept :: "string \<Rightarrow> string \<Rightarrow> (string \<times> string)" where
  "accept cs s = (case s of c # r \<Rightarrow> if c \<in> set cs then ([c], r) else ([], s) | [] \<Rightarrow> ([], s))"

definition accept_all :: "string \<Rightarrow> string \<Rightarrow> string \<times> string" where
  "accept_all cs s = (takeWhile (\<lambda>c. c \<in> set cs) s, dropWhile (\<lambda>c. c \<in> set cs) s)"

fun accept_each :: "string list \<Rightarrow> string \<Rightarrow> bool \<times> string \<times> string" where
  "accept_each [] s = (True, [], s)"
| "accept_each (cs # rest) s =
     (case accept cs s of ([], r) \<Rightarrow> (False, [], r)
      | (t, r) \<Rightarrow> (case accept_each rest r of (b, t', r') \<Rightarrow> (b, t @ t', r')))"

definition decimal_digits :: string where "decimal_digits = ''0123456789''"
definition hex_digits :: string where "hex_digits = ''0123456789aAbBcCdDeEfF''"

section \<open>\<open>ParseFloat\<close>\<close>

definition hex_value :: "char \<Rightarrow> int" where
  "hex_value c =
     (if is_digit c then of_char c - 48
      else if char_between CHR ''a'' CHR ''f'' c then of_char c - 87 else of_char c - 55)"

definition base_value :: "int \<Rightarrow> string \<Rightarrow> int" where
  "base_value b s = fold (\<lambda>c n. b * n + hex_value c) s 0"

text \<open>The digits before and after the point and the exponent: \<open>None\<close> where the syntax is wrong.\<close>

definition exponent_part :: "string \<Rightarrow> string \<Rightarrow> int option" where
  "exponent_part marks s =
     (case s of [] \<Rightarrow> Some 0
      | c # r \<Rightarrow> if c \<notin> set marks then None
          else let (sign, ds) = accept ''+-'' r
               in if ds \<noteq> [] \<and> list_all is_digit ds then Some (if sign = ''-'' then - digits_value ds else digits_value ds) else None)"

definition magnitude :: "string \<Rightarrow> rat option" where
  "magnitude s =
     (let hex = (take 2 s = ''0x'' \<or> take 2 s = ''0X''); digits = (if hex then hex_digits else decimal_digits);
          b = (if hex then 16 else 10); (ip, r) = accept_all digits (if hex then drop 2 s else s);
          (dot, r) = accept ''.'' r; (fp, r) = (if dot = [] then ([], r) else accept_all digits r)
      in if ip = [] \<and> fp = [] then None
         else if hex \<and> r = [] then None
         else case exponent_part (if hex then ''pP'' else ''eE'') r of
           None \<Rightarrow> None
         | Some e \<Rightarrow> Some (of_int (base_value b (ip @ fp)) / of_int b ^ length fp * (if hex then pow2 e else pow10 e)))"

text \<open>Underscores are separators of a hexadecimal number only: between digits or after the prefix.\<close>

fun underscores_ok :: "char \<Rightarrow> string \<Rightarrow> bool" where
  "underscores_ok p [] \<longleftrightarrow> p \<noteq> CHR ''_''"
| "underscores_ok p (c # s) \<longleftrightarrow>
     (if c = CHR ''_'' then p \<in> set (''0'' @ hex_digits) \<and> underscores_ok c s
      else if c \<in> set hex_digits then underscores_ok c s
      else p \<noteq> CHR ''_'' \<and> underscores_ok CHR ''!'' s)"

definition strip_underscores :: "string \<Rightarrow> string" where
  "strip_underscores s =
     (if (take 2 s = ''0x'' \<or> take 2 s = ''0X'') \<and> underscores_ok CHR ''0'' (drop 2 s) then filter (\<lambda>c. c \<noteq> CHR ''_'') s else s)"

definition ParseFloat :: "string \<Rightarrow> float64 \<times> bool" where
  "ParseFloat s =
     (let (sign, r) = accept ''+-'' s; neg = (sign = ''-''); l = ToLower r
      in if l = ''inf'' \<or> l = ''infinity'' then (if neg then NegInf else PosInf, True)
         else if l = ''nan'' \<and> sign = [] then (NaN, True)
         else case magnitude (strip_underscores r) of
           None \<Rightarrow> (Fin 0, False)
         | Some q \<Rightarrow> let v = round64 (if neg then - q else q) in (v, v \<noteq> PosInf \<and> v \<noteq> NegInf))"

section \<open>\<open>Sscanf\<close>\<close>

definition space_chars :: string where
  "space_chars = '' '' @ [CHR 0x09, CHR 0x0B, CHR 0x0C, CHR 0x0D]"

definition skip_space :: "string \<Rightarrow> string" where
  "skip_space = dropWhile (\<lambda>c. c \<in> set space_chars)"

definition floatToken :: "string \<Rightarrow> string \<times> string" where
  "floatToken s =
     (case accept_each [''nN'', ''aA'', ''nN''] s of
        (True, t, r) \<Rightarrow> (t, r)
      | (False, t1, r) \<Rightarrow>
          let (t2, r) = accept ''+-'' r
          in (case accept_each [''iI'', ''nN'', ''fF''] r of
                (True, t3, r) \<Rightarrow> (t1 @ t2 @ t3, r)
              | (False, t3, r) \<Rightarrow>
                  let (zero, x, r) = (case accept ''0'' r of ([], r) \<Rightarrow> ([], [], r) | (z, r) \<Rightarrow> (z, accept ''xX'' r));
                      digits = (if x = [] then decimal_digits else hex_digits) @ ''_'';
                      (ip, r) = accept_all digits r; (dot, r) = accept ''.'' r;
                      (fp, r) = (if dot = [] then ([], r) else accept_all digits r);
                      (e, r) = accept (if x = [] then ''eEpP'' else ''pP'') r;
                      (es, r) = (if e = [] then ([], r) else accept ''+-'' r);
                      (ed, r) = (if e = [] then ([], r) else accept_all (decimal_digits @ ''_'') r)
                  in (t1 @ t2 @ t3 @ zero @ x @ ip @ dot @ fp @ e @ es @ ed, r)))"

text \<open>A decimal number may carry a power of two, which \<open>ParseFloat\<close> does not know.\<close>

definition convertFloat :: "string \<Rightarrow> float64 option" where
  "convertFloat t =
     (if CHR ''p'' \<in> set t \<and> CHR ''x'' \<notin> set t \<and> CHR ''X'' \<notin> set t
      then (case (ParseFloat (takeWhile (\<lambda>c. c \<noteq> CHR ''p'') t), Atoi (drop 1 (dropWhile (\<lambda>c. c \<noteq> CHR ''p'') t))) of
              ((v, True), Some m) \<Rightarrow> Some (case v of Fin q \<Rightarrow> round64 (q * pow2 m) | x \<Rightarrow> x)
            | _ \<Rightarrow> None)
      else case ParseFloat t of (v, True) \<Rightarrow> Some v | _ \<Rightarrow> None)"

definition scan_float :: "string \<Rightarrow> (float64 \<times> string) option" where
  "scan_float s =
     (case floatToken (skip_space s) of (t, r) \<Rightarrow> map_option (\<lambda>v. (v, r)) (convertFloat t))"

definition scan_int :: "string \<Rightarrow> (int \<times> string) option" where
  "scan_int s =
     (let (sign, r) = accept ''+-'' (skip_space s); (ds, r) = accept_all decimal_digits r
      in case Atoi (sign @ ds) of Some i \<Rightarrow> Some (i, r) | None \<Rightarrow> None)"

definition scan_char :: "char \<Rightarrow> string \<Rightarrow> string option" where
  "scan_char c s = (case s of x # r \<Rightarrow> if x = c then Some r else None | [] \<Rightarrow> None)"

section \<open>Lemmas\<close>

lemma wrap64_id: "- (2 ^ 63) \<le> i \<Longrightarrow> i < 2 ^ 63 \<Longrightarrow> wrap64 i = i"
  by (simp add: wrap64_def)

lemma wrap64_range: "- (2 ^ 63) \<le> wrap64 i \<and> wrap64 i < 2 ^ 63"
  by (simp add: wrap64_def)

end
