(* ===== verification/SliceSort.thy ===== *)
theory SliceSort
  imports Prelude
begin

text \<open>
  \<open>sort.Slice\<close> and \<open>sort.Sort\<close>: the insertion sort that the standard library runs on a short slice.  On a
  longer one its result may order equal elements otherwise; the properties hold for every order of them.
\<close>

text \<open>\<open>sort.Slice\<close> on a short slice: each element moves left past the greater ones.\<close>

fun insert_left :: "('a \<Rightarrow> 'a \<Rightarrow> bool) \<Rightarrow> 'a \<Rightarrow> 'a list \<Rightarrow> 'a list" where
  "insert_left lt x [] = [x]"
| "insert_left lt x (y # ys) = (if lt x y then y # insert_left lt x ys else x # y # ys)"

definition sort_slice :: "('a \<Rightarrow> 'a \<Rightarrow> bool) \<Rightarrow> 'a list \<Rightarrow> 'a list" where
  "sort_slice lt xs = rev (fold (insert_left lt) xs [])"

lemma mset_insert_left: "mset (insert_left lt x ys) = add_mset x (mset ys)"
  by (induction ys) auto

lemma mset_fold_insert: "mset (fold (insert_left lt) xs ys) = mset xs + mset ys"
  by (induction xs arbitrary: ys) (simp_all add: mset_insert_left)

lemma mset_sort_slice [simp]: "mset (sort_slice lt xs) = mset xs"
  by (simp add: sort_slice_def mset_fold_insert)

lemma set_sort_slice [simp]: "set (sort_slice lt xs) = set xs"
  by (rule mset_eq_setD) simp

lemma length_sort_slice [simp]: "length (sort_slice lt xs) = length xs"
  by (rule mset_eq_length) simp

text \<open>Sorted: no element is less than one before it.\<close>

locale weak_order =
  fixes lt :: "'a \<Rightarrow> 'a \<Rightarrow> bool"
  assumes asym: "lt x y \<Longrightarrow> \<not> lt y x"
    and cotrans: "lt x z \<Longrightarrow> lt x y \<or> lt y z"
begin

lemma insert_left_sorted:
  "sorted_wrt (\<lambda>a b. \<not> lt a b) ys \<Longrightarrow> sorted_wrt (\<lambda>a b. \<not> lt a b) (insert_left lt x ys)"
proof (induction ys)
  case (Cons y ys)
  have set: "set (insert_left lt x ys) = insert x (set ys)"
    using arg_cong [OF mset_insert_left [of lt x ys], of set_mset] by simp
  show ?case
  proof (cases "lt x y")
    case True
    with Cons set asym show ?thesis by auto
  next
    case False
    then have "\<not> lt x z" if "\<not> lt y z" for z using cotrans that by blast
    with False Cons show ?thesis by auto
  qed
qed simp

lemma fold_insert_sorted:
  "sorted_wrt (\<lambda>a b. \<not> lt a b) ys \<Longrightarrow> sorted_wrt (\<lambda>a b. \<not> lt a b) (fold (insert_left lt) xs ys)"
  by (induction xs arbitrary: ys) (auto intro: insert_left_sorted)

lemma sort_slice_sorted: "sorted_wrt (\<lambda>a b. \<not> lt b a) (sort_slice lt xs)"
  using fold_insert_sorted [of "[]" xs] by (simp add: sort_slice_def sorted_wrt_rev)

end

end
