(* ===== verification/Autoscaler.thy ===== *)
theory Autoscaler
  imports FloatText SliceSort
begin

text \<open>
  The autoscaler: the decision of interface/autoscaler/qbas, the replication controller of
  interface/autoscaler/k8s on a list of pods, and their composition in interface/autoscaler.  The Kubernetes
  client, the termination costs that the pods answer and the names it generates are the parameter \<open>kube\<close>; a
  deleted pod leaves the list, a created one is appended to it.
\<close>

section \<open>The decision\<close>

record scale_config = cf_Ratio :: float64
  cf_MinRatio :: float64
  cf_MaxStep :: int
  cf_MaxInstances :: int
  cf_MinInstances :: int

record scale_operation = op_Backlog :: int
  op_Instances :: int
  op_Delta :: int

definition config_error :: "scale_config \<Rightarrow> string option" where
  "config_error cfg =
     (if f_lt (cf_Ratio cfg) (Fin 1) then Some ''cfg.Ratio must be >= 1.0''
      else if f_lt (cf_MinRatio cfg) (Fin 0) then Some ''cfg.MinRatio must be >= 0.0''
      else if f_gt (cf_MinRatio cfg) (cf_Ratio cfg) then Some ''cfg.MinRatio must be <= cfg.Ratio''
      else if cf_MaxStep cfg < 1 then Some ''cfg.MaxStep must be >= 1''
      else if cf_MaxInstances cfg < 1 then Some ''cfg.MaxInstances must be >= 1''
      else if cf_MinInstances cfg < 0 then Some ''cfg.MaxInstances must be >= 0''
      else if cf_MaxInstances cfg < cf_MinInstances cfg then Some ''maxInstances must be >= minInstances''
      else None)"

definition ceil_quot :: "int \<Rightarrow> float64 \<Rightarrow> int" where
  "ceil_quot b r = float_int (f_ceil (f_div (int_float b) r))"

definition wanted_size :: "scale_config \<Rightarrow> int \<Rightarrow> int \<Rightarrow> int" where
  "wanted_size cfg backlog instances =
     (if backlog = 0 then 0
      else if instances > 0
      then (let ratio = f_div (int_float backlog) (int_float instances)
            in if f_gt ratio (cf_Ratio cfg) then ceil_quot backlog (cf_Ratio cfg)
               else if instances > 1 \<and> f_gt (cf_MinRatio cfg) (Fin 0) \<and> f_lt ratio (cf_MinRatio cfg)
               then ceil_quot backlog (cf_MinRatio cfg)
               else if f_lt ratio (Fin 1) then backlog
               else instances)
      else ceil_quot backlog (cf_Ratio cfg))"

definition capped_size :: "scale_config \<Rightarrow> int \<Rightarrow> int \<Rightarrow> int \<Rightarrow> int" where
  "capped_size cfg backlog instances needed =
     (if needed > cf_MaxInstances cfg
      then (if instances > cf_MaxInstances cfg then (if instances < backlog then instances else backlog)
            else cf_MaxInstances cfg)
      else needed)"

definition stepped_size :: "scale_config \<Rightarrow> int \<Rightarrow> int \<Rightarrow> int \<Rightarrow> int" where
  "stepped_size cfg backlog instances needed =
     (if needed < cf_MinInstances cfg then cf_MinInstances cfg
      else if needed - instances > cf_MaxStep cfg then instances + cf_MaxStep cfg
      else if instances - needed > cf_MaxStep cfg \<and> backlog > 0 then instances - cf_MaxStep cfg
      else needed)"

definition needed_size :: "scale_config \<Rightarrow> int \<Rightarrow> int \<Rightarrow> int" where
  "needed_size cfg backlog instances =
     stepped_size cfg backlog instances (capped_size cfg backlog instances (wanted_size cfg backlog instances))"

text \<open>The queue and the manager answer a number beside an error.  A state \<open>'s\<close> is what the manager changes.\<close>

definition Autoscale ::
  "scale_config \<Rightarrow> int \<times> gerr option \<Rightarrow> int \<times> gerr option \<Rightarrow> (int \<Rightarrow> 's \<Rightarrow> (gerr option \<times> 's) go) \<Rightarrow>
   (int \<Rightarrow> 's \<Rightarrow> (gerr option \<times> 's) go) \<Rightarrow> 's \<Rightarrow> ((scale_operation \<times> gerr option) \<times> 's) go" where
  "Autoscale cfg backlog sz resize scaledown s =
     (case config_error cfg of
        Some m \<Rightarrow> Ret ((\<lparr>op_Backlog = 0, op_Instances = 0, op_Delta = 0\<rparr>, Some (PlainE m)), s)
      | None \<Rightarrow>
          let op = \<lparr>op_Backlog = fst backlog, op_Instances = fst sz, op_Delta = 0\<rparr>
          in case snd backlog of
               Some e \<Rightarrow> Ret ((op, Some (WrapE ''get subscription count: '' e [])), s)
             | None \<Rightarrow> (case snd sz of
                 Some e \<Rightarrow> Ret ((op, Some (WrapE ''get instance count: '' e [])), s)
               | None \<Rightarrow>
                   let needed = needed_size cfg (fst backlog) (fst sz); delta = needed - fst sz; op = op\<lparr>op_Delta := delta\<rparr>
                   in if delta = 0 then Ret ((op, None), s)
                      else if delta > 0 \<or> fst backlog = 0
                      then go_bind (resize needed s) (\<lambda>(eo, s). Ret ((op, map_option (\<lambda>e. WrapE ''resize instances: '' e []) eo), s))
                      else go_bind (scaledown needed s) (\<lambda>(eo, s). Ret ((op, map_option (\<lambda>e. WrapE ''scale down instances: '' e []) eo), s))))"

section \<open>Pods\<close>

datatype PodPhase = PodPending | PodRunning | PodSucceeded | PodFailed | PodUnknown

record pod = p_Name :: string
  p_Phase :: PodPhase
  p_Deleted :: bool
  p_Conditions :: "(string \<times> string) list"
  p_Node :: string
  p_IP :: string

record new_pod = np_GenerateName :: string
  np_Labels :: "(string \<times> string) list"
  np_Annotations :: "(string \<times> string) list"
  np_PreferredAffinity :: "(string \<times> string) list"

record controller = rc_name :: string
  rc_CostLimit :: int
  rc_CostPort :: int
  rc_CostPath :: string
  rc_AllowEviction :: bool
  rc_SpreadOnNodes :: bool

record podCost = pc_idx :: nat
  pc_cost :: int
  pc_node :: string

text \<open>\<open>k_http\<close> is the answer to the request for the cost at a URL; \<open>k_arrival\<close> and \<open>k_nodes\<close> are the orders in
  which the costs arrive and in which a map of nodes is iterated; \<open>k_pod\<close> the pod made for a request.\<close>

record kube = k_list :: "gerr option"
  k_get :: "gerr option"
  k_template :: "(string \<times> string) list"
  k_delete :: "string \<Rightarrow> gerr option"
  k_create :: "nat \<Rightarrow> gerr option"
  k_pod :: "nat \<Rightarrow> new_pod \<Rightarrow> pod"
  k_http :: "string \<Rightarrow> gerr + int"
  k_arrival :: "podCost list \<Rightarrow> podCost list"
  k_nodes :: "string list \<Rightarrow> string list"

definition isPodActive :: "pod \<Rightarrow> bool" where
  "isPodActive p \<longleftrightarrow> p_Phase p \<noteq> PodSucceeded \<and> p_Phase p \<noteq> PodFailed \<and> \<not> p_Deleted p"

definition GetPodReadyCondition :: "pod \<Rightarrow> (string \<times> string) option" where
  "GetPodReadyCondition p = find (\<lambda>c. fst c = ''Ready'') (p_Conditions p)"

definition IsPodReadyConditionTrue :: "pod \<Rightarrow> bool" where
  "IsPodReadyConditionTrue p \<longleftrightarrow> (case GetPodReadyCondition p of None \<Rightarrow> False | Some c \<Rightarrow> snd c = ''True'')"

definition listPods :: "kube \<Rightarrow> controller \<Rightarrow> pod list \<Rightarrow> gerr + pod list" where
  "listPods K D pods =
     (case k_list K of Some e \<Rightarrow> Inl (WrapE (''list ('' @ rc_name D @ '') pods : '') e []) | None \<Rightarrow> Inr pods)"

definition listActivePods :: "kube \<Rightarrow> controller \<Rightarrow> pod list \<Rightarrow> gerr + pod list" where
  "listActivePods K D pods = (case listPods K D pods of Inl e \<Rightarrow> Inl e | Inr ps \<Rightarrow> Inr (filter isPodActive ps))"

definition PMLABEL :: string where "PMLABEL = ''go-k8s-pod-rc''"

definition createPod :: "kube \<Rightarrow> controller \<Rightarrow> gerr + new_pod" where
  "createPod K D =
     (case k_get K of
        Some e \<Rightarrow> Inl (WrapE ''get replication controller: '' e [])
      | None \<Rightarrow> Inr \<lparr>np_GenerateName = rc_name D @ ''-'' @ PMLABEL @ ''-'', np_Labels = [(PMLABEL, rc_name D)],
          np_Annotations = (if rc_AllowEviction D then [(''cluster-autoscaler.kubernetes.io/safe-to-evict'', ''true'')] else []),
          np_PreferredAffinity = k_template K @ (if rc_SpreadOnNodes D then [] else [(PMLABEL, rc_name D)])\<rparr>)"

definition rc_Size :: "kube \<Rightarrow> controller \<Rightarrow> pod list \<Rightarrow> int \<times> gerr option" where
  "rc_Size K D pods =
     (case listActivePods K D pods of Inl e \<Rightarrow> (0, Some (WrapE ''listPods: '' e [])) | Inr ps \<Rightarrow> (int (length ps), None))"

definition drop_pod :: "string \<Rightarrow> pod list \<Rightarrow> pod list" where
  "drop_pod n = filter (\<lambda>p. p_Name p \<noteq> n)"

text \<open>The pods are deleted in turn, up to the first error or, where errors are only logged, all of them.\<close>

fun delete_pods :: "kube \<Rightarrow> (string \<Rightarrow> string) \<Rightarrow> pod list \<Rightarrow> pod list \<Rightarrow> gerr option \<times> pod list" where
  "delete_pods K pre [] pods = (None, pods)"
| "delete_pods K pre (p # ps) pods =
     (case k_delete K (p_Name p) of
        Some e \<Rightarrow> (Some (WrapE (pre (p_Name p)) e []), pods)
      | None \<Rightarrow> delete_pods K pre ps (drop_pod (p_Name p) pods))"

fun delete_logged :: "kube \<Rightarrow> pod list \<Rightarrow> pod list \<Rightarrow> pod list" where
  "delete_logged K [] pods = pods"
| "delete_logged K (p # ps) pods =
     delete_logged K ps (case k_delete K (p_Name p) of Some e \<Rightarrow> pods | None \<Rightarrow> drop_pod (p_Name p) pods)"

fun create_pods :: "kube \<Rightarrow> controller \<Rightarrow> nat \<Rightarrow> nat \<Rightarrow> pod list \<Rightarrow> gerr option \<times> pod list" where
  "create_pods K D i 0 pods = (None, pods)"
| "create_pods K D i (Suc n) pods =
     (case createPod K D of
        Inl e \<Rightarrow> (Some (WrapE ''createPod: '' e []), pods)
      | Inr np \<Rightarrow> (case k_create K i of
          Some e \<Rightarrow> (Some (WrapE ''createPod: '' e []), pods)
        | None \<Rightarrow> create_pods K D (Suc i) n (pods @ [k_pod K i np])))"

definition Resize :: "kube \<Rightarrow> controller \<Rightarrow> int \<Rightarrow> pod list \<Rightarrow> (gerr option \<times> pod list) go" where
  "Resize K D newSize pods =
     (case listPods K D pods of
        Inl e \<Rightarrow> Ret (Some (WrapE ''listPods: '' e []), pods)
      | Inr allpods \<Rightarrow>
          if newSize = 0 then Ret (delete_pods K (\<lambda>_. ''delete pod: '') allpods pods)
          else
            let active = filter isPodActive allpods; pods = delete_logged K (filter (\<lambda>p. \<not> isPodActive p) allpods) pods;
                n = int (length active)
            in if newSize > n
               then (if list_ex (\<lambda>p. p_Phase p = PodPending) active
                     then Ret (Some (PlainE (''not applying resize to '' @ itoa newSize @ '', cluster not at target'')), pods)
                     else Ret (create_pods K D (length active) (nat (newSize - n)) pods))
               else if newSize < 0 then Panic ''runtime error: index out of range''
               else Ret (delete_pods K (\<lambda>_. ''deletePod: '') (drop (nat newSize) active) pods))"

section \<open>The choice of the pods to delete\<close>

definition cost_url :: "controller \<Rightarrow> pod \<Rightarrow> string" where
  "cost_url D p =
     ''http://'' @ p_IP p @ (if rc_CostPort D \<noteq> 0 \<and> rc_CostPort D \<noteq> 80 then '':'' @ itoa (rc_CostPort D) else []) @
     (if HasPrefix (rc_CostPath D) ''/'' then rc_CostPath D else ''/'' @ rc_CostPath D)"

definition getPodTerminationCost :: "kube \<Rightarrow> controller \<Rightarrow> pod \<Rightarrow> gerr + int" where
  "getPodTerminationCost K D p = (if rc_CostPath D = [] then Inr 0 else k_http K (cost_url D p))"

definition pod_costs :: "kube \<Rightarrow> controller \<Rightarrow> pod list \<Rightarrow> podCost list" where
  "pod_costs K D tomonitor =
     List.map_filter (\<lambda>i. let p = tomonitor ! i in case getPodTerminationCost K D p of
          Inl e \<Rightarrow> None | Inr c \<Rightarrow> Some \<lparr>pc_idx = i, pc_cost = c, pc_node = p_Node p\<rparr>) [0..<length tomonitor]"

definition sorted_costs :: "kube \<Rightarrow> controller \<Rightarrow> pod list \<Rightarrow> podCost list" where
  "sorted_costs K D tomonitor = sort_slice (\<lambda>a b. pc_cost a < pc_cost b) (k_arrival K (pod_costs K D tomonitor))"

interpretation pod_cost: weak_order "\<lambda>a b :: podCost. pc_cost a < pc_cost b"
  by unfold_locales auto

definition cost_cutoff :: "controller \<Rightarrow> nat \<Rightarrow> podCost list \<Rightarrow> int go" where
  "cost_cutoff D stillneeded costs =
     (if costs = [] then Panic ''runtime error: index out of range [-1]''
      else let c = (if length costs \<ge> stillneeded then pc_cost (costs ! (stillneeded - 1)) else pc_cost (last costs))
           in Ret (if rc_CostLimit D > 0 \<and> c > rc_CostLimit D then rc_CostLimit D else c))"

text \<open>The pods left on a node when all its candidates are gone; the candidates are taken node by node, from the
  one with the fewest.  The index of a candidate is one of the monitored pods; it is applied to all pods.\<close>

definition node_left :: "pod list \<Rightarrow> podCost list \<Rightarrow> string \<Rightarrow> int" where
  "node_left tomonitor candidates node =
     int (length (filter (\<lambda>p. p_Node p = node) tomonitor)) - int (length (filter (\<lambda>c. pc_node c = node) candidates))"

definition node_order :: "kube \<Rightarrow> pod list \<Rightarrow> podCost list \<Rightarrow> string list" where
  "node_order K tomonitor candidates =
     sort_slice (\<lambda>a b. node_left tomonitor candidates a < node_left tomonitor candidates b)
       (k_nodes K (remdups (map p_Node tomonitor)))"

definition candidate_order :: "kube \<Rightarrow> pod list \<Rightarrow> podCost list \<Rightarrow> podCost list" where
  "candidate_order K tomonitor candidates =
     concat (map (\<lambda>n. filter (\<lambda>c. pc_node c = n) candidates) (node_order K tomonitor candidates))"

definition monitored :: "pod \<Rightarrow> bool" where
  "monitored p \<longleftrightarrow> p_Phase p = PodRunning \<and> IsPodReadyConditionTrue p"

definition orderedPodsCandidateForDeletion :: "kube \<Rightarrow> controller \<Rightarrow> pod list \<Rightarrow> nat \<Rightarrow> pod list go" where
  "orderedPodsCandidateForDeletion K D pods needed =
     (let ret = filter (\<lambda>p. \<not> monitored p) pods; tomonitor = filter monitored pods
      in if length ret \<ge> needed then Ret (take needed ret)
         else
           let stillneeded = needed - length ret; costs = sorted_costs K D tomonitor
           in go_bind (cost_cutoff D stillneeded costs) (\<lambda>cut.
                let candidates = filter (\<lambda>c. pc_cost c \<le> cut) costs
                in Ret (ret @ map (\<lambda>c. pods ! pc_idx c) (take stillneeded (candidate_order K tomonitor candidates)))))"

definition ScaleDown :: "kube \<Rightarrow> controller \<Rightarrow> int \<Rightarrow> pod list \<Rightarrow> (gerr option \<times> pod list) go" where
  "ScaleDown K D newSize pods =
     (case listPods K D pods of
        Inl e \<Rightarrow> Ret (Some (WrapE ''listPods: '' e []), pods)
      | Inr allpods \<Rightarrow>
          let delta = int (length allpods) - newSize
          in if delta \<le> 0
             then Ret (Some (PlainE (''scaledown called with invalid size '' @ itoa newSize @ '' ('' @ itoa (int (length allpods)) @
                    '' replicas available)'')), pods)
             else go_bind (orderedPodsCandidateForDeletion K D allpods (nat delta)) (\<lambda>pd.
                    Ret (delete_pods K (\<lambda>n. ''delete idle pod '' @ n @ '': '') pd pods)))"

section \<open>The autoscaler\<close>

definition autoscale ::
  "scale_config \<Rightarrow> kube \<Rightarrow> controller \<Rightarrow> int \<times> gerr option \<Rightarrow> pod list \<Rightarrow> ((scale_operation \<times> gerr option) \<times> pod list) go" where
  "autoscale cfg K D backlog pods = Autoscale cfg backlog (rc_Size K D pods) (Resize K D) (ScaleDown K D) pods"

text \<open>\<open>Run\<close> scales at once and at every tick, until the context is done: one round per answer of the queue.\<close>

fun autoscaler_Run :: "scale_config \<Rightarrow> kube \<Rightarrow> controller \<Rightarrow> (int \<times> gerr option) list \<Rightarrow> pod list \<Rightarrow> pod list go" where
  "autoscaler_Run cfg K D [] pods = Ret pods"
| "autoscaler_Run cfg K D (b # bs) pods = go_bind (autoscale cfg K D b pods) (\<lambda>(r, pods). autoscaler_Run cfg K D bs pods)"

end
