(* ===== verification/Rounding.thy ===== *)
theory Rounding
  imports FloatText
begin

text \<open>
  The rounding of floats is monotone and keeps the numbers of its format: what the bounds on computed sizes
  and on interpolated values rest on.
\<close>

section \<open>Powers of two\<close>

lemma pow2_pos [simp]: "0 < pow2 e"
  by (simp add: pow2_def)

lemma pow2_nonneg [simp]: "0 \<le> pow2 e"
  by (simp add: pow2_def)

lemma pow2_neq_0 [simp]: "pow2 e \<noteq> 0"
  using pow2_pos [of e] by linarith

lemma pow2_eq: "pow2 e = 2 powi e"
  by (cases "0 \<le> e") (simp_all only: pow2_def power_int_def if_True if_False power_inverse inverse_eq_divide power_one_over simp_thms)

lemma pow2_add: "pow2 (a + b) = pow2 a * pow2 b"
  by (simp add: pow2_eq power_int_add)

lemma pow2_Suc: "pow2 (e + 1) = 2 * pow2 e"
  by (simp add: pow2_eq power_int_add_1)

lemma pow2_diff: "pow2 (a - b) = pow2 a / pow2 b"
  by (simp add: pow2_eq power_int_diff)

lemma pow2_mono: "a \<le> b \<Longrightarrow> pow2 a \<le> pow2 b"
  by (simp add: pow2_eq power_int_increasing)

lemma pow2_less_cancel: "pow2 a < pow2 b \<Longrightarrow> a < b"
  using pow2_mono [of b a] by (meson linorder_not_le)

lemma pow2_le_cancel: "pow2 a \<le> pow2 b \<Longrightarrow> a \<le> b"
  using pow2_mono [of "b + 1" a] pow2_pos [of b] unfolding pow2_Suc by linarith

lemma pow2_nat: "0 \<le> e \<Longrightarrow> pow2 e = of_int (2 ^ nat e)"
  by (simp add: pow2_def)

lemma pow2_not_le_0 [simp]: "\<not> pow2 e \<le> 0"
  by (simp add: not_le)

lemma pow2_scale: "0 \<le> k \<Longrightarrow> 2 ^ nat k * pow2 e = pow2 (e + k)"
  by (simp add: pow2_add pow2_nat)

lemma exponent2_bounds:
  assumes "0 < q"
  shows "pow2 (exponent2 q) \<le> q \<and> q < pow2 (exponent2 q + 1)"
proof -
  obtain n d where nd: "quotient_of q = (n, d)" by (metis surj_pair)
  have d: "0 < d" using quotient_of_denom_pos [OF nd] .
  have q: "q = of_int n / of_int d" using quotient_of_div [OF nd] .
  have n: "0 < n" using assms d q by (simp add: zero_less_divide_iff)
  define a where "a = int (floorlog 2 (nat n))"
  define b where "b = int (floorlog 2 (nat d))"
  have bounds: "pow2 (int (floorlog 2 (nat m)) - 1) \<le> of_int m \<and> (of_int m :: rat) < pow2 (int (floorlog 2 (nat m)))" if "0 < m" for m
  proof -
    have fl: "2 ^ (floorlog 2 (nat m) - 1) \<le> nat m" "nat m < 2 ^ floorlog 2 (nat m)"
      using floorlog_bounds [of "nat m" 2] that by auto
    have ge: "1 \<le> floorlog 2 (nat m)" using that floorlog_eq_zero_iff [of 2 "nat m"] by (simp add: Suc_le_eq)
    have m: "of_nat (nat m) = (of_int m :: rat)" using that by (metis nat_0_le of_int_of_nat_eq order_less_imp_le)
    have p: "pow2 (int k) = of_nat (2 ^ k)" for k by (simp only: pow2_def) simp
    have i: "int (floorlog 2 (nat m)) - 1 = int (floorlog 2 (nat m) - 1)" using ge by simp
    show ?thesis unfolding i p m [symmetric] using fl by (simp only: of_nat_less_iff of_nat_le_iff)
  qed
  have "of_int n / of_int d < pow2 a / pow2 (b - 1)"
    using bounds [OF n] bounds [OF d] n d unfolding a_def b_def by (intro frac_less) simp_all
  then have up: "q < pow2 (a - b + 1)" by (simp add: q pow2_diff [symmetric] algebra_simps)
  have "pow2 (a - 1) / pow2 b \<le> of_int n / of_int d"
    using bounds [OF n] bounds [OF d] d n unfolding a_def b_def by (intro frac_le) auto
  then have lo: "pow2 (a - b - 1) \<le> q" by (simp add: q pow2_diff [symmetric] algebra_simps)
  show ?thesis
    using up lo by (auto simp: exponent2_def nd Let_def a_def [symmetric] b_def [symmetric])
qed

lemma exponent2_mono:
  assumes "0 < q" "q \<le> r"
  shows "exponent2 q \<le> exponent2 r"
proof -
  have "pow2 (exponent2 q) < pow2 (exponent2 r + 1)"
    using exponent2_bounds [of q] exponent2_bounds [of r] assms by simp
  then show ?thesis using pow2_less_cancel by fastforce
qed

section \<open>Rounding to an integer\<close>

lemma round_half_even_cases: "round_half_even q = \<lfloor>q\<rfloor> \<or> round_half_even q = \<lfloor>q\<rfloor> + 1 \<and> 1 / 2 \<le> q - of_int \<lfloor>q\<rfloor>"
  by (auto simp: round_half_even_def Let_def)

lemma round_half_even_int [simp]: "round_half_even (of_int i) = i"
  by (simp add: round_half_even_def)

lemma round_half_even_mono:
  assumes "q \<le> r"
  shows "round_half_even q \<le> round_half_even r"
proof (cases "\<lfloor>q\<rfloor> = \<lfloor>r\<rfloor>")
  case True
  with assms show ?thesis by (auto simp: round_half_even_def Let_def)
next
  case False
  with floor_mono [OF assms] have "\<lfloor>q\<rfloor> + 1 \<le> \<lfloor>r\<rfloor>" by simp
  with round_half_even_cases [of q] round_half_even_cases [of r] show ?thesis by auto
qed

lemma round_half_even_le: "q \<le> of_int i \<Longrightarrow> round_half_even q \<le> i"
  using round_half_even_mono [of q "of_int i"] by simp

lemma round_half_even_ge: "of_int i \<le> q \<Longrightarrow> i \<le> round_half_even q"
  using round_half_even_mono [of "of_int i" q] by simp

lemma round_half_even_minus: "round_half_even (- q) = - round_half_even q"
proof (cases "of_int \<lfloor>q\<rfloor> = q")
  case True
  then have "round_half_even q = \<lfloor>q\<rfloor>" "round_half_even (- q) = - \<lfloor>q\<rfloor>"
    using round_half_even_int [of "\<lfloor>q\<rfloor>"] round_half_even_int [of "- \<lfloor>q\<rfloor>"] by (simp_all only: of_int_minus True)
  then show ?thesis by simp
next
  case False
  then have f: "\<lfloor>- q\<rfloor> = - \<lfloor>q\<rfloor> - 1" by (metis ceiling_altdef ceiling_def minus_equation_iff diff_minus_eq_add uminus_add_conv_diff minus_add_distrib)
  show ?thesis unfolding round_half_even_def f Let_def by auto
qed

section \<open>Rounding to a format\<close>

definition quantum :: "int \<Rightarrow> int \<Rightarrow> rat \<Rightarrow> rat" where
  "quantum p emin q = pow2 (max (exponent2 q) emin - p + 1)"

definition rounded :: "int \<Rightarrow> int \<Rightarrow> rat \<Rightarrow> rat" where
  "rounded p emin q = of_int (round_half_even (q / quantum p emin q)) * quantum p emin q"

lemma round_format_pos:
  "0 < q \<Longrightarrow> round_format p emin emax q =
     (if \<bar>rounded p emin q\<bar> \<ge> pow2 (emax + 1) then (if 0 < rounded p emin q then PosInf else NegInf) else Fin (rounded p emin q))"
  by (simp add: round_format_def rounded_def quantum_def Let_def)

lemma quantum_pos [simp]: "0 < quantum p emin q"
  by (simp add: quantum_def)

lemma rounded_nonneg: "0 < q \<Longrightarrow> 0 \<le> rounded p emin q"
  unfolding rounded_def by (intro mult_nonneg_nonneg of_int_nonneg round_half_even_ge) (simp_all add: less_imp_le)

lemma rounded_le_pow2:
  assumes "0 \<le> p" "0 < q"
  shows "rounded p emin q \<le> pow2 (max (exponent2 q) emin + 1)"
proof -
  let ?e = "max (exponent2 q) emin"
  have "q \<le> pow2 (?e + 1)"
    using exponent2_bounds [OF assms(2)] pow2_mono [of "exponent2 q + 1" "?e + 1"] by simp
  also have "\<dots> = of_int (2 ^ nat p) * quantum p emin q"
    using assms(1) by (simp add: quantum_def pow2_scale add.commute)
  finally have "q / quantum p emin q \<le> of_int (2 ^ nat p)" by (simp add: pos_divide_le_eq)
  then have "round_half_even (q / quantum p emin q) \<le> 2 ^ nat p" by (rule round_half_even_le)
  then have "rounded p emin q \<le> of_int (2 ^ nat p) * quantum p emin q"
    unfolding rounded_def by (intro mult_right_mono) (simp_all only: of_int_le_iff less_imp_le quantum_pos)
  also have "\<dots> = pow2 (?e + 1)"
    using assms(1) by (simp add: quantum_def pow2_scale add.commute)
  finally show ?thesis .
qed

lemma rounded_ge_pow2:
  assumes "1 \<le> p" "0 < q" "emin \<le> exponent2 q"
  shows "pow2 (exponent2 q) \<le> rounded p emin q"
proof -
  have eq: "of_int (2 ^ nat (p - 1)) * quantum p emin q = pow2 (exponent2 q)"
    using assms by (simp add: quantum_def pow2_scale max_absorb1)
  then have "of_int (2 ^ nat (p - 1)) \<le> q / quantum p emin q"
    using exponent2_bounds [OF assms(2)] by (simp add: pos_le_divide_eq)
  then have "2 ^ nat (p - 1) \<le> round_half_even (q / quantum p emin q)" by (rule round_half_even_ge)
  then show ?thesis unfolding rounded_def eq [symmetric]
    by (intro mult_right_mono) (simp_all only: of_int_le_iff less_imp_le quantum_pos)
qed

lemma rounded_pos:
  assumes "1 \<le> p" "0 < q" "pow2 (emin - p + 1) \<le> q"
  shows "0 < rounded p emin q"
proof -
  have "pow2 (exponent2 q - p + 1) \<le> q"
    using pow2_mono [of "exponent2 q - p + 1" "exponent2 q"] exponent2_bounds [OF assms(2)] assms(1) by simp
  with assms(3) have "quantum p emin q \<le> q" by (auto simp: quantum_def max_def)
  then have "of_int 1 \<le> q / quantum p emin q" by (simp add: pos_le_divide_eq)
  then have "1 \<le> round_half_even (q / quantum p emin q)" by (rule round_half_even_ge)
  then show ?thesis by (simp add: rounded_def)
qed

lemma rounded_mono:
  assumes "1 \<le> p" "0 < q" "q \<le> r"
  shows "rounded p emin q \<le> rounded p emin r"
proof (cases "max (exponent2 q) emin = max (exponent2 r) emin")
  case True
  then have u: "quantum p emin r = quantum p emin q" by (simp add: quantum_def)
  have "round_half_even (q / quantum p emin q) \<le> round_half_even (r / quantum p emin q)"
    using assms(3) by (intro round_half_even_mono divide_right_mono) (simp_all add: less_imp_le)
  then show ?thesis unfolding rounded_def u
    by (intro mult_right_mono) (simp_all only: of_int_le_iff less_imp_le quantum_pos)
next
  case False
  with exponent2_mono [OF assms(2,3)] have lt: "max (exponent2 q) emin + 1 \<le> exponent2 r" by auto
  have "rounded p emin q \<le> pow2 (max (exponent2 q) emin + 1)" using assms by (intro rounded_le_pow2) simp_all
  also have "\<dots> \<le> pow2 (exponent2 r)" using lt by (rule pow2_mono)
  also have "\<dots> \<le> rounded p emin r" using assms lt by (intro rounded_ge_pow2) simp_all
  finally show ?thesis .
qed

lemma round_format_0 [simp]: "round_format p emin emax 0 = Fin 0"
  by (simp add: round_format_def)

lemma round_format_minus: "round_format p emin emax (- q) = f_neg (round_format p emin emax q)"
proof (cases "q = 0")
  case False
  define u where "u = pow2 (max (exponent2 \<bar>q\<bar>) emin - p + 1)"
  define x where "x = of_int (round_half_even (q / u)) * u"
  have neg: "of_int (round_half_even (- q / u)) * u = - x"
    using round_half_even_minus [of "q / u"] by (simp add: x_def)
  have lim: "0 < pow2 (emax + 1)" by simp
  show ?thesis
    using False lim unfolding round_format_def Let_def abs_minus_cancel u_def [symmetric] neg x_def [symmetric]
    by (simp add: not_less)
qed simp

lemma round_format_nonneg: "0 < q \<Longrightarrow> f_le (Fin 0) (round_format p emin emax q)"
  using rounded_nonneg [of q p emin] pow2_pos [of "emax + 1"]
  by (auto simp: round_format_pos f_le_def f_eq_iff)

lemma round_format_mono_pos:
  assumes "1 \<le> p" "0 < q" "q \<le> r"
  shows "f_le (round_format p emin emax q) (round_format p emin emax r)"
proof -
  have "0 < r" using assms by simp
  with assms show ?thesis
    using rounded_mono [OF assms, of emin] rounded_nonneg [of q p emin] pow2_pos [of "emax + 1"]
    by (auto simp: round_format_pos f_le_def f_eq_iff)
qed

lemma f_le_neg: "f_le (f_neg x) (f_neg y) \<longleftrightarrow> f_le y x"
  by (cases x; cases y) (auto simp: f_le_def f_eq_iff)

lemma f_le_transitive: "f_le x y \<Longrightarrow> f_le y z \<Longrightarrow> f_le x z"
  by (auto simp: f_le_def f_eq_iff intro: f_lt_trans)

lemma f_le_Fin [simp]: "f_le (Fin a) (Fin b) \<longleftrightarrow> a \<le> b"
  by (auto simp: f_le_def)

lemma round_format_mono:
  assumes "1 \<le> p" "q \<le> r"
  shows "f_le (round_format p emin emax q) (round_format p emin emax r)"
proof -
  consider "0 < q" | "q \<le> 0" "0 \<le> r" | "r < 0" by linarith
  then show ?thesis
  proof cases
    case 1
    with assms show ?thesis by (intro round_format_mono_pos)
  next
    case 2
    have "f_le (round_format p emin emax q) (Fin 0)"
    proof (cases "q = 0")
      case False
      with 2 have "f_le (Fin 0) (round_format p emin emax (- q))" by (intro round_format_nonneg) simp
      then show ?thesis using f_le_neg [of "Fin 0" "round_format p emin emax q"] by (simp add: round_format_minus)
    qed simp
    moreover have "f_le (Fin 0) (round_format p emin emax r)"
      using 2 round_format_nonneg [of r] by (cases "r = 0") simp_all
    ultimately show ?thesis by (rule f_le_transitive)
  next
    case 3
    with assms have "f_le (round_format p emin emax (- r)) (round_format p emin emax (- q))"
      by (intro round_format_mono_pos) simp_all
    then show ?thesis by (simp add: round_format_minus f_le_neg)
  qed
qed

lemma round64_mono: "q \<le> r \<Longrightarrow> f_le (round64 q) (round64 r)"
  unfolding round64_def by (rule round_format_mono) simp_all

lemma round32_mono: "q \<le> r \<Longrightarrow> f_le (round32 q) (round32 r)"
  unfolding round32_def by (rule round_format_mono) simp_all

text \<open>The integers of at most \<open>p\<close> bits are numbers of the format.\<close>

lemma rounded_exact:
  assumes "q = of_int m * quantum p emin q"
  shows "rounded p emin q = q"
proof -
  have "q / quantum p emin q = of_int m" by (subst assms) (simp add: less_imp_neq [OF quantum_pos, symmetric])
  then show ?thesis using assms by (simp add: rounded_def)
qed

lemma rounded_int:
  assumes "emin \<le> 0" "1 \<le> p" "0 < i" "i \<le> 2 ^ nat p"
  shows "rounded p emin (of_int i) = of_int i"
proof -
  let ?e = "exponent2 (of_int i)"
  have b: "pow2 ?e \<le> of_int i \<and> of_int i < pow2 (?e + 1)" using assms(3) by (intro exponent2_bounds) simp
  have e0: "0 \<le> ?e" using b assms(3) pow2_less_cancel [of 0 "?e + 1"] by (simp add: pow2_def [of 0])
  have q: "quantum p emin (of_int i) = pow2 (?e - p + 1)" using e0 assms(1) by (simp add: quantum_def max_absorb1)
  show ?thesis
  proof (cases "?e \<le> p - 1")
    case True
    have "(of_int i :: rat) = of_int (i * 2 ^ nat (p - 1 - ?e)) * quantum p emin (of_int i)"
      using True unfolding q by (simp add: pow2_scale mult.assoc) (simp add: pow2_def)
    then show ?thesis by (rule rounded_exact)
  next
    case False
    have "pow2 p \<le> pow2 ?e" using False by (intro pow2_mono) simp
    with b assms(2,4) have i: "of_int i = pow2 p"
      by (metis antisym of_int_le_iff order_trans pow2_nat order.trans zero_le_one)
    then have e: "?e = p" using b pow2_le_cancel [of ?e p] False by simp
    have "(of_int i :: rat) = of_int (2 ^ nat (p - 1)) * quantum p emin (of_int i)"
      using assms(2) unfolding q e by (simp add: pow2_scale i)
    then show ?thesis by (rule rounded_exact)
  qed
qed

lemma round_format_int:
  assumes "emin \<le> 0" "1 \<le> p" "p \<le> emax" "\<bar>i\<bar> \<le> 2 ^ nat p"
  shows "round_format p emin emax (of_int i) = Fin (of_int i)"
proof -
  have pos: "round_format p emin emax (of_int k) = Fin (of_int k)" if k: "0 < k" "k \<le> 2 ^ nat p" for k
  proof -
    have "(of_int k :: rat) \<le> of_int (2 ^ nat p)" using k(2) by (simp only: of_int_le_iff)
    also have "\<dots> = pow2 p" using assms(2) by (simp add: pow2_nat)
    also have "\<dots> < pow2 (emax + 1)"
      using pow2_mono [of "p + 1" "emax + 1"] assms(3) pow2_pos [of p] unfolding pow2_Suc [of p] by linarith
    finally have "\<not> pow2 (emax + 1) \<le> \<bar>of_int k\<bar>" using k(1) by simp
    then show ?thesis using rounded_int [OF assms(1,2) k] k(1) by (simp add: round_format_pos)
  qed
  consider "0 < i" | "i = 0" | "i < 0" by linarith
  then show ?thesis
  proof cases
    case 3
    with pos [of "- i"] assms(4) show ?thesis
      using round_format_minus [of p emin emax "- of_int i"] by simp
  qed (use pos assms(4) in auto)
qed

lemma round64_int: "\<bar>i\<bar> \<le> 2 ^ 53 \<Longrightarrow> round64 (of_int i) = Fin (of_int i)"
  unfolding round64_def by (rule round_format_int) simp_all

lemma round32_int: "\<bar>i\<bar> \<le> 2 ^ 24 \<Longrightarrow> round32 (of_int i) = Fin (of_int i)"
  unfolding round32_def by (rule round_format_int) simp_all

lemma round64_less_pow2:
  assumes "round64 r = Fin r"
  shows "\<bar>r\<bar> < pow2 1024"
  using assms by (auto simp: round64_def round_format_def Let_def split: if_splits)

lemma round64_pos:
  assumes "pow2 (- 1024) \<le> q"
  shows "f_lt (Fin 0) (round64 q)"
proof -
  have q: "0 < q" using assms pow2_pos [of "- 1024"] by linarith
  have "pow2 (- 1022 - 53 + 1) \<le> q" using pow2_mono [of "- 1022 - 53 + 1" "- 1024"] assms by linarith
  then have "0 < rounded 53 (- 1022) q" using q by (intro rounded_pos) simp_all
  then show ?thesis using q by (simp add: round64_def round_format_pos)
qed

text \<open>Integers of 53 bits scaled by a power of two, and the ceiling of a rounded quotient.\<close>

lemma exponent2_unique:
  assumes "pow2 e \<le> q" "q < pow2 (e + 1)"
  shows "exponent2 q = e"
proof -
  have "0 < q" using assms(1) pow2_pos [of e] by linarith
  then have b: "pow2 (exponent2 q) \<le> q" "q < pow2 (exponent2 q + 1)" using exponent2_bounds by blast+
  have "pow2 e < pow2 (exponent2 q + 1)" "pow2 (exponent2 q) < pow2 (e + 1)" using assms b by linarith+
  then have "e < exponent2 q + 1" "exponent2 q < e + 1" by (simp_all only: pow2_less_cancel)
  then show ?thesis by simp
qed

lemma exponent2_scale:
  assumes "0 < q"
  shows "exponent2 (q * pow2 s) = exponent2 q + s"
proof (rule exponent2_unique)
  note b = exponent2_bounds [OF assms]
  show "pow2 (exponent2 q + s) \<le> q * pow2 s" using b by (simp add: pow2_add mult_right_mono)
  have "q * pow2 s < pow2 (exponent2 q + 1) * pow2 s" using b by (intro mult_strict_right_mono) simp_all
  then show "q * pow2 s < pow2 (exponent2 q + s + 1)" by (simp add: pow2_add [symmetric] algebra_simps)
qed

lemma rounded_scale:
  assumes "0 < q" "emin \<le> exponent2 q" "emin \<le> exponent2 q + s"
  shows "rounded p emin (q * pow2 s) = rounded p emin q * pow2 s"
proof -
  have "quantum p emin (q * pow2 s) = quantum p emin q * pow2 s"
    using assms by (simp add: quantum_def exponent2_scale pow2_add [symmetric] algebra_simps)
  then show ?thesis by (simp add: rounded_def)
qed

lemma round64_scaled_int:
  assumes "0 < m" "m \<le> 2 ^ 53" "- 1022 \<le> s" "s \<le> 0"
  shows "round64 (of_int m * pow2 s) = Fin (of_int m * pow2 s)"
proof -
  have e: "0 \<le> exponent2 (of_int m)"
    using exponent2_bounds [of "of_int m"] assms(1) pow2_less_cancel [of 0 "exponent2 (of_int m) + 1"] by (simp add: pow2_def [of 0])
  have "rounded 53 (- 1022) (of_int m * pow2 s) = rounded 53 (- 1022) (of_int m) * pow2 s"
    using assms e by (intro rounded_scale) simp_all
  also have "rounded 53 (- 1022) (of_int m) = of_int m" using assms by (intro rounded_int) simp_all
  finally have r: "rounded 53 (- 1022) (of_int m * pow2 s) = of_int m * pow2 s" .
  have "pow2 s \<le> 1" using pow2_mono [OF assms(4)] by (simp add: pow2_def [of 0])
  then have "of_int m * pow2 s \<le> of_int m" using assms(1) by (simp add: mult_left_le)
  also have "\<dots> \<le> of_int (2 ^ 53)" using assms(2) by (simp only: of_int_le_iff)
  also have "\<dots> = pow2 53" by (simp add: pow2_nat)
  also have "\<dots> < pow2 (1023 + 1)" using pow2_mono [of "53 + 1" "1023 + 1"] pow2_pos [of 53] unfolding pow2_Suc [of 53] by linarith
  finally show ?thesis using assms(1) r by (simp add: round64_def round_format_pos abs_of_pos)
qed

lemma above_int_survives:
  assumes "0 < k" "of_int k + 1 / of_int b \<le> x" "0 < b" "k * b \<le> 2 ^ 52"
  shows "f_lt (Fin (of_int k)) (round64 x)"
proof -
  define e where "e = exponent2 (of_int k)"
  have e: "pow2 e \<le> of_int k" "of_int k < pow2 (e + 1)" using exponent2_bounds [of "of_int k"] assms(1) by (simp_all add: e_def)
  have e0: "0 \<le> e" using e(2) assms(1) pow2_less_cancel [of 0 "e + 1"] by (simp add: pow2_def [of 0])
  have kb: "of_int k * of_int b \<le> pow2 52" using assms(4) by (simp add: pow2_nat flip: of_int_mult) 
  have "pow2 e * of_int b \<le> of_int k * of_int b" using e(1) assms(3) by (intro mult_right_mono) simp_all
  with kb have eb: "pow2 e * of_int b \<le> pow2 52" by linarith
  then have "pow2 (e - 52) * of_int b \<le> 1" by (simp add: pow2_diff divide_le_eq)
  then have step: "pow2 (e - 52) \<le> 1 / of_int b" using assms(3) by (simp add: le_divide_eq)
  have "pow2 e * 1 \<le> pow2 e * of_int b" using assms(3) by (intro mult_left_mono) simp_all
  with eb have "pow2 e \<le> pow2 52" by linarith
  then have e52: "e \<le> 52" by (rule pow2_le_cancel)
  define m where "m = k * 2 ^ nat (52 - e) + 1"
  have m: "of_int m * pow2 (e - 52) = of_int k + pow2 (e - 52)"
  proof -
    have "of_int (2 ^ nat (52 - e)) * pow2 (e - 52) = 1"
      using e52 by (simp add: pow2_scale) (simp add: pow2_def)
    then show ?thesis by (simp add: m_def distrib_right mult.assoc)
  qed
  have "of_int (k * 2 ^ nat (52 - e)) = of_int k * pow2 (52 - e)" using e52 by (simp add: pow2_nat)
  also have "\<dots> < pow2 (e + 1) * pow2 (52 - e)" using e(2) by (intro mult_strict_right_mono) simp_all
  also have "\<dots> = of_int (2 ^ 53)" by (simp add: pow2_add [symmetric] pow2_nat)
  finally have "k * 2 ^ nat (52 - e) < 2 ^ 53" by (simp only: of_int_less_iff)
  then have "m \<le> 2 ^ 53" by (simp add: m_def)
  moreover have "0 < m" using assms(1) by (simp add: m_def add_nonneg_pos)
  ultimately have "round64 (of_int k + pow2 (e - 52)) = Fin (of_int k + pow2 (e - 52))"
    using round64_scaled_int [of m "e - 52"] e0 e52 by (simp add: m)
  moreover have "of_int k + pow2 (e - 52) \<le> x" using step assms(2) by linarith
  ultimately have "f_le (Fin (of_int k + pow2 (e - 52))) (round64 x)" using round64_mono by metis
  moreover have "f_lt (Fin (of_int k)) (Fin (of_int k + pow2 (e - 52)))" by simp
  ultimately show ?thesis by (meson f_lt_le_trans)
qed

lemma ceiling_of_rounded:
  assumes "0 < a" "a \<le> 2 ^ 52" "0 < b" "b \<le> 2 ^ 53"
  shows "\<exists>q. round64 (of_int a / of_int b) = Fin q \<and> \<lceil>q\<rceil> = \<lceil>of_int a / (of_int b :: rat)\<rceil>"
proof -
  define x :: rat where "x = of_int a / of_int b"
  define k where "k = \<lceil>x\<rceil> - 1"
  have x: "0 < x" using assms by (simp add: x_def)
  have k: "of_int k < x" "x \<le> of_int (k + 1)" unfolding k_def by linarith+
  have k0: "0 \<le> k" using x by (simp add: k_def)
  have "of_int a * 1 \<le> of_int a * (of_int b :: rat)" using assms by (intro mult_left_mono) simp_all
  then have "x \<le> of_int a" using assms by (simp add: x_def pos_divide_le_eq)
  then have ka: "k + 1 \<le> a" unfolding k_def by (simp add: ceiling_le_iff)
  have up: "f_le (round64 x) (Fin (of_int (k + 1)))"
    using round64_mono [OF k(2)] ka k0 assms(2) round64_int [of "k + 1"] by simp
  have "of_int k * of_int b < (of_int a :: rat)" using k(1) assms(3) by (simp add: x_def pos_less_divide_eq)
  then have kb: "k * b < a" by (simp flip: of_int_mult)
  have low: "f_lt (Fin (of_int k)) (round64 x)"
  proof (cases "k = 0")
    case True
    have le: "pow2 (- 1024) \<le> pow2 (- 53)" by (rule pow2_mono) simp
    have "of_int b \<le> (of_int (2 ^ 53) :: rat)" using assms(4) by (simp only: of_int_le_iff)
    with le have "pow2 (- 1024) * of_int b \<le> pow2 (- 53) * of_int (2 ^ 53)"
      using assms(3) by (intro mult_mono) simp_all
    also have "\<dots> = 1" by (simp add: pow2_def)
    also have "\<dots> \<le> of_int a" using assms(1) by simp
    finally have "pow2 (- 1024) \<le> x" using assms(3) by (simp add: x_def pos_le_divide_eq)
    then show ?thesis using True round64_pos by simp
  next
    case False
    have "of_int (k * b + 1) \<le> (of_int a :: rat)" using kb by (simp only: of_int_le_iff)
    then have "of_int (k * b + 1) / of_int b \<le> x" unfolding x_def using assms(3) by (intro divide_right_mono) simp_all
    then have "of_int k + 1 / of_int b \<le> x" using assms(3) by (simp add: add_divide_distrib)
    then show ?thesis using False k0 kb assms(2,3) by (intro above_int_survives [of k b x]) simp_all
  qed
  obtain q where q: "round64 x = Fin q" "of_int k < q" "q \<le> of_int (k + 1)"
    using low up by (cases "round64 x") (auto simp: f_le_def)
  then have "\<lceil>q\<rceil> = k + 1" by (intro ceiling_unique) simp_all
  then show ?thesis using q(1) by (auto simp: x_def k_def)
qed

section \<open>Conversion to an integer\<close>

lemma truncate_of_int [simp]: "FloatText.truncate (of_int i) = i"
  by (simp add: FloatText.truncate_def)

lemma float_int_id: "- (2 ^ 63) \<le> i \<Longrightarrow> i < 2 ^ 63 \<Longrightarrow> float_int (Fin (of_int i)) = i"
  by simp

end
