(* ===== verification/AutoscalerProps.thy ===== *)
theory AutoscalerProps
  imports Autoscaler Rounding
begin

text \<open>
  The autoscaler decides on sizes within its limits, brings the pods to the size it asks for, and chooses the
  pods to delete among the cheapest, provided that every pod is ready.
\<close>

section \<open>The decision\<close>

lemma config_ok:
  assumes "config_error cfg = None"
  shows "\<not> f_lt (cf_Ratio cfg) (Fin 1)" "\<not> f_lt (cf_MinRatio cfg) (Fin 0)" "1 \<le> cf_MaxStep cfg"
    "1 \<le> cf_MaxInstances cfg" "0 \<le> cf_MinInstances cfg" "cf_MinInstances cfg \<le> cf_MaxInstances cfg"
  using assms by (simp_all add: config_error_def not_less split: if_splits)

lemma f_between:
  assumes "f_lt (Fin a) x" "f_le x (Fin b)"
  obtains q where "x = Fin q" "a < q" "q \<le> b"
  using assms by (cases x) (auto simp: f_le_def)

lemma ceil_quot_bounds:
  assumes "round64 r = Fin r" "0 < r" "0 < b" "b \<le> 2 ^ 53" "of_int b / r \<le> of_int m" "m \<le> 2 ^ 53"
  shows "1 \<le> ceil_quot b (Fin r) \<and> ceil_quot b (Fin r) \<le> m"
proof -
  have b: "int_float b = Fin (of_int b)" using assms(3,4) by (simp add: int_float_def round64_int)
  have m0: "0 < m"
  proof -
    have "0 < of_int b / r" using assms(2,3) by simp
    with assms(5) have "(0 :: rat) < of_int m" by linarith
    then show ?thesis by simp
  qed
  have "pow2 (- 1024) * r \<le> pow2 (- 1024) * pow2 1024"
    using round64_less_pow2 [OF assms(1)] by (intro mult_left_mono) simp_all
  also have "\<dots> = 1" by (simp add: pow2_add [symmetric]) (simp add: pow2_def)
  also have "\<dots> \<le> of_int b" using assms(3) by simp
  finally have "pow2 (- 1024) \<le> of_int b / r" using assms(2) by (simp add: pos_le_divide_eq)
  then have pos: "f_lt (Fin 0) (round64 (of_int b / r))" by (rule round64_pos)
  have le: "f_le (round64 (of_int b / r)) (Fin (of_int m))"
    using round64_mono [OF assms(5)] m0 assms(6) by (simp add: round64_int)
  obtain q where q: "round64 (of_int b / r) = Fin q" "0 < q" "q \<le> of_int m" by (rule f_between [OF pos le])
  have fits: "- (2 ^ 63) \<le> c" "c < 2 ^ 63" if "1 \<le> c" "c \<le> m" for c using that assms(6) by simp_all
  have "1 \<le> \<lceil>q\<rceil>" using q(2) by simp
  moreover have "\<lceil>q\<rceil> \<le> m" using q(3) by (simp add: ceiling_le_iff)
  moreover have "ceil_quot b (Fin r) = float_int (Fin (of_int \<lceil>q\<rceil>))"
    using assms(2) by (simp only: ceil_quot_def b f_div.simps if_False q(1) f_ceil.simps order_less_irrefl less_imp_neq [symmetric])
  moreover have "float_int (Fin (of_int \<lceil>q\<rceil>)) = \<lceil>q\<rceil>"
    by (rule float_int_id [OF fits [OF calculation(1,2)]])
  ultimately show ?thesis by simp
qed

lemma capped_size_bounds:
  assumes "1 \<le> cf_MaxInstances cfg"
  shows "1 \<le> needed \<Longrightarrow> 0 < backlog \<Longrightarrow> 1 \<le> capped_size cfg backlog n needed"
    and "n < capped_size cfg backlog n needed \<Longrightarrow> capped_size cfg backlog n needed \<le> cf_MaxInstances cfg"
  using assms by (auto simp: capped_size_def split: if_splits)

lemma wanted_size_pos:
  assumes "config_error cfg = None" "cf_Ratio cfg = Fin r" "cf_MinRatio cfg = Fin m" "round64 r = Fin r" "round64 m = Fin m"
    and "0 < backlog" "backlog \<le> 2 ^ 53" "0 \<le> n" "n \<le> 2 ^ 53"
  shows "1 \<le> wanted_size cfg backlog n"
proof -
  have r: "1 \<le> r" using config_ok(1) [OF assms(1)] assms(2) by simp
  have quot: "1 \<le> ceil_quot backlog (Fin r)"
  proof -
    have "of_int backlog * 1 \<le> of_int backlog * r" using r assms(6) by (intro mult_left_mono) simp_all
    then have "of_int backlog / r \<le> of_int backlog" using r by (simp add: pos_divide_le_eq)
    with ceil_quot_bounds [OF assms(4) _ assms(6,7) _ assms(7)] r show ?thesis by simp
  qed
  have low: "1 \<le> ceil_quot backlog (Fin m)" if "0 < n" "0 < m" "f_lt (f_div (int_float backlog) (int_float n)) (Fin m)"
  proof -
    have "f_lt (round64 (of_int backlog / of_int n)) (Fin m)"
      using that(1,3) assms(6-9) by (simp add: int_float_def round64_int)
    then have "\<not> m \<le> of_int backlog / of_int n"
      using round64_mono [of m "of_int backlog / of_int n"] assms(5) by (auto simp: f_le_def f_eq_iff dest: f_lt_asym)
    then have "of_int backlog / m \<le> of_int n" using that(1,2) by (simp add: field_simps)
    with ceil_quot_bounds [OF assms(5) that(2) assms(6,7) _ assms(9)] show ?thesis by simp
  qed
  show ?thesis using assms(2,3,6,8) quot low by (auto simp: wanted_size_def Let_def)
qed

text \<open>C32: The size that the autoscaler decides on.  For a valid configuration whose ratios are floats, a
  backlog and a number of instances of at most 2^53: without a backlog it is MinInstances; with a backlog it is at
  least one instance; it grows beyond the present number only up to MaxInstances; and with a backlog it differs from
  the present number by at most MaxStep, unless it is MinInstances.\<close>

theorem scaling_is_bounded:
  assumes "config_error cfg = None" "cf_Ratio cfg = Fin r" "cf_MinRatio cfg = Fin m" "round64 r = Fin r" "round64 m = Fin m"
    and "0 \<le> backlog" "backlog \<le> 2 ^ 53" "0 \<le> n" "n \<le> 2 ^ 53"
  shows "(backlog = 0 \<longrightarrow> needed_size cfg backlog n = cf_MinInstances cfg) \<and>
    (0 < backlog \<longrightarrow> 1 \<le> needed_size cfg backlog n) \<and>
    (n < needed_size cfg backlog n \<longrightarrow> needed_size cfg backlog n \<le> cf_MaxInstances cfg) \<and>
    (0 < backlog \<and> needed_size cfg backlog n \<noteq> cf_MinInstances cfg \<longrightarrow> \<bar>needed_size cfg backlog n - n\<bar> \<le> cf_MaxStep cfg)"
proof -
  note cfg = config_ok [OF assms(1)]
  define c where "c = capped_size cfg backlog n (wanted_size cfg backlog n)"
  have pos: "1 \<le> c" if "0 < backlog"
    unfolding c_def using wanted_size_pos [OF assms(1-5) that assms(7-9)] that cfg(4) by (intro capped_size_bounds)
  have top: "c \<le> cf_MaxInstances cfg" if "n < c"
    using that cfg(4) unfolding c_def by (intro capped_size_bounds)
  have none: "c = 0" if "backlog = 0"
    unfolding c_def using that cfg(4) by (simp add: wanted_size_def capped_size_def)
  show ?thesis
    unfolding needed_size_def c_def [symmetric] stepped_size_def using cfg pos top none assms(6,8) by auto
qed

definition sample_config :: scale_config where
  "sample_config = \<lparr>cf_Ratio = Fin 2, cf_MinRatio = Fin 1, cf_MaxStep = 4, cf_MaxInstances = 10, cf_MinInstances = 1\<rparr>"

lemma sample_size: "needed_size sample_config 40 1 = 5"
  using round64_int [of 40] round64_int [of 1] round64_int [of 20]
  by (simp add: needed_size_def wanted_size_def ceil_quot_def int_float_def capped_size_def stepped_size_def sample_config_def
      Let_def FloatText.truncate_def)

lemma scaling_is_bounded_witness:
  "config_error sample_config = None \<and> needed_size sample_config 40 1 = 5 \<and> needed_size sample_config 40 1 \<le> 10"
proof -
  have c: "config_error sample_config = None" by (simp add: config_error_def sample_config_def)
  have r: "round64 2 = Fin 2" "round64 1 = Fin 1" using round64_int [of 2] round64_int [of 1] by simp_all
  have s: "cf_Ratio sample_config = Fin 2" "cf_MinRatio sample_config = Fin 1" "cf_MaxInstances sample_config = 10"
    by (simp_all add: sample_config_def)
  have "needed_size sample_config 40 1 \<le> cf_MaxInstances sample_config"
    using scaling_is_bounded [OF c s(1,2) r, of 40 1] sample_size by simp
  with c s sample_size show ?thesis by simp
qed

section \<open>The size of the set of pods\<close>

definition no_failure :: "kube \<Rightarrow> bool" where
  "no_failure K \<longleftrightarrow> k_list K = None \<and> k_get K = None \<and> (\<forall>n. k_delete K n = None) \<and> (\<forall>i. k_create K i = None)"

lemma delete_pods_all:
  "no_failure K \<Longrightarrow> delete_pods K pre ps pods = (None, filter (\<lambda>p. p_Name p \<notin> p_Name ` set ps) pods)"
  by (induction ps arbitrary: pods) (auto simp: no_failure_def drop_pod_def intro: filter_cong)

lemma delete_logged_all:
  "no_failure K \<Longrightarrow> delete_logged K ps pods = filter (\<lambda>p. p_Name p \<notin> p_Name ` set ps) pods"
  by (induction ps arbitrary: pods) (auto simp: no_failure_def drop_pod_def intro: filter_cong)

lemma create_pods_all:
  assumes "createPod K D = Inr np" "no_failure K"
  shows "create_pods K D i n pods = (None, pods @ map (\<lambda>j. k_pod K j np) [i..<i + n])"
  using assms by (induction n arbitrary: i pods) (simp_all add: no_failure_def upt_conv_Cons del: upt_Suc)

lemma drop_dead:
  assumes "distinct (map p_Name pods)"
  shows "filter (\<lambda>p. p_Name p \<notin> p_Name ` set (filter (\<lambda>p. \<not> ok p) pods)) pods = filter ok pods"
  using assms by (intro filter_cong) (auto simp: distinct_map inj_on_def)

lemma drop_tail:
  assumes "distinct (map p_Name ps)"
  shows "filter (\<lambda>p. p_Name p \<notin> p_Name ` set (drop k ps)) ps = take k ps"
proof -
  have "distinct (map p_Name (take k ps @ drop k ps))" using assms by simp
  then have "filter (\<lambda>p. p_Name p \<notin> p_Name ` set (drop k ps)) (take k ps @ drop k ps) = take k ps"
    unfolding filter_append map_append distinct_append
    by (auto simp: filter_empty_conv intro!: filter_True)
  then show ?thesis by simp
qed

text \<open>C34: Resize brings the pods to the size it is asked for.  When no call to Kubernetes fails, the pods have
  distinct names and created pods are active, it deletes the finished pods; then either a pod is still pending and
  more are wanted, which is an error that creates nothing, or exactly the wanted number of active pods is left, the
  first of the active ones being kept, none of them replaced.  Size 0 deletes every pod.\<close>

theorem resize_reaches_size:
  assumes "no_failure K" "distinct (map p_Name pods)" "\<And>i np. isPodActive (k_pod K i np)" "0 \<le> newSize"
  shows "\<exists>eo pods'. Resize K D newSize pods = Ret (eo, pods') \<and>
    (eo = None \<longrightarrow> int (length pods') = newSize \<and> (\<forall>p \<in> set pods'. isPodActive p) \<and>
       take (nat newSize) (filter isPodActive pods) = take (length (filter isPodActive pods)) pods') \<and>
    (eo \<noteq> None \<longrightarrow> pods' = filter isPodActive pods) \<and>
    (eo \<noteq> None \<longleftrightarrow> int (length (filter isPodActive pods)) < newSize \<and>
       list_ex (\<lambda>p. p_Phase p = PodPending) (filter isPodActive pods))"
proof -
  define active where "active = filter isPodActive pods"
  have names: "distinct (map p_Name active)" using assms(2) by (simp add: active_def distinct_map_filter)
  have logged: "delete_logged K (filter (\<lambda>p. \<not> isPodActive p) pods) pods = active"
    unfolding delete_logged_all [OF assms(1)] active_def by (rule drop_dead [OF assms(2)])
  have list: "listPods K D pods = Inr pods" using assms(1) by (simp add: listPods_def no_failure_def)
  obtain np where np: "createPod K D = Inr np" using assms(1) by (simp add: createPod_def no_failure_def)
  have act: "\<forall>p \<in> set active. isPodActive p" by (simp add: active_def)
  have run: "Resize K D newSize pods =
    (if newSize = 0 then Ret (None, [])
     else if newSize > int (length active)
     then (if list_ex (\<lambda>p. p_Phase p = PodPending) active
           then Ret (Some (PlainE (''not applying resize to '' @ itoa newSize @ '', cluster not at target'')), active)
           else Ret (None, active @ map (\<lambda>j. k_pod K j np) [length active..<length active + nat (newSize - int (length active))]))
     else Ret (None, take (nat newSize) active))"
    using assms(4) by (simp add: Resize_def list logged active_def [symmetric] Let_def create_pods_all [OF np assms(1)]
      delete_pods_all [OF assms(1)] drop_tail [OF names] filter_empty_conv)
  show ?thesis
    unfolding run active_def [symmetric] using assms(3,4) act by (auto dest: in_set_takeD)
qed

definition running_pod :: "string \<Rightarrow> pod" where
  "running_pod n = \<lparr>p_Name = n, p_Phase = PodRunning, p_Deleted = False, p_Conditions = [(''Ready'', ''True'')],
     p_Node = ''n1'', p_IP = ''10.0.0.1''\<rparr>"

definition sample_kube :: kube where
  "sample_kube = \<lparr>k_list = None, k_get = None, k_template = [], k_delete = (\<lambda>_. None), k_create = (\<lambda>_. None),
     k_pod = (\<lambda>i np. running_pod (np_GenerateName np @ itoa (int i))), k_http = (\<lambda>_. Inr 0), k_arrival = (\<lambda>x. x), k_nodes = (\<lambda>x. x)\<rparr>"

definition sample_controller :: controller where
  "sample_controller = \<lparr>rc_name = ''rc'', rc_CostLimit = 0, rc_CostPort = 80, rc_CostPath = ''/cost'', rc_AllowEviction = True, rc_SpreadOnNodes = False\<rparr>"

lemma resize_reaches_size_witness:
  "\<exists>pods'. Resize sample_kube sample_controller 3 [running_pod ''a'', (running_pod ''b'')\<lparr>p_Phase := PodFailed\<rparr>] = Ret (None, pods') \<and>
     length pods' = 3 \<and> take 1 pods' = [running_pod ''a'']"
proof -
  let ?ps = "[running_pod ''a'', (running_pod ''b'')\<lparr>p_Phase := PodFailed\<rparr>]"
  have K: "no_failure sample_kube" by (simp add: no_failure_def sample_kube_def)
  have a: "filter isPodActive ?ps = [running_pod ''a'']" by (simp add: isPodActive_def running_pod_def)
  have p: "isPodActive (k_pod sample_kube i np)" for i np by (simp add: sample_kube_def isPodActive_def running_pod_def)
  have d: "distinct (map p_Name ?ps)" by (simp add: running_pod_def)
  have z: "(0 :: int) \<le> 3" by simp
  show ?thesis
    using resize_reaches_size [OF K d p z, of sample_controller] unfolding a
    by (auto simp: running_pod_def)
qed

section \<open>The choice of the pods to delete\<close>

lemma mset_by_node:
  "distinct ns \<Longrightarrow> mset (concat (map (\<lambda>n. filter (\<lambda>c. node c = n) cs) ns)) = mset (filter (\<lambda>c. node c \<in> set ns) cs)"
proof (induction ns)
  case (Cons n ns)
  have "filter_mset (\<lambda>c. node c = n \<or> node c \<in> set ns) M = filter_mset (\<lambda>c. node c = n) M + filter_mset (\<lambda>c. node c \<in> set ns) M" for M
    using Cons.prems by (induction M) auto
  with Cons show ?case by (simp add: mset_filter)
qed simp

lemma cheaper_than_cut:
  assumes "mset costs = mset (map (\<lambda>i. \<lparr>pc_idx = i, pc_cost = f i, pc_node = g i\<rparr>) [0..<n])"
    and "sorted_wrt (\<lambda>a b. \<not> pc_cost b < pc_cost a) costs" "0 < needed" "needed \<le> n" "x \<le> pc_cost (costs ! (needed - 1))"
  shows "card {j. j < n \<and> f j < x} < needed"
proof -
  have len: "length costs = n" using mset_eq_length [OF assms(1)] by simp
  have "{j. j < n \<and> f j < x} \<subseteq> pc_idx ` set (take (needed - 1) costs)"
  proof
    fix j assume j: "j \<in> {j. j < n \<and> f j < x}"
    have "\<lparr>pc_idx = j, pc_cost = f j, pc_node = g j\<rparr> \<in> set costs"
      using j mset_eq_setD [OF assms(1)] by auto
    then obtain k where k: "k < length costs" "costs ! k = \<lparr>pc_idx = j, pc_cost = f j, pc_node = g j\<rparr>"
      by (metis in_set_conv_nth)
    have "k < needed - 1"
    proof (rule ccontr)
      assume "\<not> k < needed - 1"
      then have "pc_cost (costs ! (needed - 1)) \<le> pc_cost (costs ! k)"
        using sorted_wrt_nth_less [OF assms(2), of "needed - 1" k] k(1) by (cases "k = needed - 1") auto
      with j assms(5) k(2) show False by simp
    qed
    then have "costs ! k \<in> set (take (needed - 1) costs)" using k(1) by (metis in_set_conv_nth length_take min_less_iff_conj nth_take)
    then show "j \<in> pc_idx ` set (take (needed - 1) costs)" using k(2) by force
  qed
  then have "card {j. j < n \<and> f j < x} \<le> card (pc_idx ` set (take (needed - 1) costs))" by (intro card_mono) simp_all
  also have "\<dots> \<le> length (take (needed - 1) costs)" by (metis card_image_le card_length finite_set order_trans)
  finally have "card {j. j < n \<and> f j < x} \<le> needed - 1" by simp
  with assms(3) show ?thesis by linarith
qed

lemma enough_candidates:
  assumes "sorted_wrt (\<lambda>a b. \<not> pc_cost b < pc_cost a) costs" "0 < needed" "needed \<le> length costs"
  shows "needed \<le> length (filter (\<lambda>c. pc_cost c \<le> pc_cost (costs ! (needed - 1))) costs)"
proof -
  let ?P = "\<lambda>c. pc_cost c \<le> pc_cost (costs ! (needed - 1))"
  have "?P c" if c: "c \<in> set (take needed costs)" for c
  proof -
    from c obtain k where "k < length (take needed costs)" "take needed costs ! k = c"
      unfolding in_set_conv_nth by (elim exE conjE) (rule that)
    then have k: "k < needed" "costs ! k = c" by simp_all
    then consider "k = needed - 1" | "k < needed - 1" using assms(2) by linarith
    then show ?thesis
    proof cases
      case 2
      have "needed - 1 < length costs" using assms(2,3) by linarith
      then show ?thesis using sorted_wrt_nth_less [OF assms(1) 2] k(2) by (simp add: not_less)
    qed (use k in simp)
  qed
  then have "filter ?P (take needed costs) = take needed costs" by (simp add: filter_True)
  then have "needed = length (filter ?P (take needed costs))" using assms(3) by simp
  also have "\<dots> \<le> length (filter ?P (take needed costs @ drop needed costs))" by (simp only: filter_append length_append le_add1)
  finally show ?thesis by simp
qed

definition all_costs :: "(pod \<Rightarrow> int) \<Rightarrow> pod list \<Rightarrow> podCost list" where
  "all_costs cost pods = map (\<lambda>i. \<lparr>pc_idx = i, pc_cost = cost (pods ! i), pc_node = p_Node (pods ! i)\<rparr>) [0..<length pods]"

lemma sorted_costs_all:
  assumes "\<And>p. p \<in> set pods \<Longrightarrow> getPodTerminationCost K D p = Inr (cost p)" "\<And>cs. mset (k_arrival K cs) = mset cs"
  shows "mset (sorted_costs K D pods) = mset (all_costs cost pods)"
    and "sorted_wrt (\<lambda>a b. \<not> pc_cost b < pc_cost a) (sorted_costs K D pods)"
proof -
  let ?f = "\<lambda>i. \<lparr>pc_idx = i, pc_cost = cost (pods ! i), pc_node = p_Node (pods ! i)\<rparr>"
  have "pod_costs K D pods = map (the \<circ> (\<lambda>i. Some (?f i))) (filter (\<lambda>i. True) [0..<length pods])"
    unfolding pod_costs_def List.map_filter_def using assms(1) by (intro map_cong filter_cong) (simp_all add: Let_def)
  then have "pod_costs K D pods = all_costs cost pods" by (simp add: all_costs_def o_def)
  then show "mset (sorted_costs K D pods) = mset (all_costs cost pods)" by (simp add: sorted_costs_def assms(2))
  show "sorted_wrt (\<lambda>a b. \<not> pc_cost b < pc_cost a) (sorted_costs K D pods)"
    unfolding sorted_costs_def by (rule pod_cost.sort_slice_sorted)
qed

lemma candidate_order_mset:
  assumes "\<And>ns. mset (k_nodes K ns) = mset ns" "\<And>c. c \<in> set cands \<Longrightarrow> pc_node c \<in> p_Node ` set pods"
  shows "mset (candidate_order K pods cands) = mset cands"
proof -
  have nodes: "distinct (node_order K pods cands)" "set (node_order K pods cands) = p_Node ` set pods"
    using mset_eq_imp_distinct_iff [OF assms(1)] mset_eq_setD [OF assms(1)]
    by (simp_all add: node_order_def mset_eq_imp_distinct_iff [OF mset_sort_slice])
  then show ?thesis
    using mset_by_node [OF nodes(1), of pc_node cands] assms(2) unfolding candidate_order_def by (simp add: filter_True)
qed

text \<open>C33: The pods chosen for deletion.  When every pod is running and ready and answers its termination cost,
  and there is no limit on the cost, the choice returns as many different pods as needed, and fewer than needed pods
  are cheaper than any one of them, in whatever order the costs arrive and the map of the nodes is iterated.\<close>

theorem cheapest_pods_are_chosen:
  assumes "\<forall>p \<in> set pods. monitored p" "0 < needed" "needed \<le> length pods"
    and "\<And>p. p \<in> set pods \<Longrightarrow> getPodTerminationCost K D p = Inr (cost p)" "rc_CostLimit D \<le> 0"
    and "\<And>cs. mset (k_arrival K cs) = mset cs" "\<And>ns. mset (k_nodes K ns) = mset ns"
  shows "\<exists>sel. orderedPodsCandidateForDeletion K D pods needed = Ret (map (nth pods) sel) \<and> length sel = needed \<and> distinct sel \<and>
    (\<forall>i \<in> set sel. i < length pods \<and> card {j. j < length pods \<and> cost (pods ! j) < cost (pods ! i)} < needed)"
proof -
  let ?n = "length pods"
  define all where "all = all_costs cost pods"
  define costs where "costs = sorted_costs K D pods"
  define cut where "cut = pc_cost (costs ! (needed - 1))"
  define cands where "cands = filter (\<lambda>c. pc_cost c \<le> cut) costs"
  define order where "order = candidate_order K pods cands"
  have none: "filter (\<lambda>p. \<not> monitored p) pods = []" "filter monitored pods = pods"
    using assms(1) by (auto simp: filter_empty_conv intro: filter_True)
  have costs: "mset costs = mset all" "sorted_wrt (\<lambda>a b. \<not> pc_cost b < pc_cost a) costs"
    unfolding costs_def all_def using sorted_costs_all [of pods K D cost] assms(4,6) by simp_all
  have len: "length costs = ?n" using mset_eq_length [OF costs(1)] by (simp add: all_def all_costs_def)
  have order: "mset order = mset cands"
    unfolding order_def
  proof (rule candidate_order_mset [OF assms(7)])
    show "pc_node c \<in> p_Node ` set pods" if "c \<in> set cands" for c
      using that mset_eq_setD [OF costs(1)] by (auto simp: cands_def all_def all_costs_def)
  qed
  have "distinct (map pc_idx all)" by (simp add: all_def all_costs_def o_def)
  then have "distinct (map pc_idx costs)"
    using mset_eq_imp_distinct_iff [of "map pc_idx costs" "map pc_idx all"] costs(1) by simp
  then have "distinct (map pc_idx cands)" unfolding cands_def by (rule distinct_map_filter)
  then have dist: "distinct (map pc_idx order)"
    using mset_eq_imp_distinct_iff [of "map pc_idx order" "map pc_idx cands"] order by simp
  have enough: "needed \<le> length order"
    using enough_candidates [OF costs(2) assms(2)] assms(3) mset_eq_length [OF order] len by (simp add: cands_def cut_def)
  have cutoff: "cost_cutoff D needed costs = Ret cut"
    using assms(2,3,5) len by (auto simp: cost_cutoff_def cut_def Let_def)
  have run: "orderedPodsCandidateForDeletion K D pods needed = Ret (map (nth pods) (map pc_idx (take needed order)))"
    using assms(2) cutoff by (simp add: orderedPodsCandidateForDeletion_def none costs_def [symmetric] Let_def
      order_def cands_def o_def)
  have each: "pc_idx c < ?n \<and> card {j. j < ?n \<and> cost (pods ! j) < cost (pods ! pc_idx c)} < needed" if "c \<in> set order" for c
  proof -
    have c: "c \<in> set all" "pc_cost c \<le> cut"
      using that mset_eq_setD [OF order] mset_eq_setD [OF costs(1)] by (auto simp: cands_def)
    have "card {j. j < ?n \<and> cost (pods ! j) < pc_cost c} < needed"
      by (rule cheaper_than_cut [OF _ costs(2) assms(2,3), where g = "\<lambda>i. p_Node (pods ! i)"])
        (use costs(1) c(2) in \<open>simp_all only: all_def all_costs_def cut_def\<close>)
    with c(1) show ?thesis by (auto simp: all_def all_costs_def)
  qed
  show ?thesis
  proof (intro exI conjI ballI)
    show "orderedPodsCandidateForDeletion K D pods needed = Ret (map (nth pods) (map pc_idx (take needed order)))" by (rule run)
    show "length (map pc_idx (take needed order)) = needed" using enough by simp
    show "distinct (map pc_idx (take needed order))" using dist by (simp add: take_map [symmetric])
  qed (use each in \<open>auto dest: in_set_takeD\<close>)
qed

definition cost_kube :: kube where
  "cost_kube = sample_kube\<lparr>k_http := (\<lambda>url. Inr (if url = ''http://10.0.0.1/cost'' then 5 else 1))\<rparr>"

lemma cheapest_pods_are_chosen_witness:
  "\<exists>sel. orderedPodsCandidateForDeletion cost_kube sample_controller [running_pod ''a'', (running_pod ''b'')\<lparr>p_IP := ''10.0.0.2''\<rparr>] 1 =
       Ret (map (nth [running_pod ''a'', (running_pod ''b'')\<lparr>p_IP := ''10.0.0.2''\<rparr>]) sel) \<and> length sel = 1"
proof -
  let ?ps = "[running_pod ''a'', (running_pod ''b'')\<lparr>p_IP := ''10.0.0.2''\<rparr>]"
  let ?c = "\<lambda>p. if p_IP p = ''10.0.0.1'' then 5 else (1 :: int)"
  have m: "\<forall>p \<in> set ?ps. monitored p" by (simp add: monitored_def running_pod_def IsPodReadyConditionTrue_def GetPodReadyCondition_def)
  have c: "getPodTerminationCost cost_kube sample_controller p = Inr (?c p)" if "p \<in> set ?ps" for p
    using that by (auto simp: getPodTerminationCost_def cost_kube_def sample_kube_def sample_controller_def running_pod_def
      cost_url_def HasPrefix_def)
  have l: "rc_CostLimit sample_controller \<le> 0" by (simp add: sample_controller_def)
  have o: "mset (k_arrival cost_kube cs) = mset cs" "mset (k_nodes cost_kube ns) = mset ns" for cs ns
    by (simp_all add: cost_kube_def sample_kube_def)
  have n: "(0 :: nat) < 1" "1 \<le> length ?ps" by simp_all
  have ex: "\<exists>sel. orderedPodsCandidateForDeletion cost_kube sample_controller ?ps 1 = Ret (map (nth ?ps) sel) \<and> length sel = 1 \<and>
      distinct sel \<and> (\<forall>i \<in> set sel. i < length ?ps \<and> card {j. j < length ?ps \<and> ?c (?ps ! j) < ?c (?ps ! i)} < 1)"
    by (rule cheapest_pods_are_chosen [where cost = ?c, OF m n _ l]) (simp_all only: c o)
  obtain sel where "orderedPodsCandidateForDeletion cost_kube sample_controller ?ps 1 = Ret (map (nth ?ps) sel)" "length sel = 1"
    using ex by (elim exE conjE) (rule that)
  then show ?thesis by (intro exI conjI)
qed

text \<open>With a pod that is not ready before the others, the index of a monitored pod is applied to all pods: the
  controller deletes the pod that is not ready, and, where the idle pod \<open>c\<close> was chosen, the working pod \<open>b\<close>.\<close>

definition unready_pod :: pod where
  "unready_pod = (running_pod ''a'')\<lparr>p_Conditions := []\<rparr>"

lemma unready_pod_shifts_the_choice:
  "orderedPodsCandidateForDeletion cost_kube sample_controller [unready_pod, running_pod ''b'', (running_pod ''c'')\<lparr>p_IP := ''10.0.0.2''\<rparr>] 2 =
   Ret [unready_pod, running_pod ''b'']"
  by code_simp

end
