(* ===== verification/Storage.thy ===== *)
theory Storage
  imports GeocubeTypes Utils
begin

text \<open>
  The object store: URIs (interface/storage/uri/uri.go), the options of an operation
  (interface/storage/storage.go), the strategy on Google Cloud Storage with its retries
  (interface/storage/gcs) and the strategy on local files (interface/storage/filesystem).  The answers of the
  cloud and of the operating system are parameters: for each attempt the error it meets, if any.
\<close>

section \<open>URIs\<close>

record uri = u_protocol :: string
  u_bucket :: string
  u_path :: string
  u_fileName :: string

definition ErrBadUri :: gerr where
  "ErrBadUri = PlainE ''badly formatted storage uri''"

definition ErrFileNotFound :: gerr where
  "ErrFileNotFound = PlainE ''file not found''"

text \<open>The expression \<open>^(.+)://(.+?)(/((?:.*/)*(.*)))?$\<close>, with its longest protocol: the protocol ends at the last
  separator that leaves something on both sides, the bucket takes one character and runs to the next slash.\<close>

definition split_protocol :: "string \<Rightarrow> (string \<times> string) option" where
  "split_protocol s =
     (case filter (\<lambda>i. take 3 (drop i s) = ''://'' \<and> 0 < i \<and> i + 3 < length s) (rev [0..<length s]) of
        [] \<Rightarrow> None | i # _ \<Rightarrow> Some (take i s, drop (i + 3) s))"

definition after_last :: "char \<Rightarrow> string \<Rightarrow> string" where
  "after_last c s = rev (takeWhile (\<lambda>x. x \<noteq> c) (rev s))"

definition match_uri :: "string \<Rightarrow> (string \<times> string \<times> string \<times> string) option" where
  "match_uri s =
     (if CHR 0x0A \<in> set s then None
      else case split_protocol s of
        None \<Rightarrow> None
      | Some (protocol, rest) \<Rightarrow>
          let bucket = hd rest # takeWhile (\<lambda>x. x \<noteq> CHR ''/'') (tl rest);
              path = drop 1 (dropWhile (\<lambda>x. x \<noteq> CHR ''/'') (tl rest))
          in Some (protocol, bucket, path, after_last CHR ''/'' path))"

definition path_clean :: "string \<Rightarrow> string" where
  "path_clean p =
     (let rooted = HasPrefix p ''/'';
          segs = fold (\<lambda>s out. if s = [] \<or> s = ''.'' then out
                    else if s = ''..'' then (case out of [] \<Rightarrow> if rooted then [] else [''..'']
                                             | o1 # rest \<Rightarrow> if o1 = ''..'' then ''..'' # out else rest)
                    else s # out) (split_on CHR ''/'' p) [];
          body = str_join ''/'' (rev segs)
      in if rooted then ''/'' @ body else if body = [] then ''.'' else body)"

definition path_dir :: "string \<Rightarrow> string" where
  "path_dir p = path_clean (take (length p - length (after_last CHR ''/'' p)) p)"

definition path_join2 :: "string \<Rightarrow> string \<Rightarrow> string" where
  "path_join2 a b = (if a = [] \<and> b = [] then [] else path_clean (str_join ''/'' (filter (\<lambda>s. s \<noteq> []) [a, b])))"

definition path_base :: "string \<Rightarrow> string" where
  "path_base p =
     (let t = rev (dropWhile (\<lambda>c. c = CHR ''/'') (rev p))
      in if p = [] then ''.'' else if t = [] then ''/'' else after_last CHR ''/'' t)"

definition ParseUri :: "string \<Rightarrow> gerr + uri" where
  "ParseUri rawURI =
     (if HasPrefix rawURI ''/'' then Inr \<lparr>u_protocol = [], u_bucket = [], u_path = rawURI, u_fileName = []\<rparr>
      else case match_uri rawURI of
        None \<Rightarrow> Inl ErrBadUri
      | Some (protocol, bucket, path, fileName) \<Rightarrow>
          (let (bucket, path) = (if protocol = ''file'' then (path_join2 bucket (path_dir path), fileName) else (bucket, path))
           in Inr \<lparr>u_protocol = protocol, u_bucket = bucket, u_path = path, u_fileName = fileName\<rparr>))"

definition NewUri :: "string \<Rightarrow> string \<Rightarrow> string \<Rightarrow> uri" where
  "NewUri protocol bucketName path = \<lparr>u_protocol = protocol, u_bucket = bucketName, u_path = path, u_fileName = path_base path\<rparr>"

definition uri_String :: "uri \<Rightarrow> string" where
  "uri_String u =
     (if u_protocol u = [] \<and> u_bucket u = [] then u_path u
      else u_protocol u @ ''://'' @ u_bucket u @ ''/'' @ u_path u)"

datatype strategy = GsStrategy | FileSystemStrategy

definition getStrategy :: "gerr option \<Rightarrow> uri \<Rightarrow> gerr + strategy" where
  "getStrategy gs_error u =
     (let p = ToLower (u_protocol u)
      in if p = ''gs''
         then (case gs_error of Some e \<Rightarrow> Inl (WrapE ''failed to create gs Client : '' e []) | None \<Rightarrow> Inr GsStrategy)
         else if p = ''file'' \<or> p = [] then Inr FileSystemStrategy
         else if p = ''s3'' then Inl (PlainE ''not supported yet'')
         else Inl (PlainE ''failed to determine storage strategy''))"

section \<open>Options\<close>

text \<open>
  Delays are in nanoseconds.  An option is a change of the set of options; three of the functions that build
  one panic on a value out of range, when they are called: \<open>Apply\<close> only runs the changes.
\<close>

record option_set = o_MaxTries :: int
  o_Delay :: int
  o_StorageClass :: string
  o_Offset :: int
  o_Length :: int
  o_Exclude :: "string \<Rightarrow> bool"
  o_Concurrency :: int
  o_IgnoreNotFound :: bool

type_synonym storage_option = "option_set \<Rightarrow> option_set"

definition MaxTries :: "int \<Rightarrow> storage_option" where
  "MaxTries n = (let n = (if n \<le> 0 then 1 else n) in (\<lambda>q. q\<lparr>o_MaxTries := n\<rparr>))"

definition OnErrorRetryDelay :: "int \<Rightarrow> storage_option" where
  "OnErrorRetryDelay d = (let d = (if d < 0 then 0 else d) in (\<lambda>q. q\<lparr>o_Delay := d\<rparr>))"

definition StorageClassOpt :: "string \<Rightarrow> storage_option" where
  "StorageClassOpt cl = (\<lambda>q. q\<lparr>o_StorageClass := cl\<rparr>)"

definition Offset :: "int \<Rightarrow> storage_option go" where
  "Offset off = (if off < 0 then Panic ''offset cannot be negative'' else Ret (\<lambda>q. q\<lparr>o_Offset := off\<rparr>))"

definition Length :: "int \<Rightarrow> storage_option go" where
  "Length l = (if l \<le> 0 then Panic ''length must be >0'' else Ret (\<lambda>q. q\<lparr>o_Length := l\<rparr>))"

definition Exclude :: "(string \<Rightarrow> bool) \<Rightarrow> storage_option" where
  "Exclude ex = (\<lambda>q. q\<lparr>o_Exclude := ex\<rparr>)"

definition Concurrency :: "int \<Rightarrow> storage_option go" where
  "Concurrency c = (if c \<le> 0 then Panic ''concurrency must be >= 1'' else Ret (\<lambda>q. q\<lparr>o_Concurrency := c\<rparr>))"

definition IgnoreNotFound :: storage_option where
  "IgnoreNotFound = (\<lambda>q. q\<lparr>o_IgnoreNotFound := True\<rparr>)"

definition default_options :: option_set where
  "default_options =
     \<lparr>o_MaxTries = 10, o_Delay = 1000000000, o_StorageClass = [], o_Offset = 0, o_Length = - 1, o_Exclude = (\<lambda>_. False),
      o_Concurrency = 5, o_IgnoreNotFound = False\<rparr>"

definition Apply :: "storage_option list \<Rightarrow> option_set" where
  "Apply opts = fold (\<lambda>change. change) opts default_options"

section \<open>Google Cloud Storage\<close>

definition HasSuffixOf :: "string \<Rightarrow> string \<Rightarrow> bool" where
  "HasSuffixOf s p \<longleftrightarrow> length p \<le> length s \<and> drop (length s - length p) s = p"

definition retriableOAuth2Errors :: "string list" where
  "retriableOAuth2Errors =
     [''cannot assign requested address'', ''connection refused'', ''connection reset'', ''timeout'', ''broken pipe'',
      ''client connection force closed'', ''502 Bad Gateway'']"

definition retriableSuffixErrors :: "string list" where
  "retriableSuffixErrors =
     [''http2: client connection lost'', ''http2: client connection force closed via ClientConn.Close'',
      ''connection reset by peer'', ''cannot assign requested address'', ''EOF'']"

text \<open>\<open>absent\<close> is the error of the library for an object that does not exist.\<close>

definition GsError :: "gerr \<Rightarrow> gerr option \<Rightarrow> gerr option" where
  "GsError absent eo =
     (case eo of
        None \<Rightarrow> None
      | Some e \<Rightarrow>
          Some (if absent \<in> set (err_chain e) then ErrFileNotFound
                else if Temporary e then e
                else if sublist ''oauth2: cannot fetch token:'' (ErrorMsg e) \<and> list_ex (\<lambda>x. sublist x (ErrorMsg e)) retriableOAuth2Errors
                then MakeTemporary e
                else if list_ex (HasSuffixOf (ErrorMsg e)) retriableSuffixErrors then MakeTemporary e
                else e))"

definition gs_parse :: "string \<Rightarrow> string \<times> string" where
  "gs_parse gsUri =
     (let s = (if HasPrefix gsUri ''gs://'' then drop 5 gsUri else if HasPrefix gsUri ''/'' then drop 1 gsUri else gsUri)
      in (takeWhile (\<lambda>c. c \<noteq> CHR ''/'') s, drop 1 (dropWhile (\<lambda>c. c \<noteq> CHR ''/'') s)))"

definition decodeURI :: "string \<Rightarrow> gerr + (string \<times> string)" where
  "decodeURI s =
     (let (bucket, object) = gs_parse s
      in if bucket = [] \<or> object = []
         then Inl (WrapE (''failed to parse URI : '' @ s @ '' : '') (PlainE ''missing bucket or object'') [])
         else Inr (bucket, object))"

definition isSheme :: "string \<Rightarrow> bool" where
  "isSheme s = list_all (\<lambda>r. char_between CHR ''a'' CHR ''z'' r \<or> char_between CHR ''0'' CHR ''9'' r \<or>
     char_between CHR ''A'' CHR ''Z'' r \<or> r \<in> {CHR ''.'', CHR ''+'', CHR ''-''}) s"

text \<open>The loop over the leading slashes keeps the last character of an input of slashes only.\<close>

definition bucketObject :: "string \<Rightarrow> gerr + (string \<times> string)" where
  "bucketObject input =
     (let i = (case filter (\<lambda>i. take 3 (drop i input) = ''://'') [0..<length input] of
                 i # _ \<Rightarrow> if isSheme (take i input) then drop (i + 3) input else input
               | [] \<Rightarrow> input);
          t = dropWhile (\<lambda>c. c = CHR ''/'') i;
          s = (if t = [] then drop (length i - 1) i else t);
          bucket = takeWhile (\<lambda>c. c \<noteq> CHR ''/'') s; rest = dropWhile (\<lambda>c. c \<noteq> CHR ''/'') s
      in if length rest \<le> 1 then Inl (PlainE ''not a bucket/object string'') else Inr (bucket, drop 1 rest))"

text \<open>
  Reading: \<open>gs_open t\<close> is the error of the attempt \<open>t\<close> to open a range, \<open>gs_copy t\<close> the number of bytes after
  which the copy of the attempt \<open>t\<close> fails and its error.
\<close>

record gs_reads = gs_absent :: gerr
  gs_open :: "nat \<Rightarrow> gerr option"
  gs_copy :: "nat \<Rightarrow> (nat \<times> gerr) option"

definition range_bytes :: "string \<Rightarrow> int \<Rightarrow> int \<Rightarrow> string" where
  "range_bytes content off len = (if len < 0 then drop (nat off) content else take (nat len) (drop (nat off) content))"

fun download_tries ::
  "gs_reads \<Rightarrow> string \<Rightarrow> int \<Rightarrow> nat \<Rightarrow> nat \<Rightarrow> int \<Rightarrow> int \<Rightarrow> gerr option \<Rightarrow> string \<Rightarrow> gerr option \<times> string" where
  "download_tries R content tries t 0 off remaining err w =
     (Some (WrapE (''failed after '' @ itoa tries @ '' retries: '') (case err of Some e \<Rightarrow> e | None \<Rightarrow> PlainE ''%!w(<nil>)'') []), w)"
| "download_tries R content tries t (Suc left) off remaining err w =
     (case GsError (gs_absent R) (gs_open R t) of
        Some e \<Rightarrow>
          if Retriable e then download_tries R content tries (Suc t) left off remaining (Some e) w
          else (Some (WrapE ''gs.download.newreader: '' e []), w)
      | None \<Rightarrow>
          let bytes = range_bytes content off remaining
          in (case gs_copy R t of
                None \<Rightarrow> (None, w @ bytes)
              | Some (k, e0) \<Rightarrow>
                  let copied = take k bytes; n = int (length copied); e = the (GsError (gs_absent R) (Some e0))
                  in if \<not> Retriable e then (Some (WrapE ''gs.download.copy: '' e []), w @ copied)
                     else download_tries R content tries (Suc t) left (off + n)
                            (if remaining > 0 then remaining - n else remaining) (Some e) (w @ copied)))"

definition downloadObjectTo :: "gs_reads \<Rightarrow> string \<Rightarrow> storage_option list \<Rightarrow> gerr option \<times> string" where
  "downloadObjectTo R content opts =
     (let op = Apply opts
      in download_tries R content (o_MaxTries op) 0 (nat (o_MaxTries op)) (o_Offset op) (o_Length op) None [])"

definition gs_Download :: "gs_reads \<Rightarrow> (string \<Rightarrow> string \<Rightarrow> string) \<Rightarrow> string \<Rightarrow> storage_option list \<Rightarrow> gerr + string" where
  "gs_Download R object s opts =
     (case decodeURI s of
        Inl e \<Rightarrow> Inl (WrapE (''failed to decode URI '' @ s @ '' : '') e [])
      | Inr (bucket, path) \<Rightarrow>
          (case downloadObjectTo R (object bucket path) opts of (Some e, w) \<Rightarrow> Inl e | (None, w) \<Rightarrow> Inr w))"

text \<open>Writing and deleting: the error of each attempt; the waiting time doubles.\<close>

fun upload_tries :: "gerr \<Rightarrow> (nat \<Rightarrow> (bool \<times> gerr) option) \<Rightarrow> int \<Rightarrow> nat \<Rightarrow> nat \<Rightarrow> gerr option \<Rightarrow> gerr option" where
  "upload_tries absent attempt tries t 0 err =
     Some (WrapE (''failed after '' @ itoa tries @ '' retries: '') (case err of Some e \<Rightarrow> e | None \<Rightarrow> PlainE ''%!w(<nil>)'') [])"
| "upload_tries absent attempt tries t (Suc left) err =
     (case attempt t of
        None \<Rightarrow> None
      | Some (copying, e0) \<Rightarrow>
          let e = the (GsError absent (Some e0))
          in if Retriable e then upload_tries absent attempt tries (Suc t) left (Some e)
             else Some (WrapE (if copying then ''gs.upload.copy: '' else ''gs.upload.close: '') e []))"

definition gs_Upload ::
  "gerr \<Rightarrow> (nat \<Rightarrow> (bool \<times> gerr) option) \<Rightarrow> string \<Rightarrow> string \<Rightarrow> storage_option list \<Rightarrow> (string \<times> string \<rightharpoonup> string) \<Rightarrow>
   gerr option \<times> (string \<times> string \<rightharpoonup> string)" where
  "gs_Upload absent attempt s data opts objects =
     (case decodeURI s of
        Inl e \<Rightarrow> (Some (WrapE (''failed to decode URI '' @ s @ '' : '') e []), objects)
      | Inr bo \<Rightarrow>
          (let op = Apply opts
           in case upload_tries absent attempt (o_MaxTries op) 0 (nat (o_MaxTries op)) None of
                Some e \<Rightarrow> (GsError absent (Some e), objects)
              | None \<Rightarrow> (None, objects(bo \<mapsto> data))))"

fun delete_tries :: "gerr \<Rightarrow> (nat \<Rightarrow> gerr option) \<Rightarrow> string \<Rightarrow> bool \<Rightarrow> int \<Rightarrow> nat \<Rightarrow> nat \<Rightarrow> gerr option \<Rightarrow> gerr option" where
  "delete_tries absent attempt what ignore tries t 0 err =
     Some (WrapE (''failed after '' @ itoa tries @ '' retries: '') (case err of Some e \<Rightarrow> e | None \<Rightarrow> PlainE ''%!w(<nil>)'') [])"
| "delete_tries absent attempt what ignore tries t (Suc left) err =
     (case GsError absent (attempt t) of
        None \<Rightarrow> None
      | Some e \<Rightarrow>
          if ignore \<and> ErrFileNotFound \<in> set (err_chain e) then None
          else if Retriable e then delete_tries absent attempt what ignore tries (Suc t) left (Some e)
          else Some (WrapE (''gs.deleteObject['' @ what @ '']: '') e []))"

definition gs_Delete :: "gerr \<Rightarrow> (nat \<Rightarrow> gerr option) \<Rightarrow> string \<Rightarrow> storage_option list \<Rightarrow> gerr option" where
  "gs_Delete absent attempt s opts =
     (case decodeURI s of
        Inl e \<Rightarrow> Some (WrapE (''failed to decode URI '' @ s @ '' : '') e [])
      | Inr (bucket, object) \<Rightarrow>
          (let op = Apply opts
           in delete_tries absent attempt (bucket @ ''/'' @ object) (o_IgnoreNotFound op) (o_MaxTries op) 0 (nat (o_MaxTries op)) None))"

text \<open>\<open>switch err\<close> compares the errors themselves.\<close>

definition gs_Exist :: "gerr \<Rightarrow> gerr \<Rightarrow> (string \<times> string \<Rightarrow> gerr option) \<Rightarrow> string \<Rightarrow> gerr option \<times> bool" where
  "gs_Exist absent nobucket attrs s =
     (case decodeURI s of
        Inl e \<Rightarrow> (Some (WrapE (''failed to decode URI '' @ s @ '' : '') e []), False)
      | Inr bo \<Rightarrow> (case attrs bo of
          None \<Rightarrow> (None, True)
        | Some e \<Rightarrow>
            if e = nobucket then (Some (WrapE ''bucket not exist: '' e []), False)
            else if e = absent then (Some ErrFileNotFound, False)
            else (Some (WrapE ''failed to check if file exist on storage: '' (the (GsError absent (Some e))) []), False)))"

section \<open>Local files\<close>

text \<open>A file system: the files, and the failures other than a missing file, by operation and path.\<close>

record fs = fs_files :: "string \<rightharpoonup> string"
  fs_error :: "string \<Rightarrow> string \<Rightarrow> gerr option"

datatype os_error = NotExist | OtherOS gerr

definition not_exist_error :: "string \<Rightarrow> string \<Rightarrow> gerr" where
  "not_exist_error op p = ForeignE (op @ '' '' @ p @ '': no such file or directory'') None"

definition os_access :: "string \<Rightarrow> string \<Rightarrow> fs \<Rightarrow> os_error + string" where
  "os_access op p F =
     (case fs_error F op p of Some e \<Rightarrow> Inl (OtherOS e)
      | None \<Rightarrow> (case fs_files F p of None \<Rightarrow> Inl NotExist | Some c \<Rightarrow> Inr c))"

definition fs_formatError :: "os_error \<Rightarrow> gerr" where
  "fs_formatError e = (case e of NotExist \<Rightarrow> ErrFileNotFound | OtherOS e \<Rightarrow> e)"

function strip_scheme :: "string \<Rightarrow> string" where
  "strip_scheme s =
     (if HasPrefix s ''file://'' then strip_scheme (drop 7 s) else case s of [] \<Rightarrow> [] | c # r \<Rightarrow> c # strip_scheme r)"
  by pat_completeness auto

termination
proof (relation "measure length", goal_cases)
  case (2 s)
  then have "s \<noteq> []" by (auto simp: HasPrefix_def)
  then show ?case by simp
qed auto

declare strip_scheme.simps [simp del]

definition fs_Download :: "string \<Rightarrow> fs \<Rightarrow> gerr + string" where
  "fs_Download s F =
     (case os_access ''open'' (strip_scheme s) F of
        Inl e \<Rightarrow> Inl (WrapE ''failed to open file: '' (fs_formatError e) [])
      | Inr c \<Rightarrow> (case fs_error F ''read'' (strip_scheme s) of Some e \<Rightarrow> Inl e | None \<Rightarrow> Inr c))"

text \<open>A file is created, its directory if needed, then written: a failed write leaves it empty.\<close>

definition fs_write :: "string \<Rightarrow> string \<Rightarrow> string \<Rightarrow> fs \<Rightarrow> gerr option \<times> fs" where
  "fs_write pre p data F =
     (case fs_error F ''mkdir'' p of Some e \<Rightarrow> (Some e, F)
      | None \<Rightarrow> (case fs_error F ''create'' p of Some e \<Rightarrow> (Some (WrapE pre e []), F)
      | None \<Rightarrow> (case fs_error F ''write'' p of
          Some e \<Rightarrow> (Some e, F\<lparr>fs_files := (fs_files F)(p \<mapsto> [])\<rparr>)
        | None \<Rightarrow> (None, F\<lparr>fs_files := (fs_files F)(p \<mapsto> data)\<rparr>))))"

definition fs_DownloadToFile :: "string \<Rightarrow> string \<Rightarrow> fs \<Rightarrow> gerr option \<times> fs" where
  "fs_DownloadToFile source destination F =
     (case os_access ''open'' (strip_scheme source) F of
        Inl e \<Rightarrow> (Some (WrapE ''failed to open file: '' (fs_formatError e) []), F)
      | Inr c \<Rightarrow> fs_write ''failed to create destination file: '' (strip_scheme destination) c F)"

definition fs_Upload :: "string \<Rightarrow> string \<Rightarrow> fs \<Rightarrow> gerr option \<times> fs" where
  "fs_Upload s data F = fs_write ''failed to create file: '' (strip_scheme s) data F"

definition fs_UploadFile :: "string \<Rightarrow> string \<Rightarrow> fs \<Rightarrow> gerr option \<times> fs" where
  "fs_UploadFile s data F = fs_write ''failed to create file: '' (strip_scheme s) data F"

text \<open>Deletion, existence and attributes take the text as the path, scheme and all.\<close>

definition fs_Delete :: "string \<Rightarrow> storage_option list \<Rightarrow> fs \<Rightarrow> gerr option \<times> fs" where
  "fs_Delete s opts F =
     (let op = Apply opts
      in case os_access ''remove'' s F of
           Inr c \<Rightarrow> (None, F\<lparr>fs_files := (fs_files F)(s := None)\<rparr>)
         | Inl e \<Rightarrow>
             if o_IgnoreNotFound op \<and> e = NotExist then (None, F)
             else (Some (WrapE ''failed to remove file: '' (case e of NotExist \<Rightarrow> not_exist_error ''remove'' s | OtherOS e \<Rightarrow> e) []), F))"

fun bulk_delete :: "string list \<Rightarrow> storage_option list \<Rightarrow> nat \<Rightarrow> gerr list \<Rightarrow> fs \<Rightarrow> (nat \<times> gerr list) \<times> fs" where
  "bulk_delete [] opts n errs F = ((n, errs), F)"
| "bulk_delete (s # ss) opts n errs F =
     (case fs_Delete s opts F of
        (None, F) \<Rightarrow> bulk_delete ss opts n errs F
      | (Some e, F) \<Rightarrow> bulk_delete ss opts (Suc n) (if Suc n < 100 then errs @ [e] else errs) F)"

definition fs_BulkDelete :: "string list \<Rightarrow> storage_option list \<Rightarrow> fs \<Rightarrow> gerr option \<times> fs" where
  "fs_BulkDelete ss opts F =
     (let ((n, errs), F) = bulk_delete ss opts 0 [] F; merged = MergeErrors True None (map Some errs)
      in (if n \<ge> 100
          then MergeErrors True merged [Some (MakeTemporary (PlainE (''[...] total: '' @ itoa (int n) @ '' errors'')))]
          else merged, F))"

definition fs_Exist :: "string \<Rightarrow> fs \<Rightarrow> gerr option \<times> bool" where
  "fs_Exist s F =
     (case os_access ''stat'' s F of
        Inr c \<Rightarrow> (None, True)
      | Inl e \<Rightarrow> (Some (fs_formatError e), False))"

end
