(* ===== verification/StorageProps.thy ===== *)
theory StorageProps
  imports Storage
begin

text \<open>
  The object store: the options of an operation are well formed, a download that is cut resumes where it stopped,
  a URI is printed as it was read, and a local file that was written is read back.
\<close>

section \<open>Options\<close>

definition options_ok :: "option_set \<Rightarrow> bool" where
  "options_ok o1 \<longleftrightarrow> 1 \<le> o_MaxTries o1 \<and> 0 \<le> o_Delay o1 \<and> 0 \<le> o_Offset o1 \<and> (o_Length o1 = - 1 \<or> 1 \<le> o_Length o1) \<and>
     1 \<le> o_Concurrency o1"

text \<open>The calls that build the options of an operation, in the order they are made.\<close>

datatype option_call = CallMaxTries int | CallDelay int | CallStorageClass string | CallOffset int | CallLength int
  | CallExclude "string \<Rightarrow> bool" | CallConcurrency int | CallIgnoreNotFound

fun build_option :: "option_call \<Rightarrow> storage_option go" where
  "build_option (CallMaxTries n) = Ret (MaxTries n)"
| "build_option (CallDelay d) = Ret (OnErrorRetryDelay d)"
| "build_option (CallStorageClass cl) = Ret (StorageClassOpt cl)"
| "build_option (CallOffset off) = Offset off"
| "build_option (CallLength l) = Length l"
| "build_option (CallExclude ex) = Ret (Exclude ex)"
| "build_option (CallConcurrency c) = Concurrency c"
| "build_option CallIgnoreNotFound = Ret IgnoreNotFound"

definition build_options :: "option_call list \<Rightarrow> storage_option list go" where
  "build_options calls = go_fold (\<lambda>c opts. go_bind (build_option c) (\<lambda>x. Ret (opts @ [x]))) calls []"

fun valid_call :: "option_call \<Rightarrow> bool" where
  "valid_call (CallOffset off) \<longleftrightarrow> 0 \<le> off"
| "valid_call (CallLength l) \<longleftrightarrow> 1 \<le> l"
| "valid_call (CallConcurrency c) \<longleftrightarrow> 1 \<le> c"
| "valid_call _ \<longleftrightarrow> True"

text \<open>The last value given for a field, or its default.\<close>

fun last_given :: "'a \<Rightarrow> (option_call \<Rightarrow> 'a option) \<Rightarrow> option_call list \<Rightarrow> 'a" where
  "last_given dflt f [] = dflt"
| "last_given dflt f (c # calls) = last_given (case f c of Some x \<Rightarrow> x | None \<Rightarrow> dflt) f calls"

definition wanted_options :: "option_call list \<Rightarrow> option_set" where
  "wanted_options calls =
     \<lparr>o_MaxTries = last_given 10 (\<lambda>c. case c of CallMaxTries n \<Rightarrow> Some (max 1 n) | _ \<Rightarrow> None) calls,
      o_Delay = last_given 1000000000 (\<lambda>c. case c of CallDelay d \<Rightarrow> Some (max 0 d) | _ \<Rightarrow> None) calls,
      o_StorageClass = last_given [] (\<lambda>c. case c of CallStorageClass cl \<Rightarrow> Some cl | _ \<Rightarrow> None) calls,
      o_Offset = last_given 0 (\<lambda>c. case c of CallOffset off \<Rightarrow> Some off | _ \<Rightarrow> None) calls,
      o_Length = last_given (- 1) (\<lambda>c. case c of CallLength l \<Rightarrow> Some l | _ \<Rightarrow> None) calls,
      o_Exclude = last_given (\<lambda>_. False) (\<lambda>c. case c of CallExclude ex \<Rightarrow> Some ex | _ \<Rightarrow> None) calls,
      o_Concurrency = last_given 5 (\<lambda>c. case c of CallConcurrency k \<Rightarrow> Some k | _ \<Rightarrow> None) calls,
      o_IgnoreNotFound = (CallIgnoreNotFound \<in> set calls)\<rparr>"

lemma last_given_append [simp]:
  "last_given dflt f (calls @ [c]) = (case f c of Some x \<Rightarrow> x | None \<Rightarrow> last_given dflt f calls)"
  by (induction calls arbitrary: dflt) (auto split: option.split)

lemmas option_defs = MaxTries_def OnErrorRetryDelay_def StorageClassOpt_def Offset_def Length_def Exclude_def
  Concurrency_def IgnoreNotFound_def

lemma build_option_valid: "returns (build_option c) \<longleftrightarrow> valid_call c"
  by (cases c) (auto simp: option_defs)

lemma build_option_wanted:
  "build_option c = Ret x \<Longrightarrow> x (wanted_options calls) = wanted_options (calls @ [c])"
  by (cases c) (auto simp: option_defs wanted_options_def Let_def max_def split: if_splits)

lemma build_option_ok: "build_option c = Ret x \<Longrightarrow> options_ok op \<Longrightarrow> options_ok (x op)"
  by (cases c) (auto simp: option_defs options_ok_def Let_def split: if_splits)

lemma go_fold_snoc: "go_fold f (xs @ [x]) s = go_bind (go_fold f xs s) (f x)"
proof (induction xs arbitrary: s)
  case Nil
  show ?case by (cases "f x s") simp_all
next
  case (Cons a xs)
  then show ?case by (cases "f a s") simp_all
qed

lemma build_options_cases:
  "case build_options calls of
     Ret opts \<Rightarrow> list_all valid_call calls \<and> Apply opts = wanted_options calls \<and> options_ok (Apply opts)
   | Panic m \<Rightarrow> \<not> list_all valid_call calls"
proof (induction calls rule: rev_induct)
  case Nil
  show ?case by (simp add: build_options_def Apply_def default_options_def wanted_options_def options_ok_def)
next
  case (snoc c calls)
  have run: "build_options (calls @ [c]) = go_bind (build_options calls) (\<lambda>opts. go_bind (build_option c) (\<lambda>x. Ret (opts @ [x])))"
    by (simp add: build_options_def go_fold_snoc)
  show ?case
  proof (cases "build_options calls")
    case (Ret opts)
    show ?thesis
    proof (cases "build_option c")
      case x: (Ret x)
      then have "valid_call c" using build_option_valid [of c] by simp
      moreover have "Apply (opts @ [x]) = x (Apply opts)" by (simp add: Apply_def)
      moreover have "options_ok (x (Apply opts))" using snoc.IH Ret build_option_ok [OF x] by auto
      moreover have "x (Apply opts) = wanted_options (calls @ [c])"
        using snoc.IH Ret build_option_wanted [OF x, of calls] by simp
      ultimately show ?thesis using snoc.IH Ret x by (simp add: run)
    next
      case (Panic m)
      then show ?thesis using build_option_valid [of c] Ret by (simp add: run)
    qed
  next
    case (Panic m)
    with snoc.IH show ?thesis by (simp add: run)
  qed
qed

text \<open>C35: The options of an operation on the store are well typed.  The calls that build them panic exactly when
  one is given an offset below 0, a length below 1 or a concurrency below 1.  Otherwise the options Apply gives, which
  never panics, hold for each field the last value given, or the default, with numbers of attempts raised to 1 and
  delays to 0: at least one attempt, a delay and an offset of at least 0, a length of -1 (to the end) or at least 1, and
  a concurrency of at least 1, in whatever order the options are given.\<close>

theorem options_are_well_typed:
  "case build_options calls of
     Ret opts \<Rightarrow> list_all valid_call calls \<and> Apply opts = wanted_options calls \<and> options_ok (Apply opts)
   | Panic m \<Rightarrow> \<not> list_all valid_call calls"
  by (rule build_options_cases)

lemma built_options_ok: "build_options calls = Ret opts \<Longrightarrow> options_ok (Apply opts)"
  using build_options_cases [of calls] by auto

section \<open>Downloads\<close>

lemma range_bytes_split:
  assumes "0 \<le> off" "r < 0 \<or> 0 \<le> r" "n = length (take k (range_bytes content off r))"
  shows "range_bytes content off r = take k (range_bytes content off r) @
    range_bytes content (off + int n) (if r > 0 then r - int n else r)"
proof (cases "r < 0")
  case True
  have "drop (nat (off + int n)) content = drop k (drop (nat off) content)"
    using assms(1,3) True by (simp add: range_bytes_def nat_add_distrib min_def add.commute)
  then show ?thesis using True by (simp add: range_bytes_def del: drop_drop)
next
  case False
  define C where "C = take (nat r) (drop (nat off) content)"
  have C: "range_bytes content off r = C" using False by (simp add: range_bytes_def C_def)
  have n: "n = min k (length C)" using assms(3) by (simp add: C min.commute)
  have "drop k C = drop n C" by (cases "k \<le> length C") (simp_all add: n)
  also have "\<dots> = take (nat r - n) (drop (n + nat off) content)" by (simp add: C_def drop_take)
  finally have "take (nat r - n) (drop (n + nat off) content) = drop k C" by simp
  moreover have "n \<le> nat r" using n by (simp add: C_def min.coboundedI2)
  then have "int n \<le> r" using False by linarith
  moreover have "nat (off + int n) = n + nat off" "nat (r - int n) = nat r - n" using assms(1) by auto
  ultimately show ?thesis using False unfolding C by (auto simp: range_bytes_def)
qed

lemma download_tries_exact:
  assumes "0 \<le> off" "download_tries R content tries t left off r err w = (eo, w')"
  shows "\<exists>v. w' = w @ v \<and> prefix v (range_bytes content off r) \<and> (eo = None \<longrightarrow> v = range_bytes content off r)"
  using assms
proof (induction left arbitrary: t off r err w)
  case 0
  then show ?case by auto
next
  case (Suc left)
  show ?case
  proof (cases "GsError (gs_absent R) (gs_open R t)")
    case (Some e)
    then show ?thesis using Suc.prems Suc.IH [OF Suc.prems(1), of "Suc t" r "Some e" w] by (auto split: if_splits)
  next
    case None
    show ?thesis
    proof (cases "gs_copy R t")
      case None
      with \<open>GsError _ _ = None\<close> Suc.prems show ?thesis by auto
    next
      case (Some ke)
      obtain k e0 where ke: "ke = (k, e0)" by (metis surj_pair)
      define bytes where "bytes = range_bytes content off r"
      define n where "n = length (take k bytes)"
      define e where "e = the (GsError (gs_absent R) (Some e0))"
      have split: "bytes = take k bytes @ range_bytes content (off + int n) (if r > 0 then r - int n else r)"
        unfolding bytes_def by (rule range_bytes_split) (use Suc.prems(1) in \<open>auto simp: n_def bytes_def\<close>)
      have run: "download_tries R content tries t (Suc left) off r err w =
        (if \<not> Retriable e then (Some (WrapE ''gs.download.copy: '' e []), w @ take k bytes)
         else download_tries R content tries (Suc t) left (off + int n) (if r > 0 then r - int n else r) (Some e) (w @ take k bytes))"
        using None Some ke by (simp add: bytes_def n_def e_def Let_def)
      show ?thesis
      proof (cases "Retriable e")
        case False
        with run Suc.prems(2) show ?thesis by (auto simp: bytes_def [symmetric] take_is_prefix)
      next
        case True
        have "0 \<le> off + int n" using Suc.prems(1) by simp
        have step: "download_tries R content tries (Suc t) left (off + int n) (if r > 0 then r - int n else r) (Some e) (w @ take k bytes) = (eo, w')"
          using run True Suc.prems(2) by (simp del: download_tries.simps)
        from Suc.IH [OF \<open>0 \<le> off + int n\<close> this] obtain v where
          "w' = (w @ take k bytes) @ v" "prefix v (range_bytes content (off + int n) (if r > 0 then r - int n else r))"
          "eo = None \<longrightarrow> v = range_bytes content (off + int n) (if r > 0 then r - int n else r)"
          by (elim exE conjE) (rule that)
        then have "w' = w @ (take k bytes @ v) \<and> prefix (take k bytes @ v) bytes \<and> (eo = None \<longrightarrow> take k bytes @ v = bytes)"
          by (metis append_assoc same_prefix_prefix split)
        then show ?thesis unfolding bytes_def [symmetric] by (rule exI)
      qed
    qed
  qed
qed

text \<open>C36: A download resumes exactly where it was cut.  Whatever attempts to open the object fail and however
  many bytes each attempt copies before it fails, a download that returns no error has written the bytes of the range
  that its options ask for, each once and in order, and one that fails has written a prefix of them.\<close>

theorem download_resumes_exactly:
  assumes "build_options calls = Ret opts" "downloadObjectTo R content opts = (eo, w)"
  shows "prefix w (range_bytes content (o_Offset (Apply opts)) (o_Length (Apply opts))) \<and>
    (eo = None \<longrightarrow> w = range_bytes content (o_Offset (Apply opts)) (o_Length (Apply opts)))"
  using download_tries_exact [of "o_Offset (Apply opts)" R content "o_MaxTries (Apply opts)" 0 "nat (o_MaxTries (Apply opts))"
      "o_Length (Apply opts)" None "[]" eo w]
    assms(2) built_options_ok [OF assms(1)] by (auto simp: downloadObjectTo_def options_ok_def Let_def)

definition flaky_reads :: gs_reads where
  "flaky_reads = \<lparr>gs_absent = PlainE ''absent'', gs_open = (\<lambda>t. if t = 0 then Some (MakeTemporary (PlainE ''503'')) else None),
     gs_copy = (\<lambda>t. if t = 1 then Some (2, PlainE ''unexpected EOF'') else None)\<rparr>"

definition flaky_options :: "storage_option list" where
  "flaky_options = [\<lambda>q. q\<lparr>o_Offset := 1\<rparr>, \<lambda>q. q\<lparr>o_Length := 4\<rparr>]"

lemma flaky_download:
  "build_options [CallOffset 1, CallLength 4] = Ret flaky_options"
  "o_Offset (Apply flaky_options) = 1" "o_Length (Apply flaky_options) = 4"
  "downloadObjectTo flaky_reads ''abcdefg'' flaky_options = (None, ''bcde'')"
proof -
  show "build_options [CallOffset 1, CallLength 4] = Ret flaky_options"
    by (simp add: build_options_def flaky_options_def option_defs)
  show "o_Offset (Apply flaky_options) = 1" "o_Length (Apply flaky_options) = 4"
    by (simp_all add: Apply_def flaky_options_def)
  show "downloadObjectTo flaky_reads ''abcdefg'' flaky_options = (None, ''bcde'')" by code_simp
qed

theorem download_resumes_exactly_witness:
  "downloadObjectTo flaky_reads ''abcdefg'' flaky_options = (None, ''bcde'') \<and> ''bcde'' = range_bytes ''abcdefg'' 1 4"
  using download_resumes_exactly [OF flaky_download(1,4)] flaky_download(2-4) by simp

section \<open>URIs\<close>

lemma split_protocol_Some:
  assumes "split_protocol s = Some (p, r)"
  shows "s = p @ ''://'' @ r \<and> p \<noteq> [] \<and> r \<noteq> []"
proof -
  let ?is = "filter (\<lambda>i. take 3 (drop i s) = ''://'' \<and> 0 < i \<and> i + 3 < length s) (rev [0..<length s])"
  obtain i l where l: "?is = i # l" and i: "p = take i s" "r = drop (i + 3) s"
    using assms unfolding split_protocol_def by (cases ?is) auto
  have "i \<in> set ?is" unfolding l by simp
  then have "take 3 (drop i s) = ''://''" "0 < i" "i + 3 < length s" by auto
  moreover have "s = take i s @ take 3 (drop i s) @ drop (i + 3) s"
    using append_take_drop_id [of i s] append_take_drop_id [of 3 "drop i s"] by (simp add: add.commute)
  ultimately show ?thesis using i by auto
qed

lemma match_uri_Some:
  assumes "match_uri s = Some (p, b, path, f)"
  shows "p \<noteq> [] \<and> b \<noteq> [] \<and> (s = p @ ''://'' @ b @ ''/'' @ path \<or> s = p @ ''://'' @ b \<and> path = [])"
proof -
  obtain rest where rest: "split_protocol s = Some (p, rest)" "b = hd rest # takeWhile (\<lambda>x. x \<noteq> CHR ''/'') (tl rest)"
    "path = drop 1 (dropWhile (\<lambda>x. x \<noteq> CHR ''/'') (tl rest))"
    using assms by (auto simp: match_uri_def Let_def split: if_splits option.splits prod.splits)
  note sp = split_protocol_Some [OF rest(1)]
  define d where "d = dropWhile (\<lambda>x. x \<noteq> CHR ''/'') (tl rest)"
  have r: "rest = b @ d" using sp rest(2) by (cases rest) (simp_all add: d_def)
  have s: "s = p @ ''://'' @ b @ d" "p \<noteq> []" using sp unfolding r by simp_all
  show ?thesis
  proof (cases d)
    case Nil
    then have "path = []" using rest(3) unfolding d_def by (simp only: drop_Nil)
    with s Nil rest(2) show ?thesis by (simp only: append_Nil2 list.distinct simp_thms)
  next
    case (Cons c d')
    then have "c = CHR ''/''" using hd_dropWhile [of "\<lambda>x. x \<noteq> CHR ''/''" "tl rest"] unfolding d_def by (metis list.discI list.sel(1))
    moreover have "path = d'" using rest(3) Cons unfolding d_def by (simp only: One_nat_def drop_Suc_Cons drop_0)
    ultimately have "s = p @ ''://'' @ b @ ''/'' @ path" using s(1) Cons by (simp only: append_Cons append_Nil)
    with s(2) rest(2) show ?thesis by (simp only: list.distinct simp_thms)
  qed
qed

text \<open>A URI is printed as it was read.  When ParseUri accepts a text whose protocol is not file, String
  gives the text back, with a slash added where it had no path after the bucket, and the protocol and bucket are both
  empty or both not.\<close>

theorem uri_text_roundtrip:
  assumes "ParseUri s = Inr u" "u_protocol u \<noteq> ''file''"
  shows "(uri_String u = s \<or> uri_String u = s @ ''/'' \<and> u_path u = []) \<and> (u_protocol u = [] \<longleftrightarrow> u_bucket u = [])"
proof (cases "HasPrefix s ''/''")
  case True
  with assms show ?thesis by (auto simp: ParseUri_def uri_String_def)
next
  case False
  with assms obtain p b path f where m: "match_uri s = Some (p, b, path, f)"
    and u: "u = \<lparr>u_protocol = p, u_bucket = b, u_path = path, u_fileName = f\<rparr>"
    by (auto simp: ParseUri_def split: option.splits if_splits)
  from match_uri_Some [OF m] show ?thesis unfolding u uri_String_def by auto
qed

lemma uri_text_roundtrip_witness: "\<exists>u. ParseUri ''gs://bucket/dir/file.tif'' = Inr u \<and> u_fileName u = ''file.tif'' \<and> uri_String u = ''gs://bucket/dir/file.tif''"
proof -
  let ?u = "\<lparr>u_protocol = ''gs'', u_bucket = ''bucket'', u_path = ''dir/file.tif'', u_fileName = ''file.tif''\<rparr>"
  have p: "ParseUri ''gs://bucket/dir/file.tif'' = Inr ?u" by code_simp
  have "uri_String ?u = ''gs://bucket/dir/file.tif''" using uri_text_roundtrip [OF p] by simp
  with p show ?thesis by (intro exI [of _ ?u]) simp
qed

section \<open>Local files\<close>

text \<open>A local file that was written is read back.  After a successful upload to a location, with or
  without the scheme file, a download from the same location gives the data, unless a call of the operating system fails;
  the other files are as before.\<close>

theorem uploaded_file_is_read_back:
  assumes "fs_Upload s data F = (None, F')" "fs_error F ''open'' (strip_scheme s) = None" "fs_error F ''read'' (strip_scheme s) = None"
  shows "fs_Download s F' = Inr data \<and> (\<forall>p. p \<noteq> strip_scheme s \<longrightarrow> fs_files F' p = fs_files F p)"
  using assms by (auto simp: fs_Upload_def fs_write_def fs_Download_def os_access_def split: option.splits)

lemma uploaded_file_is_read_back_witness:
  "\<exists>F'. fs_Upload ''file:///a'' ''xy'' \<lparr>fs_files = Map.empty, fs_error = (\<lambda>_ _. None)\<rparr> = (None, F') \<and> fs_Download ''file:///a'' F' = Inr ''xy''"
proof -
  let ?F = "\<lparr>fs_files = Map.empty, fs_error = (\<lambda>_ _. None)\<rparr>"
  have u: "fs_Upload ''file:///a'' ''xy'' ?F = (None, \<lparr>fs_files = [''/a'' \<mapsto> ''xy''], fs_error = (\<lambda>_ _. None)\<rparr>)"
    by (simp add: fs_Upload_def fs_write_def strip_scheme.simps HasPrefix_def)
  have "fs_Download ''file:///a'' \<lparr>fs_files = [''/a'' \<mapsto> ''xy''], fs_error = (\<lambda>_ _. None)\<rparr> = Inr ''xy''"
    using uploaded_file_is_read_back [OF u] by simp
  with u show ?thesis by (intro exI conjI)
qed

text \<open>Deleting with the scheme is answered without an error when missing files are ignored, and deletes nothing.\<close>

lemma delete_with_scheme_does_nothing:
  assumes "fs_files F s = None" "fs_error F ''remove'' s = None"
  shows "fs_Delete s [IgnoreNotFound] F = (None, F)"
  using assms by (simp add: fs_Delete_def Apply_def IgnoreNotFound_def os_access_def)

end
