(* ===== verification/Records.thy ===== *)
theory Records
  imports FloatText SliceSort Events
begin

text \<open>
  Areas of interest, records, palettes and the metadata column: internal/geocube/record.go, palette.go and
  metadata.go.  The parser of UUIDs and the clock of the protobuf library are parameters: \<open>uuid_error\<close> and
  \<open>time_error\<close> give the text of the error, \<open>None\<close> for a valid input.  The WKB encoding and SHA-1 are the
  parameter \<open>digest\<close>.  A geometry is the list of its polygons, a polygon the list of its rings.
\<close>

section \<open>Areas of interest\<close>

type_synonym coords = "(float64 \<times> float64) list list list"

record AOI = aoi_ID :: string
  aoi_Geometry :: "coords option"
  aoi_hash :: string

definition HashGeometry :: "(coords \<Rightarrow> gerr + string) \<Rightarrow> AOI \<Rightarrow> (gerr + string) \<times> AOI" where
  "HashGeometry digest aoi =
     (if aoi_hash aoi = []
      then (case digest (case aoi_Geometry aoi of Some g \<Rightarrow> g | None \<Rightarrow> []) of
              Inl e \<Rightarrow> (Inl (WrapE ''hashGeometry: '' e []), aoi)
            | Inr h \<Rightarrow> (Inr h, aoi\<lparr>aoi_hash := h\<rparr>))
      else (Inr (aoi_hash aoi), aoi))"

definition not_geographic :: "float64 \<times> float64 \<Rightarrow> bool" where
  "not_geographic p \<longleftrightarrow>
     f_lt (fst p) (Fin (- 180)) \<or> f_gt (fst p) (Fin 180) \<or> f_lt (snd p) (Fin (- 90)) \<or> f_gt (snd p) (Fin 90)"

definition AOI_validate :: "bool \<Rightarrow> coords \<Rightarrow> gerr option" where
  "AOI_validate canBeEmpty coords =
     (if coords = [] \<and> \<not> canBeEmpty then Some (NewValidationError ''AOI must not be empty'')
      else if list_ex (list_ex (list_ex not_geographic)) coords
      then Some (NewValidationError ''Coordinates must be geographic (lon in [-180,180], lat in [-90,90])'')
      else None)"

text \<open>The AOI is returned beside the error.  Polygons without a point are dropped.\<close>

definition NewAOIFromProtobuf :: "string \<Rightarrow> coords \<Rightarrow> bool \<Rightarrow> AOI \<times> gerr option" where
  "NewAOIFromProtobuf uid polygons canBeEmpty =
     (let g = filter (\<lambda>p. concat p \<noteq> []) polygons
      in (\<lparr>aoi_ID = uid, aoi_Geometry = Some g, aoi_hash = []\<rparr>, AOI_validate canBeEmpty g))"

definition NewAOIFromMultiPolygon :: "string \<Rightarrow> coords \<Rightarrow> AOI \<times> gerr option" where
  "NewAOIFromMultiPolygon uid g = (\<lparr>aoi_ID = uid, aoi_Geometry = Some g, aoi_hash = []\<rparr>, AOI_validate False g)"

definition AOI_ToProtobuf :: "AOI \<Rightarrow> coords go" where
  "AOI_ToProtobuf aoi =
     (case aoi_Geometry aoi of
        None \<Rightarrow> Panic ''runtime error: invalid memory address or nil pointer dereference''
      | Some g \<Rightarrow> Ret (map (map (map (\<lambda>(x, y). (to_float32 x, to_float32 y)))) g))"

section \<open>Records\<close>

record Timestamp = ts_seconds :: int
  ts_nanos :: int

definition AsTime :: "Timestamp \<Rightarrow> gtime" where
  "AsTime ts = ts_seconds ts * 1000000000 + ts_nanos ts"

text \<open>\<open>time.Time{}\<close>, the first instant of the year 1.\<close>

definition zero_time :: gtime where
  "zero_time = - 62135596800 * 1000000000"

record Record = rec_ps :: persistenceState
  rec_ID :: string
  rec_Name :: string
  rec_Time :: gtime
  rec_Tags :: Metadata
  rec_AOI :: AOI

record pb_Record = pr_Id :: string
  pr_Name :: string
  pr_Time :: "Timestamp option"
  pr_Tags :: Metadata
  pr_AoiId :: string
  pr_Aoi :: "coords option"

text \<open>The tags are tested in the order of an iteration of the map.\<close>

definition Record_validate :: "(string \<Rightarrow> string option) \<Rightarrow> Record \<Rightarrow> gerr option" where
  "Record_validate uuid_error r =
     (if uuid_error (rec_ID r) \<noteq> None then Some (NewValidationError (''Invalid uuid: '' @ rec_ID r))
      else if uuid_error (aoi_ID (rec_AOI r)) \<noteq> None
      then Some (NewValidationError (''Invalid AOI uuid: '' @ aoi_ID (rec_AOI r)))
      else if \<not> isValidURN (rec_Name r) then Some (NewValidationError (''Invalid Name: '' @ rec_Name r))
      else case find (\<lambda>(k, t). ContainsAny k ''*?'' \<or> ContainsAny t ''*?'') (rec_Tags r) of
             Some (k, t) \<Rightarrow> Some (NewValidationError (''Invalid Tag: '' @ k @ '': '' @ t @ ''. Cannot contain neither ? or *.''))
           | None \<Rightarrow> None)"

definition record_from ::
  "(string \<Rightarrow> string option) \<Rightarrow> (Timestamp option \<Rightarrow> string option) \<Rightarrow> persistenceState \<Rightarrow> string \<Rightarrow> pb_Record \<Rightarrow> gerr + Record" where
  "record_from uuid_error time_error p i pr =
     (case time_error (pr_Time pr) of
        Some t \<Rightarrow> Inl (NewValidationError (''Invalid time: '' @ t))
      | None \<Rightarrow>
          let r = \<lparr>rec_ps = p, rec_ID = i, rec_Name = pr_Name pr,
                   rec_Time = (case pr_Time pr of Some ts \<Rightarrow> AsTime ts | None \<Rightarrow> 0), rec_Tags = pr_Tags pr,
                   rec_AOI = \<lparr>aoi_ID = pr_AoiId pr, aoi_Geometry = None, aoi_hash = []\<rparr>\<rparr>
          in case Record_validate uuid_error r of Some e \<Rightarrow> Inl e | None \<Rightarrow> Inr r)"

definition NewRecordFromProtobuf ::
  "(string \<Rightarrow> string option) \<Rightarrow> (Timestamp option \<Rightarrow> string option) \<Rightarrow> string \<Rightarrow> pb_Record \<Rightarrow> gerr + Record" where
  "NewRecordFromProtobuf uuid_error time_error uid pr = record_from uuid_error time_error NEW uid pr"

definition RecordFromProtobuf ::
  "(string \<Rightarrow> string option) \<Rightarrow> (Timestamp option \<Rightarrow> string option) \<Rightarrow> pb_Record \<Rightarrow> gerr + Record" where
  "RecordFromProtobuf uuid_error time_error pr = record_from uuid_error time_error CLEAN (pr_Id pr) pr"

definition timestamp_of :: "gtime \<Rightarrow> Timestamp" where
  "timestamp_of t = \<lparr>ts_seconds = t div 1000000000, ts_nanos = t mod 1000000000\<rparr>"

definition Record_ToProtobuf :: "bool \<Rightarrow> Record \<Rightarrow> pb_Record go" where
  "Record_ToProtobuf withAOI r =
     (let pr = \<lparr>pr_Id = rec_ID r, pr_Name = rec_Name r, pr_Time = Some (timestamp_of (rec_Time r)), pr_Tags = rec_Tags r,
                pr_AoiId = aoi_ID (rec_AOI r), pr_Aoi = None\<rparr>
      in if withAOI then go_bind (AOI_ToProtobuf (rec_AOI r)) (\<lambda>a. Ret (pr\<lparr>pr_Aoi := Some a\<rparr>)) else Ret pr)"

section \<open>Palettes\<close>

record colorPoint = cpt_Val :: float64
  cpt_R :: "8 word"
  cpt_G :: "8 word"
  cpt_B :: "8 word"
  cpt_A :: "8 word"

record Palette = pal_ps :: persistenceState
  pal_Name :: string
  pal_Points :: "colorPoint list"

record pb_colorPoint = pc_Value :: float64
  pc_R :: "32 word"
  pc_G :: "32 word"
  pc_B :: "32 word"
  pc_A :: "32 word"

fun decreasing_pair :: "colorPoint list \<Rightarrow> (float64 \<times> float64) option" where
  "decreasing_pair (p # q # ps) = (if f_le (cpt_Val q) (cpt_Val p) then Some (cpt_Val p, cpt_Val q) else decreasing_pair (q # ps))"
| "decreasing_pair _ = None"

definition Palette_Validate :: "(colorPoint list \<Rightarrow> string) \<Rightarrow> Palette \<Rightarrow> gerr option" where
  "Palette_Validate points_text p =
     (let ps = pal_Points p
      in if \<not> isValidURN (pal_Name p) then Some (NewValidationError (''Invalid Palette Name: '' @ pal_Name p))
         else if length ps < 2 then Some (NewValidationError (''Invalid Palette Points: Not enough points ('' @ points_text ps @ '')''))
         else if \<not> f_eq (cpt_Val (hd ps)) (Fin 0) \<or> \<not> f_eq (cpt_Val (last ps)) (Fin 1)
         then Some (NewValidationError (''Invalid Palette Points: first and last values must be 0 and 1 (found '' @
                fmt_f (cpt_Val (hd ps)) @ '' and '' @ fmt_f (cpt_Val (last ps)) @ '')''))
         else case decreasing_pair ps of
                Some (a, b) \<Rightarrow> Some (NewValidationError (''Invalid Palette Points: values must be strictly increasing (found '' @
                  fmt_f a @ '' then '' @ fmt_f b @ '')''))
              | None \<Rightarrow> None)"

definition color_point :: "pb_colorPoint \<Rightarrow> colorPoint" where
  "color_point c = \<lparr>cpt_Val = pc_Value c, cpt_R = ucast (pc_R c), cpt_G = ucast (pc_G c), cpt_B = ucast (pc_B c), cpt_A = ucast (pc_A c)\<rparr>"

definition NewPaletteFromPb :: "(colorPoint list \<Rightarrow> string) \<Rightarrow> string \<Rightarrow> pb_colorPoint list \<Rightarrow> Palette \<times> gerr option" where
  "NewPaletteFromPb points_text name colors =
     (let p = \<lparr>pal_ps = UNKNOWN, pal_Name = name,
               pal_Points = sort_slice (\<lambda>a b. f_lt (cpt_Val a) (cpt_Val b)) (map color_point colors)\<rparr>
      in (p, Palette_Validate points_text p))"

text \<open>\<open>seek\<close> moves the index of the interval forward; \<open>blend\<close> converts a float to a byte, towards zero.\<close>

function seek :: "colorPoint list \<Rightarrow> float64 \<Rightarrow> nat \<Rightarrow> nat go" where
  "seek ps val j =
     (if length ps \<le> j + 1 then Panic ''runtime error: index out of range''
      else if f_lt (cpt_Val (ps ! (j + 1))) val then seek ps val (j + 1) else Ret j)"
  by pat_completeness auto

termination by (relation "measure (\<lambda>(ps, val, j). length ps - j)") auto

declare seek.simps [simp del]

definition byte_of :: "float64 \<Rightarrow> 8 word" where
  "byte_of x = word_of_int (float_int x)"

definition blend :: "float64 \<Rightarrow> 8 word \<Rightarrow> 8 word \<Rightarrow> 8 word" where
  "blend f a b =
     byte_of (f32_add (f32_mul (round32 (of_int (uint a))) (f32_sub (Fin 1) f)) (f32_mul (round32 (of_int (uint b))) f))"

record rgba = px_R :: "8 word"
  px_G :: "8 word"
  px_B :: "8 word"
  px_A :: "8 word"

definition palette_color :: "colorPoint list \<Rightarrow> float64 \<Rightarrow> nat \<Rightarrow> rgba" where
  "palette_color ps val j =
     (let p = ps ! j; q = ps ! (j + 1); f = f32_div (f32_sub val (cpt_Val p)) (f32_sub (cpt_Val q) (cpt_Val p))
      in \<lparr>px_R = blend f (cpt_R p) (cpt_R q), px_G = blend f (cpt_G p) (cpt_G q),
          px_B = blend f (cpt_B p) (cpt_B q), px_A = blend f (cpt_A p) (cpt_A q)\<rparr>)"

definition palette_value :: "int \<Rightarrow> nat \<Rightarrow> float64" where
  "palette_value n i = f32_div (round32 (of_nat i)) (round32 (of_int (n - 1)))"

definition PaletteN :: "Palette \<Rightarrow> int \<Rightarrow> rgba list go" where
  "PaletteN p n =
     (if n < 0 then Panic ''runtime error: makeslice: len out of range''
      else go_bind (go_fold (\<lambda>i (j, colors).
             go_bind (seek (pal_Points p) (palette_value n i) j) (\<lambda>j.
               Ret (j, colors @ [palette_color (pal_Points p) (palette_value n i) j]))) [0..<nat n] (0, [])) (\<lambda>(j, colors). Ret colors))"

text \<open>The column of a colour: the value with six decimals, and the colour in one integer.\<close>

definition pack_rgba :: "8 word \<Rightarrow> 8 word \<Rightarrow> 8 word \<Rightarrow> 8 word \<Rightarrow> 32 word" where
  "pack_rgba r g b a = push_bit 16 (ucast r) + push_bit 8 (ucast g) + ucast b + push_bit 24 (ucast a)"

definition unpack_rgba :: "int \<Rightarrow> 8 word \<times> 8 word \<times> 8 word \<times> 8 word" where
  "unpack_rgba v = (word_of_int (drop_bit 16 v), word_of_int (drop_bit 8 v), word_of_int v, word_of_int (drop_bit 24 v))"

definition colorPoint_Value :: "colorPoint \<Rightarrow> string" where
  "colorPoint_Value c =
     ''('' @ fmt_f (cpt_Val c) @ '','' @ itoa (uint (pack_rgba (cpt_R c) (cpt_G c) (cpt_B c) (cpt_A c))) @ '')''"

text \<open>\<open>Sscanf\<close> reads the value with the precision of a \<open>float32\<close>.\<close>

definition scan_cpt :: "string \<Rightarrow> (float64 \<times> int) option" where
  "scan_cpt s =
     Option.bind (scan_char CHR ''('' s) (\<lambda>s. Option.bind (scan_float s) (\<lambda>(v, s).
     Option.bind (scan_char CHR '','' s) (\<lambda>s. Option.bind (scan_int s) (\<lambda>(i, s).
     Option.bind (scan_char CHR '')'' s) (\<lambda>_. Some (to_float32 v, i))))))"

definition colorPoint_Scan :: "(sqlval \<Rightarrow> string) \<Rightarrow> sqlval \<Rightarrow> gerr + colorPoint" where
  "colorPoint_Scan type_name src =
     (case (case src of SqlBytes s \<Rightarrow> Some s | SqlString s \<Rightarrow> Some s | _ \<Rightarrow> None) of
        None \<Rightarrow> Inl (PlainE (''pq: cannot convert '' @ type_name src @ '' to colorPoint''))
      | Some s \<Rightarrow> (case scan_cpt s of
          None \<Rightarrow> Inl (PlainE ''input does not match format'')
        | Some (v, i) \<Rightarrow> (case unpack_rgba i of (r, g, b, a) \<Rightarrow>
            Inr \<lparr>cpt_Val = v, cpt_R = r, cpt_G = g, cpt_B = b, cpt_A = a\<rparr>)))"

section \<open>Metadata\<close>

text \<open>The column of a map: the hstore library is a parameter, as the parser of its text.\<close>

datatype hstore_src = HMap "(string \<times> string) list" | HBytes string | HNull | HOther string

definition Metadata_Scan :: "(string \<Rightarrow> gerr + (string \<times> string) list) \<Rightarrow> hstore_src \<Rightarrow> gerr + Metadata" where
  "Metadata_Scan parse_hstore src =
     (case src of
        HMap m \<Rightarrow> Inr m
      | HBytes s \<Rightarrow> parse_hstore s
      | HNull \<Rightarrow> Inr []
      | HOther t \<Rightarrow> Inl (PlainE (''cannot convert '' @ t @ '' to Metadata'')))"

definition Metadata_Value :: "((string \<times> string) list \<Rightarrow> gerr + string) \<Rightarrow> Metadata option \<Rightarrow> gerr + string" where
  "Metadata_Value print_hstore m = (case m of None \<Rightarrow> Inr [] | Some kv \<Rightarrow> print_hstore kv)"

end
