(* ===== verification/Grids.thy ===== *)
theory Grids
  imports Records "HOL-Library.AList"
begin

text \<open>
  The grids that cut an area into cells: internal/utils/grid (regular and single-cell grids),
  internal/geocube/customgrid.go (a grid of the database whose cells are cut again) and
  internal/geocube/grid.go (the grid itself).  GDAL is the parameter \<open>grid_lib\<close>: reference systems,
  projections, the bounds of a geometry and the burning of a geometry into an image.  A stream of URIs is the
  list of what it yields, an error taking the place of a URI.
\<close>

record ('crs, 'pr) grid_lib = gl_gdal :: "'crs gdal"
  gl_lonlat :: "'crs \<Rightarrow> bool \<Rightarrow> gerr + 'pr"
  gl_transform :: "'pr \<Rightarrow> float64 list \<Rightarrow> float64 list \<Rightarrow> gerr option \<times> float64 list \<times> float64 list"
  gl_geometry :: "'crs \<Rightarrow> float64 list \<Rightarrow> nat list list \<Rightarrow> gerr option"
  gl_bounds :: "float64 list \<Rightarrow> (float64 \<times> float64 \<times> float64 \<times> float64) option"
  gl_raster :: "'crs \<Rightarrow> float64 list \<Rightarrow> int \<Rightarrow> int \<Rightarrow> float64 list \<Rightarrow> nat list list \<Rightarrow> gerr + bool list"
  gl_polygon :: "float64 \<Rightarrow> float64 \<Rightarrow> float64 \<Rightarrow> float64 \<Rightarrow> float64 list"

record 'crs gcell = gc_URI :: string
  gc_CRS :: 'crs
  gc_PixelToCRS :: Affine
  gc_SizeX :: int
  gc_SizeY :: int
  gc_Ring :: "int \<times> float64 list"
  gc_GeographicRing :: "float64 list"

definition ReservedNames :: "string list" where
  "ReservedNames = [''regular'', ''singlecell'']"

text \<open>The error of the projection of the ring is dropped.\<close>

definition newCell ::
  "('crs, 'pr) grid_lib \<Rightarrow> string \<Rightarrow> 'crs \<Rightarrow> int \<Rightarrow> Affine \<Rightarrow> int \<Rightarrow> int \<Rightarrow> 'pr \<Rightarrow> 'crs gcell go" where
  "newCell L uri crs srid pixToCRS sizeX sizeY p =
     go_bind (NewPolygonFromExtent (gl_polygon L) pixToCRS sizeX sizeY) (\<lambda>flat.
       let (x, y) = FlatCoordToXY flat; (eo, x, y) = gl_transform L p x y
       in go_bind (XYToFlatCoord x y) (\<lambda>geog.
            Ret \<lparr>gc_URI = uri, gc_CRS = crs, gc_PixelToCRS = pixToCRS, gc_SizeX = sizeX, gc_SizeY = sizeY,
                 gc_Ring = (srid, flat), gc_GeographicRing = geog\<rparr>))"

section \<open>Regular grids\<close>

record 'crs regular_grid = rg_crs :: 'crs
  rg_srid :: int
  rg_pixToCRS :: Affine
  rg_cellSizeX :: int
  rg_cellSizeY :: int
  rg_memoryLimit :: int

definition regular_error :: "string \<Rightarrow> gerr" where
  "regular_error desc = PlainE (''invalid RegularGrid:'' @ desc)"

definition minCellSize :: int where "minCellSize = 1"
definition maxCellSize :: int where "maxCellSize = 65536"

definition Atoi_or_zero :: "string \<Rightarrow> int" where
  "Atoi_or_zero s = (case Atoi s of Some i \<Rightarrow> i | None \<Rightarrow> 0)"

definition cell_sizes :: "Metadata \<Rightarrow> int \<times> int" where
  "cell_sizes parameters =
     (case map_of parameters ''cell_size'' of
        Some s \<Rightarrow> (Atoi_or_zero s, Atoi_or_zero s)
      | None \<Rightarrow> (case (map_of parameters ''cell_x_size'', map_of parameters ''cell_y_size'') of
          (Some x, Some y) \<Rightarrow> (Atoi_or_zero x, Atoi_or_zero y)
        | _ \<Rightarrow> (0, 0)))"

definition cell_size_ok :: "int \<Rightarrow> bool" where
  "cell_size_ok n \<longleftrightarrow> minCellSize \<le> n \<and> n \<le> maxCellSize"

definition origin_of :: "string \<Rightarrow> string \<Rightarrow> Metadata \<Rightarrow> gerr + float64" where
  "origin_of key label parameters =
     (case map_of parameters key of
        None \<Rightarrow> Inr (Fin 0)
      | Some s \<Rightarrow> (case ParseFloat s of (v, True) \<Rightarrow> Inr v
                   | (v, False) \<Rightarrow> Inl (regular_error (label @ '' invalid parameter: '' @ s))))"

text \<open>The parse error of the resolution is dropped; the transform panics on a number that is not finite.\<close>

definition regular_transform :: "Metadata \<Rightarrow> (gerr + Affine) go" where
  "regular_transform parameters =
     (let resolution = fst (ParseFloat (case map_of parameters ''resolution'' of Some s \<Rightarrow> s | None \<Rightarrow> []))
      in if f_le resolution (Fin 0) then Ret (Inl (regular_error (''Resolution parameters: must contain a valid 'resolution'' @ [CHR 0x27])))
         else case origin_of ''ox'' ''Ox'' parameters of Inl e \<Rightarrow> Ret (Inl e)
         | Inr ox \<Rightarrow> (case origin_of ''oy'' ''Oy'' parameters of Inl e \<Rightarrow> Ret (Inl e)
         | Inr oy \<Rightarrow> go_bind (Multiply (Translation ox oy) (Scale resolution (f_neg resolution))) (\<lambda>a. Ret (Inr a))))"

definition newRegularGrid :: "('crs, 'pr) grid_lib \<Rightarrow> Metadata \<Rightarrow> (gerr + 'crs regular_grid) go" where
  "newRegularGrid L parameters =
     (let crs_text = (case map_of parameters ''crs'' of Some s \<Rightarrow> s | None \<Rightarrow> [])
      in go_bind (CRSFromUserInput (gl_gdal L) crs_text) (\<lambda>r. case r of
           Inl e \<Rightarrow> Ret (Inl (WrapE (''invalid RegularGrid:CRS parameters [\"crs\"='' @ crs_text @ '']: '') e []))
         | Inr (crs, srid) \<Rightarrow>
             if srid = 0 then Ret (Inl (regular_error ''CRS parameters: unable to retrieve SRID from input''))
             else
               let (x, y) = cell_sizes parameters
               in if \<not> (cell_size_ok x \<and> cell_size_ok y)
                  then Ret (Inl (regular_error (''CellSize parameters: must contain a valid 'cell_size', 'cell_x_size' or 'cell_y_size' in ['' @
                         itoa minCellSize @ '', '' @ itoa maxCellSize @ '']'')))
                  else go_bind (regular_transform parameters) (\<lambda>t. case t of
                      Inl e \<Rightarrow> Ret (Inl e)
                    | Inr a \<Rightarrow>
                        (let grid = (\<lambda>limit. \<lparr>rg_crs = crs, rg_srid = srid, rg_pixToCRS = a, rg_cellSizeX = x, rg_cellSizeY = y,
                                              rg_memoryLimit = limit\<rparr>)
                         in case map_of parameters ''memory_limit'' of
                              None \<Rightarrow> Ret (Inr (grid (2 ^ 63 - 1)))
                            | Some m \<Rightarrow> (case Atoi m of
                                Some limit \<Rightarrow> Ret (Inr (grid limit))
                              | None \<Rightarrow> Ret (Inl (regular_error (''Memory limit['' @ m @ '']: strconv.Atoi: parsing''))))))))"

definition regular_uri :: "int \<Rightarrow> int \<Rightarrow> string" where
  "regular_uri i j = itoa i @ ''/'' @ itoa j"

definition scan_regular :: "string \<Rightarrow> (int \<times> int) option" where
  "scan_regular s =
     Option.bind (scan_int s) (\<lambda>(i, s). Option.bind (scan_char CHR ''/'' s) (\<lambda>s.
     Option.bind (scan_int s) (\<lambda>(j, s). Some (i, j))))"

definition regular_Cell :: "('crs, 'pr) grid_lib \<Rightarrow> 'crs regular_grid \<Rightarrow> string \<Rightarrow> (gerr + 'crs gcell) go" where
  "regular_Cell L rg uri =
     (case scan_regular uri of
        None \<Rightarrow> Ret (Inl (regular_error ''Cell format must be 'i/j' as integers''))
      | Some (i, j) \<Rightarrow>
          go_bind (Multiply (rg_pixToCRS rg) (Translation (int_float (wrap64 (i * rg_cellSizeX rg))) (int_float (wrap64 (j * rg_cellSizeY rg))))) (\<lambda>a.
          case gl_lonlat L (rg_crs rg) True of
            Inl e \<Rightarrow> Ret (Inl (WrapE ''invalid RegularGrid:unable to initialize projection: '' e []))
          | Inr p \<Rightarrow> go_bind (newCell L uri (rg_crs rg) (rg_srid rg) a (rg_cellSizeX rg) (rg_cellSizeY rg) p) (\<lambda>c. Ret (Inr c))))"

text \<open>
  The cells that an area covers are the pixels that the area burns in an image with one pixel per cell, with
  a margin of one or two cells.
\<close>

record cover_window = cw_i0 :: float64
  cw_j0 :: float64
  cw_geotransform :: "float64 list"
  cw_width :: int
  cw_height :: int

definition cover_window :: "'crs regular_grid \<Rightarrow> float64 \<times> float64 \<times> float64 \<times> float64 \<Rightarrow> cover_window go" where
  "cover_window rg b =
     (case b of (minx, miny, maxx, maxy) \<Rightarrow>
       go_bind (Multiply (rg_pixToCRS rg) (Scale (int_float (rg_cellSizeX rg)) (int_float (rg_cellSizeY rg)))) (\<lambda>cellToCRS.
       go_bind (Inverse cellToCRS) (\<lambda>crsToCell.
       go_bind (Transform crsToCell minx maxy) (\<lambda>(i0, j0).
       go_bind (Transform crsToCell maxx miny) (\<lambda>(i1, j1).
         let i0 = f_floor (f_sub i0 (Fin 1)); j0 = f_floor (f_sub j0 (Fin 1));
             i1 = f_ceil (f_add i1 (Fin 1)); j1 = f_ceil (f_add j1 (Fin 1))
         in go_bind (Transform cellToCRS i0 j0) (\<lambda>(ulX, ulY).
            go_bind (Transform cellToCRS i1 j1) (\<lambda>(lrX, lrY).
              Ret \<lparr>cw_i0 = i0, cw_j0 = j0,
                   cw_geotransform = [ulX, Rx cellToCRS, Fin 0, ulY, Fin 0, Ry cellToCRS],
                   cw_width = float_int (f_div (f_abs (f_sub ulX lrX)) (f_abs (Rx cellToCRS))),
                   cw_height = float_int (f_div (f_abs (f_sub ulY lrY)) (f_abs (Ry cellToCRS)))\<rparr>)))))))"

text \<open>\<open>cancelled\<close> tells whether the context is done after a row.\<close>

fun cover_rows :: "(nat \<Rightarrow> gerr option) \<Rightarrow> int \<Rightarrow> int \<Rightarrow> nat \<Rightarrow> bool list \<Rightarrow> nat \<Rightarrow> nat \<Rightarrow> (gerr + string) list" where
  "cover_rows cancelled i0 j0 width img j 0 = []"
| "cover_rows cancelled i0 j0 width img j (Suc rows) =
     map (\<lambda>i. Inr (regular_uri (int i + i0) (int j + j0))) (filter (\<lambda>i. img ! (j * width + i)) [0..<width]) @
     (case cancelled j of
        Some e \<Rightarrow> [Inl (WrapE ''RegularGrid.Covers: '' e [])]
      | None \<Rightarrow> cover_rows cancelled i0 j0 width img (Suc j) rows)"

definition regular_Covers ::
  "('crs, 'pr) grid_lib \<Rightarrow> (nat \<Rightarrow> gerr option) \<Rightarrow> 'crs regular_grid \<Rightarrow> float64 list \<Rightarrow> nat list list \<Rightarrow>
   (gerr + (gerr + string) list) go" where
  "regular_Covers L cancelled rg flat endss =
     (if flat = [] then Ret (Inl (PlainE ''Covers: empty AOI''))
      else case gl_lonlat L (rg_crs rg) False of
        Inl e \<Rightarrow> Ret (Inl (WrapE ''Covers: Unable to initialize projection: '' e []))
      | Inr p \<Rightarrow>
          let (x, y) = FlatCoordToXY flat; (eo, x, y) = gl_transform L p x y
          in (case eo of Some e \<Rightarrow> Ret (Inl e)
              | None \<Rightarrow> go_bind (XYToFlatCoord x y) (\<lambda>aoi.
                  case gl_geometry L (rg_crs rg) aoi endss of
                    Some e \<Rightarrow> Ret (Inl (WrapE ''Covers: Unable to create a geometry '' e []))
                  | None \<Rightarrow> (case gl_bounds L aoi of
                      None \<Rightarrow> Ret (Inl (PlainE ''Covers: Error in input geometry: the bounds are empty''))
                    | Some b \<Rightarrow> go_bind (cover_window rg b) (\<lambda>w.
                        let need = wrap64 (wrap64 (cw_width w * cw_height w) * 2)
                        in if need > rg_memoryLimit rg
                           then Ret (Inl (PlainE (''Covers: Not enough memory (needed:'' @ itoa need @ '', provided:'' @ itoa (rg_memoryLimit rg) @ '')'')))
                           else (case gl_raster L (rg_crs rg) (cw_geotransform w) (cw_width w) (cw_height w) aoi endss of
                               Inl e \<Rightarrow> Ret (Inl e)
                             | Inr img \<Rightarrow> Ret (Inr (cover_rows cancelled (float_int (cw_i0 w)) (float_int (cw_j0 w))
                                 (nat (cw_width w)) img 0 (nat (cw_height w)))))))))) "

section \<open>The grid of one cell\<close>

record 'crs single_grid = sg_crs :: 'crs
  sg_srid :: int
  sg_resolution :: float64

definition newSingleCellGrid :: "('crs, 'pr) grid_lib \<Rightarrow> Metadata \<Rightarrow> (gerr + 'crs single_grid) go" where
  "newSingleCellGrid L parameters =
     (let crs_text = (case map_of parameters ''crs'' of Some s \<Rightarrow> s | None \<Rightarrow> [])
      in go_bind (CRSFromUserInput (gl_gdal L) crs_text) (\<lambda>r. case r of
           Inl e \<Rightarrow> Ret (Inl (WrapE (''invalid SingleCellGrid:CRS parameters ['' @ crs_text @ '']: '') e []))
         | Inr (crs, srid) \<Rightarrow>
             if srid = 0 then Ret (Inl (PlainE ''invalid SingleCellGrid:CRS parameters: unable to retrieve SRID from input''))
             else case map_of parameters ''resolution'' of
               None \<Rightarrow> Ret (Inl (PlainE ''invalid SingleCellGrid:fail to found resolution''))
             | Some s \<Rightarrow> (case ParseFloat s of
                 (v, False) \<Rightarrow> Ret (Inl (PlainE (''invalid SingleCellGrid:fail to parse resolution '' @ CHR 0x27 # s @ [CHR 0x27])))
               | (v, True) \<Rightarrow> Ret (Inr \<lparr>sg_crs = crs, sg_srid = srid, sg_resolution = v\<rparr>))))"

definition single_uri :: "float64 \<Rightarrow> float64 \<Rightarrow> int \<Rightarrow> int \<Rightarrow> string" where
  "single_uri ox oy w h = F64ToS ox @ ''/'' @ F64ToS oy @ ''/'' @ itoa w @ ''/'' @ itoa h"

definition single_Covers :: "('crs, 'pr) grid_lib \<Rightarrow> 'crs single_grid \<Rightarrow> float64 list \<Rightarrow> (gerr + (gerr + string) list) go" where
  "single_Covers L sg flat =
     (if flat = [] then Ret (Inl (PlainE ''SingleCellGrid.Covers: empty AOI''))
      else case gl_lonlat L (sg_crs sg) False of
        Inl e \<Rightarrow> Ret (Inl (WrapE ''SingleCellGrid.Covers.'' e []))
      | Inr p \<Rightarrow>
          let (x, y) = FlatCoordToXY flat; (eo, x, y) = gl_transform L p x y
          in (case eo of Some e \<Rightarrow> Ret (Inl (WrapE ''SingleCellGrid.Covers: failed to transform coord: '' e []))
              | None \<Rightarrow> go_bind (XYToFlatCoord x y) (\<lambda>aoi. case gl_bounds L aoi of
                  None \<Rightarrow> Ret (Inl (PlainE ''SingleCellGrid.Covers: error in input geometry: the bounds in the CRS of the grid are empty''))
                | Some (minx, miny, maxx, maxy) \<Rightarrow>
                    let width = f_round (f_div (f_abs (f_sub minx maxx)) (f_abs (sg_resolution sg)));
                        height = f_round (f_div (f_abs (f_sub miny maxy)) (f_abs (sg_resolution sg)))
                    in Ret (Inr [Inr (single_uri minx maxy (float_int width) (float_int height))]))))"

definition scan_single :: "string \<Rightarrow> (float64 \<times> float64 \<times> int \<times> int) option" where
  "scan_single s =
     Option.bind (scan_float s) (\<lambda>(ox, s). Option.bind (scan_char CHR ''/'' s) (\<lambda>s.
     Option.bind (scan_float s) (\<lambda>(oy, s). Option.bind (scan_char CHR ''/'' s) (\<lambda>s.
     Option.bind (scan_int s) (\<lambda>(w, s). Option.bind (scan_char CHR ''/'' s) (\<lambda>s.
     Option.bind (scan_int s) (\<lambda>(h, s). Some (ox, oy, w, h))))))))"

definition single_Cell :: "('crs, 'pr) grid_lib \<Rightarrow> 'crs single_grid \<Rightarrow> string \<Rightarrow> (gerr + 'crs gcell) go" where
  "single_Cell L sg uri =
     (case scan_single uri of
        None \<Rightarrow> Ret (Inl (PlainE (''OneCellGrid.Cell format must be originX/originY/sizeX/sizeY: '' @ uri)))
      | Some (ox, oy, w, h) \<Rightarrow>
          go_bind (Multiply (Translation ox oy) (Scale (sg_resolution sg) (f_neg (sg_resolution sg)))) (\<lambda>a.
          case gl_lonlat L (sg_crs sg) True of
            Inl e \<Rightarrow> Ret (Inl (WrapE ''SingleCellGrid.Covers.'' e []))
          | Inr p \<Rightarrow> go_bind (newCell L uri (sg_crs sg) (sg_srid sg) a w h p) (\<lambda>c. Ret (Inr c))))"

section \<open>The choice of the grid\<close>

datatype 'crs any_grid = Regular "'crs regular_grid" | Single "'crs single_grid"

datatype grid_failure = Unsupported string | GridError gerr

definition NewGrid :: "('crs, 'pr) grid_lib \<Rightarrow> Metadata \<Rightarrow> (grid_failure + 'crs any_grid) go" where
  "NewGrid L parameters =
     (case map_of parameters ''grid'' of
        None \<Rightarrow> Ret (Inl (GridError (PlainE ''missing 'grid' in parameters'')))
      | Some g \<Rightarrow>
          if ToLower g = ''regular''
          then go_bind (newRegularGrid L parameters) (\<lambda>r. Ret (case r of Inl e \<Rightarrow> Inl (GridError e) | Inr x \<Rightarrow> Inr (Regular x)))
          else if ToLower g = ''singlecell''
          then go_bind (newSingleCellGrid L parameters) (\<lambda>r. Ret (case r of Inl e \<Rightarrow> Inl (GridError e) | Inr x \<Rightarrow> Inr (Single x)))
          else Ret (Inl (Unsupported g)))"

definition failure_error :: "grid_failure \<Rightarrow> gerr" where
  "failure_error f = (case f of Unsupported g \<Rightarrow> PlainE (''unsupported grid type: '' @ g) | GridError e \<Rightarrow> e)"

definition any_Covers ::
  "('crs, 'pr) grid_lib \<Rightarrow> (nat \<Rightarrow> gerr option) \<Rightarrow> 'crs any_grid \<Rightarrow> float64 list \<Rightarrow> nat list list \<Rightarrow> (gerr + (gerr + string) list) go" where
  "any_Covers L cancelled g flat endss =
     (case g of Regular rg \<Rightarrow> regular_Covers L cancelled rg flat endss | Single sg \<Rightarrow> single_Covers L sg flat)"

definition any_Cell :: "('crs, 'pr) grid_lib \<Rightarrow> 'crs any_grid \<Rightarrow> string \<Rightarrow> (gerr + 'crs gcell) go" where
  "any_Cell L g uri = (case g of Regular rg \<Rightarrow> regular_Cell L rg uri | Single sg \<Rightarrow> single_Cell L sg uri)"

section \<open>Grids of the database\<close>

record gridcell = cl_ID :: string
  cl_CRS :: string
  cl_SRID :: int
  cl_Coordinates :: "float64 list"

record Grid = gr_Name :: string
  gr_Description :: string
  gr_Cells :: "gridcell list"

record pb_Cell = pcl_Id :: string
  pcl_Crs :: string
  pcl_Points :: "(float64 \<times> float64) list"

text \<open>A failed lookup leaves an entry 0 in the dictionary of the reference systems, but ends the request.\<close>

definition sridFromCrs :: "'crs gdal \<Rightarrow> string \<Rightarrow> (string \<times> int) list \<Rightarrow> (gerr + int \<times> (string \<times> int) list) go" where
  "sridFromCrs g crs dict =
     (case map_of dict crs of
        Some srid \<Rightarrow> Ret (Inr (srid, dict))
      | None \<Rightarrow> go_bind (CRSFromUserInput g crs) (\<lambda>r. case r of
            Inl e \<Rightarrow> Ret (Inl e)
          | Inr (c, srid) \<Rightarrow> Ret (Inr (srid, (crs, srid) # dict))))"

fun grid_cells :: "'crs gdal \<Rightarrow> (string \<times> int) list \<Rightarrow> pb_Cell list \<Rightarrow> (gerr + gridcell list) go" where
  "grid_cells g dict [] = Ret (Inr [])"
| "grid_cells g dict (c # cs) =
     go_bind (sridFromCrs g (pcl_Crs c) dict) (\<lambda>r. case r of
         Inl e \<Rightarrow> Ret (Inl (WrapE ''NewGridFromProtobuf.'' e []))
       | Inr (srid, dict) \<Rightarrow> go_bind (grid_cells g dict cs) (\<lambda>r. Ret (case r of
             Inl e \<Rightarrow> Inl e
           | Inr cells \<Rightarrow> Inr (\<lparr>cl_ID = pcl_Id c, cl_CRS = pcl_Crs c, cl_SRID = srid,
                cl_Coordinates = concat (map (\<lambda>(x, y). [x, y]) (pcl_Points c))\<rparr> # cells))))"

fun cells_error :: "string list \<Rightarrow> gridcell list \<Rightarrow> gerr option" where
  "cells_error seen [] = None"
| "cells_error seen (c # cs) =
     (if \<not> isValidURN (cl_ID c) then Some (NewValidationError (''invalid cell-id: '' @ cl_ID c))
      else if cl_ID c \<in> set seen then Some (NewValidationError (''Duplicate cell-id:'' @ cl_ID c))
      else cells_error (cl_ID c # seen) cs)"

definition Grid_validate :: "Grid \<Rightarrow> gerr option" where
  "Grid_validate g =
     (if \<not> name_segment (gr_Name g) then Some (NewValidationError (''invalid name: '' @ gr_Name g))
      else if ToLower (gr_Name g) \<in> set ReservedNames then Some (NewValidationError (''reserved name: '' @ gr_Name g))
      else cells_error [] (gr_Cells g))"

definition NewGridFromProtobuf :: "'crs gdal \<Rightarrow> string \<Rightarrow> string \<Rightarrow> pb_Cell list \<Rightarrow> (gerr + Grid) go" where
  "NewGridFromProtobuf g name description cells =
     go_bind (grid_cells g [] cells) (\<lambda>r. Ret (case r of
         Inl e \<Rightarrow> Inl e
       | Inr cs \<Rightarrow> let x = \<lparr>gr_Name = name, gr_Description = description, gr_Cells = cs\<rparr>
                   in case Grid_validate x of Some e \<Rightarrow> Inl e | None \<Rightarrow> Inr x))"

definition Grid_ToProtobuf :: "Grid \<Rightarrow> string \<times> string" where
  "Grid_ToProtobuf g = (gr_Name g, gr_Description g)"

section \<open>Custom grids\<close>

text \<open>\<open>gi_FindCells\<close> yields the cells of the grid that meet the area, with the intersections; the initializer is
  the database.\<close>

record grid_initializer = gi_ReadGrid :: "string \<Rightarrow> gerr option"
  gi_FindCells :: "string \<Rightarrow> coords \<Rightarrow> gerr + (gridcell list \<times> (float64 list \<times> nat list list) list)"

record 'crs custom_grid = cg_Name :: string
  cg_active :: "(string \<times> 'crs any_grid) list"
  cg_Parameters :: Metadata

definition newCustomGrid :: "grid_initializer option \<Rightarrow> Metadata \<Rightarrow> gerr + 'crs custom_grid" where
  "newCustomGrid initializer parameters =
     (case initializer of
        None \<Rightarrow> Inl (PlainE ''newCustomGrid: empty initializer'')
      | Some I \<Rightarrow>
          let name = (case map_of parameters ''grid'' of Some s \<Rightarrow> s | None \<Rightarrow> [])
          in case gi_ReadGrid I name of
               Some e \<Rightarrow> Inl (WrapE ''newCustomGrid.'' e [])
             | None \<Rightarrow>
                 if map_of parameters ''subgrid'' = None \<and> map_of parameters ''resolution'' = None
                 then Inl (PlainE (''customGrid: need either parameters 'subgrid' or 'resolution'' @ [CHR 0x27]))
                 else
                   let ps = (case map_of parameters ''subgrid'' of None \<Rightarrow> AList.update ''subgrid'' ''singlecell'' parameters | Some _ \<Rightarrow> parameters)
                   in Inr \<lparr>cg_Name = name, cg_active = [], cg_Parameters = AList.update ''grid'' (the (map_of ps ''subgrid'')) ps\<rparr>)"

definition custom_Cell :: "('crs, 'pr) grid_lib \<Rightarrow> 'crs custom_grid \<Rightarrow> string \<Rightarrow> (gerr + 'crs gcell) go" where
  "custom_Cell L cg uri =
     (let i = takeWhile (\<lambda>c. c \<noteq> CHR ''/'') uri; rest = dropWhile (\<lambda>c. c \<noteq> CHR ''/'') uri
      in if rest = [] then Ret (Inl (PlainE (''customGrid.Cell: invalid uri : '' @ CHR 0x27 # uri @ CHR 0x27 # '' must be CellID/uri'')))
         else case map_of (cg_active cg) i of
           None \<Rightarrow> Ret (Inl (PlainE (''customGrid.Cell: unknown cell identifier: '' @ i)))
         | Some g \<Rightarrow> any_Cell L g (drop 1 rest))"

fun sub_grids :: "('crs, 'pr) grid_lib \<Rightarrow> Metadata \<Rightarrow> gridcell list \<Rightarrow> (string \<times> 'crs any_grid) list \<Rightarrow>
    ((gerr + (string \<times> 'crs any_grid) list) \<times> Metadata) go" where
  "sub_grids L ps [] active = Ret (Inr active, ps)"
| "sub_grids L ps (c # cs) active =
     (let ps = AList.update ''crs'' (cl_CRS c) ps
      in go_bind (NewGrid L ps) (\<lambda>r. case r of
           Inl f \<Rightarrow> Ret (Inl (NewValidationError (''CustomGrid.Covers.'' @ ErrorMsg (failure_error f))), ps)
         | Inr g \<Rightarrow> sub_grids L ps cs (AList.update (cl_ID c) g active)))"

text \<open>The stream ends at the first error of a subgrid; the errors within the stream of a subgrid lose their text: only
  the identifier of the cell, with an empty URI, is passed on.\<close>

fun custom_stream ::
  "('crs, 'pr) grid_lib \<Rightarrow> (nat \<Rightarrow> gerr option) \<Rightarrow> (string \<times> 'crs any_grid) list \<Rightarrow> gridcell list \<Rightarrow>
   (float64 list \<times> nat list list) list \<Rightarrow> (gerr + string) list go" where
  "custom_stream L cancelled active cells [] = Ret []"
| "custom_stream L cancelled active [] (x # xs) = Panic ''runtime error: index out of range''"
| "custom_stream L cancelled active (c # cs) ((flat, endss) # xs) =
     (case map_of active (cl_ID c) of
        None \<Rightarrow> Panic ''runtime error: invalid memory address or nil pointer dereference''
      | Some g \<Rightarrow> go_bind (any_Covers L cancelled g flat endss) (\<lambda>r. case r of
            Inl e \<Rightarrow> Ret [Inl (PlainE (''CustomGrid.Covers.'' @ ErrorMsg e))]
          | Inr us \<Rightarrow> go_bind (custom_stream L cancelled active cs xs) (\<lambda>rest.
              Ret (map (\<lambda>u. Inr (cl_ID c @ ''/'' @ (case u of Inr s \<Rightarrow> s | Inl e \<Rightarrow> []))) us @ rest))))"

definition custom_Covers ::
  "('crs, 'pr) grid_lib \<Rightarrow> (nat \<Rightarrow> gerr option) \<Rightarrow> grid_initializer \<Rightarrow> string \<Rightarrow> 'crs custom_grid \<Rightarrow> coords \<Rightarrow>
   ((gerr + (gerr + string) list) \<times> 'crs custom_grid) go" where
  "custom_Covers L cancelled I uid cg g =
     (case NewAOIFromMultiPolygon uid g of
        (aoi, Some e) \<Rightarrow> Ret (Inl (WrapE ''CustomGrid.Covers.'' e []), cg)
      | (aoi, None) \<Rightarrow> (case gi_FindCells I (cg_Name cg) g of
          Inl e \<Rightarrow> Ret (Inl (WrapE ''CustomGrid.Covers.'' e []), cg)
        | Inr (cells, intersections) \<Rightarrow>
            go_bind (sub_grids L (cg_Parameters cg) cells []) (\<lambda>(r, ps). case r of
                Inl e \<Rightarrow> Ret (Inl e, cg\<lparr>cg_Parameters := ps\<rparr>)
              | Inr active \<Rightarrow>
                  go_bind (custom_stream L cancelled active cells intersections) (\<lambda>us.
                    Ret (Inr us, cg\<lparr>cg_Parameters := ps, cg_active := active\<rparr>)))))"

end
