(* ===== verification/GridsProps.thy ===== *)
theory GridsProps
  imports Grids
begin

text \<open>
  The identifiers of the cells of a regular grid are read back as they were printed, the stream of the cells that
  cover an area is exact, and an accepted grid of the database identifies its cells.
\<close>

section \<open>Numbers printed and read\<close>

lemma digit_chars:
  "list_all (\<lambda>n. is_digit (digit_char n) \<and> (of_char (digit_char n) :: int) = 48 + int n \<and> digit_char n \<in> set decimal_digits) [0..<10]"
  by code_simp

lemma is_digit_char:
  "n < 10 \<Longrightarrow> is_digit (digit_char n) \<and> (of_char (digit_char n) :: int) = 48 + int n \<and> digit_char n \<in> set decimal_digits"
  using digit_chars by (simp only: list_all_iff set_upt atLeastLessThan_iff le0 simp_thms)

lemma nat_digits_read:
  "nat_digits n \<noteq> [] \<and> list_all is_digit (nat_digits n) \<and> set (nat_digits n) \<subseteq> set decimal_digits \<and>
   digits_value (nat_digits n) = int n"
proof (induction n rule: nat_digits.induct)
  case (1 n)
  show ?case
  proof (cases "n < 10")
    case True
    then have "nat_digits n = [digit_char n]" by (simp add: nat_digits.simps)
    then show ?thesis using is_digit_char [OF True] by (simp add: digits_value_def)
  next
    case False
    have d: "n mod 10 < 10" by simp
    have v: "int n = 10 * int (n div 10) + int (n mod 10)" by presburger
    have n: "nat_digits n = nat_digits (n div 10) @ [digit_char (n mod 10)]" using False by (simp add: nat_digits.simps)
    show ?thesis unfolding n using 1 [OF False] is_digit_char [OF d] v by (simp add: digits_value_def)
  qed
qed

lemma not_sign: "c \<in> set decimal_digits \<Longrightarrow> c \<notin> {CHR ''-'', CHR ''+''} \<and> c \<notin> set space_chars"
  by (auto simp: decimal_digits_def space_chars_def)

lemma nat_digits_hd: "\<exists>c r. nat_digits n = c # r \<and> c \<in> set decimal_digits"
  using nat_digits_read [of n] by (cases "nat_digits n") auto

lemma Atoi_itoa:
  assumes "- (2 ^ 63) \<le> i" "i < 2 ^ 63"
  shows "Atoi (itoa i) = Some i"
proof (cases "i < 0")
  case True
  with assms nat_digits_read [of "nat (- i)"] show ?thesis by (simp add: Atoi_def itoa_def)
next
  case False
  obtain c r where c: "nat_digits (nat i) = c # r" "c \<in> set decimal_digits" using nat_digits_hd by blast
  from c(2) not_sign have "c \<noteq> CHR ''-''" "c \<noteq> CHR ''+''" by auto
  with False assms nat_digits_read [of "nat i"] c(1) show ?thesis by (simp add: Atoi_def itoa_def)
qed

lemma accept_all_digits:
  assumes "rest = [] \<or> hd rest \<notin> set decimal_digits"
  shows "accept_all decimal_digits (nat_digits n @ rest) = (nat_digits n, rest)"
proof -
  have "\<forall>c \<in> set (nat_digits n). c \<in> set decimal_digits" using nat_digits_read [of n] by auto
  then show ?thesis using assms by (cases rest) (simp_all add: accept_all_def takeWhile_append2 dropWhile_append2)
qed

lemma scan_int_itoa:
  assumes "- (2 ^ 63) \<le> i" "i < 2 ^ 63" "rest = [] \<or> hd rest \<notin> set decimal_digits"
  shows "scan_int (itoa i @ rest) = Some (i, rest)"
proof -
  have i: "itoa i = (if i < 0 then ''-'' else []) @ nat_digits (nat \<bar>i\<bar>)" by (simp add: itoa_def)
  obtain c r where c: "nat_digits (nat \<bar>i\<bar>) = c # r" "c \<in> set decimal_digits" using nat_digits_hd by blast
  have skip: "skip_space (itoa i @ rest) = itoa i @ rest"
    using not_sign [OF c(2)] by (simp add: i c(1) skip_space_def space_chars_def)
  have acc: "accept ''+-'' (itoa i @ rest) = (if i < 0 then ''-'' else [], nat_digits (nat \<bar>i\<bar>) @ rest)"
    using not_sign [OF c(2)] by (simp add: i c(1) accept_def)
  show ?thesis
    using Atoi_itoa [OF assms(1,2)] unfolding scan_int_def skip acc Let_def prod.case accept_all_digits [OF assms(3)]
    by (simp add: i)
qed

section \<open>The cells of a regular grid\<close>

definition int64 :: "int \<Rightarrow> bool" where
  "int64 i \<longleftrightarrow> - (2 ^ 63) \<le> i \<and> i < 2 ^ 63"

lemma scan_regular_uri: "int64 i \<Longrightarrow> int64 j \<Longrightarrow> scan_regular (regular_uri i j) = Some (i, j)"
  using scan_int_itoa [of i "''/'' @ itoa j"] scan_int_itoa [of j "[]"]
  by (simp add: scan_regular_def regular_uri_def scan_char_def int64_def decimal_digits_def)

lemma regular_uri_inject: "int64 i \<Longrightarrow> int64 j \<Longrightarrow> int64 k \<Longrightarrow> int64 l \<Longrightarrow> regular_uri i j = regular_uri k l \<longleftrightarrow> i = k \<and> j = l"
  by (metis option.inject prod.inject scan_regular_uri)

text \<open>The identifier of a cell of a regular grid is read back as it was printed: the cell at a column and a
  row of 64 bits is found again from its identifier, so different cells have different identifiers.\<close>

theorem cell_identifiers_roundtrip:
  assumes "int64 i" "int64 j"
  shows "scan_regular (regular_uri i j) = Some (i, j)"
  using assms by (rule scan_regular_uri)

lemma cell_identifiers_roundtrip_witness: "scan_regular (regular_uri (- 12) 7) = Some (- 12, 7) \<and> regular_uri (- 12) 7 = ''-12/7''"
  using cell_identifiers_roundtrip [of "- 12" 7] by (simp add: int64_def) code_simp

lemma set_rows:
  "set (concat (map (\<lambda>k. map (\<lambda>i. f i k) (filter (\<lambda>i. P i k) [0..<w])) [0..<n])) = {f i k | i k. i < w \<and> k < n \<and> P i k}"
  by (auto, blast)

lemma cover_rows_all:
  assumes "\<And>k. cancelled k = None"
  shows "cover_rows cancelled i0 j0 w img j n =
    concat (map (\<lambda>k. map (\<lambda>i. Inr (regular_uri (int i + i0) (int k + j0))) (filter (\<lambda>i. img ! (k * w + i)) [0..<w])) [j..<j + n])"
  using assms by (induction n arbitrary: j) (simp_all add: upt_conv_Cons del: upt_Suc)

text \<open>C38: The stream of the cells that cover an area is exact.  When the request is not cancelled and the
  window lies within 64 bits, the stream yields the identifier of every burnt cell of the window and nothing else, each
  once.\<close>

theorem covering_cells_are_exact:
  assumes "\<And>k. cancelled k = None" "- (2 ^ 63) \<le> i0" "i0 + int w \<le> 2 ^ 63" "- (2 ^ 63) \<le> j0" "j0 + int n \<le> 2 ^ 63"
  shows "distinct (cover_rows cancelled i0 j0 w img 0 n) \<and>
    set (cover_rows cancelled i0 j0 w img 0 n) =
      {Inr (regular_uri (int i + i0) (int j + j0)) | i j. i < w \<and> j < n \<and> img ! (j * w + i)}"
proof -
  have fits: "int64 (int i + i0)" "int64 (int k + j0)" if "i < w" "k < n" for i k
    using assms(2-5) that by (simp_all add: int64_def)
  have inj: "regular_uri (int i + i0) (int k + j0) = regular_uri (int i' + i0) (int k' + j0) \<longleftrightarrow> i = i' \<and> k = k'"
    if "i < w" "k < n" "i' < w" "k' < n" for i k i' k'
    using regular_uri_inject [OF fits [OF that(1,2)] fits [OF that(3,4)]] by simp
  have dist: "distinct (concat (map (\<lambda>k. map (\<lambda>i. Inr (regular_uri (int i + i0) (int k + j0))) (filter (\<lambda>i. img ! (k * w + i)) [0..<w])) ks))"
    if "distinct ks" "set ks \<subseteq> {..<n}" for ks
    using that
  proof (induction ks)
    case (Cons k ks)
    have "distinct (map (\<lambda>i. Inr (regular_uri (int i + i0) (int k + j0))) (filter (\<lambda>i. img ! (k * w + i)) [0..<w]))"
      using Cons.prems(2) inj [of _ k _ k] by (auto simp: distinct_map inj_on_def)
    with Cons show ?case using inj by (auto simp: subset_iff)
  qed simp
  have eq: "cover_rows cancelled i0 j0 w img 0 n =
      concat (map (\<lambda>k. map (\<lambda>i. Inr (regular_uri (int i + i0) (int k + j0))) (filter (\<lambda>i. img ! (k * w + i)) [0..<w])) [0..<n])"
    using cover_rows_all [of cancelled, OF assms(1), of i0 j0 w img 0 n] by simp
  show ?thesis
  proof (rule conjI)
    show "distinct (cover_rows cancelled i0 j0 w img 0 n)" unfolding eq by (rule dist) auto
    show "set (cover_rows cancelled i0 j0 w img 0 n) =
        {Inr (regular_uri (int i + i0) (int j + j0)) | i j. i < w \<and> j < n \<and> img ! (j * w + i)}"
      unfolding eq by (rule set_rows)
  qed
qed

lemma covering_cells_are_exact_witness:
  "cover_rows (\<lambda>_. None) (- 1) 4 2 [True, False, False, True] 0 2 = [Inr ''-1/4'', Inr ''0/5''] \<and>
   distinct (cover_rows (\<lambda>_. None) (- 1) 4 2 [True, False, False, True] 0 2)"
proof -
  have "cover_rows (\<lambda>_. None) (- 1) 4 2 [True, False, False, True] 0 2 = [Inr ''-1/4'', Inr ''0/5'']" by code_simp
  then show ?thesis using covering_cells_are_exact [of "\<lambda>_. None" "- 1" 2 4 2 "[True, False, False, True]"] by simp
qed

section \<open>Grids of the database\<close>

text \<open>The reference: every reference system is looked up.\<close>

fun cells_without_dictionary :: "'crs gdal \<Rightarrow> pb_Cell list \<Rightarrow> (gerr + gridcell list) go" where
  "cells_without_dictionary g [] = Ret (Inr [])"
| "cells_without_dictionary g (c # cs) =
     go_bind (CRSFromUserInput g (pcl_Crs c)) (\<lambda>r. case r of
         Inl e \<Rightarrow> Ret (Inl (WrapE ''NewGridFromProtobuf.'' e []))
       | Inr (crs, srid) \<Rightarrow> go_bind (cells_without_dictionary g cs) (\<lambda>r. Ret (case r of
             Inl e \<Rightarrow> Inl e
           | Inr cells \<Rightarrow> Inr (\<lparr>cl_ID = pcl_Id c, cl_CRS = pcl_Crs c, cl_SRID = srid,
                cl_Coordinates = concat (map (\<lambda>(x, y). [x, y]) (pcl_Points c))\<rparr> # cells))))"

definition dict_ok :: "'crs gdal \<Rightarrow> (string \<times> int) list \<Rightarrow> bool" where
  "dict_ok g dict \<longleftrightarrow> (\<forall>c n. map_of dict c = Some n \<longrightarrow> (\<exists>crs. CRSFromUserInput g c = Ret (Inr (crs, n))))"

lemma sridFromCrs_cached:
  assumes "dict_ok g dict"
  shows "case sridFromCrs g c dict of
      Panic m \<Rightarrow> CRSFromUserInput g c = Panic m
    | Ret (Inl e) \<Rightarrow> CRSFromUserInput g c = Ret (Inl e)
    | Ret (Inr (n, dict')) \<Rightarrow> (\<exists>crs. CRSFromUserInput g c = Ret (Inr (crs, n))) \<and> dict_ok g dict'"
proof (cases "map_of dict c")
  case (Some n)
  with assms show ?thesis by (simp add: sridFromCrs_def dict_ok_def)
next
  case None
  show ?thesis
  proof (cases "CRSFromUserInput g c")
    case (Ret r)
    with None assms show ?thesis by (cases r) (auto simp: sridFromCrs_def dict_ok_def)
  qed (simp add: sridFromCrs_def None)
qed

lemma grid_cells_cached: "dict_ok g dict \<Longrightarrow> grid_cells g dict cs = cells_without_dictionary g cs"
proof (induction cs arbitrary: dict)
  case (Cons c cs)
  note cached = sridFromCrs_cached [OF Cons.prems, of "pcl_Crs c"]
  show ?case
  proof (cases "sridFromCrs g (pcl_Crs c) dict")
    case (Panic m)
    with cached show ?thesis by simp
  next
    case (Ret r)
    show ?thesis
    proof (cases r)
      case (Inl e)
      with Ret cached show ?thesis by simp
    next
      case (Inr nd)
      obtain n d where nd: "nd = (n, d)" by (metis surj_pair)
      from cached obtain crs where crs: "CRSFromUserInput g (pcl_Crs c) = Ret (Inr (crs, n))" "dict_ok g d"
        unfolding Ret Inr nd by auto
      show ?thesis using Ret Inr nd crs Cons.IH [OF crs(2)] by simp
    qed
  qed
qed simp

text \<open>The dictionary of the reference systems changes nothing: the cells of a grid are those found by
  looking every reference system up, error or panic included, however often a system is repeated.\<close>

theorem srid_dictionary_is_transparent: "grid_cells g [] cells = cells_without_dictionary g cells"
  by (rule grid_cells_cached) (simp add: dict_ok_def)

lemma cells_error_None:
  "cells_error seen cs = None \<Longrightarrow> distinct (map cl_ID cs) \<and> cl_ID ` set cs \<inter> set seen = {} \<and> list_all (\<lambda>c. isValidURN (cl_ID c)) cs"
  by (induction seen cs rule: cells_error.induct) (auto split: if_splits)

lemma cells_kept: "cells_without_dictionary g cells = Ret (Inr cs) \<Longrightarrow> map cl_ID cs = map pcl_Id cells"
proof (induction cells arbitrary: cs)
  case (Cons c cells)
  from Cons.prems show ?case
    by (cases "CRSFromUserInput g (pcl_Crs c)"; cases "cells_without_dictionary g cells") (auto simp: Cons.IH split: sum.splits)
qed simp

text \<open>An accepted grid identifies its cells: it has the cells of the request in their order, their
  identifiers are valid names and all different, and its own name is one segment and not the name of a grid of the
  library, in upper or lower case.\<close>

theorem accepted_grid_identifies_cells:
  assumes "NewGridFromProtobuf g name description cells = Ret (Inr x)"
  shows "map cl_ID (gr_Cells x) = map pcl_Id cells \<and> distinct (map pcl_Id cells) \<and> list_all isValidURN (map pcl_Id cells) \<and>
    gr_Name x = name \<and> name_segment name \<and> ToLower name \<notin> set ReservedNames"
proof -
  obtain cs where cs: "grid_cells g [] cells = Ret (Inr cs)"
    and x: "x = \<lparr>gr_Name = name, gr_Description = description, gr_Cells = cs\<rparr>" "Grid_validate x = None"
    using assms by (cases "grid_cells g [] cells") (auto simp: NewGridFromProtobuf_def Let_def split: sum.splits option.splits)
  have ids: "map cl_ID cs = map pcl_Id cells"
    using cs cells_kept [of g cells cs] grid_cells_cached [of g "[]" cells] by (simp add: dict_ok_def)
  have v: "name_segment name" "ToLower name \<notin> set ReservedNames" "cells_error [] cs = None"
    using x by (auto simp: Grid_validate_def split: if_splits)
  have "list_all isValidURN (map cl_ID cs)" using cells_error_None [OF v(3)] by (simp add: list.pred_map o_def)
  with cells_error_None [OF v(3)] v x ids show ?thesis by simp
qed

definition sample_gdal :: "int gdal" where
  "sample_gdal = \<lparr>g_FromEPSG = (\<lambda>n. Inr n), g_FromProj4 = (\<lambda>_. Inl (PlainE ''proj4'')), g_FromWKT = (\<lambda>_. Inl (PlainE ''wkt'')),
     g_Authority = (\<lambda>_ _ _. (''EPSG'', ''4326''))\<rparr>"

lemma accepted_grid_identifies_cells_witness:
  "\<exists>x. NewGridFromProtobuf sample_gdal ''g'' [] [\<lparr>pcl_Id = ''a'', pcl_Crs = ''4326'', pcl_Points = []\<rparr>, \<lparr>pcl_Id = ''b'', pcl_Crs = ''4326'', pcl_Points = []\<rparr>] = Ret (Inr x) \<and>
     map cl_ID (gr_Cells x) = [''a'', ''b''] \<and> map cl_SRID (gr_Cells x) = [4326, 4326]"
proof -
  let ?cs = "[\<lparr>pcl_Id = ''a'', pcl_Crs = ''4326'', pcl_Points = []\<rparr>, \<lparr>pcl_Id = ''b'', pcl_Crs = ''4326'', pcl_Points = []\<rparr>]"
  let ?x = "\<lparr>gr_Name = ''g'', gr_Description = [], gr_Cells =
    [\<lparr>cl_ID = ''a'', cl_CRS = ''4326'', cl_SRID = 4326, cl_Coordinates = []\<rparr>, \<lparr>cl_ID = ''b'', cl_CRS = ''4326'', cl_SRID = 4326, cl_Coordinates = []\<rparr>]\<rparr>"
  have run: "NewGridFromProtobuf sample_gdal ''g'' [] ?cs = Ret (Inr ?x)" by code_simp
  show ?thesis using accepted_grid_identifies_cells [OF run] run by (intro exI [of _ ?x]) simp
qed

end
