(* ===== verification/RecordsProps.thy ===== *)
theory RecordsProps
  imports Records Rounding
begin

text \<open>
  Palettes and their colours: an accepted palette gives as many colours as asked for, and a colour is read back
  from its column.
\<close>

section \<open>Interpolation\<close>

lemma seek_stays_inside:
  "j + 1 < length ps \<Longrightarrow> \<not> f_lt (cpt_Val (last ps)) val \<Longrightarrow> \<exists>k. seek ps val j = Ret k \<and> j \<le> k \<and> k + 1 < length ps"
proof (induction ps val j rule: seek.induct)
  case (1 ps val j)
  show ?case
  proof (cases "f_lt (cpt_Val (ps ! (j + 1))) val")
    case True
    have "j + 1 \<noteq> length ps - 1"
    proof
      assume "j + 1 = length ps - 1"
      then have "last ps = ps ! (j + 1)" using 1(2) by (subst last_conv_nth) auto
      with True 1(3) show False by simp
    qed
    then have "j + 1 + 1 < length ps" using 1(2) by linarith
    with 1(1) [OF _ True] 1(2,3) obtain k where "seek ps val (j + 1) = Ret k" "j + 1 \<le> k" "k + 1 < length ps" by auto
    then show ?thesis using True 1(2) by (simp add: seek.simps [of ps val j])
  next
    case False
    then show ?thesis using 1(2) by (simp add: seek.simps [of ps val j])
  qed
qed

lemma palette_value_at_most_1:
  assumes "i < nat n"
  shows "\<not> f_lt (Fin 1) (palette_value n i)"
proof -
  have nonneg: "f_le (Fin 0) (round32 (of_nat i))" using round32_mono [of 0 "of_nat i"] by (simp add: round32_def)
  have "(of_nat i :: rat) = of_int (int i)" by simp
  also have "\<dots> \<le> of_int (n - 1)" unfolding of_int_le_iff using assms by linarith
  finally have le: "f_le (round32 (of_nat i)) (round32 (of_int (n - 1)))" by (rule round32_mono)
  have one: "round32 1 = Fin 1" using round32_int [of 1] by simp
  have div: "\<not> f_lt (Fin 1) (f32_div a b)" if ab: "f_le (Fin 0) a" "f_le a b" for a b
  proof (cases a)
    case (Fin x)
    then have x: "0 \<le> x" using ab(1) by simp
    show ?thesis
    proof (cases b)
      case (Fin y)
      show ?thesis
      proof (cases "y = 0")
        case True
        with x ab(2) \<open>a = Fin x\<close> Fin show ?thesis by (simp add: signed_inf_def)
      next
        case False
        with x ab(2) \<open>a = Fin x\<close> Fin have "x / y \<le> 1" by (simp add: divide_le_eq_1)
        from round32_mono [OF this] False \<open>a = Fin x\<close> Fin show ?thesis
          unfolding one by (auto simp: f_le_def f_eq_iff dest: f_lt_asym)
      qed
    qed (use ab(2) \<open>a = Fin x\<close> in \<open>simp_all add: f_le_def\<close>)
  next
    case PosInf
    with ab(2) show ?thesis by (cases b) (simp_all add: f_le_def)
  qed (use ab(1) in \<open>simp_all add: f_le_def\<close>)
  show ?thesis unfolding palette_value_def by (rule div [OF nonneg le])
qed

text \<open>An accepted palette gives colours.  For every palette that Validate accepts, even one with a NaN
  among its inner values, and every number of colours of at least 0, PaletteN returns exactly that many colours and never
  runs past its points.\<close>

theorem accepted_palette_gives_colors:
  assumes "Palette_Validate points_text p = None" "0 \<le> n"
  shows "\<exists>colors. PaletteN p n = Ret colors \<and> int (length colors) = n"
proof -
  let ?ps = "pal_Points p"
  have valid: "2 \<le> length ?ps" "f_eq (cpt_Val (last ?ps)) (Fin 1)"
    using assms(1) by (auto simp: Palette_Validate_def Let_def not_less split: if_splits)
  then have last1: "cpt_Val (last ?ps) = Fin 1" by (simp add: f_eq_iff)
  let ?I = "\<lambda>i (jc :: nat \<times> rgba list). fst jc + 1 < length ?ps \<and> length (snd jc) = i"
  have "\<exists>t. go_fold (\<lambda>i (j, colors). go_bind (seek ?ps (palette_value n i) j) (\<lambda>j.
          Ret (j, colors @ [palette_color ?ps (palette_value n i) j]))) [0..<nat n] (0, []) = Ret t \<and> ?I (nat n) t"
  proof (rule go_fold_upt [where I = ?I])
    fix i and u :: "nat \<times> rgba list"
    assume i: "i < nat n" "?I i u"
    obtain j cs where u: "u = (j, cs)" by (metis surj_pair)
    obtain k where "seek ?ps (palette_value n i) j = Ret k" "k + 1 < length ?ps"
      using seek_stays_inside [of j ?ps "palette_value n i"] palette_value_at_most_1 [OF i(1)] i(2) by (auto simp: u last1)
    then show "\<exists>v. (case u of (j, colors) \<Rightarrow> go_bind (seek ?ps (palette_value n i) j) (\<lambda>j.
          Ret (j, colors @ [palette_color ?ps (palette_value n i) j]))) = Ret v \<and> ?I (Suc i) v"
      using i(2) by (simp add: u)
  qed (use valid(1) in auto)
  then show ?thesis using assms(2) by (auto simp: PaletteN_def)
qed

definition grey_palette :: Palette where
  "grey_palette = \<lparr>pal_ps = NEW, pal_Name = ''grey'', pal_Points =
     [\<lparr>cpt_Val = Fin 0, cpt_R = 0, cpt_G = 0, cpt_B = 0, cpt_A = 255\<rparr>, \<lparr>cpt_Val = Fin 1, cpt_R = 255, cpt_G = 255, cpt_B = 255, cpt_A = 255\<rparr>]\<rparr>"

lemma accepted_palette_gives_colors_witness: "\<exists>colors. PaletteN grey_palette 256 = Ret colors \<and> length colors = 256"
proof -
  have u: "isValidURN ''grey''" by code_simp
  have v: "Palette_Validate (\<lambda>_. []) grey_palette = None"
    using u by (simp add: Palette_Validate_def grey_palette_def f_le_def)
  have "\<exists>colors. PaletteN grey_palette 256 = Ret colors \<and> int (length colors) = 256"
    using accepted_palette_gives_colors [OF v, of 256] by simp
  then obtain colors where "PaletteN grey_palette 256 = Ret colors" "int (length colors) = 256" by (elim exE conjE) (rule that)
  then show ?thesis by (intro exI [of _ colors]) simp
qed

section \<open>The column of a colour\<close>

lemma byte_range: "0 \<le> uint (x :: 8 word)" "uint (x :: 8 word) < 256"
  using uint_bounded [of x] by simp_all

lemma uint_shifted_byte:
  assumes "n \<le> 24"
  shows "uint (push_bit n (ucast r :: 32 word)) = uint (r :: 8 word) * 2 ^ n"
proof -
  have "uint r * 2 ^ n < 256 * 2 ^ n" using byte_range [of r] by simp
  also have "\<dots> \<le> 256 * (2 :: int) ^ 24" using assms by (intro mult_left_mono power_increasing) simp_all
  finally have "uint r * 2 ^ n < 2 ^ 32" by simp
  then show ?thesis using byte_range [of r] unfolding unsigned_push_bit_eq unsigned_ucast_eq
    by (simp add: take_bit_eq_mod push_bit_eq_mult)
qed

lemma uint_add_small: "uint x + uint y < 2 ^ 32 \<Longrightarrow> uint (x + y) = uint x + uint (y :: 32 word)"
  by (simp add: uint_word_ariths)

lemma pack_value: "uint (pack_rgba r g b a) = uint r * 65536 + uint g * 256 + uint b + uint a * 16777216"
proof -
  have s: "uint (push_bit 16 (ucast r :: 32 word)) = uint r * 65536" "uint (push_bit 8 (ucast g :: 32 word)) = uint g * 256"
    "uint (ucast b :: 32 word) = uint b" "uint (push_bit 24 (ucast a :: 32 word)) = uint a * 16777216"
    using uint_shifted_byte [of 16 r] uint_shifted_byte [of 8 g] uint_shifted_byte [of 0 b] uint_shifted_byte [of 24 a] by simp_all
  show ?thesis
    using byte_range [of r] byte_range [of g] byte_range [of b] byte_range [of a] by (simp add: pack_rgba_def uint_add_small s)
qed

lemma byte_of_uint: "x mod 256 = uint w \<Longrightarrow> word_of_int x = (w :: 8 word)"
  by (rule word_uint_eqI) (simp add: uint_word_of_int)

text \<open>The colour of a point survives the database.  The integer that Value writes for the four components
  of a colour is the one from which Scan takes the same four components back, for every colour, the opaque ones included,
  whose integer does not fit in 31 bits.\<close>

theorem colors_survive_the_column: "unpack_rgba (uint (pack_rgba r g b a)) = (r, g, b, a)"
proof -
  let ?v = "uint r * 65536 + uint g * 256 + uint b + uint a * 16777216"
  note ranges = byte_range [of r] byte_range [of g] byte_range [of b] byte_range [of a]
  have "(?v div 65536) mod 256 = uint r" "(?v div 256) mod 256 = uint g" "?v mod 256 = uint b" "(?v div 16777216) mod 256 = uint a"
    using ranges int_div_pos_eq [of ?v 65536 "uint a * 256 + uint r" "uint g * 256 + uint b"]
      int_div_pos_eq [of ?v 256 "uint a * 65536 + uint r * 256 + uint g" "uint b"]
      int_div_pos_eq [of ?v 16777216 "uint a" "uint r * 65536 + uint g * 256 + uint b"]
      int_mod_pos_eq [of "uint a * 65536 + uint r * 256 + uint g" 256 "uint a * 256 + uint r" "uint g"]
      int_mod_pos_eq [of ?v 256 "uint a * 65536 + uint r * 256 + uint g" "uint b"]
    by simp_all
  then show ?thesis unfolding pack_value unpack_rgba_def prod.inject drop_bit_eq_div
    by (intro conjI byte_of_uint) simp_all
qed

end
