(* ===== verification/Bitmap.thy ===== *)
theory Bitmap
  imports DataFormats FloatText
begin

text \<open>
  Images as bytes: internal/utils/bitmap/bitmap.go and bitmap_reader.go.  A reader gives the bytes of an image
  chunk by chunk; one reads an array, the other reads lines of a GDAL dataset through a buffer.  GDAL is the
  parameter \<open>lines\<close>: the bytes of each line, or the error of reading it.
\<close>

section \<open>The buffer\<close>

text \<open>The memory of the buffer (as long as its capacity), the length in use and the position of its first byte.\<close>

record fifo = fb_mem :: "8 word list"
  fb_len :: nat
  fb_pos :: nat

definition empty_fifo :: fifo where
  "empty_fifo = \<lparr>fb_mem = [], fb_len = 0, fb_pos = 0\<rparr>"

definition fifo_Reset :: "fifo \<Rightarrow> fifo" where
  "fifo_Reset b = b\<lparr>fb_len := 0, fb_pos := 0\<rparr>"

definition fifo_Len :: "fifo \<Rightarrow> nat" where
  "fifo_Len b = fb_len b - fb_pos b"

text \<open>\<open>fifo_Push\<close> makes room for \<open>n\<close> bytes and gives where they start; \<open>fifo_write\<close> is the writing of the caller.\<close>

definition fifo_Push :: "nat \<Rightarrow> fifo \<Rightarrow> nat \<times> fifo" where
  "fifo_Push n b =
     (let old = drop (fb_pos b) (take (fb_len b) (fb_mem b)); l = length old;
          mem = (if length (fb_mem b) < n + l then replicate (n + l) 0 else fb_mem b)
      in (l, \<lparr>fb_mem = old @ drop l mem, fb_len = n + l, fb_pos = 0\<rparr>))"

definition fifo_write :: "nat \<Rightarrow> 8 word list \<Rightarrow> fifo \<Rightarrow> fifo" where
  "fifo_write k bytes b = b\<lparr>fb_mem := take k (fb_mem b) @ bytes @ drop (k + length bytes) (fb_mem b)\<rparr>"

definition fifo_Pop :: "nat \<Rightarrow> fifo \<Rightarrow> 8 word list \<times> fifo" where
  "fifo_Pop n b =
     (let n = min n (fifo_Len b) in (take n (drop (fb_pos b) (fb_mem b)), b\<lparr>fb_pos := fb_pos b + n\<rparr>))"

section \<open>Readers\<close>

datatype chunk = EOF | ChunkErr gerr | Chunk "8 word list"

record byte_array = ba_Bytes :: "8 word list"
  ba_offset :: nat

definition ba_Next :: "nat \<Rightarrow> byte_array \<Rightarrow> chunk \<times> byte_array" where
  "ba_Next chunkSize ba =
     (if ba_offset ba \<ge> length (ba_Bytes ba) then (EOF, ba)
      else let o1 = ba_offset ba; o2 = min (o1 + chunkSize) (length (ba_Bytes ba))
           in (Chunk (take (o2 - o1) (drop o1 (ba_Bytes ba))), ba\<lparr>ba_offset := o2\<rparr>))"

definition ba_Restart :: "byte_array \<Rightarrow> byte_array" where
  "ba_Restart ba = ba\<lparr>ba_offset := 0\<rparr>"

text \<open>The lines are read in blocks that fill a chunk; a failed read leaves room for its bytes in the buffer.\<close>

record image_reader = ir_lines :: "nat \<Rightarrow> gerr + 8 word list"
  ir_buffer :: fifo
  ir_xSize :: nat
  ir_ySize :: nat
  ir_bands :: nat
  ir_dtype :: DType
  ir_yCur :: nat

definition stride :: "image_reader \<Rightarrow> int go" where
  "stride r = go_bind (DType_Size (ir_dtype r)) (\<lambda>size. Ret (int (ir_bands r) * int (ir_xSize r) * size))"

definition line_count :: "nat \<Rightarrow> int \<Rightarrow> image_reader \<Rightarrow> int" where
  "line_count chunkSize sz r =
     (let n = float_int (f_ceil (f_div (int_float (int chunkSize - int (fifo_Len (ir_buffer r)))) (int_float sz)))
      in if int (ir_yCur r) + n > int (ir_ySize r) then int (ir_ySize r) - int (ir_yCur r) else n)"

fun ReadLines :: "(nat \<Rightarrow> gerr + 8 word list) \<Rightarrow> nat \<Rightarrow> nat \<Rightarrow> gerr + 8 word list" where
  "ReadLines lines y 0 = Inr []"
| "ReadLines lines y (Suc n) =
     (case lines y of Inl e \<Rightarrow> Inl e
      | Inr l \<Rightarrow> (case ReadLines lines (Suc y) n of Inl e \<Rightarrow> Inl e | Inr ls \<Rightarrow> Inr (l @ ls)))"

definition ir_Pop :: "nat \<Rightarrow> image_reader \<Rightarrow> chunk \<times> image_reader" where
  "ir_Pop chunkSize r = (let (bytes, b) = fifo_Pop chunkSize (ir_buffer r) in (Chunk bytes, r\<lparr>ir_buffer := b\<rparr>))"

definition ir_Next :: "nat \<Rightarrow> image_reader \<Rightarrow> (chunk \<times> image_reader) go" where
  "ir_Next chunkSize r =
     (if ir_yCur r \<ge> ir_ySize r
      then Ret (if fifo_Len (ir_buffer r) = 0 then (EOF, r) else ir_Pop chunkSize r)
      else go_bind (stride r) (\<lambda>sz.
        let n = line_count chunkSize sz r
        in if n > 0
           then (let (k, b) = fifo_Push (nat (n * sz)) (ir_buffer r)
                 in Ret (case ReadLines (ir_lines r) (ir_yCur r) (nat n) of
                      Inl e \<Rightarrow> (ChunkErr (WrapE ''dataset.IO: '' e []), r\<lparr>ir_buffer := b\<rparr>)
                    | Inr bytes \<Rightarrow> ir_Pop chunkSize (r\<lparr>ir_buffer := fifo_write k bytes b, ir_yCur := ir_yCur r + nat n\<rparr>)))
           else Ret (ir_Pop chunkSize r)))"

definition ir_Len :: "image_reader \<Rightarrow> int go" where
  "ir_Len r =
     go_bind (DType_Size (ir_dtype r)) (\<lambda>size. Ret (int (ir_bands r) * int (ir_xSize r) * int (ir_ySize r) * size))"

definition ir_Restart :: "image_reader \<Rightarrow> image_reader" where
  "ir_Restart r = r\<lparr>ir_yCur := 0, ir_buffer := fifo_Reset (ir_buffer r)\<rparr>"

section \<open>Bitmaps\<close>

text \<open>A reader of compressed chunks (internal/grpc/service.go) gives the elements of a channel, whatever the size asked for.\<close>

record chunk_chan = ch_length :: int
  ch_chunks :: "(8 word list \<times> gerr option) list"

definition ch_Next :: "nat \<Rightarrow> chunk_chan \<Rightarrow> chunk \<times> chunk_chan" where
  "ch_Next _ cc =
     (case ch_chunks cc of
        [] \<Rightarrow> (Chunk [], cc)
      | (c, eo) # rest \<Rightarrow> (case eo of Some e \<Rightarrow> ChunkErr e | None \<Rightarrow> Chunk c, cc\<lparr>ch_chunks := rest\<rparr>))"

definition ch_Restart :: "chunk_chan \<Rightarrow> gerr option" where
  "ch_Restart cc = Some (PlainE ''cannot reset a ChunkChan, it can only be read once'')"

datatype reader = ByteArray byte_array | ImageReader image_reader | ChunkChan chunk_chan

fun reader_Next :: "nat \<Rightarrow> reader \<Rightarrow> (chunk \<times> reader) go" where
  "reader_Next n (ByteArray r) = (let (c, r) = ba_Next n r in Ret (c, ByteArray r))"
| "reader_Next n (ImageReader r) = go_bind (ir_Next n r) (\<lambda>(c, r). Ret (c, ImageReader r))"
| "reader_Next n (ChunkChan r) = (let (c, r) = ch_Next n r in Ret (c, ChunkChan r))"

fun reader_Len :: "reader \<Rightarrow> int go" where
  "reader_Len (ByteArray r) = Ret (int (length (ba_Bytes r)))"
| "reader_Len (ImageReader r) = ir_Len r"
| "reader_Len (ChunkChan r) = Ret (ch_length r)"

fun reader_Restart :: "reader \<Rightarrow> reader" where
  "reader_Restart (ByteArray r) = ByteArray (ba_Restart r)"
| "reader_Restart (ImageReader r) = ImageReader (ir_Restart r)"
| "reader_Restart (ChunkChan r) = ChunkChan r"

record bitmap = bm_Chunks :: "reader option"
  bm_Bands :: int
  bm_SizeX :: int
  bm_SizeY :: int
  bm_DType :: DType
  bm_BigEndian :: bool

definition NewBitmapHeader :: "bool \<Rightarrow> int \<Rightarrow> int \<Rightarrow> DType \<Rightarrow> int \<Rightarrow> bitmap" where
  "NewBitmapHeader native_big width height dtype bands =
     \<lparr>bm_Chunks = None, bm_Bands = bands, bm_SizeX = width, bm_SizeY = height, bm_DType = dtype, bm_BigEndian = native_big\<rparr>"

definition Bitmap_Len :: "bitmap \<Rightarrow> int go" where
  "Bitmap_Len b = (case bm_Chunks b of Some r \<Rightarrow> reader_Len r | None \<Rightarrow> Ret 0)"

text \<open>The deferred call is evaluated first: an image without a reader panics.\<close>

definition ReadAllBytes :: "bitmap \<Rightarrow> ((chunk \<times> bitmap)) go" where
  "ReadAllBytes b =
     (case bm_Chunks b of
        None \<Rightarrow> Panic ''runtime error: invalid memory address or nil pointer dereference''
      | Some r \<Rightarrow> go_bind (reader_Len r) (\<lambda>n. go_bind (reader_Next (nat n) r) (\<lambda>(c, r).
          Ret (c, b\<lparr>bm_Chunks := Some (reader_Restart r)\<rparr>))))"

text \<open>A dataset of GDAL: its structure and its lines.\<close>

record raster = ra_SizeX :: nat
  ra_SizeY :: nat
  ra_NBands :: nat
  ra_DataType :: GdalType
  ra_lines :: "nat \<Rightarrow> gerr + 8 word list"

definition NewStreamableBitmapFromDataset :: "bool \<Rightarrow> raster \<Rightarrow> gerr + bitmap" where
  "NewStreamableBitmapFromDataset native_big ds =
     (let dtype = DTypeFromGDal (ra_DataType ds); bands = ra_NBands ds
      in if bands < 1 then Inl (PlainE (''unsupported band count '' @ itoa (int bands)))
         else Inr ((NewBitmapHeader native_big (int (ra_SizeX ds)) (int (ra_SizeY ds)) dtype (int bands))\<lparr>bm_Chunks :=
           Some (ImageReader \<lparr>ir_lines = ra_lines ds, ir_buffer = empty_fifo, ir_xSize = ra_SizeX ds, ir_ySize = ra_SizeY ds,
             ir_bands = bands, ir_dtype = dtype, ir_yCur = 0\<rparr>)\<rparr>))"

text \<open>The copying constructors read all the lines at once; the size of an unknown type panics.\<close>

definition NewByteArray :: "raster \<Rightarrow> string \<Rightarrow> (gerr + byte_array) go" where
  "NewByteArray ds what =
     go_bind (DType_Size (DTypeFromGDal (ra_DataType ds))) (\<lambda>size.
       Ret (case ReadLines (ra_lines ds) 0 (ra_SizeY ds) of
              Inl e \<Rightarrow> Inl (WrapE (what @ ''.IO: '') e [])
            | Inr bytes \<Rightarrow> Inr \<lparr>ba_Bytes = bytes, ba_offset = 0\<rparr>))"

definition NewBitmapFromDataset :: "bool \<Rightarrow> raster \<Rightarrow> (gerr + bitmap) go" where
  "NewBitmapFromDataset native_big ds =
     (let dtype = DTypeFromGDal (ra_DataType ds); bands = ra_NBands ds
      in if bands < 1 then Ret (Inl (PlainE (''unsupported band count '' @ itoa (int bands))))
         else go_bind (NewByteArray ds (if bands = 1 then ''band'' else ''dataset'')) (\<lambda>r. Ret (case r of
             Inl e \<Rightarrow> Inl e
           | Inr ba \<Rightarrow> Inr ((NewBitmapHeader native_big (int (ra_SizeX ds)) (int (ra_SizeY ds)) dtype (int bands))\<lparr>bm_Chunks :=
               Some (ByteArray ba)\<rparr>))))"

end
