(* ===== verification/BitmapProps.thy ===== *)
theory BitmapProps
  imports Bitmap Rounding
begin

text \<open>
  The contract of the readers of chunks, kept by the array and by the reader of lines: chunk by chunk they
  give the bytes of the image, in order, each once.  The buffer of the reader of lines implements a queue.
\<close>

section \<open>The buffer is a queue\<close>

definition fifo_ok :: "fifo \<Rightarrow> bool" where
  "fifo_ok b \<longleftrightarrow> fb_pos b \<le> fb_len b \<and> fb_len b \<le> length (fb_mem b)"

definition fifo_content :: "fifo \<Rightarrow> 8 word list" where
  "fifo_content b = drop (fb_pos b) (take (fb_len b) (fb_mem b))"

lemma fifo_Len_content: "fifo_ok b \<Longrightarrow> fifo_Len b = length (fifo_content b)"
  by (simp add: fifo_ok_def fifo_content_def fifo_Len_def)

lemma fifo_Pop_content:
  assumes "fifo_ok b" "fifo_Pop n b = (bytes, b')"
  shows "bytes = take n (fifo_content b) \<and> fifo_content b' = drop n (fifo_content b) \<and> fifo_ok b'"
proof -
  define m where "m = min n (fifo_Len b)"
  have C: "fifo_content b = take (fb_len b - fb_pos b) (drop (fb_pos b) (fb_mem b))" by (simp add: fifo_content_def drop_take)
  have m: "m = min n (length (fifo_content b))" using fifo_Len_content [OF assms(1)] by (simp add: m_def)
  have b': "bytes = take m (drop (fb_pos b) (fb_mem b))" "b' = b\<lparr>fb_pos := fb_pos b + m\<rparr>"
    using assms(2) by (simp_all add: fifo_Pop_def m_def Let_def)
  have "bytes = take n (fifo_content b)" unfolding b'(1) C take_take m_def by (simp add: fifo_Len_def)
  moreover have "fifo_content b' = drop m (fifo_content b)" by (simp add: b'(2) fifo_content_def add.commute)
  moreover have "drop m (fifo_content b) = drop n (fifo_content b)" unfolding m by (cases "n \<le> length (fifo_content b)") simp_all
  moreover have "fifo_ok b'" using assms(1) by (auto simp: fifo_ok_def b'(2) m_def fifo_Len_def)
  ultimately show ?thesis by simp
qed

lemma fifo_Push_write_content:
  assumes "fifo_ok b" "fifo_Push (length bytes) b = (k, b')"
  shows "fifo_content (fifo_write k bytes b') = fifo_content b @ bytes \<and> fifo_ok (fifo_write k bytes b')"
proof -
  let ?old = "fifo_content b"
  have k: "k = length ?old" using assms(2) by (simp add: fifo_Push_def Let_def fifo_content_def)
  define mem where "mem = (if length (fb_mem b) < length bytes + length ?old then replicate (length bytes + length ?old) 0 else fb_mem b)"
  have mem: "fb_mem b' = ?old @ drop (length ?old) mem" "length bytes + length ?old \<le> length mem"
    "fb_len b' = length bytes + length ?old" "fb_pos b' = 0"
    using assms(2) unfolding fifo_Push_def Let_def fifo_content_def [symmetric] mem_def [symmetric] by (auto simp: mem_def)
  have w: "fb_mem (fifo_write k bytes b') = ?old @ bytes @ drop (length ?old + length bytes) mem"
    using mem(1,2) by (simp add: fifo_write_def k add.commute)
  have f: "fb_len (fifo_write k bytes b') = length bytes + length ?old" "fb_pos (fifo_write k bytes b') = 0"
    using mem(3,4) by (simp_all add: fifo_write_def)
  have "fifo_content (fifo_write k bytes b') = drop 0 (take (length bytes + length ?old) (?old @ bytes @ drop (length ?old + length bytes) mem))"
    by (subst fifo_content_def) (simp only: w f)
  then show ?thesis using f w mem(2) by (simp add: fifo_ok_def)
qed

section \<open>The contract of a reader\<close>

text \<open>The chunks that \<open>k\<close> calls of \<open>Next\<close> give.\<close>

fun next_chunks :: "(nat \<Rightarrow> 's \<Rightarrow> (chunk \<times> 's) go) \<Rightarrow> nat \<Rightarrow> nat \<Rightarrow> 's \<Rightarrow> (chunk list \<times> 's) go" where
  "next_chunks next n 0 s = Ret ([], s)"
| "next_chunks next n (Suc k) s =
     go_bind (next n s) (\<lambda>(c, s). go_bind (next_chunks next n k s) (\<lambda>(cs, s). Ret (c # cs, s)))"

fun cut :: "nat \<Rightarrow> nat \<Rightarrow> 'a list \<Rightarrow> 'a list list" where
  "cut n 0 xs = []"
| "cut n (Suc k) xs = take n xs # cut n k (drop n xs)"

lemma concat_cut: "concat (cut n k xs) = take (n * k) xs"
  by (induction k arbitrary: xs) (simp_all add: take_add)

lemma cut_sizes: "c \<in> set (cut n k xs) \<Longrightarrow> length c \<le> n"
  by (induction k arbitrary: xs) auto

text \<open>A reader with the bytes \<open>rest s\<close> left gives the next ones, as many as asked for while there are some.\<close>

locale chunk_reader =
  fixes nxt :: "nat \<Rightarrow> 's \<Rightarrow> (chunk \<times> 's) go"
    and rest :: "'s \<Rightarrow> 8 word list"
    and ok :: "'s \<Rightarrow> bool"
  assumes at_end: "ok s \<Longrightarrow> rest s = [] \<Longrightarrow> nxt n s = Ret (EOF, s)"
    and more: "ok s \<Longrightarrow> rest s \<noteq> [] \<Longrightarrow> 0 < n \<Longrightarrow> n \<le> 2 ^ 52 \<Longrightarrow>
      \<exists>s'. nxt n s = Ret (Chunk (take n (rest s)), s') \<and> ok s' \<and> rest s' = drop n (rest s)"
begin

lemma chunks_of_rest:
  assumes "ok s" "0 < n" "n \<le> 2 ^ 52" "n * k < length (rest s) + n"
  shows "\<exists>s'. next_chunks nxt n k s = Ret (map Chunk (cut n k (rest s)), s') \<and> ok s' \<and> rest s' = drop (n * k) (rest s)"
  using assms
proof (induction k arbitrary: s)
  case (Suc k)
  then have "rest s \<noteq> []" by auto
  with more [OF Suc.prems(1)] Suc.prems obtain s1 where s1: "nxt n s = Ret (Chunk (take n (rest s)), s1)" "ok s1" "rest s1 = drop n (rest s)"
    by blast
  have "n * k < length (rest s1) + n" using Suc.prems(2,4) s1(3) by (cases "n \<le> length (rest s)"; cases k) auto
  from Suc.IH [OF s1(2) Suc.prems(2,3) this] obtain s2 where
    "next_chunks nxt n k s1 = Ret (map Chunk (cut n k (rest s1)), s2)" "ok s2" "rest s2 = drop (n * k) (rest s1)" by blast
  then show ?case using s1 by (simp add: add.commute)
qed simp

text \<open>With as many calls as there are chunks, rounded up, the reader has given everything.\<close>

lemma whole_stream:
  assumes "ok s" "0 < n" "n \<le> 2 ^ 52" "k = (length (rest s) + n - 1) div n"
  shows "\<exists>s'. next_chunks nxt n k s = Ret (map Chunk (cut n k (rest s)), s') \<and> concat (cut n k (rest s)) = rest s \<and>
    nxt n s' = Ret (EOF, s')"
proof -
  have "n * k \<le> length (rest s) + n - 1" unfolding assms(4) by (rule times_div_less_eq_dividend)
  then have lt: "n * k < length (rest s) + n" using assms(2) by linarith
  have "length (rest s) + n - 1 < n * k + n" unfolding assms(4) using assms(2) by (metis add.commute dividend_less_times_div mult_Suc_right) 
  then have ge: "length (rest s) \<le> n * k" using assms(2) by linarith
  from chunks_of_rest [OF assms(1-3) lt] obtain s' where
    s': "next_chunks nxt n k s = Ret (map Chunk (cut n k (rest s)), s')" "ok s'" "rest s' = drop (n * k) (rest s)" by blast
  then show ?thesis using ge at_end [OF s'(2), of n] by (auto simp: concat_cut)
qed

end

section \<open>The readers\<close>

definition ba_rest :: "byte_array \<Rightarrow> 8 word list" where
  "ba_rest ba = drop (ba_offset ba) (ba_Bytes ba)"

interpretation ba: chunk_reader "\<lambda>n r. Ret (ba_Next n r)" ba_rest "\<lambda>_. True"
  by unfold_locales (auto simp: ba_rest_def ba_Next_def Let_def min_def add.commute)

definition ir_line :: "image_reader \<Rightarrow> nat \<Rightarrow> 8 word list" where
  "ir_line r y = (case ir_lines r y of Inr l \<Rightarrow> l | Inl e \<Rightarrow> [])"

definition ir_rest :: "image_reader \<Rightarrow> 8 word list" where
  "ir_rest r = fifo_content (ir_buffer r) @ concat (map (ir_line r) [ir_yCur r..<ir_ySize r])"

text \<open>The lines can be read and have the length that the structure of the dataset says.\<close>

definition ir_ok :: "image_reader \<Rightarrow> bool" where
  "ir_ok r \<longleftrightarrow> fifo_ok (ir_buffer r) \<and> (\<exists>sz. stride r = Ret (int sz) \<and> 0 < sz \<and> sz \<le> 2 ^ 53 \<and>
     (\<forall>y. ir_yCur r \<le> y \<and> y < ir_ySize r \<longrightarrow> ir_lines r y = Inr (ir_line r y) \<and> length (ir_line r y) = sz))"

lemma ReadLines_all:
  assumes "\<And>k. y \<le> k \<Longrightarrow> k < y + n \<Longrightarrow> lines k = Inr (l k)"
  shows "ReadLines lines y n = Inr (concat (map l [y..<y + n]))"
  using assms by (induction n arbitrary: y) (simp_all add: upt_conv_Cons del: upt_Suc)

lemma f_le_0_cases: "f_le x (Fin 0) \<Longrightarrow> x = NegInf \<or> (\<exists>q. x = Fin q \<and> q \<le> 0)"
  by (cases x) (auto simp: f_le_def)

lemma round64_nonpos: "q \<le> 0 \<Longrightarrow> f_le (round64 q) (Fin 0)"
  using round64_mono [of q 0] by (simp add: round64_def)

lemma f_div_nonpos: "f_le x (Fin 0) \<Longrightarrow> 0 < s \<Longrightarrow> f_le (f_div x (Fin s)) (Fin 0)"
  using f_le_0_cases [of x] by (auto intro!: round64_nonpos simp: divide_nonpos_pos signed_inf_def)

lemma no_line_wanted:
  assumes "n \<le> fifo_Len (ir_buffer r)" "0 < sz" "sz \<le> 2 ^ 53" "ir_yCur r < ir_ySize r"
  shows "line_count n (int sz) r \<le> 0"
proof -
  have sz: "int_float (int sz) = Fin (of_nat sz)"
    using round64_int [of "int sz"] assms(3) by (simp add: int_float_def)
  define x where "x = int_float (int n - int (fifo_Len (ir_buffer r)))"
  have "f_le x (Fin 0)" unfolding x_def int_float_def using assms(1) by (intro round64_nonpos) simp
  then have "f_le (f_div x (Fin (of_nat sz))) (Fin 0)" using assms(2) by (intro f_div_nonpos) simp_all
  then have "float_int (f_ceil (f_div x (Fin (of_nat sz)))) \<le> 0"
    by (auto dest!: f_le_0_cases simp: Let_def FloatText.truncate_def)
  then show ?thesis using assms(4) by (simp add: line_count_def Let_def x_def sz)
qed

lemma lines_wanted:
  assumes "fifo_Len (ir_buffer r) < n" "n \<le> 2 ^ 52" "0 < sz" "sz \<le> 2 ^ 53" "ir_yCur r < ir_ySize r"
  shows "\<exists>m. line_count n (int sz) r = int m \<and> 0 < m \<and> ir_yCur r + m \<le> ir_ySize r \<and>
    (ir_yCur r + m < ir_ySize r \<longrightarrow> n \<le> fifo_Len (ir_buffer r) + m * sz)"
proof -
  define a where "a = int n - int (fifo_Len (ir_buffer r))"
  have a: "0 < a" "a \<le> 2 ^ 52" using assms(1,2) by (simp_all add: a_def)
  have sz: "int_float (int sz) = Fin (of_int (int sz))" "0 < int sz" "int sz \<le> 2 ^ 53"
    using round64_int [of "int sz"] assms(3,4) by (simp_all add: int_float_def)
  have fa: "int_float a = Fin (of_int a)" using a by (simp add: int_float_def round64_int)
  define c where "c = \<lceil>of_int a / (of_int (int sz) :: rat)\<rceil>"
  obtain q where q: "round64 (of_int a / of_int (int sz)) = Fin q" "\<lceil>q\<rceil> = c"
    using ceiling_of_rounded [OF a sz(2,3)] by (auto simp: c_def)
  have c0: "0 < c" using a(1) sz(2) by (simp add: c_def)
  have "of_int a * 1 \<le> of_int a * (of_int (int sz) :: rat)" using a(1) sz(2) by (intro mult_left_mono) simp_all
  then have "of_int a / of_int (int sz) \<le> (of_int a :: rat)" using sz(2) by (simp add: pos_divide_le_eq)
  then have ca: "c \<le> a" unfolding c_def by (simp only: ceiling_le_iff)
  have "of_int a / of_int (int sz) \<le> (of_int c :: rat)" unfolding c_def by (rule le_of_int_ceiling)
  then have "(of_int a :: rat) \<le> of_int (c * int sz)" using sz(2) by (simp add: pos_divide_le_eq)
  then have fill: "a \<le> c * int sz" by (simp only: of_int_le_iff)
  have "float_int (Fin (of_int c)) = c" using c0 ca a(2) by (intro float_int_id) simp_all
  moreover have "f_div (int_float a) (int_float (int sz)) = Fin q"
    using sz(2) by (simp only: fa sz(1) f_div.simps q(1) of_int_eq_0_iff if_False less_imp_neq [symmetric])
  ultimately have "float_int (f_ceil (f_div (int_float a) (int_float (int sz)))) = c" by (simp only: f_ceil.simps q(2))
  then have lc: "line_count n (int sz) r = (if int (ir_yCur r) + c > int (ir_ySize r) then int (ir_ySize r) - int (ir_yCur r) else c)"
    by (simp only: line_count_def Let_def a_def [symmetric])
  show ?thesis
  proof (intro exI [of _ "nat (line_count n (int sz) r)"] conjI impI)
    show "n \<le> fifo_Len (ir_buffer r) + nat (line_count n (int sz) r) * sz"
      if "ir_yCur r + nat (line_count n (int sz) r) < ir_ySize r"
    proof -
      have "line_count n (int sz) r = c" using that c0 by (auto simp: lc split: if_splits)
      then have "int n \<le> int (fifo_Len (ir_buffer r)) + int (nat (line_count n (int sz) r) * sz)" using fill c0 by (simp add: a_def)
      then show ?thesis by linarith
    qed
  qed (use c0 assms(5) in \<open>auto simp: lc\<close>)
qed

lemma ir_Pop_rest:
  assumes "fifo_ok (ir_buffer r)" "ir_Pop n r = (c, r')"
  shows "c = Chunk (take n (fifo_content (ir_buffer r))) \<and> r' = r\<lparr>ir_buffer := ir_buffer r'\<rparr> \<and>
    fifo_content (ir_buffer r') = drop n (fifo_content (ir_buffer r)) \<and> fifo_ok (ir_buffer r')"
proof -
  obtain bytes b where b: "fifo_Pop n (ir_buffer r) = (bytes, b)" by (metis surj_pair)
  show ?thesis using assms(2) fifo_Pop_content [OF assms(1) b] by (auto simp: ir_Pop_def b)
qed

text \<open>Popping a chunk from a buffer that holds enough of it, or everything that is left.\<close>

lemma ir_Pop_more:
  assumes "ir_ok r" "n \<le> length (fifo_content (ir_buffer r)) \<or> ir_ySize r \<le> ir_yCur r"
  shows "\<exists>r'. ir_Pop n r = (Chunk (take n (ir_rest r)), r') \<and> ir_ok r' \<and> ir_rest r' = drop n (ir_rest r)"
proof -
  obtain c r' where p: "ir_Pop n r = (c, r')" by (metis surj_pair)
  have ok: "fifo_ok (ir_buffer r)" using assms(1) by (simp add: ir_ok_def)
  note q = ir_Pop_rest [OF ok p]
  obtain b where r': "r' = r\<lparr>ir_buffer := b\<rparr>" "b = ir_buffer r'" using q by blast
  have line: "ir_line (r\<lparr>ir_buffer := b\<rparr>) = ir_line r" "stride (r\<lparr>ir_buffer := b\<rparr>) = stride r" for b
    by (simp_all add: fun_eq_iff ir_line_def stride_def)
  have "ir_ok r'" using assms(1) q unfolding ir_ok_def r'(1) line by simp
  moreover have "ir_rest r' = drop n (ir_rest r)" "take n (ir_rest r) = take n (fifo_content (ir_buffer r))"
    using assms(2) q unfolding ir_rest_def r'(1) line by auto
  ultimately show ?thesis using p q by auto
qed

lemma ir_read_lines:
  assumes "ir_ok r" "stride r = Ret (int sz)" "0 < m" "ir_yCur r + m \<le> ir_ySize r" "fifo_Push (m * sz) (ir_buffer r) = (k, b)"
  defines "bytes \<equiv> concat (map (ir_line r) [ir_yCur r..<ir_yCur r + m])"
  defines "r1 \<equiv> r\<lparr>ir_buffer := fifo_write k bytes b, ir_yCur := ir_yCur r + m\<rparr>"
  shows "ReadLines (ir_lines r) (ir_yCur r) m = Inr bytes" "ir_ok r1" "ir_rest r1 = ir_rest r"
    "length (fifo_content (ir_buffer r1)) = length (fifo_content (ir_buffer r)) + m * sz"
proof -
  have lines: "ir_lines r y = Inr (ir_line r y)" "length (ir_line r y) = sz" if "ir_yCur r \<le> y" "y < ir_ySize r" for y
    using assms(1,2) that by (auto simp: ir_ok_def)
  show "ReadLines (ir_lines r) (ir_yCur r) m = Inr bytes"
    unfolding bytes_def by (rule ReadLines_all) (use lines assms(4) in auto)
  have "length bytes = (\<Sum>y\<leftarrow>[ir_yCur r..<ir_yCur r + m]. sz)"
    unfolding bytes_def length_concat map_map o_def by (rule arg_cong [where f = sum_list]) (use lines assms(4) in auto)
  then have len: "length bytes = m * sz" by (simp add: sum_list_triv)
  have ok: "fifo_ok (ir_buffer r)" using assms(1) by (simp add: ir_ok_def)
  have w: "fifo_content (ir_buffer r1) = fifo_content (ir_buffer r) @ bytes" "fifo_ok (ir_buffer r1)"
    using fifo_Push_write_content [OF ok, of bytes k b] assms(5) by (simp_all add: r1_def len)
  have line: "ir_line r1 = ir_line r" "stride r1 = stride r" by (simp_all add: fun_eq_iff ir_line_def stride_def r1_def)
  show "ir_ok r1" using assms(1) w(2) unfolding ir_ok_def line by (auto simp: r1_def)
  have "[ir_yCur r..<ir_ySize r] = [ir_yCur r..<ir_yCur r + m] @ [ir_yCur r + m..<ir_ySize r]"
    using upt_add_eq_append [of "ir_yCur r" "ir_yCur r + m" "ir_ySize r - (ir_yCur r + m)"] assms(4) by simp
  then show "ir_rest r1 = ir_rest r" unfolding ir_rest_def line w(1) by (simp add: r1_def bytes_def)
  show "length (fifo_content (ir_buffer r1)) = length (fifo_content (ir_buffer r)) + m * sz" by (simp add: w(1) len)
qed

lemma ir_Next_more:
  assumes "ir_ok r" "ir_rest r \<noteq> []" "0 < n" "n \<le> 2 ^ 52"
  shows "\<exists>r'. ir_Next n r = Ret (Chunk (take n (ir_rest r)), r') \<and> ir_ok r' \<and> ir_rest r' = drop n (ir_rest r)"
proof (cases "ir_ySize r \<le> ir_yCur r")
  case True
  then have "fifo_Len (ir_buffer r) \<noteq> 0" using assms(1,2) by (auto simp: ir_rest_def fifo_Len_content ir_ok_def)
  then show ?thesis using ir_Pop_more [OF assms(1), of n] True by (auto simp: ir_Next_def)
next
  case False
  then have y: "ir_yCur r < ir_ySize r" by simp
  obtain sz where sz: "stride r = Ret (int sz)" "0 < sz" "sz \<le> 2 ^ 53" "fifo_ok (ir_buffer r)" using assms(1) by (auto simp: ir_ok_def)
  note len = fifo_Len_content [OF sz(4)]
  show ?thesis
  proof (cases "n \<le> fifo_Len (ir_buffer r)")
    case True
    then show ?thesis using ir_Pop_more [OF assms(1), of n] no_line_wanted [OF True sz(2,3) y] False sz(1) len
      by (auto simp: ir_Next_def Let_def)
  next
    case False
    then obtain m where m: "line_count n (int sz) r = int m" "0 < m" "ir_yCur r + m \<le> ir_ySize r"
      "ir_yCur r + m < ir_ySize r \<longrightarrow> n \<le> fifo_Len (ir_buffer r) + m * sz"
      using lines_wanted [of r n sz] assms(4) sz(2,3) y by (auto simp: not_le)
    obtain k b where kb: "fifo_Push (m * sz) (ir_buffer r) = (k, b)" by (metis surj_pair)
    note read = ir_read_lines [OF assms(1) sz(1) m(2,3) kb]
    let ?r = "r\<lparr>ir_buffer := fifo_write k (concat (map (ir_line r) [ir_yCur r..<ir_yCur r + m])) b, ir_yCur := ir_yCur r + m\<rparr>"
    have "nat (int m * int sz) = m * sz" by (simp flip: of_nat_mult)
    then have run: "ir_Next n r = Ret (ir_Pop n ?r)" using y sz(1) m(1,2) kb read(1) by (simp add: ir_Next_def Let_def)
    have "n \<le> length (fifo_content (ir_buffer ?r)) \<or> ir_ySize ?r \<le> ir_yCur ?r"
      using read(4) m(3,4) len by (cases "ir_yCur r + m < ir_ySize r") auto
    from ir_Pop_more [OF read(2) this] show ?thesis unfolding run read(3) by simp
  qed
qed

lemma ir_Next_end:
  assumes "ir_ok r" "ir_rest r = []"
  shows "ir_Next n r = Ret (EOF, r)"
proof -
  obtain sz where sz: "0 < sz" "\<forall>y. ir_yCur r \<le> y \<and> y < ir_ySize r \<longrightarrow> length (ir_line r y) = sz" "fifo_ok (ir_buffer r)"
    using assms(1) by (auto simp: ir_ok_def)
  have "ir_ySize r \<le> ir_yCur r"
  proof (rule ccontr)
    assume "\<not> ir_ySize r \<le> ir_yCur r"
    then have "ir_yCur r \<in> set [ir_yCur r..<ir_ySize r]" "length (ir_line r (ir_yCur r)) = sz" using sz(2) by auto
    with assms(2) sz(1) show False by (auto simp: ir_rest_def)
  qed
  with assms(2) show ?thesis by (simp add: ir_Next_def fifo_Len_content [OF sz(3)] ir_rest_def)
qed

interpretation ir: chunk_reader ir_Next ir_rest ir_ok
  by unfold_locales (simp_all add: ir_Next_end ir_Next_more)

text \<open>C37: An image is streamed exactly.  For a dataset of GDAL with at least one band and column, of a known type,
  whose lines can be read, the bitmap made for streaming gives, chunk by chunk and for every size of the chunks up to
  2^52 bytes, the bytes of the lines in order, each once: as many calls of Next as the length of the image needs,
  rounded up, give all of them, no chunk longer than asked for, and the next call answers the end of the file.\<close>

theorem images_stream_exactly:
  assumes "NewStreamableBitmapFromDataset big ds = Inr b" "bm_Chunks b = Some (ImageReader r)"
    and "DType_Size (bm_DType b) = Ret sz" "0 < ra_SizeX ds" "int (ra_NBands ds) * int (ra_SizeX ds) * sz \<le> 2 ^ 53"
    and "\<And>y. y < ra_SizeY ds \<Longrightarrow> ra_lines ds y = Inr (line y) \<and> int (length (line y)) = int (ra_NBands ds) * int (ra_SizeX ds) * sz"
    and "0 < n" "n \<le> 2 ^ 52"
  shows "\<exists>chunks r'. next_chunks ir_Next n ((length (concat (map line [0..<ra_SizeY ds])) + n - 1) div n) r = Ret (map Chunk chunks, r') \<and>
    concat chunks = concat (map line [0..<ra_SizeY ds]) \<and> (\<forall>c \<in> set chunks. length c \<le> n) \<and> ir_Next n r' = Ret (EOF, r')"
proof -
  have b: "0 < ra_NBands ds" "bm_DType b = DTypeFromGDal (ra_DataType ds)"
    "r = \<lparr>ir_lines = ra_lines ds, ir_buffer = empty_fifo, ir_xSize = ra_SizeX ds, ir_ySize = ra_SizeY ds,
      ir_bands = ra_NBands ds, ir_dtype = DTypeFromGDal (ra_DataType ds), ir_yCur = 0\<rparr>"
    using assms(1,2) by (auto simp: NewStreamableBitmapFromDataset_def Let_def NewBitmapHeader_def split: if_splits)
  have sz: "0 < sz" using assms(3) by (cases "bm_DType b") auto
  define w where "w = nat (int (ra_NBands ds) * int (ra_SizeX ds) * sz)"
  have w: "int w = int (ra_NBands ds) * int (ra_SizeX ds) * sz" "0 < w" using sz b(1) assms(4) by (simp_all add: w_def)
  have lines: "ir_line r y = line y" if "y < ra_SizeY ds" for y using assms(6) [OF that] by (simp add: ir_line_def b(3))
  have ok: "ir_ok r"
    unfolding ir_ok_def
  proof (intro conjI exI [of _ w] allI impI)
    show "stride r = Ret (int w)" using assms(3) w(1) by (simp add: stride_def b(2,3))
    have "int w \<le> int (2 ^ 53)" using assms(5) w(1) by (simp only: of_nat_power of_nat_numeral)
    then show "w \<le> 2 ^ 53" by (simp only: of_nat_le_iff)
    fix y assume "ir_yCur r \<le> y \<and> y < ir_ySize r"
    then have y: "y < ra_SizeY ds" by (simp add: b(3))
    then show "ir_lines r y = Inr (ir_line r y)" using assms(6) lines by (simp add: b(3))
    show "length (ir_line r y) = w" using assms(6) [OF y] lines [OF y] w(1) by simp
  qed (use w(2) in \<open>simp_all add: fifo_ok_def empty_fifo_def b(3)\<close>)
  have "map (ir_line r) [0..<ra_SizeY ds] = map line [0..<ra_SizeY ds]" using lines by (intro map_cong) simp_all
  moreover have "ir_yCur r = 0" "ir_ySize r = ra_SizeY ds" "fifo_content (ir_buffer r) = []"
    by (simp_all add: b(3) fifo_content_def empty_fifo_def)
  ultimately have rest: "ir_rest r = concat (map line [0..<ra_SizeY ds])" by (simp only: ir_rest_def append_Nil)
  from ir.whole_stream [OF ok assms(7,8) refl] obtain r' where
    "next_chunks ir_Next n ((length (ir_rest r) + n - 1) div n) r = Ret (map Chunk (cut n ((length (ir_rest r) + n - 1) div n) (ir_rest r)), r')"
    "concat (cut n ((length (ir_rest r) + n - 1) div n) (ir_rest r)) = ir_rest r" "ir_Next n r' = Ret (EOF, r')" by blast
  then show ?thesis using cut_sizes unfolding rest by blast
qed

definition sample_raster :: raster where
  "sample_raster = \<lparr>ra_SizeX = 3, ra_SizeY = 2, ra_NBands = 1, ra_DataType = GdalByte,
     ra_lines = (\<lambda>y. Inr [of_nat (3 * y), of_nat (3 * y + 1), of_nat (3 * y + 2)])\<rparr>"

lemma images_stream_exactly_witness:
  "\<exists>r chunks r'. NewStreamableBitmapFromDataset False sample_raster =
       Inr (NewBitmapHeader False 3 2 DTypeUINT8 1\<lparr>bm_Chunks := Some (ImageReader r)\<rparr>) \<and>
     next_chunks ir_Next 4 2 r = Ret (map Chunk chunks, r') \<and> concat chunks = [0, 1, 2, 3, 4, 5]"
proof -
  let ?line = "\<lambda>y. [of_nat (3 * y), of_nat (3 * y + 1), of_nat (3 * y + 2)] :: 8 word list"
  let ?r = "\<lparr>ir_lines = ra_lines sample_raster, ir_buffer = empty_fifo, ir_xSize = 3, ir_ySize = 2, ir_bands = 1, ir_dtype = DTypeUINT8, ir_yCur = 0\<rparr>"
  let ?b = "NewBitmapHeader False 3 2 DTypeUINT8 1\<lparr>bm_Chunks := Some (ImageReader ?r)\<rparr>"
  have b: "NewStreamableBitmapFromDataset False sample_raster = Inr ?b"
    by (simp add: NewStreamableBitmapFromDataset_def sample_raster_def)
  have c: "bm_Chunks ?b = Some (ImageReader ?r)" by simp
  have d: "DType_Size (bm_DType ?b) = Ret 1" by (simp add: NewBitmapHeader_def)
  have l: "ra_lines sample_raster y = Inr (?line y) \<and> int (length (?line y)) = int (ra_NBands sample_raster) * int (ra_SizeX sample_raster) * 1" for y
    by (simp add: sample_raster_def)
  have s: "0 < ra_SizeX sample_raster" "int (ra_NBands sample_raster) * int (ra_SizeX sample_raster) * 1 \<le> 2 ^ 53" "(0 :: nat) < 4" "(4 :: nat) \<le> 2 ^ 52"
    by (simp_all add: sample_raster_def)
  have ls: "concat (map ?line [0..<ra_SizeY sample_raster]) = [0, 1, 2, 3, 4, 5]" by (simp add: sample_raster_def numeral_2_eq_2)
  have "\<exists>chunks r'. next_chunks ir_Next 4 2 ?r = Ret (map Chunk chunks, r') \<and> concat chunks = [0, 1, 2, 3, 4, 5]"
    using images_stream_exactly [where line = ?line, OF b c d s(1,2) l s(3,4)] unfolding ls by auto
  then show ?thesis using b by blast
qed

end
