(* ===== verification/Catalog.thy ===== *)
theory Catalog
  imports ServiceApi Records Bitmap Storage
begin

text \<open>
  The catalogue: internal/svc/catalog.go and internal/svc/predownload.go.  The datasets that meet a request are
  grouped by record, then by the groups of the request, merged by workers and streamed in order.  PROJ, GDAL and the
  processing of images are parameters (\<open>imaging\<close>); the tables hold the identifier and the time of a record, so
  the rest of its row is the parameter \<open>im_record\<close>.  A stream of slices is the list of what it yields.
\<close>

section \<open>Data\<close>

record im_Dataset = im_URI :: string
  im_SubDir :: string
  im_Bands :: "int list"
  im_DataMapping :: DataMapping

type_synonym SliceMeta = "im_Dataset list"

record GetCubeOptions = go_Format :: string
  go_HeadersOnly :: bool
  go_Resampling :: Resampling
  go_Predownload :: bool
  go_FilterPartialImagePc :: int

record CubeSlice = cu_Image :: "bitmap option"
  cu_Err :: "gerr option"
  cu_Records :: "Record list"
  cu_Metadata :: Metadata
  cu_DatasetsMeta :: SliceMeta

record CubeInfo = ci_NbImages :: int
  ci_NbDatasets :: int
  ci_Resampling :: Resampling
  ci_RefDataFormat :: DataFormat

record descriptor = de_WktCRS :: string
  de_PixToCRS :: Affine
  de_Width :: int
  de_Height :: int
  de_Bands :: int
  de_Resampling :: Resampling
  de_DataMapping :: DataMapping
  de_ValidPixPc :: int
  de_Format :: string
  de_Palette :: "Palette option"

record ('crs, 'ring, 'img) imaging =
  im_record :: "string \<Rightarrow> gtime \<Rightarrow> Record"
  im_WKT :: "'crs \<Rightarrow> gerr + string"
  im_ring :: "Affine \<Rightarrow> int \<Rightarrow> int \<Rightarrow> 'crs \<Rightarrow> gerr + 'ring"
  im_ReadPalette :: "string \<Rightarrow> gerr + Palette"
  im_merge :: "SliceMeta \<Rightarrow> descriptor \<Rightarrow> gerr + 'img"
  im_tiff :: "'img \<Rightarrow> DataMapping \<Rightarrow> Metadata \<Rightarrow> gerr + 8 word list"
  im_raster :: "'img \<Rightarrow> raster"
  im_png :: "'img \<Rightarrow> DataMapping \<Rightarrow> Palette option \<Rightarrow> gerr + 8 word list"
  im_big :: bool
  im_ramSize :: int
  im_cubeWorkers :: int
  im_elapsed :: "nat \<Rightarrow> string"
  im_3857 :: "gerr + 'crs"
  im_lonlat3857 :: "gerr + (float64 \<times> float64)"
  im_SemiMajor :: "gerr + float64"

section \<open>Protobuf\<close>

record pb_InternalMeta = pm_ContainerUri :: string
  pm_ContainerSubdir :: string
  pm_Bands :: "int list"
  pm_Dformat :: "pb_DataFormat option"
  pm_RangeMin :: float64
  pm_RangeMax :: float64
  pm_Exponent :: float64

definition internal_meta :: "im_Dataset \<Rightarrow> pb_InternalMeta" where
  "internal_meta d =
     \<lparr>pm_ContainerUri = im_URI d, pm_ContainerSubdir = im_SubDir d, pm_Bands = im_Bands d,
      pm_Dformat = Some (DataFormat_ToProtobuf (dm_DataFormat (im_DataMapping d))),
      pm_RangeMin = r_Min (dm_RangeExt (im_DataMapping d)), pm_RangeMax = r_Max (dm_RangeExt (im_DataMapping d)),
      pm_Exponent = dm_Exponent (im_DataMapping d)\<rparr>"

definition SliceMeta_ToProtobuf :: "SliceMeta \<Rightarrow> pb_InternalMeta list" where
  "SliceMeta_ToProtobuf = map internal_meta"

definition NewSliceMetaFromProtobuf :: "pb_InternalMeta list \<Rightarrow> SliceMeta" where
  "NewSliceMetaFromProtobuf =
     map (\<lambda>m. \<lparr>im_URI = pm_ContainerUri m, im_SubDir = pm_ContainerSubdir m, im_Bands = pm_Bands m,
       im_DataMapping = \<lparr>dm_DataFormat = NewDataFormatFromProtobuf (pm_Dformat m),
         dm_RangeExt = \<lparr>r_Min = pm_RangeMin m, r_Max = pm_RangeMax m\<rparr>, dm_Exponent = pm_Exponent m\<rparr>\<rparr>)"

section \<open>Groups\<close>

text \<open>The query keeps the active datasets that meet the filters on tags, times and geometry (\<open>matches\<close>), ordered by
  the time and the identifier of their records.\<close>

definition cat_FindDatasets :: "(db \<Rightarrow> Dataset \<Rightarrow> bool) \<Rightarrow> string list \<Rightarrow> string list \<Rightarrow> Dataset list pg_op" where
  "cat_FindDatasets matches instances records d =
     (Inr (filter (matches d) (findDatasets [DatasetStatusACTIVE] [] [] instances records True d)), d)"

definition slice_dataset :: "Dataset \<Rightarrow> im_Dataset" where
  "slice_dataset d =
     \<lparr>im_URI = d_ContainerURI d, im_SubDir = d_ContainerSubDir d, im_Bands = d_Bands d, im_DataMapping = d_DataMapping d\<rparr>"

function record_runs :: "Dataset list \<Rightarrow> (string \<times> SliceMeta) list" where
  "record_runs [] = []"
| "record_runs (d # ds) =
     (d_RecordID d, map slice_dataset (d # takeWhile (\<lambda>x. d_RecordID x = d_RecordID d) ds)) #
     record_runs (dropWhile (\<lambda>x. d_RecordID x = d_RecordID d) ds)"
  by pat_completeness auto

termination by (relation "measure length") (auto simp: less_Suc_eq_le length_dropWhile_le)

definition cat_ReadRecords :: "('crs, 'ring, 'img) imaging \<Rightarrow> string list \<Rightarrow> Record list pg_op" where
  "cat_ReadRecords C ids d =
     (case pg_ReadRecords ids d of (Inl e, d) \<Rightarrow> (Inl e, d) | (Inr rs, d) \<Rightarrow>
        (Inr (map (\<lambda>(i, t). (im_record C i t)\<lparr>rec_ID := i, rec_Time := t\<rparr>) rs), d))"

definition groupDatasetsByRecord ::
  "env \<Rightarrow> ('crs, 'ring, 'img) imaging \<Rightarrow> Dataset list \<Rightarrow> (SliceMeta list \<times> Record list) act" where
  "groupDatasetsByRecord E C datasets =
     (let runs = record_runs datasets
      in seq (dbx E (cat_ReadRecords C (map fst runs))) (\<lambda>records. ok (map snd runs, records)))"

text \<open>A group keeps the records that were found; a group without any is dropped.\<close>

definition record_index :: "Record list \<Rightarrow> (string \<times> nat) list" where
  "record_index records = rev (map (\<lambda>i. (rec_ID (records ! i), i)) [0..<length records])"

fun groupDatasetsByRecordsGroup ::
  "SliceMeta list \<Rightarrow> Record list \<Rightarrow> (string \<times> nat) list \<Rightarrow> string list list \<Rightarrow> SliceMeta list \<times> Record list list" where
  "groupDatasetsByRecordsGroup ds records idx [] = ([], [])"
| "groupDatasetsByRecordsGroup ds records idx (g # gs) =
     (let found = List.map_filter (map_of idx) g; (dss, rss) = groupDatasetsByRecordsGroup ds records idx gs
      in if found = [] then (dss, rss)
         else (concat (map (\<lambda>i. ds ! i) found) # dss, map (\<lambda>i. records ! i) found # rss))"

section \<open>Files downloaded before the merge\<close>

text \<open>The remote files in order of appearance, with the number of datasets that lie in each; a slice waits once for
  each of its files.\<close>

definition is_remote :: "string \<Rightarrow> bool" where
  "is_remote s = (case ParseUri s of Inl e \<Rightarrow> False | Inr u \<Rightarrow> u_protocol u \<noteq> ''file'')"

fun count_file :: "string \<Rightarrow> (string \<times> nat) list \<Rightarrow> (string \<times> nat) list" where
  "count_file s [] = [(s, 1)]"
| "count_file s ((t, n) # jobs) = (if s = t then (t, n + 1) # jobs else (t, n) # count_file s jobs)"

definition download_jobs :: "SliceMeta list \<Rightarrow> (string \<times> nat) list" where
  "download_jobs slices = fold (\<lambda>d. if is_remote (im_URI d) then count_file (im_URI d) else id) (concat slices) []"

definition availability :: "SliceMeta list \<Rightarrow> SliceMeta \<Rightarrow> string list" where
  "availability slices sl =
     filter (\<lambda>s. s \<in> set (map im_URI sl)) (map fst (download_jobs slices))"

text \<open>\<open>local\<close> gives the path of the copy of a file, \<open>None\<close> where the download failed; the datasets are redirected to the
  copy and the copy is acknowledged once.\<close>

definition WaitForAvailability :: "(string \<Rightarrow> string option) \<Rightarrow> string list \<Rightarrow> SliceMeta \<Rightarrow> string list \<times> SliceMeta" where
  "WaitForAvailability local files sl =
     (let got = filter (\<lambda>s. case local s of None \<Rightarrow> False | Some p \<Rightarrow> p \<noteq> s) files
      in (got, fold (\<lambda>s. map (\<lambda>d. if im_URI d = s then d\<lparr>im_URI := the (local s)\<rparr> else d)) got sl))"

text \<open>The copy is removed when it has been acknowledged as often as datasets lie in it.\<close>

definition copy_released :: "(string \<Rightarrow> string option) \<Rightarrow> SliceMeta list \<Rightarrow> string \<Rightarrow> bool" where
  "copy_released local slices s =
     (case map_of (download_jobs slices) s of
        None \<Rightarrow> False
      | Some n \<Rightarrow> n = length (filter (\<lambda>sl. s \<in> set (fst (WaitForAvailability local (availability slices sl) sl))) slices))"

section \<open>Merging\<close>

text \<open>The tags of the first record are the map that is changed: its own differing tags are lost, those of the others are
  kept under numbered keys.\<close>

definition common_tags :: "Record list \<Rightarrow> Metadata" where
  "common_tags records =
     filter (\<lambda>(k, t). list_all (\<lambda>r. map_of (rec_Tags r) k = Some t) (tl records)) (rec_Tags (hd records))"

fun other_tags :: "nat \<Rightarrow> Record list \<Rightarrow> Metadata \<Rightarrow> Metadata" where
  "other_tags i [] tags = tags"
| "other_tags i (r # rs) tags =
     other_tags (Suc i) rs (fold (\<lambda>(k, t) tags. if map_of tags k = None then AList.update (k @ ''.'' @ itoa (int i)) t tags else tags) (rec_Tags r) tags)"

definition mergeTags :: "Record list \<Rightarrow> (Metadata \<times> Record list) go" where
  "mergeTags records =
     (case records of
        [] \<Rightarrow> Panic ''runtime error: index out of range [0] with length 0''
      | r # rs \<Rightarrow> let tags = other_tags 1 rs (common_tags records) in Ret (tags, r\<lparr>rec_Tags := tags\<rparr> # rs))"

text \<open>One job of a worker: the files of the slice are awaited, its datasets merged, the image converted.\<close>

definition merge_job ::
  "('crs, 'ring, 'img) imaging \<Rightarrow> (string \<Rightarrow> string option) \<Rightarrow> string list \<Rightarrow> descriptor \<Rightarrow> nat \<Rightarrow> SliceMeta \<Rightarrow> Record list \<Rightarrow> CubeSlice go" where
  "merge_job C local files out i sl records =
     (let sl = (if files = [] then sl else snd (WaitForAvailability local files sl));
          waited = (if files = [] then [] else [(''WaitDownload '' @ itoa (int (length files)), im_elapsed C i)]);
          metadata = waited @ [(''Merge '' @ itoa (int (length sl)), im_elapsed C i)];
          answer = (\<lambda>image eo records. \<lparr>cu_Image = image, cu_Err = eo, cu_Records = records, cu_Metadata = metadata, cu_DatasetsMeta = sl\<rparr>)
      in case im_merge C sl out of
           Inl e \<Rightarrow> Ret (answer None (Some e) records)
         | Inr ds \<Rightarrow>
             if de_Format out = ''GTiff''
             then go_bind (mergeTags records) (\<lambda>(tags, records).
               let header = NewBitmapHeader (im_big C) (de_Width out) (de_Height out) (df_DType (dm_DataFormat (de_DataMapping out))) (de_Bands out)
               in Ret (case im_tiff C ds (de_DataMapping out) tags of
                    Inl e \<Rightarrow> answer (Some (header\<lparr>bm_Chunks := Some (ByteArray \<lparr>ba_Bytes = [], ba_offset = 0\<rparr>)\<rparr>)) (Some e) records
                  | Inr bytes \<Rightarrow> answer (Some (header\<lparr>bm_Chunks := Some (ByteArray \<lparr>ba_Bytes = bytes, ba_offset = 0\<rparr>)\<rparr>)) None records))
             else Ret (case NewStreamableBitmapFromDataset (im_big C) (im_raster C ds) of
                    Inl e \<Rightarrow> answer None (Some e) records
                  | Inr b \<Rightarrow> answer (Some b) None records))"

text \<open>The results are taken in the order of the jobs; \<open>stopped i\<close> tells that the context ends before the result \<open>i\<close>.\<close>

fun orderResults :: "(nat \<Rightarrow> bool) \<Rightarrow> nat \<Rightarrow> CubeSlice option list \<Rightarrow> CubeSlice list" where
  "orderResults stopped i [] = []"
| "orderResults stopped i (r # rs) =
     (if stopped i then []
      else case r of
             None \<Rightarrow> orderResults stopped (Suc i) rs
           | Some sl \<Rightarrow> if cu_Image sl \<noteq> None \<or> cu_Err sl \<noteq> None then sl # orderResults stopped (Suc i) rs
                           else orderResults stopped (Suc i) rs)"

definition truncated_quot :: "int \<Rightarrow> int \<Rightarrow> int" where
  "truncated_quot a b = sgn a * sgn b * (\<bar>a\<bar> div \<bar>b\<bar>)"

definition getNumberOfWorkers :: "int \<Rightarrow> int \<Rightarrow> int go" where
  "getNumberOfWorkers ramSize memoryUsageBytes =
     (if memoryUsageBytes = 0 then Panic ''runtime error: integer divide by zero''
      else Ret (MinI 10 (max 1 (truncated_quot ramSize memoryUsageBytes))))"

text \<open>The jobs are run by as many workers as the memory allows, at most as configured; without a worker the stream blocks.
  Each is a \<open>merge_job\<close>, run in order here; its datasets and records are its own (in the code two groups may share a
  record).  The context is not done here.\<close>

fun merge_jobs ::
  "('crs, 'ring, 'img) imaging \<Rightarrow> (string \<Rightarrow> string option) \<Rightarrow> (SliceMeta \<Rightarrow> string list) \<Rightarrow> descriptor \<Rightarrow> nat \<Rightarrow> SliceMeta list \<Rightarrow>
   Record list list \<Rightarrow> CubeSlice option list go" where
  "merge_jobs C local files out i [] rss = Ret []"
| "merge_jobs C local files out i (s # ss) [] = Panic ''runtime error: index out of range''"
| "merge_jobs C local files out i (s # ss) (rs # rss) =
     go_bind (merge_job C local (files s) out i s rs) (\<lambda>r. go_bind (merge_jobs C local files out (Suc i) ss rss) (\<lambda>l. Ret (Some r # l)))"

definition headers ::
  "('crs, 'ring, 'img) imaging \<Rightarrow> descriptor \<Rightarrow> SliceMeta list \<Rightarrow> Record list list \<Rightarrow> CubeSlice list go" where
  "headers C out slices grecords =
     (if length slices < length grecords then Panic ''runtime error: index out of range''
      else Ret (map (\<lambda>(s, rs). \<lparr>cu_Image = Some (NewBitmapHeader (im_big C) (de_Width out) (de_Height out) (df_DType (dm_DataFormat (de_DataMapping out))) (de_Bands out)),
               cu_Err = None, cu_Records = rs, cu_Metadata = [], cu_DatasetsMeta = s\<rparr>) (zip slices grecords)))"

definition getCubeStream ::
  "('crs, 'ring, 'img) imaging \<Rightarrow> (string \<Rightarrow> string option) \<Rightarrow> (nat \<Rightarrow> bool) \<Rightarrow> SliceMeta list \<Rightarrow> Record list list \<Rightarrow> descriptor \<Rightarrow>
   GetCubeOptions \<Rightarrow> CubeSlice list go" where
  "getCubeStream C local stopped slices grecords out options =
     (if go_HeadersOnly options then headers C out slices grecords
      else go_bind (DType_Size (df_DType (dm_DataFormat (de_DataMapping out)))) (\<lambda>size.
           go_bind (getNumberOfWorkers (im_ramSize C) (wrap64 (de_Height out * de_Width out * size * 10))) (\<lambda>n.
           if slices \<noteq> [] \<and> MinI (im_cubeWorkers C) n \<le> 0 then Panic ''blocked: no worker takes the jobs''
           else
           go_bind (merge_jobs C local (if go_Predownload options then availability slices else (\<lambda>_. [])) out 0 slices grecords) (\<lambda>rs.
             Ret (orderResults stopped 0 rs)))))"

section \<open>The cube\<close>

definition ref_mapping :: "DataFormat \<Rightarrow> DataMapping" where
  "ref_mapping df = \<lparr>dm_DataFormat = df, dm_RangeExt = df_Range df, dm_Exponent = Fin 1\<rparr>"

definition check_instances :: "string \<Rightarrow> Variable \<Rightarrow> string list \<Rightarrow> unit act" where
  "check_instances pre v instances =
     each (\<lambda>i. case CheckInstanceExists i v of None \<Rightarrow> ok () | Some e \<Rightarrow> fails (WrapE pre e [])) instances"

definition getCubePrepare ::
  "env \<Rightarrow> ('crs, 'ring, 'img) imaging \<Rightarrow> string list \<Rightarrow> 'crs \<Rightarrow> Affine \<Rightarrow> int \<Rightarrow> int \<Rightarrow> GetCubeOptions \<Rightarrow> (descriptor \<times> 'ring) act" where
  "getCubePrepare E C instances crs pixToCRS width height options =
     (case instances of
        [] \<Rightarrow> panics ''runtime error: index out of range [0] with length 0''
      | i0 # _ \<Rightarrow>
          seq (wrap ''getCubePrepare.'' (dbx E (pg_ReadVariableFromInstanceID i0))) (\<lambda>v.
          seq (check_instances ''getCubePrepare.'' v instances) (\<lambda>_.
          seq (wrap ''getCubePrepare.ToWKT: '' (lift_result (im_WKT C crs))) (\<lambda>wkt.
          seq (if v_Palette v = [] then ok None
               else seq (wrap ''getCubePrepare.'' (lift_result (im_ReadPalette C (v_Palette v)))) (\<lambda>p. ok (Some p))) (\<lambda>palette.
          seq (wrap ''getCubePrepare.'' (lift_result (im_ring C pixToCRS width height crs))) (\<lambda>ring.
            ok (\<lparr>de_WktCRS = wkt, de_PixToCRS = pixToCRS, de_Width = width, de_Height = height, de_Bands = int (length (v_Bands v)),
                 de_Resampling = (if go_Resampling options = ResamplingUNDEFINED then v_Resampling v else go_Resampling options),
                 de_DataMapping = ref_mapping (v_DFormat v), de_ValidPixPc = go_FilterPartialImagePc options,
                 de_Format = go_Format options, de_Palette = palette\<rparr>, ring)))))))"

definition cube_info :: "SliceMeta list \<Rightarrow> Dataset list \<Rightarrow> descriptor \<Rightarrow> CubeInfo" where
  "cube_info slices datasets out =
     \<lparr>ci_NbImages = int (length slices), ci_NbDatasets = int (length datasets), ci_Resampling = de_Resampling out,
      ci_RefDataFormat = dm_DataFormat (de_DataMapping out)\<rparr>"

text \<open>\<open>meets\<close> tells whether a dataset meets the ring of the request, \<open>tagged\<close> the tags and times of its filters.\<close>

definition GetCubeFromRecords ::
  "env \<Rightarrow> ('crs, 'ring, 'img) imaging \<Rightarrow> (string \<Rightarrow> string option) \<Rightarrow> (nat \<Rightarrow> bool) \<Rightarrow> ('ring \<Rightarrow> db \<Rightarrow> Dataset \<Rightarrow> bool) \<Rightarrow>
   string list list \<Rightarrow> string list \<Rightarrow> 'crs \<Rightarrow> Affine \<Rightarrow> int \<Rightarrow> int \<Rightarrow> GetCubeOptions \<Rightarrow> (CubeInfo \<times> CubeSlice list) act" where
  "GetCubeFromRecords E C local stopped meets grecordsID instances crs pixToCRS width height options =
     seq (getCubePrepare E C instances crs pixToCRS width height options) (\<lambda>(out, ring).
     seq (wrap ''GetCubeFromRecords.'' (dbx E (cat_FindDatasets (meets ring) instances (concat grecordsID)))) (\<lambda>datasets.
     seq (wrap ''GetCubeFromRecords.'' (groupDatasetsByRecord E C datasets)) (\<lambda>(slices, records).
       let (slices, grecords) = groupDatasetsByRecordsGroup slices records (record_index records) grecordsID
       in seq (lift_go (getCubeStream C local stopped slices grecords out options)) (\<lambda>stream.
            ok (cube_info slices datasets out, stream)))))"

definition GetCubeFromFilters ::
  "env \<Rightarrow> ('crs, 'ring, 'img) imaging \<Rightarrow> (string \<Rightarrow> string option) \<Rightarrow> (nat \<Rightarrow> bool) \<Rightarrow> ('ring \<Rightarrow> db \<Rightarrow> Dataset \<Rightarrow> bool) \<Rightarrow>
   string list \<Rightarrow> 'crs \<Rightarrow> Affine \<Rightarrow> int \<Rightarrow> int \<Rightarrow> GetCubeOptions \<Rightarrow> (CubeInfo \<times> CubeSlice list) act" where
  "GetCubeFromFilters E C local stopped matches instances crs pixToCRS width height options =
     seq (getCubePrepare E C instances crs pixToCRS width height options) (\<lambda>(out, ring).
     seq (wrap ''GetCubeFromFilters.'' (dbx E (cat_FindDatasets (matches ring) instances []))) (\<lambda>datasets.
     seq (wrap ''GetCubeFromFilters.'' (groupDatasetsByRecord E C datasets)) (\<lambda>(slices, records).
       seq (lift_go (getCubeStream C local stopped slices (map (\<lambda>r. [r]) records) out options)) (\<lambda>stream.
         ok (cube_info slices datasets out, stream)))))"

definition GetCubeFromMetadatas ::
  "('crs, 'ring, 'img) imaging \<Rightarrow> (string \<Rightarrow> string option) \<Rightarrow> (nat \<Rightarrow> bool) \<Rightarrow> SliceMeta list \<Rightarrow> Record list list \<Rightarrow> DataFormat \<Rightarrow>
   'crs \<Rightarrow> Affine \<Rightarrow> int \<Rightarrow> int \<Rightarrow> GetCubeOptions \<Rightarrow> (gerr + (CubeInfo \<times> CubeSlice list)) go" where
  "GetCubeFromMetadatas C local stopped metadatas grecords refDf crs pixToCRS width height options =
     (case metadatas of
        (d0 # _) # _ \<Rightarrow>
          let out = (\<lambda>wkt. \<lparr>de_WktCRS = wkt, de_PixToCRS = pixToCRS, de_Width = width, de_Height = height, de_Bands = int (length (im_Bands d0)),
                de_Resampling = go_Resampling options, de_DataMapping = ref_mapping refDf, de_ValidPixPc = go_FilterPartialImagePc options,
                de_Format = go_Format options, de_Palette = None\<rparr>)
          in (case im_WKT C crs of
                Inl e \<Rightarrow> Ret (Inl (WrapE ''getCubeFromMetadatas.ToWKT: '' e []))
              | Inr wkt \<Rightarrow> go_bind (getCubeStream C local stopped metadatas grecords (out wkt) options) (\<lambda>stream.
                  Ret (Inr (\<lparr>ci_NbImages = int (length metadatas), ci_NbDatasets = int (length (concat metadatas)),
                    ci_Resampling = ResamplingUNDEFINED, ci_RefDataFormat = NewDataFormatFromProtobuf None\<rparr>, stream))))
      | _ \<Rightarrow> Panic ''runtime error: index out of range [0] with length 0'')"

definition ListDatasets ::
  "env \<Rightarrow> ('crs, 'ring, 'img) imaging \<Rightarrow> (db \<Rightarrow> Dataset \<Rightarrow> bool) \<Rightarrow> string \<Rightarrow> string list \<Rightarrow> (SliceMeta list \<times> Record list) act" where
  "ListDatasets E C matches instanceID recordsID =
     seq (wrap ''GetCubeFromRecords.'' (dbx E (cat_FindDatasets matches [instanceID] recordsID))) (\<lambda>datasets.
       wrap ''GetCubeFromRecords.'' (groupDatasetsByRecord E C datasets))"

section \<open>Tiles\<close>

definition two_pi :: float64 where
  "two_pi = Fin (884279719003555 / 140737488355328)"

text \<open>The shift of a 64-bit 1 to the left: a negative shift panics, one by 64 or more gives 0.\<close>

definition shift_one :: "int \<Rightarrow> int go" where
  "shift_one z = (if z < 0 then Panic ''runtime error: negative shift amount'' else Ret (wrap64 (2 ^ nat z)))"

definition pixToWebMercatorTransform :: "('crs, 'ring, 'img) imaging \<Rightarrow> int \<Rightarrow> (gerr + Affine) go" where
  "pixToWebMercatorTransform C z =
     (case im_lonlat3857 C of
        Inl e \<Rightarrow> Ret (Inl (WrapE ''pixToWebMercatorTransform.'' e []))
      | Inr (x, y) \<Rightarrow> (case im_SemiMajor C of
          Inl e \<Rightarrow> Ret (Inl (WrapE ''pixToWebMercatorTransform.SemiMajorAxis: '' e []))
        | Inr axis \<Rightarrow> go_bind (shift_one z) (\<lambda>p.
            let resolution = f_div (f_mul two_pi axis) (int_float (wrap64 (256 * p)))
            in go_bind (Multiply (Translation x y) (Scale resolution (f_neg resolution))) (\<lambda>a. Ret (Inr a)))))"

definition infoFromTile :: "('crs, 'ring, 'img) imaging \<Rightarrow> int \<Rightarrow> int \<Rightarrow> int \<Rightarrow> (gerr + ('ring \<times> descriptor)) go" where
  "infoFromTile C a b z =
     (case im_3857 C of
        Inl e \<Rightarrow> Ret (Inl (WrapE ''infoFromTile: '' e []))
      | Inr crs \<Rightarrow>
          go_bind (pixToWebMercatorTransform C z) (\<lambda>r. case r of
              Inl e \<Rightarrow> Ret (Inl (WrapE ''infoFromTile.'' e []))
            | Inr t \<Rightarrow> go_bind (Multiply t (Translation (int_float (wrap64 (256 * a))) (int_float (wrap64 (256 * b))))) (\<lambda>t.
                Ret (case im_ring C t 256 256 crs of
                  Inl e \<Rightarrow> Inl (WrapE ''infoFromTile: '' e [])
                | Inr ring \<Rightarrow> Inr (ring, \<lparr>de_WktCRS = (case im_WKT C crs of Inr w \<Rightarrow> w | Inl e \<Rightarrow> []), de_PixToCRS = t,
                    de_Width = 256, de_Height = 256, de_Bands = 0, de_Resampling = ResamplingUNDEFINED,
                    de_DataMapping = \<lparr>dm_DataFormat = NewDataFormatFromProtobuf None, dm_RangeExt = \<lparr>r_Min = Fin 0, r_Max = Fin 0\<rparr>, dm_Exponent = Fin 0\<rparr>,
                    de_ValidPixPc = 0, de_Format = [], de_Palette = None\<rparr>)))))"

definition getMosaic ::
  "env \<Rightarrow> ('crs, 'ring, 'img) imaging \<Rightarrow> (db \<Rightarrow> Dataset \<Rightarrow> bool) \<Rightarrow> string list \<Rightarrow> string list \<Rightarrow> descriptor \<Rightarrow> (('img option) \<times> descriptor) act" where
  "getMosaic E C matches instances recordsID out =
     (case instances of
        [] \<Rightarrow> panics ''runtime error: index out of range [0] with length 0''
      | i0 # _ \<Rightarrow>
          seq (wrap ''GetMosaic.'' (dbx E (pg_ReadVariableFromInstanceID i0))) (\<lambda>v.
          seq (check_instances ''GetMosaic.'' v instances) (\<lambda>_.
          seq (wrap ''GetMosaic.'' (dbx E (cat_FindDatasets matches instances recordsID))) (\<lambda>datasets.
            if datasets = [] then ok (None, out)
            else let out = out\<lparr>de_Resampling := v_Resampling v, de_DataMapping := ref_mapping (v_DFormat v)\<rparr>
                 in seq (lift_result (im_merge C (map slice_dataset datasets) out)) (\<lambda>ds. ok (Some ds, out))))))"

definition getXYZTile ::
  "env \<Rightarrow> ('crs, 'ring, 'img) imaging \<Rightarrow> string \<Rightarrow> 'img \<Rightarrow> descriptor \<Rightarrow> float64 \<Rightarrow> float64 \<Rightarrow> 8 word list act" where
  "getXYZTile E C instanceID ds out mn mx =
     seq (wrap ''GetXYZTile.'' (dbx E (pg_ReadVariableFromInstanceID instanceID))) (\<lambda>v.
     seq (if v_Palette v = [] then ok None
          else seq (wrap ''GetXYZTile.'' (lift_result (im_ReadPalette C (v_Palette v)))) (\<lambda>p. ok (Some p))) (\<lambda>palette.
       let dm = de_DataMapping out;
           dm = (if f_lt mn mx then dm\<lparr>dm_DataFormat := (dm_DataFormat dm)\<lparr>df_Range := \<lparr>r_Min = mn, r_Max = mx\<rparr>\<rparr>\<rparr> else dm)
       in wrap ''GetMosaic.'' (lift_result (im_png C ds dm palette))))"

definition GetXYZTile ::
  "env \<Rightarrow> ('crs, 'ring, 'img) imaging \<Rightarrow> ('ring \<Rightarrow> db \<Rightarrow> Dataset \<Rightarrow> bool) \<Rightarrow> string \<Rightarrow> string list \<Rightarrow> int \<Rightarrow> int \<Rightarrow> int \<Rightarrow> float64 \<Rightarrow> float64 \<Rightarrow>
   8 word list act" where
  "GetXYZTile E C matches instanceID recordsID a b z mn mx =
     seq (lift_go (infoFromTile C a b z)) (\<lambda>r. case r of
         Inl e \<Rightarrow> fails (WrapE ''GetXYZTileFromFilters.'' e [])
       | Inr (ring, out) \<Rightarrow>
           seq (wrap ''GetXYZTile.'' (getMosaic E C (matches ring) [instanceID] recordsID out)) (\<lambda>(dso, out). case dso of
               None \<Rightarrow> fails (NewEntityNotFound [] [] [] ''No data found'')
             | Some ds \<Rightarrow> getXYZTile E C instanceID ds out mn mx))"

text \<open>From filters, without records: the same code, the filters on tags and times being part of \<open>matches\<close>.\<close>

definition GetXYZTileFromFilters ::
  "env \<Rightarrow> ('crs, 'ring, 'img) imaging \<Rightarrow> ('ring \<Rightarrow> db \<Rightarrow> Dataset \<Rightarrow> bool) \<Rightarrow> string \<Rightarrow> int \<Rightarrow> int \<Rightarrow> int \<Rightarrow> float64 \<Rightarrow> float64 \<Rightarrow> 8 word list act" where
  "GetXYZTileFromFilters E C matches instanceID a b z mn mx = GetXYZTile E C matches instanceID [] a b z mn mx"

end
