(* ===== verification/CatalogProps.thy ===== *)
theory CatalogProps
  imports Catalog SortLemmas DatasetsProps MaintenanceProps
begin

text \<open>
  The catalogue groups the datasets of a request without losing or repeating one, whatever groups of records are
  asked for, and a file downloaded for several slices is kept until the last of them has read it.
\<close>

section \<open>Groups by record\<close>

lemma by_record_time_total: "by_record_time d a b \<or> by_record_time d b a"
  unfolding by_record_time_def Let_def using string_le_total [of "d_RecordID a" "d_RecordID b"] by auto

lemma by_record_time_trans: "by_record_time d a b \<Longrightarrow> by_record_time d b c \<Longrightarrow> by_record_time d a c"
  unfolding by_record_time_def Let_def using string_le_trans by auto

lemma by_record_time_antisym: "by_record_time d a b \<Longrightarrow> by_record_time d b a \<Longrightarrow> d_RecordID a = d_RecordID b"
  unfolding by_record_time_def Let_def using string_le_antisym by auto

definition record_sorted :: "Dataset list \<Rightarrow> bool" where
  "record_sorted ds \<longleftrightarrow> (\<exists>d. sorted_wrt (by_record_time d) ds)"

lemma found_sorted: "record_sorted (filter P (findDatasets st ps [] instances records True d))"
  unfolding record_sorted_def findDatasets_def Let_def
  by (intro exI [of _ d] sorted_wrt_filter) (simp add: sorted_sort_by by_record_time_total by_record_time_trans)

text \<open>In such a list the datasets of a record lie side by side.\<close>

lemma same_record_first:
  assumes "record_sorted (x # ds)" "i = d_RecordID x"
  shows "takeWhile (\<lambda>y. d_RecordID y = i) ds = filter (\<lambda>y. d_RecordID y = i) ds \<and>
    (\<forall>y \<in> set (dropWhile (\<lambda>y. d_RecordID y = i) ds). d_RecordID y \<noteq> i) \<and>
    record_sorted (dropWhile (\<lambda>y. d_RecordID y = i) ds)"
proof -
  obtain d where d: "sorted_wrt (by_record_time d) (x # ds)" using assms(1) by (auto simp: record_sorted_def)
  have drop: "\<forall>y \<in> set (dropWhile (\<lambda>y. d_RecordID y = i) ds). d_RecordID y \<noteq> i"
  proof (cases "dropWhile (\<lambda>y. d_RecordID y = i) ds")
    case (Cons z zs)
    then have z: "d_RecordID z \<noteq> i" using hd_dropWhile [of "\<lambda>y. d_RecordID y = i" ds] by simp
    obtain us where us: "ds = us @ z # zs" by (metis Cons takeWhile_dropWhile_id)
    have "d_RecordID y \<noteq> i" if "y \<in> set zs" for y
    proof
      assume y: "d_RecordID y = i"
      have "by_record_time d x z" "by_record_time d z y" using d that us by (auto simp: sorted_wrt_append)
      moreover have "by_record_time d y x" using y assms(2) by (simp add: by_record_time_def Let_def) (metis string_le_total)
      ultimately have "d_RecordID x = d_RecordID z" by (metis by_record_time_antisym by_record_time_trans)
      with z assms(2) show False by simp
    qed
    with z Cons show ?thesis by auto
  next
    case Nil
    show ?thesis unfolding Nil by simp
  qed
  let ?P = "\<lambda>y. d_RecordID y = i"
  have "filter ?P (takeWhile ?P ds) = takeWhile ?P ds" by (rule filter_True) (blast dest: set_takeWhileD)
  moreover have "filter ?P (dropWhile ?P ds) = []" by (rule filter_False [OF drop])
  moreover have "filter ?P ds = filter ?P (takeWhile ?P ds) @ filter ?P (dropWhile ?P ds)"
    by (metis filter_append takeWhile_dropWhile_id)
  ultimately have "takeWhile ?P ds = filter ?P ds" by (simp only: append_Nil2)
  moreover have "record_sorted (dropWhile (\<lambda>y. d_RecordID y = i) ds)"
    unfolding record_sorted_def
  proof (rule exI [of _ d])
    have "sorted_wrt (by_record_time d) (takeWhile (\<lambda>y. d_RecordID y = i) ds @ dropWhile (\<lambda>y. d_RecordID y = i) ds)" using d by simp
    then show "sorted_wrt (by_record_time d) (dropWhile (\<lambda>y. d_RecordID y = i) ds)" unfolding sorted_wrt_append by blast
  qed
  ultimately show ?thesis using drop by blast
qed

definition datasets_of :: "Dataset list \<Rightarrow> string \<Rightarrow> SliceMeta" where
  "datasets_of ds i = map slice_dataset (filter (\<lambda>x. d_RecordID x = i) ds)"

lemma record_runs_exact:
  assumes "record_sorted ds"
  shows "distinct (map fst (record_runs ds)) \<and> set (map fst (record_runs ds)) = d_RecordID ` set ds \<and>
    (\<forall>(i, sl) \<in> set (record_runs ds). sl = datasets_of ds i)"
  using assms
proof (induction ds rule: record_runs.induct)
  case (2 x ds)
  define rest where "rest = dropWhile (\<lambda>y. d_RecordID y = d_RecordID x) ds"
  note run = same_record_first [OF "2.prems" refl]
  have IH: "distinct (map fst (record_runs rest))" "set (map fst (record_runs rest)) = d_RecordID ` set rest"
    "\<forall>(i, sl) \<in> set (record_runs rest). sl = datasets_of rest i"
    using "2.IH" [folded rest_def, OF conjunct2 [OF conjunct2 [OF run], folded rest_def]] by blast+
  have split: "ds = filter (\<lambda>y. d_RecordID y = d_RecordID x) ds @ rest"
    unfolding rest_def conjunct1 [OF run, symmetric] by (rule takeWhile_dropWhile_id [symmetric])
  have new: "d_RecordID x \<notin> d_RecordID ` set rest"
  proof
    assume "d_RecordID x \<in> d_RecordID ` set rest"
    then obtain y where "y \<in> set rest" "d_RecordID x = d_RecordID y" by (rule imageE)
    with bspec [OF conjunct1 [OF conjunct2 [OF run]], folded rest_def] show False by metis
  qed
  define A where "A = set (filter (\<lambda>y. d_RecordID y = d_RecordID x) ds)"
  have S: "set ds = A \<union> set rest" unfolding A_def by (rule arg_cong [OF split, of set, unfolded set_append])
  have A: "d_RecordID ` A \<subseteq> {d_RecordID x}" unfolding A_def by (simp add: image_subset_iff)
  have ids: "insert (d_RecordID x) (d_RecordID ` set rest) = d_RecordID ` set (x # ds)" using A unfolding list.set S by blast
  have same: "datasets_of rest i = datasets_of (x # ds) i" if "i \<noteq> d_RecordID x" for i
  proof -
    have "filter (\<lambda>y. d_RecordID y = i) ds = filter (\<lambda>y. d_RecordID y = i) (filter (\<lambda>y. d_RecordID y = d_RecordID x) ds @ rest)"
      by (rule arg_cong [OF split])
    also have "\<dots> = filter (\<lambda>y. d_RecordID y = i) rest" using that by (simp add: filter_empty_conv)
    finally show ?thesis using that by (simp add: datasets_of_def)
  qed
  have first: "map slice_dataset (x # takeWhile (\<lambda>y. d_RecordID y = d_RecordID x) ds) = datasets_of (x # ds) (d_RecordID x)"
    unfolding datasets_of_def conjunct1 [OF run] by simp
  have runs: "record_runs (x # ds) = (d_RecordID x, datasets_of (x # ds) (d_RecordID x)) # record_runs rest"
    unfolding rest_def record_runs.simps first ..
  have "sl = datasets_of (x # ds) i" if "(i, sl) \<in> set (record_runs rest)" for i sl
  proof -
    have "i \<in> set (map fst (record_runs rest))" using that by force
    then have "i \<noteq> d_RecordID x" using new unfolding IH(2) by metis
    then show ?thesis using same [of i] bspec [OF IH(3) that] by simp
  qed
  then have all: "\<forall>(i, sl) \<in> set (record_runs (x # ds)). sl = datasets_of (x # ds) i" unfolding runs by fastforce
  have "distinct (map fst (record_runs (x # ds)))" unfolding runs using IH(1) new unfolding IH(2) [symmetric] by simp
  moreover have "set (map fst (record_runs (x # ds))) = insert (d_RecordID x) (d_RecordID ` set rest)"
    unfolding runs list.map list.set fst_conv IH(2) ..
  ultimately show ?case using all unfolding ids by blast
qed simp


section \<open>Records of the groups\<close>

lemma rev_remdups_rev_distinct: "distinct xs \<Longrightarrow> rev (remdups (rev xs)) = xs"
  by (simp add: distinct_remdups_id)

lemma groupDatasetsByRecord_exact:
  assumes "groupDatasetsByRecord E C ds w = Ret (Inr (slices, records), w')" "record_sorted ds"
  shows "distinct (map rec_ID records) \<and> set (map rec_ID records) = d_RecordID ` set ds \<and>
    slices = map (datasets_of ds \<circ> rec_ID) records"
proof -
  note runs = record_runs_exact [OF assms(2)]
  let ?ids = "map fst (record_runs ds)"
  from assms(1) have read: "fst (cat_ReadRecords C ?ids (w_db w)) = Inr records" and sl: "slices = map snd (record_runs ds)"
    unfolding groupDatasetsByRecord_def Let_def by (auto simp: seq_Inr_iff ok_def dest!: dbx_Inr)
  have ids: "map rec_ID records = ?ids"
    using read runs
    by (auto simp: cat_ReadRecords_def pg_ReadRecords_def rev_remdups_rev_distinct Let_def comp_def case_prod_unfold
      split: prod.splits sum.splits option.splits)
  have "map snd (record_runs ds) = map (datasets_of ds) ?ids" using runs by auto
  then have "slices = map (datasets_of ds) (map rec_ID records)" unfolding sl ids .
  then have "slices = map (datasets_of ds \<circ> rec_ID) records" unfolding map_map .
  then show ?thesis using runs unfolding ids by blast
qed

lemma nth_upt_map: "map (\<lambda>i. f (xs ! i)) [0..<length xs] = map f xs"
  by (rule nth_equalityI) simp_all

lemma record_index_lookup:
  assumes "distinct (map rec_ID records)"
  shows "List.map_filter (map_of (record_index records)) g =
    map (\<lambda>i. the (map_of (record_index records) i)) (filter (\<lambda>i. i \<in> set (map rec_ID records)) g)"
    and "i \<in> set (map rec_ID records) \<Longrightarrow> records ! the (map_of (record_index records) i) \<in> set records \<and>
      rec_ID (records ! the (map_of (record_index records) i)) = i \<and> the (map_of (record_index records) i) < length records"
proof -
  have keys: "map fst (record_index records) = rev (map rec_ID records)"
    by (simp add: record_index_def rev_map [symmetric] comp_def nth_upt_map)
  have some: "map_of (record_index records) i \<noteq> None \<longleftrightarrow> i \<in> set (map rec_ID records)" for i
    unfolding map_of_eq_None_iff not_not by (metis keys list.set_map set_rev)
  show "List.map_filter (map_of (record_index records)) g =
    map (\<lambda>i. the (map_of (record_index records) i)) (filter (\<lambda>i. i \<in> set (map rec_ID records)) g)"
    unfolding map_filter_def some comp_def ..
  show "records ! the (map_of (record_index records) i) \<in> set records \<and>
      rec_ID (records ! the (map_of (record_index records) i)) = i \<and> the (map_of (record_index records) i) < length records"
    if found: "i \<in> set (map rec_ID records)"
  proof -
    obtain k where k: "map_of (record_index records) i = Some k"
      using iffD2 [OF some found] unfolding not_None_eq by (elim exE)
    from map_of_SomeD [OF k] have "k < length records" "rec_ID (records ! k) = i" by (auto simp: record_index_def)
    with k show ?thesis by simp
  qed
qed

text \<open>The groups of the request, with the records that were found, in the order asked for.\<close>

definition served_groups :: "string set \<Rightarrow> string list list \<Rightarrow> string list list" where
  "served_groups found groups = filter (\<lambda>g. g \<noteq> []) (map (filter (\<lambda>i. i \<in> found)) groups)"

lemma groupDatasetsByRecordsGroup_exact:
  assumes "distinct (map rec_ID records)" "slices = map (f \<circ> rec_ID) records"
    and "groupDatasetsByRecordsGroup slices records (record_index records) groups = (dss, rss)"
  shows "map (map rec_ID) rss = served_groups (set (map rec_ID records)) groups \<and>
    dss = map (\<lambda>g. concat (map f g)) (map (map rec_ID) rss)"
  using assms(3)
proof (induction groups arbitrary: dss rss)
  case Nil
  then show ?case by (simp add: served_groups_def)
next
  case (Cons g gs)
  obtain dss' rss' where rest: "groupDatasetsByRecordsGroup slices records (record_index records) gs = (dss', rss')" by fastforce
  note IH = Cons.IH [OF rest]
  let ?ix = "\<lambda>i. the (map_of (record_index records) i)"
  let ?g = "filter (\<lambda>i. i \<in> set (map rec_ID records)) g"
  note look = record_index_lookup [OF assms(1)]
  have ids: "map rec_ID (map (\<lambda>i. records ! i) (map ?ix ?g)) = ?g"
    unfolding map_map comp_def by (rule map_idI) (use look(2) in auto)
  have sl: "map (\<lambda>i. slices ! i) (map ?ix ?g) = map f ?g"
    unfolding map_map comp_def using look(2) by (auto simp: assms(2))
  have step: "(dss, rss) = (if ?g = [] then (dss', rss')
      else (concat (map f ?g) # dss', map (\<lambda>i. records ! i) (map ?ix ?g) # rss'))"
    using Cons.prems unfolding groupDatasetsByRecordsGroup.simps look(1) rest Let_def case_prod_conv sl map_is_Nil_conv
    by (rule sym)
  show ?case
  proof (cases "?g = []")
    case True
    then have same: "served_groups (set (map rec_ID records)) (g # gs) = served_groups (set (map rec_ID records)) gs"
      by (simp add: served_groups_def)
    from True step have "dss = dss'" "rss = rss'" by simp_all
    with IH show ?thesis unfolding same by blast
  next
    case False
    with step have new: "dss = concat (map f ?g) # dss'" "rss = map (\<lambda>i. records ! i) (map ?ix ?g) # rss'" by simp_all
    have "served_groups (set (map rec_ID records)) (g # gs) = ?g # served_groups (set (map rec_ID records)) gs"
      using False by (simp add: served_groups_def)
    then show ?thesis unfolding new list.map ids using IH by metis
  qed
qed

lemma mset_datasets_of:
  "distinct is \<Longrightarrow> mset (concat (map (datasets_of ds) is)) = mset (map slice_dataset (filter (\<lambda>x. d_RecordID x \<in> set is) ds))"
proof (induction "is")
  case (Cons i "is")
  have "mset (filter (\<lambda>x. d_RecordID x \<in> set (i # is)) ds) =
      mset (filter (\<lambda>x. d_RecordID x = i) ds) + mset (filter (\<lambda>x. d_RecordID x \<in> set is) ds)"
    using Cons.prems by (induction ds) auto
  then show ?case using Cons by (simp add: datasets_of_def)
qed simp

lemma concat_served: "concat (served_groups S groups) = filter (\<lambda>i. i \<in> S) (concat groups)"
  by (induction groups) (auto simp: served_groups_def)

lemma concat_map_concat: "concat (map (\<lambda>g. concat (map f g)) gs) = concat (map f (concat gs))"
  by (induction gs) auto


section \<open>Streams\<close>

definition slice_of :: "SliceMeta \<Rightarrow> Record list \<Rightarrow> CubeSlice \<Rightarrow> bool" where
  "slice_of sl rs cu \<longleftrightarrow>
     cu_DatasetsMeta cu = sl \<and> map rec_ID (cu_Records cu) = map rec_ID rs \<and> (cu_Image cu \<noteq> None \<or> cu_Err cu \<noteq> None)"

lemma mergeTags_ids: "mergeTags rs = Ret (tags, rs') \<Longrightarrow> map rec_ID rs' = map rec_ID rs"
  by (auto simp: mergeTags_def Let_def split: list.splits)

lemma merge_job_slice:
  assumes "merge_job C local [] out i sl rs = Ret cu"
  shows "slice_of sl rs cu"
proof (cases "im_merge C sl out")
  case (Inl e)
  with assms show ?thesis by (auto simp: merge_job_def slice_of_def)
next
  case ds: (Inr ds)
  show ?thesis
  proof (cases "de_Format out = ''GTiff''")
    case True
    with assms ds obtain tags rs' where m: "mergeTags rs = Ret (tags, rs')"
      by (auto simp: merge_job_def Let_def go_bind_eq_Ret_iff)
    show ?thesis
    proof (cases "im_tiff C ds (de_DataMapping out) tags")
      case (Inl e)
      with assms ds True m mergeTags_ids [OF m] show ?thesis by (auto simp: merge_job_def Let_def slice_of_def)
    next
      case (Inr b)
      with assms ds True m mergeTags_ids [OF m] show ?thesis by (auto simp: merge_job_def Let_def slice_of_def)
    qed
  next
    case False
    show ?thesis
    proof (cases "NewStreamableBitmapFromDataset (im_big C) (im_raster C ds)")
      case (Inl e)
      with assms ds False show ?thesis by (auto simp: merge_job_def Let_def slice_of_def)
    next
      case (Inr b)
      with assms ds False show ?thesis by (auto simp: merge_job_def Let_def slice_of_def)
    qed
  qed
qed

lemma merge_jobs_slices:
  assumes "merge_jobs C local (\<lambda>_. []) out i ss rss = Ret cus" "length ss \<le> length rss"
  shows "\<exists>l. cus = map Some l \<and> length l = length ss \<and> (\<forall>k < length ss. slice_of (ss ! k) (rss ! k) (l ! k))"
  using assms
proof (induction ss arbitrary: i rss cus)
  case (Cons s ss)
  then obtain rs rss' where rss: "rss = rs # rss'" by (cases rss) auto
  from Cons.prems(1) obtain r l where r: "merge_job C local [] out i s rs = Ret r"
    "merge_jobs C local (\<lambda>_. []) out (Suc i) ss rss' = Ret l" "cus = Some r # l"
    by (auto simp: rss go_bind_eq_Ret_iff)
  from Cons.IH [OF r(2)] Cons.prems(2) obtain l' where
    "l = map Some l'" "length l' = length ss" "\<forall>k < length ss. slice_of (ss ! k) (rss' ! k) (l' ! k)"
    by (auto simp: rss)
  with r merge_job_slice [OF r(1)] show ?case
    by (intro exI [of _ "r # l'"]) (auto simp: rss nth_Cons split: nat.splits)
qed simp

lemma orderResults_all:
  assumes "\<And>k. \<not> stopped k" "\<And>cu. cu \<in> set l \<Longrightarrow> cu_Image cu \<noteq> None \<or> cu_Err cu \<noteq> None"
  shows "orderResults stopped i (map Some l) = l"
  using assms(2) by (induction l arbitrary: i) (auto simp: assms(1))

lemma getCubeStream_slices:
  assumes "getCubeStream C local stopped slices rss out options = Ret cus"
    and "length slices = length rss" "\<not> go_Predownload options" "\<And>k. \<not> stopped k"
  shows "map cu_DatasetsMeta cus = slices \<and> map (map rec_ID \<circ> cu_Records) cus = map (map rec_ID) rss"
proof (cases "go_HeadersOnly options")
  case True
  with assms(1,2) have "cus = map (\<lambda>(s, rs). \<lparr>cu_Image = Some (NewBitmapHeader (im_big C) (de_Width out) (de_Height out) (df_DType (dm_DataFormat (de_DataMapping out))) (de_Bands out)),
               cu_Err = None, cu_Records = rs, cu_Metadata = [], cu_DatasetsMeta = s\<rparr>) (zip slices rss)"
    by (simp add: getCubeStream_def headers_def)
  then have "map cu_DatasetsMeta cus = map fst (zip slices rss)" "map cu_Records cus = map snd (zip slices rss)" by auto
  with assms(2) show ?thesis by (simp add: map_map [symmetric])
next
  case False
  with assms(1,3) obtain rs where "merge_jobs C local (\<lambda>_. []) out 0 slices rss = Ret rs" "cus = orderResults stopped 0 rs"
    by (auto simp: getCubeStream_def go_bind_eq_Ret_iff split: if_splits)
  with merge_jobs_slices [of C local out 0 slices rss rs] assms(2) obtain l where
    l: "cus = orderResults stopped 0 (map Some l)" "length l = length slices"
      "\<forall>k < length slices. slice_of (slices ! k) (rss ! k) (l ! k)" by auto
  have "cus = l" unfolding l(1)
    by (rule orderResults_all [OF assms(4)]) (use l(2,3) in \<open>auto simp: in_set_conv_nth slice_of_def\<close>)
  with l(2,3) assms(2) show ?thesis by (auto simp: slice_of_def intro!: nth_equalityI)
qed

section \<open>The cube of a request\<close>

definition found_datasets :: "(db \<Rightarrow> Dataset \<Rightarrow> bool) \<Rightarrow> string list \<Rightarrow> string list \<Rightarrow> db \<Rightarrow> Dataset list" where
  "found_datasets matches instances records d =
     filter (matches d) (findDatasets [DatasetStatusACTIVE] [] [] instances records True d)"

lemma check_instances_reads [keeps_intros]: "committed_kept (check_instances pre v instances)"
  unfolding check_instances_def by (auto intro!: keeps_intros split: option.splits)

lemma ReadVariableFromInstanceID_reads [keeps_intros]: "committed_kept (dbx E (pg_ReadVariableFromInstanceID i))"
  by (rule dbx_reads) (auto simp: pg_ReadVariableFromInstanceID_def split: option.splits)

lemma getCubePrepare_reads: "committed_kept (getCubePrepare E C instances crs t width height options)"
  unfolding getCubePrepare_def
  by (cases instances) (auto intro!: keeps_intros)

lemma getCubePrepare_ring:
  "getCubePrepare E C instances crs t width height options w = Ret (Inr (out, ring), w') \<Longrightarrow> im_ring C t width height crs = Inr ring"
  unfolding getCubePrepare_def
  by (cases instances) (auto simp: seq_Inr_iff lift_result_def ok_def panics_def)

lemma found_datasets_records:
  "records \<noteq> [] \<Longrightarrow> d_RecordID ` set (found_datasets matches instances records d) \<subseteq> set records"
  by (auto simp: found_datasets_def findDatasets_def selected_dataset_def read_dataset_def Let_def)

text \<open>C26: The cube of a list of groups of records, streamed to its end without predownload.  There is one image per group
  that has a dataset, in the order of the request; its records are those of the group that have a dataset, and its
  datasets are, record after record, exactly the active datasets of the record that meet the request (its instances,
  the ring of the image).  So a record that is asked for in several groups has its datasets in each of their images;
  when no record is asked for twice (and at least one is), each dataset that meets the request goes into exactly one
  image.  The workers, the order of the results and the grouping neither lose nor repeat a dataset.\<close>

theorem cube_takes_each_dataset_once:
  assumes "GetCubeFromRecords E C local stopped meets groups instances crs t width height options w = Ret (Inr (info, stream), w')"
    and "im_ring C t width height crs = Inr ring"
    and "\<not> go_Predownload options" "\<And>k. \<not> stopped k"
  shows "let found = found_datasets (meets ring) instances (concat groups) (w_db w);
             served = served_groups (d_RecordID ` set found) groups
         in map cu_DatasetsMeta stream = map (\<lambda>g. concat (map (datasets_of found) g)) served \<and>
            map (map rec_ID \<circ> cu_Records) stream = served \<and> ci_NbImages info = int (length stream) \<and>
            (distinct (concat groups) \<and> concat groups \<noteq> [] \<longrightarrow>
               mset (concat (map cu_DatasetsMeta stream)) = mset (map slice_dataset found))"
proof -
  define ds where "ds = found_datasets (meets ring) instances (concat groups) (w_db w)"
  from assms(1) obtain out ring' w1 ds' w2 slices records w3 dss rss where
    prep: "getCubePrepare E C instances crs t width height options w = Ret (Inr (out, ring'), w1)"
    and find: "dbx E (cat_FindDatasets (meets ring') instances (concat groups)) w1 = Ret (Inr ds', w2)"
    and grp: "groupDatasetsByRecord E C ds' w2 = Ret (Inr (slices, records), w3)"
    and dss: "groupDatasetsByRecordsGroup slices records (record_index records) groups = (dss, rss)"
    and str: "getCubeStream C local stopped dss rss out options = Ret stream" and info: "info = cube_info dss ds' out"
    unfolding GetCubeFromRecords_def
    by (auto simp: seq_Inr_iff ok_def lift_go_def go_bind_eq_Ret_iff Let_def case_prod_unfold prod_eq_iff)
  from getCubePrepare_ring [OF prep] assms(2) have ring: "ring' = ring" by simp
  have db: "w_db w1 = w_db w" using keepsD [OF getCubePrepare_reads prep] .
  have "ds' = found_datasets (meets ring) instances (concat groups) (w_db w1)"
    using dbx_Inr [OF find] by (auto simp: cat_FindDatasets_def found_datasets_def ring)
  then have ds: "ds' = ds" unfolding ds_def db .
  have sorted: "record_sorted ds" unfolding ds_def found_datasets_def by (rule found_sorted)
  note recs = groupDatasetsByRecord_exact [OF grp [unfolded ds] sorted]
  have slices: "slices = map (datasets_of ds \<circ> rec_ID) records" using recs by blast
  note groups = groupDatasetsByRecordsGroup_exact [OF conjunct1 [OF recs] slices dss]
  have ids: "set (map rec_ID records) = d_RecordID ` set ds" using recs by blast
  have served: "map (map rec_ID) rss = served_groups (d_RecordID ` set ds) groups" using groups unfolding ids by blast
  have parts: "dss = map (\<lambda>g. concat (map (datasets_of ds) g)) (map (map rec_ID) rss)" using groups by blast
  then have len: "length dss = length rss" by simp
  note str = getCubeStream_slices [OF str len assms(3,4)]
  have parts': "dss = map (\<lambda>g. concat (map (datasets_of ds) g)) (served_groups (d_RecordID ` set ds) groups)"
    using parts unfolding served .
  have once: "mset (concat dss) = mset (map slice_dataset ds)" if "distinct (concat groups)" "concat groups \<noteq> []"
  proof -
    have "concat dss = concat (map (datasets_of ds) (filter (\<lambda>i. i \<in> d_RecordID ` set ds) (concat groups)))"
      unfolding parts' concat_map_concat concat_served ..
    also have "mset \<dots> = mset (map slice_dataset (filter (\<lambda>x. d_RecordID x \<in> set (filter (\<lambda>i. i \<in> d_RecordID ` set ds) (concat groups))) ds))"
      by (rule mset_datasets_of) (simp add: that(1) distinct_filter)
    also have "filter (\<lambda>x. d_RecordID x \<in> set (filter (\<lambda>i. i \<in> d_RecordID ` set ds) (concat groups))) ds = ds"
      using found_datasets_records [OF that(2), of "meets ring" instances "w_db w", folded ds_def] by (intro filter_True) auto
    finally show ?thesis .
  qed
  have "map cu_DatasetsMeta stream = dss" "map (map rec_ID \<circ> cu_Records) stream = map (map rec_ID) rss" using str by blast+
  moreover have "length stream = length dss" using arg_cong [OF conjunct1 [OF str], of length] by simp
  moreover have "ci_NbImages info = int (length dss)" by (simp add: info cube_info_def)
  ultimately show ?thesis
    unfolding ds_def [symmetric] Let_def using once parts' served by (intro conjI impI) simp_all
qed

definition sample_imaging :: "(unit, unit, unit) imaging" where
  "sample_imaging =
     \<lparr>im_record = (\<lambda>i t. \<lparr>rec_ps = CLEAN, rec_ID = i, rec_Name = i, rec_Time = t, rec_Tags = [], rec_AOI = \<lparr>aoi_ID = [], aoi_Geometry = None, aoi_hash = []\<rparr>\<rparr>),
      im_WKT = (\<lambda>_. Inr ''EPSG:4326''), im_ring = (\<lambda>_ _ _ _. Inr ()), im_ReadPalette = (\<lambda>_. Inl (PlainE [])),
      im_merge = (\<lambda>_ _. Inr ()), im_tiff = (\<lambda>_ _ _. Inr [1, 2]),
      im_raster = (\<lambda>_. \<lparr>ra_SizeX = 0, ra_SizeY = 0, ra_NBands = 0, ra_DataType = GdalByte, ra_lines = (\<lambda>_. Inr [])\<rparr>),
      im_png = (\<lambda>_ _ _. Inr []), im_big = False, im_ramSize = 1000000, im_cubeWorkers = 2, im_elapsed = (\<lambda>_. ''1s''),
      im_3857 = Inr (), im_lonlat3857 = Inr (Fin 0, Fin 0), im_SemiMajor = Inr (Fin 1)\<rparr>"

definition cube_db :: db where
  "cube_db =
     (sample_db JobTypeCONSOLIDATION JobStateNEW)
       \<lparr>db_Datasets := [\<lparr>dr_Dataset = sample_dataset ''d1'' UNKNOWN [1], dr_LockedBy = None\<rparr>,
                       \<lparr>dr_Dataset = (sample_dataset ''d2'' UNKNOWN [1])\<lparr>d_RecordID := ''r2''\<rparr>, dr_LockedBy = None\<rparr>,
                       \<lparr>dr_Dataset = (sample_dataset ''d3'' UNKNOWN [1])\<lparr>d_ContainerURI := ''gs://b''\<rparr>, dr_LockedBy = None\<rparr>],
        db_Records := [(''r1'', 5), (''r2'', 3), (''r3'', 4)], db_Variables := [sample_variable],
        db_Instances := [\<lparr>ir_Instance = \<lparr>vi_ps = UNKNOWN, vi_ID = ''i1'', vi_Name = ''a'', vi_Metadata = []\<rparr>, ir_DefinitionID = ''v1''\<rparr>]\<rparr>"

definition cube_options :: GetCubeOptions where
  "cube_options = \<lparr>go_Format = ''GTiff'', go_HeadersOnly = False, go_Resampling = ResamplingUNDEFINED, go_Predownload = False, go_FilterPartialImagePc = 0\<rparr>"

definition sample_cube :: "((gerr + (CubeInfo \<times> CubeSlice list)) \<times> world) go" where
  "sample_cube =
     GetCubeFromRecords sample_env sample_imaging (\<lambda>_. None) (\<lambda>_. False) (\<lambda>_ _ _. True) [[''r3''], [''r1''], [''r2'']] [''i1''] ()
       (NewAffine (Fin 0) (Fin 1) (Fin 0) (Fin 0) (Fin 0) (Fin 1)) 2 2 cube_options (sample_world cube_db sample_saved_job)"

theorem cube_takes_each_dataset_once_witness:
  "\<exists>info stream w'. sample_cube = Ret (Inr (info, stream), w') \<and> length stream = 2 \<and>
     map (map rec_ID \<circ> cu_Records) stream = served_groups (d_RecordID ` set (found_datasets (\<lambda>_ _. True) [''i1''] [''r3'', ''r1'', ''r2''] cube_db)) [[''r3''], [''r1''], [''r2'']]"
proof -
  have "case sample_cube of Ret (Inr (info, stream), w') \<Rightarrow> length stream = 2 | _ \<Rightarrow> False" by code_simp
  then obtain info stream w' where r: "sample_cube = Ret (Inr (info, stream), w')" "length stream = 2"
    by (auto split: go.splits sum.splits prod.splits)
  note cube_takes_each_dataset_once [OF r(1) [unfolded sample_cube_def], of "()", unfolded Let_def]
  then have "map (map rec_ID \<circ> cu_Records) stream =
      served_groups (d_RecordID ` set (found_datasets (\<lambda>_ _. True) [''i1''] [''r3'', ''r1'', ''r2''] cube_db)) [[''r3''], [''r1''], [''r2'']]"
    by (simp add: sample_imaging_def cube_options_def sample_world_def)
  with r show ?thesis by blast
qed

end
