(* ===== verification/PredownloadProps.thy ===== *)
theory PredownloadProps
  imports CatalogProps
begin

text \<open>
  Three more facts of the catalogue: when the copy of a downloaded file is removed, what survives of the tags of the
  merged records, and the metadata of a slice through protobuf; and the refusal of a second instance.
\<close>

section \<open>Copies of remote files\<close>

lemma map_of_count_file:
  "map_of (count_file s jobs) = (map_of jobs)(s \<mapsto> (case map_of jobs s of None \<Rightarrow> 1 | Some n \<Rightarrow> n + 1))"
  by (induction s jobs rule: count_file.induct) (auto simp: fun_eq_iff)

definition uses :: "string \<Rightarrow> SliceMeta \<Rightarrow> nat" where
  "uses s sl = length (filter (\<lambda>d. im_URI d = s) sl)"

definition bump :: "nat option \<Rightarrow> nat \<Rightarrow> nat option" where
  "bump m k = (case m of None \<Rightarrow> if k = 0 then None else Some k | Some n \<Rightarrow> Some (n + k))"

lemma bump_simps [simp]: "bump m 0 = m" "bump (Some n) k = Some (n + k)" "bump None (Suc k) = Some (Suc k)"
  by (auto simp: bump_def split: option.splits)

lemma download_count:
  assumes "is_remote s"
  shows "map_of (fold (\<lambda>d. if is_remote (im_URI d) then count_file (im_URI d) else id) ds jobs) s = bump (map_of jobs s) (uses s ds)"
proof (induction ds arbitrary: jobs)
  case Nil
  then show ?case by (simp add: uses_def)
next
  case (Cons d ds)
  show ?case
  proof (cases "im_URI d = s")
    case True
    then show ?thesis using assms Cons by (cases "map_of jobs s") (simp_all add: uses_def map_of_count_file)
  next
    case False
    then show ?thesis using Cons by (simp add: uses_def map_of_count_file)
  qed
qed

lemma map_of_download_jobs:
  "is_remote s \<Longrightarrow> map_of (download_jobs slices) s = bump None (uses s (concat slices))"
  unfolding download_jobs_def by (simp add: download_count)

lemma uses_concat: "uses s (concat slices) = sum_list (map (uses s) slices)"
  by (induction slices) (simp_all add: uses_def)

lemma uses_pos: "0 < uses s sl \<longleftrightarrow> s \<in> set (map im_URI sl)"
  by (auto simp: uses_def filter_empty_conv)

lemma availability_iff:
  assumes "is_remote s" "sl \<in> set slices"
  shows "s \<in> set (availability slices sl) \<longleftrightarrow> 0 < uses s sl"
proof -
  have "0 < uses s sl \<Longrightarrow> map_of (download_jobs slices) s \<noteq> None"
    using assms uses_concat [of s slices] member_le_sum_list [of "uses s sl" "map (uses s) slices"]
    by (auto simp: map_of_download_jobs bump_def)
  then show ?thesis unfolding map_of_eq_None_iff availability_def uses_pos by auto
qed

definition acknowledged :: "(string \<Rightarrow> string option) \<Rightarrow> SliceMeta list \<Rightarrow> string \<Rightarrow> nat" where
  "acknowledged local slices s =
     length (filter (\<lambda>sl. s \<in> set (fst (WaitForAvailability local (availability slices sl) sl))) slices)"

lemma acknowledged_slices:
  assumes "is_remote s" "local s = Some p" "p \<noteq> s"
  shows "acknowledged local slices s = length (filter (\<lambda>sl. 0 < uses s sl) slices)"
  unfolding acknowledged_def
  by (rule arg_cong [of _ _ length], rule filter_cong)
    (use assms availability_iff [OF assms(1)] in \<open>auto simp: WaitForAvailability_def Let_def\<close>)

lemma count_le_sum: "length (filter (\<lambda>x. 0 < f x) xs) \<le> sum_list (map f (xs :: 'a list))" for f :: "'a \<Rightarrow> nat"
  by (induction xs) auto

lemma count_eq_sum: "length (filter (\<lambda>x. 0 < f x) xs) = sum_list (map f xs) \<longleftrightarrow> (\<forall>x \<in> set xs. f x \<le> 1)"
  for f :: "'a \<Rightarrow> nat"
proof (induction xs)
  case (Cons x xs)
  then show ?case using count_le_sum [of f xs] by (cases "f x") auto
qed simp

text \<open>C28: the copy of a remote file stays while a slice may still read it: the slices acknowledge it at most as often as
  it was counted.  It is removed by these acknowledgments exactly when no slice holds two datasets of the file, since the
  datasets are counted and each slice acknowledges once; otherwise it stays on the disk until the request ends.\<close>

theorem downloaded_copy_is_released:
  assumes "is_remote s" "local s = Some p" "p \<noteq> s" "0 < uses s (concat slices)"
  shows "(\<exists>n. map_of (download_jobs slices) s = Some n \<and> acknowledged local slices s \<le> n) \<and>
    (copy_released local slices s \<longleftrightarrow> (\<forall>sl \<in> set slices. uses s sl \<le> 1))"
proof -
  have n: "map_of (download_jobs slices) s = Some (sum_list (map (uses s) slices))"
    using assms(4) unfolding uses_concat [symmetric] by (auto simp: map_of_download_jobs [OF assms(1)] bump_def)
  have a: "acknowledged local slices s = length (filter (\<lambda>sl. 0 < uses s sl) slices)"
    by (rule acknowledged_slices) (rule assms)+
  have "copy_released local slices s \<longleftrightarrow> acknowledged local slices s = sum_list (map (uses s) slices)"
    unfolding copy_released_def n by (auto simp: acknowledged_def)
  then show ?thesis using n count_le_sum [of "uses s" slices] unfolding a count_eq_sum by auto
qed

definition remote_part :: "string \<Rightarrow> string \<Rightarrow> im_Dataset" where
  "remote_part s sub = \<lparr>im_URI = s, im_SubDir = sub, im_Bands = [1], im_DataMapping = sample_mapping\<rparr>"

theorem downloaded_copy_is_released_witness:
  "copy_released (\<lambda>_. Some ''/tmp/x'') [[remote_part ''gs://b/o'' ''1''], [remote_part ''gs://b/o'' ''2'']] ''gs://b/o'' \<and>
   \<not> copy_released (\<lambda>_. Some ''/tmp/x'') [[remote_part ''gs://b/o'' ''1'', remote_part ''gs://b/o'' ''2'']] ''gs://b/o''"
proof -
  have "is_remote ''gs://b/o''" by code_simp
  note rel = downloaded_copy_is_released [of "''gs://b/o''" "\<lambda>_. Some ''/tmp/x''" "''/tmp/x''", OF this]
  show ?thesis
    using rel [of "[[remote_part ''gs://b/o'' ''1''], [remote_part ''gs://b/o'' ''2'']]"]
      rel [of "[[remote_part ''gs://b/o'' ''1'', remote_part ''gs://b/o'' ''2'']]"]
    by (simp add: uses_def remote_part_def)
qed

section \<open>Tags of merged records\<close>

text \<open>The tags of the first record that another record does not share are not in the merged tags, and are gone from the
  record itself; those of the other records stay under numbered keys.\<close>

theorem differing_tag_is_lost:
  "mergeTags [\<lparr>rec_ps = CLEAN, rec_ID = ''r1'', rec_Name = ''a'', rec_Time = 0, rec_Tags = [(''sat'', ''S2'')], rec_AOI = x\<rparr>,
              \<lparr>rec_ps = CLEAN, rec_ID = ''r2'', rec_Name = ''b'', rec_Time = 0, rec_Tags = [(''sat'', ''L8'')], rec_AOI = x\<rparr>] =
   Ret ([(''sat.1'', ''L8'')],
        [\<lparr>rec_ps = CLEAN, rec_ID = ''r1'', rec_Name = ''a'', rec_Time = 0, rec_Tags = [(''sat.1'', ''L8'')], rec_AOI = x\<rparr>,
         \<lparr>rec_ps = CLEAN, rec_ID = ''r2'', rec_Name = ''b'', rec_Time = 0, rec_Tags = [(''sat'', ''L8'')], rec_AOI = x\<rparr>])"
proof -
  have "nat_digits 1 = ''1''" by code_simp
  then show ?thesis by (simp add: mergeTags_def common_tags_def itoa_def Let_def)
qed

section \<open>Metadata of a slice\<close>

theorem slice_meta_protobuf_roundtrip:
  "NewSliceMetaFromProtobuf (SliceMeta_ToProtobuf (NewSliceMetaFromProtobuf metas)) = NewSliceMetaFromProtobuf metas"
  by (induction metas)
    (simp_all add: NewSliceMetaFromProtobuf_def SliceMeta_ToProtobuf_def internal_meta_def protobuf_format_roundtrip)

section \<open>Instances of a request\<close>

text \<open>The variable is read through its first instance and holds only that one: a second instance of the same variable is
  refused.\<close>

lemma check_instances_all:
  "check_instances pre v is w = Ret (Inr u, w') \<Longrightarrow> i \<in> set is \<Longrightarrow> map_of (v_Instances v) i \<noteq> None"
proof (induction "is" arbitrary: w)
  case (Cons j js)
  then show ?case
    by (cases "map_of (v_Instances v) j") (auto simp: check_instances_def CheckInstanceExists_def seq_Inr_iff fails_def ok_def)
qed simp

theorem only_one_instance_is_served:
  assumes "getCubePrepare E C instances crs t width height options w = Ret (Inr r, w')"
  shows "set instances = {hd instances}"
proof (cases instances)
  case Nil
  with assms show ?thesis by (simp add: getCubePrepare_def panics_def)
next
  case (Cons i0 rest)
  with assms obtain v w1 w2 u where v: "dbx E (pg_ReadVariableFromInstanceID i0) w = Ret (Inr v, w1)"
    and c: "check_instances ''getCubePrepare.'' v instances w1 = Ret (Inr u, w2)"
    by (auto simp: getCubePrepare_def seq_Inr_iff)
  have "map fst (v_Instances v) = [i0]"
    using dbx_Inr [OF v] by (auto simp: pg_ReadVariableFromInstanceID_def read_variable_def split: option.splits)
  with check_instances_all [OF c] have "\<And>i. i \<in> set instances \<Longrightarrow> i = i0"
    by (metis list.set(1,2) map_of_eq_None_iff list.set_map singletonD)
  with Cons show ?thesis by auto
qed

end
