(* ===== verification/Rpc.thy ===== *)
theory Rpc
  imports GeocubeErrors Records Variables Params JobTasks JobMachine
begin

text \<open>
  The gRPC layer: internal/grpc/service.go, first part.  A handler checks a request, calls the service and makes
  the answer.  The service is the Go interface \<open>GeocubeService\<close>: a record of calls over a state, which the model
  of the service instantiates with its world.  The answer is an error or a response, with the new state of the
  service; a handler that streams sends messages until one cannot be sent.  What the handlers read elsewhere (the
  errors of package uuid, the types that \<open>%T\<close> prints, the clock) is in the record \<open>rpc_env\<close>.
\<close>

section \<open>Errors\<close>

datatype rpc_code = InvalidArgument | NotFound | AlreadyExists | FailedPrecondition | UnknownCode | Unavailable

record resource_info = ri_Owner :: string
  ri_ResourceType :: string
  ri_ResourceName :: string

text \<open>A status of package status, with the detail it carries, or another error with its text.\<close>

datatype rpc_error = Status rpc_code string "resource_info option" | RawError string

record rpc_env = re_uuid :: "string \<Rightarrow> string option"
  re_type :: "gerr \<Rightarrow> string"
  re_time :: "Timestamp option \<Rightarrow> string option"
  re_points :: "colorPoint list \<Rightarrow> string"
  re_iterators :: "string \<Rightarrow> gerr option"
  re_stamp :: "gtime \<Rightarrow> gerr option"
  re_fmtTime :: "gtime \<Rightarrow> string"
  re_new :: "nat \<Rightarrow> string"
  re_now :: gtime

definition limit_size :: "string \<Rightarrow> nat \<Rightarrow> string" where
  "limit_size s size_limit = (if length s > size_limit then take size_limit s @ ''[...]'' else s)"

text \<open>\<open>fmt.Sprintf\<close> of the formats of this file, which have one verb for the error or none.\<close>

fun split_verb :: "string \<Rightarrow> (string \<times> string) option" where
  "split_verb (c # d # s) =
     (if c = CHR ''%'' \<and> (d = CHR ''w'' \<or> d = CHR ''v'') then Some ([], s)
      else map_option (\<lambda>(a, b). (c # a, b)) (split_verb (d # s)))"
| "split_verb _ = None"

definition sprintf_error :: "rpc_env \<Rightarrow> string \<Rightarrow> gerr \<Rightarrow> string" where
  "sprintf_error V fmt e =
     (case split_verb fmt of
        Some (pre, post) \<Rightarrow> pre @ ErrorMsg e @ post
      | None \<Rightarrow> fmt @ ''%!(EXTRA '' @ re_type V e @ ''='' @ ErrorMsg e @ '')'')"

definition msg_size_limit :: nat where "msg_size_limit = 3000"

definition detail_size_limit :: nat where "detail_size_limit = 1000"

definition detail_text :: "string list \<Rightarrow> int \<Rightarrow> string go" where
  "detail_text ds i = go_bind (Detail ds i) (\<lambda>s. Ret (limit_size s detail_size_limit))"

fun geocube_status :: "string \<Rightarrow> gerr \<Rightarrow> rpc_error go" where
  "geocube_status message (GeocubeE EntityValidationError d ds) = Ret (Status InvalidArgument (limit_size d msg_size_limit) None)"
| "geocube_status message (GeocubeE EntityNotFound d ds) =
     go_bind (detail_text ds 0) (\<lambda>t. go_bind (detail_text ds 2) (\<lambda>n.
       Ret (Status NotFound message (Some \<lparr>ri_Owner = [], ri_ResourceType = t, ri_ResourceName = n\<rparr>))))"
| "geocube_status message (GeocubeE EntityAlreadyExists d ds) =
     go_bind (detail_text ds 0) (\<lambda>t. go_bind (detail_text ds 2) (\<lambda>n.
       Ret (Status AlreadyExists message (Some \<lparr>ri_Owner = [], ri_ResourceType = t, ri_ResourceName = n\<rparr>))))"
| "geocube_status message (GeocubeE DependencyStillExists d ds) =
     go_bind (detail_text ds 0) (\<lambda>w. go_bind (detail_text ds 1) (\<lambda>t. go_bind (detail_text ds 3) (\<lambda>n.
       Ret (Status FailedPrecondition message (Some \<lparr>ri_Owner = w, ri_ResourceType = t, ri_ResourceName = n\<rparr>)))))"
| "geocube_status message (GeocubeE ShouldNeverHappen d ds) = Ret (Status UnknownCode message None)"
| "geocube_status message (GeocubeE UnhandledEvent d ds) = Ret (Status FailedPrecondition message None)"
| "geocube_status message _ = Panic ''unreachable''"

fun Desc :: "gerr \<Rightarrow> string" where
  "Desc (GeocubeE c d ds) = d"
| "Desc _ = []"

definition formatError :: "rpc_env \<Rightarrow> string \<Rightarrow> gerr \<Rightarrow> rpc_error go" where
  "formatError V format err =
     (case AsGeocubeError err of
        Some g \<Rightarrow> geocube_status (limit_size (Desc g @ (if Temporary err then '' (this error may be temporary)'' else [])) msg_size_limit) g
      | None \<Rightarrow>
          Ret (if Temporary err then Status Unavailable (limit_size (ErrorMsg err) msg_size_limit) None
               else RawError (limit_size (sprintf_error V format err) msg_size_limit)))"

section \<open>Handlers\<close>

type_synonym ('s, 'a) call = "'s \<Rightarrow> ((gerr + 'a) \<times> 's) go"

type_synonym ('s, 'a) answer = "'s \<Rightarrow> ((rpc_error + 'a) \<times> 's) go"

type_synonym 'm sent = "'m list \<times> rpc_error option"

definition reply :: "'a \<Rightarrow> ('s, 'a) answer" where
  "reply a s = Ret (Inr a, s)"

definition refuse :: "rpc_env \<Rightarrow> string \<Rightarrow> gerr \<Rightarrow> ('s, 'a) answer" where
  "refuse V format err s = go_bind (formatError V format err) (\<lambda>x. Ret (Inl x, s))"

definition newValidationError :: "rpc_env \<Rightarrow> string \<Rightarrow> ('s, 'a) answer" where
  "newValidationError V desc = refuse V [] (NewValidationError desc)"

definition backend :: "rpc_env \<Rightarrow> string \<Rightarrow> ('s, 'a) call \<Rightarrow> ('a \<Rightarrow> ('s, 'b) answer) \<Rightarrow> ('s, 'b) answer" where
  "backend V format f k s =
     go_bind (f s) (\<lambda>(r, s). case r of Inl e \<Rightarrow> refuse V format e s | Inr a \<Rightarrow> k a s)"

definition with_go :: "'a go \<Rightarrow> ('a \<Rightarrow> ('s, 'b) answer) \<Rightarrow> ('s, 'b) answer" where
  "with_go g k s = go_bind g (\<lambda>a. k a s)"

definition parsed :: "rpc_env \<Rightarrow> string \<Rightarrow> gerr + 'a \<Rightarrow> ('a \<Rightarrow> ('s, 'b) answer) \<Rightarrow> ('s, 'b) answer" where
  "parsed V format r k = (case r of Inl e \<Rightarrow> refuse V format e | Inr a \<Rightarrow> k a)"

fun check_ids :: "rpc_env \<Rightarrow> (string \<Rightarrow> string) \<Rightarrow> string list \<Rightarrow> ('s, 'b) answer \<Rightarrow> ('s, 'b) answer" where
  "check_ids V pre [] k = k"
| "check_ids V pre (i # is) k =
     (case re_uuid V i of Some t \<Rightarrow> newValidationError V (pre i @ t) | None \<Rightarrow> check_ids V pre is k)"

definition plain_id :: "string \<Rightarrow> string" where
  "plain_id i = ''Invalid uuid: ''"

definition quoted_id :: "string \<Rightarrow> string" where
  "quoted_id i = ''Invalid uuid '' @ i @ '': ''"

definition named_id :: "string \<Rightarrow> string \<Rightarrow> string" where
  "named_id what i = ''Invalid '' @ what @ ''.uuid '' @ i @ '': ''"

definition uuid_ok :: "rpc_env \<Rightarrow> string \<Rightarrow> bool" where
  "uuid_ok V i \<longleftrightarrow> re_uuid V i = None"

text \<open>The messages of a stream; \<open>send\<close> tells whether the message of that rank can be sent.\<close>

fun send_all :: "rpc_env \<Rightarrow> (nat \<Rightarrow> gerr option) \<Rightarrow> string \<Rightarrow> ('a \<Rightarrow> 'm go) \<Rightarrow> nat \<Rightarrow> 'a list \<Rightarrow> 'm sent go" where
  "send_all V send format conv n [] = Ret ([], None)"
| "send_all V send format conv n (x # xs) =
     go_bind (conv x) (\<lambda>m. case send n of
         Some e \<Rightarrow> go_bind (formatError V format e) (\<lambda>x. Ret ([], Some x))
       | None \<Rightarrow> go_bind (send_all V send format conv (Suc n) xs) (\<lambda>(ms, eo). Ret (m # ms, eo)))"

definition streamed :: "('s, 'm sent) answer \<Rightarrow> 's \<Rightarrow> ('m sent \<times> 's) go" where
  "streamed f s = go_bind (f s) (\<lambda>(r, s). Ret (case r of Inl e \<Rightarrow> ([], Some e) | Inr sent \<Rightarrow> sent, s))"

section \<open>Areas and records\<close>

record 's record_service =
  sv_CreateAOI :: "AOI \<Rightarrow> ('s, unit) call"
  sv_GetAOI :: "string \<Rightarrow> ('s, AOI) call"
  sv_CreateRecords :: "Record list \<Rightarrow> ('s, unit) call"
  sv_GetRecords :: "string list \<Rightarrow> ('s, Record list) call"
  sv_DeleteRecords :: "string list \<Rightarrow> bool \<Rightarrow> ('s, int) call"
  sv_ListRecords :: "string \<Rightarrow> Metadata \<Rightarrow> gtime \<Rightarrow> gtime \<Rightarrow> AOI \<Rightarrow> int \<Rightarrow> int \<Rightarrow> bool \<Rightarrow> ('s, Record list) call"
  sv_AddRecordsTags :: "string list \<Rightarrow> Metadata \<Rightarrow> ('s, int) call"
  sv_RemoveRecordsTags :: "string list \<Rightarrow> string list \<Rightarrow> ('s, int) call"

definition new_aoi :: "rpc_env \<Rightarrow> coords \<Rightarrow> bool \<Rightarrow> gerr + AOI" where
  "new_aoi V polygons canBeEmpty =
     (case NewAOIFromProtobuf (re_new V 0) polygons canBeEmpty of (aoi, None) \<Rightarrow> Inr aoi | (aoi, Some e) \<Rightarrow> Inl e)"

definition rpc_CreateAOI :: "rpc_env \<Rightarrow> 's record_service \<Rightarrow> coords \<Rightarrow> ('s, string) answer" where
  "rpc_CreateAOI V S polygons =
     parsed V [] (new_aoi V polygons False) (\<lambda>aoi.
     backend V ''backend.%w'' (sv_CreateAOI S aoi) (\<lambda>_.
     reply (aoi_ID aoi)))"

definition rpc_GetAOI :: "rpc_env \<Rightarrow> 's record_service \<Rightarrow> string \<Rightarrow> ('s, coords) answer" where
  "rpc_GetAOI V S i =
     check_ids V (named_id ''AOI'') [i] (
     backend V ''backend.%w'' (sv_GetAOI S i) (\<lambda>aoi.
     with_go (AOI_ToProtobuf aoi) reply))"

fun new_records :: "rpc_env \<Rightarrow> nat \<Rightarrow> pb_Record list \<Rightarrow> gerr + Record list" where
  "new_records V n [] = Inr []"
| "new_records V n (pr # prs) =
     (case NewRecordFromProtobuf (re_uuid V) (re_time V) (re_new V n) pr of
        Inl e \<Rightarrow> Inl e
      | Inr r \<Rightarrow> (case new_records V (Suc n) prs of Inl e \<Rightarrow> Inl e | Inr rs \<Rightarrow> Inr (r # rs)))"

definition rpc_CreateRecords :: "rpc_env \<Rightarrow> 's record_service \<Rightarrow> pb_Record list \<Rightarrow> ('s, string list) answer" where
  "rpc_CreateRecords V S prs =
     parsed V [] (new_records V 0 prs) (\<lambda>records.
     backend V ''backend.%w'' (sv_CreateRecords S records) (\<lambda>_.
     reply (map rec_ID records)))"

definition rpc_GetRecords :: "rpc_env \<Rightarrow> 's record_service \<Rightarrow> (nat \<Rightarrow> gerr option) \<Rightarrow> string list \<Rightarrow> 's \<Rightarrow> (pb_Record sent \<times> 's) go" where
  "rpc_GetRecords V S send ids =
     streamed (check_ids V plain_id ids (
     backend V ''backend.%w'' (sv_GetRecords S ids) (\<lambda>records.
     with_go (send_all V send ''backend.ListRecords.send: %w'' (Record_ToProtobuf False) 0 records) reply)))"

definition rpc_DeleteRecords :: "rpc_env \<Rightarrow> 's record_service \<Rightarrow> string list \<Rightarrow> bool \<Rightarrow> ('s, int) answer" where
  "rpc_DeleteRecords V S ids noFail =
     check_ids V plain_id ids (backend V ''backend.%w'' (sv_DeleteRecords S ids noFail) reply)"

text \<open>A timestamp that is absent or invalid is the zero time.\<close>

definition timeFromTimestamp :: "rpc_env \<Rightarrow> Timestamp option \<Rightarrow> gtime" where
  "timeFromTimestamp V ts =
     (case ts of Some t \<Rightarrow> if re_time V ts = None then AsTime t else zero_time | None \<Rightarrow> zero_time)"

record pb_ListRecords = lr_Name :: string
  lr_Tags :: Metadata
  lr_From :: "Timestamp option"
  lr_To :: "Timestamp option"
  lr_Aoi :: coords
  lr_Page :: int
  lr_Limit :: int
  lr_WithAoi :: bool

definition rpc_ListRecords :: "rpc_env \<Rightarrow> 's record_service \<Rightarrow> (nat \<Rightarrow> gerr option) \<Rightarrow> pb_ListRecords \<Rightarrow> 's \<Rightarrow> (pb_Record sent \<times> 's) go" where
  "rpc_ListRecords V S send req =
     streamed (parsed V [] (new_aoi V (lr_Aoi req) True) (\<lambda>aoi.
     backend V ''backend.%w''
       (sv_ListRecords S (lr_Name req) (lr_Tags req) (timeFromTimestamp V (lr_From req)) (timeFromTimestamp V (lr_To req)) aoi
          (lr_Page req) (lr_Limit req) (lr_WithAoi req)) (\<lambda>records.
     with_go (send_all V send ''backend.ListRecords.send: %w'' (Record_ToProtobuf (lr_WithAoi req)) 0 records) reply)))"

definition rpc_AddRecordsTags :: "rpc_env \<Rightarrow> 's record_service \<Rightarrow> string list \<Rightarrow> Metadata \<Rightarrow> ('s, int) answer" where
  "rpc_AddRecordsTags V S ids tags =
     check_ids V plain_id ids (backend V ''backend.%w'' (sv_AddRecordsTags S ids tags) reply)"

definition rpc_RemoveRecordsTags :: "rpc_env \<Rightarrow> 's record_service \<Rightarrow> string list \<Rightarrow> string list \<Rightarrow> ('s, int) answer" where
  "rpc_RemoveRecordsTags V S ids keys =
     check_ids V plain_id ids (backend V ''backend.%w'' (sv_RemoveRecordsTags S ids keys) reply)"

section \<open>Variables\<close>

record 's variable_service =
  sv_CreateVariable :: "Variable \<Rightarrow> ('s, unit) call"
  sv_UpdateVariable :: "string \<Rightarrow> string option \<Rightarrow> string option \<Rightarrow> string option \<Rightarrow> string option \<Rightarrow> Resampling option \<Rightarrow> ('s, unit) call"
  sv_GetVariable :: "string \<Rightarrow> string \<Rightarrow> string \<Rightarrow> ('s, Variable) call"
  sv_InstantiateVariable :: "string \<Rightarrow> VariableInstance \<Rightarrow> ('s, unit) call"
  sv_ListVariables :: "string \<Rightarrow> int \<Rightarrow> int \<Rightarrow> ('s, Variable list) call"
  sv_UpdateInstance :: "string \<Rightarrow> string option \<Rightarrow> Metadata \<Rightarrow> string list \<Rightarrow> ('s, unit) call"
  sv_DeleteVariable :: "string \<Rightarrow> ('s, unit) call"
  sv_DeleteInstance :: "string \<Rightarrow> ('s, unit) call"
  sv_CreatePalette :: "Palette \<Rightarrow> bool \<Rightarrow> ('s, unit) call"

definition rpc_CreateVariable :: "rpc_env \<Rightarrow> 's variable_service \<Rightarrow> pb_Variable \<Rightarrow> ('s, string) answer" where
  "rpc_CreateVariable V S pbv =
     with_go (NewVariableFromProtobuf (uuid_ok V) (re_new V 0) pbv) (\<lambda>r.
     parsed V [] r (\<lambda>v.
     backend V ''backend.%w'' (sv_CreateVariable S v) (\<lambda>_. reply (v_ID v))))"

text \<open>The instance is made, and may be refused, before the identifier of the variable is checked.\<close>

definition rpc_InstantiateVariable :: "rpc_env \<Rightarrow> 's variable_service \<Rightarrow> string \<Rightarrow> string \<Rightarrow> Metadata \<Rightarrow> ('s, pb_Instance) answer" where
  "rpc_InstantiateVariable V S variableID name metadata =
     parsed V ''backend.%w'' (NewInstance (uuid_ok V) (re_new V 0) name metadata) (\<lambda>vi.
     check_ids V plain_id [variableID] (
     backend V ''backend.%w'' (sv_InstantiateVariable S variableID vi) (\<lambda>_.
     reply \<lparr>pbi_Id = vi_ID vi, pbi_Name = vi_Name vi, pbi_Metadata = vi_Metadata vi\<rparr>)))"

definition rpc_GetVariable :: "rpc_env \<Rightarrow> 's variable_service \<Rightarrow> string \<Rightarrow> string \<Rightarrow> string \<Rightarrow> ('s, pb_VariableView) answer" where
  "rpc_GetVariable V S i instanceID name =
     check_ids V plain_id (if i \<noteq> [] then [i] else if instanceID \<noteq> [] then [instanceID] else []) (
     backend V ''backend.%w'' (sv_GetVariable S i instanceID name) (\<lambda>v. reply (Variable_ToProtobuf v)))"

definition rpc_ListVariables ::
  "rpc_env \<Rightarrow> 's variable_service \<Rightarrow> (nat \<Rightarrow> gerr option) \<Rightarrow> string \<Rightarrow> int \<Rightarrow> int \<Rightarrow> 's \<Rightarrow> (pb_VariableView sent \<times> 's) go" where
  "rpc_ListVariables V S send name page limit =
     streamed (backend V ''backend.ListVariables.%w'' (sv_ListVariables S name page limit) (\<lambda>vs.
     with_go (send_all V send ''backend.ListVariables: %w'' (\<lambda>v. Ret (Variable_ToProtobuf v)) 0 vs) reply))"

definition optionalResampling :: "int \<Rightarrow> Resampling option" where
  "optionalResampling alg = (if alg \<noteq> 0 then Some (Resampling_of alg) else None)"

definition optionalString :: "string option \<Rightarrow> string option" where
  "optionalString value = value"

record pb_UpdateVariable = uv_Id :: string
  uv_Name :: "string option"
  uv_Unit :: "string option"
  uv_Description :: "string option"
  uv_Palette :: "string option"
  uv_ResamplingAlg :: int

definition rpc_UpdateVariable :: "rpc_env \<Rightarrow> 's variable_service \<Rightarrow> pb_UpdateVariable \<Rightarrow> ('s, unit) answer" where
  "rpc_UpdateVariable V S req =
     check_ids V plain_id [uv_Id req] (
     backend V ''backend.%w''
       (sv_UpdateVariable S (uv_Id req) (optionalString (uv_Name req)) (optionalString (uv_Unit req))
          (optionalString (uv_Description req)) (optionalString (uv_Palette req)) (optionalResampling (uv_ResamplingAlg req))) (\<lambda>_.
     reply ()))"

definition rpc_UpdateInstance ::
  "rpc_env \<Rightarrow> 's variable_service \<Rightarrow> string \<Rightarrow> string option \<Rightarrow> Metadata \<Rightarrow> string list \<Rightarrow> ('s, unit) answer" where
  "rpc_UpdateInstance V S i name add del =
     check_ids V plain_id [i] (
     backend V ''backend.%w'' (sv_UpdateInstance S i (optionalString name) add del) (\<lambda>_. reply ()))"

definition rpc_DeleteVariable :: "rpc_env \<Rightarrow> 's variable_service \<Rightarrow> string \<Rightarrow> ('s, unit) answer" where
  "rpc_DeleteVariable V S i =
     check_ids V plain_id [i] (backend V ''backend.%w'' (sv_DeleteVariable S i) (\<lambda>_. reply ()))"

definition rpc_DeleteInstance :: "rpc_env \<Rightarrow> 's variable_service \<Rightarrow> string \<Rightarrow> ('s, unit) answer" where
  "rpc_DeleteInstance V S i =
     check_ids V plain_id [i] (backend V ''backend.%w'' (sv_DeleteInstance S i) (\<lambda>_. reply ()))"

definition rpc_CreatePalette :: "rpc_env \<Rightarrow> 's variable_service \<Rightarrow> string \<Rightarrow> pb_colorPoint list \<Rightarrow> bool \<Rightarrow> ('s, unit) answer" where
  "rpc_CreatePalette V S name colors replaceIfExists =
     (case NewPaletteFromPb (re_points V) name colors of
        (p, Some e) \<Rightarrow> refuse V [] e
      | (p, None) \<Rightarrow> backend V ''backend.%w'' (sv_CreatePalette S p replaceIfExists) (\<lambda>_. reply ()))"

end
