(* ===== verification/RpcService.thy ===== *)
theory RpcService
  imports Rpc Catalog Orders Grids
begin

text \<open>
  The gRPC layer: internal/grpc/service.go, the handlers of datasets, jobs, grids, layouts and tilings.  A request
  whose identifiers and filters are a protobuf oneof is a record of options.
\<close>

section \<open>Datasets\<close>

record pb_Filters = fi_Tags :: Metadata
  fi_From :: "Timestamp option"
  fi_To :: "Timestamp option"

definition filter_tags :: "pb_Filters option \<Rightarrow> Metadata" where
  "filter_tags f = (case f of None \<Rightarrow> [] | Some f \<Rightarrow> fi_Tags f)"

definition filter_times :: "rpc_env \<Rightarrow> pb_Filters option \<Rightarrow> gtime \<times> gtime" where
  "filter_times V f =
     (timeFromTimestamp V (case f of None \<Rightarrow> None | Some f \<Rightarrow> fi_From f),
      timeFromTimestamp V (case f of None \<Rightarrow> None | Some f \<Rightarrow> fi_To f))"

record 's dataset_service =
  sv_GetContainers :: "string list \<Rightarrow> ('s, Container list) call"
  sv_IndexExternalDatasets :: "Container \<Rightarrow> Dataset list \<Rightarrow> ('s, unit) call"
  sv_ListDatasets :: "string \<Rightarrow> string list \<Rightarrow> Metadata \<Rightarrow> gtime \<Rightarrow> gtime \<Rightarrow> ('s, SliceMeta list \<times> Record list) call"
  sv_DeleteDatasets :: "string \<Rightarrow> string list \<Rightarrow> string list \<Rightarrow> string list \<Rightarrow> ExecutionLevel \<Rightarrow> ('s, Job) call"
  sv_ConfigConsolidation :: "string \<Rightarrow> ConsolidationParams \<Rightarrow> ('s, unit) call"
  sv_GetConsolidationParams :: "string \<Rightarrow> ('s, ConsolidationParams) call"
  sv_ConsolidateFromRecords :: "Job \<Rightarrow> string list \<Rightarrow> ('s, unit) call"
  sv_ConsolidateFromFilters :: "Job \<Rightarrow> Metadata \<Rightarrow> gtime \<Rightarrow> gtime \<Rightarrow> ('s, unit) call"

definition rpc_GetContainers :: "rpc_env \<Rightarrow> 's dataset_service \<Rightarrow> string list \<Rightarrow> ('s, pb_Container list) answer" where
  "rpc_GetContainers V S uris =
     backend V ''backend.%w'' (sv_GetContainers S uris) (\<lambda>cs. reply (map Container_ToProtobuf cs))"

fun new_datasets :: "rpc_env \<Rightarrow> nat \<Rightarrow> string \<Rightarrow> pb_Dataset list \<Rightarrow> (gerr + Dataset list) go" where
  "new_datasets V n uri [] = Ret (Inr [])"
| "new_datasets V n uri (pbd # pbds) =
     go_bind (NewDatasetFromProtobuf (uuid_ok V) (re_new V n) pbd uri) (\<lambda>r. case r of
         Inl e \<Rightarrow> Ret (Inl e)
       | Inr d \<Rightarrow> go_bind (new_datasets V (Suc n) uri pbds) (\<lambda>r. Ret (case r of Inl e \<Rightarrow> Inl e | Inr ds \<Rightarrow> Inr (d # ds))))"

definition rpc_IndexDatasets :: "rpc_env \<Rightarrow> 's dataset_service \<Rightarrow> pb_Container \<Rightarrow> ('s, unit) answer" where
  "rpc_IndexDatasets V S pbc =
     parsed V [] (NewContainerFromProtobuf (pbc_Uri pbc) (pbc_Managed pbc)) (\<lambda>c.
     with_go (new_datasets V 0 (c_URI c) (pbc_Datasets pbc)) (\<lambda>r.
     parsed V [] r (\<lambda>ds.
     backend V ''backend.%w'' (sv_IndexExternalDatasets S c ds) (\<lambda>_. reply ()))))"

record pb_ListDatasets = ld_InstanceId :: string
  ld_Records :: "string list option"
  ld_Filters :: "pb_Filters option"

definition id_list :: "string list option \<Rightarrow> string list" where
  "id_list r = (case r of None \<Rightarrow> [] | Some ids \<Rightarrow> ids)"

text \<open>The metadata are read at the index of each record.\<close>

definition dataset_metas :: "SliceMeta list \<Rightarrow> Record list \<Rightarrow> (pb_Record list \<times> pb_InternalMeta list list) go" where
  "dataset_metas metadata records =
     go_bind (go_map (Record_ToProtobuf False) (take (Suc (length metadata)) records)) (\<lambda>rs.
       if length metadata < length records then Panic ''runtime error: index out of range''
       else Ret (rs, map SliceMeta_ToProtobuf (take (length records) metadata)))"

definition rpc_ListDatasets ::
  "rpc_env \<Rightarrow> 's dataset_service \<Rightarrow> pb_ListDatasets \<Rightarrow> ('s, pb_Record list \<times> pb_InternalMeta list list) answer" where
  "rpc_ListDatasets V S req =
     (let (fromTime, toTime) = filter_times V (ld_Filters req)
      in backend V ''backend.%w''
           (sv_ListDatasets S (ld_InstanceId req) (id_list (ld_Records req)) (filter_tags (ld_Filters req)) fromTime toTime)
           (\<lambda>(metadata, records). with_go (dataset_metas metadata records) reply))"

text \<open>Above 1000 logs, the 1000 that precede the newest one are kept.\<close>

definition last_logs :: "'l list \<Rightarrow> 'l list" where
  "last_logs logs = (let c = length logs in if c > 1000 then take 1000 (drop (c - 1001) logs) else logs)"

definition rpc_DeleteDatasets ::
  "rpc_env \<Rightarrow> 's dataset_service \<Rightarrow> string \<Rightarrow> string list \<Rightarrow> string list \<Rightarrow> string list \<Rightarrow> ExecutionLevel \<Rightarrow> ('s, pb_Job) answer" where
  "rpc_DeleteDatasets V S jobName instanceIDs recordIDs patterns level =
     backend V ''backend.%w'' (sv_DeleteDatasets S jobName instanceIDs recordIDs patterns level) (\<lambda>job.
     parsed V ''backend.%w'' (job_ToProtobuf (re_stamp V) (re_fmtTime V) 0 (job\<lparr>j_Logs := last_logs (j_Logs job)\<rparr>)) reply)"

definition rpc_GetConsolidationParams :: "rpc_env \<Rightarrow> 's dataset_service \<Rightarrow> string \<Rightarrow> ('s, pb_ConsolidationParams) answer" where
  "rpc_GetConsolidationParams V S i =
     check_ids V quoted_id [i] (
     backend V ''backend.%w'' (sv_GetConsolidationParams S i) (\<lambda>p. reply (ConsolidationParams_ToProtobuf p)))"

definition rpc_ConfigConsolidation :: "rpc_env \<Rightarrow> 's dataset_service \<Rightarrow> string \<Rightarrow> pb_ConsolidationParams \<Rightarrow> ('s, unit) answer" where
  "rpc_ConfigConsolidation V S i pbp =
     check_ids V quoted_id [i] (
     parsed V [] (NewConsolidationParamsFromProtobuf pbp) (\<lambda>params.
     backend V ''backend.%w'' (sv_ConfigConsolidation S i params) (\<lambda>_. reply ())))"

record pb_Consolidate = cq_JobName :: string
  cq_InstanceId :: string
  cq_LayoutName :: string
  cq_Records :: "string list option"
  cq_Filters :: "pb_Filters option"
  cq_CollapseOnRecordId :: string
  cq_ExecutionLevel :: ExecutionLevel

definition rpc_Consolidate :: "rpc_env \<Rightarrow> 's dataset_service \<Rightarrow> pb_Consolidate \<Rightarrow> ('s, string) answer" where
  "rpc_Consolidate V S req =
     check_ids V (named_id ''Record'') (id_list (cq_Records req)) (
     check_ids V (named_id ''Instance'') [cq_InstanceId req] (
     check_ids V (named_id ''CollapseRecord'') (if cq_CollapseOnRecordId req = [] then [] else [cq_CollapseOnRecordId req]) (
     parsed V ''backend.%w''
       (NewConsolidationJob (re_new V 0) (re_now V) (cq_JobName req) (cq_LayoutName req) (cq_InstanceId req)
          (cq_CollapseOnRecordId req) (cq_ExecutionLevel req)) (\<lambda>job.
     case cq_Records req of
       None \<Rightarrow> (let (fromTime, toTime) = filter_times V (cq_Filters req)
               in with_go (LogMsg (re_now V) INFO ''Consolidate from filters'' job) (\<lambda>job.
                  backend V ''backend.%w'' (sv_ConsolidateFromFilters S job (filter_tags (cq_Filters req)) fromTime toTime) (\<lambda>_.
                  reply (j_ID job))))
     | Some ids \<Rightarrow>
         if ids = [] then newValidationError V ''At least one record must be provided''
         else with_go (LogMsg (re_now V) INFO ''Consolidate from records'' job) (\<lambda>job.
              backend V ''backend.%w'' (sv_ConsolidateFromRecords S job ids) (\<lambda>_. reply (j_ID job)))))))"

section \<open>Jobs\<close>

record 's job_service =
  sv_ListJobs :: "string \<Rightarrow> int \<Rightarrow> int \<Rightarrow> ('s, Job list) call"
  sv_GetJob :: "string \<Rightarrow> int \<Rightarrow> int \<Rightarrow> ('s, Job) call"
  sv_RetryJob :: "string \<Rightarrow> bool \<Rightarrow> ('s, unit) call"
  sv_CancelJob :: "string \<Rightarrow> bool \<Rightarrow> ('s, unit) call"
  sv_ContinueJob :: "string \<Rightarrow> ('s, unit) call"
  sv_CleanJobs :: "string \<Rightarrow> JobState option \<Rightarrow> ('s, int) call"

definition finished_states :: "JobState list" where
  "finished_states = [JobStateDONE, JobStateFAILED, JobStateDONEBUTUNTIDY]"

definition job_state :: "string \<Rightarrow> string + JobState option" where
  "job_state s =
     (if s = [] then Inr None
      else case enum_parse JobState_table s of
             Inl t \<Rightarrow> Inl (''Invalid state: '' @ t)
           | Inr i \<Rightarrow> (case find (\<lambda>x. JobState_code x = i) finished_states of
               None \<Rightarrow> Inl (''Invalid state: must be one of '' @ str_join '', '' (map JobState_String finished_states))
             | Some x \<Rightarrow> Inr (Some x)))"

definition rpc_CleanJobs :: "rpc_env \<Rightarrow> 's job_service \<Rightarrow> string \<Rightarrow> string \<Rightarrow> ('s, int) answer" where
  "rpc_CleanJobs V S nameLike state =
     (case job_state state of
        Inl t \<Rightarrow> newValidationError V t
      | Inr so \<Rightarrow> backend V ''backend.%w'' (sv_CleanJobs S nameLike so) (\<lambda>count. reply (wrap32 count)))"

fun pb_jobs :: "rpc_env \<Rightarrow> Job list \<Rightarrow> gerr + pb_Job list" where
  "pb_jobs V [] = Inr []"
| "pb_jobs V (j # js) =
     (case job_ToProtobuf (re_stamp V) (re_fmtTime V) 0 j of
        Inl e \<Rightarrow> Inl e
      | Inr p \<Rightarrow> (case pb_jobs V js of Inl e \<Rightarrow> Inl e | Inr ps \<Rightarrow> Inr (p # ps)))"

definition rpc_ListJobs :: "rpc_env \<Rightarrow> 's job_service \<Rightarrow> string \<Rightarrow> int \<Rightarrow> int \<Rightarrow> ('s, pb_Job list) answer" where
  "rpc_ListJobs V S nameLike page limit =
     backend V ''backend.%w'' (sv_ListJobs S nameLike page limit) (\<lambda>js.
     parsed V ''toprotobuf: %w'' (pb_jobs V js) reply)"

text \<open>The offset of the logs is a product of 32-bit integers; a negative page or limit counts as 0 in the read.\<close>

definition rpc_GetJob :: "rpc_env \<Rightarrow> 's job_service \<Rightarrow> string \<Rightarrow> int \<Rightarrow> int \<Rightarrow> ('s, pb_Job) answer" where
  "rpc_GetJob V S i logPage logLimit =
     check_ids V plain_id [i] (
     backend V ''backend.%w'' (sv_GetJob S i (max 0 logPage) (max 0 logLimit)) (\<lambda>j.
     parsed V ''toprotobuf: %w'' (job_ToProtobuf (re_stamp V) (re_fmtTime V) (wrap32 (logPage * logLimit)) j) reply))"

definition rpc_RetryJob :: "rpc_env \<Rightarrow> 's job_service \<Rightarrow> string \<Rightarrow> bool \<Rightarrow> ('s, unit) answer" where
  "rpc_RetryJob V S i force = check_ids V plain_id [i] (backend V ''backend.%w'' (sv_RetryJob S i force) (\<lambda>_. reply ()))"

definition rpc_CancelJob :: "rpc_env \<Rightarrow> 's job_service \<Rightarrow> string \<Rightarrow> bool \<Rightarrow> ('s, unit) answer" where
  "rpc_CancelJob V S i force = check_ids V plain_id [i] (backend V ''backend.%w'' (sv_CancelJob S i force) (\<lambda>_. reply ()))"

definition rpc_ContinueJob :: "rpc_env \<Rightarrow> 's job_service \<Rightarrow> string \<Rightarrow> ('s, unit) answer" where
  "rpc_ContinueJob V S i = check_ids V plain_id [i] (backend V ''backend.%w'' (sv_ContinueJob S i) (\<lambda>_. reply ()))"

section \<open>Grids and layouts\<close>

record 's grid_service =
  sv_CreateGrid :: "Grid option \<Rightarrow> ('s, unit) call"
  sv_DeleteGrid :: "string \<Rightarrow> ('s, unit) call"
  sv_ListGrids :: "string \<Rightarrow> ('s, Grid list) call"
  sv_CreateLayout :: "Layout \<Rightarrow> ('s, unit) call"
  sv_DeleteLayout :: "string \<Rightarrow> ('s, unit) call"
  sv_ListLayouts :: "string \<Rightarrow> ('s, Layout list) call"
  sv_FindContainerLayouts :: "string \<Rightarrow> AOI option \<Rightarrow> string list \<Rightarrow> Metadata \<Rightarrow> gtime \<Rightarrow> gtime \<Rightarrow> ('s, string list \<times> string list list) call"
  sv_TileAOI :: "AOI \<Rightarrow> string \<Rightarrow> Layout option \<Rightarrow> ('s, (gerr + cell) list) call"

record pb_Grid = pgr_Name :: string
  pgr_Description :: string
  pgr_Cells :: "pb_Cell list"

text \<open>The parts of a grid received from the stream: the first gives the name, the cells of the others are appended.\<close>

fun receive_grid ::
  "rpc_env \<Rightarrow> 'crs gdal \<Rightarrow> (gerr + pb_Grid option) list \<Rightarrow> Grid option \<Rightarrow> (Grid option \<Rightarrow> ('s, 'b) answer) \<Rightarrow> ('s, 'b) answer" where
  "receive_grid V g [] grid k = k grid"
| "receive_grid V g (Inl e # rs) grid k = refuse V ''backend.CreateGrid'' e"
| "receive_grid V g (Inr None # rs) grid k = (\<lambda>s. Panic ''runtime error: invalid memory address or nil pointer dereference'')"
| "receive_grid V g (Inr (Some p) # rs) grid k =
     with_go (NewGridFromProtobuf g (pgr_Name p) (pgr_Description p) (pgr_Cells p)) (\<lambda>r.
     parsed V [] r (\<lambda>x.
     receive_grid V g rs (Some (case grid of None \<Rightarrow> x | Some y \<Rightarrow> y\<lparr>gr_Cells := gr_Cells y @ gr_Cells x\<rparr>)) k))"

definition rpc_CreateGrid :: "rpc_env \<Rightarrow> 'crs gdal \<Rightarrow> 's grid_service \<Rightarrow> (gerr + pb_Grid option) list \<Rightarrow> ('s, unit) answer" where
  "rpc_CreateGrid V g S parts =
     receive_grid V g parts None (\<lambda>grid. backend V ''backend.%w'' (sv_CreateGrid S grid) (\<lambda>_. reply ()))"

definition rpc_DeleteGrid :: "rpc_env \<Rightarrow> 's grid_service \<Rightarrow> string \<Rightarrow> ('s, unit) answer" where
  "rpc_DeleteGrid V S name = backend V ''backend.%w'' (sv_DeleteGrid S name) (\<lambda>_. reply ())"

definition rpc_ListGrids :: "rpc_env \<Rightarrow> 's grid_service \<Rightarrow> string \<Rightarrow> ('s, (string \<times> string) list) answer" where
  "rpc_ListGrids V S nameLike = backend V ''backend.%w'' (sv_ListGrids S nameLike) (\<lambda>gs. reply (map Grid_ToProtobuf gs))"

definition rpc_CreateLayout :: "rpc_env \<Rightarrow> 's grid_service \<Rightarrow> pb_Layout \<Rightarrow> ('s, unit) answer" where
  "rpc_CreateLayout V S pbl =
     parsed V [] (NewLayoutFromProtobuf (re_iterators V) pbl False) (\<lambda>l.
     backend V ''backend.%w'' (sv_CreateLayout S l) (\<lambda>_. reply ()))"

definition rpc_DeleteLayout :: "rpc_env \<Rightarrow> 's grid_service \<Rightarrow> string \<Rightarrow> ('s, unit) answer" where
  "rpc_DeleteLayout V S name = backend V ''backend.%w'' (sv_DeleteLayout S name) (\<lambda>_. reply ())"

definition rpc_ListLayouts :: "rpc_env \<Rightarrow> 's grid_service \<Rightarrow> string \<Rightarrow> ('s, pb_Layout list) answer" where
  "rpc_ListLayouts V S nameLike = backend V ''backend.%w'' (sv_ListLayouts S nameLike) (\<lambda>ls. reply (map Layout_ToProtobuf ls))"

text \<open>Without records the filters are dereferenced: a request with neither panics.\<close>

record pb_FiltersWithAOI = fa_Filters :: "pb_Filters option"
  fa_Aoi :: "coords option"

record pb_FindLayouts = fl_InstanceId :: string
  fl_Records :: "string list option"
  fl_Filters :: "pb_FiltersWithAOI option"

definition layout_aoi :: "rpc_env \<Rightarrow> pb_FiltersWithAOI \<Rightarrow> (AOI option \<Rightarrow> ('s, 'b) answer) \<Rightarrow> ('s, 'b) answer" where
  "layout_aoi V f k =
     (case fa_Aoi f of
        None \<Rightarrow> k None
      | Some polygons \<Rightarrow> (case new_aoi V polygons False of
          Inl e \<Rightarrow> newValidationError V (''invalid aoi: '' @ ErrorMsg e)
        | Inr a \<Rightarrow> k (Some a)))"

definition layout_filters ::
  "rpc_env \<Rightarrow> pb_FindLayouts \<Rightarrow> (AOI option \<Rightarrow> gtime \<times> gtime \<Rightarrow> ('s, 'b) answer) \<Rightarrow> ('s, 'b) answer" where
  "layout_filters V req k =
     (case fl_Records req of
        Some ids \<Rightarrow> if ids = [] then newValidationError V ''invalid record id list: cannot be empty'' else k None (zero_time, zero_time)
      | None \<Rightarrow> (case fl_Filters req of
          None \<Rightarrow> (\<lambda>s. Panic ''runtime error: invalid memory address or nil pointer dereference'')
        | Some f \<Rightarrow> layout_aoi V f (\<lambda>aoi. k aoi (filter_times V (fa_Filters f)))))"

definition layout_pairs :: "string list \<Rightarrow> string list list \<Rightarrow> (string \<times> string list go) list" where
  "layout_pairs layouts containers =
     map (\<lambda>(i, l). (l, if i < length containers then Ret (containers ! i) else Panic ''runtime error: index out of range''))
       (zip [0..<length layouts] layouts)"

definition rpc_FindContainerLayouts ::
  "rpc_env \<Rightarrow> 's grid_service \<Rightarrow> (nat \<Rightarrow> gerr option) \<Rightarrow> pb_FindLayouts \<Rightarrow> 's \<Rightarrow> ((string \<times> string list) sent \<times> 's) go" where
  "rpc_FindContainerLayouts V S send req =
     streamed (
       (case re_uuid V (fl_InstanceId req) of
          Some t \<Rightarrow> newValidationError V (''invalid Instance.uuid '' @ fl_InstanceId req @ '': '' @ t)
        | None \<Rightarrow>
            layout_filters V req (\<lambda>aoi (fromTime, toTime).
            backend V ''backend.%w''
              (sv_FindContainerLayouts S (fl_InstanceId req) aoi (id_list (fl_Records req))
                 (filter_tags (case fl_Filters req of None \<Rightarrow> None | Some f \<Rightarrow> fa_Filters f)) fromTime toTime) (\<lambda>(layouts, containers).
            with_go (send_all V send ''backend.FindContainerLayouts.send: %w''
                       (\<lambda>(l, c). go_bind c (\<lambda>c. Ret (l, c))) 0 (layout_pairs layouts containers)) reply))))"

section \<open>Tilings\<close>

record pb_Tile = pt_Transform :: Affine
  pt_Width :: int
  pt_Height :: int
  pt_Crs :: string

definition StreamTilesBatchSize :: nat where "StreamTilesBatchSize = 1000"

definition pb_tile :: "cell \<Rightarrow> string \<Rightarrow> pb_Tile" where
  "pb_tile c crs =
     \<lparr>pt_Transform = cell_PixelToCRS c, pt_Width = wrap32 (cell_SizeX c), pt_Height = wrap32 (cell_SizeY c), pt_Crs = crs\<rparr>"

text \<open>The tiles are sent when a batch is full; the last batch, possibly empty, is sent at the end.\<close>

definition send_batch ::
  "rpc_env \<Rightarrow> (nat \<Rightarrow> gerr option) \<Rightarrow> nat \<Rightarrow> pb_Tile list \<Rightarrow> (pb_Tile list) sent go \<Rightarrow> (pb_Tile list) sent go" where
  "send_batch V send n tiles rest =
     (case send n of
        Some e \<Rightarrow> go_bind (formatError V ''backend.TileAOI.send: %w'' e) (\<lambda>x. Ret ([], Some x))
      | None \<Rightarrow> go_bind rest (\<lambda>(ms, eo). Ret (tiles # ms, eo)))"

fun send_tiles ::
  "rpc_env \<Rightarrow> (nat \<Rightarrow> gerr option) \<Rightarrow> nat \<Rightarrow> pb_Tile list \<Rightarrow> (gerr + cell) list \<Rightarrow> (pb_Tile list) sent go" where
  "send_tiles V send n tiles [] = send_batch V send n tiles (Ret ([], None))"
| "send_tiles V send n tiles (Inl e # cs) = go_bind (formatError V ''backend.%w'' e) (\<lambda>x. Ret ([], Some x))"
| "send_tiles V send n tiles (Inr c # cs) =
     (case cell_WKT c of
        Inl e \<Rightarrow> go_bind (formatError V ''backend.%w'' e) (\<lambda>x. Ret ([], Some x))
      | Inr crs \<Rightarrow>
          let tiles = tiles @ [pb_tile c crs]
          in if length tiles = StreamTilesBatchSize
             then send_batch V send n tiles (send_tiles V send (Suc n) [] cs)
             else send_tiles V send n tiles cs)"

record pb_TileAOI = ta_Aoi :: coords
  ta_LayoutName :: string
  ta_Layout :: "pb_Layout option"

definition rpc_TileAOI ::
  "rpc_env \<Rightarrow> 's grid_service \<Rightarrow> (nat \<Rightarrow> gerr option) \<Rightarrow> pb_TileAOI \<Rightarrow> 's \<Rightarrow> ((pb_Tile list) sent \<times> 's) go" where
  "rpc_TileAOI V S send req =
     streamed (parsed V [] (new_aoi V (ta_Aoi req) False) (\<lambda>aoi.
     parsed V [] (case ta_Layout req of
                    None \<Rightarrow> Inr None
                  | Some pbl \<Rightarrow> (case NewLayoutFromProtobuf (re_iterators V) pbl True of Inl e \<Rightarrow> Inl e | Inr l \<Rightarrow> Inr (Some l))) (\<lambda>layout.
     backend V ''backend.%w'' (sv_TileAOI S aoi (if layout = None then ta_LayoutName req else []) layout) (\<lambda>cells.
     with_go (send_tiles V send 0 [] cells) reply))))"

definition rpc_Version :: "('s, string) answer" where
  "rpc_Version = reply ''1.0.3''"

end
