(* ===== verification/RpcCube.thy ===== *)
theory RpcCube
  imports RpcService
begin

text \<open>
  The gRPC layer: internal/grpc/service.go, the handlers that serve images, and internal/utils/compress.go.  The
  deflate writer is the parameter \<open>deflater\<close> over its own state: the bytes that writing and flushing a chunk, or
  closing, appends to the buffer.
\<close>

section \<open>Compression\<close>

record 'z deflater = dz_new :: 'z
  dz_Write :: "8 word list \<Rightarrow> 'z \<Rightarrow> gerr option \<times> 8 word list \<times> 'z"
  dz_Close :: "'z \<Rightarrow> gerr option \<times> 8 word list \<times> 'z"

text \<open>One turn of the loop writes the chunk read at the turn before (\<open>prev\<close>: none at first or after a failed read),
  then reads the next one; at the end of the reader (the empty list) the writer is closed.  An element is sent when
  the buffer holds a chunk, at the end, and with an error.\<close>

type_synonym chunk_elem = "8 word list \<times> gerr option"

definition flush_elem :: "nat \<Rightarrow> bool \<Rightarrow> 8 word list \<Rightarrow> gerr option \<Rightarrow> chunk_elem list \<times> 8 word list" where
  "flush_elem chunkSize ends buf err =
     (if length buf \<ge> chunkSize \<or> ends then ([(buf, err)], [])
      else if err \<noteq> None then ([([], err)], buf) else ([], buf))"

definition write_prev :: "'z deflater \<Rightarrow> chunk option \<Rightarrow> 8 word list \<Rightarrow> 'z \<Rightarrow> gerr option \<times> 8 word list \<times> 'z" where
  "write_prev D prev buf z =
     (case prev of
        None \<Rightarrow> (None, buf, z)
      | Some EOF \<Rightarrow> (None, buf, z)
      | Some (ChunkErr e) \<Rightarrow> (Some e, buf, z)
      | Some (Chunk c) \<Rightarrow> (case dz_Write D c z of (err, out, z) \<Rightarrow> (err, buf @ out, z)))"

fun Compress_loop :: "'z deflater \<Rightarrow> nat \<Rightarrow> chunk option \<Rightarrow> 8 word list \<Rightarrow> 'z \<Rightarrow> chunk list \<Rightarrow> chunk_elem list" where
  "Compress_loop D n prev buf z [] =
     (let (err, buf, z) = write_prev D prev buf z; (cerr, out, z) = dz_Close D z
      in fst (flush_elem n True (buf @ out) (case cerr of None \<Rightarrow> err | Some e \<Rightarrow> Some e)))"
| "Compress_loop D n prev buf z (c # cs) =
     (let (err, buf, z) = write_prev D prev buf z; (elems, buf) = flush_elem n False buf err
      in elems @ Compress_loop D n (Some c) buf z cs)"

definition Compress :: "'z deflater \<Rightarrow> nat \<Rightarrow> chunk list \<Rightarrow> chunk_elem list" where
  "Compress D chunkSize chunks = Compress_loop D chunkSize None [] (dz_new D) chunks"

text \<open>What a reader yields before the end of its image, up to a number of reads: a read that fails fails for ever.\<close>

fun read_chunks :: "nat \<Rightarrow> nat \<Rightarrow> reader \<Rightarrow> chunk list go" where
  "read_chunks 0 n r = Ret []"
| "read_chunks (Suc k) n r =
     go_bind (reader_Next n r) (\<lambda>(c, r). if c = EOF then Ret [] else go_bind (read_chunks k n r) (\<lambda>cs. Ret (c # cs)))"

definition number_of_parts :: "nat \<Rightarrow> int \<Rightarrow> int" where
  "number_of_parts chunkSize len = wrap32 (truncated_quot (len + int chunkSize - 1) (int chunkSize))"

text \<open>The client asks for \<open>NbParts\<close> elements at most: twice as many reads, and two, produce them.\<close>

definition compress_reader :: "'z deflater \<Rightarrow> nat \<Rightarrow> reader \<Rightarrow> reader go" where
  "compress_reader D chunkSize r =
     go_bind (reader_Len r) (\<lambda>len.
     go_bind (read_chunks (2 * nat (number_of_parts chunkSize len) + 2) chunkSize r) (\<lambda>cs.
       Ret (ChunkChan \<lparr>ch_length = len, ch_chunks = Compress D chunkSize cs\<rparr>)))"

definition compress_slice :: "'z deflater \<Rightarrow> int \<Rightarrow> nat \<Rightarrow> CubeSlice \<Rightarrow> CubeSlice go" where
  "compress_slice D level chunkSize sl =
     (case cu_Image sl of
        None \<Rightarrow> Ret sl
      | Some b \<Rightarrow> (case bm_Chunks b of
          None \<Rightarrow> Ret sl
        | Some r \<Rightarrow>
            if level = - 3 then Ret sl
            else go_bind (compress_reader D chunkSize r) (\<lambda>r. Ret (sl\<lparr>cu_Image := Some (b\<lparr>bm_Chunks := Some r\<rparr>)\<rparr>))))"

section \<open>The header of an image\<close>

record pb_ImageHeader = ih_Records :: "pb_Record list"
  ih_InternalsMeta :: "pb_InternalMeta list"
  ih_Shape :: "(int \<times> int \<times> int) option"
  ih_Dtype :: int
  ih_Data :: "8 word list"
  ih_NbParts :: int
  ih_Size :: int
  ih_BigEndian :: bool
  ih_Error :: string
  ih_Compression :: bool

fun rpc_text :: "rpc_error \<Rightarrow> string" where
  "rpc_text (Status c m d) = ''rpc error: code = '' @ (case c of InvalidArgument \<Rightarrow> ''InvalidArgument'' | NotFound \<Rightarrow> ''NotFound''
       | AlreadyExists \<Rightarrow> ''AlreadyExists'' | FailedPrecondition \<Rightarrow> ''FailedPrecondition'' | UnknownCode \<Rightarrow> ''Unknown''
       | Unavailable \<Rightarrow> ''Unavailable'') @ '' desc = '' @ m"
| "rpc_text (RawError s) = s"

definition chunk_error :: "chunk \<Rightarrow> gerr option" where
  "chunk_error c = (case c of EOF \<Rightarrow> Some (PlainE ''EOF'') | ChunkErr e \<Rightarrow> Some e | Chunk _ \<Rightarrow> None)"

definition chunk_bytes :: "chunk \<Rightarrow> 8 word list" where
  "chunk_bytes c = (case c of Chunk b \<Rightarrow> b | _ \<Rightarrow> [])"

text \<open>The first chunk travels in the header; the image goes on from there.\<close>

definition image_header ::
  "rpc_env \<Rightarrow> nat \<Rightarrow> pb_ImageHeader \<Rightarrow> bitmap \<Rightarrow> (pb_ImageHeader \<times> bitmap) go" where
  "image_header V chunkSize h b =
     go_bind (Bitmap_Len b) (\<lambda>len.
     let h = h\<lparr>ih_Shape := Some (wrap32 (bm_Bands b), wrap32 (bm_SizeX b), wrap32 (bm_SizeY b)), ih_Dtype := DType_code (bm_DType b),
               ih_NbParts := number_of_parts chunkSize len, ih_Size := len, ih_BigEndian := bm_BigEndian b\<rparr>
     in case bm_Chunks b of
          None \<Rightarrow> Ret (h, b)
        | Some r \<Rightarrow> go_bind (reader_Next chunkSize r) (\<lambda>(c, r).
            let b = b\<lparr>bm_Chunks := Some r\<rparr>; h = h\<lparr>ih_Data := chunk_bytes c\<rparr>
            in case chunk_error c of
                 None \<Rightarrow> Ret (h, b)
               | Some e \<Rightarrow> go_bind (formatError V ''backend.GetCube.%w'' e) (\<lambda>x. Ret (h\<lparr>ih_Error := rpc_text x\<rparr>, b))))"

definition getCubeCreateHeader ::
  "rpc_env \<Rightarrow> nat \<Rightarrow> bool \<Rightarrow> CubeSlice \<Rightarrow> (pb_ImageHeader \<times> CubeSlice) go" where
  "getCubeCreateHeader V chunkSize compression sl =
     go_bind (go_map (Record_ToProtobuf False) (cu_Records sl)) (\<lambda>rs.
     let h = \<lparr>ih_Records = rs, ih_InternalsMeta = map internal_meta (cu_DatasetsMeta sl), ih_Shape = None, ih_Dtype = 0, ih_Data = [],
              ih_NbParts = 0, ih_Size = 0, ih_BigEndian = False, ih_Error = [], ih_Compression = compression\<rparr>
     in case cu_Err sl of
          Some e \<Rightarrow> go_bind (formatError V ''backend.GetCube.%w'' e) (\<lambda>x. Ret (h\<lparr>ih_Error := rpc_text x\<rparr>, sl))
        | None \<Rightarrow> (case cu_Image sl of
            None \<Rightarrow> Panic ''runtime error: invalid memory address or nil pointer dereference''
          | Some b \<Rightarrow> go_bind (image_header V chunkSize h b) (\<lambda>(h, b). Ret (h, sl\<lparr>cu_Image := Some b\<rparr>))))"

section \<open>The request\<close>

record pb_GetCube = gq_Records :: "string list option"
  gq_GroupedRecords :: "string list list option"
  gq_Filters :: "pb_Filters option"
  gq_InstancesId :: "string list"
  gq_Crs :: string
  gq_PixToCrs :: "Affine option"
  gq_Size :: "(int \<times> int) option"
  gq_CompressionLevel :: int
  gq_HeadersOnly :: bool
  gq_Format :: string
  gq_ResamplingAlg :: int
  gq_ProtocolV11X :: bool

record 'crs cubeInfo = cb_groupedRecordsID :: "string list list"
  cb_instancesID :: "string list"
  cb_pixToCRS :: Affine
  cb_crs :: 'crs
  cb_width :: int
  cb_height :: int

definition requested_transform :: "Affine option \<Rightarrow> Affine" where
  "requested_transform t =
     (case t of None \<Rightarrow> NewAffine (Fin 0) (Fin 0) (Fin 0) (Fin 0) (Fin 0) (Fin 0) | Some t \<Rightarrow> t)"

definition request_groups :: "pb_GetCube \<Rightarrow> string list list" where
  "request_groups req =
     map (\<lambda>i. [i]) (id_list (gq_Records req)) @ (case gq_GroupedRecords req of None \<Rightarrow> [] | Some gs \<Rightarrow> gs)"

definition prepareGetCube ::
  "rpc_env \<Rightarrow> 'crs gdal \<Rightarrow> pb_GetCube \<Rightarrow> ('crs cubeInfo \<Rightarrow> ('s, 'b) answer) \<Rightarrow> ('s, 'b) answer" where
  "prepareGetCube V g req k =
     (if gq_InstancesId req = [] then newValidationError V ''At least one instance must be provided''
      else
        check_ids V (named_id ''Record'') (concat (request_groups req)) (
        check_ids V (named_id ''Instance'') (gq_InstancesId req) (
        let t = requested_transform (gq_PixToCrs req); (width, height) = (case gq_Size req of None \<Rightarrow> (0, 0) | Some s \<Rightarrow> s)
        in if \<not> IsInvertible t then newValidationError V ''Invalid pixToCRS transform: not invertible''
           else with_go (CRSFromUserInput g (gq_Crs req)) (\<lambda>r. case r of
               Inl e \<Rightarrow> newValidationError V (''Invalid crs: '' @ gq_Crs req @ '' ('' @ ErrorMsg e @ '')'')
             | Inr (crs, _) \<Rightarrow>
                 if width \<le> 0 \<or> height \<le> 0 then newValidationError V (''Invalid shape: '' @ itoa width @ ''x'' @ itoa height)
                 else k \<lparr>cb_groupedRecordsID = request_groups req, cb_instancesID = gq_InstancesId req, cb_pixToCRS = t, cb_crs = crs,
                         cb_width = width, cb_height = height\<rparr>))))"

record ('s, 'crs) cube_service =
  sv_GetXYZTile :: "string \<Rightarrow> string list \<Rightarrow> int \<Rightarrow> int \<Rightarrow> int \<Rightarrow> float64 \<Rightarrow> float64 \<Rightarrow> ('s, 8 word list) call"
  sv_GetXYZTileFromFilters :: "string \<Rightarrow> Metadata \<Rightarrow> gtime \<Rightarrow> gtime \<Rightarrow> int \<Rightarrow> int \<Rightarrow> int \<Rightarrow> float64 \<Rightarrow> float64 \<Rightarrow> ('s, 8 word list) call"
  sv_GetCubeFromRecords :: "string list list \<Rightarrow> string list \<Rightarrow> 'crs \<Rightarrow> Affine \<Rightarrow> int \<Rightarrow> int \<Rightarrow> GetCubeOptions \<Rightarrow> ('s, CubeInfo \<times> CubeSlice list) call"
  sv_GetCubeFromFilters :: "Metadata \<Rightarrow> gtime \<Rightarrow> gtime \<Rightarrow> string list \<Rightarrow> 'crs \<Rightarrow> Affine \<Rightarrow> int \<Rightarrow> int \<Rightarrow> GetCubeOptions \<Rightarrow> ('s, CubeInfo \<times> CubeSlice list) call"

section \<open>Serving the images\<close>

datatype cube_message =
    GlobalHeader int int int pb_DataFormat "Affine option" string
  | ImageHeader pb_ImageHeader
  | ImageChunk int "8 word list"

text \<open>\<open>stream_send n m rest\<close> sends the message of rank \<open>n\<close> and goes on.\<close>

definition stream_send ::
  "rpc_env \<Rightarrow> (nat \<Rightarrow> gerr option) \<Rightarrow> string \<Rightarrow> nat \<Rightarrow> 'm \<Rightarrow> (nat \<Rightarrow> 'm sent go) \<Rightarrow> 'm sent go" where
  "stream_send V send format n m rest =
     (case send n of
        Some e \<Rightarrow> go_bind (formatError V format e) (\<lambda>x. Ret ([], Some x))
      | None \<Rightarrow> go_bind (rest (Suc n)) (\<lambda>(ms, eo). Ret (m # ms, eo)))"

definition compressed_chunks_size :: nat where "compressed_chunks_size = 512 * 1024"

text \<open>The remaining parts, \<open>k\<close> of them, the first being the part \<open>i\<close>.\<close>

fun send_chunks ::
  "rpc_env \<Rightarrow> (nat \<Rightarrow> gerr option) \<Rightarrow> nat \<Rightarrow> bool \<Rightarrow> nat \<Rightarrow> int \<Rightarrow> nat \<Rightarrow> reader \<Rightarrow> (nat \<Rightarrow> cube_message sent go) \<Rightarrow> cube_message sent go" where
  "send_chunks V send chunkSize v11 0 i n r rest = rest n"
| "send_chunks V send chunkSize v11 (Suc k) i n r rest =
     go_bind (reader_Next chunkSize r) (\<lambda>(c, r). case chunk_error c of
         Some e \<Rightarrow> go_bind (formatError V ''backend.GetCube.SendChunks.%w'' e) (\<lambda>x. Ret ([], Some x))
       | None \<Rightarrow> stream_send V send ''backend.GetCube.SendChunks.%w'' n (ImageChunk i (chunk_bytes c)) (\<lambda>n.
           if chunk_bytes c = [] \<and> v11 then rest n else send_chunks V send chunkSize v11 k (i + 1) n r rest))"

definition send_slice ::
  "rpc_env \<Rightarrow> 'z deflater \<Rightarrow> (nat \<Rightarrow> gerr option) \<Rightarrow> nat \<Rightarrow> pb_GetCube \<Rightarrow> CubeSlice \<Rightarrow> nat \<Rightarrow> (nat \<Rightarrow> cube_message sent go) \<Rightarrow> cube_message sent go" where
  "send_slice V D send chunkSize req sl n rest =
     go_bind (compress_slice D (gq_CompressionLevel req) chunkSize sl) (\<lambda>sl.
     go_bind (getCubeCreateHeader V chunkSize (gq_CompressionLevel req \<noteq> - 3) sl) (\<lambda>(h, sl).
     stream_send V send ''backend.GetCube.SendHeader%w'' n (ImageHeader h) (\<lambda>n.
       if ih_NbParts h \<le> 1 then rest n
       else (case cu_Image sl of
               Some b \<Rightarrow> (case bm_Chunks b of
                   Some r \<Rightarrow> send_chunks V send chunkSize (gq_ProtocolV11X req) (nat (ih_NbParts h - 1)) 1 n r rest
                 | None \<Rightarrow> Panic ''runtime error: invalid memory address or nil pointer dereference'')
             | None \<Rightarrow> Panic ''runtime error: invalid memory address or nil pointer dereference''))))"

text \<open>\<open>deadline\<close>: when the context ends, the slices that pass before, and its error.\<close>

fun send_slices ::
  "rpc_env \<Rightarrow> 'z deflater \<Rightarrow> (nat \<Rightarrow> gerr option) \<Rightarrow> nat \<Rightarrow> pb_GetCube \<Rightarrow> (nat \<times> gerr) option \<Rightarrow> CubeSlice list \<Rightarrow> nat \<Rightarrow> cube_message sent go" where
  "send_slices V D send chunkSize req (Some (0, e)) sls n = Ret ([], Some (RawError (ErrorMsg e)))"
| "send_slices V D send chunkSize req (Some (Suc d, e)) [] n = Ret ([], Some (RawError (ErrorMsg e)))"
| "send_slices V D send chunkSize req None [] n = Ret ([], None)"
| "send_slices V D send chunkSize req (Some (Suc d, e)) (sl # sls) n =
     send_slice V D send chunkSize req sl n (send_slices V D send chunkSize req (Some (d, e)) sls)"
| "send_slices V D send chunkSize req None (sl # sls) n =
     send_slice V D send chunkSize req sl n (send_slices V D send chunkSize req None sls)"

definition cube_options_of :: "pb_GetCube \<Rightarrow> GetCubeOptions" where
  "cube_options_of req =
     \<lparr>go_Format = gq_Format req, go_HeadersOnly = gq_HeadersOnly req, go_Resampling = Resampling_of (gq_ResamplingAlg req),
      go_Predownload = False, go_FilterPartialImagePc = 0\<rparr>"

definition call_cube ::
  "rpc_env \<Rightarrow> ('s, 'crs) cube_service \<Rightarrow> pb_GetCube \<Rightarrow> 'crs cubeInfo \<Rightarrow> (CubeInfo \<times> CubeSlice list \<Rightarrow> ('s, 'b) answer) \<Rightarrow> ('s, 'b) answer" where
  "call_cube V S req ci k =
     (if gq_Records req = None \<and> gq_GroupedRecords req = None
      then (let (fromTime, toTime) = filter_times V (gq_Filters req)
            in backend V ''backend.%w''
                 (sv_GetCubeFromFilters S (filter_tags (gq_Filters req)) fromTime toTime (cb_instancesID ci) (cb_crs ci) (cb_pixToCRS ci)
                    (cb_width ci) (cb_height ci) (cube_options_of req)) k)
      else if cb_groupedRecordsID ci = [] \<or> hd (cb_groupedRecordsID ci) = []
      then newValidationError V ''At least one record must be provided''
      else backend V ''backend.%w''
             (sv_GetCubeFromRecords S (cb_groupedRecordsID ci) (cb_instancesID ci) (cb_crs ci) (cb_pixToCRS ci)
                (cb_width ci) (cb_height ci) (cube_options_of req)) k)"

definition rpc_GetCube ::
  "rpc_env \<Rightarrow> 'crs gdal \<Rightarrow> 'z deflater \<Rightarrow> ('s, 'crs) cube_service \<Rightarrow> (nat \<Rightarrow> gerr option) \<Rightarrow> (nat \<times> gerr) option \<Rightarrow> pb_GetCube \<Rightarrow>
   's \<Rightarrow> (cube_message sent \<times> 's) go" where
  "rpc_GetCube V g D S send deadline req =
     streamed (
       if gq_CompressionLevel req < - 3 \<or> gq_CompressionLevel req > 9 then newValidationError V ''CompressionLevel must be in [-3, 9]''
       else prepareGetCube V g req (\<lambda>ci.
            call_cube V S req ci (\<lambda>(info, slices).
            with_go (stream_send V send ''backend.GetCube.%w'' 0
                       (GlobalHeader (ci_NbImages info) (ci_NbDatasets info) (Resampling_code (ci_Resampling info))
                          (DataFormat_ToProtobuf (ci_RefDataFormat info)) (gq_PixToCrs req) (gq_Crs req))
                       (send_slices V D send compressed_chunks_size req deadline slices)) reply)))"

definition humanise :: "int \<Rightarrow> string" where
  "humanise d =
     (if d < 10 * 1024 then itoa d
      else if d < 10 * 1024 * 1024 then itoa (truncated_quot d 1024) @ ''k''
      else if d < 10 * 1024 * 1024 * 1024 then itoa (truncated_quot (truncated_quot d 1024) 1024) @ ''M''
      else itoa (truncated_quot (truncated_quot (truncated_quot d 1024) 1024) 1024) @ ''G'')"

section \<open>Tiles\<close>

record pb_GetTile = gt_InstanceId :: string
  gt_Records :: "string list option"
  gt_Filters :: "pb_Filters option"
  gt_X :: int
  gt_Y :: int
  gt_Z :: int
  gt_Min :: float64
  gt_Max :: float64

definition rpc_GetXYZTile :: "rpc_env \<Rightarrow> ('s, 'crs) cube_service \<Rightarrow> pb_GetTile \<Rightarrow> ('s, 8 word list) answer" where
  "rpc_GetXYZTile V S req =
     check_ids V (named_id ''Instance'') [gt_InstanceId req] (
     case gt_Records req of
       Some ids \<Rightarrow>
         if ids = [] then newValidationError V ''At least one record must be provided''
         else check_ids V (named_id ''Record'') ids (
              backend V ''backend.%w''
                (sv_GetXYZTile S (gt_InstanceId req) ids (gt_X req) (gt_Y req) (gt_Z req) (gt_Min req) (gt_Max req)) reply)
     | None \<Rightarrow> (case gt_Filters req of
         Some f \<Rightarrow> (let (fromTime, toTime) = filter_times V (Some f)
                   in backend V ''backend.%w''
                        (sv_GetXYZTileFromFilters S (gt_InstanceId req) (fi_Tags f) fromTime toTime (gt_X req) (gt_Y req) (gt_Z req)
                           (gt_Min req) (gt_Max req)) reply)
       | None \<Rightarrow> (\<lambda>s. Ret (Inl (RawError ''either record ids or record filters must be provided''), s))))"

end
