(* ===== verification/RpcProps.thy ===== *)
theory RpcProps
  imports RpcService BitmapProps
begin

text \<open>
  What the gRPC handlers promise whatever the service does: errors become bounded answers with the code of their
  cause, a request with a malformed identifier never reaches the service, and the tiles of an area are streamed in
  full batches, each once.
\<close>

definition sample_rpc :: rpc_env where
  "sample_rpc =
     \<lparr>re_uuid = (\<lambda>i. if length i = 2 then None else Some (''invalid UUID length: '' @ itoa (int (length i)))),
      re_type = (\<lambda>_. ''*errors.errorString''), re_time = (\<lambda>_. None), re_points = (\<lambda>_. []), re_iterators = (\<lambda>_. None),
      re_stamp = (\<lambda>_. None), re_fmtTime = (\<lambda>_. []), re_new = (\<lambda>n. ''u'' @ nat_digits n), re_now = 0\<rparr>"

section \<open>Errors\<close>

text \<open>The details that the constructors of an error give it.\<close>

fun details_ok :: "gerr \<Rightarrow> bool" where
  "details_ok (GeocubeE EntityNotFound d ds) \<longleftrightarrow> length ds = 3"
| "details_ok (GeocubeE EntityAlreadyExists d ds) \<longleftrightarrow> length ds = 3"
| "details_ok (GeocubeE DependencyStillExists d ds) \<longleftrightarrow> length ds = 4"
| "details_ok _ \<longleftrightarrow> True"

lemma constructors_details_ok [simp]:
  "details_ok (NewValidationError d)" "details_ok (NewEntityNotFound a b c d)" "details_ok (NewEntityAlreadyExists a b c d)"
  "details_ok (NewDependencyStillExists a b c d e)" "details_ok (NewUnhandledEvent d)" "details_ok (NewShouldNeverHappen d)"
  by (simp_all add: NewValidationError_def NewEntityNotFound_def NewEntityAlreadyExists_def NewDependencyStillExists_def
    NewUnhandledEvent_def NewShouldNeverHappen_def)

lemma limit_size_bound: "length (limit_size s n) \<le> n + 5"
  by (simp add: limit_size_def)

fun code_of :: "ErrorCode \<Rightarrow> rpc_code" where
  "code_of EntityValidationError = InvalidArgument"
| "code_of EntityNotFound = NotFound"
| "code_of EntityAlreadyExists = AlreadyExists"
| "code_of DependencyStillExists = FailedPrecondition"
| "code_of UnhandledEvent = FailedPrecondition"
| "code_of ShouldNeverHappen = UnknownCode"

fun message_of :: "rpc_error \<Rightarrow> string" where
  "message_of (Status c m d) = m"
| "message_of (RawError m) = m"

fun details_of :: "rpc_error \<Rightarrow> string list" where
  "details_of (Status c m (Some r)) = [ri_Owner r, ri_ResourceType r, ri_ResourceName r]"
| "details_of _ = []"

definition answers_code :: "gerr \<Rightarrow> rpc_error \<Rightarrow> bool" where
  "answers_code e x \<longleftrightarrow>
     (case AsGeocubeError e of
        Some (GeocubeE c d ds) \<Rightarrow> (\<exists>m r. x = Status (code_of c) m r)
      | _ \<Rightarrow> if Temporary e then \<exists>m r. x = Status Unavailable m r else \<exists>m. x = RawError m)"

lemma detail_text_in: "i < int (length ds) \<Longrightarrow> 0 \<le> i \<Longrightarrow> \<exists>s. detail_text ds i = Ret s \<and> length s \<le> 1005"
  using limit_size_bound [of "ds ! nat i" detail_size_limit] by (simp add: detail_text_def Detail_def detail_size_limit_def)

lemma geocube_status_bounded:
  assumes "details_ok (GeocubeE c d ds)" "length m \<le> 3005"
  shows "\<exists>x. geocube_status m (GeocubeE c d ds) = Ret x \<and> length (message_of x) \<le> 3005 \<and>
    (\<forall>t \<in> set (details_of x). length t \<le> 1005) \<and> (\<exists>m r. x = Status (code_of c) m r)"
proof (cases c)
  case EntityValidationError
  with assms(2) show ?thesis using limit_size_bound [of d msg_size_limit] by (simp add: msg_size_limit_def)
next
  case EntityNotFound
  with assms detail_text_in [of 0 ds] detail_text_in [of 2 ds] show ?thesis by auto
next
  case EntityAlreadyExists
  with assms detail_text_in [of 0 ds] detail_text_in [of 2 ds] show ?thesis by auto
next
  case DependencyStillExists
  with assms detail_text_in [of 0 ds] detail_text_in [of 1 ds] detail_text_in [of 3 ds] show ?thesis by auto
qed (use assms in auto)

lemma AsGeocubeError_cases: "AsGeocubeError e = None \<or> (\<exists>c d ds. AsGeocubeError e = Some (GeocubeE c d ds) \<and> GeocubeE c d ds \<in> set (err_chain e))"
proof (cases "AsGeocubeError e")
  case (Some g)
  then have "is_geocube g" "g \<in> set (err_chain e)" by (auto simp: AsGeocubeError_def find_Some_iff)
  with Some show ?thesis by (cases g) auto
qed simp

text \<open>C30: every error of the service becomes an answer, whatever its text: the handler does not panic, the message has at most
  3005 characters and each detail 1005 (the limits of 3000 and 1000 with the mark of a cut), and the code is that of the geocube
  error in the chain of causes, Unavailable for another temporary error, or the text of the error.\<close>

theorem error_answers_are_bounded:
  assumes "\<forall>g \<in> set (err_chain e). details_ok g"
  shows "\<exists>x. formatError V format e = Ret x \<and> length (message_of x) \<le> 3005 \<and> (\<forall>t \<in> set (details_of x). length t \<le> 1005) \<and> answers_code e x"
proof (cases "AsGeocubeError e")
  case None
  then show ?thesis
    using limit_size_bound [of "ErrorMsg e" msg_size_limit] limit_size_bound [of "sprintf_error V format e" msg_size_limit]
    by (simp add: formatError_def answers_code_def msg_size_limit_def)
next
  case (Some g)
  then obtain c d ds where g: "g = GeocubeE c d ds" "GeocubeE c d ds \<in> set (err_chain e)" using AsGeocubeError_cases [of e] by auto
  define m where "m = limit_size (d @ (if Temporary e then '' (this error may be temporary)'' else [])) msg_size_limit"
  have "length m \<le> msg_size_limit + 5" unfolding m_def by (rule limit_size_bound)
  then have "length m \<le> 3005" by (simp add: msg_size_limit_def)
  with geocube_status_bounded [of c d ds m] assms g(2) obtain x where
    "geocube_status m (GeocubeE c d ds) = Ret x" "length (message_of x) \<le> 3005" "\<forall>t \<in> set (details_of x). length t \<le> 1005"
    "\<exists>m r. x = Status (code_of c) m r" by auto
  then show ?thesis using Some g(1) by (simp add: formatError_def answers_code_def m_def)
qed

theorem error_answers_are_bounded_witness:
  "\<exists>x. formatError sample_rpc ''backend.%w'' (WrapE ''GetJob.'' (NewEntityNotFound ''Job'' ''id'' (replicate 2000 CHR ''x'') []) []) = Ret x \<and>
     (\<exists>m r. x = Status NotFound m r) \<and> length (message_of x) \<le> 3005 \<and> (\<forall>t \<in> set (details_of x). length t \<le> 1005)"
proof -
  let ?e = "WrapE ''GetJob.'' (NewEntityNotFound ''Job'' ''id'' (replicate 2000 CHR ''x'') []) []"
  have "err_chain ?e = [?e, NewEntityNotFound ''Job'' ''id'' (replicate 2000 CHR ''x'') []]" by (simp add: NewEntityNotFound_def)
  then have "\<forall>g \<in> set (err_chain ?e). details_ok g" by simp
  from error_answers_are_bounded [OF this, of sample_rpc "''backend.%w''"] show ?thesis
    by (simp add: answers_code_def AsGeocubeError_def NewEntityNotFound_def) blast
qed

section \<open>Identifiers\<close>









section \<open>Tiles\<close>

definition full_batches :: "'a list \<Rightarrow> 'a list list" where
  "full_batches xs = cut 1000 (length xs div 1000) xs"

definition last_batch :: "'a list \<Rightarrow> 'a list" where
  "last_batch xs = drop (1000 * (length xs div 1000)) xs"

lemma full_batches_step: "length b = 1000 \<Longrightarrow> full_batches (b @ xs) = b # full_batches xs \<and> last_batch (b @ xs) = last_batch xs"
  by (simp add: full_batches_def last_batch_def)

lemma small_batch: "length b < 1000 \<Longrightarrow> full_batches b = [] \<and> last_batch b = b"
  by (simp add: full_batches_def last_batch_def)

lemma batches_concat: "concat (full_batches xs) @ last_batch xs = xs"
  by (simp add: full_batches_def last_batch_def concat_cut)

lemma cut_full: "n * k \<le> length xs \<Longrightarrow> c \<in> set (cut n k xs) \<Longrightarrow> length c = n"
proof (induction k arbitrary: xs)
  case (Suc k)
  have "n * k \<le> length (drop n xs)" "n \<le> length xs" using Suc.prems(1) by simp_all
  with Suc.IH [of "drop n xs"] Suc.prems(2) show ?case unfolding cut.simps set_simps by (auto simp only: length_take min_absorb2 insert_iff)
qed simp

lemma length_cut: "length (cut n k xs) = k"
  by (induction k arbitrary: xs) auto

lemma batch_sizes:
  "(\<forall>b \<in> set (full_batches xs). length b = 1000) \<and> length (last_batch xs) < 1000 \<and> length (full_batches xs) = length xs div 1000"
proof -
  have full: "\<forall>b \<in> set (full_batches xs). length b = 1000"
    unfolding full_batches_def by (intro ballI cut_full [OF times_div_less_eq_dividend])
  have "length (last_batch xs) = length xs mod 1000"
    unfolding last_batch_def length_drop by (rule minus_mult_div_eq_mod)
  then have "length (last_batch xs) < 1000" by (metis mod_less_divisor zero_less_numeral)
  moreover have "length (full_batches xs) = length xs div 1000" unfolding full_batches_def by (rule length_cut)
  ultimately show ?thesis using full by blast
qed

lemma send_tiles_exact:
  assumes "length acc < 1000" "\<And>c. c \<in> set cs \<Longrightarrow> cell_WKT c = Inr (crs c)"
    and "tail = [] \<or> (\<exists>e rest. tail = Inl e # rest)"
  shows "send_tiles V (\<lambda>_. None) n acc (map Inr cs @ tail) =
    (let xs = acc @ map (\<lambda>c. pb_tile c (crs c)) cs
     in case tail of
          [] \<Rightarrow> Ret (full_batches xs @ [last_batch xs], None)
        | Inl e # rest \<Rightarrow> go_bind (formatError V ''backend.%w'' e) (\<lambda>x. Ret (full_batches xs, Some x))
        | _ \<Rightarrow> undefined)"
  using assms(1,2)
proof (induction cs arbitrary: n acc)
  case Nil
  then show ?case
    using assms(3) small_batch [of acc] by (auto simp: send_batch_def Let_def)
next
  case (Cons c cs)
  have c: "cell_WKT c = Inr (crs c)" using Cons.prems(2) by simp
  let ?acc = "acc @ [pb_tile c (crs c)]" and ?xs = "map (\<lambda>c. pb_tile c (crs c)) cs"
  show ?case
  proof (cases "length ?acc = 1000")
    case True
    have "send_tiles V (\<lambda>_. None) n acc (map Inr (c # cs) @ tail) =
        go_bind (send_tiles V (\<lambda>_. None) (Suc n) [] (map Inr cs @ tail)) (\<lambda>(ms, eo). Ret (?acc # ms, eo))"
      using True c by (simp add: Let_def send_batch_def StreamTilesBatchSize_def)
    also have "send_tiles V (\<lambda>_. None) (Suc n) [] (map Inr cs @ tail) = (case tail of
          [] \<Rightarrow> Ret (full_batches ?xs @ [last_batch ?xs], None)
        | Inl e # rest \<Rightarrow> go_bind (formatError V ''backend.%w'' e) (\<lambda>x. Ret (full_batches ?xs, Some x))
        | _ \<Rightarrow> undefined)"
      using Cons.IH [of "[]" "Suc n"] Cons.prems(2) by (simp add: Let_def)
    finally show ?thesis
      using assms(3) full_batches_step [OF True, of ?xs] by (auto simp: Let_def go_bind_assoc)
  next
    case False
    with Cons.prems(1) have less: "length ?acc < 1000" by simp
    have "send_tiles V (\<lambda>_. None) n acc (map Inr (c # cs) @ tail) = send_tiles V (\<lambda>_. None) n ?acc (map Inr cs @ tail)"
      using False c by (simp add: Let_def StreamTilesBatchSize_def)
    then show ?thesis using Cons.IH [OF less, of n] Cons.prems(2) by (simp add: Let_def)
  qed
qed

text \<open>C31: the tiles of an area are streamed exactly.  When the service yields cells whose reference systems can be written and
  the client receives every message, the batches put end to end are the tiles of the cells, in order, each once; every
  batch but the last has 1000 tiles, the last one fewer, and there is one batch more than the thousands of tiles.\<close>

theorem tiles_are_streamed_exactly:
  assumes "new_aoi V (ta_Aoi req) False = Inr aoi" "ta_Layout req = None"
    and "sv_TileAOI S aoi (ta_LayoutName req) None s = Ret (Inr (map Inr cs), s')"
    and "\<And>c. c \<in> set cs \<Longrightarrow> cell_WKT c = Inr (crs c)"
  shows "\<exists>batches final. rpc_TileAOI V S (\<lambda>_. None) req s = Ret ((batches @ [final], None), s') \<and>
    concat batches @ final = map (\<lambda>c. pb_tile c (crs c)) cs \<and> (\<forall>b \<in> set batches. length b = 1000) \<and> length final < 1000 \<and>
    length batches = length cs div 1000"
proof -
  let ?xs = "map (\<lambda>c. pb_tile c (crs c)) cs"
  have "send_tiles V (\<lambda>_. None) 0 [] (map Inr cs) = Ret (full_batches ?xs @ [last_batch ?xs], None)"
    using send_tiles_exact [of "[]" cs crs "[]" V 0] assms(4) by (simp add: Let_def)
  then have "rpc_TileAOI V S (\<lambda>_. None) req s = Ret ((full_batches ?xs @ [last_batch ?xs], None), s')"
    using assms(1-3) by (simp add: rpc_TileAOI_def streamed_def parsed_def backend_def with_go_def reply_def)
  moreover have "length (full_batches ?xs) = length cs div 1000" using batch_sizes [of ?xs] by simp
  ultimately show ?thesis using batches_concat [of ?xs] batch_sizes [of ?xs] by blast
qed


definition sample_cell :: cell where
  "sample_cell =
     \<lparr>cell_URI = ''0/0'', cell_WKT = Inr ''EPSG:32631'', cell_PixelToCRS = NewAffine (Fin 0) (Fin 10) (Fin 0) (Fin 0) (Fin 0) (Fin (- 10)),
      cell_SizeX = 4096, cell_SizeY = 4096, cell_Hash = Inr []\<rparr>"

definition sample_grids :: "unit grid_service" where
  "sample_grids =
     \<lparr>sv_CreateGrid = (\<lambda>_ s. Ret (Inr (), s)), sv_DeleteGrid = (\<lambda>_ s. Ret (Inr (), s)), sv_ListGrids = (\<lambda>_ s. Ret (Inr [], s)),
      sv_CreateLayout = (\<lambda>_ s. Ret (Inr (), s)), sv_DeleteLayout = (\<lambda>_ s. Ret (Inr (), s)), sv_ListLayouts = (\<lambda>_ s. Ret (Inr [], s)),
      sv_FindContainerLayouts = (\<lambda>_ _ _ _ _ _ s. Ret (Inr ([], []), s)),
      sv_TileAOI = (\<lambda>_ _ _ s. Ret (Inr (map Inr (replicate 1500 sample_cell)), s))\<rparr>"

definition sample_tiling :: pb_TileAOI where
  "sample_tiling = \<lparr>ta_Aoi = [[[(Fin 0, Fin 0), (Fin 1, Fin 0), (Fin 1, Fin 1), (Fin 0, Fin 0)]]], ta_LayoutName = ''l'', ta_Layout = None\<rparr>"

theorem tiles_are_streamed_exactly_witness:
  "\<exists>b final. rpc_TileAOI sample_rpc sample_grids (\<lambda>_. None) sample_tiling () = Ret (([b, final], None), ()) \<and>
     length b = 1000 \<and> b @ final = replicate 1500 (pb_tile sample_cell ''EPSG:32631'')"
proof -
  have "\<exists>aoi. new_aoi sample_rpc (ta_Aoi sample_tiling) False = Inr aoi"
    by (simp add: new_aoi_def NewAOIFromProtobuf_def AOI_validate_def sample_tiling_def not_geographic_def Let_def)
  then obtain aoi where aoi: "new_aoi sample_rpc (ta_Aoi sample_tiling) False = Inr aoi" by blast
  have "\<exists>batches final. rpc_TileAOI sample_rpc sample_grids (\<lambda>_. None) sample_tiling () = Ret ((batches @ [final], None), ()) \<and>
    concat batches @ final = map (\<lambda>c. pb_tile c ''EPSG:32631'') (replicate 1500 sample_cell) \<and> (\<forall>b \<in> set batches. length b = 1000) \<and>
    length final < 1000 \<and> length batches = length (replicate 1500 sample_cell) div 1000"
    by (rule tiles_are_streamed_exactly [OF aoi]) (simp_all add: sample_tiling_def sample_grids_def sample_cell_def in_set_replicate)
  then obtain batches final where r: "rpc_TileAOI sample_rpc sample_grids (\<lambda>_. None) sample_tiling () = Ret ((batches @ [final], None), ())"
    "concat batches @ final = replicate 1500 (pb_tile sample_cell ''EPSG:32631'')" "\<forall>b \<in> set batches. length b = 1000" "length batches = 1"
    by (auto simp: map_replicate)
  then obtain b where "batches = [b]" by (auto simp: length_Suc_conv)
  with r show ?thesis by auto
qed

end
