(* ===== verification/RpcCubeProps.thy ===== *)
theory RpcCubeProps
  imports RpcCube RpcProps
begin

text \<open>
  A served image is the image: what the client receives in the header and the chunks of a slice is, put end to end,
  the bytes of its reader, or their compression.  The proof joins the contract of the readers (\<open>chunk_reader\<close>), the
  compression loop and the loop of the handler.
\<close>

section \<open>Readers\<close>

fun reader_rest :: "reader \<Rightarrow> 8 word list" where
  "reader_rest (ByteArray r) = ba_rest r"
| "reader_rest (ImageReader r) = ir_rest r"
| "reader_rest (ChunkChan r) = []"

fun reader_ok :: "reader \<Rightarrow> bool" where
  "reader_ok (ByteArray r) = True"
| "reader_ok (ImageReader r) = ir_ok r"
| "reader_ok (ChunkChan r) = False"

interpretation rd: chunk_reader reader_Next reader_rest reader_ok
proof
  fix s n assume "reader_ok s" "reader_rest s = []"
  then show "reader_Next n s = Ret (EOF, s)"
    by (cases s) (use ba.at_end ir.at_end in auto)
next
  fix s n assume s: "reader_ok s" "reader_rest s \<noteq> []" "0 < (n :: nat)" "n \<le> 2 ^ 52"
  show "\<exists>s'. reader_Next n s = Ret (Chunk (take n (reader_rest s)), s') \<and> reader_ok s' \<and> reader_rest s' = drop n (reader_rest s)"
  proof (cases s)
    case (ByteArray r)
    with ba.more [of r n] s obtain r' where "ba_Next n r = (Chunk (take n (ba_rest r)), r')" "ba_rest r' = drop n (ba_rest r)" by auto
    then show ?thesis by (intro exI [of _ "ByteArray r'"]) (simp add: ByteArray)
  next
    case (ImageReader r)
    with ir.more [of r n] s obtain r' where "ir_Next n r = Ret (Chunk (take n (ir_rest r)), r')" "ir_ok r'" "ir_rest r' = drop n (ir_rest r)"
      by auto
    then show ?thesis by (intro exI [of _ "ImageReader r'"]) (simp add: ImageReader)
  qed (use s in simp)
qed

lemma read_chunks_all:
  assumes "next_chunks reader_Next n m r = Ret (map Chunk cs, r')" "reader_Next n r' = Ret (EOF, r')" "m < k"
  shows "read_chunks k n r = Ret (map Chunk cs)"
  using assms
proof (induction m arbitrary: k r cs)
  case 0
  then show ?case by (cases k) auto
next
  case (Suc m)
  from Suc.prems(1) obtain c r1 cs' where c: "reader_Next n r = Ret (c, r1)"
    "next_chunks reader_Next n m r1 = Ret (cs', r')" "map Chunk cs = c # cs'"
    by (auto simp: go_bind_eq_Ret_iff)
  then obtain b bs where cs: "cs = b # bs" "c = Chunk b" "cs' = map Chunk bs" by auto
  from Suc.prems(3) obtain k' where k: "k = Suc k'" by (cases k) auto
  from Suc.IH [OF c(2) [unfolded cs(3)] Suc.prems(2), of k'] Suc.prems(3) have "read_chunks k' n r1 = Ret (map Chunk bs)" by (simp add: k)
  then show ?case using c(1) by (simp add: k cs)
qed

section \<open>The compression loop\<close>

definition never_fails :: "'z deflater \<Rightarrow> bool" where
  "never_fails D \<longleftrightarrow> (\<forall>c z. fst (dz_Write D c z) = None) \<and> (\<forall>z. fst (dz_Close D z) = None)"

text \<open>What the writer puts out for a list of chunks, closing included.\<close>

fun deflated :: "'z deflater \<Rightarrow> 'z \<Rightarrow> 8 word list list \<Rightarrow> 8 word list" where
  "deflated D z [] = fst (snd (dz_Close D z))"
| "deflated D z (c # cs) = fst (snd (dz_Write D c z)) @ deflated D (snd (snd (dz_Write D c z))) cs"

fun tails_empty :: "'a list list \<Rightarrow> bool" where
  "tails_empty [] = True"
| "tails_empty (c # cs) = (if c = [] then (\<forall>d \<in> set cs. d = []) else tails_empty cs)"

lemma Compress_loop_exact:
  assumes "never_fails D" "0 < n"
  shows "concat (map fst (Compress_loop D n (Some (Chunk c)) buf z (map Chunk cs))) = buf @ deflated D z (c # cs) \<and>
    (\<forall>e \<in> set (Compress_loop D n (Some (Chunk c)) buf z (map Chunk cs)). snd e = None) \<and>
    length (Compress_loop D n (Some (Chunk c)) buf z (map Chunk cs)) \<le> Suc (length cs) \<and>
    tails_empty (map fst (Compress_loop D n (Some (Chunk c)) buf z (map Chunk cs)))"
proof (induction cs arbitrary: c buf z)
  case Nil
  obtain out z' where w: "dz_Write D c z = (None, out, z')" using assms(1) by (metis never_fails_def prod.collapse)
  obtain out' z'' where cl: "dz_Close D z' = (None, out', z'')" using assms(1) by (metis never_fails_def prod.collapse)
  show ?case by (simp add: write_prev_def w cl flush_elem_def)
next
  case (Cons d cs)
  obtain out z' where w: "dz_Write D c z = (None, out, z')" using assms(1) by (metis never_fails_def prod.collapse)
  show ?case
  proof (cases "length (buf @ out) \<ge> n")
    case True
    with assms(2) have ne: "buf @ out \<noteq> []" by auto
    show ?thesis using Cons.IH [of d "[]" z'] True ne by (auto simp: write_prev_def w flush_elem_def)
  next
    case False
    then show ?thesis using Cons.IH [of d "buf @ out" z'] by (simp add: write_prev_def w flush_elem_def)
  qed
qed

lemma Compress_exact:
  assumes "never_fails D" "0 < n"
  shows "concat (map fst (Compress D n (map Chunk cs))) = deflated D (dz_new D) cs \<and>
    (\<forall>e \<in> set (Compress D n (map Chunk cs)). snd e = None) \<and>
    length (Compress D n (map Chunk cs)) \<le> max 1 (length cs) \<and> tails_empty (map fst (Compress D n (map Chunk cs)))"
proof (cases cs)
  case Nil
  obtain out' z'' where cl: "dz_Close D (dz_new D) = (None, out', z'')" using assms(1) by (metis never_fails_def prod.collapse)
  show ?thesis by (simp add: Nil Compress_def write_prev_def cl flush_elem_def)
next
  case (Cons c rest)
  have "Compress D n (map Chunk cs) = Compress_loop D n (Some (Chunk c)) [] (dz_new D) (map Chunk rest)"
    using assms(2) by (simp add: Cons Compress_def write_prev_def flush_elem_def)
  with Compress_loop_exact [OF assms, of c "[]" "dz_new D" rest] show ?thesis by (simp add: Cons)
qed

section \<open>The chunks of a slice\<close>

fun chunk_data :: "cube_message \<Rightarrow> 8 word list" where
  "chunk_data (ImageChunk i b) = b"
| "chunk_data _ = []"

fun parts_from :: "int \<Rightarrow> cube_message list \<Rightarrow> bool" where
  "parts_from i [] = True"
| "parts_from i (m # ms) = ((\<exists>b. m = ImageChunk i b) \<and> parts_from (i + 1) ms)"

lemma concat_empties: "\<forall>d \<in> set cs. d = [] \<Longrightarrow> concat cs = []"
  by (induction cs) auto

text \<open>The loop sends the chunks that its reads give; with the recent protocol it stops at an empty one, behind which there is
  nothing.\<close>

lemma send_chunks_exact:
  assumes "next_chunks reader_Next sz k r = Ret (map Chunk cs, r')" "tails_empty cs"
  shows "\<exists>parts. send_chunks V (\<lambda>_. None) sz v11 k i n r rest = go_bind (rest (n + length parts)) (\<lambda>(ms, eo). Ret (parts @ ms, eo)) \<and>
    concat (map chunk_data parts) = concat cs \<and> parts_from i parts \<and> length parts \<le> k"
  using assms
proof (induction k arbitrary: r cs i n)
  case 0
  have "go_bind (rest n) (\<lambda>(ms, eo). Ret (ms, eo)) = rest n" by (cases "rest n") auto
  with 0 show ?case by (intro exI [of _ "[]"]) simp
next
  case (Suc k)
  from Suc.prems(1) obtain c r1 cs' where c: "reader_Next sz r = Ret (c, r1)"
    "next_chunks reader_Next sz k r1 = Ret (cs', r')" "map Chunk cs = c # cs'"
    by (auto simp: go_bind_eq_Ret_iff)
  then obtain b bs where cs: "cs = b # bs" "c = Chunk b" "cs' = map Chunk bs" by auto
  show ?case
  proof (cases "b = [] \<and> v11")
    case True
    then have "concat cs = []" using Suc.prems(2) by (auto simp: cs concat_empties)
    with True c(1) show ?thesis
      by (intro exI [of _ "[ImageChunk i []]"]) (simp add: cs chunk_error_def chunk_bytes_def stream_send_def)
  next
    case False
    have "tails_empty bs" using Suc.prems(2) by (cases "b = []"; cases bs) (auto simp: cs)
    from Suc.IH [OF c(2) [unfolded cs(3)] this, of "i + 1" "Suc n"] obtain parts where parts:
      "send_chunks V (\<lambda>_. None) sz v11 k (i + 1) (Suc n) r1 rest = go_bind (rest (Suc n + length parts)) (\<lambda>(ms, eo). Ret (parts @ ms, eo))"
      "concat (map chunk_data parts) = concat bs" "parts_from (i + 1) parts" "length parts \<le> k" by blast
    show ?thesis
      using parts c(1) False
      by (intro exI [of _ "ImageChunk i b # parts"])
        (auto simp: cs chunk_error_def chunk_bytes_def stream_send_def go_bind_assoc case_prod_unfold)
  qed
qed

lemma chan_chunks:
  assumes "\<forall>e \<in> set es. snd e = None"
  shows "next_chunks reader_Next sz k (ChunkChan \<lparr>ch_length = l, ch_chunks = es\<rparr>) =
    Ret (map Chunk (map fst (take k es) @ replicate (k - length es) []), ChunkChan \<lparr>ch_length = l, ch_chunks = drop k es\<rparr>)"
  using assms
proof (induction k arbitrary: es)
  case (Suc k)
  show ?case
  proof (cases es)
    case Nil
    with Suc.IH [of "[]"] show ?thesis by (simp add: ch_Next_def Let_def)
  next
    case (Cons e es')
    with Suc show ?thesis by (cases e) (simp add: ch_Next_def Let_def)
  qed
qed simp

lemma tails_empty_padded: "tails_empty cs \<Longrightarrow> tails_empty (cs @ replicate k [])"
  by (induction cs) (auto, induction k, auto)

lemma tails_empty_tl: "tails_empty (c # cs) \<Longrightarrow> tails_empty cs"
  by (cases "c = []"; cases cs) auto

lemma cut_tails: "tails_empty (cut n k xs)"
proof (induction k arbitrary: xs)
  case (Suc k)
  have "\<forall>d \<in> set (cut n k (drop n xs)). d = []" if "take n xs = []"
  proof -
    have "concat (cut n k (drop n xs)) = []" using that by (auto simp: concat_cut)
    then show ?thesis by auto
  qed
  with Suc show ?case by simp
qed simp


section \<open>The number of parts\<close>

definition parts_of :: "nat \<Rightarrow> 'a list \<Rightarrow> nat" where
  "parts_of n xs = (length xs + n - 1) div n"

lemma truncated_quot_nat: "0 < n \<Longrightarrow> truncated_quot (int m) (int n) = int (m div n)"
  by (cases "m = 0") (simp_all add: truncated_quot_def zdiv_int)

lemma number_of_parts_exact:
  assumes "0 < n" "parts_of n xs < 2 ^ 31"
  shows "number_of_parts n (int (length xs)) = int (parts_of n xs)"
proof -
  have "int (length xs) + int n - 1 = int (length xs + n - 1)" using assms(1) by (simp add: of_nat_diff)
  then have "truncated_quot (int (length xs) + int n - 1) (int n) = int (parts_of n xs)"
    unfolding parts_of_def using truncated_quot_nat [OF assms(1)] by metis
  moreover have "int (parts_of n xs) < 2 ^ 31" using assms(2) by simp
  ultimately show ?thesis by (simp add: number_of_parts_def wrap32_def)
qed

lemma parts_of_pos: "xs \<noteq> [] \<Longrightarrow> 0 < n \<Longrightarrow> 0 < parts_of n xs"
  by (cases xs) (simp_all add: parts_of_def div_greater_zero_iff)

text \<open>The reader after compression gives, in as many reads as the image has parts, everything the writer put out.\<close>

lemma compressed_parts:
  assumes "reader_ok r" "reader_rest r \<noteq> []" "reader_Len r = Ret (int (length (reader_rest r)))"
    and "0 < n" "n \<le> 2 ^ 52" "parts_of n (reader_rest r) < 2 ^ 31" "never_fails D"
  shows "\<exists>c cs r1 r2. compress_reader D n r = Ret r1 \<and> reader_Len r1 = Ret (int (length (reader_rest r))) \<and>
    next_chunks reader_Next n (parts_of n (reader_rest r)) r1 = Ret (map Chunk (c # cs), r2) \<and> tails_empty (c # cs) \<and>
    concat (c # cs) = deflated D (dz_new D) (cut n (parts_of n (reader_rest r)) (reader_rest r))"
proof -
  let ?x = "reader_rest r" and ?k = "parts_of n (reader_rest r)"
  let ?es = "Compress D n (map Chunk (cut n ?k ?x))"
  have len: "length (cut n k xs) = k" for k and xs :: "8 word list" by (induction k arbitrary: xs) auto
  obtain s' where s': "next_chunks reader_Next n ?k r = Ret (map Chunk (cut n ?k ?x), s')" "reader_Next n s' = Ret (EOF, s')"
    using rd.whole_stream [OF assms(1,4,5), of ?k] by (auto simp: parts_of_def)
  have k: "0 < ?k" using parts_of_pos assms(2,4) by blast
  have num: "nat (number_of_parts n (int (length ?x))) = ?k" using number_of_parts_exact [OF assms(4,6)] by simp
  have r1: "compress_reader D n r = Ret (ChunkChan \<lparr>ch_length = int (length ?x), ch_chunks = ?es\<rparr>)"
    using read_chunks_all [OF s', of "2 * ?k + 2"] unfolding compress_reader_def assms(3) go_bind.simps num by simp
  note C = Compress_exact [OF assms(7,4), of "cut n ?k ?x"]
  have few: "length ?es \<le> ?k" using C k len [of ?k ?x] by simp
  define cs where "cs = map fst ?es @ replicate (?k - length ?es) []"
  have "next_chunks reader_Next n ?k (ChunkChan \<lparr>ch_length = int (length ?x), ch_chunks = ?es\<rparr>) =
      Ret (map Chunk cs, ChunkChan \<lparr>ch_length = int (length ?x), ch_chunks = drop ?k ?es\<rparr>)"
    unfolding cs_def using chan_chunks [of ?es n ?k] few C by simp
  moreover have "tails_empty cs" unfolding cs_def using C tails_empty_padded by blast
  moreover have "concat cs = deflated D (dz_new D) (cut n ?k ?x)" unfolding cs_def using C by (simp add: concat_empties)
  moreover have "cs \<noteq> []" using k few by (auto simp: cs_def)
  ultimately show ?thesis using r1 by (cases cs) auto
qed

section \<open>The slice\<close>

lemma records_convert: "\<exists>ys. go_map (Record_ToProtobuf False) rs = Ret ys"
  by (induction rs) (auto simp: Record_ToProtobuf_def Let_def)

text \<open>What is sent for an image whose reader gives the parts \<open>c # cs\<close>.\<close>

lemma image_is_sent:
  assumes "reader_Len r = Ret (int len)" "number_of_parts n (int len) = int (Suc k)"
    and "next_chunks reader_Next n (Suc k) r = Ret (map Chunk (c # cs), r')" "tails_empty (c # cs)"
    and "cu_Err sl = None" "cu_Image sl = Some b" "bm_Chunks b = Some r"
  shows "\<exists>h parts sl'. getCubeCreateHeader V n deflate sl = Ret (h, sl') \<and>
    ih_Data h @ concat (map chunk_data parts) = concat (c # cs) \<and> ih_Error h = [] \<and> ih_Compression h = deflate \<and>
    ih_NbParts h = int (Suc k) \<and> parts_from 1 parts \<and> length parts \<le> k \<and>
    (\<exists>b' r1. cu_Image sl' = Some b' \<and> bm_Chunks b' = Some r1 \<and>
      send_chunks V (\<lambda>_. None) n v11 k 1 j r1 rest = go_bind (rest (j + length parts)) (\<lambda>(ms, eo). Ret (parts @ ms, eo)))"
proof -
  from assms(3) obtain r1 where r1: "reader_Next n r = Ret (Chunk c, r1)" "next_chunks reader_Next n k r1 = Ret (map Chunk cs, r')"
    by (auto simp: go_bind_eq_Ret_iff)
  obtain parts where parts:
    "send_chunks V (\<lambda>_. None) n v11 k 1 j r1 rest = go_bind (rest (j + length parts)) (\<lambda>(ms, eo). Ret (parts @ ms, eo))"
    "concat (map chunk_data parts) = concat cs" "parts_from 1 parts" "length parts \<le> k"
    using send_chunks_exact [OF r1(2) tails_empty_tl [OF assms(4)]] by blast
  obtain ys where ys: "go_map (Record_ToProtobuf False) (cu_Records sl) = Ret ys" using records_convert by blast
  have "\<exists>h sl'. getCubeCreateHeader V n deflate sl = Ret (h, sl') \<and> ih_Data h = c \<and> ih_Error h = [] \<and>
      ih_Compression h = deflate \<and> ih_NbParts h = int (Suc k) \<and> cu_Image sl' = Some (b\<lparr>bm_Chunks := Some r1\<rparr>)"
    using r1(1) assms(1,2,5-7)
    by (simp add: getCubeCreateHeader_def ys image_header_def Bitmap_Len_def Let_def chunk_error_def chunk_bytes_def)
  then obtain h sl' where "getCubeCreateHeader V n deflate sl = Ret (h, sl')" "ih_Data h = c" "ih_Error h = []"
      "ih_Compression h = deflate" "ih_NbParts h = int (Suc k)" "cu_Image sl' = Some (b\<lparr>bm_Chunks := Some r1\<rparr>)" by blast
  with parts show ?thesis
    by (intro exI [of _ h] exI [of _ parts] exI [of _ sl'] conjI exI [of _ "b\<lparr>bm_Chunks := Some r1\<rparr>"] exI [of _ r1]) simp_all
qed

text \<open>C27: a served image is the image.  For a slice whose reader has bytes to give (an array, or the lines of a dataset
  that can be read), at most 2^31 - 1 parts of a chunk, and a client that receives every message, the handler sends one
  header and then consecutive parts from 1, fewer than NbParts; the data of the header followed by those of the parts are the
  bytes of the image, after decompression when the header says so; decompression is any function that undoes what the writer
  puts out.  So the compressed stream never needs more parts than were announced, and stopping at an empty part loses
  nothing.\<close>

theorem client_rebuilds_the_image:
  assumes "cu_Err sl = None" "cu_Image sl = Some b" "bm_Chunks b = Some r"
    and "reader_ok r" "reader_rest r \<noteq> []" "reader_Len r = Ret (int (length (reader_rest r)))"
    and "0 < n" "n \<le> 2 ^ 52" "parts_of n (reader_rest r) < 2 ^ 31"
    and "never_fails D" "\<And>chunks. inflate (deflated D (dz_new D) chunks) = concat chunks"
  shows "\<exists>h parts. send_slice V D (\<lambda>_. None) n req sl j rest =
      go_bind (rest (j + 1 + length parts)) (\<lambda>(ms, eo). Ret (ImageHeader h # parts @ ms, eo)) \<and>
    (if ih_Compression h then inflate (ih_Data h @ concat (map chunk_data parts)) else ih_Data h @ concat (map chunk_data parts)) = reader_rest r \<and>
    ih_Error h = [] \<and> parts_from 1 parts \<and> int (length parts) < ih_NbParts h"
proof -
  let ?x = "reader_rest r" and ?k = "parts_of n (reader_rest r)"
  obtain k where k: "?k = Suc k" using parts_of_pos [OF assms(5,7)] gr0_implies_Suc by blast
  have num: "number_of_parts n (int (length ?x)) = int (Suc k)" using number_of_parts_exact [OF assms(7,9)] k by simp
  define deflate where "deflate \<longleftrightarrow> gq_CompressionLevel req \<noteq> - 3"
  have "\<exists>c cs r1 r2. (if deflate then compress_reader D n r else Ret r) = Ret r1 \<and> reader_Len r1 = Ret (int (length ?x)) \<and>
    next_chunks reader_Next n (Suc k) r1 = Ret (map Chunk (c # cs), r2) \<and> tails_empty (c # cs) \<and>
    (if deflate then inflate (concat (c # cs)) else concat (c # cs)) = ?x"
  proof (cases deflate)
    case True
    have "concat (cut n ?k ?x) = ?x" using rd.whole_stream [OF assms(4,7,8), of ?k] by (auto simp: parts_of_def)
    then show ?thesis
      using compressed_parts [OF assms(4,5,6,7,8,9,10)] True assms(11) unfolding k by metis
  next
    case False
    obtain s' where s': "next_chunks reader_Next n ?k r = Ret (map Chunk (cut n ?k ?x), s')" "concat (cut n ?k ?x) = ?x"
      using rd.whole_stream [OF assms(4,7,8), of ?k] by (auto simp: parts_of_def)
    show ?thesis
      by (rule exI [of _ "take n ?x"], rule exI [of _ "cut n k (drop n ?x)"], rule exI [of _ r], rule exI [of _ s'])
        (use False assms(6) s' [unfolded k cut.simps] cut_tails [of n ?k ?x, unfolded k cut.simps] in simp)
  qed
  then obtain c cs r1 r2 where r1: "(if deflate then compress_reader D n r else Ret r) = Ret r1" "reader_Len r1 = Ret (int (length ?x))"
    "next_chunks reader_Next n (Suc k) r1 = Ret (map Chunk (c # cs), r2)" "tails_empty (c # cs)"
    "(if deflate then inflate (concat (c # cs)) else concat (c # cs)) = ?x" by blast
  define sl1 where "sl1 = sl\<lparr>cu_Image := Some (b\<lparr>bm_Chunks := Some r1\<rparr>)\<rparr>"
  have "sl1 = sl" if "\<not> deflate" using r1(1) that assms(2,3) by (simp add: sl1_def)
  then have sl1: "compress_slice D (gq_CompressionLevel req) n sl = Ret sl1"
    using r1(1) assms(2,3) by (auto simp: compress_slice_def deflate_def sl1_def split: if_splits)
  obtain h parts sl2 b2 r3 where h: "getCubeCreateHeader V n deflate sl1 = Ret (h, sl2)"
    "ih_Data h @ concat (map chunk_data parts) = concat (c # cs)" "ih_Error h = []" "ih_Compression h = deflate"
    "ih_NbParts h = int (Suc k)" "parts_from 1 parts" "length parts \<le> k" "cu_Image sl2 = Some b2" "bm_Chunks b2 = Some r3"
    "send_chunks V (\<lambda>_. None) n (gq_ProtocolV11X req) k 1 (Suc j) r3 rest =
       go_bind (rest (Suc j + length parts)) (\<lambda>(ms, eo). Ret (parts @ ms, eo))"
    using image_is_sent [OF r1(2) num r1(3,4), of sl1 "b\<lparr>bm_Chunks := Some r1\<rparr>" V deflate "gq_ProtocolV11X req" "Suc j" rest] assms(1)
    by (auto simp: sl1_def)
  have "send_slice V D (\<lambda>_. None) n req sl j rest =
      go_bind (if k = 0 then rest (Suc j) else send_chunks V (\<lambda>_. None) n (gq_ProtocolV11X req) k 1 (Suc j) r3 rest)
        (\<lambda>(ms, eo). Ret (ImageHeader h # ms, eo))"
    using sl1 h(1,5,8,9) by (simp add: send_slice_def deflate_def [symmetric] stream_send_def)
  also have "\<dots> = go_bind (rest (j + 1 + length parts)) (\<lambda>(ms, eo). Ret (ImageHeader h # parts @ ms, eo))"
  proof (cases "k = 0")
    case True
    with h(7) show ?thesis by simp
  next
    case False
    then show ?thesis by (simp add: h(10) go_bind_assoc case_prod_unfold)
  qed
  finally show ?thesis using h(2-7) r1(5) by (intro exI [of _ h] exI [of _ parts]) auto
qed


text \<open>A writer that stores the bytes as they are.\<close>

definition stored :: "unit deflater" where
  "stored = \<lparr>dz_new = (), dz_Write = (\<lambda>c z. (None, c, z)), dz_Close = (\<lambda>z. (None, [], z))\<rparr>"

definition sample_bitmap :: bitmap where
  "sample_bitmap = (NewBitmapHeader False 3 1 DTypeUINT8 1)\<lparr>bm_Chunks := Some (ByteArray \<lparr>ba_Bytes = [1, 2, 3], ba_offset = 0\<rparr>)\<rparr>"

definition sample_slice :: CubeSlice where
  "sample_slice = \<lparr>cu_Image = Some sample_bitmap, cu_Err = None, cu_Records = [], cu_Metadata = [], cu_DatasetsMeta = []\<rparr>"

definition sample_request :: pb_GetCube where
  "sample_request =
     \<lparr>gq_Records = Some [''r1''], gq_GroupedRecords = None, gq_Filters = None, gq_InstancesId = [''i1''], gq_Crs = ''4326'', gq_PixToCrs = None,
      gq_Size = Some (3, 1), gq_CompressionLevel = 0, gq_HeadersOnly = False, gq_Format = ''Raw'', gq_ResamplingAlg = 0, gq_ProtocolV11X = True\<rparr>"

lemma deflated_stored: "deflated stored u chunks = concat chunks"
  by (induction chunks arbitrary: u) (simp_all add: stored_def)

theorem client_rebuilds_the_image_witness:
  "\<exists>h parts. send_slice sample_rpc stored (\<lambda>_. None) 2 sample_request sample_slice 1 (\<lambda>_. Ret ([], None)) = Ret (ImageHeader h # parts, None) \<and>
     ih_Data h @ concat (map chunk_data parts) = [1, 2, 3]"
proof -
  have "\<exists>h parts. send_slice sample_rpc stored (\<lambda>_. None) 2 sample_request sample_slice 1 (\<lambda>_. Ret ([], None)) =
      go_bind ((\<lambda>_. Ret ([], None)) (1 + 1 + length parts)) (\<lambda>(ms, eo). Ret (ImageHeader h # parts @ ms, eo)) \<and>
    (if ih_Compression h then (\<lambda>x. x) (ih_Data h @ concat (map chunk_data parts)) else ih_Data h @ concat (map chunk_data parts)) =
      reader_rest (ByteArray \<lparr>ba_Bytes = [1, 2, 3], ba_offset = 0\<rparr>) \<and>
    ih_Error h = [] \<and> parts_from 1 parts \<and> int (length parts) < ih_NbParts h"
    by (rule client_rebuilds_the_image [where b = sample_bitmap])
      (simp_all add: sample_slice_def sample_bitmap_def ba_rest_def parts_of_def never_fails_def deflated_stored, simp_all add: stored_def)
  then show ?thesis by (auto simp: ba_rest_def)
qed

end
