(* ===== verification/Casting.thy ===== *)
theory Casting
  imports Catalog
begin

text \<open>
  Images through GDAL: internal/image/image.go.  The decisions of the code are modelled whole: the options of a
  translation and of a warp, the conversion of values, the temporary files.  GDAL is the parameter \<open>gdal_lib\<close> over
  datasets of type \<open>'ds\<close>; \<open>math.Pow\<close> is its field \<open>gl_pow\<close>.  What the code leaves behind is in \<open>gdal_state\<close>: the files of
  the memory file system, the number of datasets that are open, and the number of names drawn.
\<close>

section \<open>Alpha masks\<close>

definition given_not :: "Metadata \<Rightarrow> string \<Rightarrow> string \<Rightarrow> bool" where
  "given_not m k v = (case map_of m k of None \<Rightarrow> False | Some x \<Rightarrow> x \<noteq> v)"

definition lossy_codec :: "Metadata \<Rightarrow> bool \<Rightarrow> string \<Rightarrow> bool" where
  "lossy_codec m jpegLossy key =
     (case map_of m key of
        None \<Rightarrow> False
      | Some compress \<Rightarrow>
          if compress = ''WEBP'' then map_of m ''WEBP_LOSSLESS'' \<noteq> Some ''TRUE''
          else compress = ''JPEG'' \<and> jpegLossy)"

definition needAlpha :: "DataFormat \<Rightarrow> Metadata \<Rightarrow> bool" where
  "needAlpha dataFormat options =
     (if \<not> NoDataDefined dataFormat then False
      else if given_not options ''JPEG_QUALITY'' ''100'' then True
      else if given_not options ''JPEG_QUALITY_OVERVIEW'' ''100'' then True
      else let jpegLossy = (map_of options ''JPEG_QUALITY'' = None \<and> map_of options ''JPEG_QUALITY_OVERVIEW'' = None)
           in lossy_codec options jpegLossy ''COMPRESS'' \<or> lossy_codec options jpegLossy ''COMPRESS_OVERVIEW'' \<or>
              given_not options ''MAX_Z_ERROR'' ''0'' \<or> given_not options ''MAX_Z_ERROR_OVERVIEW'' ''0'' \<or>
              given_not options ''JXL_LOSSLESS'' ''TRUE'')"

section \<open>Conversion of values\<close>

record 'ds gdal_lib = gl_Open :: "string \<Rightarrow> gerr + 'ds"
  gl_Bands :: "'ds \<Rightarrow> nat"
  gl_Translate :: "string \<Rightarrow> 'ds \<Rightarrow> string list \<Rightarrow> gerr + 'ds"
  gl_Warp :: "string \<Rightarrow> 'ds list \<Rightarrow> string list \<Rightarrow> gerr + 'ds"
  gl_Close :: "'ds \<Rightarrow> gerr option"
  gl_Bounds :: "'ds \<Rightarrow> gerr + (float64 \<times> float64 \<times> float64 \<times> float64)"
  gl_enough :: "'ds \<Rightarrow> int \<Rightarrow> gerr + bool"
  gl_typeName :: "GdalType \<Rightarrow> string"
  gl_pow :: "float64 \<Rightarrow> float64 \<Rightarrow> float64"
  gl_mappingText :: "DataMapping \<Rightarrow> string"
  gl_optionsText :: "string list \<Rightarrow> string"
  gl_uuid :: "nat \<Rightarrow> string"

definition ErrNoCastToPerform :: gerr where "ErrNoCastToPerform = PlainE ''no cast to perform''"

definition ErrUnableToCast :: gerr where "ErrUnableToCast = PlainE ''unableToCast''"

definition castDatasetOptions :: "'ds gdal_lib \<Rightarrow> Range \<Rightarrow> float64 \<Rightarrow> DataFormat \<Rightarrow> string list" where
  "castDatasetOptions L fromRange expo toDFormat =
     [''-ot'', gl_typeName L (DType_ToGDAL (df_DType toDFormat))] @
     [''-a_nodata'', if NoDataDefined toDFormat then F64ToS (df_NoData toDFormat) else ''none''] @
     (if \<not> f_eq (r_Min fromRange) (r_Min (df_Range toDFormat)) \<or> \<not> f_eq (r_Max fromRange) (r_Max (df_Range toDFormat))
      then [''-scale'', F64ToS (r_Min fromRange), F64ToS (r_Max fromRange),
            F64ToS (r_Min (df_Range toDFormat)), F64ToS (r_Max (df_Range toDFormat))] else []) @
     (if \<not> f_eq expo (Fin 1) then [''-exponent'', F64ToS expo] else [])"

definition castValue :: "'ds gdal_lib \<Rightarrow> float64 \<Rightarrow> Range \<Rightarrow> Range \<Rightarrow> float64 \<Rightarrow> float64" where
  "castValue L vi rin rext expo =
     f_add (r_Min rext) (f_mul (Interval rext) (gl_pow L (f_div (f_sub vi (r_Min rin)) (Interval rin)) expo))"

text \<open>\<open>math.Min\<close> and \<open>math.Max\<close>: NaN when one of them is.\<close>

definition f_min :: "float64 \<Rightarrow> float64 \<Rightarrow> float64" where
  "f_min a b = (if a = NaN \<or> b = NaN then NaN else if f_lt a b then a else b)"

definition f_max :: "float64 \<Rightarrow> float64 \<Rightarrow> float64" where
  "f_max a b = (if a = NaN \<or> b = NaN then NaN else if f_lt b a then a else b)"

fun value_limits :: "DType \<Rightarrow> (rat \<times> rat) option" where
  "value_limits DTypeUINT8 = Some (0, 255)"
| "value_limits DTypeUINT16 = Some (0, 65535)"
| "value_limits DTypeUINT32 = Some (0, 4294967295)"
| "value_limits DTypeINT8 = Some (- 128, 127)"
| "value_limits DTypeINT16 = Some (- 32768, 32767)"
| "value_limits DTypeINT32 = Some (- 2147483648, 2147483647)"
| "value_limits DTypeFLOAT32 = Some (- MaxFloat32, MaxFloat32)"
| "value_limits _ = None"

definition castValueBF :: "'ds gdal_lib \<Rightarrow> float64 \<Rightarrow> DataMapping \<Rightarrow> DataMapping \<Rightarrow> float64" where
  "castValueBF L vi fromDFormat toDFormat =
     (let ve = castValue L vi (df_Range (dm_DataFormat fromDFormat)) (dm_RangeExt fromDFormat) (dm_Exponent fromDFormat);
          ve = castValue L ve (dm_RangeExt toDFormat) (df_Range (dm_DataFormat toDFormat)) (f_div (Fin 1) (dm_Exponent toDFormat))
      in case value_limits (df_DType (dm_DataFormat toDFormat)) of
           None \<Rightarrow> ve
         | Some (lo, hi) \<Rightarrow> f_min (f_max ve (Fin lo)) (Fin hi))"

definition CastDatasetOptions :: "'ds gdal_lib \<Rightarrow> DataMapping \<Rightarrow> DataMapping \<Rightarrow> gerr + string list" where
  "CastDatasetOptions L fromDFormat toDFormat =
     (let ff = dm_DataFormat fromDFormat; tf = dm_DataFormat toDFormat; fe = dm_RangeExt fromDFormat; te = dm_RangeExt toDFormat
      in if DataMapping_Equals fromDFormat toDFormat then Inl ErrNoCastToPerform
         else if f_eq (dm_Exponent toDFormat) (Fin 1)
         then let rangeEq = \<lparr>r_Min = castValue L (r_Min fe) te (df_Range tf) (Fin 1), r_Max = castValue L (r_Max fe) te (df_Range tf) (Fin 1)\<rparr>
              in Inr (castDatasetOptions L (df_Range ff) (dm_Exponent fromDFormat) (tf\<lparr>df_Range := rangeEq\<rparr>))
         else if f_eq (dm_Exponent fromDFormat) (Fin 1)
         then let rangeEq = \<lparr>r_Min = castValue L (r_Min te) fe (df_Range ff) (Fin 1), r_Max = castValue L (r_Max te) fe (df_Range ff) (Fin 1)\<rparr>
              in Inr (castDatasetOptions L rangeEq (f_div (Fin 1) (dm_Exponent toDFormat)) tf)
         else if f_eq (dm_Exponent fromDFormat) (dm_Exponent toDFormat) \<and> f_eq (r_Min fe) (r_Min te)
         then let f = f_div (Interval fe) (Interval te);
                  rangeEq = \<lparr>r_Min = r_Min (df_Range tf),
                             r_Max = f_add (f_mul (Interval (df_Range tf)) (gl_pow L f (f_div (Fin 1) (dm_Exponent toDFormat)))) (r_Min (df_Range tf))\<rparr>
              in Inr (castDatasetOptions L (df_Range ff) (Fin 1) (tf\<lparr>df_Range := rangeEq\<rparr>))
         else Inl (WrapE ('' Unable to cast '' @ gl_mappingText L fromDFormat @ '' to '' @ gl_mappingText L toDFormat @ '' '') ErrUnableToCast []))"

text \<open>A nil list of bands and an empty one give no option.\<close>

definition isASuite :: "int list \<Rightarrow> bool" where
  "isASuite s = list_all (\<lambda>i. int i + 1 = s ! i) [0..<length s]"

definition ExtractBandsOption :: "nat \<Rightarrow> int list \<Rightarrow> string list" where
  "ExtractBandsOption nbands bands =
     (if isASuite bands \<and> nbands = length bands then [] else concat (map (\<lambda>b. [''-b'', itoa b]) bands))"

section \<open>Options of a warp\<close>

definition creationOptions :: "Metadata \<Rightarrow> bool \<Rightarrow> string list" where
  "creationOptions creationParams overview =
     concat (map (\<lambda>(k, v). if overview = HasSuffix k ''_OVERVIEW'' then [''-co'', k @ ''='' @ v] else []) creationParams)"

definition gtiffOptions :: "int \<Rightarrow> int \<Rightarrow> Metadata \<Rightarrow> bool \<Rightarrow> string list" where
  "gtiffOptions blockSizeX blockSizeY creationParams bigtiff =
     [''-co'', ''TILED=YES'', ''-co'', ''SPARSE_OK=TRUE''] @
     (if blockSizeX \<noteq> 0 then [''-co'', ''BLOCKXSIZE='' @ itoa blockSizeX] else []) @
     (if blockSizeY \<noteq> 0 then [''-co'', ''BLOCKYSIZE='' @ itoa blockSizeY] else []) @
     (if bigtiff then [''-co'', ''BIGTIFF=YES''] else []) @
     creationOptions creationParams False"

definition warpDatasetOptions ::
  "'ds gdal_lib \<Rightarrow> string \<Rightarrow> Affine option \<Rightarrow> float64 \<Rightarrow> float64 \<Rightarrow> Resampling \<Rightarrow> DataFormat \<Rightarrow> string list go" where
  "warpDatasetOptions L wktCRS transform width height resampling commonDFormat =
     (let options =
            [''-t_srs'', wktCRS, ''-ts'', F64ToS width, F64ToS height, ''-ovr'', ''AUTO'',
             ''-wo'', ''INIT_DEST='' @ F64ToS (df_NoData commonDFormat), ''-wm'', ''500'',
             ''-ot'', gl_typeName L (DType_ToGDAL (df_DType commonDFormat)),
             ''-r'', enum_String Resampling_table (Resampling_code resampling), ''-nomd'', ''-multi''] @
            [''-dstnodata'', if NoDataDefined commonDFormat then F64ToS (df_NoData commonDFormat) else ''None'']
      in case transform of
           None \<Rightarrow> Ret options
         | Some t \<Rightarrow>
             go_bind (Transform t (Fin 0) (Fin 0)) (\<lambda>(xMin, yMax).
             go_bind (Transform t width height) (\<lambda>(xMax, yMin).
               Ret (options @ [''-te'', F64ToS xMin, F64ToS yMin, F64ToS xMax, F64ToS yMax]))))"

section \<open>Temporary datasets\<close>

record gdal_state = gs_files :: "string list"
  gs_opened :: int
  gs_names :: nat

text \<open>The methods below return a result or an error and the state.  Closing counts the dataset as closed whatever it
  answers; the file stays when closing fails.\<close>

type_synonym 'a gd = "gdal_state \<Rightarrow> (gerr + 'a) \<times> gdal_state"

definition opened :: "int \<Rightarrow> gdal_state \<Rightarrow> gdal_state" where
  "opened n S = S\<lparr>gs_opened := gs_opened S + n\<rparr>"

definition add_file :: "string \<Rightarrow> gdal_state \<Rightarrow> gdal_state" where
  "add_file f S = (if f = [] then S else S\<lparr>gs_files := f # gs_files S\<rparr>)"

definition remove_file :: "string \<Rightarrow> gdal_state \<Rightarrow> gdal_state" where
  "remove_file f S = S\<lparr>gs_files := filter (\<lambda>x. x \<noteq> f) (gs_files S)\<rparr>"

definition virtual_name :: "'ds gdal_lib \<Rightarrow> string \<Rightarrow> gdal_state \<Rightarrow> string \<times> gdal_state" where
  "virtual_name L ext S = (''/vsimem/'' @ gl_uuid L (gs_names S) @ ext, S\<lparr>gs_names := gs_names S + 1\<rparr>)"

definition UnlinkDataset :: "'ds gdal_lib \<Rightarrow> 'ds \<Rightarrow> string \<Rightarrow> gdal_state \<Rightarrow> gdal_state" where
  "UnlinkDataset L ds uri S =
     (case gl_Close L ds of Some e \<Rightarrow> opened (- 1) S | None \<Rightarrow> remove_file uri (opened (- 1) S))"

text \<open>An ephemeral dataset is a dataset with the file to unlink, if it has one.\<close>

definition CloseEphemeralDatasets :: "'ds gdal_lib \<Rightarrow> ('ds \<times> string) list \<Rightarrow> gdal_state \<Rightarrow> gdal_state" where
  "CloseEphemeralDatasets L ds S = fold (\<lambda>(d, uri). UnlinkDataset L d uri) (rev ds) S"

definition CastDataset ::
  "'ds gdal_lib \<Rightarrow> 'ds \<Rightarrow> int list \<Rightarrow> DataMapping \<Rightarrow> DataMapping \<Rightarrow> string \<Rightarrow> 'ds gd" where
  "CastDataset L ds bands fromDFormat toDFormat dstDS S =
     (case CastDatasetOptions L fromDFormat toDFormat of
        Inl e \<Rightarrow> (Inl e, S)
      | Inr options \<Rightarrow>
          (case gl_Translate L dstDS ds (options @ ExtractBandsOption (gl_Bands L ds) bands @ (if dstDS = [] then [''-of'', ''MEM''] else [])) of
             Inl e \<Rightarrow> (Inl (WrapE ''castDataset.Translate: '' e []), S)
           | Inr out \<Rightarrow> (Inr out, opened 1 (add_file dstDS S))))"

text \<open>What \<open>CastFile\<close> does with an open dataset: without options it is the result itself.\<close>

definition cast_file :: "'ds gdal_lib \<Rightarrow> string \<Rightarrow> 'ds \<Rightarrow> string list \<Rightarrow> ('ds \<times> string) gd" where
  "cast_file L uri ds options S =
     (if options = [] then (Inr (ds, []), S)
      else let (turi, S) = virtual_name L ''.vrt'' S
           in case gl_Translate L turi ds options of
                Inl e \<Rightarrow> (Inl (WrapE (''CastFile.Translate['' @ uri @ ''] with options ['' @ gl_optionsText L options @ '']: '') e []), opened (- 1) S)
              | Inr tds \<Rightarrow> (Inr (tds, turi), opened (- 1) (opened 1 (add_file turi S))))"

definition CastFile ::
  "'ds gdal_lib \<Rightarrow> string \<Rightarrow> int list \<Rightarrow> DataMapping \<Rightarrow> DataMapping \<Rightarrow> ('ds \<times> string) gd" where
  "CastFile L uri bands fromDFormat toDFormat S =
     (case gl_Open L uri of
        Inl e \<Rightarrow> (Inl (WrapE (''CastFile['' @ uri @ '']: '') e []), S)
      | Inr ds \<Rightarrow>
          let S = opened 1 S; cast = CastDatasetOptions L fromDFormat toDFormat
          in case cast of
               Inl e \<Rightarrow>
                 if ErrNoCastToPerform \<notin> set (err_chain e) then (Inl e, opened (- 1) S)
                 else cast_file L uri ds (ExtractBandsOption (gl_Bands L ds) bands) S
             | Inr options \<Rightarrow> cast_file L uri ds (options @ ExtractBandsOption (gl_Bands L ds) bands) S)"

section \<open>Merging\<close>

record out_descriptor = descriptor +
  de_FileOut :: string
  de_BlockXSize :: int
  de_BlockYSize :: int
  de_CreationParams :: Metadata

text \<open>The datasets are cast one by one; an error stops the loop, the ones that are open are closed by the caller.\<close>

fun cast_all ::
  "'ds gdal_lib \<Rightarrow> DataMapping \<Rightarrow> SliceMeta \<Rightarrow> ('ds \<times> string) list \<Rightarrow> gdal_state \<Rightarrow> (gerr option \<times> ('ds \<times> string) list) \<times> gdal_state" where
  "cast_all L mapping [] vrts S = ((None, vrts), S)"
| "cast_all L mapping (d # ds) vrts S =
     (let out = mapping\<lparr>dm_DataFormat := (dm_DataFormat mapping)\<lparr>df_NoData := castValueBF L (df_NoData (dm_DataFormat (im_DataMapping d))) (im_DataMapping d) mapping\<rparr>\<rparr>
      in case CastFile L (GDALURI (im_URI d) (im_SubDir d)) (im_Bands d) (im_DataMapping d) out S of
           (Inl e, S) \<Rightarrow> ((Some (WrapE ''MergeDatasets.'' e []), vrts), S)
         | (Inr eds, S) \<Rightarrow> cast_all L mapping ds (vrts @ [eds]) S)"

text \<open>\<open>filepath.Ext\<close>: from the last dot of the last element of the path.\<close>

definition filepath_Ext :: "string \<Rightarrow> string" where
  "filepath_Ext p =
     (let f = after_last CHR ''/'' p in if CHR ''.'' \<in> set f then CHR ''.'' # after_last CHR ''.'' f else [])"

definition warp_options :: "'ds gdal_lib \<Rightarrow> out_descriptor \<Rightarrow> bool \<Rightarrow> string list go" where
  "warp_options L out alpha =
     go_bind (warpDatasetOptions L (de_WktCRS out) (Some (de_PixToCRS out)) (int_float (de_Width out)) (int_float (de_Height out))
                (de_Resampling out) (dm_DataFormat (de_DataMapping out))) (\<lambda>opts.
       Ret (opts @
            (if de_FileOut out = [] then [''-of'', ''MEM'']
             else if ToLower (filepath_Ext (de_FileOut out)) = ''.tif''
             then gtiffOptions (de_BlockXSize out) (de_BlockYSize out) (de_CreationParams out)
                    (wrap64 (de_Width out * de_Height out * de_Bands out) > 100000000)
             else []) @
            (if alpha then [''-dstAlpha''] else [])))"

definition without_nodata :: "out_descriptor \<Rightarrow> out_descriptor" where
  "without_nodata out =
     out\<lparr>de_DataMapping := (de_DataMapping out)\<lparr>dm_DataFormat := (dm_DataFormat (de_DataMapping out))\<lparr>df_NoData := NaN\<rparr>\<rparr>\<rparr>"

text \<open>The warp and the test of the valid pixels; the image is closed when there are not enough.\<close>

definition warp_datasets :: "'ds gdal_lib \<Rightarrow> out_descriptor \<Rightarrow> 'ds list \<Rightarrow> string list \<Rightarrow> 'ds gd" where
  "warp_datasets L out ds options S =
     (case gl_Warp L (de_FileOut out) ds options of
        Inl e \<Rightarrow> (Inl (WrapE (''mergeDatasets.Warp['' @ gl_optionsText L options @ '']: '') e []), S)
      | Inr merged \<Rightarrow>
          let S = opened 1 (add_file (de_FileOut out) S)
          in if de_ValidPixPc out < 0 then (Inr merged, S)
             else case gl_enough L merged (truncated_quot (wrap64 (de_Width out * de_Height out * de_ValidPixPc out)) 100) of
                    Inl e \<Rightarrow> (Inl (WrapE ''mergeDatasets.'' e []), opened (- 1) S)
                  | Inr enough \<Rightarrow>
                      if enough then (Inr merged, S)
                      else (Inl (NewEntityNotFound [] [] [] ''Not enough valid pixels (skipped)''), opened (- 1) S))"

definition MergeDatasets ::
  "'ds gdal_lib \<Rightarrow> SliceMeta \<Rightarrow> out_descriptor \<Rightarrow> gdal_state \<Rightarrow> ((gerr + 'ds) \<times> gdal_state) go" where
  "MergeDatasets L datasets out S =
     (if datasets = [] then Ret (Inl (PlainE ''mergeDatasets: no dataset to merge''), S)
      else let alpha = needAlpha (dm_DataFormat (de_DataMapping out)) (de_CreationParams out);
               out = (if alpha then without_nodata out else out)
           in case cast_all L (de_DataMapping out) datasets [] S of
                ((Some e, vrts), S) \<Rightarrow> Ret (Inl e, CloseEphemeralDatasets L vrts S)
              | ((None, vrts), S) \<Rightarrow>
                  go_bind (warp_options L out alpha) (\<lambda>options.
                    case warp_datasets L out (map fst vrts) options S of
                      (r, S) \<Rightarrow> Ret (r, CloseEphemeralDatasets L vrts S)))"

text \<open>The extent of the datasets once they are projected.\<close>

fun open_all :: "'ds gdal_lib \<Rightarrow> SliceMeta \<Rightarrow> 'ds list \<Rightarrow> gdal_state \<Rightarrow> (gerr option \<times> 'ds list) \<times> gdal_state" where
  "open_all L [] gds S = ((None, gds), S)"
| "open_all L (d # ds) gds S =
     (case gl_Open L (GDALURI (im_URI d) (im_SubDir d)) of
        Inl e \<Rightarrow> ((Some (WrapE (''while opening '' @ GDALURI (im_URI d) (im_SubDir d) @ '': '') e []), gds), S)
      | Inr g \<Rightarrow> open_all L ds (gds @ [g]) (opened 1 S))"

definition close_all :: "'ds list \<Rightarrow> gdal_state \<Rightarrow> gdal_state" where
  "close_all gds S = opened (- int (length gds)) S"

definition WarpedExtent ::
  "'ds gdal_lib \<Rightarrow> SliceMeta \<Rightarrow> string \<Rightarrow> float64 \<Rightarrow> float64 \<Rightarrow> (float64 \<times> float64 \<times> float64 \<times> float64) gd" where
  "WarpedExtent L datasets wktCRS resx resy S =
     (case open_all L datasets [] S of
        ((Some e, gds), S) \<Rightarrow> (Inl e, close_all gds S)
      | ((None, gds), S) \<Rightarrow>
          let (name, S) = virtual_name L ''.vrt'' S
          in case gl_Warp L name gds [''-t_srs'', wktCRS, ''-tr'', F64ToS resx, F64ToS resy] of
               Inl e \<Rightarrow> (Inl (WrapE ''failed to warp dataset: '' e []), close_all gds S)
             | Inr ds \<Rightarrow> (gl_Bounds L ds, close_all gds (UnlinkDataset L ds name (opened 1 (add_file name S)))))"

section \<open>Images as bytes\<close>

text \<open>The bytes of a file of the memory file system, the pixels of a dataset and the encoder of paletted images
  of the standard library.\<close>

record 'ds codecs = co_read :: "string \<Rightarrow> gerr + 8 word list"
  co_pixels :: "'ds \<Rightarrow> gerr + 8 word list"
  co_png :: "8 word list \<Rightarrow> rgba list \<Rightarrow> gerr + 8 word list"

definition prefixed :: "string \<Rightarrow> gerr + 'a \<Rightarrow> gerr + 'a" where
  "prefixed pre r = (case r of Inl e \<Rightarrow> Inl (WrapE pre e []) | Inr a \<Rightarrow> Inr a)"

definition png_format :: "bool \<Rightarrow> DataMapping \<Rightarrow> DataMapping" where
  "png_format interpolateColor m =
     (if interpolateColor
      then m\<lparr>dm_DataFormat := \<lparr>df_DType = DTypeUINT8, df_NoData = Fin 255, df_Range = \<lparr>r_Min = Fin 0, r_Max = Fin 254\<rparr>\<rparr>, dm_Exponent := Fin 1\<rparr>
      else m)"

definition DatasetToPngAsBytes ::
  "'ds gdal_lib \<Rightarrow> 'ds codecs \<Rightarrow> 'ds \<Rightarrow> DataMapping \<Rightarrow> Palette option \<Rightarrow> bool \<Rightarrow> gdal_state \<Rightarrow> ((gerr + 8 word list) \<times> gdal_state) go" where
  "DatasetToPngAsBytes L K ds fromDFormat palette interpolateColor S =
     (let df = dm_DataFormat fromDFormat
      in if \<not> interpolateColor \<and> (f_lt (r_Min (df_Range df)) (Fin 0) \<or> f_gt (r_Max (df_Range df)) (Fin 255) \<or>
             f_lt (df_NoData df) (Fin 0) \<or> f_gt (df_NoData df) (Fin 255))
         then Ret (Inl (PlainE ''cannot create a png, because the color interpolation is forbidden''), S)
         else go_bind (case palette of None \<Rightarrow> Ret None
              | Some p \<Rightarrow> if interpolateColor then go_bind (PaletteN p 255) (\<lambda>c. Ret (Some (c @ [\<lparr>px_R = 0, px_G = 0, px_B = 0, px_A = 0\<rparr>])))
                         else go_bind (PaletteN p 256) (\<lambda>c. Ret (Some c))) (\<lambda>palette256.
           let (name, S) = (if palette256 = None then virtual_name L ''.png'' S else ([], S))
           in case CastDataset L ds [] fromDFormat (png_format interpolateColor fromDFormat) name S of
                (Inl e, S) \<Rightarrow> Ret (Inl (WrapE ''DatasetToPngAsBytes.'' e []), S)
              | (Inr png, S) \<Rightarrow>
                  Ret (case palette256 of
                         None \<Rightarrow> prefixed ''DatasetToPngAsBytes.'' (co_read K name)
                       | Some colors \<Rightarrow>
                           (case co_pixels K png of
                              Inl e \<Rightarrow> Inl (WrapE ''DatasetToPngAsBytes.'' e [])
                            | Inr pixels \<Rightarrow> prefixed ''DatasetToPngAsBytes.PngEncode: '' (co_png K pixels colors)),
                       UnlinkDataset L png name S)))"

definition colorTableFromPalette :: "Palette option \<Rightarrow> gerr option" where
  "colorTableFromPalette palette = (case palette of None \<Rightarrow> None | Some p \<Rightarrow> Some (PlainE ''palette not supported yet''))"

definition DatasetToTiffAsBytes ::
  "'ds gdal_lib \<Rightarrow> 'ds codecs \<Rightarrow> 'ds \<Rightarrow> Metadata \<Rightarrow> Palette option \<Rightarrow> 8 word list gd" where
  "DatasetToTiffAsBytes L K ds tags palette S =
     (let (name, S) = virtual_name L ''.tif'' S
      in case gl_Translate L name ds (concat (map (\<lambda>(k, t). [''-mo'', k @ ''='' @ t]) tags)) of
           Inl e \<Rightarrow> (Inl (WrapE ''datasetToTiff.Translate: '' e []), S)
         | Inr tif \<Rightarrow>
             (case colorTableFromPalette palette of
                Some e \<Rightarrow> Inl (WrapE ''colorTableFromPalette: '' e [])
              | None \<Rightarrow> prefixed ''datasetToTiff.'' (co_read K name),
              UnlinkDataset L tif name (opened 1 (add_file name S))))"

end
