(* ===== verification/CastingProps.thy ===== *)
theory CastingProps
  imports Casting
begin

text \<open>
  Converting and merging images: a converted value fits its type, the mask of a lossy output follows the
  compression of the consolidation, the casts that GDAL cannot do are refused, and merging leaves no temporary file.
\<close>

section \<open>Values\<close>

lemma clamped:
  assumes "lo \<le> hi"
  shows "f_min (f_max v (Fin lo)) (Fin hi) = NaN \<and> v = NaN \<or>
    (\<exists>q. f_min (f_max v (Fin lo)) (Fin hi) = Fin q \<and> lo \<le> q \<and> q \<le> hi)"
  using assms by (cases v) (auto simp: f_min_def f_max_def)

lemma value_limits_dtype:
  assumes "value_limits t = Some (lo, hi)"
  shows "MinValue t = Ret (Fin lo) \<and> MaxValue t = Ret (Fin hi) \<and> lo \<le> hi"
  using assms
  by (cases t) (auto simp: MinValue_def MaxValue_def array_at_def minValues_def maxValues_def MaxFloat32_def)

lemma castValueBF_fits:
  assumes "value_limits (df_DType (dm_DataFormat to)) = Some (lo, hi)"
  shows "castValueBF L v from to = NaN \<or> (\<exists>q. castValueBF L v from to = Fin q \<and> lo \<le> q \<and> q \<le> hi)"
  using clamped [of lo hi] value_limits_dtype [OF assms] assms unfolding castValueBF_def Let_def by auto

text \<open>The value for missing pixels, converted from any other format, keeps the format of the output valid, for every
  type with limits of its own.\<close>

theorem cast_nodata_is_representable:
  assumes "DataFormat_validate (dm_DataFormat to) = Ret None"
    and "value_limits (df_DType (dm_DataFormat to)) \<noteq> None"
  shows "DataFormat_validate ((dm_DataFormat to)\<lparr>df_NoData := castValueBF L v from to\<rparr>) = Ret None"
proof -
  obtain lo hi where l: "value_limits (df_DType (dm_DataFormat to)) = Some (lo, hi)" using assms(2) by auto
  have m: "MinValue (df_DType (dm_DataFormat to)) = Ret (Fin lo)" "MaxValue (df_DType (dm_DataFormat to)) = Ret (Fin hi)"
    using value_limits_dtype [OF l] by auto
  show ?thesis
    using assms(1) castValueBF_fits [OF l, of L v "from"] by (auto simp: DataFormat_validate_def m split: if_splits option.splits)
qed

section \<open>Masks\<close>

text \<open>Parameters made by the validation alone ask for a mask exactly for a lossy compression of an image with missing
  pixels.\<close>

theorem alpha_follows_compression:
  assumes "ConsolidationParams_validate c = (None, c')" and "cp_CreationParams c = []"
  shows "needAlpha (cp_DFormat c) (cp_CreationParams c') \<longleftrightarrow> NoDataDefined (cp_DFormat c) \<and> cp_Compression c = CompressionLOSSY"
proof -
  from assms have v: "validateCompression c = (None, c')"
    by (auto simp: ConsolidationParams_validate_def validForPacking_def split: prod.splits option.splits)
  note evals = validateCompression_def Let_def map_of_addCreationParams lerc_params_def zstd_params_def
  have p: "map_of (cp_CreationParams c') k = None" if "cp_Compression c = CompressionNO" for k
    using v that assms(2) by (simp add: validateCompression_def)
  have q: "map_of (cp_CreationParams c') ''JPEG_QUALITY'' = None \<and> map_of (cp_CreationParams c') ''JPEG_QUALITY_OVERVIEW'' = None \<and>
      map_of (cp_CreationParams c') ''JXL_LOSSLESS'' = None \<and>
      map_of (cp_CreationParams c') ''COMPRESS'' \<notin> {Some ''WEBP'', Some ''JPEG''} \<and>
      map_of (cp_CreationParams c') ''COMPRESS_OVERVIEW'' \<notin> {Some ''WEBP'', Some ''JPEG''} \<and>
      (map_of (cp_CreationParams c') ''MAX_Z_ERROR'' \<notin> {None, Some ''0''} \<longleftrightarrow> cp_Compression c = CompressionLOSSY) \<and>
      (map_of (cp_CreationParams c') ''MAX_Z_ERROR_OVERVIEW'' \<notin> {None, Some ''0''} \<longleftrightarrow> cp_Compression c = CompressionLOSSY)"
  proof (cases "cp_Compression c")
    case CompressionNO
    then show ?thesis by (simp add: p)
  next
    case CompressionLOSSY
    then show ?thesis using v assms(2) by (auto simp: evals split: if_splits)
  next
    case CompressionLOSSLESS
    then show ?thesis using v assms(2) by (auto simp: evals split: if_splits)
  qed (use v assms(2) in \<open>auto simp: validateCompression_def Let_def\<close>)
  then show ?thesis
    by (auto simp: needAlpha_def given_not_def lossy_codec_def Let_def split: option.splits)
qed

section \<open>Casts\<close>

text \<open>A cast is left out when the formats are equal, and refused only when both scales are curved, unless they are
  curved alike from the same value on.\<close>

theorem refused_casts:
  "(\<exists>e. CastDatasetOptions L from to = Inl e) \<longleftrightarrow>
     DataMapping_Equals from to \<or>
     \<not> f_eq (dm_Exponent from) (Fin 1) \<and> \<not> f_eq (dm_Exponent to) (Fin 1) \<and>
     \<not> (f_eq (dm_Exponent from) (dm_Exponent to) \<and> f_eq (r_Min (dm_RangeExt from)) (r_Min (dm_RangeExt to)))"
  by (auto simp: CastDatasetOptions_def Let_def)

text \<open>Without interpolation of the colours the format of the PNG is the one of the dataset, and the cast to the same
  format is an error: no such image is ever made.\<close>

theorem png_without_interpolation_fails:
  assumes "DataMapping_Equals m m" and "palette = None"
  shows "\<exists>e S'. DatasetToPngAsBytes L K ds m palette False S = Ret (Inl e, S')"
  using assms
  by (auto simp: DatasetToPngAsBytes_def Let_def png_format_def CastDataset_def CastDatasetOptions_def split: prod.splits)

section \<open>Temporary files\<close>

lemma fields_state [simp]:
  "gs_files (opened n S) = gs_files S" "gs_opened (opened n S) = gs_opened S + n" "gs_names (opened n S) = gs_names S"
  "gs_opened (add_file f S) = gs_opened S" "gs_names (add_file f S) = gs_names S"
  "gs_opened (remove_file f S) = gs_opened S" "gs_names (remove_file f S) = gs_names S"
  "gs_files (remove_file f S) = filter (\<lambda>x. x \<noteq> f) (gs_files S)"
  "set (gs_files (add_file f S)) = set (gs_files S) \<union> (if f = [] then {} else {f})"
  by (simp_all add: opened_def add_file_def remove_file_def)

definition closes :: "'ds gdal_lib \<Rightarrow> bool" where
  "closes L \<longleftrightarrow> (\<forall>d. gl_Close L d = None)"

definition vrt_name :: "'ds gdal_lib \<Rightarrow> nat \<Rightarrow> string" where
  "vrt_name L i = ''/vsimem/'' @ gl_uuid L i @ ''.vrt''"

lemma vrt_name_nonempty [simp]: "vrt_name L i \<noteq> []" by (simp add: vrt_name_def)

lemma CloseEphemeralDatasets_fields:
  assumes "closes L"
  shows "gs_opened (CloseEphemeralDatasets L vs S) = gs_opened S - int (length vs) \<and>
    set (gs_files (CloseEphemeralDatasets L vs S)) = set (gs_files S) - snd ` set vs"
proof -
  have "gs_opened (fold (\<lambda>(d, uri). UnlinkDataset L d uri) xs S) = gs_opened S - int (length xs) \<and>
    set (gs_files (fold (\<lambda>(d, uri). UnlinkDataset L d uri) xs S)) = set (gs_files S) - snd ` set xs" for xs
    using assms by (induction xs arbitrary: S) (auto simp: closes_def UnlinkDataset_def)
  from this [of "rev vs"] show ?thesis by (simp add: CloseEphemeralDatasets_def)
qed

text \<open>\<open>temporaries L S vs S'\<close>: the state \<open>S'\<close> is \<open>S\<close> with the datasets of \<open>vs\<close> open and their files added, under names
  drawn since.\<close>

definition temporaries :: "'ds gdal_lib \<Rightarrow> gdal_state \<Rightarrow> ('ds \<times> string) list \<Rightarrow> gdal_state \<Rightarrow> bool" where
  "temporaries L S vs S' \<longleftrightarrow>
     gs_opened S' = gs_opened S + int (length vs) \<and> gs_names S \<le> gs_names S' \<and>
     set (gs_files S') = set (gs_files S) \<union> (snd ` set vs - {[]}) \<and>
     snd ` set vs \<subseteq> insert [] (vrt_name L ` {gs_names S..<gs_names S'})"

lemma cast_file_temporaries:
  assumes "cast_file L uri ds options (opened 1 S) = (r, S')"
  shows "case r of Inl e \<Rightarrow> temporaries L S [] S' | Inr eds \<Rightarrow> temporaries L S [eds] S'"
  using assms
  by (auto simp: cast_file_def virtual_name_def temporaries_def vrt_name_def Let_def split: if_splits sum.splits)

lemma CastFile_temporaries:
  assumes "CastFile L uri bands from to S = (r, S')"
  shows "case r of Inl e \<Rightarrow> temporaries L S [] S' | Inr eds \<Rightarrow> temporaries L S [eds] S'"
proof (cases "gl_Open L uri")
  case (Inl e)
  then show ?thesis using assms by (auto simp: CastFile_def temporaries_def)
next
  case (Inr ds)
  show ?thesis
  proof (cases "\<exists>e. CastDatasetOptions L from to = Inl e \<and> ErrNoCastToPerform \<notin> set (err_chain e)")
    case True
    then show ?thesis using assms Inr by (auto simp: CastFile_def Let_def temporaries_def)
  next
    case False
    then obtain options where "cast_file L uri ds options (opened 1 S) = (r, S')"
      using assms Inr by (auto simp: CastFile_def Let_def split: sum.splits)
    then show ?thesis by (rule cast_file_temporaries)
  qed
qed

lemma temporaries_trans:
  assumes "temporaries L S vs S1" "temporaries L S1 ws S2"
  shows "temporaries L S (vs @ ws) S2"
proof -
  have "vrt_name L ` {gs_names S..<gs_names S1} \<union> vrt_name L ` {gs_names S1..<gs_names S2} \<subseteq> vrt_name L ` {gs_names S..<gs_names S2}"
    using assms by (auto simp: temporaries_def)
  with assms show ?thesis unfolding temporaries_def by (auto simp: image_Un)
qed

lemma cast_all_temporaries:
  assumes "cast_all L mapping ds vrts S1 = ((eo, vs), S2)" "temporaries L S vrts S1"
  shows "temporaries L S vs S2"
  using assms
proof (induction ds arbitrary: vrts S1)
  case (Cons d ds)
  let ?out = "mapping\<lparr>dm_DataFormat := (dm_DataFormat mapping)\<lparr>df_NoData := castValueBF L (df_NoData (dm_DataFormat (im_DataMapping d))) (im_DataMapping d) mapping\<rparr>\<rparr>"
  obtain r S3 where c: "CastFile L (GDALURI (im_URI d) (im_SubDir d)) (im_Bands d) (im_DataMapping d) ?out S1 = (r, S3)" by fastforce
  note t = CastFile_temporaries [OF c]
  show ?case
  proof (cases r)
    case (Inl e)
    then show ?thesis using Cons.prems c t temporaries_trans [of L S vrts S1 "[]" S3] by (auto simp: Let_def)
  next
    case (Inr eds)
    have "temporaries L S (vrts @ [eds]) S3" using t Inr Cons.prems(2) temporaries_trans by fastforce
    with Cons.IH [of "vrts @ [eds]" S3] Cons.prems(1) c Inr show ?thesis by (simp add: Let_def)
  qed
qed simp

text \<open>The warp adds the output, which stays open when it is returned.\<close>

lemma warp_datasets_state:
  assumes "warp_datasets L out ds options S = (r, S')"
  shows "gs_opened S' = gs_opened S + (case r of Inl e \<Rightarrow> 0 | Inr d \<Rightarrow> 1) \<and> gs_names S' = gs_names S \<and>
    set (gs_files S) \<subseteq> set (gs_files S') \<and> set (gs_files S') \<subseteq> insert (de_FileOut out) (set (gs_files S)) \<and>
    ((\<exists>d. r = Inr d) \<and> de_FileOut out \<noteq> [] \<longrightarrow> de_FileOut out \<in> set (gs_files S'))"
  using assms by (auto simp: warp_datasets_def Let_def split: sum.splits if_splits)

definition fresh_names :: "'ds gdal_lib \<Rightarrow> string \<Rightarrow> gdal_state \<Rightarrow> bool" where
  "fresh_names L f S \<longleftrightarrow> (\<forall>i. vrt_name L i \<noteq> f \<and> vrt_name L i \<notin> set (gs_files S))"

lemma fresh_sets:
  assumes n: "\<And>u. u \<in> U \<Longrightarrow> u = [] \<or> (u \<noteq> f \<and> u \<notin> A)" and "B = A \<union> (U - {[]})"
    and "B \<subseteq> F" "F \<subseteq> insert f B" "C = F - U" "[] \<notin> A"
  shows "A \<subseteq> C \<and> C \<subseteq> insert f A \<and> (f \<in> F \<and> f \<noteq> [] \<longrightarrow> f \<in> C)"
proof (intro conjI)
  show "A \<subseteq> C"
  proof
    fix x assume x: "x \<in> A"
    then have "x \<notin> U" using n [of x] assms(6) by metis
    then show "x \<in> C" using x assms(2,3,5) by blast
  qed
  show "C \<subseteq> insert f A"
  proof
    fix x assume "x \<in> C"
    then have "x \<in> F" "x \<notin> U" using assms(5) by blast+
    then show "x \<in> insert f A" using assms(2,4) by blast
  qed
  show "f \<in> F \<and> f \<noteq> [] \<longrightarrow> f \<in> C" using n [of f] assms(5) by auto
qed

lemma fresh_closed:
  assumes "temporaries L S vs S1" "fresh_names L f S" "closes L"
    and "set (gs_files S1) \<subseteq> F" "F \<subseteq> insert f (set (gs_files S1))" "set (gs_files S2) = F - snd ` set vs" "[] \<notin> set (gs_files S)"
  shows "set (gs_files S) \<subseteq> set (gs_files S2) \<and> set (gs_files S2) \<subseteq> insert f (set (gs_files S)) \<and> (f \<in> F \<and> f \<noteq> [] \<longrightarrow> f \<in> set (gs_files S2))"
proof -
  have v: "snd ` set vs \<subseteq> insert [] (vrt_name L ` {gs_names S..<gs_names S1})" using assms(1) by (simp add: temporaries_def)
  have n: "u = [] \<or> (u \<noteq> f \<and> u \<notin> set (gs_files S))" if "u \<in> snd ` set vs" for u
  proof -
    from v that have "u = [] \<or> (\<exists>i. u = vrt_name L i)" by (rule subsetD [THEN insertE]) auto
    then show ?thesis using assms(2) by (auto simp: fresh_names_def)
  qed
  have g: "set (gs_files S1) = set (gs_files S) \<union> (snd ` set vs - {[]})" using assms(1) by (simp add: temporaries_def)
  show ?thesis by (rule fresh_sets [OF n g assms(4-7)])
qed

text \<open>C40: Merging images leaves nothing behind.  However many images there are and whatever fails on the way (a file that
  cannot be opened or cast, the warp, the test of the valid pixels), once the merge returns every dataset it opened is
  closed but the one that is returned, and the files of the memory file system are those before, with the output file if
  there is one, which is there on success.  Closing a dataset is supposed to work and the names drawn for temporary files
  to be new.\<close>

theorem merging_leaves_no_temporary:
  assumes "MergeDatasets L ds out S = Ret (r, S')" and "closes L" and "fresh_names L (de_FileOut out) S" and "[] \<notin> set (gs_files S)"
  shows "gs_opened S' = gs_opened S + (case r of Inl e \<Rightarrow> 0 | Inr d \<Rightarrow> 1) \<and>
    set (gs_files S) \<subseteq> set (gs_files S') \<and> set (gs_files S') \<subseteq> insert (de_FileOut out) (set (gs_files S)) \<and>
    ((\<exists>d. r = Inr d) \<and> de_FileOut out \<noteq> [] \<longrightarrow> de_FileOut out \<in> set (gs_files S'))"
proof (cases "ds = []")
  case True
  then show ?thesis using assms(1) by (auto simp: MergeDatasets_def)
next
  case False
  let ?alpha = "needAlpha (dm_DataFormat (de_DataMapping out)) (de_CreationParams out)"
  let ?out = "if ?alpha then without_nodata out else out"
  have f: "de_FileOut ?out = de_FileOut out" by (simp add: without_nodata_def)
  obtain eo vs S1 where c: "cast_all L (de_DataMapping ?out) ds [] S = ((eo, vs), S1)" by (metis prod.exhaust)
  have t: "temporaries L S vs S1" by (rule cast_all_temporaries [OF c]) (simp add: temporaries_def)
  note close = CloseEphemeralDatasets_fields [OF assms(2), of vs]
  show ?thesis
  proof (cases eo)
    case (Some e)
    with False c assms(1) have r: "r = Inl e" "S' = CloseEphemeralDatasets L vs S1"
      by (auto simp: MergeDatasets_def Let_def split: if_splits)
    have "gs_opened S' = gs_opened S" using t close [of S1] r by (simp add: temporaries_def)
    moreover have "set (gs_files S) \<subseteq> set (gs_files S') \<and> set (gs_files S') \<subseteq> insert (de_FileOut out) (set (gs_files S))"
      using fresh_closed [OF t assms(3) assms(2) _ _ _ assms(4), of "set (gs_files S1)" S'] close [of S1] r(2) by auto
    ultimately show ?thesis using r(1) by simp
  next
    case None
    with False c assms(1) obtain options S2 where w: "warp_datasets L ?out (map fst vs) options S1 = (r, S2)"
      and S': "S' = CloseEphemeralDatasets L vs S2"
      by (auto simp: MergeDatasets_def Let_def go_bind_eq_Ret_iff split: if_splits prod.splits)
    note w = warp_datasets_state [OF w, unfolded f]
    have "gs_opened S' = gs_opened S + (case r of Inl e \<Rightarrow> 0 | Inr d \<Rightarrow> 1)"
      using t w close [of S2] S' by (simp add: temporaries_def)
    moreover have "set (gs_files S') = set (gs_files S2) - snd ` set vs" using close [of S2] S' by simp
    ultimately show ?thesis
      using fresh_closed [OF t assms(3) assms(2) _ _ _ assms(4), of "set (gs_files S2)" S'] w by auto
  qed
qed

definition sample_gdal :: "string gdal_lib" where
  "sample_gdal =
     \<lparr>gl_Open = (\<lambda>u. if u = ''/c.tif'' then Inl (PlainE ''no such file'') else Inr u), gl_Bands = (\<lambda>d. 1),
      gl_Translate = (\<lambda>n d opts. Inr n), gl_Warp = (\<lambda>n ds opts. Inr n), gl_Close = (\<lambda>d. None),
      gl_Bounds = (\<lambda>d. Inr (Fin 0, Fin 0, Fin 1, Fin 1)), gl_enough = (\<lambda>d n. Inr True), gl_typeName = (\<lambda>t. ''Byte''),
      gl_pow = (\<lambda>x y. x), gl_mappingText = (\<lambda>m. []), gl_optionsText = concat, gl_uuid = (\<lambda>i. replicate i CHR ''i'')\<rparr>"

definition byte_mapping :: "rat \<Rightarrow> DataMapping" where
  "byte_mapping hi =
     \<lparr>dm_DataFormat = \<lparr>df_DType = DTypeUINT8, df_NoData = Fin 0, df_Range = \<lparr>r_Min = Fin 0, r_Max = Fin hi\<rparr>\<rparr>,
      dm_RangeExt = \<lparr>r_Min = Fin 0, r_Max = Fin 100\<rparr>, dm_Exponent = Fin 1\<rparr>"

definition sample_image :: "string \<Rightarrow> rat \<Rightarrow> im_Dataset" where
  "sample_image u hi = \<lparr>im_URI = u, im_SubDir = [], im_Bands = [1], im_DataMapping = byte_mapping hi\<rparr>"

definition sample_out :: out_descriptor where
  "sample_out =
     \<lparr>de_WktCRS = ''WKT'', de_PixToCRS = Translation (Fin 0) (Fin 0), de_Width = 2, de_Height = 2, de_Bands = 1,
      de_Resampling = ResamplingNEAR, de_DataMapping = byte_mapping 200, de_ValidPixPc = - 1, de_Format = [], de_Palette = None,
      de_FileOut = ''/tmp/out.tif'', de_BlockXSize = 256, de_BlockYSize = 256, de_CreationParams = [(''COMPRESS'', ''LZW'')]\<rparr>"

definition empty_gdal :: gdal_state where
  "empty_gdal = \<lparr>gs_files = [], gs_opened = 0, gs_names = 0\<rparr>"

lemma sample_cast:
  "dm_Exponent to = Fin 1 \<Longrightarrow> uri \<noteq> ''/c.tif'' \<Longrightarrow> \<exists>eds S'. CastFile sample_gdal uri bands from to S = (Inr eds, S')"
proof -
  assume to: "dm_Exponent to = Fin 1" and uri: "uri \<noteq> ''/c.tif''"
  have op: "gl_Open sample_gdal uri = Inr uri" using uri by (simp add: sample_gdal_def)
  have t: "gl_Translate sample_gdal n d opts = Inr n" for n d opts by (simp add: sample_gdal_def)
  have f: "\<exists>eds S'. cast_file sample_gdal u d opts S = (Inr eds, S')" for u d opts S
    by (simp add: cast_file_def virtual_name_def t)
  have e: "CastDatasetOptions sample_gdal from to = Inl e \<Longrightarrow> e = ErrNoCastToPerform" for e
    using to by (auto simp: CastDatasetOptions_def Let_def split: if_splits)
  have "ErrNoCastToPerform \<in> set (err_chain ErrNoCastToPerform)" by (simp add: ErrNoCastToPerform_def)
  with f e show ?thesis
    by (cases "CastDatasetOptions sample_gdal from to") (auto simp: CastFile_def op Let_def)
qed

lemma sample_cast_all:
  "dm_Exponent m = Fin 1 \<Longrightarrow> \<forall>d \<in> set ds. im_URI d \<noteq> ''/c.tif'' \<and> im_SubDir d = [] \<Longrightarrow>
   \<exists>vs S'. cast_all sample_gdal m ds vrts S = ((None, vs), S')"
proof (induction ds arbitrary: vrts S)
  case (Cons d ds)
  let ?out = "m\<lparr>dm_DataFormat := (dm_DataFormat m)\<lparr>df_NoData := castValueBF sample_gdal (df_NoData (dm_DataFormat (im_DataMapping d))) (im_DataMapping d) m\<rparr>\<rparr>"
  obtain eds S' where "CastFile sample_gdal (im_URI d) (im_Bands d) (im_DataMapping d) ?out S = (Inr eds, S')"
    using sample_cast [of ?out "im_URI d"] Cons.prems by fastforce
  with Cons show ?case by (simp add: GDALURI_def Let_def)
qed simp

lemma sample_warp_options: "\<exists>opts. warp_options sample_gdal sample_out False = Ret opts"
proof -
  have two: "int_float 2 = Fin 2" by code_simp
  show ?thesis
    by (simp add: warp_options_def warpDatasetOptions_def sample_out_def two Transform_def Translation_def NewAffine_def
        highPrecisionTransform_def Let_def)
qed

lemma sample_merge:
  "\<exists>d S'. MergeDatasets sample_gdal [sample_image ''/a.tif'' 200, sample_image ''/b.tif'' 100] sample_out empty_gdal = Ret (Inr d, S')"
proof -
  have n: "\<not> needAlpha (dm_DataFormat (de_DataMapping sample_out)) (de_CreationParams sample_out)" by code_simp
  obtain vs S' where c: "cast_all sample_gdal (de_DataMapping sample_out) [sample_image ''/a.tif'' 200, sample_image ''/b.tif'' 100] [] empty_gdal = ((None, vs), S')"
    using sample_cast_all [of "de_DataMapping sample_out" "[sample_image ''/a.tif'' 200, sample_image ''/b.tif'' 100]"]
    by (fastforce simp: sample_out_def byte_mapping_def sample_image_def)
  obtain opts where "warp_options sample_gdal sample_out False = Ret opts" using sample_warp_options by blast
  moreover have "gl_Warp sample_gdal f ds o1 = Inr f" for f ds o1 by (simp add: sample_gdal_def)
  moreover have "de_ValidPixPc sample_out < 0" by (simp add: sample_out_def)
  ultimately show ?thesis by (simp add: MergeDatasets_def n c warp_datasets_def Let_def del: cast_all.simps)
qed

lemma sample_gdal_facts: "closes sample_gdal" "fresh_names sample_gdal ''/tmp/out.tif'' empty_gdal"
  by (auto simp: closes_def fresh_names_def sample_gdal_def vrt_name_def empty_gdal_def)

theorem merging_leaves_no_temporary_witness:
  "\<exists>d S'. MergeDatasets sample_gdal [sample_image ''/a.tif'' 200, sample_image ''/b.tif'' 100] sample_out empty_gdal = Ret (Inr d, S') \<and>
     gs_opened S' = 1 \<and> set (gs_files S') = {''/tmp/out.tif''}"
proof -
  obtain d S' where m: "MergeDatasets sample_gdal [sample_image ''/a.tif'' 200, sample_image ''/b.tif'' 100] sample_out empty_gdal = Ret (Inr d, S')"
    using sample_merge by blast
  have "fresh_names sample_gdal (de_FileOut sample_out) empty_gdal" "[] \<notin> set (gs_files empty_gdal)"
    using sample_gdal_facts(2) by (simp_all add: sample_out_def empty_gdal_def)
  from merging_leaves_no_temporary [OF m sample_gdal_facts(1) this] m show ?thesis
    by (auto simp: empty_gdal_def sample_out_def)
qed

end
