(* ===== verification/Messaging.thy ===== *)
theory Messaging
  imports Events Catalog
begin

text \<open>
  Queues of messages: interface/messaging (messaging.go), its clients of Pub/Sub (pubsub/publisher.go, consumer.go)
  and of the queue in PostgreSQL (pgqueue/pgqueue.go), and what a worker does with a message (cmd/consolidater/main.go).
  The libraries behind are parameters: what the attempt number \<open>t\<close> to send a message answers.  Messages are strings of
  bytes.  The waits between two attempts only take time.
\<close>

section \<open>Publishing on Pub/Sub\<close>

text \<open>The messages are sent in batches of bounded size; \<open>limit\<close> is half the size of the buffer of the library, a
  positive number.  The last message of a batch may exceed it.\<close>

fun next_batch :: "int \<Rightarrow> string list \<Rightarrow> string list \<times> string list" where
  "next_batch limit [] = ([], [])"
| "next_batch limit (d # ds) =
     (if limit > 0 then (let (b, rest) = next_batch (limit - int (length d)) ds in (d # b, rest)) else ([], d # ds))"

lemma next_batch_append: "fst (next_batch limit ds) @ snd (next_batch limit ds) = ds"
  by (induction limit ds rule: next_batch.induct) (auto simp: Let_def split: prod.splits)

lemma next_batch_shorter: "0 < limit \<Longrightarrow> ds \<noteq> [] \<Longrightarrow> length (snd (next_batch limit ds)) < length ds"
proof -
  assume a: "0 < limit" "ds \<noteq> []"
  then have "fst (next_batch limit ds) \<noteq> []" by (cases ds) (auto simp: Let_def split: prod.splits)
  then have "0 < length (fst (next_batch limit ds))" by simp
  moreover have "length (fst (next_batch limit ds)) + length (snd (next_batch limit ds)) = length ds"
    by (metis next_batch_append length_append)
  ultimately show ?thesis by linarith
qed

function batches :: "int \<Rightarrow> string list \<Rightarrow> string list list" where
  "batches limit ds =
     (if limit \<le> 0 \<or> ds = [] then [] else fst (next_batch limit ds) # batches limit (snd (next_batch limit ds)))"
  by pat_completeness auto

termination by (relation "measure (\<lambda>(limit, ds). length ds)") (auto simp: next_batch_shorter)

declare batches.simps [simp del]

text \<open>All the messages of a batch are sent, then their results are awaited.  The numbers of the messages to send again
  are numbers in the batch.\<close>

fun await_results :: "bool \<Rightarrow> nat \<Rightarrow> gerr option list \<Rightarrow> gerr + nat list" where
  "await_results again i [] = Inr []"
| "await_results again i (None # rs) = await_results again (Suc i) rs"
| "await_results again i (Some e # rs) =
     (if Retriable e \<and> again
      then (case await_results again (Suc i) rs of Inl e \<Rightarrow> Inl e | Inr ids \<Rightarrow> Inr (i # ids))
      else Inl (WrapE ''Publish: '' e []))"

definition batch_results :: "(nat \<Rightarrow> string \<Rightarrow> gerr option) \<Rightarrow> nat \<Rightarrow> string list \<Rightarrow> gerr option list" where
  "batch_results send t b = map (\<lambda>i. send (t + i) (b ! i)) [0..<length b]"

definition accepted :: "gerr option list \<Rightarrow> string list \<Rightarrow> string list" where
  "accepted rs b = map snd (filter (\<lambda>(r, d). r = None) (zip rs b))"

fun send_batches ::
  "(nat \<Rightarrow> string \<Rightarrow> gerr option) \<Rightarrow> bool \<Rightarrow> nat \<Rightarrow> string list list \<Rightarrow> (gerr + nat list) \<times> string list \<times> nat" where
  "send_batches send again t [] = (Inr [], [], t)"
| "send_batches send again t (b # bs) =
     (let rs = batch_results send t b
      in case await_results again 0 rs of
           Inl e \<Rightarrow> (Inl e, accepted rs b, t + length b)
         | Inr ids \<Rightarrow>
             (case send_batches send again (t + length b) bs of
                (Inl e, sent, t) \<Rightarrow> (Inl e, accepted rs b @ sent, t)
              | (Inr others, sent, t) \<Rightarrow> (Inr (ids @ others), accepted rs b @ sent, t)))"

text \<open>\<open>left\<close> is the number of retries that are left.  The result is the error and the messages that were sent.\<close>

fun publish :: "(nat \<Rightarrow> string \<Rightarrow> gerr option) \<Rightarrow> int \<Rightarrow> nat \<Rightarrow> nat \<Rightarrow> string list \<Rightarrow> gerr option \<times> string list" where
  "publish send limit left t ds =
     (case send_batches send (0 < left) t (batches limit ds) of
        (Inl e, sent, t) \<Rightarrow> (Some e, sent)
      | (Inr ids, sent, t) \<Rightarrow>
          if ids = [] then (None, sent)
          else case left of
                 0 \<Rightarrow> (None, sent)
               | Suc l \<Rightarrow> (case publish send limit l t (map (\<lambda>i. ds ! i) ids) of (eo, others) \<Rightarrow> (eo, sent @ others)))"

declare publish.simps [simp del]

definition Publish :: "(nat \<Rightarrow> string \<Rightarrow> gerr option) \<Rightarrow> int \<Rightarrow> int \<Rightarrow> string list \<Rightarrow> gerr option \<times> string list" where
  "Publish send limit maxRetries ds = publish send limit (nat maxRetries) 0 ds"

section \<open>Publishing on the queue of PostgreSQL\<close>

text \<open>\<open>enqueue t d\<close> answers the number of the job and the error.  The numbers of the jobs that failed are used as the
  numbers of the messages to send again.\<close>

fun enqueue_all ::
  "(nat \<Rightarrow> string \<Rightarrow> int \<times> gerr option) \<Rightarrow> bool \<Rightarrow> nat \<Rightarrow> string list \<Rightarrow> (gerr + int list) \<times> string list \<times> nat" where
  "enqueue_all enqueue again t [] = (Inr [], [], t)"
| "enqueue_all enqueue again t (d # ds) =
     (case enqueue t d of
        (jobID, None) \<Rightarrow> (case enqueue_all enqueue again (Suc t) ds of (r, sent, t) \<Rightarrow> (r, d # sent, t))
      | (jobID, Some e) \<Rightarrow>
          if \<not> Retriable e \<or> \<not> again then (Inl (WrapE ''pgQueue.Publish: '' e []), [], Suc t)
          else (case enqueue_all enqueue again (Suc t) ds of
                  (Inl e, sent, t) \<Rightarrow> (Inl e, sent, t)
                | (Inr ids, sent, t) \<Rightarrow> (Inr (jobID # ids), sent, t)))"

definition message_at :: "string list \<Rightarrow> int \<Rightarrow> string go" where
  "message_at ds i =
     (if i < 0 \<or> int (length ds) \<le> i then Panic ''runtime error: index out of range'' else Ret (ds ! nat i))"

fun messages_at :: "string list \<Rightarrow> int list \<Rightarrow> string list go" where
  "messages_at ds [] = Ret []"
| "messages_at ds (i # is) = go_bind (message_at ds i) (\<lambda>d. go_bind (messages_at ds is) (\<lambda>r. Ret (d # r)))"

fun pgq_publish ::
  "(nat \<Rightarrow> string \<Rightarrow> int \<times> gerr option) \<Rightarrow> nat \<Rightarrow> nat \<Rightarrow> string list \<Rightarrow> (gerr option \<times> string list) go" where
  "pgq_publish enqueue left t ds =
     (case enqueue_all enqueue (0 < left) t ds of
        (Inl e, sent, t) \<Rightarrow> Ret (Some e, sent)
      | (Inr ids, sent, t) \<Rightarrow>
          if ids = [] then Ret (None, sent)
          else go_bind (messages_at ds ids) (\<lambda>again.
            case left of
              0 \<Rightarrow> Ret (None, sent)
            | Suc l \<Rightarrow> go_bind (pgq_publish enqueue l t again) (\<lambda>(eo, others). Ret (eo, sent @ others))))"

declare pgq_publish.simps [simp del]

definition pgq_Publish :: "(nat \<Rightarrow> string \<Rightarrow> int \<times> gerr option) \<Rightarrow> int \<Rightarrow> string list \<Rightarrow> (gerr option \<times> string list) go" where
  "pgq_Publish enqueue maxRetries ds = pgq_publish enqueue (nat maxRetries) 0 ds"

section \<open>Consuming\<close>

record queue_message = qm_ID :: string
  qm_Data :: payload
  qm_TryCount :: int

text \<open>On the queue of PostgreSQL a message that is not acknowledged is tried again; it carries no count.\<close>

definition pgq_handler :: "(queue_message \<Rightarrow> gerr option) \<Rightarrow> payload \<Rightarrow> gerr option" where
  "pgq_handler cb d =
     (case cb \<lparr>qm_ID = [], qm_Data = d, qm_TryCount = - 1\<rparr> of
        None \<Rightarrow> None
      | Some e \<Rightarrow> if Temporary e then Some e else None)"

text \<open>The loop of \<open>Pull\<close>: each turn is a stop, or the answer of the library; \<open>None\<close> while it waits.\<close>

datatype pgq_turn = Stopped | Performed "gerr + bool"

fun pgq_Pull :: "(gerr \<Rightarrow> gerr) \<Rightarrow> pgq_turn list \<Rightarrow> gerr option option" where
  "pgq_Pull decorate [] = None"
| "pgq_Pull decorate (Stopped # turns) = Some None"
| "pgq_Pull decorate (Performed (Inl e) # turns) = Some (Some (decorate e))"
| "pgq_Pull decorate (Performed (Inr attempted) # turns) = (if attempted then Some None else pgq_Pull decorate turns)"

text \<open>On Pub/Sub a goroutine extends the deadline of the message until the result of the callback comes.  Its turns: the
  end of the context, the result with the answer to the call that settles the message, or a tick with the time, the answer to
  the extension and the time after it.  Times are in nanoseconds.\<close>

record process_options = po_ExtensionPeriod :: int
  po_ReturnImmediately :: bool
  po_OnErrorRetryDelay :: int

datatype keep_turn = ContextDone gerr | Result "gerr option" "gerr option" | Tick int "gerr option" int

datatype sub_call = Acknowledge | ModifyAckDeadline int

text \<open>\<open>Duration.Seconds\<close>, and the number of seconds of the API, \<open>int32(d.Seconds())\<close>.\<close>

definition Seconds :: "int \<Rightarrow> float64" where
  "Seconds d =
     (let sec = truncated_quot d 1000000000
      in f_add (int_float sec) (f_div (int_float (d - sec * 1000000000)) (Fin 1000000000)))"

definition seconds_of :: "int \<Rightarrow> int" where
  "seconds_of d = wrap32 (float_int (Seconds d))"

fun keep_alive ::
  "process_options \<Rightarrow> int \<Rightarrow> int \<Rightarrow> keep_turn list \<Rightarrow> (gerr option) option \<times> sub_call list" where
  "keep_alive opts deadline wait [] = (None, [])"
| "keep_alive opts deadline wait (ContextDone e # turns) = (Some (Some e), [])"
| "keep_alive opts deadline wait (Result r answer # turns) =
     (case r of
        None \<Rightarrow> (Some answer, [Acknowledge])
      | Some e \<Rightarrow>
          if \<not> Temporary e then (Some answer, [Acknowledge])
          else if po_OnErrorRetryDelay opts \<ge> 0 then (Some answer, [ModifyAckDeadline (seconds_of (po_OnErrorRetryDelay opts))])
          else (Some None, []))"
| "keep_alive opts deadline wait (Tick now answer after # turns) =
     (if now > deadline then (Some (Some (PlainE ''failed to extend past deadline'')), [])
      else let (deadline, wait) = (case answer of
                  Some e \<Rightarrow> (deadline, max (truncated_quot wait 2) 1000000000)
                | None \<Rightarrow> (after + po_ExtensionPeriod opts, truncated_quot (po_ExtensionPeriod opts) 2))
           in case keep_alive opts deadline wait turns of
                (r, calls) \<Rightarrow> (r, ModifyAckDeadline (seconds_of (po_ExtensionPeriod opts)) # calls))"

text \<open>The answers to the calls that pull, one message at most being asked for: an error, or the messages.\<close>

datatype pulled = PullFailed gerr | Nothing | GotMessage queue_message | StillWaiting

fun pull_message :: "process_options \<Rightarrow> (gerr + queue_message list) list \<Rightarrow> pulled" where
  "pull_message opts [] = StillWaiting"
| "pull_message opts (Inl e # answers) = PullFailed (WrapE ''ps.pull: '' e [])"
| "pull_message opts (Inr [] # answers) = (if po_ReturnImmediately opts then Nothing else pull_message opts answers)"
| "pull_message opts (Inr [m] # answers) = GotMessage m"
| "pull_message opts (Inr ms # answers) = PullFailed (PlainE (''pull returned '' @ itoa (int (length ms)) @ ''!=1 messages''))"

text \<open>The callback runs while \<open>ticks\<close> pass, then its result settles the message; \<open>answer\<close> is the answer to the last call
  and \<open>now\<close> the time at which the message was received.  Without a result of \<open>Process\<close> the call has not returned.\<close>

definition Process ::
  "process_options \<Rightarrow> int \<Rightarrow> keep_turn list \<Rightarrow> gerr option \<Rightarrow> (queue_message \<Rightarrow> 's \<Rightarrow> gerr option \<times> 's) \<Rightarrow>
   (gerr + queue_message list) list \<Rightarrow> 's \<Rightarrow> ((gerr option) option \<times> sub_call list) \<times> 's" where
  "Process opts now ticks answer cb answers s =
     (case pull_message opts answers of
        PullFailed e \<Rightarrow> ((Some (Some e), []), s)
      | Nothing \<Rightarrow> ((Some None, []), s)
      | StillWaiting \<Rightarrow> ((None, []), s)
      | GotMessage m \<Rightarrow>
          (case cb m s of (r, s) \<Rightarrow> (keep_alive opts (now + po_ExtensionPeriod opts) 0 (ticks @ [Result r answer]), s)))"

text \<open>Messages pushed over HTTP: \<open>decode\<close> reads the data of the JSON body, in base64.\<close>

definition Consume :: "(string \<Rightarrow> gerr + string) \<Rightarrow> (string \<Rightarrow> gerr + payload) \<Rightarrow> string \<Rightarrow> string \<Rightarrow> (queue_message \<Rightarrow> gerr option) \<Rightarrow> int \<times> gerr option" where
  "Consume json base64 verb body cb =
     (if verb \<noteq> ''POST'' then (405, None)
      else case json body of
        Inl e \<Rightarrow> (400, Some e)
      | Inr data \<Rightarrow> (case base64 data of
          Inl e \<Rightarrow> (400, Some e)
        | Inr p \<Rightarrow> (case cb \<lparr>qm_ID = [], qm_Data = p, qm_TryCount = 0\<rparr> of
            Some e \<Rightarrow> (503, Some e)
          | None \<Rightarrow> (200, None))))"

section \<open>The worker\<close>

text \<open>cmd/consolidater/main.go.  The two sentinels are constants of their own type: no other error equals them, whatever its
  text.\<close>

definition TaskCancelledConsolidationError :: gerr where
  "TaskCancelledConsolidationError = ForeignE ''consolidation event is cancelled'' None"

definition NotImplementedError :: gerr where
  "NotImplementedError = ForeignE ''consolidation without interleave records is not supported'' None"

text \<open>The state of a worker: the events it has published, the number of its calls to the publisher, and the state of the
  consolidation.\<close>

record 's worker = wk_events :: "Event list"
  wk_calls :: nat
  wk_work :: 's

definition notify_task ::
  "(nat \<Rightarrow> gerr option) \<Rightarrow> ConsolidationEvent \<Rightarrow> TaskStatus \<Rightarrow> gerr option \<Rightarrow> 's worker \<Rightarrow> gerr option \<times> 's worker" where
  "notify_task pub evt taskStatus taskError W =
     (let taskEvt = NewTaskEvent (ce_JobID evt) (ce_TaskID evt) taskStatus taskError; W' = W\<lparr>wk_calls := wk_calls W + 1\<rparr>
      in case pub (wk_calls W) of
           Some e \<Rightarrow> (Some (MakeTemporary (WrapE ''PublishTaskEvent: '' e [])), W')
         | None \<Rightarrow> (None, W'\<lparr>wk_events := wk_events W @ [EvTask taskEvt]\<rparr>))"

definition notified :: "gerr option \<times> 's worker \<Rightarrow> gerr option \<times> 's worker" where
  "notified r = (case r of (Some e, W) \<Rightarrow> (Some (WrapE ''failed to notify consolidation event: '' e []), W) | (None, W) \<Rightarrow> (None, W))"

definition task_status :: "gerr option \<Rightarrow> TaskStatus" where
  "task_status taskErr =
     (if taskErr = None then TaskSuccessful
      else if taskErr = Some TaskCancelledConsolidationError then TaskCancelled
      else if taskErr = Some NotImplementedError then TaskIgnored
      else TaskFailed)"

definition handle_order ::
  "int \<Rightarrow> string \<Rightarrow> (nat \<Rightarrow> gerr option) \<Rightarrow> (ConsolidationEvent \<Rightarrow> 's \<Rightarrow> gerr option \<times> 's) \<Rightarrow> queue_message \<Rightarrow> 's worker \<Rightarrow> gerr option \<times> 's worker" where
  "handle_order retryCount size_text pub consolidate msg W =
     (case UnmarshalConsolidationEvent (qm_Data msg) of
        Inl e \<Rightarrow> (Some (WrapE (''got message id '' @ qm_ID msg @ size_text) e []), W)
      | Inr evt \<Rightarrow>
          if qm_TryCount msg > retryCount then notified (notify_task pub evt TaskFailed (Some (PlainE ''too many tries'')) W)
          else (case consolidate evt (wk_work W) of (taskErr, work) \<Rightarrow>
            let W = W\<lparr>wk_work := work\<rparr>
            in if (case taskErr of None \<Rightarrow> False | Some e \<Rightarrow> Temporary e) \<and> qm_TryCount msg < retryCount then (taskErr, W)
               else notified (notify_task pub evt (task_status taskErr) taskErr W)))"

text \<open>The time a worker would lose if it was stopped, in milliseconds: what the autoscaler asks for.\<close>

definition termination_cost :: "int option \<Rightarrow> int \<Rightarrow> int" where
  "termination_cost jobStarted now = (case jobStarted of None \<Rightarrow> 0 | Some t \<Rightarrow> float_int (f_mul (Seconds (now - t)) (Fin 1000)))"

record consolidater_flags = cf_WorkDir :: string
  cf_CancelledJobsStorage :: string
  cf_RetryCount :: int
  cf_Workers :: int
  cf_LocalDownload :: bool
  cf_LocalDownloadMaxMb :: int

definition newConsolidationAppConfig :: "consolidater_flags \<Rightarrow> gerr + consolidater_flags" where
  "newConsolidationAppConfig f =
     (if cf_WorkDir f = [] then Inl (PlainE ''missing --workdir config flag'')
      else if cf_CancelledJobsStorage f = [] then Inl (PlainE ''missing --cancelledJobs storage flag'')
      else Inr f)"

definition default_flags :: consolidater_flags where
  "default_flags =
     \<lparr>cf_WorkDir = [], cf_CancelledJobsStorage = [], cf_RetryCount = 1, cf_Workers = 1, cf_LocalDownload = True, cf_LocalDownloadMaxMb = 0\<rparr>"

definition download_max :: "consolidater_flags \<Rightarrow> int" where
  "download_max f = (if cf_LocalDownload f \<and> cf_LocalDownloadMaxMb f = 0 then 2 ^ 63 - 1 else cf_LocalDownloadMaxMb f)"

end
