(* ===== verification/Worker.thy ===== *)
theory Worker
  imports Casting Messaging
begin

text \<open>
  The work of a consolidation worker: internal/image/handler_consolidation.go, cog.go and mucog.go.  An order is carried out
  record by record: the datasets are downloaded as far as the quota allows, merged into a tiled image and rewritten as a
  COG; the COGs are put together and uploaded to the container.  GDAL, the file system, the object store and the libraries
  cogger and mucog are the parameter \<open>worker_env\<close>.
\<close>

section \<open>Cloud optimized files\<close>

text \<open>What GDAL tells of a band: its size, its blocks, and its TIFF metadata.\<close>

record band_info = bi_SizeX :: int
  bi_SizeY :: int
  bi_BlockX :: int
  bi_BlockY :: int
  bi_IFD :: string
  bi_BlockOffset :: "nat \<Rightarrow> nat \<Rightarrow> string"

record cog_info = cg_Band :: band_info
  cg_Overviews :: "band_info list"
  cg_NBands :: int
  cg_DataType :: GdalType
  cg_WKT :: "gerr + string"
  cg_GeoTransform :: "gerr + float64 list"

definition quotient :: "int \<Rightarrow> int \<Rightarrow> int go" where
  "quotient a b = (if b = 0 then Panic ''runtime error: integer divide by zero'' else Ret (truncated_quot a b))"

text \<open>The offset of the first block that has one.  The lines are counted before the columns.\<close>

definition getBlockOffset :: "band_info \<Rightarrow> int go" where
  "getBlockOffset b =
     go_bind (quotient (bi_SizeY b + bi_BlockY b - 1) (bi_BlockY b)) (\<lambda>ny.
       if ny \<le> 0 then Ret (- 1)
       else go_bind (quotient (bi_SizeX b + bi_BlockX b - 1) (bi_BlockX b)) (\<lambda>nx.
         Ret (case filter (\<lambda>s. s \<noteq> []) (concat (map (\<lambda>y. map (\<lambda>x. bi_BlockOffset b x y) [0..<nat nx]) [0..<nat ny])) of
                [] \<Rightarrow> - 1
              | s # _ \<Rightarrow> (case Atoi s of None \<Rightarrow> - 1 | Some i \<Rightarrow> i))))"

text \<open>The value \<open>strconv.Atoi\<close> returns next to its error: the nearest int when the number is too large, 0 otherwise.\<close>

definition Atoi_value :: "string \<Rightarrow> int" where
  "Atoi_value s =
     (case Atoi s of Some i \<Rightarrow> i
      | None \<Rightarrow> let ds = (if s \<noteq> [] \<and> hd s \<in> {CHR ''+'', CHR ''-''} then tl s else s)
                in if ds \<noteq> [] \<and> list_all is_digit ds then (if hd s = CHR ''-'' then - (2 ^ 63) else 2 ^ 63 - 1) else 0)"

definition ifd_errors :: "(string \<Rightarrow> gerr) \<Rightarrow> band_info \<Rightarrow> gerr list" where
  "ifd_errors atoi_error b = (case Atoi (bi_IFD b) of None \<Rightarrow> [atoi_error (bi_IFD b)] | Some i \<Rightarrow> [])"

definition not_tiled :: "int \<Rightarrow> int \<Rightarrow> band_info \<Rightarrow> bool" where
  "not_tiled sizeX sizeY b \<longleftrightarrow>
     (bi_BlockX b = sizeX \<and> bi_BlockX b > 1024) \<or> (bi_BlockY b = sizeY \<and> bi_BlockY b > 1024)"

text \<open>The checks of the overviews; \<open>prev\<close> is the band before, the main one first.\<close>

fun overview_errors :: "(string \<Rightarrow> gerr) \<Rightarrow> band_info \<Rightarrow> nat \<Rightarrow> band_info \<Rightarrow> band_info list \<Rightarrow> gerr list" where
  "overview_errors atoi_error main i prev [] = []"
| "overview_errors atoi_error main i prev (o1 # os) =
     (let off = Atoi_value (bi_IFD o1); before = Atoi_value (bi_IFD prev); n = itoa (int i); m = itoa (int i - 1)
      in (if bi_SizeX o1 > bi_SizeX prev \<or> bi_SizeY o1 > bi_SizeY prev
          then [PlainE (if i = 0 then ''first overview has larger dimension than main band''
                        else ''overview of index '' @ n @ '' has larger dimension than overview of index '' @ m)] else []) @
         (if not_tiled (bi_SizeX main) (bi_SizeY main) o1 then [PlainE (''overview of index '' @ n @ '' is not tiled'')] else []) @
         ifd_errors atoi_error o1 @
         (if off < before
          then [PlainE (''the offset of the IFD for overview of index '' @ n @ '' is '' @ itoa off @ '', whereas it should be greater than the one of '' @
                  (if i = 0 then ''the main image'' else ''index '' @ m) @ '', which is at byte '' @ itoa before)] else []) @
         overview_errors atoi_error main (Suc i) o1 os)"

definition cog_errors :: "(string \<Rightarrow> gerr) \<Rightarrow> cog_info \<Rightarrow> gerr list go" where
  "cog_errors atoi_error g =
     (let b = cg_Band g; smallest = last (b # cg_Overviews g)
      in go_bind (go_fold (\<lambda>x offs. go_bind (getBlockOffset x) (\<lambda>o1. Ret (offs @ [o1]))) (b # cg_Overviews g) []) (\<lambda>offsets.
        Ret ((if (bi_SizeX b > 512 \<or> bi_SizeY b > 512) \<and> not_tiled (bi_SizeX b) (bi_SizeY b) b
              then [PlainE ''file is greater than 1024xHeight or Widthx1024, but is not tiled''] else []) @
             ifd_errors atoi_error b @
             overview_errors atoi_error b 0 b (cg_Overviews g) @
             (if last offsets \<noteq> 0 \<and> last offsets < Atoi_value (bi_IFD smallest)
              then [PlainE (if cg_Overviews g \<noteq> [] then ''the offset of the first block of the smallest overview should be after its IFD''
                            else ''the offset of the first block of the image should be after its IFD'')] else []))))"

definition cog_Open :: "(string \<Rightarrow> gerr) \<Rightarrow> (string \<Rightarrow> gerr + cog_info) \<Rightarrow> string \<Rightarrow> (gerr + cog_info) go" where
  "cog_Open atoi_error gtiff path =
     (case gtiff path of
        Inl e \<Rightarrow> Ret (Inl e)
      | Inr g \<Rightarrow> go_bind (cog_errors atoi_error g) (\<lambda>es.
          Ret (case MergeErrors True None (map Some es) of Some e \<Rightarrow> Inl e | None \<Rightarrow> Inr g)))"

section \<open>Overviews\<close>

text \<open>The loop may not end: \<open>None\<close>.\<close>

partial_function (option) overviews_loop :: "int \<Rightarrow> int \<Rightarrow> int \<Rightarrow> int \<Rightarrow> int option" where
  "overviews_loop minSize width height nb =
     (if width > minSize \<or> height > minSize
      then overviews_loop minSize (truncated_quot width 2) (truncated_quot height 2) (nb + 1)
      else Some nb)"

definition NO_OVERVIEW :: int where "NO_OVERVIEW = 0"

definition OVERVIEWS_DEFAULT_MIN_SIZE :: int where "OVERVIEWS_DEFAULT_MIN_SIZE = - 1"

definition computeNbOverviews :: "int \<Rightarrow> int \<Rightarrow> int \<Rightarrow> int option" where
  "computeNbOverviews width height minSize =
     (if minSize = NO_OVERVIEW then Some 0 else overviews_loop minSize width height 0)"

section \<open>The environment of a worker\<close>

record 'ds worker_env =
  we_lib :: "'ds gdal_lib"
  we_cancelledJobs :: string
  we_workers :: int
  we_downloadMaxMb :: int
  we_done :: "nat \<Rightarrow> bool"
  we_exist :: "nat \<Rightarrow> uri \<Rightarrow> gerr option \<times> bool"
  we_mkdir :: "string \<Rightarrow> gerr option"
  we_stopped :: "uri \<Rightarrow> gerr option"
  we_size :: "uri \<Rightarrow> gerr + int"
  we_download :: "uri \<Rightarrow> string \<Rightarrow> gerr option"
  we_atoiError :: "string \<Rightarrow> gerr"
  we_gtiff :: "string \<Rightarrow> gerr + cog_info"
  we_overviews :: "'ds \<Rightarrow> GdalResampling \<Rightarrow> int \<Rightarrow> string list \<Rightarrow> gerr option"
  we_open :: "string \<Rightarrow> gerr option"
  we_create :: "string \<Rightarrow> gerr option"
  we_cogger :: "string \<Rightarrow> string \<Rightarrow> gerr option"
  we_stat :: "string \<Rightarrow> gerr + int"
  we_parse :: "string \<Rightarrow> gerr option"
  we_load :: "string \<Rightarrow> gerr + string list"
  we_write :: "string \<Rightarrow> string list \<Rightarrow> bool \<Rightarrow> string \<Rightarrow> gerr option"
  we_close :: "string \<Rightarrow> gerr option"
  we_upload :: "uri \<Rightarrow> string \<Rightarrow> gerr option"
  we_delete :: "uri \<Rightarrow> gerr option"

text \<open>The objects of the store are the local file that was uploaded; \<open>wo_asked\<close> counts the questions about cancellation.\<close>

record work = wo_gdal :: gdal_state
  wo_asked :: nat
  wo_store :: "string \<rightharpoonup> string"
  wo_removed :: "string list"

section \<open>Cancellation\<close>

text \<open>Every question is answered by the context, then by the object store, and is counted.\<close>

definition isCancelled :: "'ds worker_env \<Rightarrow> ConsolidationEvent \<Rightarrow> work \<Rightarrow> bool \<times> work" where
  "isCancelled V event s =
     (let i = wo_asked s; path = URLJoin (we_cancelledJobs V) [ce_JobID event @ ''_'' @ ce_TaskID event]
      in (if we_done V i then True
          else case ParseUri path of
                 Inl e \<Rightarrow> False
               | Inr u \<Rightarrow> (case we_exist V i u of
                     (None, b) \<Rightarrow> b
                   | (Some e, b) \<Rightarrow> e = ErrFileNotFound \<and> b),
          s\<lparr>wo_asked := i + 1\<rparr>))"

section \<open>Local copies\<close>

text \<open>The remote files with the paths of their copies, the number of datasets that read each copy, and the names drawn.\<close>

record copies = cy_files :: "(uri \<times> string) list"
  cy_counter :: "(string \<times> nat) list"
  cy_names :: nat

definition list_copy :: "'ds worker_env \<Rightarrow> string \<Rightarrow> uri \<Rightarrow> copies \<Rightarrow> copies" where
  "list_copy V workDir u c =
     (case map_of (cy_files c) u of
        None \<Rightarrow>
          let local = path_Join [workDir, gl_uuid (we_lib V) (cy_names c)]
          in c\<lparr>cy_files := cy_files c @ [(u, local)], cy_counter := AList.update local 1 (cy_counter c), cy_names := cy_names c + 1\<rparr>
      | Some local \<Rightarrow> c\<lparr>cy_counter := AList.update local (case map_of (cy_counter c) local of Some n \<Rightarrow> n + 1 | None \<Rightarrow> 1) (cy_counter c)\<rparr>)"

definition order_dataset :: "ConsolidationDataset \<Rightarrow> im_Dataset" where
  "order_dataset d =
     \<lparr>im_URI = cd_URI d, im_SubDir = cd_Subdir d, im_Bands = cd_Bands d, im_DataMapping = cd_DatasetFormat d\<rparr>"

fun list_datasets :: "'ds worker_env \<Rightarrow> string \<Rightarrow> ConsolidationDataset list \<Rightarrow> copies \<Rightarrow> gerr + (SliceMeta \<times> copies)" where
  "list_datasets V workDir [] c = Inr ([], c)"
| "list_datasets V workDir (d # ds) c =
     (let continue = (\<lambda>c. case list_datasets V workDir ds c of Inl e \<Rightarrow> Inl e | Inr (l, c) \<Rightarrow> Inr (order_dataset d # l, c))
      in if we_downloadMaxMb V > 0
         then (case ParseUri (cd_URI d) of
                 Inl e \<Rightarrow> Inl (WrapE ''getLocalDatasetsByRecord: '' e [])
               | Inr u \<Rightarrow> continue (if u_protocol u \<noteq> [] then list_copy V workDir u c else c))
         else continue c)"

fun list_records ::
  "'ds worker_env \<Rightarrow> string \<Rightarrow> ConsolidationRecord list \<Rightarrow> (string \<times> SliceMeta) list \<Rightarrow> copies \<Rightarrow> gerr + ((string \<times> SliceMeta) list \<times> copies)" where
  "list_records V workDir [] m c = Inr (m, c)"
| "list_records V workDir (r # rs) m c =
     (case list_datasets V workDir (cr_Datasets r) c of
        Inl e \<Rightarrow> Inl e
      | Inr (l, c) \<Rightarrow> list_records V workDir rs (AList.update (cr_ID r) l m) c)"

text \<open>The files are taken one by one while the quota lasts; the size of a file that is not taken is not given back.  The
  result is the files that were downloaded.\<close>

fun download_files :: "'ds worker_env \<Rightarrow> int \<Rightarrow> (uri \<times> string) list \<Rightarrow> gerr + (uri \<times> string) list" where
  "download_files V remaining [] = Inr []"
| "download_files V remaining ((u, local) # files) =
     (case we_stopped V u of
        Some e \<Rightarrow> Inl e
      | None \<Rightarrow> (case we_size V u of
          Inl e \<Rightarrow> Inl e
        | Inr size1 \<Rightarrow>
            let remaining = wrap64 (remaining - size1)
            in if remaining < 0 then download_files V remaining files
               else (case we_download V u local of
                       Some e \<Rightarrow> Inl (WrapE (uri_String u @ '': '') e [])
                     | None \<Rightarrow> (case download_files V remaining files of
                         Inl e \<Rightarrow> Inl e
                       | Inr l \<Rightarrow> Inr ((u, local) # l)))))"

definition download_quota :: "'ds worker_env \<Rightarrow> int" where
  "download_quota V = wrap64 (we_downloadMaxMb V * 1024 * 1024)"

definition localised :: "(uri \<times> string) list \<Rightarrow> im_Dataset \<Rightarrow> im_Dataset" where
  "localised files d =
     (case map_of (map (\<lambda>(u, l). (uri_String u, l)) (rev files)) (im_URI d) of
        None \<Rightarrow> d
      | Some l \<Rightarrow> d\<lparr>im_URI := l\<rparr>)"

definition getLocalDatasetsByRecord ::
  "'ds worker_env \<Rightarrow> ConsolidationEvent \<Rightarrow> string \<Rightarrow> nat \<Rightarrow> gerr + ((string \<times> SliceMeta) list \<times> copies)" where
  "getLocalDatasetsByRecord V cEvent workDir names =
     (case list_records V workDir (ce_Records cEvent) [] \<lparr>cy_files = [], cy_counter = [], cy_names = names\<rparr> of
        Inl e \<Rightarrow> Inl e
      | Inr (m, c) \<Rightarrow>
          (case download_files V (download_quota V) (cy_files c) of
             Inl e \<Rightarrow> Inl (WrapE ''failed to download one of the sources: '' e [])
           | Inr files \<Rightarrow> Inr (map (\<lambda>(k, l). (k, map (localised files) l)) m, c)))"

section \<open>Files that can be used as they are\<close>

definition isSameGeoTransForm :: "'ds worker_env \<Rightarrow> float64 list \<Rightarrow> float64 list \<Rightarrow> bool" where
  "isSameGeoTransForm V gt1 gt2 \<longleftrightarrow>
     length gt1 = length gt2 \<and>
     list_all (\<lambda>i. f_lt (f_abs (f_sub (gt1 ! i) (gt2 ! i))) (gl_pow (we_lib V) (Fin 10) (Fin (- 8)))) [0..<length gt1]"

text \<open>The path of the file when it is a COG with the structure of the container, and not a part of a file of several.\<close>

definition same_structure :: "'ds worker_env \<Rightarrow> ConsolidationContainer \<Rightarrow> cog_info \<Rightarrow> int \<Rightarrow> bool" where
  "same_structure V container ds overviews \<longleftrightarrow>
     bi_BlockX (cg_Band ds) = cc_BlockXSize container \<and> bi_BlockY (cg_Band ds) = cc_BlockYSize container \<and>
     cg_NBands ds = cc_BandsCount container \<and>
     cg_DataType ds = DType_ToGDAL (df_DType (dm_DataFormat (cc_DatasetFormat container))) \<and>
     int (length (cg_Overviews ds)) = overviews \<and>
     (case cg_WKT ds of Inl e \<Rightarrow> False | Inr wkt \<Rightarrow> ToLower wkt = ToLower (cc_CRS container)) \<and>
     (case cg_GeoTransform ds of Inl e \<Rightarrow> False | Inr gt \<Rightarrow> isSameGeoTransForm V gt (cc_Transform container))"

definition isAlreadyUsableCOG :: "'ds worker_env \<Rightarrow> SliceMeta \<Rightarrow> ConsolidationContainer \<Rightarrow> (string option) go" where
  "isAlreadyUsableCOG V records container =
     (case records of
        [] \<Rightarrow> Panic ''runtime error: index out of range [0] with length 0''
      | r # r2 # rs \<Rightarrow> Ret None
      | [r] \<Rightarrow>
          let path = GDALURI (im_URI r) (im_SubDir r)
          in go_bind (cog_Open (we_atoiError V) (we_gtiff V) path) (\<lambda>res.
            case res of
              Inl e \<Rightarrow> Ret None
            | Inr ds \<Rightarrow>
                (case computeNbOverviews (cc_Width container) (cc_Height container) (cc_OverviewsMinSize container) of
                   None \<Rightarrow> Panic ''blocked: the number of overviews''
                 | Some n \<Rightarrow> Ret (if same_structure V container ds n \<and> im_SubDir r = [] then Some path else None))))"

definition optimizeTransform ::
  "'ds worker_env \<Rightarrow> SliceMeta \<Rightarrow> string \<Rightarrow> Affine \<Rightarrow> int \<Rightarrow> int \<Rightarrow> int \<Rightarrow> int \<Rightarrow> gdal_state \<Rightarrow>
   ((gerr + (Affine \<times> int \<times> int)) \<times> gdal_state) go" where
  "optimizeTransform V datasets crs pixToCRS width height blockSizeX blockSizeY S =
     (case WarpedExtent (we_lib V) datasets crs (a1 pixToCRS) (a5 pixToCRS) S of
        (Inl e, S) \<Rightarrow> Ret (Inl (WrapE ''optimizeTransform: '' e []), S)
      | (Inr (e0, e1, e2, e3), S) \<Rightarrow>
          go_bind (Inverse pixToCRS) (\<lambda>crsToPix.
          go_bind (Transform crsToPix e0 e1) (\<lambda>(x0, y0).
          go_bind (Transform crsToPix e2 e3) (\<lambda>(x1, y1).
            let (x0, x1) = (if f_gt x0 x1 then (x1, x0) else (x0, x1));
                (y0, y1) = (if f_gt y0 y1 then (y1, y0) else (y0, y1));
                bsX = int_float blockSizeX; bsY = int_float blockSizeY;
                ox = f_max (f_mul bsX (f_floor (f_div x0 bsX))) (Fin 0);
                oy = f_max (f_mul bsY (f_floor (f_div y0 bsY))) (Fin 0);
                w = f_ceil (f_sub (f_min x1 (int_float width)) ox);
                h = f_ceil (f_sub (f_min y1 (int_float height)) oy)
            in go_bind (Multiply pixToCRS (Translation ox oy)) (\<lambda>t.
                 Ret (Inr (t, float_int w, float_int h), S))))))"

section \<open>Making a COG\<close>

definition buildOverviews :: "'ds worker_env \<Rightarrow> 'ds \<Rightarrow> Resampling \<Rightarrow> int \<Rightarrow> Metadata \<Rightarrow> gerr option" where
  "buildOverviews V d resampling overviewsMinSize creationParams =
     map_option (\<lambda>e. WrapE ''buildOverviews: '' e [])
       (we_overviews V d (Resampling_ToGDAL resampling) overviewsMinSize
          (filter (\<lambda>opt. \<not> HasPrefix opt ''-'') (creationOptions creationParams True)))"

definition rewriteTiff :: "'ds worker_env \<Rightarrow> string \<Rightarrow> string \<Rightarrow> gerr option" where
  "rewriteTiff V src dest =
     (case we_open V src of
        Some e \<Rightarrow> Some (WrapE ''rewriteTiff: '' (WrapE (''failed to open file ['' @ src @ '']: '') e []) [])
      | None \<Rightarrow> (case we_create V dest of
          Some e \<Rightarrow> Some (WrapE ''rewriteTiff: '' e [])
        | None \<Rightarrow> we_cogger V src dest))"

text \<open>The dataset is closed in every case.\<close>

definition cog_Create :: "'ds worker_env \<Rightarrow> 'ds \<Rightarrow> ConsolidationContainer \<Rightarrow> string \<Rightarrow> string \<Rightarrow> string gd" where
  "cog_Create V tiffDataset oContainer tiffDatasetPath workDir S =
     (let S = opened (- 1) S; dest = path_Join [workDir, ''cog_'' @ path_base tiffDatasetPath]
      in case (if cc_OverviewsMinSize oContainer \<noteq> NO_OVERVIEW
               then buildOverviews V tiffDataset (cc_OvrResamplingAlg oContainer) (cc_OverviewsMinSize oContainer) (cc_CreationParams oContainer)
               else None) of
           Some e \<Rightarrow> (Inl (WrapE ''Create.'' e []), S)
         | None \<Rightarrow> (case gl_Close (we_lib V) tiffDataset of
             Some e \<Rightarrow> (Inl (WrapE ''Create.Close: '' e []), S)
           | None \<Rightarrow> (case rewriteTiff V tiffDatasetPath dest of
               Some e \<Rightarrow> (Inl (WrapE ''Create.'' e []), S)
             | None \<Rightarrow> (Inr dest, add_file dest S))))"

section \<open>Putting the COGs together\<close>

definition base_name :: "string \<Rightarrow> string" where
  "base_name p = (let b = path_base p; ext = filepath_Ext b in take (length b - length ext) b)"

text \<open>The names of the images of a file, from the file when it has a single one without a name.\<close>

definition addCog :: "'ds worker_env \<Rightarrow> int \<Rightarrow> string \<Rightarrow> gerr + (int \<times> string list)" where
  "addCog V totalSize path =
     (case we_stat V path of
        Inl e \<Rightarrow> Inl (WrapE (''stat '' @ path @ '': '') e [])
      | Inr size1 \<Rightarrow> (case we_parse V path of
          Some e \<Rightarrow> Inl (WrapE ''failed to parse tiff file: '' e [])
        | None \<Rightarrow> (case we_load V path of
            Inl e \<Rightarrow> Inl (WrapE ''failed to load tiff file: '' e [])
          | Inr names \<Rightarrow> Inr (wrap64 (totalSize + size1), if names = [[]] then [base_name path] else names))))"

fun add_cogs :: "'ds worker_env \<Rightarrow> int \<Rightarrow> string list \<Rightarrow> string list \<Rightarrow> gerr + (int \<times> string list)" where
  "add_cogs V totalSize images [] = Inr (totalSize, images)"
| "add_cogs V totalSize images (f # fs) =
     (case we_open V f of
        Some e \<Rightarrow> Inl (WrapE ''failed to open cog file: '' e [])
      | None \<Rightarrow> (case addCog V totalSize f of
          Inl e \<Rightarrow> Inl (WrapE ''failed to append multicog: '' e [])
        | Inr (totalSize, names) \<Rightarrow> add_cogs V totalSize (images @ names) fs))"

definition writeMucog :: "'ds worker_env \<Rightarrow> string list \<Rightarrow> string \<Rightarrow> int \<Rightarrow> string \<Rightarrow> gerr + string" where
  "writeMucog V images workDir totalSize interlacingPattern =
     (let path = path_Join [workDir, ''mucog.tif'']; bigtiff = totalSize > 4294967295
      in case we_create V path of
           Some e \<Rightarrow> Inl (WrapE (''create '' @ path @ '': '') e [])
         | None \<Rightarrow> (case we_write V path images bigtiff interlacingPattern of
             Some e \<Rightarrow> Inl (WrapE ''failed to write mucog: '' e [])
           | None \<Rightarrow> (case we_close V path of
               Some e \<Rightarrow> Inl (WrapE ''failed to close mucog: '' e [])
             | None \<Rightarrow> Inr path)))"

definition mucog_Create :: "'ds worker_env \<Rightarrow> string \<Rightarrow> string list \<Rightarrow> string \<Rightarrow> gerr + string" where
  "mucog_Create V workDir cogListFile interlacingPattern =
     (case add_cogs V 0 [] cogListFile of
        Inl e \<Rightarrow> Inl e
      | Inr (totalSize, images) \<Rightarrow> writeMucog V images workDir totalSize interlacingPattern)"

definition uploadFile :: "'ds worker_env \<Rightarrow> string \<Rightarrow> string \<Rightarrow> work \<Rightarrow> gerr option \<times> work" where
  "uploadFile V source destination s =
     (case ParseUri destination of
        Inl e \<Rightarrow> (Some (WrapE ''failed to parse uri: '' e []), s)
      | Inr u \<Rightarrow> (case we_open V source of
          Some e \<Rightarrow> (Some (WrapE ''failed to open file: '' e []), s)
        | None \<Rightarrow> (case we_upload V u source of
            Some e \<Rightarrow> (Some (WrapE ''failed to upload file: '' e []), s)
          | None \<Rightarrow> (None, s\<lparr>wo_store := (wo_store s)(uri_String u \<mapsto> source)\<rparr>))))"

section \<open>Carrying out an order\<close>

text \<open>What the records leave: the COGs to delete, the images to unlink, the readers of each copy.\<close>

record pool = po_toDelete :: "string list"
  po_tiffs :: "string list"
  po_counter :: "(string \<times> nat) list"

definition release_copy :: "im_Dataset \<Rightarrow> (string \<times> nat) list \<times> work \<Rightarrow> (string \<times> nat) list \<times> work" where
  "release_copy d cs =
     (let (c, s) = cs
      in case map_of c (im_URI d) of
           None \<Rightarrow> (c, s)
         | Some n \<Rightarrow>
             (AList.update (im_URI d) (n - 1) c,
              if n = 1 then s\<lparr>wo_removed := im_URI d # wo_removed s\<rparr> else s))"

definition container_transform :: "ConsolidationContainer \<Rightarrow> Affine" where
  "container_transform c =
     (let t = cc_Transform c in NewAffine (t ! 0) (t ! 1) (t ! 2) (t ! 3) (t ! 4) (t ! 5))"

definition merge_descriptor :: "ConsolidationContainer \<Rightarrow> Affine \<Rightarrow> int \<Rightarrow> int \<Rightarrow> string \<Rightarrow> out_descriptor" where
  "merge_descriptor c pixToCRS width height tiffPath =
     \<lparr>de_WktCRS = cc_CRS c, de_PixToCRS = pixToCRS, de_Width = width, de_Height = height, de_Bands = cc_BandsCount c,
      de_Resampling = cc_ResamplingAlg c, de_DataMapping = cc_DatasetFormat c, de_ValidPixPc = - 1, de_Format = [],
      de_Palette = None, de_FileOut = tiffPath, de_BlockXSize = cc_BlockXSize c, de_BlockYSize = cc_BlockYSize c,
      de_CreationParams = cc_CreationParams c\<rparr>"

definition tiff_path :: "ConsolidationContainer \<Rightarrow> int \<Rightarrow> int \<Rightarrow> string \<Rightarrow> string \<Rightarrow> string" where
  "tiff_path c width height workDir recordID =
     (let name = ''tiff_'' @ recordID @ ''.tif''
      in if wrap64 (width * height * cc_BandsCount c) < 200 * 1024 * 1024 then path_Join [''/vsimem'', name]
         else path_Join [workDir, name])"

text \<open>Merging the datasets of a record and rewriting the image.\<close>

definition record_extent ::
  "'ds worker_env \<Rightarrow> ConsolidationContainer \<Rightarrow> SliceMeta \<Rightarrow> gdal_state \<Rightarrow> ((gerr + (Affine \<times> int \<times> int)) \<times> gdal_state) go" where
  "record_extent V c datasets S =
     (if cc_OptimizeExtent c
      then go_bind (optimizeTransform V datasets (cc_CRS c) (container_transform c) (cc_Width c) (cc_Height c)
                      (cc_BlockXSize c) (cc_BlockYSize c) S) (\<lambda>(r, S). Ret (prefixed ''Consolidate.'' r, S))
      else Ret (Inr (container_transform c, cc_Width c, cc_Height c), S))"

definition make_cog ::
  "'ds worker_env \<Rightarrow> ConsolidationContainer \<Rightarrow> string \<Rightarrow> string \<Rightarrow> SliceMeta \<Rightarrow> pool \<times> work \<Rightarrow> ((gerr + string) \<times> pool \<times> work) go" where
  "make_cog V c workDir recordID datasets ps =
     (let (p, s) = ps
      in go_bind (record_extent V c datasets (wo_gdal s)) (\<lambda>(r, S). case r of
           Inl e \<Rightarrow> Ret (Inl e, p, s\<lparr>wo_gdal := S\<rparr>)
         | Inr (t, width, height) \<Rightarrow>
             let tiff = tiff_path c width height workDir recordID
             in go_bind (MergeDatasets (we_lib V) datasets (merge_descriptor c t width height tiff) S) (\<lambda>(r, S). case r of
                  Inl e \<Rightarrow> Ret (Inl (WrapE ''Consolidate.'' e []), p, s\<lparr>wo_gdal := S\<rparr>)
                | Inr ds \<Rightarrow>
                    let p = p\<lparr>po_tiffs := tiff # po_tiffs p\<rparr>
                    in Ret (case cog_Create V ds c tiff workDir S of
                         (Inl e, S) \<Rightarrow> (Inl (WrapE ''Consolidate.'' e []), p, s\<lparr>wo_gdal := S\<rparr>)
                       | (Inr cog, S) \<Rightarrow>
                           (let (counter, s) = fold release_copy datasets (po_counter p, s\<lparr>wo_gdal := S\<rparr>)
                            in (Inr cog, p\<lparr>po_toDelete := po_toDelete p @ [cog], po_counter := counter\<rparr>, s))))))"

text \<open>A worker takes the records in order and stops at an error; without a worker no record is taken.\<close>

definition lookup_datasets :: "(string \<times> SliceMeta) list \<Rightarrow> string \<Rightarrow> SliceMeta" where
  "lookup_datasets m k = (case map_of m k of Some l \<Rightarrow> l | None \<Rightarrow> [])"

fun process_records ::
  "'ds worker_env \<Rightarrow> ConsolidationEvent \<Rightarrow> string \<Rightarrow> (string \<times> SliceMeta) list \<Rightarrow> ConsolidationRecord list \<Rightarrow> pool \<times> work \<Rightarrow>
   ((gerr + string list) \<times> pool \<times> work) go" where
  "process_records V cEvent workDir m [] ps = Ret (Inr [], ps)"
| "process_records V cEvent workDir m (r # rs) ps =
     (case isCancelled V cEvent (snd ps) of
        (True, s) \<Rightarrow> Ret (Inl (PlainE ''consolidation event is cancelled''), fst ps, s)
      | (False, s) \<Rightarrow>
          let datasets = lookup_datasets m (cr_ID r)
          in go_bind (isAlreadyUsableCOG V datasets (ce_Container cEvent)) (\<lambda>usable.
             go_bind (case usable of
                 Some cog \<Rightarrow> Ret (Inr cog, fst ps, s)
               | None \<Rightarrow> make_cog V (ce_Container cEvent) workDir (cr_ID r) datasets (fst ps, s)) (\<lambda>(res, ps). case res of
                   Inl e \<Rightarrow> Ret (Inl e, ps)
                 | Inr cog \<Rightarrow> go_bind (process_records V cEvent workDir m rs ps) (\<lambda>(res, ps).
                     Ret (case res of Inl e \<Rightarrow> Inl e | Inr cogs \<Rightarrow> Inr (cog # cogs), ps)))))"

definition run_pool ::
  "'ds worker_env \<Rightarrow> ConsolidationEvent \<Rightarrow> string \<Rightarrow> (string \<times> SliceMeta) list \<Rightarrow> pool \<times> work \<Rightarrow> ((gerr + string list) \<times> pool \<times> work) go" where
  "run_pool V cEvent workDir m ps =
     (if we_workers V \<le> 0 then Ret (Inr (map (\<lambda>r. []) (ce_Records cEvent)), ps)
      else go_bind (process_records V cEvent workDir m (ce_Records cEvent) ps) (\<lambda>(r, p, s).
        Ret (r, p, s\<lparr>wo_gdal := fold remove_file (po_tiffs p) (wo_gdal s)\<rparr>)))"

text \<open>The COGs are delivered to the container of the order.\<close>

definition deliver :: "'ds worker_env \<Rightarrow> ConsolidationEvent \<Rightarrow> string \<Rightarrow> string list \<Rightarrow> work \<Rightarrow> gerr option \<times> work" where
  "deliver V cEvent workDir cogs s =
     (let dest = cc_URI (ce_Container cEvent);
          upload = (\<lambda>f. case uploadFile V f dest s of
                      (Some e, s) \<Rightarrow> (Some (WrapE (''failed to upload file on: '' @ dest @ '' : '') e []), s) | (None, s) \<Rightarrow> (None, s))
      in case cogs of
           [cog] \<Rightarrow> upload cog
         | _ \<Rightarrow> (case mucog_Create V workDir cogs (cc_InterlacingPattern (ce_Container cEvent)) of
                  Inl e \<Rightarrow> (Some (WrapE ''failed to create mucog: '' e []), s)
                | Inr f \<Rightarrow> upload f))"

definition stop_if_cancelled :: "'ds worker_env \<Rightarrow> ConsolidationEvent \<Rightarrow> work \<Rightarrow> gerr option \<times> work" where
  "stop_if_cancelled V cEvent s =
     (case isCancelled V cEvent s of (b, s) \<Rightarrow> (if b then Some TaskCancelledConsolidationError else None, s))"

definition and_then :: "gerr option \<times> work \<Rightarrow> (work \<Rightarrow> gerr option \<times> work) \<Rightarrow> gerr option \<times> work" where
  "and_then r f = (case r of (Some e, s) \<Rightarrow> (Some e, s) | (None, s) \<Rightarrow> f s)"

text \<open>The deferred calls: the COGs are unlinked, and the container is deleted when the order has been cancelled.\<close>

definition unwind :: "'ds worker_env \<Rightarrow> ConsolidationEvent \<Rightarrow> pool \<Rightarrow> work \<Rightarrow> work" where
  "unwind V cEvent p s =
     (let s = s\<lparr>wo_gdal := fold remove_file (po_toDelete p) (wo_gdal s)\<rparr>
      in case isCancelled V cEvent s of
           (False, s) \<Rightarrow> s
         | (True, s) \<Rightarrow> (case ParseUri (cc_URI (ce_Container cEvent)) of
             Inl e \<Rightarrow> s
           | Inr u \<Rightarrow> (case we_delete V u of Some e \<Rightarrow> s | None \<Rightarrow> s\<lparr>wo_store := (wo_store s)(uri_String u := None)\<rparr>)))"

definition clean_workspace :: "string \<Rightarrow> work \<Rightarrow> work" where
  "clean_workspace workDir s =
     s\<lparr>wo_gdal := (wo_gdal s)\<lparr>gs_files := filter (\<lambda>f. \<not> HasPrefix f (workDir @ ''/'')) (gs_files (wo_gdal s))\<rparr>\<rparr>"

definition with_default_overviews :: "ConsolidationEvent \<Rightarrow> ConsolidationEvent" where
  "with_default_overviews evt =
     (if cc_OverviewsMinSize (ce_Container evt) = OVERVIEWS_DEFAULT_MIN_SIZE
      then evt\<lparr>ce_Container := (ce_Container evt)\<lparr>cc_OverviewsMinSize := 256\<rparr>\<rparr> else evt)"

definition generate ::
  "'ds worker_env \<Rightarrow> ConsolidationEvent \<Rightarrow> string \<Rightarrow> (string \<times> SliceMeta) list \<Rightarrow> (string \<times> nat) list \<Rightarrow> work \<Rightarrow> (gerr option \<times> work) go" where
  "generate V cEvent workDir m counter s =
     (let cEvent = with_default_overviews cEvent
      in go_bind (run_pool V cEvent workDir m (\<lparr>po_toDelete = [], po_tiffs = [], po_counter = counter\<rparr>, s)) (\<lambda>(r, p, s).
        Ret (case (case r of
               Inl e \<Rightarrow> (Some e, s)
             | Inr cogs \<Rightarrow>
                 and_then (stop_if_cancelled V cEvent s) (\<lambda>s.
                 and_then (deliver V cEvent workDir cogs s) (\<lambda>s.
                   stop_if_cancelled V cEvent s))) of
           (eo, s) \<Rightarrow> (eo, unwind V cEvent p s))))"

definition Consolidate :: "'ds worker_env \<Rightarrow> ConsolidationEvent \<Rightarrow> string \<Rightarrow> work \<Rightarrow> (gerr option \<times> work) go" where
  "Consolidate V cEvent workspace s =
     (let workDir = path_Join [workspace, ce_TaskID cEvent]
      in case we_mkdir V workDir of
           Some e \<Rightarrow> Ret (Some e, s)
         | None \<Rightarrow>
             go_bind
               (case getLocalDatasetsByRecord V cEvent workDir (gs_names (wo_gdal s)) of
                  Inl e \<Rightarrow> Ret (Some (WrapE ''failed to get local records datasets: '' e []), s)
                | Inr (m, c) \<Rightarrow>
                    (case stop_if_cancelled V cEvent (s\<lparr>wo_gdal := (wo_gdal s)\<lparr>gs_names := cy_names c\<rparr>\<rparr>) of
                       (Some e, s) \<Rightarrow> Ret (Some e, s)
                     | (None, s) \<Rightarrow> generate V cEvent workDir m (cy_counter c) s))
               (\<lambda>(eo, s). Ret (eo, clean_workspace workDir s)))"

end
