(* ===== verification/WorkerProps.thy ===== *)
theory WorkerProps
  imports Worker MessagingProps
begin

text \<open>
  The work of a worker: the number of overviews, the quota of the local copies, and what an order leaves in the
  object store.
\<close>

section \<open>Overviews\<close>

lemma half: "0 \<le> i \<Longrightarrow> truncated_quot i 2 = i div 2"
  by (cases "i = 0") (simp_all add: truncated_quot_def)

lemma overviews_loop_ends:
  assumes "0 < m" "0 \<le> w" "0 \<le> h"
  shows "\<exists>n. overviews_loop m w h nb = Some (nb + int n) \<and> w div 2 ^ n \<le> m \<and> h div 2 ^ n \<le> m \<and>
    (\<forall>k<n. m < w div 2 ^ k \<or> m < h div 2 ^ k)"
  using assms(2,3)
proof (induction "nat (max w h)" arbitrary: w h nb rule: less_induct)
  case less
  show ?case
  proof (cases "w > m \<or> h > m")
    case False
    then show ?thesis by (intro exI [of _ 0]) (simp add: overviews_loop.simps)
  next
    case True
    have "nat (max (w div 2) (h div 2)) < nat (max w h)" using True assms(1) less.prems by (auto simp: max_def)
    from less.hyps [OF this, of "nb + 1"] less.prems obtain n where
      n: "overviews_loop m (w div 2) (h div 2) (nb + 1) = Some (nb + 1 + int n)"
        "w div 2 div 2 ^ n \<le> m" "h div 2 div 2 ^ n \<le> m" "\<forall>k<n. m < w div 2 div 2 ^ k \<or> m < h div 2 div 2 ^ k" by auto
    have "m < w div 2 ^ k \<or> m < h div 2 ^ k" if "k < Suc n" for k
    proof (cases k)
      case 0
      then show ?thesis using True by auto
    next
      case (Suc j)
      then show ?thesis using n(4) that by (simp add: zdiv_zmult2_eq)
    qed
    then show ?thesis using n(1-3) True less.prems
      by (intro exI [of _ "Suc n"]) (simp add: overviews_loop.simps [of m w h] half zdiv_zmult2_eq)
  qed
qed

text \<open>The number of overviews is computed in a finite number of steps, and it is the least number of halvings after which
  both sides of the image are within the wanted size.\<close>

theorem overviews_are_minimal:
  assumes "0 < minSize" "0 \<le> width" "0 \<le> height"
  shows "\<exists>n. computeNbOverviews width height minSize = Some (int n) \<and>
    width div 2 ^ n \<le> minSize \<and> height div 2 ^ n \<le> minSize \<and>
    (\<forall>k<n. minSize < width div 2 ^ k \<or> minSize < height div 2 ^ k)"
  using overviews_loop_ends [OF assms, of 0] assms(1) by (simp add: computeNbOverviews_def NO_OVERVIEW_def)

theorem overviews_are_minimal_witness: "computeNbOverviews 1000 600 256 = Some 2"
proof -
  obtain n where n: "computeNbOverviews 1000 600 256 = Some (int n)" "1000 div 2 ^ n \<le> (256 :: int)"
    "\<forall>k<n. (256 :: int) < 1000 div 2 ^ k \<or> 256 < (600 :: int) div 2 ^ k"
    using overviews_are_minimal [of 256 1000 600] by auto
  have "\<not> n < 2"
  proof
    assume "n < 2"
    then have "n = 0 \<or> n = 1" by auto
    then show False using n(2) by auto
  qed
  moreover have "\<not> 2 < n" using n(3) by force
  ultimately have "n = 2" by simp
  with n(1) show ?thesis by simp
qed

text \<open>A negative size other than the default one is not refused when a layout is created; the loop then never ends.\<close>

lemma overviews_loop_negative:
  assumes "overviews_loop m w h nb = Some y"
  shows "0 \<le> w \<longrightarrow> 0 \<le> h \<longrightarrow> 0 \<le> m"
proof (rule overviews_loop.raw_induct [OF _ assms, of "\<lambda>m w h nb y. 0 \<le> w \<longrightarrow> 0 \<le> h \<longrightarrow> 0 \<le> m"], intro impI)
  fix f minSize width height nb y
  assume IH: "\<And>minSize width height nb y. f minSize width height nb = Some y \<Longrightarrow> 0 \<le> width \<longrightarrow> 0 \<le> height \<longrightarrow> 0 \<le> minSize"
    and e: "(if minSize < width \<or> minSize < height then f minSize (truncated_quot width 2) (truncated_quot height 2) (nb + 1) else Some nb) = Some y"
    and p: "0 \<le> width" "0 \<le> height"
  show "0 \<le> (minSize :: int)"
  proof (cases "minSize < width \<or> minSize < height")
    case True
    with e have "f minSize (truncated_quot width 2) (truncated_quot height 2) (nb + 1) = Some y" by simp
    from IH [OF this] p show ?thesis by (simp add: half)
  qed (use p in simp)
qed

theorem negative_min_size_never_ends:
  assumes "minSize < 0" "0 \<le> width" "0 \<le> height"
  shows "computeNbOverviews width height minSize = None"
proof (rule ccontr)
  assume "computeNbOverviews width height minSize \<noteq> None"
  then obtain y where "overviews_loop minSize width height 0 = Some y"
    using assms(1) by (auto simp: computeNbOverviews_def NO_OVERVIEW_def)
  from overviews_loop_negative [OF this] assms show False by simp
qed

section \<open>Quota\<close>

definition file_size :: "'ds worker_env \<Rightarrow> uri \<times> string \<Rightarrow> int" where
  "file_size V f = (case we_size V (fst f) of Inr n \<Rightarrow> n | Inl e \<Rightarrow> 0)"

lemma wrap64_small: "- (2 ^ 63) \<le> i \<Longrightarrow> i < 2 ^ 63 \<Longrightarrow> wrap64 i = i"
  by (simp add: wrap64_def)

lemma downloaded_within:
  assumes "download_files V R files = Inr got" and "\<forall>f \<in> set files. 0 \<le> file_size V f"
    and "R < 2 ^ 63" and "- (2 ^ 63) \<le> R - sum_list (map (file_size V) files)"
  shows "subseq got files \<and> sum_list (map (file_size V) got) \<le> max R 0 \<and> (R < 0 \<longrightarrow> got = [])"
  using assms
proof (induction V R files arbitrary: got rule: download_files.induct)
  case (2 V R u l files)
  then obtain n where n: "we_stopped V u = None" "we_size V u = Inr n" by (auto split: option.splits sum.splits)
  then have f: "file_size V (u, l) = n" by (simp add: file_size_def)
  have rest: "0 \<le> sum_list (map (file_size V) files)" using 2(4) by (intro sum_list_nonneg) auto
  have R: "wrap64 (R - n) = R - n" using 2(4,5,6) f rest by (intro wrap64_small) auto
  show ?case
  proof (cases "R - n < 0")
    case True
    then have "download_files V (R - n) files = Inr got" using 2(3) n R by simp
    then have "subseq got files \<and> sum_list (map (file_size V) got) \<le> max (R - n) 0 \<and> (R - n < 0 \<longrightarrow> got = [])"
      using 2(1) [OF n refl] True R 2(4-6) f by auto
    with True show ?thesis by auto
  next
    case False
    then obtain got' where g: "download_files V (R - n) files = Inr got'" "got = (u, l) # got'" "we_download V u l = None"
      using 2(3) n R by (auto split: option.splits sum.splits)
    have "subseq got' files \<and> sum_list (map (file_size V) got') \<le> max (R - n) 0 \<and> (R - n < 0 \<longrightarrow> got' = [])"
      using 2(2) [OF n refl] False R g 2(4-6) f by auto
    then show ?thesis using g(2) f False 2(4) by auto
  qed
qed simp

text \<open>The local copies fit the quota of the worker.  When the quota and the sizes of the files are in the range of the
  counter, the copies that are made take at most the quota, and the datasets of the order are redirected to these copies
  and to no other.\<close>

theorem local_copies_fit_the_quota:
  assumes "getLocalDatasetsByRecord V cEvent workDir names = Inr (m, c)"
    and "0 \<le> we_downloadMaxMb V" and "we_downloadMaxMb V * 1024 * 1024 < 2 ^ 63"
    and "\<forall>f \<in> set (cy_files c). 0 \<le> file_size V f" and "sum_list (map (file_size V) (cy_files c)) < 2 ^ 63"
  shows "\<exists>got m0. subseq got (cy_files c) \<and> sum_list (map (file_size V) got) \<le> we_downloadMaxMb V * 1024 * 1024 \<and>
    list_records V workDir (ce_Records cEvent) [] \<lparr>cy_files = [], cy_counter = [], cy_names = names\<rparr> = Inr (m0, c) \<and>
    m = map (\<lambda>(k, l). (k, map (localised got) l)) m0"
proof -
  have q: "download_quota V = we_downloadMaxMb V * 1024 * 1024"
    unfolding download_quota_def using assms(2,3) by (intro wrap64_small) auto
  from assms(1) obtain m0 got where r: "list_records V workDir (ce_Records cEvent) [] \<lparr>cy_files = [], cy_counter = [], cy_names = names\<rparr> = Inr (m0, c)"
    "download_files V (download_quota V) (cy_files c) = Inr got" "m = map (\<lambda>(k, l). (k, map (localised got) l)) m0"
    by (auto simp: getLocalDatasetsByRecord_def split: sum.splits prod.splits)
  have "subseq got (cy_files c) \<and> sum_list (map (file_size V) got) \<le> max (download_quota V) 0"
    using downloaded_within [OF r(2) assms(4)] assms(2,3,5) q by auto
  with r(1,3) q assms(2) show ?thesis by (intro exI [of _ got] exI [of _ m0]) auto
qed

text \<open>By default the download is on and its maximum is not given: the maximum becomes the greatest int, its number of bytes
  wraps to a negative quota, and nothing is downloaded.\<close>

theorem default_flags_download_nothing:
  assumes "we_downloadMaxMb V = download_max default_flags" and "download_files V (download_quota V) files = Inr got"
    and "\<forall>f \<in> set files. 0 \<le> file_size V f" and "sum_list (map (file_size V) files) < 2 ^ 62"
  shows "got = []"
proof -
  have "download_quota V = - (2 ^ 20)"
    by (simp add: download_quota_def assms(1) download_max_def default_flags_def wrap64_def)
  with downloaded_within [OF assms(2,3)] assms(4) show ?thesis by simp
qed

end
