(* ===== verification/Spec2Isabelle.thy ===== *)
theory Spec2Isabelle
  imports MaintenanceProps OrdersProps AutoscalerProps StorageProps GridsProps RecordsProps BitmapProps PredownloadProps RpcCubeProps LockProps
    CastingProps MessagingProps WorkerProps
begin

text \<open>
  A verification library for geocube, the server of data cubes of src/ (Go). It models the server, its database
  backend, its gRPC layer, the workers that rewrite images, the queues between them, the object store and the
  autoscaler, and proves what makes them correct.

  \<^bold>\<open>The program.\<close> A client indexes datasets (files of images) into records (where and when),
  variables and instances (what), stored in containers (files). It asks for cubes: images of a place over time, made
  on the fly from the datasets that meet it. Long operations are jobs: a consolidation rewrites the datasets of an
  area into containers laid out for reading, a deletion removes datasets and their files. A job is a state machine
  driven by events; each state has a handler that does its work on the database and publishes the next event. The
  tasks of a consolidation are sent to workers through a queue, and their results come back as task events. A gRPC
  service translates requests, and an autoscaler sets the number of workers from the length of the queue.

  \<^bold>\<open>Theories and code.\<close>
  \<^item> Prelude, Utils, GoFloat, Rounding, FloatText: what the model uses of Go: functions that may panic
    (\<open>go\<close>), strings, IEEE floats as the rationals they denote with their rounding, numbers read from
    text, paths; SliceSort and SortLemmas the insertion sort of the standard library and the order of SQL.
  \<^item> PersistenceState, GeocubeTypes, Enumer, GeocubeErrors, Events: internal/geocube: the life cycle of a
    persisted entity, the structs as records and the enumerations as datatypes, their generated parsers and printers
    (the locale \<open>enumer_table\<close>, interpreted for each table), the errors and their merge, and the events.
  \<^item> JobMachine, JobTasks: internal/geocube/job.go and task.go. \<open>Trigger\<close> is the state machine, the
    tasks with their counters, the locks and the window of logs.
  \<^item> DataFormats, Params, Variables, Containers, Records, Orders, Geometry, Grids: the entities of
    internal/geocube with their validation and updates, palettes, layouts, the orders of a consolidation, affine
    transforms (internal/utils/affine), and the grids (internal/utils/grid, customgrid.go).
  \<^item> Store: interface/database/pg: the tables of create.sql as lists of rows with keys and references, and the
    statements as functions on them; StoreProps holds the locale \<open>keyed_table\<close>, interpreted for each
    table.
  \<^item> World: a method of the service (\<open>act\<close>) on the committed tables, the open transaction, the job
    at hand, the messages published and the files touched. Persister, Operations, Consolidater, ConsolidaterStates,
    Handlers, JobApi, ServiceApi, Catalog: internal/svc, file by file.
  \<^item> Storage: interface/storage (URIs, options, Google Cloud Storage with its retries, local files). Bitmap:
    internal/utils/bitmap, with the contract of a reader of chunks as the locale \<open>chunk_reader\<close> (in
    BitmapProps), interpreted for the array, for the reader of lines and, in RpcCubeProps, for the readers the gRPC
    layer compresses.
  \<^item> Rpc, RpcService, RpcCube: internal/grpc/service.go and internal/utils/compress.go. The service behind them
    is the Go interface, a record of calls over a state.
  \<^item> Autoscaler: interface/autoscaler (the decision, the replication controller, their composition).
  \<^item> Messaging: interface/messaging (the publishers and consumers of both queues) and what a worker does with a
    message (cmd/consolidater/main.go). Casting: internal/image/image.go, the options given to GDAL and the temporary
    datasets of a merge, on the state \<open>gdal_state\<close> (files in memory, datasets open). Worker:
    internal/image/handler_consolidation.go, cog.go and mucog.go, the consolidation of an order on the state
    \<open>work\<close>.

  \<^bold>\<open>What is proved.\<close> The theorems are in the theories whose name ends in Props and in
  HandlersProps, Quiet, SaveProps, LockProps.
  \<^item> The state machine of a job refines its specification; jobs never panic, stay in their life cycle, can
    always finish, cannot be undone once effective, and a consolidation fails only through the rollback
    (JobMachineProps). The counters of the tasks are exact whatever happens to them (JobTasksProps).
  \<^item> Saving a job writes what its flags ask for, keeps locks and datasets in agreement, is read back, and is
    refused when another process has saved it in between (PersisterProps, SaveProps, LockProps).
  \<^item> The handlers publish only events the state accepts and their chains are bounded (HandlersProps, over the
    lemmas of Quiet on the methods that publish nothing); swap and removal are exact (DatasetsProps, RemovalProps);
    the choice and the batches of datasets are exact and bounded (OrdersProps); a limit of what can be indexed, at
    most one record per container, which the documentation does not announce (IndexProps).
  \<^item> Maintenance keeps references and the parameters in use, and simulations change nothing (MaintenanceProps).
  \<^item> The images of a cube are made of the datasets of their groups, each dataset once when no record is asked
    for twice, downloaded copies are released, images are streamed and rebuilt exactly (CatalogProps,
    PredownloadProps, BitmapProps, RpcCubeProps); errors are bounded and the handlers that check their identifiers
    stop a malformed one at the door (RpcProps).
  \<^item> The worker answers every order once (MessagingProps), a merge leaves no temporary dataset or file
    (CastingProps), the overviews are minimal and the local copies fit their quota (WorkerProps); the same theories
    show where the queues lose or repeat a message and where the default flags download nothing.
  \<^item> Options are checked when they are built and downloads resume exactly (StorageProps), the autoscaler stays
    within bounds (AutoscalerProps), the cells that cover an area are exact (GridsProps).

  \<^bold>\<open>Conventions.\<close> Panics, and calls that block for ever, are \<open>Panic\<close>. An error is a
  value of \<open>gerr\<close>, and texts are those of \<open>fmt.Sprintf\<close> except where they print a whole
  struct. Go ints are \<open>int\<close>, with \<open>wrap64\<close> or words where they may overflow; times are in
  nanoseconds, in the database in microseconds. The two zeros of a float are one. A conversion of a float to an
  integer out of range gives what amd64 gives. A map is an association list or a list of keys whose order stands for
  the order of iteration: the theorems hold for every such list. \<open>sort.Slice\<close> is the insertion sort it
  runs on short slices, where the order of equal elements matters, and any sort elsewhere. A pool of workers runs its
  tasks in order. A nested unit of work joins the one that is open. In \<open>return x, f()\<close> the variable is
  read after the call. A stream is the list of what it yields. Two groups of a cube that share a record do not share
  its tags. A slice of a buffer that is used again is a copy of it, which its readers consume before the next call. The enumerations of a request carry named values. GDAL, PROJ, PostGIS, the clock, the parser of UUIDs,
  Kubernetes, the cloud and gRPC are arguments of the definitions that use them.

  \<^bold>\<open>Bounds and fuel.\<close> \<open>event_depth\<close> is 7: the longest chain of events a synchronous
  job handles in its own call, proved in HandlersProps. The exclusion loop of the containers takes
  \<open>exclude_fuel\<close> rounds, which suffice when a container holds at least one record (OrdersProps); with
  none, no fuel suffices on a list that begins with a dataset to consolidate. The loop of the indexation takes one round per task. The reader that compresses takes at
  most two rounds per part and two more (RpcCubeProps). The retries of the store are bounded by
  \<open>MaxTries\<close>, those of the queues by the retries that are left. The loop of the overviews is a partial
  function: it is proved to end for a positive size, and never to end for a negative one (WorkerProps).

  \<^bold>\<open>Not modelled.\<close> The text of the SQL statements and the geometry, tag and time filters PostGIS
  evaluates (they are predicates of the queries); of the areas of interest only the keys are a table, and grids,
  palettes and tags are none; densification and geodesics of internal/utils/proj (floating trigonometry); the pixels
  GDAL makes, the cogger and mucog libraries; the administration and download services of internal/grpc, which pass
  their arguments on; the wiring and logging of cmd; metrics; mocks and generated protobuf code. Concurrency is
  modelled where the code defends against it: between two handlers of a job (the optimistic lock of saveJob), not
  between goroutines of one call.
\<close>

end
